(* ===== verification/Prelude.thy ===== *)
theory Prelude
  imports Complex_Main
begin

text \<open>
  The prelude of the development: the model's common types, the Python library operations the
  components share (\<^verbatim>\<open>str.split\<close>, \<^verbatim>\<open>str.join\<close>, \<^verbatim>\<open>str.strip\<close>, \<^verbatim>\<open>dict.fromkeys\<close>, dictionary
  comprehensions), the result combinator for code that may raise, and the generic lemmas the
  component theories use through the collections \<^verbatim>\<open>py_simps\<close> and \<^verbatim>\<open>result_simps\<close>.

  Text is a \<open>string\<close>; one \<open>char\<close> stands for one code point, so \<open>length\<close> is Python's \<^verbatim>\<open>len\<close> on
  texts over the code points 0 to 255.  A UUID is an opaque identifier that can be compared
  and ordered; a \<^verbatim>\<open>float\<close> or a \<^verbatim>\<open>Decimal\<close> is the rational number its decimal representation denotes.
\<close>

named_theorems py_simps \<open>equations of the Python library operations\<close>
named_theorems result_simps \<open>equations and inversions of the result combinator\<close>

type_synonym uuid = nat
type_synonym slug = string
type_synonym seconds = rat

subsection \<open>Results of code that may raise\<close>

text \<open>A call that may raise returns \<open>Inl\<close> with the error or \<open>Inr\<close> with the value.\<close>

type_synonym ('e, 'a) result = "'e + 'a"

definition bindR :: "('e, 'a) result \<Rightarrow> ('a \<Rightarrow> ('e, 'b) result) \<Rightarrow> ('e, 'b) result" where
  "bindR r f = (case r of Inl e \<Rightarrow> Inl e | Inr a \<Rightarrow> f a)"

definition guardR :: "bool \<Rightarrow> 'e \<Rightarrow> ('e, 'a) result \<Rightarrow> ('e, 'a) result" where
  "guardR b e r = (if b then r else Inl e)"

fun mapR :: "('a \<Rightarrow> ('e, 'b) result) \<Rightarrow> 'a list \<Rightarrow> ('e, 'b list) result" where
  "mapR f [] = Inr []"
| "mapR f (x # xs) = bindR (f x) (\<lambda>y. bindR (mapR f xs) (\<lambda>ys. Inr (y # ys)))"

definition isOk :: "('e, 'a) result \<Rightarrow> bool" where
  "isOk r = (case r of Inl _ \<Rightarrow> False | Inr _ \<Rightarrow> True)"

lemma bindR_simps [simp, result_simps]:
  "bindR (Inl e) f = Inl e"
  "bindR (Inr a) f = f a"
  by (simp_all add: bindR_def)

lemma bindR_Inr_iff [result_simps]:
  "bindR r f = Inr y \<longleftrightarrow> (\<exists>x. r = Inr x \<and> f x = Inr y)"
  by (cases r) auto

lemma bindR_Inl_iff [result_simps]:
  "bindR r f = Inl e \<longleftrightarrow> r = Inl e \<or> (\<exists>x. r = Inr x \<and> f x = Inl e)"
  by (cases r) auto

lemma guardR_Inr_iff [result_simps]: "guardR b e r = Inr y \<longleftrightarrow> b \<and> r = Inr y"
  by (simp add: guardR_def)

lemma guardR_simps [simp]:
  "guardR True e r = r"
  "guardR False e r = Inl e"
  by (simp_all add: guardR_def)

lemma isOk_simps [simp]: "\<not> isOk (Inl e)" "isOk (Inr a)"
  by (simp_all add: isOk_def)

lemma mapR_Inr_length: "mapR f xs = Inr ys \<Longrightarrow> length ys = length xs"
  by (induction xs arbitrary: ys) (auto simp: result_simps)

lemma mapR_Inr_nth: "mapR f xs = Inr ys \<Longrightarrow> i < length xs \<Longrightarrow> f (xs ! i) = Inr (ys ! i)"
  by (induction xs arbitrary: ys i) (auto simp: result_simps nth_Cons split: nat.splits)

lemma mapR_Inr_iff: "mapR f xs = Inr ys \<longleftrightarrow> map f xs = map Inr ys"
proof (induction xs arbitrary: ys)
  case Nil
  then show ?case by auto
next
  case (Cons x xs)
  show ?case by (cases ys) (auto simp: result_simps Cons.IH)
qed

lemma mapR_Inr_memb: "mapR f xs = Inr ys \<Longrightarrow> y \<in> set ys \<Longrightarrow> \<exists>x \<in> set xs. f x = Inr y"
proof -
  assume a: "mapR f xs = Inr ys" "y \<in> set ys"
  then have "Inr y \<in> set (map f xs)" by (simp add: mapR_Inr_iff)
  then show ?thesis by auto
qed

subsection \<open>Text\<close>

text \<open>\<^verbatim>\<open>str.isspace\<close> on the code points below 256.\<close>

definition is_space :: "char \<Rightarrow> bool" where
  "is_space c = (let n = (of_char c :: nat) in
     (9 \<le> n \<and> n \<le> 13) \<or> (28 \<le> n \<and> n \<le> 32) \<or> n = 133 \<or> n = 160)"

definition newline :: char where
  "newline = CHR 0x0A"

definition tab :: char where
  "tab = CHR 0x09"

definition rstrip :: "string \<Rightarrow> string" where
  "rstrip s = rev (dropWhile is_space (rev s))"

definition lstrip :: "string \<Rightarrow> string" where
  "lstrip s = dropWhile is_space s"

definition strip :: "string \<Rightarrow> string" where
  "strip s = rstrip (lstrip s)"

text \<open>\<^verbatim>\<open>str.split()\<close> without an argument: the maximal runs of characters that are not blank.\<close>

fun split_ws_acc :: "string \<Rightarrow> string \<Rightarrow> string list" where
  "split_ws_acc w [] = (if w = [] then [] else [w])"
| "split_ws_acc w (c # cs) =
     (if is_space c then (if w = [] then split_ws_acc [] cs else w # split_ws_acc [] cs)
      else split_ws_acc (w @ [c]) cs)"

definition split_ws :: "string \<Rightarrow> string list" where
  "split_ws s = split_ws_acc [] s"

text \<open>\<^verbatim>\<open>sep.join(parts)\<close>.\<close>

fun join :: "string \<Rightarrow> string list \<Rightarrow> string" where
  "join sep [] = []"
| "join sep [x] = x"
| "join sep (x # y # xs) = x @ sep @ join sep (y # xs)"

text \<open>\<^verbatim>\<open>" ".join(value.split())\<close>, the normal form the code gives user and model text.\<close>

definition normalize_ws :: "string \<Rightarrow> string" where
  "normalize_ws s = join '' '' (split_ws s)"

text \<open>\<^verbatim>\<open>str.split(c)\<close> for a separator of one character.\<close>

fun split_on_acc :: "char \<Rightarrow> string \<Rightarrow> string \<Rightarrow> string list" where
  "split_on_acc c w [] = [w]"
| "split_on_acc c w (x # xs) =
     (if x = c then w # split_on_acc c [] xs else split_on_acc c (w @ [x]) xs)"

definition split_on :: "char \<Rightarrow> string \<Rightarrow> string list" where
  "split_on c s = split_on_acc c [] s"

text \<open>\<^verbatim>\<open>str(n)\<close> for an integer.\<close>

definition digit_char :: "nat \<Rightarrow> char" where
  "digit_char n = char_of (48 + n)"

function str_nat :: "nat \<Rightarrow> string" where
  "str_nat n = (if n < 10 then [digit_char n] else str_nat (n div 10) @ [digit_char (n mod 10)])"
  by pat_completeness auto
termination
  by (relation "measure id") auto

declare str_nat.simps [simp del]

definition str_int :: "int \<Rightarrow> string" where
  "str_int i = (if i < 0 then CHR ''-'' # str_nat (nat (- i)) else str_nat (nat i))"

lemma rstrip_Nil [simp, py_simps]: "rstrip [] = []"
  by (simp add: rstrip_def)

lemma strip_Nil [simp, py_simps]: "strip [] = []"
  by (simp add: strip_def lstrip_def)

lemma length_rstrip_le: "length (rstrip s) \<le> length s"
  using length_dropWhile_le [of is_space "rev s"] by (simp add: rstrip_def)

lemma length_strip_le: "length (strip s) \<le> length s"
  using length_rstrip_le [of "lstrip s"] length_dropWhile_le [of is_space s]
  by (simp add: strip_def lstrip_def)

lemma rstrip_prefix: "\<exists>t. s = rstrip s @ t \<and> (\<forall>c \<in> set t. is_space c)"
proof -
  have "rstrip s @ rev (takeWhile is_space (rev s))
      = rev (takeWhile is_space (rev s) @ dropWhile is_space (rev s))"
    by (simp only: rstrip_def rev_append)
  also have "\<dots> = s" by simp
  finally have "s = rstrip s @ rev (takeWhile is_space (rev s))" by (rule sym)
  moreover have "\<forall>c \<in> set (rev (takeWhile is_space (rev s))). is_space c"
    using set_takeWhileD by fastforce
  ultimately show ?thesis by blast
qed

lemma rstrip_last: "rstrip s \<noteq> [] \<Longrightarrow> \<not> is_space (last (rstrip s))"
  by (metis hd_dropWhile hd_rev rev_is_Nil_conv rev_rev_ident rstrip_def)

lemma rstrip_fixed: "s = [] \<or> \<not> is_space (last s) \<Longrightarrow> rstrip s = s"
proof (cases s rule: rev_cases)
  case (snoc ys y)
  assume "s = [] \<or> \<not> is_space (last s)"
  with snoc show ?thesis by (simp add: rstrip_def)
qed simp

lemma strip_hd: "strip s \<noteq> [] \<Longrightarrow> \<not> is_space (hd (strip s))"
proof -
  assume ne: "strip s \<noteq> []"
  obtain t where t: "lstrip s = strip s @ t"
    using rstrip_prefix [of "lstrip s"] by (auto simp: strip_def)
  with ne have "lstrip s \<noteq> []" and "hd (lstrip s) = hd (strip s)" by auto
  then show "\<not> is_space (hd (strip s))"
    by (metis hd_dropWhile lstrip_def)
qed

lemma strip_last: "strip s \<noteq> [] \<Longrightarrow> \<not> is_space (last (strip s))"
  by (simp add: strip_def rstrip_last)

lemma strip_idem [simp]: "strip (strip s) = strip s"
proof (cases "strip s = []")
  case False
  from strip_hd [OF False] False have "lstrip (strip s) = strip s"
    by (cases "strip s") (simp_all add: lstrip_def)
  then have "strip (strip s) = rstrip (strip s)"
    by (simp add: strip_def [of "strip s"])
  also have "\<dots> = strip s" using strip_last [OF False] by (simp add: rstrip_fixed)
  finally show ?thesis .
qed simp

lemma strip_infix: "\<exists>u v. s = u @ strip s @ v \<and> (\<forall>c \<in> set u \<union> set v. is_space c)"
proof -
  obtain v where v: "lstrip s = strip s @ v" and vs: "\<forall>c \<in> set v. is_space c"
    using rstrip_prefix [of "lstrip s"] by (auto simp: strip_def)
  have "s = takeWhile is_space s @ lstrip s" by (simp add: lstrip_def)
  with v have "s = takeWhile is_space s @ strip s @ v" by simp
  moreover have "\<forall>c \<in> set (takeWhile is_space s). is_space c"
    using set_takeWhileD by fastforce
  ultimately show ?thesis using vs by blast
qed

lemma strip_eq_Nil_iff: "strip s = [] \<longleftrightarrow> (\<forall>c \<in> set s. is_space c)"
proof
  assume "strip s = []"
  with strip_infix [of s] show "\<forall>c \<in> set s. is_space c" by force
next
  assume "\<forall>c \<in> set s. is_space c"
  then have "lstrip s = []" by (simp add: lstrip_def)
  then show "strip s = []" by (simp add: strip_def)
qed

text \<open>The words of a text are not empty and hold no blank.\<close>

lemma split_ws_acc_words:
  assumes "\<forall>c \<in> set w. \<not> is_space c" and "x \<in> set (split_ws_acc w s)"
  shows "x \<noteq> [] \<and> (\<forall>c \<in> set x. \<not> is_space c)"
  using assms
proof (induction s arbitrary: w)
  case Nil
  then show ?case by (simp split: if_splits)
next
  case (Cons c cs)
  note IH = Cons.IH [of "[]"] Cons.IH [of "w @ [c]"]
  show ?case
  proof (cases "is_space c")
    case True
    with Cons.prems(2) have "(x = w \<and> w \<noteq> []) \<or> x \<in> set (split_ws_acc [] cs)"
      by (simp split: if_splits)
    then show ?thesis
    proof
      assume "x = w \<and> w \<noteq> []"
      with Cons.prems(1) show ?thesis by simp
    qed (simp add: IH(1))
  next
    case False
    have "\<forall>d \<in> set (w @ [c]). \<not> is_space d" using Cons.prems(1) False by simp
    moreover have "x \<in> set (split_ws_acc (w @ [c]) cs)" using Cons.prems(2) False by simp
    ultimately show ?thesis by (rule IH(2))
  qed
qed

lemma split_ws_words:
  assumes "x \<in> set (split_ws s)" shows "x \<noteq> []" and "\<forall>c \<in> set x. \<not> is_space c"
  using split_ws_acc_words [of "[]" x s] assms by (auto simp: split_ws_def)

lemma split_ws_acc_run:
  "\<forall>c \<in> set x. \<not> is_space c \<Longrightarrow> split_ws_acc w (x @ s) = split_ws_acc (w @ x) s"
  by (induction x arbitrary: w) auto

lemma is_space_blank [simp]: "is_space CHR '' ''"
  by (simp add: is_space_def)

lemma split_ws_join:
  assumes "\<forall>x \<in> set xs. x \<noteq> [] \<and> (\<forall>c \<in> set x. \<not> is_space c)"
  shows "split_ws (join '' '' xs) = xs"
  using assms
proof (induction xs)
  case Nil
  then show ?case by (simp add: split_ws_def)
next
  case (Cons x xs)
  have run: "split_ws_acc [] (x @ s) = split_ws_acc x s" for s
    using split_ws_acc_run [of x "[]" s] Cons.prems by simp
  show ?case
  proof (cases xs)
    case Nil
    with run [of "[]"] Cons.prems show ?thesis by (simp add: split_ws_def)
  next
    case (Cons y ys)
    with Cons.IH Cons.prems have "split_ws_acc [] (join '' '' xs) = xs" by (simp add: split_ws_def)
    with Cons Cons.prems show ?thesis by (simp add: split_ws_def run)
  qed
qed

lemma normalize_ws_idem [simp]: "normalize_ws (normalize_ws s) = normalize_ws s"
proof -
  have "split_ws (normalize_ws s) = split_ws s"
    unfolding normalize_ws_def using split_ws_words by (intro split_ws_join) blast
  then show ?thesis by (simp add: normalize_ws_def)
qed

lemma length_join_Cons: "length (join '' '' (x # xs)) = length x + (if xs = [] then 0 else Suc (length (join '' '' xs)))"
  by (cases xs) simp_all

lemma length_join_split_ws_acc:
  "w \<noteq> [] \<or> s \<noteq> [] \<Longrightarrow> length (join '' '' (split_ws_acc w s)) \<le> length w + length s"
proof (induction s arbitrary: w)
  case (Cons c cs)
  have "length (join '' '' (split_ws_acc [] cs)) \<le> length cs"
    using Cons.IH [of "[]"] by (cases "cs = []") auto
  moreover have "length (join '' '' (split_ws_acc (w @ [c]) cs)) \<le> length w + 1 + length cs"
    using Cons.IH [of "w @ [c]"] by simp
  ultimately show ?case by (auto simp: length_join_Cons)
qed simp

lemma length_normalize_ws_le: "length (normalize_ws s) \<le> length s"
  using length_join_split_ws_acc [of "[]" s]
  by (cases "s = []") (auto simp: normalize_ws_def split_ws_def)

lemma str_nat_nonempty [simp]: "str_nat n \<noteq> []"
  by (subst str_nat.simps) simp

lemma of_char_digit [simp]: "n < 10 \<Longrightarrow> (of_char (digit_char n) :: nat) = 48 + n"
  by (simp add: digit_char_def)

lemma digit_char_inj [simp]: "m < 10 \<Longrightarrow> n < 10 \<Longrightarrow> digit_char m = digit_char n \<longleftrightarrow> m = n"
  using of_char_digit [of m] of_char_digit [of n] by (metis add_left_cancel)

lemma str_nat_inj: "str_nat m = str_nat n \<Longrightarrow> m = n"
proof (induction m arbitrary: n rule: str_nat.induct)
  case (1 m)
  have short: "length (str_nat k) = 1 \<longleftrightarrow> k < 10" for k
    by (subst str_nat.simps) (auto simp: neq_Nil_conv)
  show ?case
  proof (cases "m < 10")
    case True
    with 1(2) short [of m] short [of n] have "n < 10" by simp
    with 1(2) True show ?thesis by (simp add: str_nat.simps)
  next
    case False
    with 1(2) short [of m] short [of n] have n: "\<not> n < 10" by simp
    from 1(2) False n have "str_nat (m div 10) = str_nat (n div 10)"
      and "digit_char (m mod 10) = digit_char (n mod 10)"
      by (simp_all add: str_nat.simps [of m] str_nat.simps [of n])
    with 1(1) [OF False] have "m div 10 = n div 10" and "m mod 10 = n mod 10" by auto
    then show ?thesis by (metis div_mult_mod_eq)
  qed
qed

subsection \<open>Ordered dictionaries and unique keys\<close>

text \<open>
  A Python dictionary keeps its keys in insertion order; assigning an existing key keeps its
  position.  \<open>fromkeys\<close> is \<^verbatim>\<open>tuple(dict.fromkeys(xs))\<close>: the first occurrence of every key.
\<close>

fun dict_set :: "('k \<times> 'v) list \<Rightarrow> 'k \<Rightarrow> 'v \<Rightarrow> ('k \<times> 'v) list" where
  "dict_set [] k v = [(k, v)]"
| "dict_set ((k', v') # d) k v = (if k' = k then (k, v) # d else (k', v') # dict_set d k v)"

definition dict_of :: "('k \<times> 'v) list \<Rightarrow> ('k \<times> 'v) list" where
  "dict_of kvs = fold (\<lambda>(k, v) d. dict_set d k v) kvs []"

fun fromkeys :: "'k list \<Rightarrow> 'k list" where
  "fromkeys [] = []"
| "fromkeys (x # xs) = x # filter (\<lambda>y. y \<noteq> x) (fromkeys xs)"

lemma set_fromkeys [simp]: "set (fromkeys xs) = set xs"
  by (induction xs) auto

lemma distinct_fromkeys [simp]: "distinct (fromkeys xs)"
  by (induction xs) auto

lemma fromkeys_Nil_iff [simp]: "fromkeys xs = [] \<longleftrightarrow> xs = []"
  by (cases xs) auto

lemma keys_dict_set [simp]:
  "set (map fst (dict_set d k v)) = insert k (set (map fst d))"
  by (induction d k v rule: dict_set.induct) auto

lemma distinct_dict_set:
  "distinct (map fst d) \<Longrightarrow> distinct (map fst (dict_set d k v))"
proof (induction d k v rule: dict_set.induct)
  case (2 k' v' d k v)
  then show ?case using keys_dict_set [of d k v] by auto
qed simp

lemma map_of_dict_set [simp]: "map_of (dict_set d k v) = (map_of d)(k \<mapsto> v)"
  by (induction d k v rule: dict_set.induct) auto

lemma dict_fold_distinct:
  "distinct (map fst d) \<Longrightarrow> distinct (map fst (fold (\<lambda>(k, v) d. dict_set d k v) kvs d))"
  by (induction kvs arbitrary: d) (auto simp: distinct_dict_set)

lemma distinct_dict_of [simp]: "distinct (map fst (dict_of kvs))"
  by (simp add: dict_of_def dict_fold_distinct)

lemma dict_set_fresh: "k \<notin> set (map fst d) \<Longrightarrow> dict_set d k v = d @ [(k, v)]"
  by (induction d k v rule: dict_set.induct) auto

lemma dict_fold_fresh:
  "distinct (map fst (d @ kvs)) \<Longrightarrow> fold (\<lambda>(k, v) d. dict_set d k v) kvs d = d @ kvs"
proof (induction kvs arbitrary: d)
  case (Cons a kvs)
  obtain k v where a: "a = (k, v)" by (cases a)
  with Cons.prems have "dict_set d k v = d @ [(k, v)]" by (intro dict_set_fresh) auto
  with Cons a show ?case by simp
qed simp

lemma dict_of_distinct: "distinct (map fst kvs) \<Longrightarrow> dict_of kvs = kvs"
  using dict_fold_fresh [of "[]" kvs] by (simp add: dict_of_def)

lemma map_of_dict_fold:
  "map_of (fold (\<lambda>(k, v) d. dict_set d k v) kvs d) k = Some v \<Longrightarrow> (k, v) \<in> set kvs \<or> map_of d k = Some v"
  by (induction kvs arbitrary: d) (fastforce split: if_splits)+

lemma map_of_dict_of: "map_of (dict_of kvs) k = Some v \<Longrightarrow> (k, v) \<in> set kvs"
  using map_of_dict_fold [of kvs "[]" k v] by (simp add: dict_of_def)

lemma length_dict_set_le: "length (dict_set d k v) \<le> Suc (length d)"
  by (induction d k v rule: dict_set.induct) auto

lemma length_dict_set_eq: "length (dict_set d k v) = Suc (length d) \<Longrightarrow> k \<notin> set (map fst d)"
  by (induction d k v rule: dict_set.induct) (auto split: if_splits)

lemma length_dict_fold_le:
  "length (fold (\<lambda>(k, v) d. dict_set d k v) kvs d) \<le> length d + length kvs"
proof (induction kvs arbitrary: d)
  case (Cons a kvs)
  obtain k v where a: "a = (k, v)" by (cases a)
  have "length (fold (\<lambda>(k, v) d. dict_set d k v) kvs (dict_set d k v))
      \<le> length (dict_set d k v) + length kvs" by (rule Cons.IH)
  with length_dict_set_le [of d k v] a show ?case by simp
qed simp

lemma dict_fold_full:
  assumes "length (fold (\<lambda>(k, v) d. dict_set d k v) kvs d) = length d + length kvs"
    and "distinct (map fst d)"
  shows "distinct (map fst (d @ kvs))"
  using assms
proof (induction kvs arbitrary: d)
  case (Cons a kvs)
  obtain k v where a: "a = (k, v)" by (cases a)
  have le: "length (fold (\<lambda>(k, v) d. dict_set d k v) kvs (dict_set d k v))
      \<le> length (dict_set d k v) + length kvs" by (rule length_dict_fold_le)
  with Cons.prems(1) a length_dict_set_le [of d k v]
  have len: "length (dict_set d k v) = Suc (length d)" by simp
  then have fresh: "k \<notin> set (map fst d)" by (rule length_dict_set_eq)
  with Cons.prems a have "distinct (map fst ((d @ [(k, v)]) @ kvs))"
    by (intro Cons.IH) (simp_all add: dict_set_fresh)
  with a show ?case by simp
qed simp

text \<open>
  The code's test for duplicate keys, \<^verbatim>\<open>len(d) != len(items)\<close> after a dictionary comprehension,
  decides exactly whether the keys are pairwise different.
\<close>

lemma length_dict_of_iff: "length (dict_of kvs) = length kvs \<longleftrightarrow> distinct (map fst kvs)"
  using dict_fold_full [of kvs "[]"] dict_of_distinct [of kvs] by (auto simp: dict_of_def)

subsection \<open>Lists\<close>

lemma find_Some_memb: "List.find P xs = Some x \<Longrightarrow> x \<in> set xs \<and> P x"
  by (induction xs) (auto split: if_splits)

lemma find_None_iff_all: "List.find P xs = None \<longleftrightarrow> (\<forall>x \<in> set xs. \<not> P x)"
  by (induction xs) auto

lemma filter_Nil_iff: "filter P xs = [] \<longleftrightarrow> (\<forall>x \<in> set xs. \<not> P x)"
  by (induction xs) auto

subsection \<open>Strings\<close>

text \<open>Python's \<^verbatim>\<open>t in s\<close> on strings, and \<^verbatim>\<open>s.strip(cs)\<close>.\<close>

definition contains :: "string \<Rightarrow> string \<Rightarrow> bool" where
  "contains t s = list_ex (\<lambda>i. take (length t) (drop i s) = t) [0..<Suc (length s)]"

definition strip_chars :: "string \<Rightarrow> string \<Rightarrow> string" where
  "strip_chars cs s = rev (dropWhile (\<lambda>c. c \<in> set cs) (rev (dropWhile (\<lambda>c. c \<in> set cs) s)))"

end
