(* ===== verification/Policy.thy ===== *)
theory Policy
  imports Prelude
begin

text \<open>
  The authorization policy: the data of \<^verbatim>\<open>app/policies/models.py\<close> and the engine of
  \<^verbatim>\<open>app/policies/engine.py\<close>.  The locale \<open>grant_policy\<close> states what every consumer of a scope
  relies on: a scope decides as the disjunction of what its single grants permit.  The engine
  provides it here, the retrieval clause and the tool gateway provide it in their theories.
\<close>

subsection \<open>Data of the policy\<close>

datatype Capability = QUERY_DOCUMENTS | MANAGE_UPLOADS | ADMINISTER_PLATFORM

datatype GrantSource =
    PRIMARY_DEPARTMENT | SRC_TENANT_SHARED | EXPLICIT_CROSS_DEPARTMENT | ADMIN_ASSIGNMENT

record TrustedIdentity =
  identity_user_id :: uuid
  identity_email :: string
  identity_display_name :: string

record DepartmentAccess =
  dept_key :: string
  dept_source :: GrantSource

record AuthorizationGrant =
  membership_id :: uuid
  home_tenant_id :: uuid
  home_tenant_slug :: string
  home_tenant_name :: string
  workspace_id :: uuid
  workspace_slug :: string
  workspace_name :: string
  grant_role :: string
  primary_department :: string
  company_ids :: "uuid list"
  company_slugs :: "string list"
  departments :: "DepartmentAccess list"
  capabilities :: "Capability list"

record AuthorizationScope =
  scope_identity :: TrustedIdentity
  grants :: "AuthorizationGrant list"

record AuthorizationContext =
  ctx_identity :: TrustedIdentity
  ctx_scope :: AuthorizationScope

datatype PolicyReason =
    ALLOW_TENANT_DEPARTMENT | ALLOW_TENANT_SHARED | ALLOW_EXPLICIT_CROSS_DEPARTMENT
  | ALLOW_ADMIN_UPLOAD | ALLOW_PLATFORM_ADMIN
  | DENY_WORKSPACE | DENY_COMPANY | DENY_DEPARTMENT | DENY_CAPABILITY | DENY_ROLE | DENY_DEFAULT

record PolicyRequest =
  req_capability :: Capability
  req_workspace_id :: uuid
  req_company_id :: "uuid option"
  req_department :: "string option"

record PolicyDecision =
  allowed :: bool
  reason_code :: PolicyReason
  decision_capability :: Capability

subsection \<open>The engine\<close>

definition decision_of :: "PolicyRequest \<Rightarrow> bool \<Rightarrow> PolicyReason \<Rightarrow> PolicyDecision" where
  "decision_of request al reason =
     \<lparr>allowed = al, reason_code = reason, decision_capability = req_capability request\<rparr>"

text \<open>The reason of an allowed department access.\<close>

definition source_reason :: "GrantSource \<Rightarrow> PolicyReason" where
  "source_reason s =
     (if s = SRC_TENANT_SHARED then ALLOW_TENANT_SHARED
      else if s = EXPLICIT_CROSS_DEPARTMENT then ALLOW_EXPLICIT_CROSS_DEPARTMENT
      else ALLOW_TENANT_DEPARTMENT)"

text \<open>The final loop of \<^verbatim>\<open>authorize\<close> over the grants of the company.\<close>

fun department_loop ::
  "PolicyRequest \<Rightarrow> string \<Rightarrow> AuthorizationGrant list \<Rightarrow> PolicyDecision" where
  "department_loop request dep [] = decision_of request False DENY_DEPARTMENT"
| "department_loop request dep (g # gs) =
     (case List.find (\<lambda>item. dept_key item = dep) (departments g) of
        None \<Rightarrow> department_loop request dep gs
      | Some acc \<Rightarrow> decision_of request True (source_reason (dept_source acc)))"

definition authorize :: "AuthorizationScope \<Rightarrow> PolicyRequest \<Rightarrow> PolicyDecision" where
  "authorize scope request =
    (let workspace_grants =
           filter (\<lambda>g. workspace_id g = req_workspace_id request) (grants scope) in
     if workspace_grants = [] then decision_of request False DENY_WORKSPACE
     else let capable_grants =
           filter (\<lambda>g. req_capability request \<in> set (capabilities g)) workspace_grants in
     if capable_grants = [] then decision_of request False DENY_CAPABILITY
     else if req_capability request = ADMINISTER_PLATFORM then
       (if \<exists>g \<in> set capable_grants. grant_role g = ''admin''
        then decision_of request True ALLOW_PLATFORM_ADMIN
        else decision_of request False DENY_ROLE)
     else case req_company_id request of
       None \<Rightarrow> decision_of request False DENY_DEFAULT
     | Some company \<Rightarrow>
       (let company_grants = filter (\<lambda>g. company \<in> set (company_ids g)) capable_grants in
        if company_grants = [] then decision_of request False DENY_COMPANY
        else if req_capability request = MANAGE_UPLOADS then
          (if \<exists>g \<in> set company_grants. grant_role g = ''admin''
           then decision_of request True ALLOW_ADMIN_UPLOAD
           else decision_of request False DENY_ROLE)
        else case req_department request of
          None \<Rightarrow> decision_of request False DENY_DEFAULT
        | Some dep \<Rightarrow>
          (if req_capability request \<noteq> QUERY_DOCUMENTS
           then decision_of request False DENY_DEFAULT
           else department_loop request dep company_grants)))"

subsection \<open>What one grant permits\<close>

text \<open>
  The abstract policy: the requests a single grant permits.  It names no other grant and no
  order of checks.
\<close>

definition grant_permits :: "AuthorizationGrant \<Rightarrow> PolicyRequest \<Rightarrow> bool" where
  "grant_permits g request =
    (workspace_id g = req_workspace_id request \<and>
     req_capability request \<in> set (capabilities g) \<and>
     (case req_capability request of
        ADMINISTER_PLATFORM \<Rightarrow> grant_role g = ''admin''
      | MANAGE_UPLOADS \<Rightarrow> (\<exists>c. req_company_id request = Some c \<and> c \<in> set (company_ids g)) \<and>
          grant_role g = ''admin''
      | QUERY_DOCUMENTS \<Rightarrow> (\<exists>c. req_company_id request = Some c \<and> c \<in> set (company_ids g)) \<and>
          (\<exists>dep. req_department request = Some dep \<and> dep \<in> dept_key ` set (departments g))))"

definition is_allow :: "PolicyReason \<Rightarrow> bool" where
  "is_allow r = (r \<in> {ALLOW_TENANT_DEPARTMENT, ALLOW_TENANT_SHARED,
     ALLOW_EXPLICIT_CROSS_DEPARTMENT, ALLOW_ADMIN_UPLOAD, ALLOW_PLATFORM_ADMIN})"

subsection \<open>The interface: a scope decides as the disjunction of its grants\<close>

locale grant_policy =
  fixes permits :: "'g \<Rightarrow> 'r \<Rightarrow> bool"
    and decides :: "'g list \<Rightarrow> 'r \<Rightarrow> bool"
  assumes decides_iff: "decides gs r \<longleftrightarrow> (\<exists>g \<in> set gs. permits g r)"
begin

lemma no_grant_denies: "\<not> decides [] r"
  by (simp add: decides_iff)

lemma more_grants_keep: "decides gs r \<Longrightarrow> set gs \<subseteq> set gs' \<Longrightarrow> decides gs' r"
  by (auto simp: decides_iff)

lemma order_irrelevant: "set gs = set gs' \<Longrightarrow> decides gs r = decides gs' r"
  by (simp add: decides_iff)

lemma decides_append: "decides (gs @ gs') r \<longleftrightarrow> decides gs r \<or> decides gs' r"
  by (auto simp: decides_iff)

lemma irrelevant_grant: "\<not> permits g r \<Longrightarrow> decides (gs @ g # gs') r = decides (gs @ gs') r"
  by (auto simp: decides_iff)

lemma revoked: "\<forall>g \<in> set gs. \<not> permits g r \<Longrightarrow> \<not> decides gs r"
  by (auto simp: decides_iff)

end

subsection \<open>The engine implements the abstract policy\<close>

lemma decision_of_simps [simp]:
  "allowed (decision_of request al reason) = al"
  "reason_code (decision_of request al reason) = reason"
  "decision_capability (decision_of request al reason) = req_capability request"
  by (simp_all add: decision_of_def)

lemma department_loop_allowed:
  "allowed (department_loop request dep gs) \<longleftrightarrow>
     (\<exists>g \<in> set gs. dep \<in> dept_key ` set (departments g))"
proof (induction gs)
  case (Cons g gs)
  show ?case
  proof (cases "List.find (\<lambda>item. dept_key item = dep) (departments g)")
    case None
    then have "dep \<notin> dept_key ` set (departments g)" by (auto simp: find_None_iff_all)
    with None Cons.IH show ?thesis by simp
  next
    case (Some acc)
    then have "acc \<in> set (departments g) \<and> dept_key acc = dep" by (rule find_Some_memb)
    with Some show ?thesis by auto
  qed
qed simp

lemma department_loop_reason:
  "is_allow (reason_code (department_loop request dep gs)) = allowed (department_loop request dep gs)"
  by (induction gs) (auto simp: is_allow_def source_reason_def split: option.splits)

lemma department_loop_source:
  assumes "allowed (department_loop request dep gs)"
  shows "\<exists>g \<in> set gs. \<exists>acc \<in> set (departments g).
    dept_key acc = dep \<and> reason_code (department_loop request dep gs) = source_reason (dept_source acc)"
  using assms
proof (induction gs)
  case (Cons g gs)
  show ?case
  proof (cases "List.find (\<lambda>item. dept_key item = dep) (departments g)")
    case None
    with Cons show ?thesis by auto
  next
    case (Some acc)
    from find_Some_memb [OF Some] Some show ?thesis by auto
  qed
qed simp

text \<open>The companies and capabilities the engine filters on, in the form the proofs use.\<close>

lemmas engine_simps = authorize_def Let_def filter_Nil_iff department_loop_allowed

lemma authorize_admin:
  "req_capability request = ADMINISTER_PLATFORM \<Longrightarrow>
   allowed (authorize scope request) \<longleftrightarrow> (\<exists>g \<in> set (grants scope). grant_permits g request)"
  by (auto simp: engine_simps grant_permits_def)

lemma authorize_uploads:
  "req_capability request = MANAGE_UPLOADS \<Longrightarrow>
   allowed (authorize scope request) \<longleftrightarrow> (\<exists>g \<in> set (grants scope). grant_permits g request)"
  by (cases "req_company_id request") (auto simp: engine_simps grant_permits_def)

lemma authorize_query:
  "req_capability request = QUERY_DOCUMENTS \<Longrightarrow>
   allowed (authorize scope request) \<longleftrightarrow> (\<exists>g \<in> set (grants scope). grant_permits g request)"
  by (cases "req_company_id request"; cases "req_department request")
     (auto simp: engine_simps grant_permits_def)

lemma authorize_iff_permits:
  "allowed (authorize scope request) \<longleftrightarrow> (\<exists>g \<in> set (grants scope). grant_permits g request)"
  by (cases "req_capability request") (simp_all add: authorize_admin authorize_uploads authorize_query)

text \<open>C1: the engine allows a request exactly when some grant of the scope permits it on its own;
  rights of different grants are never combined.\<close>

theorem authorize_iff_grant_permits:
  "allowed (authorize scope request) \<longleftrightarrow> (\<exists>g \<in> set (grants scope). grant_permits g request)"
  by (rule authorize_iff_permits)

text \<open>The engine as a decision over a list of grants, for one fixed identity.\<close>

definition engine_allows :: "AuthorizationGrant list \<Rightarrow> PolicyRequest \<Rightarrow> bool" where
  "engine_allows gs request =
     allowed (authorize \<lparr>scope_identity = \<lparr>identity_user_id = 0, identity_email = [],
       identity_display_name = []\<rparr>, grants = gs\<rparr> request)"

interpretation engine: grant_policy grant_permits engine_allows
  by unfold_locales (simp add: engine_allows_def authorize_iff_permits)

lemma authorize_engine_allows: "allowed (authorize scope request) = engine_allows (grants scope) request"
  by (simp add: engine_allows_def authorize_iff_permits)

subsection \<open>Properties of the engine\<close>

lemma is_allow_simps [simp]:
  "is_allow ALLOW_ADMIN_UPLOAD" "is_allow ALLOW_PLATFORM_ADMIN"
  "\<not> is_allow DENY_WORKSPACE" "\<not> is_allow DENY_COMPANY" "\<not> is_allow DENY_DEPARTMENT"
  "\<not> is_allow DENY_CAPABILITY" "\<not> is_allow DENY_ROLE" "\<not> is_allow DENY_DEFAULT"
  by (simp_all add: is_allow_def)

lemma department_loop_capability [simp]:
  "decision_capability (department_loop request dep gs) = req_capability request"
  by (induction gs) (auto split: option.splits)

text \<open>The reason code of a decision is an allow reason exactly when the request is allowed,
  and the decision always names the requested capability.\<close>

theorem authorize_reason_consistent:
  "is_allow (reason_code (authorize scope request)) = allowed (authorize scope request) \<and>
   decision_capability (authorize scope request) = req_capability request"
  by (simp add: authorize_def Let_def department_loop_reason split: option.split)

text \<open>C2: isolation of workspaces: only the grants for the requested workspace have an influence
  on the decision, reason code included.\<close>

theorem authorize_workspace_isolation:
  "authorize (scope\<lparr>grants := filter (\<lambda>g. workspace_id g = req_workspace_id request) (grants scope)\<rparr>)
     request = authorize scope request"
  by (simp add: authorize_def)

text \<open>Adding a grant never revokes an access, and the order of the grants does not matter.\<close>

lemma authorize_monotone:
  "allowed (authorize scope request) \<Longrightarrow> set (grants scope) \<subseteq> set (grants scope') \<Longrightarrow>
   allowed (authorize scope' request)"
  unfolding authorize_engine_allows by (rule engine.more_grants_keep)

lemma authorize_empty: "grants scope = [] \<Longrightarrow> \<not> allowed (authorize scope request)"
  using engine.no_grant_denies by (simp add: authorize_engine_allows)

text \<open>A request without a company is never allowed, platform administration apart.\<close>

lemma authorize_needs_company:
  "allowed (authorize scope request) \<Longrightarrow> req_capability request \<noteq> ADMINISTER_PLATFORM \<Longrightarrow>
   \<exists>g \<in> set (grants scope). \<exists>c. req_company_id request = Some c \<and> c \<in> set (company_ids g) \<and>
     workspace_id g = req_workspace_id request"
  unfolding authorize_iff_permits grant_permits_def
  by (cases "req_capability request") auto

end
