(* ===== verification/Status_Machines.thy ===== *)
theory Status_Machines
  imports Prelude
begin

text \<open>
  The two host-owned state machines: the status of an agent run (\<^verbatim>\<open>app/agent/run_state.py\<close>) and
  the status of a document version (\<^verbatim>\<open>app/ingestion/state_machine.py\<close>).  Both are tables of
  allowed transitions with a validator that raises on every other pair.  The locale
  \<open>status_machine\<close> is the contract their clients rely on; the reachable statuses of a machine
  are an inductive predicate, and the facts about runs of a machine are proved once in it.
\<close>

subsection \<open>Agent runs\<close>

datatype AgentRunStatus =
    CREATED | RUNNING | AWAITING_APPROVAL | RUN_COMPLETED | RUN_REFUSED
  | RUN_CLARIFICATION_REQUIRED | RUN_INSUFFICIENT_EVIDENCE | RUN_LIMIT_REACHED
  | RUN_FAILED | RUN_CANCELLED

datatype InvalidAgentRunTransition = InvalidAgentRunTransition AgentRunStatus AgentRunStatus

definition TERMINAL_AGENT_RUN_STATUSES :: "AgentRunStatus list" where
  "TERMINAL_AGENT_RUN_STATUSES =
     [RUN_COMPLETED, RUN_REFUSED, RUN_CLARIFICATION_REQUIRED, RUN_INSUFFICIENT_EVIDENCE,
      RUN_LIMIT_REACHED, RUN_FAILED, RUN_CANCELLED]"

fun run_transitions :: "AgentRunStatus \<Rightarrow> AgentRunStatus list" where
  "run_transitions CREATED = [RUNNING, RUN_REFUSED, RUN_CANCELLED, RUN_FAILED]"
| "run_transitions RUNNING = AWAITING_APPROVAL # TERMINAL_AGENT_RUN_STATUSES"
| "run_transitions AWAITING_APPROVAL = [RUNNING, RUN_CANCELLED, RUN_FAILED]"
| "run_transitions _ = []"

definition validate_agent_run_transition ::
  "AgentRunStatus \<Rightarrow> AgentRunStatus \<Rightarrow> (InvalidAgentRunTransition, AgentRunStatus) result" where
  "validate_agent_run_transition current target =
     (if target \<notin> set (run_transitions current)
      then Inl (InvalidAgentRunTransition current target) else Inr target)"

subsection \<open>Document versions\<close>

datatype IngestionStatus =
    UPLOADED | VALIDATING | VALIDATION_FAILED | PARSING | PARSING_FAILED | PREVIEW_READY
  | APPROVED | REJECTED | DELETED

text \<open>\<^verbatim>\<open>IngestionStatus(text)\<close>: a text that names no status raises \<^verbatim>\<open>ValueError\<close>.\<close>

definition IngestionStatus_of :: "string \<Rightarrow> IngestionStatus option" where
  "IngestionStatus_of s = map_of
     [(''UPLOADED'', UPLOADED), (''VALIDATING'', VALIDATING),
      (''VALIDATION_FAILED'', VALIDATION_FAILED), (''PARSING'', PARSING),
      (''PARSING_FAILED'', PARSING_FAILED), (''PREVIEW_READY'', PREVIEW_READY),
      (''APPROVED'', APPROVED), (''REJECTED'', REJECTED), (''DELETED'', DELETED)] s"

fun ingestion_transitions :: "IngestionStatus \<Rightarrow> IngestionStatus list" where
  "ingestion_transitions UPLOADED = [VALIDATING, DELETED]"
| "ingestion_transitions VALIDATING = [PARSING, VALIDATION_FAILED, DELETED]"
| "ingestion_transitions PARSING = [PREVIEW_READY, PARSING_FAILED, DELETED]"
| "ingestion_transitions PREVIEW_READY = [APPROVED, REJECTED, DELETED]"
| "ingestion_transitions APPROVED = [DELETED]"
| "ingestion_transitions REJECTED = [DELETED]"
| "ingestion_transitions VALIDATION_FAILED = [DELETED]"
| "ingestion_transitions PARSING_FAILED = [DELETED]"
| "ingestion_transitions DELETED = []"

datatype transition_error =
    UnknownStatus string
  | InvalidIngestionTransition IngestionStatus IngestionStatus

definition validate_transition :: "string \<Rightarrow> string \<Rightarrow> (transition_error, unit) result" where
  "validate_transition current target =
     (case IngestionStatus_of current of
        None \<Rightarrow> Inl (UnknownStatus current)
      | Some c \<Rightarrow> (case IngestionStatus_of target of
          None \<Rightarrow> Inl (UnknownStatus target)
        | Some t \<Rightarrow> (if t \<notin> set (ingestion_transitions c)
                     then Inl (InvalidIngestionTransition c t) else Inr ())))"

definition transition_allowed :: "string \<Rightarrow> string \<Rightarrow> bool" where
  "transition_allowed current target = isOk (validate_transition current target)"

subsection \<open>The contract of a status machine\<close>

text \<open>
  A finite table of successors with a start status and a set of statuses that end the life of
  the object.  \<open>rank\<close> bounds the number of steps outside the cycles of the table: no step raises
  it.
\<close>

locale status_machine =
  fixes succs :: "'s \<Rightarrow> 's list"
    and start :: 's
    and terminal :: "'s \<Rightarrow> bool"
    and rank :: "'s \<Rightarrow> nat"
  assumes terminal_iff: "terminal s \<longleftrightarrow> succs s = []"
    and start_not_target: "start \<notin> set (succs s)"
    and rank_le: "t \<in> set (succs s) \<Longrightarrow> rank t \<le> rank s"
    and rank_terminal: "rank s = 0 \<longleftrightarrow> terminal s"
    and can_end: "\<not> terminal s \<Longrightarrow> \<exists>t \<in> set (succs s). terminal t"
begin

inductive steps :: "'s \<Rightarrow> 's list \<Rightarrow> 's \<Rightarrow> bool" where
  stop: "steps s [] s"
| step: "t \<in> set (succs s) \<Longrightarrow> steps t ts u \<Longrightarrow> steps s (t # ts) u"

lemma steps_Cons_iff: "steps s (t # ts) u \<longleftrightarrow> t \<in> set (succs s) \<and> steps t ts u"
  by (auto elim: steps.cases intro: steps.intros)

lemma steps_Nil_iff: "steps s [] u \<longleftrightarrow> s = u"
  by (auto elim: steps.cases intro: steps.intros)

lemma terminal_stuck: "terminal s \<Longrightarrow> steps s ts u \<Longrightarrow> ts = [] \<and> u = s"
  by (cases ts) (auto simp: steps_Cons_iff steps_Nil_iff terminal_iff)

lemma steps_rank: "steps s ts u \<Longrightarrow> rank u \<le> rank s"
  by (induction rule: steps.induct) (auto dest: rank_le intro: le_trans)

lemma start_never_reentered: "steps s ts u \<Longrightarrow> ts \<noteq> [] \<Longrightarrow> u \<noteq> start"
proof (induction rule: steps.induct)
  case (step t s ts u)
  then show ?case
    by (cases "ts = []") (auto simp: steps_Nil_iff start_not_target)
qed simp

lemma terminal_only_last: "steps s ts u \<Longrightarrow> \<forall>t \<in> set (butlast ts). \<not> terminal t"
proof (induction rule: steps.induct)
  case (step t s ts u)
  show ?case
  proof (cases ts)
    case (Cons a list)
    with step.hyps(2) have "\<not> terminal t" by (auto dest: terminal_stuck)
    with Cons step.IH show ?thesis by simp
  qed simp
qed simp

lemma may_end: "\<exists>ts u. steps s ts u \<and> terminal u \<and> length ts \<le> 1"
proof (cases "terminal s")
  case True
  then show ?thesis using steps.stop by (intro exI [of _ "[]"] exI [of _ s]) simp
next
  case False
  then obtain t where "t \<in> set (succs s)" and "terminal t" using can_end by blast
  then have "steps s [t] t" by (simp add: steps_Cons_iff steps_Nil_iff)
  with \<open>terminal t\<close> show ?thesis by (intro exI [of _ "[t]"] exI [of _ t]) simp
qed

end

text \<open>A machine without cycles: every step lowers the rank, so a life has at most \<open>rank start\<close> steps.\<close>

locale acyclic_status_machine = status_machine +
  assumes rank_less: "t \<in> set (succs s) \<Longrightarrow> rank t < rank s"
begin

lemma steps_length: "steps s ts u \<Longrightarrow> length ts + rank u \<le> rank s"
proof (induction rule: steps.induct)
  case (step t s ts u)
  from rank_less [OF step.hyps(1)] step.IH show ?case by simp
qed simp

lemma visited_rank: "steps s ts u \<Longrightarrow> x \<in> set ts \<Longrightarrow> rank x < rank s"
proof (induction rule: steps.induct)
  case (step t s ts u)
  with rank_less [OF step.hyps(1)] show ?case by (cases "x = t") auto
qed simp

lemma steps_distinct: "steps s ts u \<Longrightarrow> distinct (s # ts)"
proof (induction rule: steps.induct)
  case (step t s ts u)
  have "steps s (t # ts) u" using step.hyps by (rule steps.step)
  then have "s \<notin> set (t # ts)" using visited_rank by blast
  with step.IH show ?case by simp
qed simp

end

subsection \<open>Both tables provide the contract\<close>

definition run_terminal :: "AgentRunStatus \<Rightarrow> bool" where
  "run_terminal s = (s \<in> set TERMINAL_AGENT_RUN_STATUSES)"

fun run_rank :: "AgentRunStatus \<Rightarrow> nat" where
  "run_rank CREATED = 2"
| "run_rank RUNNING = 1"
| "run_rank AWAITING_APPROVAL = 1"
| "run_rank _ = 0"

fun ingestion_rank :: "IngestionStatus \<Rightarrow> nat" where
  "ingestion_rank UPLOADED = 5"
| "ingestion_rank VALIDATING = 4"
| "ingestion_rank PARSING = 3"
| "ingestion_rank PREVIEW_READY = 2"
| "ingestion_rank DELETED = 0"
| "ingestion_rank _ = 1"

lemmas run_table = run_terminal_def TERMINAL_AGENT_RUN_STATUSES_def

interpretation run: status_machine run_transitions CREATED run_terminal run_rank
proof unfold_locales
  fix s t :: AgentRunStatus
  show "run_terminal s \<longleftrightarrow> run_transitions s = []" by (cases s) (simp_all add: run_table)
  show "CREATED \<notin> set (run_transitions s)" by (cases s) (simp_all add: run_table)
  show "run_rank t \<le> run_rank s" if "t \<in> set (run_transitions s)"
    using that by (cases s) (auto simp: run_table)
  show "run_rank s = 0 \<longleftrightarrow> run_terminal s" by (cases s) (simp_all add: run_table)
  show "\<exists>t \<in> set (run_transitions s). run_terminal t" if "\<not> run_terminal s"
    using that by (intro bexI [of _ RUN_FAILED]; cases s) (simp_all add: run_table)
qed

interpretation ingestion:
  acyclic_status_machine ingestion_transitions UPLOADED "\<lambda>s. s = DELETED" ingestion_rank
proof unfold_locales
  fix s t :: IngestionStatus
  show "s = DELETED \<longleftrightarrow> ingestion_transitions s = []" by (cases s) simp_all
  show "UPLOADED \<notin> set (ingestion_transitions s)" by (cases s) simp_all
  show "ingestion_rank t \<le> ingestion_rank s" if "t \<in> set (ingestion_transitions s)"
    using that by (cases s) auto
  show "ingestion_rank s = 0 \<longleftrightarrow> s = DELETED" by (cases s) simp_all
  show "\<exists>t \<in> set (ingestion_transitions s). t = DELETED" if "s \<noteq> DELETED"
    using that by (cases s) simp_all
  show "ingestion_rank t < ingestion_rank s" if "t \<in> set (ingestion_transitions s)"
    using that by (cases s) auto
qed

subsection \<open>Runs of the machines\<close>

text \<open>A history of statuses, each entered by a validated transition.\<close>

fun run_history_ok :: "AgentRunStatus \<Rightarrow> AgentRunStatus list \<Rightarrow> bool" where
  "run_history_ok s [] = True"
| "run_history_ok s (t # ts) =
     (validate_agent_run_transition s t = Inr t \<and> run_history_ok t ts)"

fun ingestion_history_ok :: "string \<Rightarrow> string list \<Rightarrow> bool" where
  "ingestion_history_ok s [] = True"
| "ingestion_history_ok s (t # ts) = (transition_allowed s t \<and> ingestion_history_ok t ts)"

lemma validate_agent_run_transition_iff:
  "validate_agent_run_transition s t = Inr u \<longleftrightarrow> t \<in> set (run_transitions s) \<and> u = t"
  by (auto simp: validate_agent_run_transition_def)

lemma run_history_steps:
  "run_history_ok s ts \<longleftrightarrow> run.steps s ts (last (s # ts))"
  by (induction ts arbitrary: s)
     (auto simp: validate_agent_run_transition_iff run.steps_Nil_iff run.steps_Cons_iff)

lemma transition_allowed_iff:
  "transition_allowed s t \<longleftrightarrow> (\<exists>c d. IngestionStatus_of s = Some c \<and> IngestionStatus_of t = Some d \<and>
     d \<in> set (ingestion_transitions c))"
  by (auto simp: transition_allowed_def validate_transition_def isOk_def split: option.splits)

lemma ingestion_history_steps:
  "ingestion_history_ok s ts \<Longrightarrow> IngestionStatus_of s = Some c \<Longrightarrow>
   \<exists>ds. map IngestionStatus_of ts = map Some ds \<and> ingestion.steps c ds (last (c # ds))"
proof (induction ts arbitrary: s c)
  case Nil
  then show ?case by (intro exI [of _ "[]"]) (simp add: ingestion.steps_Nil_iff)
next
  case (Cons t ts)
  then obtain d where d: "IngestionStatus_of t = Some d" "d \<in> set (ingestion_transitions c)"
    and ok: "ingestion_history_ok t ts"
    by (auto simp: transition_allowed_iff)
  from Cons.IH [OF ok d(1)] obtain ds
    where "map IngestionStatus_of ts = map Some ds" "ingestion.steps d ds (last (d # ds))" by blast
  with d show ?case by (intro exI [of _ "d # ds"]) (simp add: ingestion.steps_Cons_iff)
qed

text \<open>C3: in every history of validated transitions a terminal status can only be the last one: a
  run that completed, was refused, failed or was cancelled never moves again, and never returns to
  CREATED.\<close>

theorem run_history_terminal_last:
  assumes "run_history_ok s ts" and "ts \<noteq> []"
  shows "(\<forall>t \<in> set (butlast ts). t \<notin> set TERMINAL_AGENT_RUN_STATUSES) \<and> CREATED \<notin> set ts"
proof
  from assms(1) have st: "run.steps s ts (last (s # ts))" by (simp add: run_history_steps)
  from run.terminal_only_last [OF st]
  show "\<forall>t \<in> set (butlast ts). t \<notin> set TERMINAL_AGENT_RUN_STATUSES"
    by (simp add: run_terminal_def)
  from assms(1) show "CREATED \<notin> set ts"
    by (induction ts arbitrary: s)
       (auto simp: validate_agent_run_transition_iff run.start_not_target)
qed

theorem run_history_terminal_last_witness:
  "run_history_ok CREATED [RUNNING, AWAITING_APPROVAL, RUNNING, RUN_COMPLETED] \<and>
   RUNNING \<notin> set TERMINAL_AGENT_RUN_STATUSES \<and>
   AWAITING_APPROVAL \<notin> set TERMINAL_AGENT_RUN_STATUSES \<and>
   CREATED \<notin> set [RUNNING, AWAITING_APPROVAL, RUNNING, RUN_COMPLETED]"
proof -
  have ok: "run_history_ok CREATED [RUNNING, AWAITING_APPROVAL, RUNNING, RUN_COMPLETED]"
    by (simp add: validate_agent_run_transition_def TERMINAL_AGENT_RUN_STATUSES_def)
  then show ?thesis using run_history_terminal_last [OF ok] by simp
qed

text \<open>C4: the life of a document version is bounded: a sequence of allowed transitions from
  UPLOADED has at most five steps and visits no status twice.\<close>

theorem ingestion_history_bounded:
  assumes "ingestion_history_ok ''UPLOADED'' ts"
  shows "length ts \<le> 5 \<and> distinct (''UPLOADED'' # ts)"
proof -
  have up: "IngestionStatus_of ''UPLOADED'' = Some UPLOADED" by (simp add: IngestionStatus_of_def)
  from ingestion_history_steps [OF assms up] obtain ds
    where ds: "map IngestionStatus_of ts = map Some ds"
      and st: "ingestion.steps UPLOADED ds (last (UPLOADED # ds))" by blast
  from ingestion.steps_length [OF st] have len: "length ds \<le> 5" by simp
  from ingestion.steps_distinct [OF st] have "distinct (map Some (UPLOADED # ds))"
    by (simp add: distinct_map image_iff)
  also have "map Some (UPLOADED # ds) = map IngestionStatus_of (''UPLOADED'' # ts)"
    using ds up by simp
  finally have "distinct (''UPLOADED'' # ts)" by (simp only: distinct_map)
  moreover from ds have "length ts = length ds" by (metis length_map)
  ultimately show ?thesis using len by simp
qed

theorem ingestion_history_bounded_witness:
  "ingestion_history_ok ''UPLOADED'' [''VALIDATING'', ''PARSING'', ''PREVIEW_READY'', ''APPROVED'', ''DELETED''] \<and>
   length [''VALIDATING'', ''PARSING'', ''PREVIEW_READY'', ''APPROVED'', ''DELETED''] \<le> (5 :: nat)"
proof -
  have ok: "ingestion_history_ok ''UPLOADED''
      [''VALIDATING'', ''PARSING'', ''PREVIEW_READY'', ''APPROVED'', ''DELETED'']"
    by (simp add: transition_allowed_iff IngestionStatus_of_def)
  then show ?thesis using ingestion_history_bounded [OF ok] by simp
qed

end
