(* ===== verification/Decimal28.thy ===== *)
theory Decimal28
  imports Prelude
begin

text \<open>
  The arithmetic of Python's \<^verbatim>\<open>decimal\<close> module as the calculation engine uses it: the default
  context (28 significant digits, ties to even) for \<open>+\<close>, \<open>-\<close>, \<open>*\<close>, \<open>/\<close>, and
  \<^verbatim>\<open>quantize(Decimal("0.000001"), rounding=ROUND_HALF_UP)\<close>, which signals
  \<^verbatim>\<open>InvalidOperation\<close> when the result needs more than 28 digits.  A decimal is the rational
  number it denotes.  The lemmas bound the error of every operation and show when it is exact.
\<close>

subsection \<open>Powers of ten and the position of the leading digit\<close>

definition ten_pow :: "int \<Rightarrow> rat" where
  "ten_pow i = (if 0 \<le> i then 10 ^ nat i else 1 / 10 ^ nat (- i))"

function ndigits :: "nat \<Rightarrow> nat" where
  "ndigits n = (if n < 10 then 1 else Suc (ndigits (n div 10)))"
  by pat_completeness auto
termination
  by (relation "measure id") auto

declare ndigits.simps [simp del]

text \<open>The exponent of the leading digit of a positive rational: \<open>ten_pow e \<le> x < ten_pow (e + 1)\<close>.\<close>

definition adjusted :: "rat \<Rightarrow> int" where
  "adjusted x = (let (p, q) = quotient_of x;
       d = int (ndigits (nat p)) - int (ndigits (nat q))
     in if ten_pow d \<le> x then d else d - 1)"

subsection \<open>Rounding\<close>

definition round_half_even :: "rat \<Rightarrow> int" where
  "round_half_even x = (let f = \<lfloor>x\<rfloor>; d = x - of_int f in
     if d < 1 / 2 then f else if 1 / 2 < d then f + 1 else if even f then f else f + 1)"

definition round_half_up :: "rat \<Rightarrow> int" where
  "round_half_up x = (if 0 \<le> x then \<lfloor>x + 1 / 2\<rfloor> else - \<lfloor>- x + 1 / 2\<rfloor>)"

text \<open>Rounding to the 28 significant digits of the default context.\<close>

definition ctx :: "rat \<Rightarrow> rat" where
  "ctx x = (if x = 0 then 0 else
     let s = adjusted \<bar>x\<bar> - 27 in of_int (round_half_even (x / ten_pow s)) * ten_pow s)"

definition dadd :: "rat \<Rightarrow> rat \<Rightarrow> rat" where
  "dadd x y = ctx (x + y)"

definition dsub :: "rat \<Rightarrow> rat \<Rightarrow> rat" where
  "dsub x y = ctx (x - y)"

definition dmul :: "rat \<Rightarrow> rat \<Rightarrow> rat" where
  "dmul x y = ctx (x * y)"

definition ddiv :: "rat \<Rightarrow> rat \<Rightarrow> rat" where
  "ddiv x y = ctx (x / y)"

text \<open>\<^verbatim>\<open>sum(items, Decimal("0"))\<close>: the additions run from the left.\<close>

definition dsum :: "rat list \<Rightarrow> rat" where
  "dsum xs = foldl dadd 0 xs"

text \<open>\<open>None\<close> is the signal \<^verbatim>\<open>InvalidOperation\<close>.\<close>

definition quantize6 :: "rat \<Rightarrow> rat option" where
  "quantize6 x = (let c = round_half_up (x * 10 ^ 6) in
     if \<bar>c\<bar> < 10 ^ 28 then Some (of_int c / 10 ^ 6) else None)"

subsection \<open>Powers of ten\<close>

lemma ten_pow_pos [simp]: "0 < ten_pow i"
  by (simp add: ten_pow_def)

lemma ten_pow_nonzero [simp]: "ten_pow i \<noteq> 0"
  using ten_pow_pos [of i] by linarith

lemma ten_pow_nat [simp]: "ten_pow (int n) = 10 ^ n"
  by (simp add: ten_pow_def)

lemma ten_pow_neg: "ten_pow (- i) = 1 / ten_pow i"
  by (auto simp: ten_pow_def)

lemma ten_pow_diff_nat: "ten_pow (int m - int n) = 10 ^ m / 10 ^ n"
proof (cases "n \<le> m")
  case True
  then have "(10 :: rat) ^ m = 10 ^ (m - n) * 10 ^ n" by (simp flip: power_add)
  with True show ?thesis by (simp add: ten_pow_def nat_diff_distrib')
next
  case False
  then have "(10 :: rat) ^ n = 10 ^ (n - m) * 10 ^ m" by (simp flip: power_add)
  with False show ?thesis by (simp add: ten_pow_def nat_diff_distrib')
qed

lemma ten_pow_add: "ten_pow (i + j) = ten_pow i * ten_pow j"
proof -
  obtain a b c d where i: "i = int a - int b" and j: "j = int c - int d"
    by (metis int_diff_cases)
  have "i + j = int (a + c) - int (b + d)" using i j by simp
  then have "ten_pow (i + j) = 10 ^ (a + c) / 10 ^ (b + d)" by (simp only: ten_pow_diff_nat)
  then show ?thesis by (simp add: i j ten_pow_diff_nat power_add)
qed

lemma ten_pow_diff: "ten_pow (i - j) = ten_pow i / ten_pow j"
  using ten_pow_add [of i "- j"] by (simp add: ten_pow_neg)

lemma ten_pow_mono: "i \<le> j \<Longrightarrow> ten_pow i \<le> ten_pow j"
proof -
  assume "i \<le> j"
  then obtain n where j: "j = i + int n" using zle_iff_zadd by auto
  have "(1 :: rat) \<le> 10 ^ n" by simp
  then show ?thesis using mult_left_mono [of 1 "10 ^ n" "ten_pow i"] by (simp add: j ten_pow_add less_imp_le)
qed

lemma ten_pow_less_iff: "ten_pow i < ten_pow j \<longleftrightarrow> i < j"
proof
  show "ten_pow i < ten_pow j \<Longrightarrow> i < j" using ten_pow_mono [of j i] by force
next
  assume "i < j"
  then have "ten_pow (i + 1) \<le> ten_pow j" by (intro ten_pow_mono) simp
  moreover have "ten_pow i < ten_pow (i + 1)" by (simp add: ten_pow_add ten_pow_def [of 1])
  ultimately show "ten_pow i < ten_pow j" by linarith
qed

subsection \<open>The leading digit\<close>

lemma ndigits_bounds:
  "n < 10 ^ ndigits n"
  "0 < n \<Longrightarrow> 10 ^ ndigits n \<le> 10 * n"
proof -
  have "n < 10 ^ ndigits n \<and> (0 < n \<longrightarrow> 10 ^ ndigits n \<le> 10 * n)"
  proof (induction n rule: ndigits.induct)
    case (1 n)
    show ?case
    proof (cases "n < 10")
      case False
      with 1 have IH: "n div 10 < 10 ^ ndigits (n div 10)"
        "10 ^ ndigits (n div 10) \<le> 10 * (n div 10)" by auto
      from IH(1) have "n < 10 * 10 ^ ndigits (n div 10)" by (simp add: div_less_iff_less_mult mult.commute)
      moreover from IH(2) have "10 * 10 ^ ndigits (n div 10) \<le> 10 * n" by simp
      ultimately show ?thesis using False by (simp add: ndigits.simps [of n])
    qed (simp add: ndigits.simps)
  qed
  then show "n < 10 ^ ndigits n" and "0 < n \<Longrightarrow> 10 ^ ndigits n \<le> 10 * n" by auto
qed

lemma ndigits_bounds_rat:
  "of_nat n < (10 :: rat) ^ ndigits n"
  "0 < n \<Longrightarrow> (10 :: rat) ^ ndigits n \<le> 10 * of_nat n"
proof -
  have "(of_nat n :: rat) < of_nat (10 ^ ndigits n)"
    using ndigits_bounds(1) by (simp only: of_nat_less_iff)
  then show "of_nat n < (10 :: rat) ^ ndigits n" by simp
  assume "0 < n"
  then have "(of_nat (10 ^ ndigits n) :: rat) \<le> of_nat (10 * n)"
    using ndigits_bounds(2) by (simp only: of_nat_le_iff)
  then show "(10 :: rat) ^ ndigits n \<le> 10 * of_nat n" by simp
qed

lemma adjusted_bounds:
  assumes "0 < x"
  shows "ten_pow (adjusted x) \<le> x" and "x < ten_pow (adjusted x + 1)"
proof -
  obtain p q where pq: "quotient_of x = (p, q)" by fastforce
  have q: "0 < q" using quotient_of_denom_pos [OF pq] .
  have x: "x = of_int p / of_int q" by (rule quotient_of_div [OF pq])
  with assms q have p: "0 < p" by (simp add: zero_less_divide_iff)
  define P Q where "P = nat p" and "Q = nat q"
  have PQ: "0 < P" "0 < Q" and xPQ: "x = of_nat P / of_nat Q"
    using p q x by (simp_all add: P_def Q_def)
  define d where "d = int (ndigits P) - int (ndigits Q)"
  have tp: "ten_pow d = 10 ^ ndigits P / 10 ^ ndigits Q" by (simp add: d_def ten_pow_diff_nat)
  have bounds: "of_nat P < (10 :: rat) ^ ndigits P" "(10 :: rat) ^ ndigits P \<le> 10 * of_nat P"
    "of_nat Q < (10 :: rat) ^ ndigits Q" "(10 :: rat) ^ ndigits Q \<le> 10 * of_nat Q"
    using PQ by (simp_all only: ndigits_bounds_rat)
  have "x * 10 ^ ndigits Q \<le> 10 * of_nat P" using bounds(4) PQ by (simp add: xPQ field_simps)
  moreover have "x * 10 ^ ndigits Q < 10 * 10 ^ ndigits P"
    using calculation bounds(1) by linarith
  ultimately have up: "x < ten_pow (d + 1)"
    by (simp add: ten_pow_add tp ten_pow_def [of 1] field_simps)
  have "10 ^ ndigits P * of_nat Q \<le> 10 * (of_nat P * (of_nat Q :: rat))"
    using mult_right_mono [OF bounds(2), of "of_nat Q"] by simp
  moreover have "of_nat P * of_nat Q \<le> of_nat P * (10 :: rat) ^ ndigits Q"
    using bounds(3) by (intro mult_left_mono) simp_all
  ultimately have "10 ^ ndigits P * of_nat Q \<le> 10 * (of_nat P * (10 :: rat) ^ ndigits Q)" by linarith
  then have low: "ten_pow (d - 1) \<le> x"
    using PQ by (simp add: ten_pow_diff tp ten_pow_def [of 1] xPQ field_simps)
  have adj: "adjusted x = (if ten_pow d \<le> x then d else d - 1)"
    by (simp add: adjusted_def pq P_def Q_def d_def Let_def)
  show "ten_pow (adjusted x) \<le> x" using low by (simp add: adj)
  show "x < ten_pow (adjusted x + 1)" using up by (simp add: adj)
qed

subsection \<open>Rounding errors\<close>

lemma round_half_even_int [simp]: "round_half_even (of_int n) = n"
  by (simp add: round_half_even_def)

lemma round_half_even_error: "\<bar>of_int (round_half_even x) - x\<bar> \<le> 1 / 2"
proof -
  have f: "of_int \<lfloor>x\<rfloor> \<le> x" "x < of_int \<lfloor>x\<rfloor> + 1" by linarith+
  define d where "d = x - of_int \<lfloor>x\<rfloor>"
  have up: "\<bar>of_int (\<lfloor>x\<rfloor> + 1) - x\<bar> \<le> 1 / 2" if "1 / 2 \<le> d"
    using f that unfolding d_def of_int_add of_int_1 by linarith
  have down: "\<bar>of_int \<lfloor>x\<rfloor> - x\<bar> \<le> 1 / 2" if "d \<le> 1 / 2"
    using f that unfolding d_def by linarith
  have "round_half_even x = (if d < 1 / 2 then \<lfloor>x\<rfloor> else if 1 / 2 < d then \<lfloor>x\<rfloor> + 1
      else if even \<lfloor>x\<rfloor> then \<lfloor>x\<rfloor> else \<lfloor>x\<rfloor> + 1)"
    by (simp only: round_half_even_def Let_def d_def)
  with up down show ?thesis by (cases "d < 1 / 2"; cases "1 / 2 < d") (simp_all split: if_splits)
qed

lemma round_half_up_error: "\<bar>of_int (round_half_up x) - x\<bar> \<le> 1 / 2"
proof (cases "0 \<le> x")
  case True
  have "of_int \<lfloor>x + 1 / 2\<rfloor> \<le> x + 1 / 2" "x + 1 / 2 < of_int \<lfloor>x + 1 / 2\<rfloor> + 1" by linarith+
  then show ?thesis unfolding round_half_up_def if_P [OF True] by linarith
next
  case False
  have "of_int \<lfloor>- x + 1 / 2\<rfloor> \<le> - x + 1 / 2" "- x + 1 / 2 < of_int \<lfloor>- x + 1 / 2\<rfloor> + 1" by linarith+
  then show ?thesis unfolding round_half_up_def if_not_P [OF False] of_int_minus by linarith
qed

lemma ctx_0 [simp]: "ctx 0 = 0"
  by (simp add: ctx_def)

text \<open>The context rounds to a multiple of a fixed power of ten.\<close>

lemma adjusted_eq:
  assumes "ten_pow e \<le> x" and "x < ten_pow (e + 1)"
  shows "adjusted x = e"
proof -
  have "0 < x" using assms(1) ten_pow_pos [of e] by linarith
  note b = adjusted_bounds [OF this]
  from b(1) assms(2) have "ten_pow (adjusted x) < ten_pow (e + 1)" by linarith
  moreover from assms(1) b(2) have "ten_pow e < ten_pow (adjusted x + 1)" by linarith
  ultimately show ?thesis by (simp add: ten_pow_less_iff)
qed

lemma ctx_at:
  assumes "ten_pow e \<le> x" and "x < ten_pow (e + 1)"
  shows "ctx x = of_int (round_half_even (x / ten_pow (e - 27))) * ten_pow (e - 27)"
proof -
  have "0 < x" using assms(1) ten_pow_pos [of e] by linarith
  with adjusted_eq [OF assms] show ?thesis by (simp add: ctx_def Let_def)
qed

lemma round_half_even_eq: "\<bar>x - of_int n\<bar> < 1 / 2 \<Longrightarrow> round_half_even x = n"
proof -
  assume a: "\<bar>x - of_int n\<bar> < 1 / 2"
  have "\<bar>of_int (round_half_even x) - x\<bar> \<le> 1 / 2" by (rule round_half_even_error)
  with a have "\<bar>of_int (round_half_even x) - (of_int n :: rat)\<bar> < 1" by linarith
  then show ?thesis by linarith
qed

text \<open>The relative error of an operation is at most \<open>5 * 10 ^ -28\<close>.\<close>

lemma ctx_error: "\<bar>ctx x - x\<bar> \<le> \<bar>x\<bar> * (5 / 10 ^ 28)"
proof (cases "x = 0")
  case False
  define s where "s = adjusted \<bar>x\<bar> - 27"
  have cx: "ctx x = of_int (round_half_even (x / ten_pow s)) * ten_pow s"
    using False by (simp add: ctx_def s_def Let_def)
  have "ctx x - x = (of_int (round_half_even (x / ten_pow s)) - x / ten_pow s) * ten_pow s"
    by (simp add: cx left_diff_distrib)
  then have "\<bar>ctx x - x\<bar> = \<bar>of_int (round_half_even (x / ten_pow s)) - x / ten_pow s\<bar> * ten_pow s"
    by (simp only: abs_mult abs_of_pos ten_pow_pos)
  also have "\<dots> \<le> 1 / 2 * ten_pow s"
    by (intro mult_right_mono round_half_even_error) (simp add: less_imp_le)
  also have "ten_pow s = ten_pow (adjusted \<bar>x\<bar>) / 10 ^ 27"
    by (simp add: s_def ten_pow_diff ten_pow_def [of 27])
  also have "1 / 2 * (ten_pow (adjusted \<bar>x\<bar>) / 10 ^ 27) \<le> 1 / 2 * (\<bar>x\<bar> / 10 ^ 27)"
    using adjusted_bounds(1) [of "\<bar>x\<bar>"] False by (simp add: divide_right_mono)
  finally show ?thesis by simp
qed simp

text \<open>A number with at most 28 digits is represented exactly.\<close>

lemma ctx_exact:
  assumes "x = of_int m / 10 ^ k" and "\<bar>m\<bar> < 10 ^ 28"
  shows "ctx x = x"
proof (cases "x = 0")
  case False
  define e where "e = adjusted \<bar>x\<bar>"
  define s where "s = e - 27"
  have "\<bar>x\<bar> = of_int \<bar>m\<bar> / 10 ^ k" by (simp add: assms(1))
  also have "(of_int \<bar>m\<bar> :: rat) < of_int (10 ^ 28)" using assms(2) by (simp only: of_int_less_iff)
  then have "of_int \<bar>m\<bar> / 10 ^ k < (10 ^ 28 / 10 ^ k :: rat)"
    by (intro divide_strict_right_mono) simp_all
  also have "\<dots> = ten_pow (28 - int k)" using ten_pow_diff_nat [of 28 k] by simp
  finally have "\<bar>x\<bar> < ten_pow (28 - int k)" .
  moreover have "ten_pow e \<le> \<bar>x\<bar>" using adjusted_bounds(1) [of "\<bar>x\<bar>"] False by (simp add: e_def)
  ultimately have "ten_pow e < ten_pow (28 - int k)" by linarith
  then have "s + int k \<le> 0" by (simp add: ten_pow_less_iff s_def)
  then have "0 \<le> - s - int k" by simp
  then obtain n where n: "- s - int k = int n" by (rule nonneg_int_cases)
  have "x / ten_pow s = of_int m * ten_pow (- s - int k)"
    by (simp add: assms(1) ten_pow_diff ten_pow_neg field_simps)
  also have "\<dots> = of_int (m * 10 ^ n)" by (simp add: n)
  finally have "round_half_even (x / ten_pow s) = m * 10 ^ n" by (simp only: round_half_even_int)
  with \<open>x / ten_pow s = of_int m * ten_pow (- s - int k)\<close> n
  have "of_int (round_half_even (x / ten_pow s)) = x / ten_pow s" by simp
  then show ?thesis using False by (simp add: ctx_def e_def [symmetric] s_def [symmetric] Let_def)
qed simp

lemma quantize6_error: "quantize6 x = Some y \<Longrightarrow> \<bar>y - x\<bar> \<le> 5 / 10 ^ 7"
proof -
  assume "quantize6 x = Some y"
  then have y: "y = of_int (round_half_up (x * 10 ^ 6)) / 10 ^ 6"
    by (auto simp: quantize6_def Let_def split: if_splits)
  have "\<bar>y - x\<bar> = \<bar>of_int (round_half_up (x * 10 ^ 6)) - x * 10 ^ 6\<bar> / 10 ^ 6"
    by (simp add: y abs_if field_simps)
  also have "\<dots> \<le> (1 / 2) / 10 ^ 6"
    by (intro divide_right_mono round_half_up_error) simp
  finally show ?thesis by simp
qed

text \<open>\<^verbatim>\<open>quantize\<close> is idempotent: its result has six decimals and is left alone.\<close>

lemma round_half_up_int [simp]: "round_half_up (of_int n) = n"
  by (simp add: round_half_up_def floor_eq_iff)

lemma quantize6_fixed: "quantize6 x = Some y \<Longrightarrow> quantize6 y = Some y"
proof -
  assume *: "quantize6 x = Some y"
  define c where "c = round_half_up (x * 10 ^ 6)"
  from * have c: "\<bar>c\<bar> < 10 ^ 28" and y: "y = of_int c / 10 ^ 6"
    by (auto simp: quantize6_def Let_def c_def split: if_splits)
  from y have "y * 10 ^ 6 = of_int c" by simp
  then have "round_half_up (y * 10 ^ 6) = c" by (simp only: round_half_up_int)
  with c y show "quantize6 y = Some y" by (simp only: quantize6_def Let_def if_True)
qed

end
