(* ===== verification/Patterns.thy ===== *)
theory Patterns
  imports Prelude
begin

text \<open>
  The regular expressions the contract models validate their fields with, each as a decision
  function on strings.  The patterns are anchored on both sides, so each function decides the
  whole text.
\<close>

definition is_digit :: "char \<Rightarrow> bool" where
  "is_digit c = (48 \<le> (of_char c :: nat) \<and> (of_char c :: nat) \<le> 57)"

definition is_lower :: "char \<Rightarrow> bool" where
  "is_lower c = (97 \<le> (of_char c :: nat) \<and> (of_char c :: nat) \<le> 122)"

definition is_upper :: "char \<Rightarrow> bool" where
  "is_upper c = (65 \<le> (of_char c :: nat) \<and> (of_char c :: nat) \<le> 90)"

text \<open>\<^verbatim>\<open>^FY[0-9]{4}$\<close>\<close>

definition period_ok :: "string \<Rightarrow> bool" where
  "period_ok s = (length s = 6 \<and> take 2 s = ''FY'' \<and> list_all is_digit (drop 2 s))"

text \<open>\<^verbatim>\<open>^[a-z0-9]+(?:-[a-z0-9]+)*$\<close>\<close>

definition slug_ok :: "string \<Rightarrow> bool" where
  "slug_ok s = list_all (\<lambda>w. w \<noteq> [] \<and> list_all (\<lambda>c. is_lower c \<or> is_digit c) w)
     (split_on CHR ''-'' s)"

text \<open>\<^verbatim>\<open>[a-z][a-z0-9_]*\<close>, and two of them with a dot between.\<close>

definition ident_ok :: "string \<Rightarrow> bool" where
  "ident_ok w = (case w of [] \<Rightarrow> False
     | c # cs \<Rightarrow> is_lower c \<and> list_all (\<lambda>d. is_lower d \<or> is_digit d \<or> d = CHR ''_'') cs)"

definition tool_name_ok :: "string \<Rightarrow> bool" where
  "tool_name_ok s = (case split_on CHR ''.'' s of
       [a, b] \<Rightarrow> ident_ok a \<and> ident_ok b
     | _ \<Rightarrow> False)"

text \<open>\<^verbatim>\<open>^[a-z][a-z0-9_]{0,79}$\<close>\<close>

definition memory_key_ok :: "string \<Rightarrow> bool" where
  "memory_key_ok s = (ident_ok s \<and> length s \<le> 80)"

text \<open>\<^verbatim>\<open>^[A-Z][A-Z0-9_]{1,n}$\<close>\<close>

definition code_ok :: "nat \<Rightarrow> string \<Rightarrow> bool" where
  "code_ok n s = (case s of [] \<Rightarrow> False
     | c # cs \<Rightarrow> is_upper c \<and> 1 \<le> length cs \<and> length cs \<le> n \<and>
         list_all (\<lambda>d. is_upper d \<or> is_digit d \<or> d = CHR ''_'') cs)"

text \<open>\<^verbatim>\<open>^ev_[1-9][0-9]*$\<close>\<close>

definition evidence_id_ok :: "string \<Rightarrow> bool" where
  "evidence_id_ok s = (take 3 s = ''ev_'' \<and> (case drop 3 s of [] \<Rightarrow> False
     | c # cs \<Rightarrow> is_digit c \<and> c \<noteq> CHR ''0'' \<and> list_all is_digit cs))"

text \<open>\<^verbatim>\<open>^[A-Z]{1,3}[1-9][0-9]{0,6}$\<close>\<close>

definition cell_ok :: "string \<Rightarrow> bool" where
  "cell_ok s = (let a = takeWhile is_upper s; r = dropWhile is_upper s in
     1 \<le> length a \<and> length a \<le> 3 \<and> (case r of [] \<Rightarrow> False
       | c # cs \<Rightarrow> is_digit c \<and> c \<noteq> CHR ''0'' \<and> length cs \<le> 6 \<and> list_all is_digit cs))"

lemma digit_char_is_digit [simp]: "n < 10 \<Longrightarrow> is_digit (digit_char n)"
  by (simp add: is_digit_def)

lemma str_nat_digits: "list_all is_digit (str_nat n)"
proof (induction n rule: str_nat.induct)
  case (1 n)
  show ?case
    by (cases "n < 10") (use 1 in \<open>simp_all add: str_nat.simps [of n]\<close>)
qed

lemma str_nat_no_leading_zero: "0 < n \<Longrightarrow> hd (str_nat n) \<noteq> CHR ''0''"
proof (induction n rule: str_nat.induct)
  case (1 n)
  have zero: "digit_char m = CHR ''0'' \<Longrightarrow> m < 10 \<Longrightarrow> m = 0" for m
    using of_char_digit [of m] by simp
  show ?case
  proof (cases "n < 10")
    case True
    with 1(2) zero [of n] show ?thesis by (auto simp: str_nat.simps [of n])
  next
    case False
    with 1 show ?thesis by (simp add: str_nat.simps [of n] hd_append)
  qed
qed

text \<open>The identifiers the gateway adapter generates match the pattern of evidence identifiers.\<close>

lemma evidence_id_ok_str_nat: "0 < n \<Longrightarrow> evidence_id_ok (''ev_'' @ str_nat n)"
proof -
  assume n: "0 < n"
  obtain c cs where s: "str_nat n = c # cs" by (cases "str_nat n") simp_all
  with str_nat_digits [of n] str_nat_no_leading_zero [OF n] show ?thesis
    by (simp add: evidence_id_ok_def)
qed

end
