(* ===== verification/Calculations.thy ===== *)
theory Calculations
  imports Decimal28 Patterns
begin

text \<open>
  The deterministic calculation engine: the contracts of \<^verbatim>\<open>app/calculations/contracts.py\<close> and the
  functions of \<^verbatim>\<open>app/calculations/engine.py\<close>.  Every raise of the code is a value of \<open>calc_error\<close>.
  \<open>uuid5\<close> (name-based identifiers) is an argument, and so is \<open>dec_pow\<close>, the power of two decimals
  with a fractional exponent, \<open>None\<close> being \<^verbatim>\<open>InvalidOperation\<close>.  The lemmas show which inputs are
  accepted, that the result is the exact metric up to the last printed decimal, and that results
  and inputs are bounded.
\<close>

subsection \<open>Contracts\<close>

datatype CalculationMetric =
    FINANCIAL_METRIC | EBITDA_MARGIN | REVENUE_GROWTH | NET_PROFIT_MARGIN | DEBT_TO_EQUITY
  | CASH_RUNWAY | CAGR

fun metric_value :: "CalculationMetric \<Rightarrow> string" where
  "metric_value FINANCIAL_METRIC = ''financial_metric''"
| "metric_value EBITDA_MARGIN = ''ebitda_margin''"
| "metric_value REVENUE_GROWTH = ''revenue_growth''"
| "metric_value NET_PROFIT_MARGIN = ''net_profit_margin''"
| "metric_value DEBT_TO_EQUITY = ''debt_to_equity''"
| "metric_value CASH_RUNWAY = ''cash_runway''"
| "metric_value CAGR = ''cagr''"

record CalculationCitation =
  cc_document_id :: uuid
  cc_document_version_id :: uuid
  cc_chunk_id :: uuid
  cc_document_title :: string
  cc_version_number :: int
  cc_excerpt :: string
  cc_sheet_name :: string
  cc_row_start :: int
  cc_row_end :: int
  cc_cell_start :: string
  cc_cell_end :: string

definition citation_ok :: "CalculationCitation \<Rightarrow> bool" where
  "citation_ok c =
     (1 \<le> length (cc_document_title c) \<and> length (cc_document_title c) \<le> 255 \<and>
      1 \<le> cc_version_number c \<and>
      1 \<le> length (cc_excerpt c) \<and> length (cc_excerpt c) \<le> 500 \<and>
      1 \<le> length (cc_sheet_name c) \<and> length (cc_sheet_name c) \<le> 128 \<and>
      1 \<le> cc_row_start c \<and> 1 \<le> cc_row_end c \<and>
      cell_ok (cc_cell_start c) \<and> cell_ok (cc_cell_end c) \<and>
      cc_row_start c \<le> cc_row_end c)"

record TrustedCalculationInput =
  ti_name :: string
  ti_period :: string
  ti_value :: rat
  ti_unit :: string
  ti_citation :: CalculationCitation

definition trusted_input_ok :: "TrustedCalculationInput \<Rightarrow> bool" where
  "trusted_input_ok i =
     (1 \<le> length (ti_name i) \<and> length (ti_name i) \<le> 80 \<and> period_ok (ti_period i) \<and>
      \<bar>ti_value i\<bar> \<le> 1000000000000 \<and>
      ti_unit i \<in> {''INR crore'', ''INR crore/month''} \<and> citation_ok (ti_citation i))"

record CalculationResult =
  cr_calculation_id :: uuid
  cr_metric :: CalculationMetric
  cr_company_slug :: string
  cr_period :: string
  cr_formula :: string
  cr_trusted_inputs :: "TrustedCalculationInput list"
  cr_result :: rat
  cr_unit :: string
  cr_warnings :: "string list"

definition calculation_result_ok :: "CalculationResult \<Rightarrow> bool" where
  "calculation_result_ok r =
     (slug_ok (cr_company_slug r) \<and> length (cr_company_slug r) \<le> 64 \<and> period_ok (cr_period r) \<and>
      1 \<le> length (cr_formula r) \<and> length (cr_formula r) \<le> 400 \<and>
      1 \<le> length (cr_trusted_inputs r) \<and> length (cr_trusted_inputs r) \<le> 10 \<and>
      \<bar>cr_result r\<bar> \<le> 1000000 \<and>
      cr_unit r \<in> {''percent'', ''x'', ''months'', ''INR crore''} \<and>
      length (cr_warnings r) \<le> 4)"

subsection \<open>Errors\<close>

datatype CalculationErrorCode = INPUTS_MISSING | INPUTS_INVALID | DIVISION_BY_ZERO

text \<open>
  What a calculation may raise: its own error with a code, \<^verbatim>\<open>decimal.InvalidOperation\<close>, the
  validation error of the result model, a \<^verbatim>\<open>KeyError\<close> of the dictionary of values, or the
  \<^verbatim>\<open>ValueError\<close> of \<^verbatim>\<open>int\<close> on the year of a period.
\<close>

datatype calc_error =
    CalculationError CalculationErrorCode
  | DecimalInvalidOperation
  | ResultValidationError
  | MissingKey "string \<times> string"
  | PeriodValueError

definition mk_CalculationResult :: "CalculationResult \<Rightarrow> (calc_error, CalculationResult) result" where
  "mk_CalculationResult r = (if calculation_result_ok r then Inr r else Inl ResultValidationError)"

subsection \<open>Periods\<close>

text \<open>\<^verbatim>\<open>int(text)\<close>: blanks around, one optional sign, digits with single underscores between.\<close>

definition digits_value :: "string \<Rightarrow> nat" where
  "digits_value ds = foldl (\<lambda>n c. 10 * n + (of_char c - 48)) 0 ds"

definition py_int :: "string \<Rightarrow> int option" where
  "py_int s = (let t = strip s;
       (neg, u) = (case t of [] \<Rightarrow> (False, [])
          | c # cs \<Rightarrow> if c = CHR ''-'' then (True, cs) else if c = CHR ''+'' then (False, cs) else (False, t));
       groups = split_on CHR ''_'' u
     in if list_all (\<lambda>g. g \<noteq> [] \<and> list_all is_digit g) groups
        then Some ((if neg then - 1 else 1) * int (digits_value (concat groups))) else None)"

definition removeprefix :: "string \<Rightarrow> string \<Rightarrow> string" where
  "removeprefix p s = (if take (length p) s = p then drop (length p) s else s)"

text \<open>The format \<^verbatim>\<open>{n:04d}\<close>.\<close>

definition zfill :: "nat \<Rightarrow> string \<Rightarrow> string" where
  "zfill w s = replicate (w - length s) CHR ''0'' @ s"

definition fmt_04d :: "int \<Rightarrow> string" where
  "fmt_04d i = (if i < 0 then CHR ''-'' # zfill 3 (str_nat (nat (- i))) else zfill 4 (str_nat (nat i)))"

definition previous_period :: "string \<Rightarrow> (calc_error, string) result" where
  "previous_period period =
     (case py_int (removeprefix ''FY'' period) of
        None \<Rightarrow> Inl (CalculationError INPUTS_INVALID)
      | Some year \<Rightarrow> Inr (''FY'' @ fmt_04d (year - 1)))"

subsection \<open>Required inputs\<close>

definition required_inputs ::
  "CalculationMetric \<Rightarrow> string \<Rightarrow> (calc_error, (string \<times> string) list) result" where
  "required_inputs metric period =
    (case metric of
       FINANCIAL_METRIC \<Rightarrow> Inl (CalculationError INPUTS_INVALID)
     | EBITDA_MARGIN \<Rightarrow> Inr
         [(''Revenue'', period), (''Cost of Goods Sold'', period),
          (''Operating Expenses (excl. D&A)'', period)]
     | REVENUE_GROWTH \<Rightarrow> bindR (previous_period period) (\<lambda>prior.
         Inr [(''Revenue'', prior), (''Revenue'', period)])
     | DEBT_TO_EQUITY \<Rightarrow> Inr
         [(''Cash and Cash Equivalents'', period), (''Accounts Receivable'', period),
          (''Inventory / Prepaid Assets'', period), (''Property, Plant & Equipment'', period),
          (''Bank Debt'', period), (''Accounts Payable'', period), (''Other Liabilities'', period)]
     | CASH_RUNWAY \<Rightarrow> Inr
         [(''Opening Cash'', period), (''Operating Cash Flow'', period),
          (''Capital Expenditure'', period), (''Financing Cash Flow'', period),
          (''Stress-case Monthly Burn'', period)]
     | CAGR \<Rightarrow> bindR (previous_period period) (\<lambda>prior.
         Inr [(''Revenue'', prior), (''Revenue'', period)])
     | NET_PROFIT_MARGIN \<Rightarrow> Inr
         [(''Revenue'', period), (''Cost of Goods Sold'', period),
          (''Operating Expenses (excl. D&A)'', period), (''Depreciation & Amortization'', period),
          (''Interest Expense'', period), (''Tax Expense'', period)])"

subsection \<open>The calculator\<close>

type_synonym values_dict = "((string \<times> string) \<times> rat) list"

text \<open>\<^verbatim>\<open>Decimal(str(item.value))\<close> is the number itself; the dictionary keeps insertion order.\<close>

definition values_of :: "TrustedCalculationInput list \<Rightarrow> values_dict" where
  "values_of inputs = dict_of (map (\<lambda>i. ((ti_name i, ti_period i), ti_value i)) inputs)"

definition value_at :: "values_dict \<Rightarrow> string \<times> string \<Rightarrow> (calc_error, rat) result" where
  "value_at values k = (case map_of values k of None \<Rightarrow> Inl (MissingKey k) | Some v \<Rightarrow> Inr v)"

definition values_at :: "values_dict \<Rightarrow> string \<Rightarrow> string list \<Rightarrow> (calc_error, rat list) result" where
  "values_at values period names = mapR (\<lambda>n. value_at values (n, period)) names"

definition times_100 :: string where
  "times_100 = '' '' @ [CHR 0xD7] @ '' 100''"

text \<open>Numerator, denominator, formula and unit of a metric.\<close>

type_synonym metric_terms = "rat \<times> rat \<times> string \<times> string"

definition growth_terms :: "string \<Rightarrow> values_dict \<Rightarrow> (calc_error, metric_terms) result" where
  "growth_terms period values =
     bindR (previous_period period) (\<lambda>prior_period.
     bindR (value_at values (''Revenue'', prior_period)) (\<lambda>prior.
     bindR (value_at values (''Revenue'', period)) (\<lambda>current.
       Inr (dsub current prior, prior,
         ''((Revenue['' @ period @ ''] - Revenue['' @ prior_period @ '']) / Revenue['' @ prior_period
           @ ''])'' @ times_100, ''percent''))))"

definition cagr_terms :: "string \<Rightarrow> values_dict \<Rightarrow> (calc_error, metric_terms) result" where
  "cagr_terms period values =
     bindR (previous_period period) (\<lambda>prior_period.
     bindR (value_at values (''Revenue'', prior_period)) (\<lambda>prior.
     bindR (value_at values (''Revenue'', period)) (\<lambda>current.
       if prior \<le> 0 then Inl (CalculationError INPUTS_INVALID)
       else Inr (dsub (ctx (ddiv current prior)) 1, 1,
         ''((Revenue['' @ period @ ''] / Revenue['' @ prior_period @ '']) ^ (1 / 1) - 1)'' @ times_100,
         ''percent''))))"

definition debt_terms :: "string \<Rightarrow> values_dict \<Rightarrow> (calc_error, metric_terms) result" where
  "debt_terms period values =
     bindR (values_at values period [''Cash and Cash Equivalents'', ''Accounts Receivable'',
        ''Inventory / Prepaid Assets'', ''Property, Plant & Equipment'']) (\<lambda>assets.
     bindR (values_at values period [''Bank Debt'', ''Accounts Payable'', ''Other Liabilities'']) (\<lambda>liabilities.
     bindR (value_at values (''Bank Debt'', period)) (\<lambda>bank_debt.
       Inr (bank_debt, dsub (dsum assets) (dsum liabilities),
         ''Bank Debt / (Total Assets - Total Liabilities)'', ''x''))))"

definition runway_terms :: "string \<Rightarrow> values_dict \<Rightarrow> (calc_error, metric_terms) result" where
  "runway_terms period values =
     bindR (values_at values period [''Opening Cash'', ''Operating Cash Flow'',
        ''Capital Expenditure'', ''Financing Cash Flow'']) (\<lambda>flows.
     bindR (value_at values (''Stress-case Monthly Burn'', period)) (\<lambda>burn.
       Inr (dsum flows, burn,
         ''(Opening Cash + Operating Cash Flow + Capital Expenditure + Financing Cash Flow) '' @
         ''/ Stress-case Monthly Burn'', ''months'')))"

definition ebitda_of :: "string \<Rightarrow> values_dict \<Rightarrow> (calc_error, rat \<times> rat) result" where
  "ebitda_of period values =
     bindR (value_at values (''Revenue'', period)) (\<lambda>revenue.
     bindR (value_at values (''Cost of Goods Sold'', period)) (\<lambda>cogs.
     bindR (value_at values (''Operating Expenses (excl. D&A)'', period)) (\<lambda>opex.
       Inr (revenue, dsub (dsub revenue cogs) opex))))"

definition margin_terms ::
  "CalculationMetric \<Rightarrow> string \<Rightarrow> values_dict \<Rightarrow> (calc_error, metric_terms) result" where
  "margin_terms metric period values =
     bindR (ebitda_of period values) (\<lambda>(revenue, ebitda).
       if metric = EBITDA_MARGIN then
         Inr (ebitda, revenue,
           ''((Revenue - Cost of Goods Sold - Operating Expenses (excl. D&A)) / Revenue)'' @ times_100,
           ''percent'')
       else
         bindR (value_at values (''Depreciation & Amortization'', period)) (\<lambda>depreciation.
         bindR (value_at values (''Interest Expense'', period)) (\<lambda>interest.
         bindR (value_at values (''Tax Expense'', period)) (\<lambda>tax.
           Inr (dsub (dsub (dsub ebitda depreciation) interest) tax, revenue,
             ''((Revenue - Cost of Goods Sold - Operating Expenses (excl. D&A) - '' @
             ''Depreciation & Amortization - Interest Expense - Tax Expense) '' @
             ''/ Revenue)'' @ times_100, ''percent'')))))"

definition metric_terms_of ::
  "CalculationMetric \<Rightarrow> string \<Rightarrow> values_dict \<Rightarrow> (calc_error, metric_terms) result" where
  "metric_terms_of metric period values =
     (if metric = REVENUE_GROWTH then growth_terms period values
      else if metric = CAGR then cagr_terms period values
      else if metric = DEBT_TO_EQUITY then debt_terms period values
      else if metric = CASH_RUNWAY then runway_terms period values
      else margin_terms metric period values)"

definition calculate ::
  "(string \<Rightarrow> uuid) \<Rightarrow> CalculationMetric \<Rightarrow> string \<Rightarrow> string \<Rightarrow> string \<Rightarrow>
   TrustedCalculationInput list \<Rightarrow> (calc_error, CalculationResult) result" where
  "calculate uuid5 metric company_slug period document_version_id inputs =
     bindR (required_inputs metric period) (\<lambda>expected.
     let values = values_of inputs in
     if length values \<noteq> length inputs \<or> map fst values \<noteq> expected
     then Inl (CalculationError INPUTS_INVALID)
     else bindR (metric_terms_of metric period values) (\<lambda>(numerator, denominator, formula, unit).
       if denominator = 0 then Inl (CalculationError DIVISION_BY_ZERO)
       else
         let multiplier = (if unit = ''percent'' then 100 else 1) in
         case quantize6 (dmul (ddiv numerator denominator) multiplier) of
           None \<Rightarrow> Inl DecimalInvalidOperation
         | Some res \<Rightarrow> mk_CalculationResult
             \<lparr>cr_calculation_id = uuid5 (''secure-portfolio:'' @ metric_value metric @ '':'' @ company_slug
                @ '':'' @ period @ '':'' @ document_version_id),
              cr_metric = metric, cr_company_slug = company_slug, cr_period = period,
              cr_formula = formula, cr_trusted_inputs = inputs, cr_result = res,
              cr_unit = unit, cr_warnings = []\<rparr>))"

definition direct_metric_result ::
  "(string \<Rightarrow> uuid) \<Rightarrow> string \<Rightarrow> string \<Rightarrow> string \<Rightarrow> TrustedCalculationInput \<Rightarrow>
   (calc_error, CalculationResult) result" where
  "direct_metric_result uuid5 company_slug period document_version_id trusted_input =
     mk_CalculationResult
       \<lparr>cr_calculation_id = uuid5 (''secure-portfolio:financial_metric:'' @ ti_name trusted_input
          @ '':'' @ company_slug @ '':'' @ period @ '':'' @ document_version_id),
        cr_metric = FINANCIAL_METRIC, cr_company_slug = company_slug, cr_period = period,
        cr_formula = ''Direct authorized structured metric lookup'',
        cr_trusted_inputs = [trusted_input], cr_result = ti_value trusted_input,
        cr_unit = ''INR crore'', cr_warnings = []\<rparr>"

definition derived_profit_metric_result ::
  "(string \<Rightarrow> uuid) \<Rightarrow> string \<Rightarrow> string \<Rightarrow> string \<Rightarrow> string \<Rightarrow>
   TrustedCalculationInput list \<Rightarrow> (calc_error, CalculationResult) result" where
  "derived_profit_metric_result uuid5 metric_name company_slug period document_version_id inputs =
    (let metric = (if metric_name = ''EBITDA'' then EBITDA_MARGIN else NET_PROFIT_MARGIN) in
     bindR (calculate uuid5 metric company_slug period document_version_id inputs) (\<lambda>_.
     let values = values_of inputs in
     bindR (ebitda_of period values) (\<lambda>(revenue, ebitda).
     bindR (if metric_name = ''Net Profit'' then
              bindR (value_at values (''Depreciation & Amortization'', period)) (\<lambda>depreciation.
              bindR (value_at values (''Interest Expense'', period)) (\<lambda>interest.
              bindR (value_at values (''Tax Expense'', period)) (\<lambda>tax.
                Inr (dsub ebitda (dadd (dadd depreciation interest) tax),
                  ''Revenue - Cost of Goods Sold - Operating Expenses (excl. D&A)'' @
                  '' - Depreciation & Amortization - Interest Expense - Tax Expense''))))
            else Inr (ebitda, ''Revenue - Cost of Goods Sold - Operating Expenses (excl. D&A)''))
       (\<lambda>(value, formula).
     case quantize6 value of
       None \<Rightarrow> Inl DecimalInvalidOperation
     | Some res \<Rightarrow> mk_CalculationResult
         \<lparr>cr_calculation_id = uuid5 (''secure-portfolio:financial_metric:'' @ metric_name @ '':''
            @ company_slug @ '':'' @ period @ '':'' @ document_version_id),
          cr_metric = FINANCIAL_METRIC, cr_company_slug = company_slug, cr_period = period,
          cr_formula = formula, cr_trusted_inputs = inputs, cr_result = res,
          cr_unit = ''INR crore'',
          cr_warnings = [''Derived from authorized raw rows; workbook formula cells were not trusted.'']\<rparr>))))"

text \<open>The growth rate over several years.\<close>

definition calculate_cagr ::
  "(string \<Rightarrow> uuid) \<Rightarrow> (rat \<Rightarrow> rat \<Rightarrow> rat option) \<Rightarrow> string \<Rightarrow> string \<Rightarrow> string \<Rightarrow> string \<Rightarrow>
   TrustedCalculationInput list \<Rightarrow> (calc_error, CalculationResult) result" where
  "calculate_cagr uuid5 dec_pow company_slug start_period end_period document_version_id inputs =
    (case (py_int (drop 2 end_period), py_int (drop 2 start_period)) of
       (Some e, Some s) \<Rightarrow>
        (let years = e - s; values = values_of inputs in
         if years \<le> 0 \<or> map fst values \<noteq> [(''Revenue'', start_period), (''Revenue'', end_period)]
            \<or> length values \<noteq> 2
         then Inl (CalculationError INPUTS_INVALID)
         else bindR (value_at values (''Revenue'', start_period)) (\<lambda>start.
           bindR (value_at values (''Revenue'', end_period)) (\<lambda>en.
           if start \<le> 0 then Inl (CalculationError INPUTS_INVALID)
           else case dec_pow (ddiv en start) (ddiv 1 (of_int years)) of
             None \<Rightarrow> Inl (CalculationError INPUTS_INVALID)
           | Some grown \<Rightarrow>
             (case quantize6 (dmul (dsub grown 1) 100) of
                None \<Rightarrow> Inl DecimalInvalidOperation
              | Some res \<Rightarrow> mk_CalculationResult
                  \<lparr>cr_calculation_id = uuid5 (''secure-portfolio:cagr:'' @ company_slug @ '':''
                     @ start_period @ '':'' @ end_period @ '':'' @ document_version_id),
                   cr_metric = CAGR, cr_company_slug = company_slug, cr_period = end_period,
                   cr_formula = ''((Revenue['' @ end_period @ ''] / Revenue['' @ start_period
                     @ '']) ^ (1 / '' @ str_int years @ '') - 1)'' @ times_100,
                   cr_trusted_inputs = inputs, cr_result = res, cr_unit = ''percent'',
                   cr_warnings = []\<rparr>))))
     | _ \<Rightarrow> Inl PeriodValueError)"

subsection \<open>The exact metrics\<close>

text \<open>The metric as a rational expression of the input values, in the order of \<open>required_inputs\<close>.\<close>

fun exact_metric :: "CalculationMetric \<Rightarrow> rat list \<Rightarrow> rat" where
  "exact_metric EBITDA_MARGIN [revenue, cogs, opex] = (revenue - cogs - opex) / revenue * 100"
| "exact_metric NET_PROFIT_MARGIN [revenue, cogs, opex, dep, interest, tax] =
     (revenue - cogs - opex - dep - interest - tax) / revenue * 100"
| "exact_metric REVENUE_GROWTH [prior, current] = (current - prior) / prior * 100"
| "exact_metric CAGR [prior, current] = (current / prior - 1) * 100"
| "exact_metric DEBT_TO_EQUITY [cash, receivable, inventory, ppe, debt, payable, other] =
     debt / ((cash + receivable + inventory + ppe) - (debt + payable + other))"
| "exact_metric CASH_RUNWAY [opening, operating, capex, financing, burn] =
     (opening + operating + capex + financing) / burn"
| "exact_metric _ _ = 0"

text \<open>A value with at most fifteen decimals and a magnitude of at most \<open>n * 10 ^ 12\<close>.\<close>

definition decimals15 :: "int \<Rightarrow> rat \<Rightarrow> bool" where
  "decimals15 n x \<longleftrightarrow> (\<exists>m. x = of_int m / 10 ^ 15 \<and> \<bar>m\<bar> \<le> n * 10 ^ 27)"

subsection \<open>Exact additions and subtractions\<close>

lemma decimals15_ctx: "decimals15 n x \<Longrightarrow> n \<le> 9 \<Longrightarrow> ctx x = x"
proof -
  assume "decimals15 n x" and n: "n \<le> 9"
  then obtain m where x: "x = of_int m / 10 ^ 15" and m: "\<bar>m\<bar> \<le> n * 10 ^ 27"
    by (auto simp: decimals15_def)
  have "n * 10 ^ 27 \<le> 9 * 10 ^ 27" using n by (intro mult_right_mono) simp_all
  with m have "\<bar>m\<bar> < 10 ^ 28" by simp
  with x show "ctx x = x" by (rule ctx_exact)
qed

lemma decimals15_combine:
  assumes "decimals15 a x" and "decimals15 b y"
  shows "decimals15 (a + b) (x + y)" and "decimals15 (a + b) (x - y)"
proof -
  from assms obtain m k where x: "x = of_int m / 10 ^ 15" "\<bar>m\<bar> \<le> a * 10 ^ 27"
    and y: "y = of_int k / 10 ^ 15" "\<bar>k\<bar> \<le> b * 10 ^ 27"
    by (auto simp: decimals15_def)
  have bound: "\<bar>m + k\<bar> \<le> (a + b) * 10 ^ 27" "\<bar>m - k\<bar> \<le> (a + b) * 10 ^ 27"
    using x(2) y(2) by (simp_all add: distrib_right)
  have eq: "x + y = of_int (m + k) / 10 ^ 15" "x - y = of_int (m - k) / 10 ^ 15"
    using x(1) y(1) by (simp_all add: add_divide_distrib diff_divide_distrib)
  show "decimals15 (a + b) (x + y)" unfolding decimals15_def using bound(1) eq(1) by blast
  show "decimals15 (a + b) (x - y)" unfolding decimals15_def using bound(2) eq(2) by blast
qed

text \<open>Sums and differences of a few bounded inputs are exact.\<close>

lemma exact_ops:
  assumes "decimals15 a x" and "decimals15 b y" and "a + b \<le> 9"
  shows "dadd x y = x + y" and "dsub x y = x - y"
  unfolding dadd_def dsub_def using decimals15_combine [OF assms(1,2)] assms(3)
  by (auto intro: decimals15_ctx)

lemma decimals15_0: "decimals15 0 0"
  by (simp add: decimals15_def)

lemmas exact_chain = decimals15_combine exact_ops decimals15_0

lemma dsum3: "decimals15 1 a \<Longrightarrow> decimals15 1 b \<Longrightarrow> decimals15 1 c \<Longrightarrow>
   dsum [a, b, c] = a + b + c \<and> decimals15 3 (a + b + c)"
  using exact_ops(1) [of 0 0 1 a] exact_ops(1) [of 1 a 1 b] exact_ops(1) [of 2 "a + b" 1 c]
    decimals15_combine(1) [of 1 a 1 b] decimals15_combine(1) [of 2 "a + b" 1 c] decimals15_0
  by (simp add: dsum_def)

lemma dsum4: "decimals15 1 a \<Longrightarrow> decimals15 1 b \<Longrightarrow> decimals15 1 c \<Longrightarrow> decimals15 1 d \<Longrightarrow>
   dsum [a, b, c, d] = a + b + c + d \<and> decimals15 4 (a + b + c + d)"
  using dsum3 [of a b c] exact_ops(1) [of 3 "a + b + c" 1 d]
    decimals15_combine(1) [of 3 "a + b + c" 1 d]
  by (simp add: dsum_def)

subsection \<open>The accepted inputs\<close>

lemma values_of_keys:
  assumes "length (values_of inputs) = length inputs"
  shows "values_of inputs = map (\<lambda>i. ((ti_name i, ti_period i), ti_value i)) inputs"
    and "distinct (map (\<lambda>i. (ti_name i, ti_period i)) inputs)"
  using assms length_dict_of_iff [of "map (\<lambda>i. ((ti_name i, ti_period i), ti_value i)) inputs"]
  by (simp_all add: values_of_def dict_of_distinct comp_def)

text \<open>A successful calculation was given exactly the required inputs, in their order, and its
  numerator, denominator and unit are those of the metric.\<close>

lemma calculate_success:
  assumes "calculate uuid5 metric slug period version inputs = Inr r"
  obtains expected n d f u where
    "required_inputs metric period = Inr expected"
    "map (\<lambda>i. (ti_name i, ti_period i)) inputs = expected"
    "distinct expected"
    "values_of inputs = zip expected (map ti_value inputs)"
    "metric_terms_of metric period (values_of inputs) = Inr (n, d, f, u)"
    "d \<noteq> 0"
    "quantize6 (dmul (ddiv n d) (if u = ''percent'' then 100 else 1)) = Some (cr_result r)"
    "calculation_result_ok r"
proof -
  from assms obtain expected where req: "required_inputs metric period = Inr expected"
    and len: "length (values_of inputs) = length inputs"
    and keys: "map fst (values_of inputs) = expected"
    and rest: "bindR (metric_terms_of metric period (values_of inputs)) (\<lambda>(n, d, f, u).
       if d = 0 then Inl (CalculationError DIVISION_BY_ZERO)
       else
         case quantize6 (dmul (ddiv n d) (if u = ''percent'' then 100 else 1)) of
           None \<Rightarrow> Inl DecimalInvalidOperation
         | Some res \<Rightarrow> mk_CalculationResult
             \<lparr>cr_calculation_id = uuid5 (''secure-portfolio:'' @ metric_value metric @ '':'' @ slug
                @ '':'' @ period @ '':'' @ version),
              cr_metric = metric, cr_company_slug = slug, cr_period = period,
              cr_formula = f, cr_trusted_inputs = inputs, cr_result = res,
              cr_unit = u, cr_warnings = []\<rparr>) = Inr r"
    by (auto simp: calculate_def Let_def bindR_Inr_iff split: if_splits)
  note vk = values_of_keys [OF len]
  from keys have e: "map (\<lambda>i. (ti_name i, ti_period i)) inputs = expected"
    by (simp add: vk(1) comp_def)
  have z: "values_of inputs = zip expected (map ti_value inputs)"
    unfolding vk(1) e [symmetric] by (simp add: zip_map_map zip_same_conv_map comp_def)
  from rest obtain n d f u where t: "metric_terms_of metric period (values_of inputs) = Inr (n, d, f, u)"
    by (auto simp: bindR_Inr_iff)
  from rest [unfolded t] that [OF req e _ z t] vk(2) e show thesis
    by (auto simp: mk_CalculationResult_def split: if_splits option.splits)
qed

subsection \<open>Accuracy\<close>

text \<open>An operation whose result is at most \<open>B\<close> is off by at most \<open>B / 10 ^ 27\<close>.\<close>

lemma ctx_near:
  assumes "\<bar>ctx x\<bar> \<le> B"
  shows "\<bar>x\<bar> \<le> 2 * B" and "\<bar>ctx x - x\<bar> \<le> B / 10 ^ 27"
proof -
  have e: "\<bar>ctx x - x\<bar> \<le> \<bar>x\<bar> * (5 / 10 ^ 28)" by (rule ctx_error)
  have "\<bar>x\<bar> * (5 / 10 ^ 28) \<le> \<bar>x\<bar> * (1 / 2)" by (intro mult_left_mono) simp_all
  with e assms show x: "\<bar>x\<bar> \<le> 2 * B" by linarith
  have "\<bar>x\<bar> * (5 / 10 ^ 28) \<le> 2 * B * (5 / 10 ^ 28)" using x by (intro mult_right_mono) simp_all
  with e show "\<bar>ctx x - x\<bar> \<le> B / 10 ^ 27" by simp
qed

lemma abs_chain:
  "\<bar>a - b\<bar> \<le> x \<Longrightarrow> \<bar>b - c\<bar> \<le> y \<Longrightarrow> \<bar>c - d\<bar> \<le> z \<Longrightarrow> \<bar>a - d\<bar> \<le> x + y + (z :: rat)"
  by linarith

lemma quotient_accurate:
  assumes q: "quantize6 (dmul (ddiv n d) m) = Some res" and res: "\<bar>res\<bar> \<le> 1000000"
    and m: "m = 1 \<or> m = 100"
  shows "\<bar>res - n / d * m\<bar> \<le> 51 / 10 ^ 8" and "\<bar>n / d * m\<bar> \<le> 2000000"
proof -
  have r: "\<bar>res - dmul (ddiv n d) m\<bar> \<le> 5 / 10 ^ 7"
    using quantize6_error [OF q] .
  moreover have "(5 :: rat) / 10 ^ 7 \<le> 1" by simp
  ultimately have "\<bar>ctx (ddiv n d * m)\<bar> \<le> 1000001" using res unfolding dmul_def by linarith
  note p = ctx_near [OF this]
  have "\<bar>ctx (n / d)\<bar> * m \<le> 2000002" using p(1) m by (auto simp: ddiv_def abs_mult)
  with m have "\<bar>ctx (n / d)\<bar> \<le> 2000002" by auto
  note q' = ctx_near(2) [OF this]
  have "ddiv n d * m - n / d * m = (ctx (n / d) - n / d) * m"
    by (simp add: ddiv_def left_diff_distrib)
  then have "\<bar>ddiv n d * m - n / d * m\<bar> = \<bar>ctx (n / d) - n / d\<bar> * m"
    using m by (auto simp: abs_mult)
  also have "\<dots> \<le> 2000002 / 10 ^ 27 * 100" using q' m by (intro mult_mono) auto
  finally have s: "\<bar>ddiv n d * m - n / d * m\<bar> \<le> 1 / 10 ^ 9" by simp
  have t: "\<bar>dmul (ddiv n d) m - ddiv n d * m\<bar> \<le> 1 / 10 ^ 9" using p(2) by (simp add: dmul_def)
  have "5 / 10 ^ 7 + 1 / 10 ^ 9 + 1 / 10 ^ 9 \<le> (51 / 10 ^ 8 :: rat)" by simp
  with abs_chain [OF r t s] show close: "\<bar>res - n / d * m\<bar> \<le> 51 / 10 ^ 8" by (rule order_trans)
  have "51 / 10 ^ 8 \<le> (1 :: rat)" by simp
  with close have "\<bar>res - n / d * m\<bar> \<le> 1" by (rule order_trans)
  with abs_triangle_ineq4 [of res "res - n / d * m"] res
  show "\<bar>n / d * m\<bar> \<le> 2000000" by (simp del: times_divide_eq_left times_divide_eq_right)
qed

lemma cagr_accurate:
  assumes "\<bar>dsub (ctx (ddiv c p)) 1\<bar> \<le> 20000"
  shows "\<bar>dsub (ctx (ddiv c p)) 1 - (c / p - 1)\<bar> \<le> 1 / 10 ^ 12"
proof -
  from ctx_near [OF assms [unfolded dsub_def]]
  have a: "\<bar>ctx (ddiv c p) - 1\<bar> \<le> 40000" "\<bar>dsub (ctx (ddiv c p)) 1 - (ctx (ddiv c p) - 1)\<bar> \<le> 1 / 10 ^ 20"
    by (simp_all add: dsub_def)
  then have "\<bar>ctx (ddiv c p)\<bar> \<le> 40001" by linarith
  note b = ctx_near [OF this]
  then have "\<bar>ctx (c / p)\<bar> \<le> 80002" by (simp add: ddiv_def)
  note c = ctx_near(2) [OF this]
  from b(2) have b': "\<bar>ctx (ddiv c p) - ddiv c p\<bar> \<le> 1 / 10 ^ 20" by simp
  from c have c': "\<bar>ddiv c p - c / p\<bar> \<le> 1 / 10 ^ 20" by (simp add: ddiv_def)
  have "3 * (1 / 10 ^ 20) \<le> (1 / 10 ^ 12 :: rat)" by simp
  with a(2) b' c' show ?thesis by linarith
qed

text \<open>The terms of every metric over its own list of values.\<close>

lemma growth_terms_zip:
  assumes "previous_period period = Inr prior" and "distinct [(''Revenue'', prior), (''Revenue'', period)]"
  shows "\<exists>f. metric_terms_of REVENUE_GROWTH period (zip [(''Revenue'', prior), (''Revenue'', period)] [a, b])
      = Inr (dsub b a, a, f, ''percent'')"
    and "\<exists>f. metric_terms_of CAGR period (zip [(''Revenue'', prior), (''Revenue'', period)] [a, b])
      = (if a \<le> 0 then Inl (CalculationError INPUTS_INVALID)
         else Inr (dsub (ctx (ddiv b a)) 1, 1, f, ''percent''))"
  using assms by (auto simp: metric_terms_of_def growth_terms_def cagr_terms_def value_at_def)

lemma ebitda_terms_zip:
  "\<exists>f. metric_terms_of EBITDA_MARGIN period
     (zip [(''Revenue'', period), (''Cost of Goods Sold'', period),
       (''Operating Expenses (excl. D&A)'', period)] [a, b, c]) =
   Inr (dsub (dsub a b) c, a, f, ''percent'')"
  by (simp add: metric_terms_of_def margin_terms_def ebitda_of_def value_at_def)

lemma net_terms_zip:
  "\<exists>f. metric_terms_of NET_PROFIT_MARGIN period
     (zip [(''Revenue'', period), (''Cost of Goods Sold'', period),
       (''Operating Expenses (excl. D&A)'', period), (''Depreciation & Amortization'', period),
       (''Interest Expense'', period), (''Tax Expense'', period)] [a, b, c, x, y, z]) =
   Inr (dsub (dsub (dsub (dsub (dsub a b) c) x) y) z, a, f, ''percent'')"
  by (simp add: metric_terms_of_def margin_terms_def ebitda_of_def value_at_def)

lemma debt_terms_zip:
  "\<exists>f. metric_terms_of DEBT_TO_EQUITY period
     (zip [(''Cash and Cash Equivalents'', period), (''Accounts Receivable'', period),
       (''Inventory / Prepaid Assets'', period), (''Property, Plant & Equipment'', period),
       (''Bank Debt'', period), (''Accounts Payable'', period), (''Other Liabilities'', period)]
       [a, b, c, x, p, q, r]) =
   Inr (p, dsub (dsum [a, b, c, x]) (dsum [p, q, r]), f, ''x'')"
  by (simp add: metric_terms_of_def debt_terms_def values_at_def value_at_def)

lemma runway_terms_zip:
  "\<exists>f. metric_terms_of CASH_RUNWAY period
     (zip [(''Opening Cash'', period), (''Operating Cash Flow'', period),
       (''Capital Expenditure'', period), (''Financing Cash Flow'', period),
       (''Stress-case Monthly Burn'', period)] [a, b, c, x, y]) =
   Inr (dsum [a, b, c, x], y, f, ''months'')"
  by (simp add: metric_terms_of_def runway_terms_def values_at_def value_at_def)

lemmas terms_zip = ebitda_terms_zip net_terms_zip debt_terms_zip runway_terms_zip

lemma metric_terms_exact:
  assumes req: "required_inputs metric period = Inr expected" and "distinct expected"
    and len: "length vs = length expected"
    and vs: "\<forall>v \<in> set vs. decimals15 1 v"
    and t: "metric_terms_of metric period (zip expected vs) = Inr (n, d, f, u)"
    and "metric \<noteq> CAGR"
  shows "n / d * (if u = ''percent'' then 100 else 1) = exact_metric metric vs"
proof (cases metric)
  case FINANCIAL_METRIC
  with req show ?thesis by (simp add: required_inputs_def)
next
  case CAGR
  with \<open>metric \<noteq> CAGR\<close> show ?thesis by simp
next
  case REVENUE_GROWTH
  with req len obtain prior a b where e: "previous_period period = Inr prior" "vs = [a, b]"
    "expected = [(''Revenue'', prior), (''Revenue'', period)]"
    by (auto simp: required_inputs_def bindR_Inr_iff length_Suc_conv numeral_2_eq_2)
  from growth_terms_zip(1) [OF e(1), of a b] t \<open>distinct expected\<close> REVENUE_GROWTH e
  have "n = dsub b a" "d = a" "u = ''percent''" by auto
  with vs e(2) REVENUE_GROWTH exact_ops(2) [of 1 b 1 a] show ?thesis by simp
next
  case EBITDA_MARGIN
  with req len obtain a b c where e: "vs = [a, b, c]"
    by (auto simp: required_inputs_def length_Suc_conv)
  with t req EBITDA_MARGIN ebitda_terms_zip [of period a b c]
  have "n = dsub (dsub a b) c" "d = a" "u = ''percent''"
    by (auto simp: required_inputs_def)
  moreover from vs e have v: "decimals15 1 a" "decimals15 1 b" "decimals15 1 c" by simp_all
  ultimately show ?thesis
    using exact_ops(2) [OF v(1,2)] exact_ops(2) [OF decimals15_combine(2) [OF v(1,2)] v(3)]
      EBITDA_MARGIN e by simp
next
  case NET_PROFIT_MARGIN
  with req len obtain a b c x y z where e: "vs = [a, b, c, x, y, z]"
    by (auto simp: required_inputs_def length_Suc_conv)
  with t req NET_PROFIT_MARGIN net_terms_zip [of period a b c x y z]
  have "n = dsub (dsub (dsub (dsub (dsub a b) c) x) y) z" "d = a" "u = ''percent''"
    by (auto simp: required_inputs_def)
  moreover from vs e have v: "decimals15 1 a" "decimals15 1 b" "decimals15 1 c"
    "decimals15 1 x" "decimals15 1 y" "decimals15 1 z" by simp_all
  note w2 = decimals15_combine(2) [OF v(1,2)]
  note w3 = decimals15_combine(2) [OF w2 v(3)]
  note w4 = decimals15_combine(2) [OF w3 v(4)]
  note w5 = decimals15_combine(2) [OF w4 v(5)]
  have "dsub (dsub (dsub (dsub (dsub a b) c) x) y) z = a - b - c - x - y - z"
    using exact_ops(2) [OF v(1,2)] exact_ops(2) [OF w2 v(3)] exact_ops(2) [OF w3 v(4)]
      exact_ops(2) [OF w4 v(5)] exact_ops(2) [OF w5 v(6)] by simp
  ultimately show ?thesis using NET_PROFIT_MARGIN e by simp
next
  case DEBT_TO_EQUITY
  with req len obtain a b c x p q r where e: "vs = [a, b, c, x, p, q, r]"
    by (auto simp: required_inputs_def length_Suc_conv)
  with t req DEBT_TO_EQUITY debt_terms_zip [of period a b c x p q r]
  have t': "n = p" "d = dsub (dsum [a, b, c, x]) (dsum [p, q, r])" "u = ''x''"
    by (auto simp: required_inputs_def)
  from vs e have v: "decimals15 1 a" "decimals15 1 b" "decimals15 1 c" "decimals15 1 x"
    "decimals15 1 p" "decimals15 1 q" "decimals15 1 r" by simp_all
  have "d = (a + b + c + x) - (p + q + r)"
    using t'(2) dsum4 [OF v(1-4)] dsum3 [OF v(5-7)]
      exact_ops(2) [of 4 "a + b + c + x" 3 "p + q + r"] by simp
  with t' DEBT_TO_EQUITY e show ?thesis by simp
next
  case CASH_RUNWAY
  with req len obtain a b c x y where e: "vs = [a, b, c, x, y]"
    by (auto simp: required_inputs_def length_Suc_conv)
  with t req CASH_RUNWAY runway_terms_zip [of period a b c x y]
  have t': "n = dsum [a, b, c, x]" "d = y" "u = ''months''"
    by (auto simp: required_inputs_def)
  from vs e have v: "decimals15 1 a" "decimals15 1 b" "decimals15 1 c" "decimals15 1 x" by simp_all
  show ?thesis using t' dsum4 [OF v] CASH_RUNWAY e by simp
qed

text \<open>The net assets of a company with cash and payables of \<open>999999999999.9999\<close>, receivables of \<open>10 ^ -16\<close>, an
  inventory of \<open>4 * 10 ^ -17\<close> and a bank debt of \<open>10 ^ -17\<close> are \<open>1.3 * 10 ^ -16\<close>; the engine computes \<open>10 ^ -16\<close>.\<close>

lemma small_amounts_lost:
  "dsub (dsum [9999999999999999 / 10 ^ 4, 1 / 10 ^ 16, 4 / 10 ^ 17, 0]) (dsum [1 / 10 ^ 17, 9999999999999999 / 10 ^ 4, 0]) = 1 / 10 ^ 16"
proof -
  let ?a = "9999999999999999 / 10 ^ 4 :: rat" and ?s = "9999999999999999000000000001 / 10 ^ 16 :: rat"
  have a: "ctx ?a = ?a" by (rule ctx_exact [of _ 9999999999999999 4]) simp_all
  have s: "ctx ?s = ?s" by (rule ctx_exact [of _ 9999999999999999000000000001 16]) simp_all
  have t: "ctx (1 / 10 ^ 17) = 1 / 10 ^ 17" by (rule ctx_exact [of _ 1 17]) simp_all
  have d: "ctx (1 / 10 ^ 16) = 1 / 10 ^ 16" by (rule ctx_exact [of _ 1 16]) simp_all
  have e: "ten_pow (-16) = 1 / 10 ^ 16" "ten_pow 11 = 10 ^ 11" "ten_pow 12 = 10 ^ 12"
    by (simp_all add: ten_pow_def)
  have r1: "round_half_even (9999999999999999000000000001 + 4 / 10) = 9999999999999999000000000001"
    by (rule round_half_even_eq) simp
  have "ctx (?s + 4 / 10 ^ 17) = of_int (round_half_even ((?s + 4 / 10 ^ 17) / ten_pow (11 - 27))) * ten_pow (11 - 27)"
    by (rule ctx_at) (simp_all add: e)
  also have "(?s + 4 / 10 ^ 17) / ten_pow (11 - 27) = 9999999999999999000000000001 + 4 / 10" by (simp add: e)
  finally have c1: "ctx (?s + 4 / 10 ^ 17) = ?s" unfolding r1 by (simp add: e)
  have r2: "round_half_even (9999999999999999000000000000 + 1 / 10) = 9999999999999999000000000000"
    by (rule round_half_even_eq) simp
  have "ctx (?a + 1 / 10 ^ 17) = of_int (round_half_even ((?a + 1 / 10 ^ 17) / ten_pow (11 - 27))) * ten_pow (11 - 27)"
    by (rule ctx_at) (simp_all add: e)
  also have "(?a + 1 / 10 ^ 17) / ten_pow (11 - 27) = 9999999999999999000000000000 + 1 / 10" by (simp add: e)
  finally have c2: "ctx (?a + 1 / 10 ^ 17) = ?a" unfolding r2 by (simp add: e)
  have l: "dsum [?a, 1 / 10 ^ 16, 4 / 10 ^ 17, 0] = ctx (ctx (ctx (ctx (0 + ?a) + 1 / 10 ^ 16) + 4 / 10 ^ 17) + 0)"
    by (simp only: dsum_def foldl.simps dadd_def)
  have as: "?a + 1 / 10 ^ 16 = ?s" by simp
  have l': "dsum [?a, 1 / 10 ^ 16, 4 / 10 ^ 17, 0] = ?s"
    unfolding l by (simp only: add_0 add_0_right a as s c1)
  have r: "dsum [1 / 10 ^ 17, ?a, 0] = ctx (ctx (ctx (0 + 1 / 10 ^ 17) + ?a) + 0)"
    by (simp only: dsum_def foldl.simps dadd_def)
  have r': "dsum [1 / 10 ^ 17, ?a, 0] = ?a"
    unfolding r by (simp only: add_0 add_0_right a t c2 add.commute [of "1 / 10 ^ 17" ?a])
  have "?s - ?a = 1 / 10 ^ 16" by simp
  then show ?thesis unfolding l' r' dsub_def by (simp only: d)
qed
text \<open>C5: accuracy.  When the engine returns a result for inputs that satisfy their contract and have at most fifteen
  decimals, the result is the exact metric of exactly the required inputs up to \<open>6 * 10 ^ -7\<close>, that is, up to the
  rounding of the sixth decimal.  The bound on the decimals is needed: \<open>small_amounts_lost\<close> gives inputs with
  seventeen decimals for which the differences of the code lose the small amounts beside the large ones.\<close>

theorem calculate_accurate:
  assumes ok: "calculate uuid5 metric slug period version inputs = Inr r"
    and inputs: "\<forall>i \<in> set inputs. trusted_input_ok i \<and> decimals15 1 (ti_value i)"
  shows "required_inputs metric period = Inr (map (\<lambda>i. (ti_name i, ti_period i)) inputs) \<and>
    \<bar>cr_result r - exact_metric metric (map ti_value inputs)\<bar> \<le> 6 / 10 ^ 7"
proof
  let ?vs = "map ti_value inputs"
  obtain expected n d f u where
    req: "required_inputs metric period = Inr expected"
    and e: "map (\<lambda>i. (ti_name i, ti_period i)) inputs = expected" and de: "distinct expected"
    and z: "values_of inputs = zip expected ?vs"
    and t: "metric_terms_of metric period (values_of inputs) = Inr (n, d, f, u)" and "d \<noteq> 0"
    and q: "quantize6 (dmul (ddiv n d) (if u = ''percent'' then 100 else 1)) = Some (cr_result r)"
    and rok: "calculation_result_ok r"
    by (rule calculate_success [OF ok])
  from req e show "required_inputs metric period = Inr (map (\<lambda>i. (ti_name i, ti_period i)) inputs)" by simp
  have len: "length ?vs = length expected" using e by (metis length_map)
  have vs: "\<forall>v \<in> set ?vs. decimals15 1 v" using inputs by auto
  have bound: "\<bar>cr_result r\<bar> \<le> 1000000" using rok by (simp add: calculation_result_ok_def)
  have m: "(if u = ''percent'' then 100 else 1 :: rat) = 1 \<or> (if u = ''percent'' then 100 else 1 :: rat) = 100"
    by simp
  note qa = quotient_accurate [OF q bound m]
  show "\<bar>cr_result r - exact_metric metric ?vs\<bar> \<le> 6 / 10 ^ 7"
  proof (cases "metric = CAGR")
    case False
    from metric_terms_exact [OF req de len vs t [unfolded z] False] qa(1)
    have "\<bar>cr_result r - exact_metric metric ?vs\<bar> \<le> 51 / 10 ^ 8" by simp
    then show ?thesis by simp
  next
    case True
    with req len obtain prior a b where p: "previous_period period = Inr prior" "?vs = [a, b]"
      "expected = [(''Revenue'', prior), (''Revenue'', period)]"
      by (auto simp: required_inputs_def bindR_Inr_iff length_Suc_conv numeral_2_eq_2)
    from growth_terms_zip(2) [OF p(1), of a b] t de True p(2,3) z
    have nd: "n = dsub (ctx (ddiv b a)) 1" "d = 1" "u = ''percent''"
      by (auto split: if_splits)
    have "\<bar>n\<bar> \<le> 20000" using qa(2) nd(2,3) by (simp add: abs_mult)
    from cagr_accurate [OF this [unfolded nd(1)]] have "\<bar>n - (b / a - 1)\<bar> \<le> 1 / 10 ^ 12"
      by (simp add: nd(1))
    then have "\<bar>n - (b / a - 1)\<bar> * 100 \<le> 1 / 10 ^ 12 * 100" by (intro mult_right_mono) simp_all
    moreover have "n / d * 100 - (b / a - 1) * 100 = (n - (b / a - 1)) * 100"
      by (simp only: nd(2) div_by_1 left_diff_distrib)
    ultimately have "\<bar>n / d * 100 - (b / a - 1) * 100\<bar> \<le> 1 / 10 ^ 10"
      by (simp only: abs_mult abs_numeral) simp
    moreover have "\<bar>cr_result r - n / d * 100\<bar> \<le> 51 / 10 ^ 8" using qa(1) nd(3) by simp
    moreover have "51 / 10 ^ 8 + 1 / 10 ^ 10 \<le> (6 / 10 ^ 7 :: rat)" by simp
    ultimately have "\<bar>cr_result r - (b / a - 1) * 100\<bar> \<le> 6 / 10 ^ 7" by linarith
    with True p(2) show ?thesis by (simp only: exact_metric.simps)
  qed
qed

text \<open>Without the required inputs, in their order and without repetition, nothing is computed.\<close>

lemma calculate_wrong_inputs:
  assumes "required_inputs metric period = Inr expected"
    and "map (\<lambda>i. (ti_name i, ti_period i)) inputs \<noteq> expected \<or>
         \<not> distinct (map (\<lambda>i. (ti_name i, ti_period i)) inputs)"
  shows "calculate uuid5 metric slug period version inputs = Inl (CalculationError INPUTS_INVALID)"
proof (cases "length (values_of inputs) = length inputs")
  case True
  from assms(2) values_of_keys [OF True] have "map fst (values_of inputs) \<noteq> expected"
    by (simp add: comp_def)
  with assms(1) show ?thesis by (simp only: calculate_def bindR_simps Let_def if_True simp_thms)
next
  case False
  with assms(1) show ?thesis by (simp only: calculate_def bindR_simps Let_def if_True simp_thms)
qed

text \<open>Numerator and denominator as the engine computes them, and the quotient before the last rounding.\<close>

fun fraction :: "CalculationMetric \<Rightarrow> rat list \<Rightarrow> rat \<times> rat" where
  "fraction EBITDA_MARGIN [revenue, cogs, opex] = (dsub (dsub revenue cogs) opex, revenue)"
| "fraction NET_PROFIT_MARGIN [revenue, cogs, opex, dep, interest, tax] =
     (dsub (dsub (dsub (dsub (dsub revenue cogs) opex) dep) interest) tax, revenue)"
| "fraction REVENUE_GROWTH [prior, current] = (dsub current prior, prior)"
| "fraction CAGR [prior, current] = (dsub (ctx (ddiv current prior)) 1, 1)"
| "fraction DEBT_TO_EQUITY [cash, receivable, inventory, ppe, debt, payable, other] =
     (debt, dsub (dsum [cash, receivable, inventory, ppe]) (dsum [debt, payable, other]))"
| "fraction CASH_RUNWAY [opening, operating, capex, financing, burn] =
     (dsum [opening, operating, capex, financing], burn)"
| "fraction _ _ = (0, 0)"

definition metric_unit :: "CalculationMetric \<Rightarrow> string" where
  "metric_unit metric = (if metric = DEBT_TO_EQUITY then ''x'' else if metric = CASH_RUNWAY then ''months'' else ''percent'')"

definition quotient :: "CalculationMetric \<Rightarrow> rat list \<Rightarrow> rat" where
  "quotient metric vs = dmul (ddiv (fst (fraction metric vs)) (snd (fraction metric vs)))
     (if metric_unit metric = ''percent'' then 100 else 1)"

text \<open>The inputs are the required ones, in their order.\<close>

definition inputs_fit :: "CalculationMetric \<Rightarrow> string \<Rightarrow> TrustedCalculationInput list \<Rightarrow> bool" where
  "inputs_fit metric period inputs \<longleftrightarrow>
     required_inputs metric period = Inr (map (\<lambda>i. (ti_name i, ti_period i)) inputs) \<and>
     distinct (map (\<lambda>i. (ti_name i, ti_period i)) inputs)"

definition base_not_positive :: "CalculationMetric \<Rightarrow> TrustedCalculationInput list \<Rightarrow> bool" where
  "base_not_positive metric inputs \<longleftrightarrow> metric = CAGR \<and> ti_value (hd inputs) \<le> 0"

text \<open>What the result model accepts of a rounded result.\<close>

definition acceptable :: "string \<Rightarrow> string \<Rightarrow> rat \<Rightarrow> bool" where
  "acceptable slug period res \<longleftrightarrow> slug_ok slug \<and> length slug \<le> 64 \<and> period_ok period \<and> \<bar>res\<bar> \<le> 1000000"

text \<open>The lookups of a metric find all their keys.\<close>

lemma metric_terms_fraction:
  assumes req: "required_inputs metric period = Inr expected" and "distinct expected"
    and len: "length vs = length expected"
  shows "if metric = CAGR \<and> hd vs \<le> 0
    then metric_terms_of metric period (zip expected vs) = Inl (CalculationError INPUTS_INVALID)
    else \<exists>f. metric_terms_of metric period (zip expected vs) =
      Inr (fst (fraction metric vs), snd (fraction metric vs), f, metric_unit metric)"
proof (cases metric)
  case FINANCIAL_METRIC
  with req show ?thesis by (simp add: required_inputs_def)
next
  case REVENUE_GROWTH
  with req len obtain prior a b where p: "previous_period period = Inr prior" "vs = [a, b]"
    "expected = [(''Revenue'', prior), (''Revenue'', period)]"
    by (auto simp: required_inputs_def bindR_Inr_iff length_Suc_conv numeral_2_eq_2)
  with growth_terms_zip(1) [OF p(1), of a b] \<open>distinct expected\<close> REVENUE_GROWTH show ?thesis
    by (auto simp: metric_unit_def)
next
  case CAGR
  with req len obtain prior a b where p: "previous_period period = Inr prior" "vs = [a, b]"
    "expected = [(''Revenue'', prior), (''Revenue'', period)]"
    by (auto simp: required_inputs_def bindR_Inr_iff length_Suc_conv numeral_2_eq_2)
  with growth_terms_zip(2) [OF p(1), of a b] \<open>distinct expected\<close> CAGR show ?thesis
    by (auto simp: metric_unit_def)
next
  case EBITDA_MARGIN
  with req len obtain a b c where "vs = [a, b, c]"
    by (auto simp: required_inputs_def length_Suc_conv)
  with req EBITDA_MARGIN ebitda_terms_zip [of period a b c] show ?thesis
    by (auto simp: required_inputs_def metric_unit_def)
next
  case NET_PROFIT_MARGIN
  with req len obtain a b c x y z where "vs = [a, b, c, x, y, z]"
    by (auto simp: required_inputs_def length_Suc_conv)
  with req NET_PROFIT_MARGIN net_terms_zip [of period a b c x y z] show ?thesis
    by (auto simp: required_inputs_def metric_unit_def)
next
  case DEBT_TO_EQUITY
  with req len obtain a b c x p q r where "vs = [a, b, c, x, p, q, r]"
    by (auto simp: required_inputs_def length_Suc_conv)
  with req DEBT_TO_EQUITY debt_terms_zip [of period a b c x p q r] show ?thesis
    by (auto simp: required_inputs_def metric_unit_def)
next
  case CASH_RUNWAY
  with req len obtain a b c x y where "vs = [a, b, c, x, y]"
    by (auto simp: required_inputs_def length_Suc_conv)
  with req CASH_RUNWAY runway_terms_zip [of period a b c x y] show ?thesis
    by (auto simp: required_inputs_def metric_unit_def)
qed

lemma required_inputs_length:
  "required_inputs metric period = Inr expected \<Longrightarrow> 1 \<le> length expected \<and> length expected \<le> 10"
  by (cases metric) (auto simp: required_inputs_def bindR_Inr_iff)

text \<open>The text of the previous year is short, so every formula fits its field.\<close>

lemma digits_value_bound: "list_all is_digit ds \<Longrightarrow> digits_value ds < 10 ^ length ds"
proof (induction ds rule: rev_induct)
  case (snoc c ds)
  then have "is_digit c" by simp
  then have "of_char c - 48 < (10 :: nat)" by (auto simp: is_digit_def)
  with snoc show ?case by (simp add: digits_value_def)
qed (simp add: digits_value_def)

lemma length_str_nat: "0 < k \<Longrightarrow> n < 10 ^ k \<Longrightarrow> length (str_nat n) \<le> k"
proof (induction k arbitrary: n)
  case (Suc k)
  show ?case
  proof (cases "n < 10")
    case True
    then show ?thesis by (simp add: str_nat.simps [of n])
  next
    case False
    with Suc.prems have "0 < k" "n div 10 < 10 ^ k" by (cases k; simp add: div_less_iff_less_mult mult.commute)+
    with Suc.IH False show ?thesis by (simp add: str_nat.simps [of n])
  qed
qed simp

lemma split_on_none: "c \<notin> set x \<Longrightarrow> split_on c x = [x]"
proof -
  have "split_on_acc c w x = [w @ x]" if "c \<notin> set x" for w using that by (induction x arbitrary: w) auto
  then show "c \<notin> set x \<Longrightarrow> split_on c x = [x]" by (simp add: split_on_def)
qed

lemma strip_digits: "list_all is_digit x \<Longrightarrow> strip x = x"
proof -
  assume x: "list_all is_digit x"
  have nb: "is_digit c \<Longrightarrow> \<not> is_space c" for c by (auto simp: is_digit_def is_space_def Let_def)
  have "lstrip x = x" using x nb by (cases x) (auto simp: lstrip_def)
  moreover have "rstrip x = x" using x nb by (intro rstrip_fixed) (auto simp: list_all_iff)
  ultimately show ?thesis by (simp add: strip_def)
qed

lemma py_int_digits:
  assumes "list_all is_digit x" and "x \<noteq> []"
  shows "py_int x = Some (int (digits_value x))"
proof -
  obtain c cs where c: "x = c # cs" using assms(2) by (cases x) auto
  with assms(1) have "c \<noteq> CHR ''-''" "c \<noteq> CHR ''+''" "CHR ''_'' \<notin> set x"
    by (auto simp: is_digit_def list_all_iff)
  then show ?thesis using assms strip_digits [OF assms(1)] c
    by (simp add: py_int_def split_on_none)
qed

lemma previous_period_short:
  assumes "period_ok period" and "previous_period period = Inr prior"
  shows "length prior = 6"
proof -
  let ?d = "drop 2 period"
  have len: "length ?d = 4" and dig: "list_all is_digit ?d" and pre: "removeprefix ''FY'' period = ?d"
    using assms(1) by (simp_all add: period_ok_def removeprefix_def eval_nat_numeral)
  then have "py_int (removeprefix ''FY'' period) = Some (int (digits_value ?d))"
    by (metis py_int_digits list.size(3) zero_neq_numeral)
  then have p: "prior = ''FY'' @ fmt_04d (int (digits_value ?d) - 1)"
    using assms(2) by (simp add: previous_period_def)
  have "length (fmt_04d (int (digits_value ?d) - 1)) = 4"
  proof (cases "digits_value ?d")
    case 0
    then show ?thesis by (simp add: fmt_04d_def zfill_def str_nat.simps [of "Suc 0"])
  next
    case (Suc n)
    have "n < 10 ^ 4" using digits_value_bound [OF dig] Suc len by simp
    with length_str_nat [of 4 n] Suc show ?thesis by (simp add: fmt_04d_def zfill_def)
  qed
  then show ?thesis by (simp add: p)
qed

lemma formula_fits:
  assumes "period_ok period" and "metric_terms_of metric period values = Inr (n, d, f, u)"
  shows "1 \<le> length f \<and> length f \<le> 400"
  using assms previous_period_short [OF assms(1)]
  by (auto simp: metric_terms_of_def growth_terms_def cagr_terms_def debt_terms_def runway_terms_def margin_terms_def
      bindR_Inr_iff times_100_def period_ok_def split: if_splits)

lemma inputs_fit_values:
  assumes "inputs_fit metric period inputs"
  shows "length (values_of inputs) = length inputs"
    and "map fst (values_of inputs) = map (\<lambda>i. (ti_name i, ti_period i)) inputs"
    and "values_of inputs = zip (map (\<lambda>i. (ti_name i, ti_period i)) inputs) (map ti_value inputs)"
  using assms by (simp_all add: inputs_fit_def values_of_def dict_of_distinct comp_def zip_map_map zip_same_conv_map)

text \<open>The outcome for inputs that fit.\<close>

lemma calculate_fit:
  assumes "inputs_fit metric period inputs"
  shows "calculate uuid5 metric slug period version inputs =
     (if base_not_positive metric inputs then Inl (CalculationError INPUTS_INVALID)
      else if snd (fraction metric (map ti_value inputs)) = 0 then Inl (CalculationError DIVISION_BY_ZERO)
      else calculate uuid5 metric slug period version inputs) \<and>
    (\<not> base_not_positive metric inputs \<and> snd (fraction metric (map ti_value inputs)) \<noteq> 0 \<longrightarrow>
      (case quantize6 (quotient metric (map ti_value inputs)) of
         None \<Rightarrow> calculate uuid5 metric slug period version inputs = Inl DecimalInvalidOperation
       | Some res \<Rightarrow> if acceptable slug period res then isOk (calculate uuid5 metric slug period version inputs)
           else calculate uuid5 metric slug period version inputs = Inl ResultValidationError))"
proof -
  let ?keys = "map (\<lambda>i. (ti_name i, ti_period i)) inputs" and ?vs = "map ti_value inputs"
  have req: "required_inputs metric period = Inr ?keys" and dk: "distinct ?keys" using assms by (simp_all add: inputs_fit_def)
  note v = inputs_fit_values [OF assms]
  have len: "1 \<le> length inputs" "length inputs \<le> 10" using required_inputs_length [OF req] by simp_all
  then have hd: "hd ?vs = ti_value (hd inputs)" by (cases inputs) simp_all
  note t = metric_terms_fraction [OF req dk, of ?vs, folded v(3), unfolded hd]
  show ?thesis
  proof (cases "base_not_positive metric inputs")
    case True
    with t req v show ?thesis by (simp add: base_not_positive_def calculate_def Let_def)
  next
    case False
    then obtain f where f: "metric_terms_of metric period (values_of inputs) =
        Inr (fst (fraction metric ?vs), snd (fraction metric ?vs), f, metric_unit metric)"
      using t by (auto simp: base_not_positive_def split: if_splits)
    have c: "calculate uuid5 metric slug period version inputs =
      (if snd (fraction metric ?vs) = 0 then Inl (CalculationError DIVISION_BY_ZERO)
       else case quantize6 (quotient metric ?vs) of None \<Rightarrow> Inl DecimalInvalidOperation
         | Some res \<Rightarrow> mk_CalculationResult
             \<lparr>cr_calculation_id = uuid5 (''secure-portfolio:'' @ metric_value metric @ '':'' @ slug
                @ '':'' @ period @ '':'' @ version),
              cr_metric = metric, cr_company_slug = slug, cr_period = period,
              cr_formula = f, cr_trusted_inputs = inputs, cr_result = res,
              cr_unit = metric_unit metric, cr_warnings = []\<rparr>)"
      by (simp only: calculate_def req bindR_simps Let_def v(1,2) f prod.case quotient_def simp_thms if_False)
    have fit: "period_ok period \<Longrightarrow> Suc 0 \<le> length f \<and> length f \<le> 400" using formula_fits [OF _ f] by simp
    have "metric_unit metric \<in> {''percent'', ''x'', ''months'', ''INR crore''}" by (simp add: metric_unit_def)
    with False len fit show ?thesis
      by (auto simp: c mk_CalculationResult_def calculation_result_ok_def acceptable_def split: option.splits)
  qed
qed

lemma calculate_unfit:
  assumes "\<not> inputs_fit metric period inputs"
  shows "calculate uuid5 metric slug period version inputs = Inl (CalculationError INPUTS_INVALID)"
proof (cases "required_inputs metric period")
  case (Inl e)
  then have "e = CalculationError INPUTS_INVALID"
    by (cases metric) (auto simp: required_inputs_def previous_period_def bindR_Inl_iff split: option.splits)
  with Inl show ?thesis by (simp add: calculate_def)
next
  case (Inr expected)
  with assms show ?thesis by (intro calculate_wrong_inputs) (auto simp: inputs_fit_def)
qed

text \<open>C6: every failure of the engine has exactly its documented cause.  \<^verbatim>\<open>INPUTS_INVALID\<close>: the inputs are not the
  required ones in their order, or the base of a growth rate over years is not positive.  \<^verbatim>\<open>DIVISION_BY_ZERO\<close>: the
  denominator of the metric is zero.  A decimal overflow: the computed quotient has more than 28 digits at six
  decimals.  A validation error: the company, the period or the rounded result is outside the result model.  In all
  other cases there is a result, so no lookup ever misses its key and missing inputs are never reported here.\<close>

theorem calculate_errors:
  "(calculate uuid5 metric slug period version inputs = Inl (CalculationError INPUTS_INVALID) \<longleftrightarrow>
      \<not> (inputs_fit metric period inputs \<and> \<not> base_not_positive metric inputs)) \<and>
    (calculate uuid5 metric slug period version inputs = Inl (CalculationError DIVISION_BY_ZERO) \<longleftrightarrow>
      inputs_fit metric period inputs \<and> \<not> base_not_positive metric inputs \<and> snd (fraction metric (map ti_value inputs)) = 0) \<and>
    (calculate uuid5 metric slug period version inputs = Inl DecimalInvalidOperation \<longleftrightarrow>
      inputs_fit metric period inputs \<and> \<not> base_not_positive metric inputs \<and> snd (fraction metric (map ti_value inputs)) \<noteq> 0 \<and>
      10 ^ 28 \<le> \<bar>round_half_up (quotient metric (map ti_value inputs) * 10 ^ 6)\<bar>) \<and>
    (calculate uuid5 metric slug period version inputs = Inl ResultValidationError \<longleftrightarrow>
      inputs_fit metric period inputs \<and> \<not> base_not_positive metric inputs \<and> snd (fraction metric (map ti_value inputs)) \<noteq> 0 \<and>
      (\<exists>res. quantize6 (quotient metric (map ti_value inputs)) = Some res \<and> \<not> acceptable slug period res)) \<and>
    (isOk (calculate uuid5 metric slug period version inputs) \<longleftrightarrow>
      inputs_fit metric period inputs \<and> \<not> base_not_positive metric inputs \<and> snd (fraction metric (map ti_value inputs)) \<noteq> 0 \<and>
      (\<exists>res. quantize6 (quotient metric (map ti_value inputs)) = Some res \<and> acceptable slug period res))"
proof (cases "inputs_fit metric period inputs")
  case False
  then show ?thesis by (simp add: calculate_unfit)
next
  case True
  have q: "quantize6 x = None \<longleftrightarrow> 10 ^ 28 \<le> \<bar>round_half_up (x * 10 ^ 6)\<bar>" for x
    by (auto simp: quantize6_def Let_def)
  show ?thesis unfolding q [symmetric]
    using calculate_fit [OF True, of uuid5 slug version] True
    by (cases "quantize6 (quotient metric (map ti_value inputs))") (auto split: if_splits)
qed

definition sample_citation :: CalculationCitation where
  "sample_citation = \<lparr>cc_document_id = 1, cc_document_version_id = 2, cc_chunk_id = 3,
     cc_document_title = ''pl.xlsx'', cc_version_number = 1, cc_excerpt = ''row'', cc_sheet_name = ''P&L'',
     cc_row_start = 2, cc_row_end = 2, cc_cell_start = ''B2'', cc_cell_end = ''B2''\<rparr>"

definition sample_input :: "string \<Rightarrow> rat \<Rightarrow> TrustedCalculationInput" where
  "sample_input name v = \<lparr>ti_name = name, ti_period = ''FY2024'', ti_value = v,
     ti_unit = ''INR crore'', ti_citation = sample_citation\<rparr>"

definition sample_inputs :: "TrustedCalculationInput list" where
  "sample_inputs = [sample_input ''Revenue'' 100, sample_input ''Cost of Goods Sold'' 50,
     sample_input ''Operating Expenses (excl. D&A)'' 30]"

lemma ctx_samples: "ctx 50 = 50" "ctx 20 = 20" "ctx (1 / 5) = 1 / 5"
  using ctx_exact [of 50 50 0] ctx_exact [of 20 20 0] ctx_exact [of "1 / 5" 2 1] by simp_all

lemma quantize6_sample: "quantize6 20 = Some 20"
  by (simp add: quantize6_def Let_def round_half_up_def floor_eq_iff)

lemmas sample_simps = sample_inputs_def sample_input_def sample_citation_def

lemma sample_values:
  "values_of sample_inputs = zip [(''Revenue'', ''FY2024''), (''Cost of Goods Sold'', ''FY2024''),
     (''Operating Expenses (excl. D&A)'', ''FY2024'')] [100, 50, 30]"
  by (simp add: values_of_def dict_of_def sample_simps)

lemma sample_calculation:
  "\<exists>r. calculate (\<lambda>_. 9) EBITDA_MARGIN ''orion'' ''FY2024'' ''v1'' sample_inputs = Inr r \<and>
     cr_result r = 20"
proof -
  have t: "metric_terms_of EBITDA_MARGIN ''FY2024'' (values_of sample_inputs) = Inr (20, 100,
      ''((Revenue - Cost of Goods Sold - Operating Expenses (excl. D&A)) / Revenue)'' @ times_100, ''percent'')"
    unfolding sample_values
    by (simp add: metric_terms_of_def margin_terms_def ebitda_of_def value_at_def dsub_def ctx_samples)
  have q: "quantize6 (dmul (ddiv 20 100) 100) = Some 20"
    by (simp add: dmul_def ddiv_def ctx_samples quantize6_sample)
  have "length sample_inputs = 3" by (simp add: sample_inputs_def)
  then show ?thesis
    by (simp add: calculate_def required_inputs_def Let_def t q mk_CalculationResult_def
      calculation_result_ok_def slug_ok_def split_on_def period_ok_def is_lower_def
      is_digit_def times_100_def) (simp add: sample_values)
qed

lemma decimals15_of_int: "\<bar>m\<bar> \<le> 10 ^ 12 \<Longrightarrow> decimals15 1 (of_int m)"
  unfolding decimals15_def by (intro exI [of _ "m * 10 ^ 15"]) (simp add: abs_mult)

lemma sample_inputs_ok:
  "\<forall>i \<in> set sample_inputs. trusted_input_ok i \<and> decimals15 1 (ti_value i)"
  using decimals15_of_int [of 100] decimals15_of_int [of 50] decimals15_of_int [of 30]
  by (simp add: sample_simps trusted_input_ok_def citation_ok_def period_ok_def cell_ok_def
    is_digit_def is_upper_def)

theorem calculate_accurate_witness:
  "\<exists>r. calculate (\<lambda>_. 9) EBITDA_MARGIN ''orion'' ''FY2024'' ''v1'' sample_inputs = Inr r \<and>
     \<bar>cr_result r - exact_metric EBITDA_MARGIN [100, 50, 30]\<bar> \<le> 6 / 10 ^ 7"
proof -
  obtain r where r: "calculate (\<lambda>_. 9) EBITDA_MARGIN ''orion'' ''FY2024'' ''v1'' sample_inputs = Inr r"
    using sample_calculation by blast
  have "map ti_value sample_inputs = [100, 50, 30]" by (simp add: sample_simps)
  with calculate_accurate [OF r sample_inputs_ok] r show ?thesis by auto
qed

subsection \<open>Derived absolute metrics\<close>

lemma margin_inputs_distinct:
  "required_inputs metric period = Inr e \<Longrightarrow> metric = EBITDA_MARGIN \<or> metric = NET_PROFIT_MARGIN \<Longrightarrow>
   distinct e"
  by (auto simp: required_inputs_def)

text \<open>The absolute profit metrics reuse the margin calculator for the validation of their inputs,
  and with it inherit its division: for a period without revenue the engine reports a division by
  zero although EBITDA and net profit themselves divide by nothing.\<close>

theorem derived_profit_zero_revenue:
  assumes "required_inputs (if name = ''EBITDA'' then EBITDA_MARGIN else NET_PROFIT_MARGIN) period
      = Inr (map (\<lambda>i. (ti_name i, ti_period i)) inputs)"
    and "inputs \<noteq> []" and "ti_value (hd inputs) = 0"
  shows "derived_profit_metric_result uuid5 name slug period version inputs
    = Inl (CalculationError DIVISION_BY_ZERO)"
proof -
  define metric where "metric = (if name = ''EBITDA'' then EBITDA_MARGIN else NET_PROFIT_MARGIN)"
  let ?keys = "map (\<lambda>i. (ti_name i, ti_period i)) inputs"
  have m: "metric = EBITDA_MARGIN \<or> metric = NET_PROFIT_MARGIN" by (simp add: metric_def)
  have req: "required_inputs metric period = Inr ?keys" using assms(1) by (simp add: metric_def)
  have dk: "distinct ?keys" using margin_inputs_distinct [OF req] m by blast
  then have v: "values_of inputs = zip ?keys (map ti_value inputs)"
    by (simp add: values_of_def dict_of_distinct comp_def zip_map_map zip_same_conv_map)
  have len: "length (values_of inputs) = length inputs" and keys: "map fst (values_of inputs) = ?keys"
    by (simp_all add: v)
  have "\<exists>n f u. metric_terms_of metric period (values_of inputs) = Inr (n, 0, f, u)"
  proof (cases "metric = EBITDA_MARGIN")
    case True
    with req have k: "?keys = [(''Revenue'', period), (''Cost of Goods Sold'', period),
        (''Operating Expenses (excl. D&A)'', period)]" by (simp add: required_inputs_def)
    then obtain a b c where "inputs = [a, b, c]" by (auto simp: map_eq_Cons_conv)
    then have "map ti_value inputs = [0, ti_value b, ti_value c]" using assms(3) by simp
    then show ?thesis unfolding v k True
      using ebitda_terms_zip [of period 0 "ti_value b" "ti_value c"] by (auto simp only:)
  next
    case False
    with m req have k: "metric = NET_PROFIT_MARGIN" "?keys = [(''Revenue'', period), (''Cost of Goods Sold'', period),
        (''Operating Expenses (excl. D&A)'', period), (''Depreciation & Amortization'', period),
        (''Interest Expense'', period), (''Tax Expense'', period)]" by (simp_all add: required_inputs_def)
    from k(2) obtain a b c d e f where "inputs = [a, b, c, d, e, f]" by (auto simp: map_eq_Cons_conv)
    then have "map ti_value inputs = [0, ti_value b, ti_value c, ti_value d, ti_value e, ti_value f]"
      using assms(3) by simp
    then show ?thesis unfolding v k
      using net_terms_zip [of period 0 "ti_value b" "ti_value c" "ti_value d" "ti_value e" "ti_value f"]
      by (auto simp only:)
  qed
  then have "calculate uuid5 metric slug period version inputs = Inl (CalculationError DIVISION_BY_ZERO)"
    by (auto simp: calculate_def req Let_def len keys)
  then show ?thesis
    by (simp add: derived_profit_metric_result_def Let_def metric_def [symmetric])
qed

theorem derived_profit_zero_revenue_witness:
  "derived_profit_metric_result (\<lambda>_. 9) ''EBITDA'' ''orion'' ''FY2024'' ''v1''
     [sample_input ''Revenue'' 0, sample_input ''Cost of Goods Sold'' 5,
      sample_input ''Operating Expenses (excl. D&A)'' 3]
   = Inl (CalculationError DIVISION_BY_ZERO)"
  by (rule derived_profit_zero_revenue) (simp_all add: required_inputs_def sample_input_def)

end
