(* ===== verification/Gateway_Contracts.thy ===== *)
theory Gateway_Contracts
  imports Policy Calculations
begin

text \<open>
  The typed contract of the tool gateway, \<^verbatim>\<open>app/mcp_gateway/contracts.py\<close> and
  \<^verbatim>\<open>app/mcp_gateway/errors.py\<close>: the closed list of tools, the strict input models with their
  validation from JSON, the evidence and payload models with their validators, and the
  observation a tool call ends with.

  A call's arguments are a Python dictionary (\<open>pyval\<close>, an association list with distinct keys).
  The validation of a UUID text by pydantic is the argument \<open>parse_uuid\<close>, the text of a UUID is
  \<open>uuid_text\<close>, and \<^verbatim>\<open>openpyxl.utils.cell.coordinate_to_tuple\<close> is \<open>coord\<close>, where \<open>None\<close> is its
  \<^verbatim>\<open>ValueError\<close>.
\<close>

subsection \<open>Tools and reason codes\<close>

datatype ApprovedToolName =
    SEARCH_AUTHORIZED_DOCUMENTS | GET_DOCUMENT_EXCERPT | CALCULATE_EBITDA_MARGIN
  | CALCULATE_REVENUE_GROWTH | CALCULATE_NET_PROFIT_MARGIN | QUERY_FINANCIAL_METRICS
  | CALCULATE_DEBT_TO_EQUITY | CALCULATE_CASH_RUNWAY | CALCULATE_CAGR | SEARCH_MEMORY
  | PROPOSE_MEMORY

fun tool_value :: "ApprovedToolName \<Rightarrow> string" where
  "tool_value SEARCH_AUTHORIZED_DOCUMENTS = ''portfolio.search_authorized_documents''"
| "tool_value GET_DOCUMENT_EXCERPT = ''portfolio.get_document_excerpt''"
| "tool_value CALCULATE_EBITDA_MARGIN = ''portfolio.calculate_ebitda_margin''"
| "tool_value CALCULATE_REVENUE_GROWTH = ''portfolio.calculate_revenue_growth''"
| "tool_value CALCULATE_NET_PROFIT_MARGIN = ''portfolio.calculate_net_profit_margin''"
| "tool_value QUERY_FINANCIAL_METRICS = ''portfolio.query_financial_metrics''"
| "tool_value CALCULATE_DEBT_TO_EQUITY = ''portfolio.calculate_debt_to_equity''"
| "tool_value CALCULATE_CASH_RUNWAY = ''portfolio.calculate_cash_runway''"
| "tool_value CALCULATE_CAGR = ''portfolio.calculate_cagr''"
| "tool_value SEARCH_MEMORY = ''portfolio.search_memory''"
| "tool_value PROPOSE_MEMORY = ''portfolio.propose_memory''"

definition all_tools :: "ApprovedToolName list" where
  "all_tools =
     [SEARCH_AUTHORIZED_DOCUMENTS, GET_DOCUMENT_EXCERPT, CALCULATE_EBITDA_MARGIN,
      CALCULATE_REVENUE_GROWTH, CALCULATE_NET_PROFIT_MARGIN, QUERY_FINANCIAL_METRICS,
      CALCULATE_DEBT_TO_EQUITY, CALCULATE_CASH_RUNWAY, CALCULATE_CAGR, SEARCH_MEMORY,
      PROPOSE_MEMORY]"

definition APPROVED_TOOL_NAMES :: "string list" where
  "APPROVED_TOOL_NAMES = map tool_value all_tools"

text \<open>The call \<^verbatim>\<open>ApprovedToolName(text)\<close>, where \<open>None\<close> is its \<^verbatim>\<open>ValueError\<close>.\<close>

definition ApprovedToolName_of :: "string \<Rightarrow> ApprovedToolName option" where
  "ApprovedToolName_of s = List.find (\<lambda>t. tool_value t = s) all_tools"

datatype GatewayReasonCode =
    TOOL_COMPLETED | UNKNOWN_TOOL | TOOL_NOT_SHORTLISTED | AUTHORIZATION_DENIED
  | INPUT_SCHEMA_REJECTED | OUTPUT_SCHEMA_REJECTED | TOOL_TIMEOUT | TOOL_TRANSIENT_FAILURE
  | TOOL_FAILED_SAFE | CALCULATION_INPUTS_MISSING | CALCULATION_INPUTS_INVALID
  | CALCULATION_DIVISION_BY_ZERO

fun reason_value :: "GatewayReasonCode \<Rightarrow> string" where
  "reason_value TOOL_COMPLETED = ''TOOL_COMPLETED''"
| "reason_value UNKNOWN_TOOL = ''UNKNOWN_TOOL''"
| "reason_value TOOL_NOT_SHORTLISTED = ''TOOL_NOT_SHORTLISTED''"
| "reason_value AUTHORIZATION_DENIED = ''AUTHORIZATION_DENIED''"
| "reason_value INPUT_SCHEMA_REJECTED = ''INPUT_SCHEMA_REJECTED''"
| "reason_value OUTPUT_SCHEMA_REJECTED = ''OUTPUT_SCHEMA_REJECTED''"
| "reason_value TOOL_TIMEOUT = ''TOOL_TIMEOUT''"
| "reason_value TOOL_TRANSIENT_FAILURE = ''TOOL_TRANSIENT_FAILURE''"
| "reason_value TOOL_FAILED_SAFE = ''TOOL_FAILED_SAFE''"
| "reason_value CALCULATION_INPUTS_MISSING = ''CALCULATION_INPUTS_MISSING''"
| "reason_value CALCULATION_INPUTS_INVALID = ''CALCULATION_INPUTS_INVALID''"
| "reason_value CALCULATION_DIVISION_BY_ZERO = ''CALCULATION_DIVISION_BY_ZERO''"

subsection \<open>Input models\<close>

definition MAX_QUERY_CHARACTERS :: nat where "MAX_QUERY_CHARACTERS = 500"
definition MAX_TOP_K :: int where "MAX_TOP_K = 20"
definition MAX_EXCERPT_CHARACTERS :: nat where "MAX_EXCERPT_CHARACTERS = 500"

datatype FinancialMetricName = FM_REVENUE | FM_EBITDA | FM_NET_PROFIT | FM_CLOSING_CASH | FM_BANK_DEBT

fun financial_metric_value :: "FinancialMetricName \<Rightarrow> string" where
  "financial_metric_value FM_REVENUE = ''revenue''"
| "financial_metric_value FM_EBITDA = ''ebitda''"
| "financial_metric_value FM_NET_PROFIT = ''net_profit''"
| "financial_metric_value FM_CLOSING_CASH = ''closing_cash''"
| "financial_metric_value FM_BANK_DEBT = ''bank_debt''"

definition FinancialMetricName_of :: "string \<Rightarrow> FinancialMetricName option" where
  "FinancialMetricName_of s = List.find (\<lambda>m. financial_metric_value m = s)
     [FM_REVENUE, FM_EBITDA, FM_NET_PROFIT, FM_CLOSING_CASH, FM_BANK_DEBT]"

datatype MemoryMode = relevant | latest_episode

text \<open>
  The union \<^verbatim>\<open>ActionArguments\<close>: one constructor per input model, with the fields of the model.
  The literal fields \<^verbatim>\<open>metric\<close> of the CAGR input and \<^verbatim>\<open>memory_type\<close> of a proposal have one value.
\<close>

datatype ActionArguments =
    SearchAuthorizedDocumentsInput (arg_query: string) (arg_top_k: int)
  | GetDocumentExcerptInput (arg_document_id: uuid) (arg_chunk_id: uuid)
  | CalculateFinancialMetricInput (arg_company_slug: string) (arg_reporting_period: string)
  | QueryFinancialMetricsInput (arg_company_slug: string) (arg_reporting_period: string)
      (arg_metric: FinancialMetricName)
  | CalculateCagrInput (arg_company_slug: string) (arg_start_period: string) (arg_end_period: string)
  | SearchMemoryInput (arg_memory_query: string) (arg_mode: MemoryMode) (arg_memory_top_k: int)
  | ProposeMemoryInput (arg_content: string) (arg_normalized_key: string) (arg_explicit: bool)
  | NoActionArguments

datatype InputModel =
    SearchAuthorizedDocuments_model | GetDocumentExcerpt_model | CalculateFinancialMetric_model
  | QueryFinancialMetrics_model | CalculateCagr_model | SearchMemory_model | ProposeMemory_model

subsection \<open>Arguments as Python values\<close>

datatype pyval =
    PNone | PBool bool | PInt int | PFloat rat | PStr string | PUuid uuid
  | PList "pyval list" | PDict "(string \<times> pyval) list" | PObject

type_synonym pydict = "(string \<times> pyval) list"

text \<open>
  \<^verbatim>\<open>json.dumps(dict(arguments), default=_json_default)\<close> as read back by a JSON parser: a UUID has
  become its text, and any other object makes the call raise.
\<close>

fun json_value :: "(uuid \<Rightarrow> string) \<Rightarrow> pyval \<Rightarrow> pyval option" where
  "json_value ut (PUuid u) = Some (PStr (ut u))"
| "json_value ut PObject = None"
| "json_value ut (PList vs) =
     (if \<forall>v \<in> set vs. json_value ut v \<noteq> None
      then Some (PList (map (\<lambda>v. the (json_value ut v)) vs)) else None)"
| "json_value ut (PDict kvs) =
     (if \<forall>kv \<in> set kvs. json_value ut (snd kv) \<noteq> None
      then Some (PDict (map (\<lambda>kv. (fst kv, the (json_value ut (snd kv)))) kvs)) else None)"
| "json_value ut v = Some v"

definition json_dict :: "(uuid \<Rightarrow> string) \<Rightarrow> pydict \<Rightarrow> pydict option" where
  "json_dict ut d =
     (if list_all (\<lambda>kv. json_value ut (snd kv) \<noteq> None) d
      then Some (map (\<lambda>kv. (fst kv, the (json_value ut (snd kv)))) d) else None)"

subsection \<open>Strict validation from JSON\<close>

text \<open>
  Strict field reads: a missing key or a value of another JSON type is a validation error, and a
  boolean is not an integer.
\<close>

definition get_str :: "pydict \<Rightarrow> string \<Rightarrow> string option" where
  "get_str d k = (case map_of d k of Some (PStr s) \<Rightarrow> Some s | _ \<Rightarrow> None)"

definition get_int :: "pydict \<Rightarrow> string \<Rightarrow> int option" where
  "get_int d k = (case map_of d k of Some (PInt i) \<Rightarrow> Some i | _ \<Rightarrow> None)"

definition get_bool :: "pydict \<Rightarrow> string \<Rightarrow> bool option" where
  "get_bool d k = (case map_of d k of Some (PBool b) \<Rightarrow> Some b | _ \<Rightarrow> None)"

definition get_int_or :: "int \<Rightarrow> pydict \<Rightarrow> string \<Rightarrow> int option" where
  "get_int_or dflt d k = (if map_of d k = None then Some dflt else get_int d k)"

definition get_literal_or :: "string \<Rightarrow> pydict \<Rightarrow> string \<Rightarrow> bool" where
  "get_literal_or lit d k = (map_of d k = None \<or> get_str d k = Some lit)"

definition only_keys :: "string list \<Rightarrow> pydict \<Rightarrow> bool" where
  "only_keys ks d = list_all (\<lambda>kv. fst kv \<in> set ks) d"

definition bounded :: "nat \<Rightarrow> nat \<Rightarrow> string \<Rightarrow> bool" where
  "bounded lo hi s = (lo \<le> length s \<and> length s \<le> hi)"

definition validate_search :: "pydict \<Rightarrow> ActionArguments option" where
  "validate_search d =
     (case (get_str d ''query'', get_int d ''top_k'') of
        (Some q, Some k) \<Rightarrow>
          if only_keys [''query'', ''top_k''] d \<and> bounded 1 MAX_QUERY_CHARACTERS q \<and>
             normalize_ws q \<noteq> [] \<and> 1 \<le> k \<and> k \<le> MAX_TOP_K
          then Some (SearchAuthorizedDocumentsInput (normalize_ws q) k) else None
      | _ \<Rightarrow> None)"

definition validate_excerpt :: "(string \<Rightarrow> uuid option) \<Rightarrow> pydict \<Rightarrow> ActionArguments option" where
  "validate_excerpt parse_uuid d =
     (case (Option.bind (get_str d ''document_id'') parse_uuid, Option.bind (get_str d ''chunk_id'') parse_uuid) of
        (Some a, Some b) \<Rightarrow>
          if only_keys [''document_id'', ''chunk_id''] d then Some (GetDocumentExcerptInput a b) else None
      | _ \<Rightarrow> None)"

definition company_slug_ok :: "string \<Rightarrow> bool" where
  "company_slug_ok s = (bounded 1 64 s \<and> slug_ok s)"

definition validate_metric :: "pydict \<Rightarrow> ActionArguments option" where
  "validate_metric d =
     (case (get_str d ''company_slug'', get_str d ''reporting_period'') of
        (Some c, Some r) \<Rightarrow>
          if only_keys [''company_slug'', ''reporting_period''] d \<and> company_slug_ok c \<and> period_ok r
          then Some (CalculateFinancialMetricInput c r) else None
      | _ \<Rightarrow> None)"

definition validate_metric_query :: "pydict \<Rightarrow> ActionArguments option" where
  "validate_metric_query d =
     (case (get_str d ''company_slug'', get_str d ''reporting_period'',
            Option.bind (get_str d ''metric'') FinancialMetricName_of) of
        (Some c, Some r, Some m) \<Rightarrow>
          if only_keys [''company_slug'', ''reporting_period'', ''metric''] d \<and>
             company_slug_ok c \<and> period_ok r
          then Some (QueryFinancialMetricsInput c r m) else None
      | _ \<Rightarrow> None)"

text \<open>The validator \<^verbatim>\<open>ordered_periods\<close> compares the years after the first two characters.\<close>

definition period_year :: "string \<Rightarrow> nat" where
  "period_year s = digits_value (drop 2 s)"

definition validate_cagr :: "pydict \<Rightarrow> ActionArguments option" where
  "validate_cagr d =
     (case (get_str d ''company_slug'', get_str d ''start_period'', get_str d ''end_period'') of
        (Some c, Some s, Some e) \<Rightarrow>
          if only_keys [''company_slug'', ''start_period'', ''end_period'', ''metric''] d \<and>
             get_literal_or ''revenue'' d ''metric'' \<and>
             company_slug_ok c \<and> period_ok s \<and> period_ok e \<and> period_year s < period_year e
          then Some (CalculateCagrInput c s e) else None
      | _ \<Rightarrow> None)"

definition MemoryMode_of :: "string \<Rightarrow> MemoryMode option" where
  "MemoryMode_of s = (if s = ''relevant'' then Some relevant
     else if s = ''latest_episode'' then Some latest_episode else None)"

fun memory_mode_value :: "MemoryMode \<Rightarrow> string" where
  "memory_mode_value relevant = ''relevant''"
| "memory_mode_value latest_episode = ''latest_episode''"

definition validate_search_memory :: "pydict \<Rightarrow> ActionArguments option" where
  "validate_search_memory d =
     (case (get_str d ''query'', Option.bind (get_str d ''mode'') MemoryMode_of, get_int_or 3 d ''top_k'') of
        (Some q, Some m, Some k) \<Rightarrow>
          if only_keys [''query'', ''mode'', ''top_k''] d \<and> bounded 1 300 q \<and> 1 \<le> k \<and> k \<le> 5
          then Some (SearchMemoryInput q m k) else None
      | _ \<Rightarrow> None)"

definition validate_propose_memory :: "pydict \<Rightarrow> ActionArguments option" where
  "validate_propose_memory d =
     (case (get_str d ''content'', get_str d ''normalized_key'', get_bool d ''explicit'') of
        (Some c, Some k, Some e) \<Rightarrow>
          if only_keys [''content'', ''normalized_key'', ''memory_type'', ''explicit''] d \<and>
             get_literal_or ''SEMANTIC'' d ''memory_type'' \<and> bounded 1 500 c \<and> memory_key_ok k
          then Some (ProposeMemoryInput c k e) else None
      | _ \<Rightarrow> None)"

definition model_validate_json ::
  "(string \<Rightarrow> uuid option) \<Rightarrow> InputModel \<Rightarrow> pydict \<Rightarrow> ActionArguments option" where
  "model_validate_json parse_uuid m d =
     (case m of
        SearchAuthorizedDocuments_model \<Rightarrow> validate_search d
      | GetDocumentExcerpt_model \<Rightarrow> validate_excerpt parse_uuid d
      | CalculateFinancialMetric_model \<Rightarrow> validate_metric d
      | QueryFinancialMetrics_model \<Rightarrow> validate_metric_query d
      | CalculateCagr_model \<Rightarrow> validate_cagr d
      | SearchMemory_model \<Rightarrow> validate_search_memory d
      | ProposeMemory_model \<Rightarrow> validate_propose_memory d)"

text \<open>\<^verbatim>\<open>model_dump(mode="json")\<close> of the input models.\<close>

definition model_dump_json :: "(uuid \<Rightarrow> string) \<Rightarrow> ActionArguments \<Rightarrow> pydict" where
  "model_dump_json ut a =
     (case a of
        SearchAuthorizedDocumentsInput q k \<Rightarrow> [(''query'', PStr q), (''top_k'', PInt k)]
      | GetDocumentExcerptInput d c \<Rightarrow> [(''document_id'', PStr (ut d)), (''chunk_id'', PStr (ut c))]
      | CalculateFinancialMetricInput c r \<Rightarrow> [(''company_slug'', PStr c), (''reporting_period'', PStr r)]
      | QueryFinancialMetricsInput c r m \<Rightarrow>
          [(''company_slug'', PStr c), (''reporting_period'', PStr r),
           (''metric'', PStr (financial_metric_value m))]
      | CalculateCagrInput c s e \<Rightarrow>
          [(''company_slug'', PStr c), (''start_period'', PStr s), (''end_period'', PStr e),
           (''metric'', PStr ''revenue'')]
      | SearchMemoryInput q m k \<Rightarrow>
          [(''query'', PStr q), (''mode'', PStr (memory_mode_value m)), (''top_k'', PInt k)]
      | ProposeMemoryInput c k e \<Rightarrow>
          [(''content'', PStr c), (''normalized_key'', PStr k), (''memory_type'', PStr ''SEMANTIC''),
           (''explicit'', PBool e)]
      | NoActionArguments \<Rightarrow> [])"

text \<open>The validated instances: what the field constraints and validators promise of a value.\<close>

fun arguments_ok :: "ActionArguments \<Rightarrow> bool" where
  "arguments_ok (SearchAuthorizedDocumentsInput q k) =
     (bounded 1 MAX_QUERY_CHARACTERS q \<and> normalize_ws q = q \<and> 1 \<le> k \<and> k \<le> MAX_TOP_K)"
| "arguments_ok (GetDocumentExcerptInput d c) = True"
| "arguments_ok (CalculateFinancialMetricInput c r) = (company_slug_ok c \<and> period_ok r)"
| "arguments_ok (QueryFinancialMetricsInput c r m) = (company_slug_ok c \<and> period_ok r)"
| "arguments_ok (CalculateCagrInput c s e) =
     (company_slug_ok c \<and> period_ok s \<and> period_ok e \<and> period_year s < period_year e)"
| "arguments_ok (SearchMemoryInput q m k) = (bounded 1 300 q \<and> 1 \<le> k \<and> k \<le> 5)"
| "arguments_ok (ProposeMemoryInput c k e) = (bounded 1 500 c \<and> memory_key_ok k)"
| "arguments_ok NoActionArguments = True"

fun arguments_model :: "ActionArguments \<Rightarrow> InputModel option" where
  "arguments_model (SearchAuthorizedDocumentsInput q k) = Some SearchAuthorizedDocuments_model"
| "arguments_model (GetDocumentExcerptInput d c) = Some GetDocumentExcerpt_model"
| "arguments_model (CalculateFinancialMetricInput c r) = Some CalculateFinancialMetric_model"
| "arguments_model (QueryFinancialMetricsInput c r m) = Some QueryFinancialMetrics_model"
| "arguments_model (CalculateCagrInput c s e) = Some CalculateCagr_model"
| "arguments_model (SearchMemoryInput q m k) = Some SearchMemory_model"
| "arguments_model (ProposeMemoryInput c k e) = Some ProposeMemory_model"
| "arguments_model NoActionArguments = None"

subsection \<open>Evidence\<close>

record EvidenceLocation =
  el_page_number :: "int option"
  el_sheet_name :: "string option"
  el_row_start :: "int option"
  el_row_end :: "int option"
  el_cell_start :: "string option"
  el_cell_end :: "string option"

definition opt_all :: "('a \<Rightarrow> bool) \<Rightarrow> 'a option \<Rightarrow> bool" where
  "opt_all P x = (case x of None \<Rightarrow> True | Some y \<Rightarrow> P y)"

definition has_coordinates :: "EvidenceLocation \<Rightarrow> bool" where
  "has_coordinates l = (el_row_start l \<noteq> None \<or> el_row_end l \<noteq> None \<or>
     el_cell_start l \<noteq> None \<or> el_cell_end l \<noteq> None)"

definition cell_range_ok :: "(string \<Rightarrow> (int \<times> int) option) \<Rightarrow> string \<Rightarrow> string \<Rightarrow> bool" where
  "cell_range_ok coord a b =
     (case (coord a, coord b) of
        (Some (start_row, start_column), Some (end_row, end_column)) \<Rightarrow>
          \<not> (end_row < start_row \<or> end_column < start_column)
      | _ \<Rightarrow> False)"

definition location_ok :: "(string \<Rightarrow> (int \<times> int) option) \<Rightarrow> EvidenceLocation \<Rightarrow> bool" where
  "location_ok coord l =
     (opt_all (\<lambda>n. 1 \<le> n) (el_page_number l) \<and> opt_all (\<lambda>s. length s \<le> 128) (el_sheet_name l) \<and>
      opt_all (\<lambda>n. 1 \<le> n) (el_row_start l) \<and> opt_all (\<lambda>n. 1 \<le> n) (el_row_end l) \<and>
      opt_all (\<lambda>s. length s \<le> 32) (el_cell_start l) \<and> opt_all (\<lambda>s. length s \<le> 32) (el_cell_end l) \<and>
      (if (el_page_number l = None) = (el_sheet_name l = None) then False
       else if (el_row_start l = None) \<noteq> (el_row_end l = None) then False
       else if (el_cell_start l = None) \<noteq> (el_cell_end l = None) then False
       else if el_page_number l \<noteq> None \<and> has_coordinates l then False
       else if el_sheet_name l = None \<and> has_coordinates l then False
       else if (case (el_row_start l, el_row_end l) of (Some a, Some b) \<Rightarrow> b < a | _ \<Rightarrow> False) then False
       else case (el_cell_start l, el_cell_end l) of
              (Some a, Some b) \<Rightarrow> cell_range_ok coord a b
            | _ \<Rightarrow> True))"

record ToolEvidence =
  te_document_id :: uuid
  te_document_version_id :: uuid
  te_chunk_id :: uuid
  te_document_title :: string
  te_version_number :: int
  te_excerpt :: string
  te_location :: EvidenceLocation

definition tool_evidence_ok :: "(string \<Rightarrow> (int \<times> int) option) \<Rightarrow> ToolEvidence \<Rightarrow> bool" where
  "tool_evidence_ok coord e =
     (bounded 1 255 (te_document_title e) \<and> 1 \<le> te_version_number e \<and>
      bounded 1 MAX_EXCERPT_CHARACTERS (te_excerpt e) \<and> location_ok coord (te_location e))"

definition evidence_reference :: "(uuid \<Rightarrow> string) \<Rightarrow> ToolEvidence \<Rightarrow> string" where
  "evidence_reference ut e =
     ut (te_document_id e) @ '':'' @ ut (te_document_version_id e) @ '':'' @ ut (te_chunk_id e)"

record MemoryToolItem =
  mi_memory_id :: uuid
  mi_memory_type :: string
  mi_scope :: string
  mi_summary :: string
  mi_source_count :: int

definition memory_item_ok :: "MemoryToolItem \<Rightarrow> bool" where
  "memory_item_ok i =
     (mi_memory_type i \<in> {''SEMANTIC'', ''EPISODIC'', ''CONVERSATION_SUMMARY''} \<and>
      mi_scope i \<in> {''PRIVATE_USER'', ''DEPARTMENT'', ''COMPANY''} \<and>
      bounded 1 500 (mi_summary i) \<and> 0 \<le> mi_source_count i \<and> mi_source_count i \<le> 16)"

subsection \<open>Payloads and observations\<close>

text \<open>The acknowledgement of a memory proposal has three literal fields, hence one value.\<close>

datatype Payload =
    ToolPayload "ToolEvidence list"
  | CalculationPayload "CalculationResult list"
  | MemorySearchPayload "MemoryToolItem list"
  | MemoryProposalPayload

definition proposal_notification :: string where
  "proposal_notification = ''Memory proposal sent to host policy''"

definition payload_ok :: "(string \<Rightarrow> (int \<times> int) option) \<Rightarrow> Payload \<Rightarrow> bool" where
  "payload_ok coord p =
     (case p of
        ToolPayload es \<Rightarrow> int (length es) \<le> MAX_TOP_K \<and> list_all (tool_evidence_ok coord) es
      | CalculationPayload cs \<Rightarrow> length cs = 1 \<and>
          list_all (\<lambda>c. calculation_result_ok c \<and> list_all trusted_input_ok (cr_trusted_inputs c)) cs
      | MemorySearchPayload ms \<Rightarrow> length ms \<le> 5 \<and> list_all memory_item_ok ms
      | MemoryProposalPayload \<Rightarrow> True)"

datatype PayloadKind = Tool_payload | Calculation_payload | Memory_search_payload | Memory_proposal_payload

fun payload_kind :: "Payload \<Rightarrow> PayloadKind" where
  "payload_kind (ToolPayload es) = Tool_payload"
| "payload_kind (CalculationPayload cs) = Calculation_payload"
| "payload_kind (MemorySearchPayload ms) = Memory_search_payload"
| "payload_kind MemoryProposalPayload = Memory_proposal_payload"

datatype GatewayStatus = gw_completed | gw_denied | gw_failed

record StructuredToolObservation =
  so_trace_id :: uuid
  so_tool_name :: "ApprovedToolName option"
  so_status :: GatewayStatus
  so_reason_code :: GatewayReasonCode
  so_retry_count :: int
  so_duration_ms :: int
  so_evidence :: "ToolEvidence list"
  so_calculations :: "CalculationResult list"
  so_memories :: "MemoryToolItem list"
  so_memory_proposal :: bool

definition payload_kinds :: "StructuredToolObservation \<Rightarrow> nat" where
  "payload_kinds ob = length (filter id
     [so_evidence ob \<noteq> [], so_calculations ob \<noteq> [], so_memories ob \<noteq> [], so_memory_proposal ob])"

definition tool_observation_ok :: "StructuredToolObservation \<Rightarrow> bool" where
  "tool_observation_ok ob =
     (0 \<le> so_retry_count ob \<and> so_retry_count ob \<le> 1 \<and> 0 \<le> so_duration_ms ob \<and>
      (if so_status ob \<noteq> gw_completed \<and>
          (so_evidence ob \<noteq> [] \<or> so_calculations ob \<noteq> [] \<or> so_memories ob \<noteq> [] \<or> so_memory_proposal ob)
       then False else payload_kinds ob \<le> 1))"

record SanitizedToolTrace =
  st_trace_id :: uuid
  st_tool_name :: "ApprovedToolName option"
  st_status :: GatewayStatus
  st_reason_code :: GatewayReasonCode
  st_retry_count :: int
  st_duration_ms :: int
  st_evidence_refs :: "string list"

definition sanitize_observation ::
  "(uuid \<Rightarrow> string) \<Rightarrow> StructuredToolObservation \<Rightarrow> SanitizedToolTrace" where
  "sanitize_observation ut ob =
     \<lparr>st_trace_id = so_trace_id ob, st_tool_name = so_tool_name ob, st_status = so_status ob,
      st_reason_code = so_reason_code ob, st_retry_count = so_retry_count ob,
      st_duration_ms = so_duration_ms ob,
      st_evidence_refs = map (evidence_reference ut) (so_evidence ob)\<rparr>"

subsection \<open>The tool names\<close>

lemma all_tools_complete [simp]: "t \<in> set all_tools"
  by (cases t) (simp_all add: all_tools_def)

lemma tool_value_inj: "tool_value s = tool_value t \<Longrightarrow> s = t"
  by (cases s; cases t; simp)

lemma ApprovedToolName_of_value [simp]: "ApprovedToolName_of (tool_value t) = Some t"
  by (cases t) (simp_all add: ApprovedToolName_of_def all_tools_def)

lemma ApprovedToolName_of_Some_iff: "ApprovedToolName_of s = Some t \<longleftrightarrow> s = tool_value t"
proof
  assume "ApprovedToolName_of s = Some t"
  then show "s = tool_value t"
    by (auto simp: ApprovedToolName_of_def find_Some_iff)
qed simp

lemma FinancialMetricName_of_value [simp]: "FinancialMetricName_of (financial_metric_value m) = Some m"
  by (cases m) (simp_all add: FinancialMetricName_of_def)

lemma MemoryMode_of_value [simp]: "MemoryMode_of (memory_mode_value m) = Some m"
  by (cases m) (simp_all add: MemoryMode_of_def)

subsection \<open>Validation\<close>

lemmas validate_defs =
  validate_search_def validate_excerpt_def validate_metric_def validate_metric_query_def
  validate_cagr_def validate_search_memory_def validate_propose_memory_def

lemmas get_defs = get_str_def get_int_def get_bool_def get_int_or_def get_literal_or_def only_keys_def

lemma validate_search_ok: "validate_search d = Some a \<Longrightarrow> arguments_ok a \<and> arguments_model a = Some SearchAuthorizedDocuments_model"
  using length_normalize_ws_le
  by (fastforce simp: validate_search_def bounded_def Suc_le_eq intro: order_trans
      split: option.splits if_splits)

lemma model_validate_json_ok:
  assumes "model_validate_json pu m d = Some a"
  shows "arguments_ok a \<and> arguments_model a = Some m"
proof (cases m)
  case SearchAuthorizedDocuments_model
  with assms validate_search_ok show ?thesis by (simp add: model_validate_json_def)
qed (use assms in \<open>auto simp: model_validate_json_def validate_excerpt_def validate_metric_def
  validate_metric_query_def validate_cagr_def validate_search_memory_def validate_propose_memory_def
  split: option.splits if_splits\<close>)

lemma model_validate_dump:
  assumes "\<forall>u. pu (ut u) = Some u" and "arguments_ok a" and "arguments_model a = Some m"
  shows "model_validate_json pu m (model_dump_json ut a) = Some a"
  using assms(2,3) assms(1)
  by (cases a) (auto simp: model_validate_json_def model_dump_json_def validate_defs get_defs bounded_def)

text \<open>What is accepted is a subset of the declared fields: no other key reaches an adapter.\<close>

definition input_fields :: "InputModel \<Rightarrow> string list" where
  "input_fields m =
     (case m of
        SearchAuthorizedDocuments_model \<Rightarrow> [''query'', ''top_k'']
      | GetDocumentExcerpt_model \<Rightarrow> [''document_id'', ''chunk_id'']
      | CalculateFinancialMetric_model \<Rightarrow> [''company_slug'', ''reporting_period'']
      | QueryFinancialMetrics_model \<Rightarrow> [''company_slug'', ''reporting_period'', ''metric'']
      | CalculateCagr_model \<Rightarrow> [''company_slug'', ''start_period'', ''end_period'', ''metric'']
      | SearchMemory_model \<Rightarrow> [''query'', ''mode'', ''top_k'']
      | ProposeMemory_model \<Rightarrow> [''content'', ''normalized_key'', ''memory_type'', ''explicit''])"

lemma model_validate_json_keys:
  "model_validate_json pu m d = Some a \<Longrightarrow> only_keys (input_fields m) d"
  by (cases m) (auto simp: model_validate_json_def validate_defs input_fields_def
      split: option.splits if_splits)

lemma json_dict_keys: "json_dict ut d = Some d' \<Longrightarrow> map fst d' = map fst d"
  by (auto simp: json_dict_def split: if_splits)

lemma only_keys_fst: "only_keys ks d \<longleftrightarrow> set (map fst d) \<subseteq> set ks"
  by (auto simp: only_keys_def list_all_iff)

lemma json_dict_dump [simp]: "json_dict ut (model_dump_json ut a) = Some (model_dump_json ut a)"
  by (cases a) (simp_all add: json_dict_def model_dump_json_def)

subsection \<open>Evidence locations\<close>

lemma location_ok_kind:
  "location_ok coord l \<Longrightarrow>
     (\<exists>n. el_page_number l = Some n \<and> 1 \<le> n \<and> el_sheet_name l = None \<and> \<not> has_coordinates l) \<or>
     (\<exists>s. el_sheet_name l = Some s \<and> el_page_number l = None)"
  by (auto simp: location_ok_def opt_all_def split: if_splits option.splits)

lemma payload_kinds_le_1:
  "payload_kinds ob \<le> 1 \<longleftrightarrow>
     \<not> (so_evidence ob \<noteq> [] \<and> (so_calculations ob \<noteq> [] \<or> so_memories ob \<noteq> [] \<or> so_memory_proposal ob)) \<and>
     \<not> (so_calculations ob \<noteq> [] \<and> (so_memories ob \<noteq> [] \<or> so_memory_proposal ob)) \<and>
     \<not> (so_memories ob \<noteq> [] \<and> so_memory_proposal ob)"
  by (auto simp: payload_kinds_def)

subsection \<open>Properties\<close>

text \<open>C7: the dump of a validated tool input, written as JSON, validates against its own model to the
  same input, whatever text form UUIDs have as long as it is read back.\<close>

theorem input_roundtrip:
  assumes "\<forall>u. pu (ut u) = Some u" and "arguments_ok a" and "arguments_model a = Some m"
  shows "Option.bind (json_dict ut (model_dump_json ut a)) (model_validate_json pu m) = Some a"
  using model_validate_dump [OF assms] by simp

theorem input_roundtrip_witness:
  "Option.bind (json_dict (\<lambda>u. replicate u CHR ''a'') (model_dump_json (\<lambda>u. replicate u CHR ''a'') (GetDocumentExcerptInput 3 7)))
     (model_validate_json (\<lambda>s. Some (length s)) GetDocumentExcerpt_model) = Some (GetDocumentExcerptInput 3 7)"
  by (rule input_roundtrip) simp_all

text \<open>C8: an input that passes strict validation satisfies every constraint of the tool's model, has
  no key besides the declared fields, and is again a value of that model.\<close>

theorem input_validation_sound:
  assumes "Option.bind (json_dict ut d) (model_validate_json pu m) = Some a"
  shows "arguments_ok a \<and> arguments_model a = Some m \<and> set (map fst d) \<subseteq> set (input_fields m)"
proof -
  from assms obtain d' where d': "json_dict ut d = Some d'" and v: "model_validate_json pu m d' = Some a"
    by (cases "json_dict ut d") simp_all
  from json_dict_keys [OF d'] model_validate_json_keys [OF v] model_validate_json_ok [OF v]
  show ?thesis by (metis only_keys_fst)
qed

theorem input_validation_sound_witness:
  "arguments_ok (SearchAuthorizedDocumentsInput ''net debt'' 5) \<and>
   arguments_model (SearchAuthorizedDocumentsInput ''net debt'' 5) = Some SearchAuthorizedDocuments_model \<and>
   set (map fst [(''top_k'', PInt 5), (''query'', PStr ''  net   debt '')])
     \<subseteq> set (input_fields SearchAuthorizedDocuments_model)"
  by (rule input_validation_sound [where ut = str_nat and pu = "\<lambda>s. None"])
     (simp add: json_dict_def model_validate_json_def validate_search_def get_defs bounded_def
       normalize_ws_def split_ws_def is_space_def MAX_QUERY_CHARACTERS_def MAX_TOP_K_def)

end
