(* ===== verification/Gateway.thy ===== *)
theory Gateway
  imports Gateway_Contracts
begin

text \<open>
  The approved-tool gateway, \<^verbatim>\<open>app/mcp_gateway/gateway.py\<close>: the static manifest, the checks of the
  constructor, the catalog a request may see, and \<^verbatim>\<open>execute\<close> with its guards and its retry loop.

  An adapter's \<^verbatim>\<open>invoke\<close> is a function on a world \<open>'w\<close>: it returns how the awaited call ended and
  the new world; \<^verbatim>\<open>asyncio.wait_for\<close> turning a slow call into \<^verbatim>\<open>TimeoutError\<close> is the outcome
  \<open>TimedOut\<close>.  The clock and \<^verbatim>\<open>uuid4\<close> are the two fields of \<open>host\<close>.  pydantic's JSON schemas are
  the arguments \<open>ischema\<close> and \<open>oschema\<close>.
\<close>

subsection \<open>JSON schemas and the manifest\<close>

record SchemaField =
  sf_ref :: "string option"
  sf_type :: "string option"
  sf_minimum :: "int option"
  sf_maximum :: "int option"
  sf_minLength :: "int option"
  sf_maxLength :: "int option"
  sf_format :: "string option"

record JsonSchema =
  js_properties :: "(string \<times> SchemaField) list"
  js_required :: "string list"
  js_defs :: "(string \<times> SchemaField) list"

text \<open>An output model is one of the gateway's payload classes or another class.\<close>

datatype OutputModel = Gateway_output PayloadKind | Other_output string

record ToolManifestEntry =
  input_model :: InputModel
  output_model :: OutputModel
  required_capability :: Capability
  purpose :: string
  safe_result_description :: string

definition entry :: "InputModel \<Rightarrow> PayloadKind \<Rightarrow> string \<Rightarrow> string \<Rightarrow> ToolManifestEntry" where
  "entry im k p r = \<lparr>input_model = im, output_model = Gateway_output k,
     required_capability = QUERY_DOCUMENTS, purpose = p, safe_result_description = r\<rparr>"

fun TOOL_MANIFEST :: "ApprovedToolName \<Rightarrow> ToolManifestEntry" where
  "TOOL_MANIFEST SEARCH_AUTHORIZED_DOCUMENTS = entry SearchAuthorizedDocuments_model Tool_payload
     ''Search authorized portfolio documents for evidence relevant to one bounded query.''
     ''Authorized evidence excerpts with host-owned document provenance.''"
| "TOOL_MANIFEST GET_DOCUMENT_EXCERPT = entry GetDocumentExcerpt_model Tool_payload
     ''Retrieve one authorized excerpt using a known document and chunk identifier.''
     ''One authorized evidence excerpt with host-owned source provenance.''"
| "TOOL_MANIFEST CALCULATE_EBITDA_MARGIN = entry CalculateFinancialMetric_model Calculation_payload
     ''Calculate EBITDA margin from authorized structured financial inputs.''
     ''Formula, trusted inputs, percent result, and source citations.''"
| "TOOL_MANIFEST CALCULATE_REVENUE_GROWTH = entry CalculateFinancialMetric_model Calculation_payload
     ''Calculate period-over-period revenue growth from authorized structured inputs.''
     ''Formula, trusted inputs, percent result, and source citations.''"
| "TOOL_MANIFEST CALCULATE_NET_PROFIT_MARGIN = entry CalculateFinancialMetric_model Calculation_payload
     ''Calculate net profit margin from authorized structured financial inputs.''
     ''Formula, trusted inputs, percent result, and source citations.''"
| "TOOL_MANIFEST QUERY_FINANCIAL_METRICS = entry QueryFinancialMetrics_model Calculation_payload
     ''Load one bounded authorized financial metric with source provenance.''
     ''Metric value, unit, period, and host-owned source citation.''"
| "TOOL_MANIFEST CALCULATE_DEBT_TO_EQUITY = entry CalculateFinancialMetric_model Calculation_payload
     ''Calculate debt-to-equity from authorized raw balance-sheet inputs.''
     ''Formula, trusted inputs, ratio result, and source citations.''"
| "TOOL_MANIFEST CALCULATE_CASH_RUNWAY = entry CalculateFinancialMetric_model Calculation_payload
     ''Calculate stress-case cash runway from authorized raw cash-flow inputs.''
     ''Formula, trusted inputs, month result, and source citations.''"
| "TOOL_MANIFEST CALCULATE_CAGR = entry CalculateCagr_model Calculation_payload
     ''Calculate revenue CAGR between two bounded reporting periods.''
     ''Formula, trusted endpoint values, percent result, and citations.''"
| "TOOL_MANIFEST SEARCH_MEMORY = entry SearchMemory_model Memory_search_payload
     ''Search reauthorized private memory or load the latest authorized episode.''
     ''Bounded untrusted memory summaries with safe provenance counts.''"
| "TOOL_MANIFEST PROPOSE_MEMORY = entry ProposeMemory_model Memory_proposal_payload
     ''Submit a typed private-memory candidate to host policy without writing it.''
     ''A host-policy review acknowledgement; no memory is persisted.''"

subsection \<open>Adapters and the constructor\<close>

text \<open>
  What a call of \<^verbatim>\<open>invoke\<close> may return: the field values of one payload model (a model instance or a
  mapping), data of any other shape, or something that is neither a model nor a mapping.
\<close>

datatype RawOutput = RawData Payload | RawForeign | RawOther

datatype InvokeOutcome =
    Returned RawOutput
  | RaisedAuthorization
  | TimedOut
  | RaisedAdapterError GatewayReasonCode bool
  | RaisedOther

text \<open>The name of an adapter is a member of the enumeration, or (\<open>None\<close>) it is not.\<close>

record 'w ApprovedToolAdapter =
  ad_name :: "ApprovedToolName option"
  ad_input_model :: InputModel
  ad_output_model :: OutputModel
  ad_required_capability :: Capability
  ad_invoke :: "ActionArguments \<Rightarrow> AuthorizationScope \<Rightarrow> string \<Rightarrow> 'w \<Rightarrow> InvokeOutcome \<times> 'w"

record 'w ApprovedToolGateway =
  gw_adapters :: "(ApprovedToolName \<times> 'w ApprovedToolAdapter) list"
  gw_timeout_seconds :: seconds
  gw_max_transient_retries :: int

datatype gateway_error = GatewayConfigurationError string | DescriptorValidationError

definition register_adapter ::
  "(InputModel \<Rightarrow> JsonSchema) \<Rightarrow> (OutputModel \<Rightarrow> string) \<Rightarrow>
   (ApprovedToolName \<times> 'w ApprovedToolAdapter) list \<Rightarrow> 'w ApprovedToolAdapter \<Rightarrow>
   (gateway_error, (ApprovedToolName \<times> 'w ApprovedToolAdapter) list) result" where
  "register_adapter ischema oschema by_name adapter =
     (case ad_name adapter of
        None \<Rightarrow> Inl (GatewayConfigurationError ''UNAPPROVED_TOOL_NAMESPACE'')
      | Some name \<Rightarrow>
          if tool_value name \<notin> set APPROVED_TOOL_NAMES
          then Inl (GatewayConfigurationError ''UNAPPROVED_TOOL_NAMESPACE'')
          else if name \<in> set (map fst by_name)
          then Inl (GatewayConfigurationError ''DUPLICATE_TOOL_NAME'')
          else let expected = TOOL_MANIFEST name in
            if ischema (ad_input_model adapter) \<noteq> ischema (input_model expected)
            then Inl (GatewayConfigurationError ''INPUT_SCHEMA_MISMATCH'')
            else if oschema (ad_output_model adapter) \<noteq> oschema (output_model expected)
            then Inl (GatewayConfigurationError ''OUTPUT_SCHEMA_MISMATCH'')
            else if ad_required_capability adapter \<noteq> required_capability expected
            then Inl (GatewayConfigurationError ''CAPABILITY_MISMATCH'')
            else Inr (by_name @ [(name, adapter)]))"

fun register_all ::
  "(InputModel \<Rightarrow> JsonSchema) \<Rightarrow> (OutputModel \<Rightarrow> string) \<Rightarrow>
   (ApprovedToolName \<times> 'w ApprovedToolAdapter) list \<Rightarrow> 'w ApprovedToolAdapter list \<Rightarrow>
   (gateway_error, (ApprovedToolName \<times> 'w ApprovedToolAdapter) list) result" where
  "register_all ischema oschema by_name [] = Inr by_name"
| "register_all ischema oschema by_name (a # as) =
     bindR (register_adapter ischema oschema by_name a)
       (\<lambda>by_name'. register_all ischema oschema by_name' as)"

definition mk_gateway ::
  "(InputModel \<Rightarrow> JsonSchema) \<Rightarrow> (OutputModel \<Rightarrow> string) \<Rightarrow> 'w ApprovedToolAdapter list \<Rightarrow>
   seconds \<Rightarrow> int \<Rightarrow> (gateway_error, 'w ApprovedToolGateway) result" where
  "mk_gateway ischema oschema adapters timeout_seconds max_transient_retries =
     (if timeout_seconds \<le> 0 \<or> max_transient_retries \<notin> {0, 1}
      then Inl (GatewayConfigurationError ''INVALID_GATEWAY_LIMITS'')
      else bindR (register_all ischema oschema [] adapters) (\<lambda>by_name.
        Inr \<lparr>gw_adapters = by_name, gw_timeout_seconds = timeout_seconds,
             gw_max_transient_retries = max_transient_retries\<rparr>))"

subsection \<open>The catalog\<close>

definition authorized_catalog :: "AuthorizationScope \<Rightarrow> string list \<Rightarrow> ApprovedToolName list" where
  "authorized_catalog scope permitted_tools =
     (let caps = concat (map capabilities (grants scope)) in
      filter (\<lambda>name. tool_value name \<in> set permitted_tools \<and>
                required_capability (TOOL_MANIFEST name) \<in> set caps) all_tools)"

record PermittedToolInputField =
  pf_name :: string
  pf_value_type :: string
  pf_required :: bool
  pf_minimum :: "int option"
  pf_maximum :: "int option"
  pf_min_length :: "int option"
  pf_max_length :: "int option"
  pf_format :: "string option"

record PermittedToolDescriptor =
  pd_name :: ApprovedToolName
  pd_purpose :: string
  pd_fields :: "PermittedToolInputField list"
  pd_safe_result_description :: string

definition tool_field_names :: "string list" where
  "tool_field_names = [''query'', ''top_k'', ''document_id'', ''chunk_id'', ''company_slug'',
     ''reporting_period'', ''metric'', ''start_period'', ''end_period'', ''mode'', ''content'',
     ''normalized_key'', ''memory_type'', ''explicit'']"

definition input_field_ok :: "PermittedToolInputField \<Rightarrow> bool" where
  "input_field_ok f = (pf_name f \<in> set tool_field_names \<and>
     pf_value_type f \<in> {''string'', ''integer'', ''boolean''} \<and>
     pf_format f \<in> {None, Some ''uuid''})"

definition descriptor_ok :: "PermittedToolDescriptor \<Rightarrow> bool" where
  "descriptor_ok d = (bounded 1 180 (pd_purpose d) \<and> bounded 1 180 (pd_safe_result_description d) \<and>
     1 \<le> length (pd_fields d) \<and> length (pd_fields d) \<le> 5 \<and> distinct (map pf_name (pd_fields d)) \<and>
     list_all input_field_ok (pd_fields d))"

definition or_else :: "'a option \<Rightarrow> 'a option \<Rightarrow> 'a option" where
  "or_else x y = (case x of None \<Rightarrow> y | Some _ \<Rightarrow> x)"

text \<open>The merge \<^verbatim>\<open>{**definition, **raw_field}\<close>: the keys of the field win.\<close>

definition merge_field :: "SchemaField \<Rightarrow> SchemaField \<Rightarrow> SchemaField" where
  "merge_field dfn raw =
     \<lparr>sf_ref = or_else (sf_ref raw) (sf_ref dfn), sf_type = or_else (sf_type raw) (sf_type dfn),
      sf_minimum = or_else (sf_minimum raw) (sf_minimum dfn),
      sf_maximum = or_else (sf_maximum raw) (sf_maximum dfn),
      sf_minLength = or_else (sf_minLength raw) (sf_minLength dfn),
      sf_maxLength = or_else (sf_maxLength raw) (sf_maxLength dfn),
      sf_format = or_else (sf_format raw) (sf_format dfn)\<rparr>"

definition project_field ::
  "JsonSchema \<Rightarrow> string \<times> SchemaField \<Rightarrow> (gateway_error, PermittedToolInputField) result" where
  "project_field schema nf =
     (let (field_name, raw_field) = nf in
      bindR (case sf_ref raw_field of
               None \<Rightarrow> Inr raw_field
             | Some reference \<Rightarrow>
                 if take 8 reference = ''#/$defs/''
                 then (case map_of (js_defs schema) (removeprefix ''#/$defs/'' reference) of
                         None \<Rightarrow> Inl (GatewayConfigurationError ''INPUT_SCHEMA_MISMATCH'')
                       | Some dfn \<Rightarrow> Inr (merge_field dfn raw_field))
                 else Inr raw_field)
        (\<lambda>projected_field.
           if field_name \<notin> set tool_field_names
           then Inl (GatewayConfigurationError ''INPUT_SCHEMA_MISMATCH'')
           else case sf_type projected_field of
             None \<Rightarrow> Inl (GatewayConfigurationError ''INPUT_SCHEMA_MISMATCH'')
           | Some value_type \<Rightarrow>
               if value_type \<notin> {''string'', ''integer'', ''boolean''}
               then Inl (GatewayConfigurationError ''INPUT_SCHEMA_MISMATCH'')
               else let f = \<lparr>pf_name = field_name, pf_value_type = value_type,
                      pf_required = (field_name \<in> set (js_required schema)),
                      pf_minimum = sf_minimum projected_field, pf_maximum = sf_maximum projected_field,
                      pf_min_length = sf_minLength projected_field,
                      pf_max_length = sf_maxLength projected_field,
                      pf_format = sf_format projected_field\<rparr>
                    in if input_field_ok f then Inr f else Inl DescriptorValidationError))"

definition describe_tool ::
  "(InputModel \<Rightarrow> JsonSchema) \<Rightarrow> ApprovedToolName \<Rightarrow> (gateway_error, PermittedToolDescriptor) result" where
  "describe_tool ischema name =
     (let ent = TOOL_MANIFEST name; schema = ischema (input_model ent) in
      bindR (mapR (project_field schema) (js_properties schema)) (\<lambda>fields.
        let d = \<lparr>pd_name = name, pd_purpose = purpose ent, pd_fields = fields,
                 pd_safe_result_description = safe_result_description ent\<rparr>
        in if descriptor_ok d then Inr d else Inl DescriptorValidationError))"

definition permitted_catalog ::
  "(InputModel \<Rightarrow> JsonSchema) \<Rightarrow> AuthorizationScope \<Rightarrow> string list \<Rightarrow>
   (gateway_error, PermittedToolDescriptor list) result" where
  "permitted_catalog ischema scope permitted_tools =
     mapR (describe_tool ischema) (authorized_catalog scope permitted_tools)"

subsection \<open>Execution\<close>

record 'w host =
  perf_counter :: "'w \<Rightarrow> seconds \<times> 'w"
  uuid4 :: "'w \<Rightarrow> uuid \<times> 'w"

text \<open>\<^verbatim>\<open>int(x)\<close> of a real number truncates toward zero.\<close>

definition trunc :: "rat \<Rightarrow> int" where
  "trunc x = (if 0 \<le> x then \<lfloor>x\<rfloor> else \<lceil>x\<rceil>)"

datatype tool_result = Observed StructuredToolObservation | ObservationInvalid

definition observation ::
  "'w host \<Rightarrow> seconds \<Rightarrow> ApprovedToolName option \<Rightarrow> GatewayStatus \<Rightarrow> GatewayReasonCode \<Rightarrow> int \<Rightarrow>
   Payload option \<Rightarrow> 'w \<Rightarrow> tool_result \<times> 'w" where
  "observation h started_at tool_name status reason retry_count payload w =
     (let (now, w) = perf_counter h w;
          duration_ms = max 0 (trunc ((now - started_at) * 1000));
          (trace_id, w) = uuid4 h w;
          ob = \<lparr>so_trace_id = trace_id, so_tool_name = tool_name, so_status = status,
                so_reason_code = reason, so_retry_count = retry_count,
                so_duration_ms = duration_ms,
                so_evidence = (case payload of Some (ToolPayload es) \<Rightarrow> es | _ \<Rightarrow> []),
                so_calculations = (case payload of Some (CalculationPayload cs) \<Rightarrow> cs | _ \<Rightarrow> []),
                so_memories = (case payload of Some (MemorySearchPayload ms) \<Rightarrow> ms | _ \<Rightarrow> []),
                so_memory_proposal = (payload = Some MemoryProposalPayload)\<rparr>
      in (if tool_observation_ok ob then Observed ob else ObservationInvalid, w))"

definition validate_output ::
  "(string \<Rightarrow> (int \<times> int) option) \<Rightarrow> OutputModel \<Rightarrow> RawOutput \<Rightarrow> Payload option" where
  "validate_output coord om raw =
     (case (om, raw) of
        (Gateway_output k, RawData p) \<Rightarrow> if payload_kind p = k \<and> payload_ok coord p then Some p else None
      | _ \<Rightarrow> None)"

text \<open>
  One pass through the body of the loop \<^verbatim>\<open>while True\<close>: it returns an observation, or it ends with a
  reason code and whether the failure is transient.
\<close>

datatype attempt = Finished tool_result | Failed GatewayReasonCode bool

definition attempt_once ::
  "(string \<Rightarrow> (int \<times> int) option) \<Rightarrow> 'w host \<Rightarrow> 'w ApprovedToolAdapter \<Rightarrow> seconds \<Rightarrow>
   ApprovedToolName \<Rightarrow> ActionArguments \<Rightarrow> AuthorizationScope \<Rightarrow> string \<Rightarrow> int \<Rightarrow> 'w \<Rightarrow> attempt \<times> 'w" where
  "attempt_once coord h adapter started_at name args scope request_id retry_count w =
     (let (outcome, w) = ad_invoke adapter args scope request_id w;
          return = (\<lambda>status reason payload.
            let (r, w') = observation h started_at (Some name) status reason retry_count payload w
            in (Finished r, w'))
      in case outcome of
           Returned raw \<Rightarrow>
             (case validate_output coord (ad_output_model adapter) raw of
                None \<Rightarrow> return gw_failed OUTPUT_SCHEMA_REJECTED None
              | Some payload \<Rightarrow> return gw_completed TOOL_COMPLETED (Some payload))
         | RaisedAuthorization \<Rightarrow> return gw_denied AUTHORIZATION_DENIED None
         | TimedOut \<Rightarrow> (Failed TOOL_TIMEOUT True, w)
         | RaisedAdapterError reason transient \<Rightarrow> (Failed reason transient, w)
         | RaisedOther \<Rightarrow> return gw_failed TOOL_FAILED_SAFE None)"

text \<open>The loop of \<^verbatim>\<open>execute\<close>; it is left unless a transient failure may still be retried.\<close>

function invoke_loop ::
  "(string \<Rightarrow> (int \<times> int) option) \<Rightarrow> 'w host \<Rightarrow> 'w ApprovedToolAdapter \<Rightarrow> int \<Rightarrow> seconds \<Rightarrow>
   ApprovedToolName \<Rightarrow> ActionArguments \<Rightarrow> AuthorizationScope \<Rightarrow> string \<Rightarrow> int \<Rightarrow> 'w \<Rightarrow> tool_result \<times> 'w" where
  "invoke_loop coord h adapter max_retries started_at name args scope request_id retry_count w =
     (case attempt_once coord h adapter started_at name args scope request_id retry_count w of
        (Finished r, w) \<Rightarrow> (r, w)
      | (Failed reason transient, w) \<Rightarrow>
          if transient \<and> retry_count < max_retries
          then invoke_loop coord h adapter max_retries started_at name args scope request_id
                 (retry_count + 1) w
          else observation h started_at (Some name) gw_failed reason retry_count None w)"
  by pat_completeness auto
termination
  by (relation "measure (\<lambda>(coord, h, adapter, max_retries, started_at, name, args, scope, request_id,
        retry_count, w). nat (max_retries - retry_count))") simp_all

declare invoke_loop.simps [simp del]

definition capability_held :: "AuthorizationScope \<Rightarrow> Capability \<Rightarrow> bool" where
  "capability_held scope cap = (\<exists>g \<in> set (grants scope). cap \<in> set (capabilities g))"

definition gateway_execute ::
  "(string \<Rightarrow> uuid option) \<Rightarrow> (uuid \<Rightarrow> string) \<Rightarrow> (string \<Rightarrow> (int \<times> int) option) \<Rightarrow> 'w host \<Rightarrow>
   'w ApprovedToolGateway \<Rightarrow> string \<Rightarrow> pydict \<Rightarrow> AuthorizationScope \<Rightarrow> string list \<Rightarrow> string \<Rightarrow> 'w \<Rightarrow>
   tool_result \<times> 'w" where
  "gateway_execute parse_uuid ut coord h gw tool_name arguments scope permitted_tools request_id w =
     (let (started_at, w) = perf_counter h w in
      case ApprovedToolName_of tool_name of
        None \<Rightarrow> observation h started_at None gw_denied UNKNOWN_TOOL 0 None w
      | Some approved_name \<Rightarrow>
          if tool_value approved_name \<notin> set permitted_tools
          then observation h started_at (Some approved_name) gw_denied TOOL_NOT_SHORTLISTED 0 None w
          else case map_of (gw_adapters gw) approved_name of
            None \<Rightarrow> observation h started_at (Some approved_name) gw_denied UNKNOWN_TOOL 0 None w
          | Some adapter \<Rightarrow>
              if \<not> capability_held scope (ad_required_capability adapter)
              then observation h started_at (Some approved_name) gw_denied AUTHORIZATION_DENIED 0 None w
              else case Option.bind (json_dict ut arguments)
                          (model_validate_json parse_uuid (ad_input_model adapter)) of
                None \<Rightarrow> observation h started_at (Some approved_name) gw_denied INPUT_SCHEMA_REJECTED 0 None w
              | Some validated_input \<Rightarrow>
                  invoke_loop coord h adapter (gw_max_transient_retries gw) started_at approved_name
                    validated_input scope request_id 0 w)"

subsection \<open>The constructor\<close>

text \<open>A gateway that was constructed: unique names, and every adapter agrees with the manifest.\<close>

definition adapters_ok ::
  "(InputModel \<Rightarrow> JsonSchema) \<Rightarrow> (OutputModel \<Rightarrow> string) \<Rightarrow>
   (ApprovedToolName \<times> 'w ApprovedToolAdapter) list \<Rightarrow> bool" where
  "adapters_ok ischema oschema by_name =
     (distinct (map fst by_name) \<and>
      list_all (\<lambda>(name, a). ad_name a = Some name \<and>
        ischema (ad_input_model a) = ischema (input_model (TOOL_MANIFEST name)) \<and>
        oschema (ad_output_model a) = oschema (output_model (TOOL_MANIFEST name)) \<and>
        ad_required_capability a = required_capability (TOOL_MANIFEST name)) by_name)"

lemma required_capability_manifest [simp]: "required_capability (TOOL_MANIFEST t) = QUERY_DOCUMENTS"
  by (cases t) (simp_all add: entry_def)

lemma register_adapter_ok:
  "register_adapter ischema oschema bn a = Inr bn' \<Longrightarrow> adapters_ok ischema oschema bn \<Longrightarrow>
   adapters_ok ischema oschema bn'"
  by (auto simp: register_adapter_def adapters_ok_def Let_def split: option.splits if_splits)

lemma register_all_ok:
  "register_all ischema oschema bn as = Inr bn' \<Longrightarrow> adapters_ok ischema oschema bn \<Longrightarrow>
   adapters_ok ischema oschema bn'"
  by (induction as arbitrary: bn) (auto simp: result_simps intro: register_adapter_ok)

lemma mk_gateway_ok:
  assumes "mk_gateway ischema oschema adapters t r = Inr gw"
  shows "adapters_ok ischema oschema (gw_adapters gw) \<and> gw_max_transient_retries gw \<in> {0, 1} \<and>
    0 < gw_timeout_seconds gw"
  using assms register_all_ok [of ischema oschema "[]" adapters]
  by (auto simp: mk_gateway_def adapters_ok_def result_simps split: if_splits)

lemma register_all_from:
  "register_all ischema oschema bn as = Inr bn' \<Longrightarrow> snd ` set bn' \<subseteq> snd ` set bn \<union> set as"
proof (induction as arbitrary: bn)
  case (Cons a as)
  from Cons.prems obtain bn1 where b: "register_adapter ischema oschema bn a = Inr bn1"
    "register_all ischema oschema bn1 as = Inr bn'" by (auto simp: result_simps)
  from b(1) obtain name where "bn1 = bn @ [(name, a)]"
    by (auto simp: register_adapter_def Let_def split: option.splits if_splits)
  with Cons.IH [OF b(2)] show ?case by auto
qed simp

lemma mk_gateway_retries: "mk_gateway ischema oschema adapters t r = Inr gw \<Longrightarrow> gw_max_transient_retries gw = r"
  by (auto simp: mk_gateway_def result_simps split: if_splits)

lemma mk_gateway_adapters:
  "mk_gateway ischema oschema adapters t r = Inr gw \<Longrightarrow> (name, a) \<in> set (gw_adapters gw) \<Longrightarrow> a \<in> set adapters"
  using register_all_from [of ischema oschema "[]" adapters] by (force simp: mk_gateway_def result_simps split: if_splits)

lemma adapter_lookup:
  assumes "adapters_ok ischema oschema bn" and "map_of bn name = Some a"
  shows "ad_name a = Some name" and "ad_required_capability a = QUERY_DOCUMENTS"
  using map_of_SomeD [OF assms(2)] assms(1)
  by (auto simp: adapters_ok_def list_all_iff)

subsection \<open>Observations\<close>

text \<open>What an observation shows of its payload.\<close>

definition shows_payload :: "Payload option \<Rightarrow> StructuredToolObservation \<Rightarrow> bool" where
  "shows_payload p ob =
     (so_evidence ob = (case p of Some (ToolPayload es) \<Rightarrow> es | _ \<Rightarrow> []) \<and>
      so_calculations ob = (case p of Some (CalculationPayload cs) \<Rightarrow> cs | _ \<Rightarrow> []) \<and>
      so_memories ob = (case p of Some (MemorySearchPayload ms) \<Rightarrow> ms | _ \<Rightarrow> []) \<and>
      so_memory_proposal ob = (p = Some MemoryProposalPayload))"

lemma shows_payload_kinds: "shows_payload p ob \<Longrightarrow> payload_kinds ob \<le> 1"
  by (cases p; cases "the p") (auto simp: shows_payload_def payload_kinds_def)

lemma shows_payload_None:
  "shows_payload None ob \<Longrightarrow>
   so_evidence ob = [] \<and> so_calculations ob = [] \<and> so_memories ob = [] \<and> \<not> so_memory_proposal ob"
  by (simp add: shows_payload_def)

lemma tool_observation_okI:
  assumes "0 \<le> so_retry_count ob" and "so_retry_count ob \<le> 1" and "0 \<le> so_duration_ms ob"
    and "p = None \<or> so_status ob = gw_completed" and sp: "shows_payload p ob"
  shows "tool_observation_ok ob"
proof (cases "p = None")
  case True
  with sp have "shows_payload None ob" by simp
  from shows_payload_None [OF this] shows_payload_kinds [OF sp] assms(1-3) show ?thesis
    by (simp add: tool_observation_ok_def)
next
  case False
  with assms(1-4) shows_payload_kinds [OF sp] show ?thesis by (simp add: tool_observation_ok_def)
qed

lemma observation_shape:
  assumes "0 \<le> rc" and "rc \<le> 1" and "p = None \<or> st = gw_completed"
  shows "\<exists>ob w'. observation h t0 tn st r rc p w = (Observed ob, w') \<and> tool_observation_ok ob \<and>
     so_tool_name ob = tn \<and> so_status ob = st \<and> so_reason_code ob = r \<and> so_retry_count ob = rc \<and>
     shows_payload p ob"
proof -
  obtain now w1 where c: "perf_counter h w = (now, w1)" by (cases "perf_counter h w")
  obtain u w2 where i: "uuid4 h w1 = (u, w2)" by (cases "uuid4 h w1")
  let ?ob = "\<lparr>so_trace_id = u, so_tool_name = tn, so_status = st, so_reason_code = r,
     so_retry_count = rc, so_duration_ms = max 0 (trunc ((now - t0) * 1000)),
     so_evidence = (case p of Some (ToolPayload es) \<Rightarrow> es | _ \<Rightarrow> []),
     so_calculations = (case p of Some (CalculationPayload cs) \<Rightarrow> cs | _ \<Rightarrow> []),
     so_memories = (case p of Some (MemorySearchPayload ms) \<Rightarrow> ms | _ \<Rightarrow> []),
     so_memory_proposal = (p = Some MemoryProposalPayload)\<rparr>"
  have sp: "shows_payload p ?ob" by (simp add: shows_payload_def)
  have "tool_observation_ok ?ob"
    by (rule tool_observation_okI [OF _ _ _ _ sp]) (use assms in simp_all)
  with sp c i show ?thesis by (simp add: observation_def Let_def)
qed

text \<open>The retry loop ends with a valid observation, whatever the adapter does.\<close>

definition raises_reason :: "'w ApprovedToolAdapter \<Rightarrow> GatewayReasonCode \<Rightarrow> bool" where
  "raises_reason a reason \<longleftrightarrow> (\<exists>args scope rid w tr w'. ad_invoke a args scope rid w = (RaisedAdapterError reason tr, w'))"

definition reason_fits :: "'w ApprovedToolAdapter \<Rightarrow> GatewayStatus \<Rightarrow> GatewayReasonCode \<Rightarrow> bool" where
  "reason_fits a st reason =
     (case st of
        gw_completed \<Rightarrow> reason = TOOL_COMPLETED
      | gw_denied \<Rightarrow> reason = AUTHORIZATION_DENIED
      | gw_failed \<Rightarrow> reason \<in> {OUTPUT_SCHEMA_REJECTED, TOOL_TIMEOUT, TOOL_FAILED_SAFE} \<or> raises_reason a reason)"

definition admissible_result ::
  "(string \<Rightarrow> (int \<times> int) option) \<Rightarrow> 'w ApprovedToolAdapter \<Rightarrow> ApprovedToolName \<Rightarrow> tool_result \<Rightarrow> bool" where
  "admissible_result coord a name r =
     (\<exists>ob. r = Observed ob \<and> tool_observation_ok ob \<and> so_tool_name ob = Some name \<and>
       reason_fits a (so_status ob) (so_reason_code ob) \<and>
       (if so_status ob = gw_completed
        then \<exists>p. payload_ok coord p \<and> ad_output_model a = Gateway_output (payload_kind p) \<and> shows_payload (Some p) ob
        else shows_payload None ob))"

lemma observation_admissible:
  assumes "0 \<le> rc" and "rc \<le> 1"
    and "(\<exists>q. p = Some q \<and> payload_ok coord q \<and> ad_output_model a = Gateway_output (payload_kind q) \<and> st = gw_completed) \<or>
      (p = None \<and> st \<noteq> gw_completed)"
    and "reason_fits a st r"
  shows "admissible_result coord a name (fst (observation h t0 (Some name) st r rc p w))"
  using assms observation_shape [of rc p st h t0 "Some name" r w]
  by (fastforce simp: admissible_result_def)

lemma validate_output_Some:
  "validate_output coord om raw = Some p \<Longrightarrow> payload_ok coord p \<and> om = Gateway_output (payload_kind p)"
  by (auto simp: validate_output_def split: OutputModel.splits RawOutput.splits if_splits)

lemma attempt_once_admissible:
  assumes "0 \<le> rc" and "rc \<le> 1"
    and "attempt_once coord h a t0 name args scope rid rc w = (Finished r, w')"
  shows "admissible_result coord a name r"
proof -
  obtain o1 w1 where o: "ad_invoke a args scope rid w = (o1, w1)" by (cases "ad_invoke a args scope rid w")
  have ret: "admissible_result coord a name r"
    if "(let (r, w') = observation h t0 (Some name) st rs rc p w1 in (Finished r, w')) = (Finished r, w')"
      and "(\<exists>q. p = Some q \<and> payload_ok coord q \<and> ad_output_model a = Gateway_output (payload_kind q) \<and> st = gw_completed) \<or>
        (p = None \<and> st \<noteq> gw_completed)"
      and "reason_fits a st rs"
    for st rs p
    using that(1) observation_admissible [OF assms(1,2) that(2,3), of name h t0 w1]
    by (simp add: Let_def split: prod.splits)
  show ?thesis
  proof (cases o1)
    case (Returned raw)
    show ?thesis
    proof (cases "validate_output coord (ad_output_model a) raw")
      case None
      with assms(3) o Returned show ?thesis
        by (intro ret [of gw_failed OUTPUT_SCHEMA_REJECTED None]) (simp_all add: attempt_once_def reason_fits_def)
    next
      case (Some p)
      with assms(3) o Returned validate_output_Some [OF Some] show ?thesis
        by (intro ret [of gw_completed TOOL_COMPLETED "Some p"]) (simp_all add: attempt_once_def reason_fits_def)
    qed
  next
    case RaisedAuthorization
    with assms(3) o show ?thesis
      by (intro ret [of gw_denied AUTHORIZATION_DENIED None]) (simp_all add: attempt_once_def reason_fits_def)
  next
    case RaisedOther
    with assms(3) o show ?thesis
      by (intro ret [of gw_failed TOOL_FAILED_SAFE None]) (simp_all add: attempt_once_def reason_fits_def)
  qed (use assms(3) o in \<open>simp_all add: attempt_once_def\<close>)
qed

lemma attempt_once_reason:
  assumes "attempt_once coord h a t0 name args scope rid rc w = (Failed reason tr, w')"
  shows "reason_fits a gw_failed reason"
  using assms unfolding attempt_once_def
  by (auto simp: reason_fits_def raises_reason_def Let_def split: prod.splits InvokeOutcome.splits option.splits)

lemma invoke_loop_finished:
  "attempt_once coord h a t0 name args scope rid rc w = (Finished r, w') \<Longrightarrow>
   invoke_loop coord h a mr t0 name args scope rid rc w = (r, w')"
  by (simp add: invoke_loop.simps [of coord h a mr t0 name args scope rid rc w])

lemma invoke_loop_retry:
  "attempt_once coord h a t0 name args scope rid rc w = (Failed reason True, w') \<Longrightarrow> rc < mr \<Longrightarrow>
   invoke_loop coord h a mr t0 name args scope rid rc w =
   invoke_loop coord h a mr t0 name args scope rid (rc + 1) w'"
  by (simp add: invoke_loop.simps [of coord h a mr t0 name args scope rid rc w])

lemma invoke_loop_give_up:
  assumes "attempt_once coord h a t0 name args scope rid rc w = (Failed reason tr, w')" and "\<not> (tr \<and> rc < mr)"
  shows "invoke_loop coord h a mr t0 name args scope rid rc w =
    observation h t0 (Some name) gw_failed reason rc None w'"
  using assms(2) by (subst invoke_loop.simps) (simp only: assms(1) prod.case attempt.case if_False)

lemma attempt_cases:
  obtains (finished) r w' where "attempt_once coord h a t0 name args scope rid rc w = (Finished r, w')"
    | (retry) reason w' where "attempt_once coord h a t0 name args scope rid rc w = (Failed reason True, w')"
        "rc < mr"
    | (give_up) reason tr w' where "attempt_once coord h a t0 name args scope rid rc w = (Failed reason tr, w')"
        "\<not> (tr \<and> rc < mr)"
proof -
  obtain att w' where "attempt_once coord h a t0 name args scope rid rc w = (att, w')"
    by (cases "attempt_once coord h a t0 name args scope rid rc w")
  with that show thesis by (cases att) (metis (full_types))+
qed

lemma invoke_loop_admissible:
  assumes "0 \<le> rc" and "rc \<le> mr" and "mr \<le> 1"
  shows "admissible_result coord a name (fst (invoke_loop coord h a mr t0 name args scope rid rc w))"
  using assms
proof (induction coord h a mr t0 name args scope rid rc w rule: invoke_loop.induct)
  case (1 coord h a mr t0 name args scope rid rc w)
  have rc1: "rc \<le> 1" using 1(3,4) by simp
  show ?case
  proof (cases rule: attempt_cases [where coord = coord and h = h and a = a and ?t0.0 = t0 and name = name and args = args and scope = scope and rid = rid and rc = rc and w = w and mr = mr])
    case (finished r w')
    with attempt_once_admissible [OF 1(2) rc1 finished] show ?thesis by (simp add: invoke_loop_finished)
  next
    case (retry reason w')
    with 1(1) [OF retry(1) [symmetric]] 1(2,4) show ?thesis by (simp add: invoke_loop_retry)
  next
    case (give_up reason tr w')
    with observation_admissible [OF 1(2) rc1 _ attempt_once_reason [OF give_up(1)], of None coord name h t0 w'] show ?thesis
      by (simp add: invoke_loop_give_up)
  qed
qed

subsection \<open>The catalog and the guards of a call\<close>

lemma authorized_catalog_iff:
  "name \<in> set (authorized_catalog scope permitted) \<longleftrightarrow>
     tool_value name \<in> set permitted \<and> capability_held scope QUERY_DOCUMENTS"
  by (auto simp: authorized_catalog_def capability_held_def Let_def)

text \<open>The capability check of the gateway decides a scope as the disjunction of its grants.\<close>

definition gateway_decides :: "AuthorizationGrant list \<Rightarrow> Capability \<Rightarrow> bool" where
  "gateway_decides gs cap = (\<exists>g \<in> set gs. cap \<in> set (capabilities g))"

interpretation gateway: grant_policy "\<lambda>g cap. cap \<in> set (capabilities g)" gateway_decides
  by unfold_locales (simp add: gateway_decides_def)

lemma capability_held_decides: "capability_held scope cap = gateway_decides (grants scope) cap"
  by (simp add: capability_held_def gateway_decides_def)

text \<open>A scope that the policy engine allows any document query holds the gateway's capability.\<close>

lemma authorized_query_holds_capability:
  "allowed (authorize scope request) \<Longrightarrow> req_capability request = cap \<Longrightarrow> capability_held scope cap"
  by (auto simp: authorize_iff_permits capability_held_def grant_permits_def)

lemma authorized_catalog_monotone:
  "set (grants scope) \<subseteq> set (grants scope') \<Longrightarrow>
   set (authorized_catalog scope permitted) \<subseteq> set (authorized_catalog scope' permitted)"
  using gateway.more_grants_keep by (auto simp: authorized_catalog_iff capability_held_decides)

text \<open>
  The call a gateway admits: the tool is known and in the catalog of the request, an adapter is
  registered for it and the arguments are valid.  Otherwise the call is denied and the adapter
  does not run.
\<close>

definition admits ::
  "(string \<Rightarrow> uuid option) \<Rightarrow> (uuid \<Rightarrow> string) \<Rightarrow> 'w ApprovedToolGateway \<Rightarrow> string \<Rightarrow> pydict \<Rightarrow>
   AuthorizationScope \<Rightarrow> string list \<Rightarrow>
   (ApprovedToolName \<times> 'w ApprovedToolAdapter \<times> ActionArguments) option" where
  "admits pu ut gw tool_name arguments scope permitted =
     Option.bind (ApprovedToolName_of tool_name) (\<lambda>name.
     if name \<notin> set (authorized_catalog scope permitted) then None
     else Option.bind (map_of (gw_adapters gw) name) (\<lambda>adapter.
     Option.bind (Option.bind (json_dict ut arguments) (model_validate_json pu (ad_input_model adapter)))
       (\<lambda>a. Some (name, adapter, a))))"

lemma execute_admitted:
  assumes ok: "adapters_ok is os (gw_adapters gw)"
    and ad: "admits pu ut gw tn args scope permitted = Some (name, adapter, a)"
    and st: "perf_counter h w = (t0, w')"
  shows "gateway_execute pu ut coord h gw tn args scope permitted rid w =
    invoke_loop coord h adapter (gw_max_transient_retries gw) t0 name a scope rid 0 w'"
proof -
  from ad have n: "ApprovedToolName_of tn = Some name" "name \<in> set (authorized_catalog scope permitted)"
      "map_of (gw_adapters gw) name = Some adapter"
    and v: "Option.bind (json_dict ut args) (model_validate_json pu (ad_input_model adapter)) = Some a"
    by (auto simp: admits_def bind_eq_Some_conv split: if_splits)
  have "ad_required_capability adapter = QUERY_DOCUMENTS" by (rule adapter_lookup(2) [OF ok n(3)])
  with n st v show ?thesis
    by (simp add: gateway_execute_def authorized_catalog_iff)
qed

text \<open>What a call that is not admitted is told: the first failing check in the order of the code.\<close>

definition denial ::
  "'w ApprovedToolGateway \<Rightarrow> string \<Rightarrow> AuthorizationScope \<Rightarrow> string list \<Rightarrow>
   ApprovedToolName option \<times> GatewayReasonCode" where
  "denial gw tool_name scope permitted =
     (case ApprovedToolName_of tool_name of
        None \<Rightarrow> (None, UNKNOWN_TOOL)
      | Some name \<Rightarrow> (Some name,
          if tool_value name \<notin> set permitted then TOOL_NOT_SHORTLISTED
          else if map_of (gw_adapters gw) name = None then UNKNOWN_TOOL
          else if \<not> capability_held scope QUERY_DOCUMENTS then AUTHORIZATION_DENIED
          else INPUT_SCHEMA_REJECTED))"

lemma execute_not_admitted:
  assumes ok: "adapters_ok is os (gw_adapters gw)"
    and ad: "admits pu ut gw tn args scope permitted = None"
    and st: "perf_counter h w = (t0, w')"
  shows "gateway_execute pu ut coord h gw tn args scope permitted rid w =
    observation h t0 (fst (denial gw tn scope permitted)) gw_denied (snd (denial gw tn scope permitted)) 0 None w'"
proof (cases "ApprovedToolName_of tn")
  case None
  with st show ?thesis by (simp add: gateway_execute_def denial_def)
next
  case (Some name)
  note n = this
  show ?thesis
  proof (cases "map_of (gw_adapters gw) name")
    case None
    with n st show ?thesis by (simp add: gateway_execute_def denial_def)
  next
    case (Some adapter)
    note cap = adapter_lookup(2) [OF ok Some]
    consider "tool_value name \<notin> set permitted"
      | "tool_value name \<in> set permitted" "\<not> capability_held scope QUERY_DOCUMENTS"
      | "name \<in> set (authorized_catalog scope permitted)" by (auto simp: authorized_catalog_iff)
    then show ?thesis
    proof cases
      case 3
      with ad n Some have "Option.bind (json_dict ut args) (model_validate_json pu (ad_input_model adapter)) = None"
        by (simp add: admits_def bind_eq_None_conv)
      with 3 cap n Some st show ?thesis by (simp add: gateway_execute_def denial_def authorized_catalog_iff)
    qed (use cap n Some st in \<open>simp add: gateway_execute_def denial_def\<close>)+
  qed
qed

subsection \<open>The calls a gateway makes\<close>

text \<open>
  The instrumented gateway: the world carries, beside the original world, the list of the calls of
  \<^verbatim>\<open>invoke\<close> made so far.  A run of it is the original run (\<open>logged_execute\<close>) with its calls.
\<close>

type_synonym call = "ApprovedToolName option \<times> ActionArguments \<times> AuthorizationScope \<times> string"

definition logged_host :: "'w host \<Rightarrow> ('w \<times> call list) host" where
  "logged_host h = \<lparr>
     perf_counter = (\<lambda>(w, l). let (t, w') = perf_counter h w in (t, w', l)),
     uuid4 = (\<lambda>(w, l). let (u, w') = uuid4 h w in (u, w', l))\<rparr>"

definition logged_adapter :: "'w ApprovedToolAdapter \<Rightarrow> ('w \<times> call list) ApprovedToolAdapter" where
  "logged_adapter a = \<lparr>ad_name = ad_name a, ad_input_model = ad_input_model a,
     ad_output_model = ad_output_model a, ad_required_capability = ad_required_capability a,
     ad_invoke = (\<lambda>args scope rid (w, l).
       let (r, w') = ad_invoke a args scope rid w in (r, w', l @ [(ad_name a, args, scope, rid)]))\<rparr>"

definition logged_gateway :: "'w ApprovedToolGateway \<Rightarrow> ('w \<times> call list) ApprovedToolGateway" where
  "logged_gateway gw = \<lparr>gw_adapters = map (\<lambda>(n, a). (n, logged_adapter a)) (gw_adapters gw),
     gw_timeout_seconds = gw_timeout_seconds gw, gw_max_transient_retries = gw_max_transient_retries gw\<rparr>"

lemma logged_observation:
  "observation (logged_host h) t0 tn st r rc p (w, l) =
     (let (res, w') = observation h t0 tn st r rc p w in (res, w', l))"
  by (simp add: observation_def logged_host_def Let_def split: prod.splits)

lemma logged_attempt:
  "attempt_once coord (logged_host h) (logged_adapter a) t0 name args scope rid rc (w, l) =
     (let (res, w') = attempt_once coord h a t0 name args scope rid rc w
      in (res, w', l @ [(ad_name a, args, scope, rid)]))"
proof -
  obtain o1 w1 where o: "ad_invoke a args scope rid w = (o1, w1)" by (cases "ad_invoke a args scope rid w")
  then show ?thesis
    by (cases o1)
       (simp_all add: attempt_once_def logged_adapter_def logged_observation Let_def
          split: prod.split option.split)
qed

lemma logged_loop:
  assumes "rc \<le> mr"
  shows "\<exists>n. 1 \<le> n \<and> int n \<le> 1 + (mr - rc) \<and>
    invoke_loop coord (logged_host h) (logged_adapter a) mr t0 name args scope rid rc (w, l) =
      (let (res, w') = invoke_loop coord h a mr t0 name args scope rid rc w
       in (res, w', l @ replicate n (ad_name a, args, scope, rid)))"
  using assms
proof (induction coord h a mr t0 name args scope rid rc w arbitrary: l rule: invoke_loop.induct)
  case (1 coord h a mr t0 name args scope rid rc w)
  let ?c = "(ad_name a, args, scope, rid)"
  let ?L = "invoke_loop coord (logged_host h) (logged_adapter a) mr t0 name args scope rid"
  show ?case
  proof (cases rule: attempt_cases [where coord = coord and h = h and a = a and ?t0.0 = t0 and name = name and args = args and scope = scope and rid = rid and rc = rc and w = w and mr = mr])
    case (finished r w')
    then have "?L rc (w, l) = (r, w', l @ [?c])"
      by (intro invoke_loop_finished) (simp add: logged_attempt)
    with finished 1(2) show ?thesis by (intro exI [of _ 1]) (simp add: invoke_loop_finished)
  next
    case (retry reason w')
    then have L: "?L rc (w, l) = ?L (rc + 1) (w', l @ [?c])"
      by (intro invoke_loop_retry) (simp_all add: logged_attempt)
    from 1(1) [OF retry(1) [symmetric], of reason True "l @ [?c]"] retry(2)
    obtain n where n: "1 \<le> n" "int n \<le> 1 + (mr - (rc + 1))"
      "?L (rc + 1) (w', l @ [?c]) =
        (let (res, w') = invoke_loop coord h a mr t0 name args scope rid (rc + 1) w'
         in (res, w', (l @ [?c]) @ replicate n ?c))" by auto
    with retry L show ?thesis by (intro exI [of _ "Suc n"]) (simp add: invoke_loop_retry)
  next
    case (give_up reason tr w')
    then have "?L rc (w, l) = observation (logged_host h) t0 (Some name) gw_failed reason rc None (w', l @ [?c])"
      by (intro invoke_loop_give_up [where tr = tr]) (simp_all add: logged_attempt)
    with give_up 1(2) show ?thesis
      by (intro exI [of _ 1]) (simp add: invoke_loop_give_up logged_observation)
  qed
qed

lemma map_of_logged:
  "map_of (gw_adapters (logged_gateway gw)) name = map_option logged_adapter (map_of (gw_adapters gw) name)"
  by (simp add: logged_gateway_def map_of_map)

lemma logged_adapters_ok: "adapters_ok is os (gw_adapters gw) \<Longrightarrow> adapters_ok is os (gw_adapters (logged_gateway gw))"
  by (auto simp: adapters_ok_def logged_gateway_def logged_adapter_def list_all_iff comp_def case_prod_beta
      split: prod.splits)

lemma logged_admits:
  "admits pu ut (logged_gateway gw) tn args scope permitted =
     map_option (\<lambda>(n, a, x). (n, logged_adapter a, x)) (admits pu ut gw tn args scope permitted)"
  by (simp add: admits_def map_of_logged logged_adapter_def split: Option.bind_splits option.split)

lemma admits_Some:
  assumes "adapters_ok is os (gw_adapters gw)"
    and "admits pu ut gw tn args scope permitted = Some (name, adapter, a)"
  shows "tn = tool_value name" and "name \<in> set (authorized_catalog scope permitted)"
    and "arguments_ok a" and "ad_name adapter = Some name" and "(name, adapter) \<in> set (gw_adapters gw)"
    and "Option.bind (json_dict ut args) (model_validate_json pu (ad_input_model adapter)) = Some a"
proof -
  from assms(2) have n: "ApprovedToolName_of tn = Some name" "name \<in> set (authorized_catalog scope permitted)"
      "map_of (gw_adapters gw) name = Some adapter"
    and v: "Option.bind (json_dict ut args) (model_validate_json pu (ad_input_model adapter)) = Some a"
    by (auto simp: admits_def bind_eq_Some_conv split: if_splits)
  from n adapter_lookup(1) [OF assms(1) n(3)] model_validate_json_ok v
  show "tn = tool_value name" "name \<in> set (authorized_catalog scope permitted)" "arguments_ok a"
    "ad_name adapter = Some name"
    by (auto simp: ApprovedToolName_of_Some_iff bind_eq_Some_conv)
  show "(name, adapter) \<in> set (gw_adapters gw)" using n(3) by (rule map_of_SomeD)
  show "Option.bind (json_dict ut args) (model_validate_json pu (ad_input_model adapter)) = Some a" by (rule v)
qed

lemma logged_perf_counter:
  "perf_counter (logged_host h) (w, l) = (let (t, w') = perf_counter h w in (t, w', l))"
  by (simp add: logged_host_def)

text \<open>The call an execution is allowed to make.\<close>

definition proper_call ::
  "(string \<Rightarrow> uuid option) \<Rightarrow> (uuid \<Rightarrow> string) \<Rightarrow> 'w ApprovedToolGateway \<Rightarrow> string \<Rightarrow> pydict \<Rightarrow>
   AuthorizationScope \<Rightarrow> string list \<Rightarrow> string \<Rightarrow> call \<Rightarrow> bool" where
  "proper_call pu ut gw tn args scope permitted rid c \<longleftrightarrow>
     (\<exists>name adapter a. c = (Some name, a, scope, rid) \<and> tn = tool_value name \<and> tn \<in> set permitted \<and>
        (name, adapter) \<in> set (gw_adapters gw) \<and>
        (\<exists>g \<in> set (grants scope). required_capability (TOOL_MANIFEST name) \<in> set (capabilities g)) \<and>
        Option.bind (json_dict ut args) (model_validate_json pu (ad_input_model adapter)) = Some a \<and> arguments_ok a)"

lemma admits_proper_call:
  assumes "adapters_ok is os (gw_adapters gw)" and "admits pu ut gw tn args scope permitted = Some (name, adapter, a)"
  shows "proper_call pu ut gw tn args scope permitted rid (ad_name adapter, a, scope, rid)"
  using admits_Some [OF assms] unfolding proper_call_def
  by (auto simp: authorized_catalog_iff capability_held_def)

lemma logged_execute:
  assumes ok: "adapters_ok is os (gw_adapters gw)" and r: "0 \<le> gw_max_transient_retries gw"
  shows "\<exists>n c. gateway_execute pu ut coord (logged_host h) (logged_gateway gw) tn args scope permitted rid (w, []) =
    (let (res, w') = gateway_execute pu ut coord h gw tn args scope permitted rid w
     in (res, w', replicate n c)) \<and> int n \<le> 1 + gw_max_transient_retries gw \<and>
    (0 < n \<longleftrightarrow> admits pu ut gw tn args scope permitted \<noteq> None) \<and>
    (0 < n \<longrightarrow> proper_call pu ut gw tn args scope permitted rid c)"
proof -
  obtain t0 w1 where st: "perf_counter h w = (t0, w1)" by (cases "perf_counter h w")
  then have stl: "perf_counter (logged_host h) (w, []) = (t0, w1, [])" by (simp add: logged_perf_counter)
  note okl = logged_adapters_ok [OF ok]
  show ?thesis
  proof (cases "admits pu ut gw tn args scope permitted")
    case None
    have adl: "admits pu ut (logged_gateway gw) tn args scope permitted = None"
      by (simp add: logged_admits None)
    have "denial (logged_gateway gw) tn scope permitted = denial gw tn scope permitted"
      by (simp add: denial_def map_of_logged split: option.split)
    then show ?thesis
      using execute_not_admitted [OF ok None st] execute_not_admitted [OF okl adl stl] None r
      by (intro exI [of _ 0]) (simp add: logged_observation)
  next
    case (Some x)
    obtain name adapter a where x: "x = (name, adapter, a)" by (cases x)
    with Some have ad: "admits pu ut gw tn args scope permitted = Some (name, adapter, a)" by simp
    then have adl: "admits pu ut (logged_gateway gw) tn args scope permitted = Some (name, logged_adapter adapter, a)"
      by (simp add: logged_admits)
    from logged_loop [OF r, of coord h adapter t0 name a scope rid w1 "[]"]
    obtain n where n: "1 \<le> n" "int n \<le> 1 + gw_max_transient_retries gw" and n1:
      "invoke_loop coord (logged_host h) (logged_adapter adapter) (gw_max_transient_retries gw) t0 name a scope rid 0 (w1, []) =
        (let (res, w') = invoke_loop coord h adapter (gw_max_transient_retries gw) t0 name a scope rid 0 w1
         in (res, w', replicate n (ad_name adapter, a, scope, rid)))" by auto
    have "gw_max_transient_retries (logged_gateway gw) = gw_max_transient_retries gw"
      by (simp add: logged_gateway_def)
    with n n1 ad admits_proper_call [OF ok ad] execute_admitted [OF ok ad st] execute_admitted [OF okl adl stl]
    show ?thesis by (intro exI [of _ n] exI [of _ "(ad_name adapter, a, scope, rid)"]) simp
  qed
qed

subsection \<open>Properties\<close>

text \<open>A small gateway for the witnesses: one adapter, whose first call is a transient failure.\<close>

definition example_scope :: AuthorizationScope where
  "example_scope = \<lparr>scope_identity = \<lparr>identity_user_id = 1, identity_email = ''a@b'', identity_display_name = ''A''\<rparr>,
     grants = [\<lparr>membership_id = 1, home_tenant_id = 1, home_tenant_slug = ''t'', home_tenant_name = ''T'',
       workspace_id = 1, workspace_slug = ''w'', workspace_name = ''W'', grant_role = ''finance_user'',
       primary_department = ''finance'', company_ids = [10], company_slugs = [''acme''],
       departments = [\<lparr>dept_key = ''finance'', dept_source = PRIMARY_DEPARTMENT\<rparr>],
       capabilities = [QUERY_DOCUMENTS]\<rparr>]\<rparr>"

definition example_adapter :: "nat ApprovedToolAdapter" where
  "example_adapter = \<lparr>ad_name = Some PROPOSE_MEMORY, ad_input_model = ProposeMemory_model,
     ad_output_model = Gateway_output Memory_proposal_payload, ad_required_capability = QUERY_DOCUMENTS,
     ad_invoke = (\<lambda>args scope rid n. (if n = 0 then TimedOut else Returned (RawData MemoryProposalPayload), n + 1))\<rparr>"

definition example_host :: "nat host" where
  "example_host = \<lparr>perf_counter = (\<lambda>n. (0, n)), uuid4 = (\<lambda>n. (7, n))\<rparr>"

definition example_gateway :: "nat ApprovedToolGateway" where
  "example_gateway = \<lparr>gw_adapters = [(PROPOSE_MEMORY, example_adapter)], gw_timeout_seconds = 3,
     gw_max_transient_retries = 1\<rparr>"

definition example_schema :: "InputModel \<Rightarrow> JsonSchema" where
  "example_schema m = \<lparr>js_properties = map (\<lambda>k. (k, \<lparr>sf_ref = (if k = ''metric'' then Some ''#/$defs/M'' else None),
       sf_type = (if k = ''metric'' then None else Some ''string''), sf_minimum = None, sf_maximum = None,
       sf_minLength = None, sf_maxLength = None, sf_format = None\<rparr>)) (input_fields m),
     js_required = input_fields m,
     js_defs = [(''M'', \<lparr>sf_ref = None, sf_type = Some ''string'', sf_minimum = None, sf_maximum = None,
       sf_minLength = None, sf_maxLength = None, sf_format = None\<rparr>)]\<rparr>"

lemma example_mk_gateway:
  "mk_gateway example_schema (\<lambda>om. []) [example_adapter] 3 1 = Inr example_gateway"
  by (simp add: mk_gateway_def register_adapter_def example_adapter_def example_gateway_def
      APPROVED_TOOL_NAMES_def all_tools_def entry_def Let_def)

text \<open>C9: the gateway is the only way to an adapter.  An execution through a gateway that was constructed with
  \<open>r\<close> retries makes no call when one of its checks fails, and otherwise at least one and at most \<open>1 + r\<close> calls of
  \<^verbatim>\<open>invoke\<close>, all of them the same: of an adapter registered under the requested name, a tool the host permits and
  whose capability a grant of the caller holds, with exactly the input that validation made of the arguments, and
  with the authorization scope of the host, whatever the model put into the arguments.\<close>

theorem gateway_calls_authorized:
  assumes "mk_gateway ischema oschema adapters t r = Inr gw"
    and "gateway_execute pu ut coord (logged_host h) (logged_gateway gw) tn args scope permitted rid (w, []) =
      (res, w', calls)"
  shows "gateway_execute pu ut coord h gw tn args scope permitted rid w = (res, w') \<and>
    int (length calls) \<le> 1 + r \<and> (\<forall>c \<in> set calls. c = hd calls) \<and>
    (calls \<noteq> [] \<longleftrightarrow> admits pu ut gw tn args scope permitted \<noteq> None) \<and>
    (\<forall>c \<in> set calls. \<exists>name adapter a. c = (Some name, a, scope, rid) \<and> tn = tool_value name \<and> tn \<in> set permitted \<and>
       (name, adapter) \<in> set (gw_adapters gw) \<and> adapter \<in> set adapters \<and>
       (\<exists>g \<in> set (grants scope). required_capability (TOOL_MANIFEST name) \<in> set (capabilities g)) \<and>
       Option.bind (json_dict ut args) (model_validate_json pu (ad_input_model adapter)) = Some a \<and> arguments_ok a)"
proof -
  note mk = mk_gateway_ok [OF assms(1)]
  have ok: "adapters_ok ischema oschema (gw_adapters gw)" and r: "0 \<le> gw_max_transient_retries gw"
    "gw_max_transient_retries gw = r" using mk mk_gateway_retries [OF assms(1)] by auto
  obtain res1 w1 where plain: "gateway_execute pu ut coord h gw tn args scope permitted rid w = (res1, w1)"
    by (cases "gateway_execute pu ut coord h gw tn args scope permitted rid w")
  from logged_execute [OF ok r(1), of pu ut coord h tn args scope permitted rid w] assms(2) plain
  obtain n c where n: "res1 = res" "w1 = w'" "calls = replicate n c" "int n \<le> 1 + gw_max_transient_retries gw"
    "0 < n \<longleftrightarrow> admits pu ut gw tn args scope permitted \<noteq> None"
    "0 < n \<longrightarrow> proper_call pu ut gw tn args scope permitted rid c" by auto
  have "\<forall>c \<in> set calls. c = hd calls" unfolding n(3) by (cases n) simp_all
  with n r(2) plain mk_gateway_adapters [OF assms(1)] show ?thesis
    by (fastforce simp: proper_call_def set_replicate_conv_if)
qed

theorem gateway_calls_authorized_witness:
  "\<exists>res w' calls. gateway_execute (\<lambda>s. None) str_nat (\<lambda>s. None) (logged_host example_host) (logged_gateway example_gateway)
      ''portfolio.propose_memory'' [(''content'', PStr ''x''), (''normalized_key'', PStr ''k''), (''explicit'', PBool True)]
      example_scope [''portfolio.propose_memory''] ''r1'' (0, []) = (res, w', calls) \<and> length calls \<le> 2 \<and>
    gateway_execute (\<lambda>s. None) str_nat (\<lambda>s. None) example_host example_gateway ''portfolio.propose_memory''
      [(''content'', PStr ''x''), (''normalized_key'', PStr ''k''), (''explicit'', PBool True)]
      example_scope [''portfolio.propose_memory''] ''r1'' 0 = (res, w')"
proof -
  let ?l = "gateway_execute (\<lambda>s. None) str_nat (\<lambda>s. None) (logged_host example_host) (logged_gateway example_gateway)
      ''portfolio.propose_memory'' [(''content'', PStr ''x''), (''normalized_key'', PStr ''k''), (''explicit'', PBool True)]
      example_scope [''portfolio.propose_memory''] ''r1'' (0, [])"
  obtain res w' calls where l: "?l = (res, w', calls)" by (cases ?l)
  from gateway_calls_authorized [OF example_mk_gateway l] have "length calls \<le> 2" by linarith
  with l gateway_calls_authorized [OF example_mk_gateway l] show ?thesis by blast
qed

text \<open>C10: execution through a constructed gateway always ends in a valid observation, never in an
  error of its own.  A call that fails a check is denied with the code of the first check it fails.  Any other
  observation names the tool, and its code fits its status: completed calls have \<^verbatim>\<open>TOOL_COMPLETED\<close>, denied ones the
  denial of the tool itself, failed ones a rejected output, a timeout, the safe failure or the code the adapter
  raised.  Only a completed call carries content: one payload that passed its model, of the kind whose schema the
  manifest declares for the tool.\<close>

theorem gateway_observation_valid:
  assumes "mk_gateway ischema oschema adapters t r = Inr gw"
  shows "\<exists>ob. fst (gateway_execute pu ut coord h gw tn args scope permitted rid w) = Observed ob \<and>
    tool_observation_ok ob \<and>
    (case admits pu ut gw tn args scope permitted of
       None \<Rightarrow> so_status ob = gw_denied \<and> shows_payload None ob \<and>
         (so_tool_name ob, so_reason_code ob) = denial gw tn scope permitted
     | Some (name, adapter, a) \<Rightarrow> tn = tool_value name \<and> so_tool_name ob = Some name \<and>
         (name, adapter) \<in> set (gw_adapters gw) \<and>
         (case so_status ob of
            gw_completed \<Rightarrow> so_reason_code ob = TOOL_COMPLETED \<and>
              (\<exists>p. payload_ok coord p \<and> shows_payload (Some p) ob \<and>
                oschema (Gateway_output (payload_kind p)) = oschema (output_model (TOOL_MANIFEST name)))
          | gw_denied \<Rightarrow> so_reason_code ob = AUTHORIZATION_DENIED \<and> shows_payload None ob
          | gw_failed \<Rightarrow> shows_payload None ob \<and>
              (so_reason_code ob \<in> {OUTPUT_SCHEMA_REJECTED, TOOL_TIMEOUT, TOOL_FAILED_SAFE} \<or>
               raises_reason adapter (so_reason_code ob))))"
proof -
  from mk_gateway_ok [OF assms(1)]
  have ok: "adapters_ok ischema oschema (gw_adapters gw)"
    and r: "0 \<le> gw_max_transient_retries gw" "gw_max_transient_retries gw \<le> 1" by auto
  obtain t0 w1 where st: "perf_counter h w = (t0, w1)" by (cases "perf_counter h w")
  show ?thesis
  proof (cases "admits pu ut gw tn args scope permitted")
    case None
    from observation_shape [of 0 None gw_denied h t0 "fst (denial gw tn scope permitted)"
        "snd (denial gw tn scope permitted)" w1]
    show ?thesis by (fastforce simp: execute_not_admitted [OF ok None st] None)
  next
    case (Some x)
    obtain name adapter a where x: "x = (name, adapter, a)" by (cases x)
    with Some have ad: "admits pu ut gw tn args scope permitted = Some (name, adapter, a)" by simp
    note A = admits_Some(1,5) [OF ok ad]
    have os: "oschema (ad_output_model adapter) = oschema (output_model (TOOL_MANIFEST name))"
      using ok A(2) by (auto simp: adapters_ok_def list_all_iff)
    from invoke_loop_admissible [OF order_refl r, of coord adapter name h t0 a scope rid w1]
    obtain ob where ob: "fst (gateway_execute pu ut coord h gw tn args scope permitted rid w) = Observed ob"
      "tool_observation_ok ob" "so_tool_name ob = Some name" "reason_fits adapter (so_status ob) (so_reason_code ob)"
      "if so_status ob = gw_completed
       then \<exists>p. payload_ok coord p \<and> ad_output_model adapter = Gateway_output (payload_kind p) \<and> shows_payload (Some p) ob
       else shows_payload None ob"
      unfolding execute_admitted [OF ok ad st] admissible_result_def by blast
    then show ?thesis using A os ad
      by (intro exI [of _ ob]) (cases "so_status ob"; auto simp: reason_fits_def)
  qed
qed

theorem gateway_observation_valid_witness:
  "\<exists>ob. fst (gateway_execute (\<lambda>s. None) str_nat (\<lambda>s. None) example_host example_gateway ''portfolio.search_memory''
      [] example_scope [] ''r1'' 0) = Observed ob \<and> tool_observation_ok ob \<and> so_reason_code ob = TOOL_NOT_SHORTLISTED"
proof -
  have "admits (\<lambda>s. None) str_nat example_gateway ''portfolio.search_memory'' [] example_scope [] = None"
    by (simp add: admits_def authorized_catalog_iff split: Option.bind_splits)
  moreover have "snd (denial example_gateway ''portfolio.search_memory'' example_scope []) = TOOL_NOT_SHORTLISTED"
    by (simp add: denial_def ApprovedToolName_of_def all_tools_def)
  ultimately show ?thesis
    using gateway_observation_valid [OF example_mk_gateway, of "\<lambda>s. None" str_nat "\<lambda>s. None" example_host
        "''portfolio.search_memory''" "[]" example_scope "[]" "''r1''" 0]
    by (auto simp: prod_eq_iff)
qed

subsection \<open>The catalog shown to the model\<close>

text \<open>What the projection relies on in the JSON schemas pydantic derives from the input models: the
  properties are the declared fields, each with one of the three scalar types, directly or through
  a reference to an enumeration, and the only format is \<^verbatim>\<open>uuid\<close>.\<close>

definition projected_type :: "JsonSchema \<Rightarrow> SchemaField \<Rightarrow> SchemaField option" where
  "projected_type schema raw =
     (case sf_ref raw of
        None \<Rightarrow> Some raw
      | Some reference \<Rightarrow>
          if take 8 reference = ''#/$defs/''
          then map_option (\<lambda>dfn. merge_field dfn raw) (map_of (js_defs schema) (removeprefix ''#/$defs/'' reference))
          else Some raw)"

definition schema_declares :: "(InputModel \<Rightarrow> JsonSchema) \<Rightarrow> bool" where
  "schema_declares ischema =
     (\<forall>m. map fst (js_properties (ischema m)) = input_fields m \<and>
        list_all (\<lambda>(k, raw). case projected_type (ischema m) raw of
             None \<Rightarrow> False
           | Some f \<Rightarrow> sf_type f \<in> {Some ''string'', Some ''integer'', Some ''boolean''} \<and>
               sf_format f \<in> {None, Some ''uuid''}) (js_properties (ischema m)))"

lemma project_field_ok:
  assumes "k \<in> set tool_field_names" and "projected_type schema raw = Some f"
    and "sf_type f \<in> {Some ''string'', Some ''integer'', Some ''boolean''}" and "sf_format f \<in> {None, Some ''uuid''}"
  shows "\<exists>pf. project_field schema (k, raw) = Inr pf \<and> pf_name pf = k \<and> input_field_ok pf"
proof -
  have b: "(case sf_ref raw of
               None \<Rightarrow> Inr raw
             | Some reference \<Rightarrow>
                 if take 8 reference = ''#/$defs/''
                 then (case map_of (js_defs schema) (removeprefix ''#/$defs/'' reference) of
                         None \<Rightarrow> Inl (GatewayConfigurationError ''INPUT_SCHEMA_MISMATCH'')
                       | Some dfn \<Rightarrow> Inr (merge_field dfn raw))
                 else Inr raw) = Inr f"
    using assms(2) by (auto simp: projected_type_def split: option.splits if_splits)
  from assms(3) obtain vt where vt: "sf_type f = Some vt" "vt \<in> {''string'', ''integer'', ''boolean''}" by blast
  then show ?thesis
    unfolding project_field_def Let_def prod.case b bindR_simps input_field_ok_def
    using assms(1,4) by (simp del: insert_iff)
qed

lemma mapR_project:
  assumes "\<forall>x \<in> set xs. \<exists>y. f x = Inr y \<and> g y = h x \<and> P y"
  shows "\<exists>ys. mapR f xs = Inr ys \<and> map g ys = map h xs \<and> list_all P ys"
  using assms
proof (induction xs)
  case (Cons x xs)
  then obtain y ys where "f x = Inr y" "g y = h x" "P y" "mapR f xs = Inr ys" "map g ys = map h xs" "list_all P ys"
    by auto
  then show ?case by simp
qed simp

lemma input_fields_known: "set (input_fields m) \<subseteq> set tool_field_names"
  by (cases m) (simp_all add: input_fields_def tool_field_names_def)

lemma input_fields_shape:
  "distinct (input_fields m)" "1 \<le> length (input_fields m)" "length (input_fields m) \<le> 5"
  by (cases m; simp add: input_fields_def)+

lemma manifest_texts:
  "bounded 1 180 (purpose (TOOL_MANIFEST t))" "bounded 1 180 (safe_result_description (TOOL_MANIFEST t))"
  by (cases t; simp add: entry_def bounded_def)+

lemma describe_tool_ok:
  assumes "schema_declares ischema"
  shows "\<exists>d. describe_tool ischema t = Inr d \<and> pd_name d = t \<and>
    map pf_name (pd_fields d) = input_fields (input_model (TOOL_MANIFEST t))"
proof -
  let ?m = "input_model (TOOL_MANIFEST t)"
  let ?s = "ischema ?m"
  have keys: "map fst (js_properties ?s) = input_fields ?m"
    and decl: "list_all (\<lambda>(k, raw). case projected_type ?s raw of None \<Rightarrow> False
       | Some f \<Rightarrow> sf_type f \<in> {Some ''string'', Some ''integer'', Some ''boolean''} \<and>
               sf_format f \<in> {None, Some ''uuid''}) (js_properties ?s)"
    using assms by (simp_all only: schema_declares_def)
  have "\<exists>fs. mapR (project_field ?s) (js_properties ?s) = Inr fs \<and>
      map pf_name fs = map fst (js_properties ?s) \<and> list_all input_field_ok fs"
  proof (rule mapR_project, rule ballI)
    fix x assume x: "x \<in> set (js_properties ?s)"
    obtain k raw where kr: "x = (k, raw)" by (cases x)
    from x kr have "k \<in> set (map fst (js_properties ?s))" by force
    then have "k \<in> set tool_field_names" using keys input_fields_known [of ?m] by auto
    moreover from decl x kr obtain f where "projected_type ?s raw = Some f"
      "sf_type f \<in> {Some ''string'', Some ''integer'', Some ''boolean''}" "sf_format f \<in> {None, Some ''uuid''}"
      by (fastforce simp: list_all_iff split: option.splits)
    ultimately show "\<exists>y. project_field ?s x = Inr y \<and> pf_name y = fst x \<and> input_field_ok y"
      using project_field_ok kr by fastforce
  qed
  then obtain fs where fs: "mapR (project_field ?s) (js_properties ?s) = Inr fs"
    "map pf_name fs = input_fields ?m" "list_all input_field_ok fs"
    using keys by auto
  have "length fs = length (input_fields ?m)" using fs(2) by (metis length_map)
  then show ?thesis
    using fs input_fields_shape [of ?m] manifest_texts [of t]
    by (simp add: describe_tool_def descriptor_ok_def Let_def)
qed

text \<open>With schemas that list the declared fields, the catalog for the decision prompt never fails:
  it describes exactly the tools of the authorized catalog, in the order of the manifest, each with
  exactly its input fields.\<close>

theorem permitted_catalog_complete:
  assumes "schema_declares ischema"
  shows "\<exists>ds. permitted_catalog ischema scope permitted = Inr ds \<and>
    map pd_name ds = authorized_catalog scope permitted \<and>
    map (\<lambda>d. map pf_name (pd_fields d)) ds =
      map (\<lambda>t. input_fields (input_model (TOOL_MANIFEST t))) (authorized_catalog scope permitted)"
proof -
  have "\<exists>ds. permitted_catalog ischema scope permitted = Inr ds \<and>
     map (\<lambda>d. (pd_name d, map pf_name (pd_fields d))) ds =
     map (\<lambda>t. (t, input_fields (input_model (TOOL_MANIFEST t)))) (authorized_catalog scope permitted) \<and>
     list_all (\<lambda>_. True) ds"
    unfolding permitted_catalog_def
    by (rule mapR_project) (use describe_tool_ok [OF assms] in simp)
  then obtain ds where ds: "permitted_catalog ischema scope permitted = Inr ds"
    "map (\<lambda>d. (pd_name d, map pf_name (pd_fields d))) ds =
     map (\<lambda>t. (t, input_fields (input_model (TOOL_MANIFEST t)))) (authorized_catalog scope permitted)" by blast
  from arg_cong [OF ds(2), of "map fst"] arg_cong [OF ds(2), of "map snd"] ds(1)
  show ?thesis by (simp add: comp_def)
qed

lemma example_schema_declares: "schema_declares example_schema"
  by (auto simp: schema_declares_def example_schema_def projected_type_def merge_field_def or_else_def
      removeprefix_def list_all_iff comp_def)

theorem permitted_catalog_complete_witness:
  "\<exists>ds. permitted_catalog example_schema example_scope [''portfolio.calculate_cagr'', ''portfolio.shell''] = Inr ds \<and>
    map pd_name ds = [CALCULATE_CAGR] \<and>
    map (\<lambda>d. map pf_name (pd_fields d)) ds = [[''company_slug'', ''start_period'', ''end_period'', ''metric'']]"
proof -
  have "authorized_catalog example_scope [''portfolio.calculate_cagr'', ''portfolio.shell''] = [CALCULATE_CAGR]"
    by (simp add: authorized_catalog_def all_tools_def example_scope_def entry_def Let_def)
  with permitted_catalog_complete [OF example_schema_declares, of example_scope
      "[''portfolio.calculate_cagr'', ''portfolio.shell'']"]
  show ?thesis by (simp add: entry_def input_fields_def)
qed

end
