(* ===== verification/Agent_Models.thy ===== *)
theory Agent_Models
  imports Gateway
begin

text \<open>
  The typed data of the agent, \<^verbatim>\<open>app/agent/models.py\<close>, with the evidence and answer data of
  \<^verbatim>\<open>app/chat/contracts.py\<close> and \<^verbatim>\<open>app/schemas/chat.py\<close> and the control enumerations of
  \<^verbatim>\<open>app/models/agent_runs.py\<close>.  Every model of the code is a record; the field constraints and the
  validators of a model are one predicate \<open>..._ok\<close>, which decides whether its constructor raises
  \<^verbatim>\<open>ValidationError\<close>.
\<close>

subsection \<open>Enumerations\<close>

datatype TerminalStatus =
  T_COMPLETED | T_REFUSED | T_NEEDS_CLARIFICATION | T_INSUFFICIENT_EVIDENCE | T_LIMIT_REACHED | T_FAILED

datatype StoppingReason =
    S_COMPLETED | S_REQUEST_REFUSED | S_CLARIFICATION_REQUIRED | S_INSUFFICIENT_AUTHORIZED_EVIDENCE
  | S_SCOPE_DENIED | S_MAX_STEPS | S_MAX_RETRIEVAL_REWRITES | S_MAX_REPLANS | S_MAX_DURATION
  | S_TOOL_TIMEOUT | S_TOOL_ERROR | S_MODEL_ERROR | S_MALFORMED_ACTION | S_PLAN_EXHAUSTED
  | S_CITATION_VALIDATION_FAILED

text \<open>\<^verbatim>\<open>reason.value.upper()\<close>, the reason code of the terminal trace event.\<close>

fun stopping_code :: "StoppingReason \<Rightarrow> string" where
  "stopping_code S_COMPLETED = ''COMPLETED''"
| "stopping_code S_REQUEST_REFUSED = ''REQUEST_REFUSED''"
| "stopping_code S_CLARIFICATION_REQUIRED = ''CLARIFICATION_REQUIRED''"
| "stopping_code S_INSUFFICIENT_AUTHORIZED_EVIDENCE = ''INSUFFICIENT_AUTHORIZED_EVIDENCE''"
| "stopping_code S_SCOPE_DENIED = ''SCOPE_DENIED''"
| "stopping_code S_MAX_STEPS = ''MAX_STEPS''"
| "stopping_code S_MAX_RETRIEVAL_REWRITES = ''MAX_RETRIEVAL_REWRITES''"
| "stopping_code S_MAX_REPLANS = ''MAX_REPLANS''"
| "stopping_code S_MAX_DURATION = ''DURATION''"
| "stopping_code S_TOOL_TIMEOUT = ''TOOL_TIMEOUT''"
| "stopping_code S_TOOL_ERROR = ''TOOL_ERROR''"
| "stopping_code S_MODEL_ERROR = ''MODEL_ERROR''"
| "stopping_code S_MALFORMED_ACTION = ''MALFORMED_ACTION''"
| "stopping_code S_PLAN_EXHAUSTED = ''PLAN_EXHAUSTED''"
| "stopping_code S_CITATION_VALIDATION_FAILED = ''CITATION_VALIDATION_FAILED''"

datatype TraceEventType =
  E_PERCEPTION | E_POLICY | E_DECISION | E_GATEWAY | E_TOOL | E_OBSERVATION | E_FINALIZATION | E_TERMINAL

datatype TraceStatus =
  TS_STARTED | TS_COMPLETED | TS_DENIED | TS_TIMEOUT | TS_FAILED | TS_TERMINATED

datatype PerceptionMode = USER_QUERY | STEP_RESULT

datatype EvidenceStatus = ES_NONE | ES_SUFFICIENT | ES_INSUFFICIENT | ES_DENIED | ES_ERROR

datatype GoalStatus = G_PENDING | G_ADVANCED | G_SATISFIED | G_BLOCKED

datatype PerceptionIntent =
    FINANCIAL_LOOKUP | LEGAL_LOOKUP | CROSS_DOMAIN_ANALYSIS | PORTFOLIO_COMPARISON
  | CALCULATION_REQUIRED | I_MEMORY_RECALL | I_MEMORY_WRITE | I_CLARIFICATION | UNSUPPORTED

datatype ResultRequirement = AUTHORIZED_EVIDENCE | GROUNDED_ANSWER | R_CLARIFICATION | CONTROLLED_REFUSAL

datatype RequiredEvidence =
    FINANCIAL_DOCUMENT | LEGAL_DOCUMENT | SHARED_DOCUMENT | COMPARISON_DOCUMENTS
  | CALCULATION_INPUTS | MEMORY_CONTEXT

datatype PerceptionRiskFlag =
    SCOPE_HINT_PRESENT | CROSS_TENANT_HINT | CROSS_DEPARTMENT_HINT | PROMPT_INJECTION
  | CALCULATION_UNAVAILABLE | AMBIGUOUS_TARGET | UNSUPPORTED_CAPABILITY

datatype ActionType = TOOL_CALL | FINALIZE | CLARIFY | REFUSE

datatype StepStatus = ST_PENDING | ST_COMPLETED | ST_FAILED

datatype ObservationStatus = O_SUCCESS | O_DENIED | O_TIMEOUT | O_ERROR

datatype AgentControlMode = GUIDED | BALANCED | AUTONOMOUS

datatype ApprovalRiskClass =
    LOW_READ_ONLY | SENSITIVE | EXPENSIVE | STATE_CHANGING | BUDGET_EXPANDING | ALWAYS_REQUIRE_APPROVAL

subsection \<open>Trace events\<close>

record TraceEvent =
  ev_id :: uuid
  ev_type :: TraceEventType
  ev_action_name :: "string option"
  ev_status :: TraceStatus
  ev_duration_ms :: int
  ev_evidence_reference_ids :: "string list"
  ev_reason_code :: string

definition trace_event_ok :: "TraceEvent \<Rightarrow> bool" where
  "trace_event_ok e = (opt_all tool_name_ok (ev_action_name e) \<and> 0 \<le> ev_duration_ms e \<and>
     code_ok 63 (ev_reason_code e))"

subsection \<open>Perception\<close>

record PerceptionEntities =
  en_companies :: "string list"
  en_departments :: "string list"
  en_documents :: "string list"
  en_financial_metrics :: "string list"
  en_legal_terms :: "string list"
  en_reporting_periods :: "string list"
  en_currencies :: "string list"

definition entity_texts_ok :: "nat \<Rightarrow> string list \<Rightarrow> bool" where
  "entity_texts_ok n xs = (length xs \<le> n \<and> list_all (bounded 1 80) xs)"

definition entities_ok :: "PerceptionEntities \<Rightarrow> bool" where
  "entities_ok e = (entity_texts_ok 6 (en_companies e) \<and> entity_texts_ok 6 (en_departments e) \<and>
     entity_texts_ok 6 (en_documents e) \<and> entity_texts_ok 8 (en_financial_metrics e) \<and>
     entity_texts_ok 8 (en_legal_terms e) \<and> entity_texts_ok 6 (en_reporting_periods e) \<and>
     entity_texts_ok 4 (en_currencies e))"

record MentionedScopeHints =
  sh_tenants :: "string list"
  sh_companies :: "string list"
  sh_departments :: "string list"

definition scope_hints_ok :: "MentionedScopeHints \<Rightarrow> bool" where
  "scope_hints_ok h = (entity_texts_ok 4 (sh_tenants h) \<and> entity_texts_ok 6 (sh_companies h) \<and>
     entity_texts_ok 6 (sh_departments h))"

record RemainingBudgets =
  rb_tool_steps :: int
  rb_retrieval_rewrites :: int
  rb_replans :: int
  rb_latest_tool_retries :: int
  rb_duration_ms :: int

definition remaining_budgets_ok :: "RemainingBudgets \<Rightarrow> bool" where
  "remaining_budgets_ok b =
     (0 \<le> rb_tool_steps b \<and> rb_tool_steps b \<le> 4 \<and>
      0 \<le> rb_retrieval_rewrites b \<and> rb_retrieval_rewrites b \<le> 1 \<and>
      0 \<le> rb_replans b \<and> rb_replans b \<le> 1 \<and>
      0 \<le> rb_latest_tool_retries b \<and> rb_latest_tool_retries b \<le> 1 \<and>
      0 \<le> rb_duration_ms b \<and> rb_duration_ms b \<le> 120000)"

record PerceptionSnapshot =
  ps_mode :: PerceptionMode
  ps_intent :: PerceptionIntent
  ps_entities :: PerceptionEntities
  ps_mentioned_scope_hints :: MentionedScopeHints
  ps_result_requirement :: ResultRequirement
  ps_required_evidence :: "RequiredEvidence list"
  ps_required_capabilities :: "Capability list"
  ps_ambiguities :: "string list"
  ps_risk_flags :: "PerceptionRiskFlag list"
  ps_evidence_status :: EvidenceStatus
  ps_local_goal_status :: GoalStatus
  ps_global_goal_status :: GoalStatus
  ps_confidence :: rat
  ps_reason_code :: string
  ps_clarification_question :: "string option"
  ps_rationale_summary :: "string option"

definition perception_ok :: "PerceptionSnapshot \<Rightarrow> bool" where
  "perception_ok p =
     (entities_ok (ps_entities p) \<and> scope_hints_ok (ps_mentioned_scope_hints p) \<and>
      length (ps_required_evidence p) \<le> 5 \<and>
      list_all (\<lambda>c. c = QUERY_DOCUMENTS) (ps_required_capabilities p) \<and>
      entity_texts_ok 5 (ps_ambiguities p) \<and> length (ps_risk_flags p) \<le> 5 \<and>
      0 \<le> ps_confidence p \<and> ps_confidence p \<le> 1 \<and> code_ok 63 (ps_reason_code p) \<and>
      opt_all (bounded 1 240) (ps_clarification_question p) \<and>
      opt_all (bounded 1 300) (ps_rationale_summary p))"

subsection \<open>Actions and plans\<close>

record Action =
  act_type :: ActionType
  act_name :: "string option"
  act_arguments :: ActionArguments
  act_reason_code :: string

text \<open>
  The checks \<^verbatim>\<open>isinstance(self.arguments, Model)\<close>: the metric query is a subclass of the calculation
  input.
\<close>

fun arguments_isinstance :: "ActionArguments \<Rightarrow> InputModel \<Rightarrow> bool" where
  "arguments_isinstance (QueryFinancialMetricsInput c r m) im =
     (im = QueryFinancialMetrics_model \<or> im = CalculateFinancialMetric_model)"
| "arguments_isinstance a im = (arguments_model a = Some im)"

definition enforce_action_shape :: "Action \<Rightarrow> bool" where
  "enforce_action_shape a =
     (if act_type a = TOOL_CALL then
        (case act_name a of
           None \<Rightarrow> False
         | Some n \<Rightarrow>
             let is = arguments_isinstance (act_arguments a) in
             if n = ''portfolio.search_authorized_documents'' \<and> \<not> is SearchAuthorizedDocuments_model then False
             else if n = ''portfolio.get_document_excerpt'' \<and> \<not> is GetDocumentExcerpt_model then False
             else if n \<in> {''portfolio.calculate_ebitda_margin'', ''portfolio.calculate_revenue_growth'',
                          ''portfolio.calculate_net_profit_margin'', ''portfolio.calculate_debt_to_equity'',
                          ''portfolio.calculate_cash_runway''} \<and> \<not> is CalculateFinancialMetric_model then False
             else if n = ''portfolio.query_financial_metrics'' \<and> \<not> is QueryFinancialMetrics_model then False
             else if n = ''portfolio.calculate_cagr'' \<and> \<not> is CalculateCagr_model then False
             else if n = ''portfolio.search_memory'' \<and> \<not> is SearchMemory_model then False
             else if n = ''portfolio.propose_memory'' \<and> \<not> is ProposeMemory_model then False
             else True)
      else \<not> (act_name a \<noteq> None \<or> act_arguments a \<noteq> NoActionArguments))"

definition action_ok :: "Action \<Rightarrow> bool" where
  "action_ok a = (opt_all tool_name_ok (act_name a) \<and> arguments_ok (act_arguments a) \<and>
     code_ok 63 (act_reason_code a) \<and> enforce_action_shape a)"

record Step =
  step_index :: int
  step_action_type :: ActionType
  step_action_name :: "string option"
  step_status :: StepStatus
  step_reason_code :: string

definition step_ok :: "Step \<Rightarrow> bool" where
  "step_ok s = (0 \<le> step_index s \<and> step_index s \<le> 2 \<and> opt_all tool_name_ok (step_action_name s) \<and>
     code_ok 63 (step_reason_code s))"

record Plan =
  plan_version :: int
  plan_text :: "string list"
  plan_steps :: "Step list"
  plan_change_reason_code :: string

text \<open>
  The validators \<^verbatim>\<open>unique_ordered_steps\<close> and \<^verbatim>\<open>plan_text_matches_steps\<close> with the field constraints.
\<close>

definition plan_ok :: "Plan \<Rightarrow> bool" where
  "plan_ok p =
     (1 \<le> plan_version p \<and>
      1 \<le> length (plan_text p) \<and> length (plan_text p) \<le> 3 \<and> list_all (bounded 1 160) (plan_text p) \<and>
      1 \<le> length (plan_steps p) \<and> length (plan_steps p) \<le> 3 \<and> list_all step_ok (plan_steps p) \<and>
      code_ok 63 (plan_change_reason_code p) \<and>
      map step_index (plan_steps p) = map int [0..<length (plan_steps p)] \<and>
      length (plan_text p) = length (plan_steps p))"

record DecisionResult =
  dr_plan :: Plan
  dr_next_action :: Action
  dr_replan :: bool

definition decision_ok :: "DecisionResult \<Rightarrow> bool" where
  "decision_ok d = (plan_ok (dr_plan d) \<and> action_ok (dr_next_action d))"

text \<open>The status of a completed step is a literal, so the record has no field for it.\<close>

record CompletedStep =
  cs_plan_version :: int
  cs_step_index :: int
  cs_action_type :: ActionType
  cs_action_name :: "string option"
  cs_reason_code :: string

definition completed_step_ok :: "CompletedStep \<Rightarrow> bool" where
  "completed_step_ok c = (1 \<le> cs_plan_version c \<and> 0 \<le> cs_step_index c \<and> cs_step_index c \<le> 2 \<and>
     opt_all tool_name_ok (cs_action_name c) \<and> code_ok 63 (cs_reason_code c))"

subsection \<open>Evidence, answers and observations\<close>

record GroundedEvidence =
  ge_evidence_id :: string
  ge_chunk_id :: uuid
  ge_document_id :: uuid
  ge_document_version_id :: uuid
  ge_version_number :: int
  ge_document_title :: string
  ge_excerpt :: string
  ge_page_number :: "int option"
  ge_sheet_name :: "string option"
  ge_row_start :: "int option"
  ge_row_end :: "int option"
  ge_cell_start :: "string option"
  ge_cell_end :: "string option"

record GroundedClaimDraft =
  gd_text :: string
  gd_evidence_ids :: "string list"

datatype AnswerStatus = supported | insufficient_evidence

record GroundedAnswerDraft =
  ga_status :: AnswerStatus
  ga_claims :: "GroundedClaimDraft list"
  ga_limitations :: "string list"

record GroundedClaimData =
  gc_text :: string
  gc_citation_ids :: "string list"

record GroundedCitationData =
  ci_citation_id :: string
  ci_document_id :: uuid
  ci_document_version_id :: uuid
  ci_chunk_id :: uuid
  ci_document_title :: string
  ci_version_number :: int
  ci_excerpt :: string
  ci_page_number :: "int option"
  ci_sheet_name :: "string option"
  ci_row_start :: "int option"
  ci_row_end :: "int option"
  ci_cell_start :: "string option"
  ci_cell_end :: "string option"

record CalculationInputData =
  cid_name :: string
  cid_period :: string
  cid_value :: rat
  cid_unit :: string
  cid_citation_id :: string

record CalculationData =
  cd_calculation_id :: uuid
  cd_metric :: string
  cd_company_slug :: string
  cd_period :: string
  cd_formula :: string
  cd_trusted_inputs :: "CalculationInputData list"
  cd_result :: rat
  cd_unit :: string
  cd_citation_ids :: "string list"

record StructuredObservation =
  ob_tool_name :: string
  ob_status :: ObservationStatus
  ob_evidence :: "GroundedEvidence list"
  ob_calculations :: "CalculationResult list"
  ob_memory_context :: "MemoryToolItem list"
  ob_memory_notification :: "string option"
  ob_duration_ms :: int
  ob_retryable :: bool
  ob_retry_count :: int
  ob_reason_code :: string

text \<open>
  The validator \<^verbatim>\<open>enforce_failure_shape\<close> with the field constraints; an empty notification counts as
  absent, as in Python.
\<close>

definition observation_ok :: "StructuredObservation \<Rightarrow> bool" where
  "observation_ok ob =
     (tool_name_ok (ob_tool_name ob) \<and> opt_all (\<lambda>s. length s \<le> 120) (ob_memory_notification ob) \<and>
      0 \<le> ob_duration_ms ob \<and> 0 \<le> ob_retry_count ob \<and> ob_retry_count ob \<le> 1 \<and>
      code_ok 63 (ob_reason_code ob) \<and>
      (if ob_status ob \<noteq> O_SUCCESS \<and>
          (ob_evidence ob \<noteq> [] \<or> ob_calculations ob \<noteq> [] \<or> ob_memory_context ob \<noteq> [] \<or>
           ob_memory_notification ob \<notin> {None, Some []}) then False
       else if ob_status ob = O_DENIED \<and> ob_retryable ob then False
       else True))"

definition evidence_reference_ids :: "StructuredObservation \<Rightarrow> string list" where
  "evidence_reference_ids ob = map ge_evidence_id (ob_evidence ob)"

subsection \<open>Content-free snapshots\<close>

datatype SafeStepStatus = SS_COMPLETED | SS_DENIED | SS_TIMEOUT | SS_FAILED

datatype PolicyOutcome = NOT_EVALUATED | P_ALLOWED | P_DENIED

text \<open>The policy decision of a step is one of the two literals \<^verbatim>\<open>ALLOWED\<close> and \<^verbatim>\<open>DENIED\<close>.\<close>

record SafeStepSnapshot =
  ss_plan_version :: int
  ss_plan_step_index :: int
  ss_tool_name :: string
  ss_action_argument_hash :: string
  ss_status :: SafeStepStatus
  ss_policy_decision :: PolicyOutcome
  ss_reason_code :: string
  ss_duration_ms :: int

definition hex64_ok :: "string \<Rightarrow> bool" where
  "hex64_ok s = (length s = 64 \<and> list_all (\<lambda>c. is_digit c \<or> c \<in> set ''abcdef'') s)"

definition safe_step_ok :: "SafeStepSnapshot \<Rightarrow> bool" where
  "safe_step_ok s =
     (1 \<le> ss_plan_version s \<and> ss_plan_version s \<le> 2 \<and>
      0 \<le> ss_plan_step_index s \<and> ss_plan_step_index s \<le> 2 \<and> tool_name_ok (ss_tool_name s) \<and>
      hex64_ok (ss_action_argument_hash s) \<and> ss_policy_decision s \<in> {P_ALLOWED, P_DENIED} \<and>
      code_ok 95 (ss_reason_code s) \<and> 0 \<le> ss_duration_ms s \<and> ss_duration_ms s \<le> 120000)"

record SafeObservationSnapshot =
  sos_status :: ObservationStatus
  sos_reason_code :: string
  sos_document_ids :: "uuid list"
  sos_chunk_ids :: "uuid list"
  sos_citation_ids :: "string list"
  sos_retry_count :: int
  sos_duration_ms :: int

definition safe_observation_ok :: "SafeObservationSnapshot \<Rightarrow> bool" where
  "safe_observation_ok s =
     (code_ok 95 (sos_reason_code s) \<and>
      length (sos_document_ids s) \<le> 8 \<and> length (sos_chunk_ids s) \<le> 8 \<and> length (sos_citation_ids s) \<le> 8 \<and>
      list_all evidence_id_ok (sos_citation_ids s) \<and>
      0 \<le> sos_retry_count s \<and> sos_retry_count s \<le> 1 \<and>
      0 \<le> sos_duration_ms s \<and> sos_duration_ms s \<le> 120000 \<and>
      length (sos_document_ids s) = length (sos_chunk_ids s) \<and>
      length (sos_chunk_ids s) = length (sos_citation_ids s))"

subsection \<open>Session, outcome and limits\<close>

record AgentSession =
  se_session_id :: uuid
  se_request_id :: string
  se_original_query :: string
  se_authorization_context :: AuthorizationContext
  se_permitted_tool_catalog :: "PermittedToolDescriptor list"
  se_perceptions :: "PerceptionSnapshot list"
  se_plans :: "Plan list"
  se_completed_steps :: "CompletedStep list"
  se_observations :: "StructuredObservation list"
  se_safe_steps :: "SafeStepSnapshot list"
  se_safe_observations :: "SafeObservationSnapshot list"
  se_terminal_status :: "TerminalStatus option"
  se_stopping_reason :: "StoppingReason option"
  se_step_count :: int
  se_replan_count :: int
  se_retry_count :: int
  se_trace :: "TraceEvent list"

definition new_session_ok :: "AgentSession \<Rightarrow> bool" where
  "new_session_ok s = (bounded 1 128 (se_request_id s) \<and> bounded 1 1000 (se_original_query s))"

record AgentRunOutcome =
  out_agent_session_id :: uuid
  out_terminal_status :: TerminalStatus
  out_stopping_reason :: StoppingReason
  out_answer :: string
  out_claims :: "GroundedClaimData list"
  out_citations :: "GroundedCitationData list"
  out_limitations :: "string list"
  out_calculations :: "CalculationData list"
  out_memory_proposal :: "ActionArguments option"
  out_step_count :: int
  out_replan_count :: int
  out_retry_count :: int
  out_trace :: "TraceEvent list"
  out_selected_intent :: "PerceptionIntent option"
  out_policy_decision :: PolicyOutcome
  out_tool_shortlist :: "ApprovedToolName list"
  out_plan_version :: "int option"
  out_evidence_advanced_goal :: bool
  out_plan_versions :: "Plan list"
  out_safe_steps :: "SafeStepSnapshot list"
  out_safe_observations :: "SafeObservationSnapshot list"
  out_input_tokens :: "int option"
  out_output_tokens :: "int option"

definition tokens_ok :: "int option \<Rightarrow> bool" where
  "tokens_ok t = opt_all (\<lambda>n. 0 \<le> n \<and> n \<le> 1000000) t"

definition outcome_ok :: "AgentRunOutcome \<Rightarrow> bool" where
  "outcome_ok r =
     (0 \<le> out_step_count r \<and> 0 \<le> out_replan_count r \<and> 0 \<le> out_retry_count r \<and>
      length (out_tool_shortlist r) \<le> 11 \<and>
      opt_all (\<lambda>v. 1 \<le> v \<and> v \<le> 2) (out_plan_version r) \<and>
      tokens_ok (out_input_tokens r) \<and> tokens_ok (out_output_tokens r))"

record AgentLoopLimits =
  lim_max_steps :: int
  lim_max_retrieval_rewrites :: int
  lim_max_replans :: int
  lim_max_duration_seconds :: seconds

definition limits_ok :: "AgentLoopLimits \<Rightarrow> bool" where
  "limits_ok l =
     (1 \<le> lim_max_steps l \<and> lim_max_steps l \<le> 4 \<and>
      0 \<le> lim_max_retrieval_rewrites l \<and> lim_max_retrieval_rewrites l \<le> 1 \<and>
      0 \<le> lim_max_replans l \<and> lim_max_replans l \<le> 1 \<and>
      0 < lim_max_duration_seconds l \<and> lim_max_duration_seconds l \<le> 300)"

subsection \<open>Actions and the manifest\<close>

text \<open>The input model a tool call of a known tool carries.\<close>

lemma action_tool_model:
  assumes "action_ok a" and "act_type a = TOOL_CALL" and "act_name a = Some (tool_value t)"
  shows "arguments_isinstance (act_arguments a) (input_model (TOOL_MANIFEST t))"
proof -
  from assms have "enforce_action_shape a" by (simp add: action_ok_def)
  with assms(2,3) show ?thesis
    by (cases t) (simp_all add: enforce_action_shape_def entry_def split: if_splits)
qed

lemma arguments_isinstance_model:
  "arguments_isinstance a im \<Longrightarrow> arguments_model a = Some im \<or>
     (arguments_model a = Some QueryFinancialMetrics_model \<and> im = CalculateFinancialMetric_model)"
  by (cases a) auto

lemma stopping_code_ok [simp]: "code_ok 63 (stopping_code r)"
  by (cases r) (simp_all add: code_ok_def is_upper_def is_digit_def)

lemma reason_value_code_ok [simp]: "code_ok 63 (reason_value r)"
  by (cases r) (simp_all add: code_ok_def is_upper_def is_digit_def)

lemma tool_value_name_ok [simp]: "tool_name_ok (tool_value t)"
  by (cases t) (simp_all add: tool_name_ok_def split_on_def ident_ok_def is_lower_def is_digit_def)

lemma code_ok_mono: "code_ok m s \<Longrightarrow> m \<le> n \<Longrightarrow> code_ok n s"
  by (cases s) (auto simp: code_ok_def)

end
