(* ===== verification/Plan_State.thy ===== *)
theory Plan_State
  imports Agent_Models
begin

text \<open>
  The host's ownership of plans, \<^verbatim>\<open>app/agent/plan_state.py\<close>: plan versions, progression through the
  steps, the immutable history of completed steps and the fingerprints of executed actions.

  The argument \<open>digest\<close> is the SHA-256 hex digest of the canonical JSON text of a dictionary
  (\<^verbatim>\<open>json.dumps\<close> with sorted keys and fixed separators).  The lemmas take the three operations as a
  transition system (\<open>plan_reachable\<close>) and show what holds in all of its states.
\<close>

subsection \<open>Fingerprints\<close>

fun action_type_value :: "ActionType \<Rightarrow> string" where
  "action_type_value TOOL_CALL = ''TOOL_CALL''"
| "action_type_value FINALIZE = ''FINALIZE''"
| "action_type_value CLARIFY = ''CLARIFY''"
| "action_type_value REFUSE = ''REFUSE''"

definition opt_str :: "string option \<Rightarrow> pyval" where
  "opt_str x = (case x of None \<Rightarrow> PNone | Some s \<Rightarrow> PStr s)"

definition action_fingerprint :: "(pydict \<Rightarrow> string) \<Rightarrow> (uuid \<Rightarrow> string) \<Rightarrow> Action \<Rightarrow> string" where
  "action_fingerprint digest ut a = digest
     [(''type'', PStr (action_type_value (act_type a))), (''action_name'', opt_str (act_name a)),
      (''arguments'', PDict (model_dump_json ut (act_arguments a)))]"

type_synonym plan_signature =
  "string list \<times> (int \<times> ActionType \<times> string option \<times> StepStatus) list"

definition plan_signature_of :: "Plan \<Rightarrow> plan_signature" where
  "plan_signature_of p = (plan_text p,
     map (\<lambda>s. (step_index s, step_action_type s, step_action_name s, step_status s)) (plan_steps p))"

subsection \<open>The state and its operations\<close>

datatype plan_error = PlanContractError | PlanExhaustedError | CompletedStepInvalid

record PlanState =
  current_plan :: Plan
  versions :: "Plan list"
  completed_history :: "CompletedStep list"
  executed_action_fingerprints :: "string list"

definition first_pending_step :: "PlanState \<Rightarrow> Step option" where
  "first_pending_step st = List.find (\<lambda>s. step_status s = ST_PENDING) (plan_steps (current_plan st))"

definition validate_next_action ::
  "(pydict \<Rightarrow> string) \<Rightarrow> (uuid \<Rightarrow> string) \<Rightarrow> PlanState \<Rightarrow> Action \<Rightarrow> (plan_error, Step) result" where
  "validate_next_action digest ut st a =
     (case first_pending_step st of
        None \<Rightarrow> Inl PlanExhaustedError
      | Some s \<Rightarrow>
          if step_action_type s \<noteq> act_type a \<or> step_action_name s \<noteq> act_name a then Inl PlanContractError
          else if action_fingerprint digest ut a \<in> set (executed_action_fingerprints st)
          then Inl PlanContractError
          else Inr s)"

definition initial ::
  "(pydict \<Rightarrow> string) \<Rightarrow> (uuid \<Rightarrow> string) \<Rightarrow> DecisionResult \<Rightarrow> (plan_error, PlanState) result" where
  "initial digest ut d =
     (if plan_version (dr_plan d) \<noteq> 1 then Inl PlanContractError
      else if dr_replan d then Inl PlanContractError
      else if \<exists>s \<in> set (plan_steps (dr_plan d)). step_status s \<noteq> ST_PENDING then Inl PlanContractError
      else let st = \<lparr>current_plan = dr_plan d, versions = [dr_plan d], completed_history = [],
                     executed_action_fingerprints = []\<rparr>
        in bindR (validate_next_action digest ut st (dr_next_action d)) (\<lambda>_. Inr st))"

definition complete_next ::
  "(pydict \<Rightarrow> string) \<Rightarrow> (uuid \<Rightarrow> string) \<Rightarrow> PlanState \<Rightarrow> Action \<Rightarrow> (plan_error, PlanState) result" where
  "complete_next digest ut st a =
     bindR (validate_next_action digest ut st a) (\<lambda>matched.
       let completed = matched\<lparr>step_status := ST_COMPLETED, step_reason_code := ''TOOL_COMPLETED''\<rparr>;
           steps = map (\<lambda>i. if step_index i = step_index matched then completed else i)
             (plan_steps (current_plan st));
           updated_plan = (current_plan st)\<lparr>plan_steps := steps\<rparr>;
           completed_record = \<lparr>cs_plan_version = plan_version (current_plan st),
             cs_step_index = step_index completed, cs_action_type = step_action_type completed,
             cs_action_name = step_action_name completed, cs_reason_code = step_reason_code completed\<rparr>
       in if completed_step_ok completed_record
          then Inr (st\<lparr>current_plan := updated_plan,
                 versions := butlast (versions st) @ [updated_plan],
                 completed_history := completed_history st @ [completed_record],
                 executed_action_fingerprints :=
                   executed_action_fingerprints st @ [action_fingerprint digest ut a]\<rparr>)
          else Inl CompletedStepInvalid)"

definition apply_decision ::
  "(pydict \<Rightarrow> string) \<Rightarrow> (uuid \<Rightarrow> string) \<Rightarrow> PlanState \<Rightarrow> DecisionResult \<Rightarrow>
   (plan_error, PlanState \<times> bool) result" where
  "apply_decision digest ut st d =
     (let candidate = dr_plan d;
          changed = (plan_signature_of candidate \<noteq> plan_signature_of (current_plan st))
      in bindR
        (if changed then
           (if plan_version candidate \<noteq> plan_version (current_plan st) + 1 then Inl PlanContractError
            else if \<exists>s \<in> set (plan_steps candidate). step_status s \<noteq> ST_PENDING then Inl PlanContractError
            else Inr (st\<lparr>current_plan := candidate, versions := versions st @ [candidate]\<rparr>))
         else
           (if plan_version candidate \<noteq> plan_version (current_plan st) then Inl PlanContractError
            else if dr_replan d then Inl PlanContractError
            else Inr st))
        (\<lambda>state. bindR (validate_next_action digest ut state (dr_next_action d)) (\<lambda>_. Inr (state, changed))))"

subsection \<open>The invariant of plan states\<close>

text \<open>The steps of a plan in progress: completed ones first, pending ones after them.\<close>

definition in_progress :: "Plan \<Rightarrow> bool" where
  "in_progress p = (\<exists>k \<le> length (plan_steps p).
     map step_status (plan_steps p) = replicate k ST_COMPLETED @ replicate (length (plan_steps p) - k) ST_PENDING)"

definition plan_state_ok :: "PlanState \<Rightarrow> bool" where
  "plan_state_ok st =
     (versions st \<noteq> [] \<and> last (versions st) = current_plan st \<and>
      map plan_version (versions st) = map int [1..<Suc (length (versions st))] \<and>
      list_all (\<lambda>p. plan_ok p \<and> in_progress p) (versions st) \<and>
      distinct (executed_action_fingerprints st) \<and>
      length (completed_history st) = length (executed_action_fingerprints st) \<and>
      list_all (\<lambda>c. cs_plan_version c \<le> int (length (versions st)) \<and> completed_step_ok c) (completed_history st))"

lemma validate_next_action_Inr:
  assumes "validate_next_action digest ut st a = Inr s"
  shows "s \<in> set (plan_steps (current_plan st))" and "step_status s = ST_PENDING"
    and "step_action_type s = act_type a" and "step_action_name s = act_name a"
    and "action_fingerprint digest ut a \<notin> set (executed_action_fingerprints st)"
  using assms
  by (auto simp: validate_next_action_def first_pending_step_def split: option.splits if_splits
      dest: find_Some_memb)

lemma validate_next_action_exhausted:
  "validate_next_action digest ut st a = Inl PlanExhaustedError \<longleftrightarrow>
   (\<forall>s \<in> set (plan_steps (current_plan st)). step_status s \<noteq> ST_PENDING)"
proof -
  have "validate_next_action digest ut st a = Inl PlanExhaustedError \<longleftrightarrow> first_pending_step st = None"
    by (auto simp: validate_next_action_def split: option.splits if_splits)
  then show ?thesis by (simp add: first_pending_step_def find_None_iff_all)
qed

lemma find_first_pending:
  assumes "map step_status ss = replicate k ST_COMPLETED @ replicate m ST_PENDING"
  shows "List.find (\<lambda>s. step_status s = ST_PENDING) ss = (if m = 0 then None else Some (ss ! k))"
  using assms
proof (induction ss arbitrary: k)
  case (Cons s ss)
  then show ?case by (cases k; cases m) auto
qed simp

text \<open>Steps are found by their index, which is their position.\<close>

lemma plan_ok_index: "plan_ok p \<Longrightarrow> i < length (plan_steps p) \<Longrightarrow> step_index (plan_steps p ! i) = int i"
proof -
  assume "plan_ok p" and i: "i < length (plan_steps p)"
  then have "map step_index (plan_steps p) ! i = map int [0..<length (plan_steps p)] ! i"
    by (simp add: plan_ok_def)
  with i show ?thesis by simp
qed

lemma map_step_update:
  assumes "plan_ok p" and "k < length (plan_steps p)"
  shows "map (\<lambda>i. if step_index i = step_index (plan_steps p ! k) then c else i) (plan_steps p) =
    (plan_steps p)[k := c]"
  using plan_ok_index [OF assms(1)] assms(2)
  by (intro nth_equalityI) (auto simp: nth_list_update)

lemma list_update_progress:
  assumes "map step_status ss = replicate k ST_COMPLETED @ replicate (length ss - k) ST_PENDING"
    and "k < length ss" and "step_status c = ST_COMPLETED"
  shows "map step_status (ss[k := c]) =
    replicate (Suc k) ST_COMPLETED @ replicate (length ss - Suc k) ST_PENDING"
proof -
  have "replicate (length ss - k) ST_PENDING = ST_PENDING # replicate (length ss - Suc k) ST_PENDING"
    using assms(2) by (simp add: replicate_Suc [symmetric] Suc_diff_Suc del: replicate_Suc)
  with assms(1) have "map step_status (ss[k := c]) =
      (replicate k ST_COMPLETED @ ST_PENDING # replicate (length ss - Suc k) ST_PENDING)[k := ST_COMPLETED]"
    by (simp add: map_update assms(3))
  then show ?thesis by (simp add: list_update_append replicate_append_same)
qed

lemma TOOL_COMPLETED_code [simp]: "code_ok 63 ''TOOL_COMPLETED''"
  using reason_value_code_ok [of TOOL_COMPLETED] by simp

text \<open>Completing a step keeps a valid plan valid and moves it one step on.\<close>

lemma completed_plan_ok:
  assumes "plan_ok p" and "k < length (plan_steps p)" and "step_index c = int k" and "step_ok c"
  shows "plan_ok (p\<lparr>plan_steps := (plan_steps p)[k := c]\<rparr>)"
proof -
  from assms(1) have ix: "map step_index (plan_steps p) = map int [0..<length (plan_steps p)]"
    and all: "list_all step_ok (plan_steps p)" by (simp_all add: plan_ok_def)
  have "map step_index ((plan_steps p)[k := c]) = map int [0..<length (plan_steps p)]"
    using ix assms(2,3) by (simp add: map_update) (metis list_update_id nth_map length_map plan_ok_index assms(1))
  moreover have "list_all step_ok ((plan_steps p)[k := c])"
    using all assms(2,4) by (auto simp: list_all_iff dest: set_update_subset_insert [THEN subsetD])
  ultimately show ?thesis using assms(1) by (simp add: plan_ok_def)
qed

lemma initial_ok:
  assumes "initial digest ut d = Inr st" and "decision_ok d"
  shows "plan_state_ok st \<and> executed_action_fingerprints st = [] \<and> completed_history st = []"
proof -
  from assms(1) have st: "st = \<lparr>current_plan = dr_plan d, versions = [dr_plan d], completed_history = [],
      executed_action_fingerprints = []\<rparr>" and v: "plan_version (dr_plan d) = 1"
    and pend: "\<forall>s \<in> set (plan_steps (dr_plan d)). step_status s = ST_PENDING"
    by (auto simp: initial_def Let_def result_simps split: if_splits)
  from pend have "map step_status (plan_steps (dr_plan d)) = replicate (length (plan_steps (dr_plan d))) ST_PENDING"
    by (induction "plan_steps (dr_plan d)") (auto simp: map_replicate_const [symmetric] intro: map_cong)
  then have "in_progress (dr_plan d)" unfolding in_progress_def by (intro exI [of _ 0]) simp
  with st v assms(2) show ?thesis by (simp add: plan_state_ok_def decision_ok_def)
qed

lemma complete_next_Inr:
  assumes "complete_next digest ut st a = Inr st'" and "plan_state_ok st"
  obtains k where "k < length (plan_steps (current_plan st))"
    and "validate_next_action digest ut st a = Inr (plan_steps (current_plan st) ! k)"
    and "map step_status (plan_steps (current_plan st)) =
      replicate k ST_COMPLETED @ replicate (length (plan_steps (current_plan st)) - k) ST_PENDING"
    and "st' = st\<lparr>current_plan := (current_plan st)\<lparr>plan_steps := (plan_steps (current_plan st))[k :=
          (plan_steps (current_plan st) ! k)\<lparr>step_status := ST_COMPLETED, step_reason_code := ''TOOL_COMPLETED''\<rparr>]\<rparr>,
        versions := butlast (versions st) @ [(current_plan st)\<lparr>plan_steps := (plan_steps (current_plan st))[k :=
          (plan_steps (current_plan st) ! k)\<lparr>step_status := ST_COMPLETED, step_reason_code := ''TOOL_COMPLETED''\<rparr>]\<rparr>],
        completed_history := completed_history st @ [\<lparr>cs_plan_version = plan_version (current_plan st),
          cs_step_index = step_index (plan_steps (current_plan st) ! k), cs_action_type = act_type a,
          cs_action_name = act_name a, cs_reason_code = ''TOOL_COMPLETED''\<rparr>],
        executed_action_fingerprints := executed_action_fingerprints st @ [action_fingerprint digest ut a]\<rparr>"
    and "completed_step_ok \<lparr>cs_plan_version = plan_version (current_plan st),
          cs_step_index = step_index (plan_steps (current_plan st) ! k), cs_action_type = act_type a,
          cs_action_name = act_name a, cs_reason_code = ''TOOL_COMPLETED''\<rparr>"
proof -
  let ?p = "current_plan st"
  from assms(2) have pok: "plan_ok ?p" and prog: "in_progress ?p"
    by (auto simp: plan_state_ok_def list_all_iff dest: last_in_set)
  from prog obtain k where k: "k \<le> length (plan_steps ?p)"
    "map step_status (plan_steps ?p) = replicate k ST_COMPLETED @ replicate (length (plan_steps ?p) - k) ST_PENDING"
    by (auto simp: in_progress_def)
  from assms(1) obtain s where s: "validate_next_action digest ut st a = Inr s"
    by (auto simp: complete_next_def result_simps)
  from s have "first_pending_step st = Some s"
    by (auto simp: validate_next_action_def split: option.splits if_splits)
  with find_first_pending [OF k(2)] have sk: "s = plan_steps ?p ! k" and kl: "k < length (plan_steps ?p)"
    using k(1) by (auto simp: first_pending_step_def split: if_splits)
  note v = validate_next_action_Inr [OF s]
  show thesis
    using that [OF kl s [unfolded sk] k(2)] assms(1) s v(3,4) map_step_update [OF pok kl]
    by (auto simp: complete_next_def Let_def sk split: if_splits)
qed

lemma complete_next_ok:
  assumes ok: "plan_state_ok st" and c: "complete_next digest ut st a = Inr st'"
  shows "plan_state_ok st' \<and> length (versions st') = length (versions st)"
proof -
  let ?p = "current_plan st"
  from complete_next_Inr [OF c ok] obtain k where kl: "k < length (plan_steps ?p)"
    and v: "validate_next_action digest ut st a = Inr (plan_steps ?p ! k)"
    and prog: "map step_status (plan_steps ?p) = replicate k ST_COMPLETED @ replicate (length (plan_steps ?p) - k) ST_PENDING"
    and st': "st' = st\<lparr>current_plan := ?p\<lparr>plan_steps := (plan_steps ?p)[k :=
          (plan_steps ?p ! k)\<lparr>step_status := ST_COMPLETED, step_reason_code := ''TOOL_COMPLETED''\<rparr>]\<rparr>,
        versions := butlast (versions st) @ [?p\<lparr>plan_steps := (plan_steps ?p)[k :=
          (plan_steps ?p ! k)\<lparr>step_status := ST_COMPLETED, step_reason_code := ''TOOL_COMPLETED''\<rparr>]\<rparr>],
        completed_history := completed_history st @ [\<lparr>cs_plan_version = plan_version ?p,
          cs_step_index = step_index (plan_steps ?p ! k), cs_action_type = act_type a,
          cs_action_name = act_name a, cs_reason_code = ''TOOL_COMPLETED''\<rparr>],
        executed_action_fingerprints := executed_action_fingerprints st @ [action_fingerprint digest ut a]\<rparr>"
    and cs: "completed_step_ok \<lparr>cs_plan_version = plan_version ?p,
          cs_step_index = step_index (plan_steps ?p ! k), cs_action_type = act_type a,
          cs_action_name = act_name a, cs_reason_code = ''TOOL_COMPLETED''\<rparr>"
    by blast
  let ?c = "(plan_steps ?p ! k)\<lparr>step_status := ST_COMPLETED, step_reason_code := ''TOOL_COMPLETED''\<rparr>"
  let ?q = "?p\<lparr>plan_steps := (plan_steps ?p)[k := ?c]\<rparr>"
  from ok obtain vs where vs: "versions st = vs @ [?p]"
    by (metis append_butlast_last_id plan_state_ok_def)
  from ok vs have pok: "plan_ok ?p" and vsok: "list_all (\<lambda>p. plan_ok p \<and> in_progress p) vs"
    by (simp_all add: plan_state_ok_def)
  have "step_ok (plan_steps ?p ! k)" using pok kl by (simp add: plan_ok_def list_all_length)
  then have "step_ok ?c" by (simp add: step_ok_def)
  then have qok: "plan_ok ?q"
    using completed_plan_ok [OF pok kl, of ?c] plan_ok_index [OF pok kl] by simp
  have "in_progress ?q"
    using list_update_progress [OF prog kl, of ?c] kl
    by (auto simp: in_progress_def intro!: exI [of _ "Suc k"])
  with qok vsok have lst: "list_all (\<lambda>p. plan_ok p \<and> in_progress p) (vs @ [?q])" by simp
  have ver: "map plan_version (vs @ [?q]) = map plan_version (versions st)" by (simp add: vs)
  have vlen: "plan_version ?p = int (length (versions st))"
    using ok arg_cong [of _ _ last] by (auto simp: plan_state_ok_def vs)
  from validate_next_action_Inr(5) [OF v] have fresh:
    "action_fingerprint digest ut a \<notin> set (executed_action_fingerprints st)" .
  have nv: "versions st' = vs @ [?q]" by (simp add: st' vs)
  show ?thesis
    unfolding plan_state_ok_def nv
    using ok lst ver fresh cs vlen
    by (simp add: plan_state_ok_def st' vs)
qed

lemma apply_decision_ok:
  assumes ok: "plan_state_ok st" and d: "decision_ok d" and a: "apply_decision digest ut st d = Inr (st', ch)"
  shows "plan_state_ok st' \<and> completed_history st' = completed_history st \<and>
    executed_action_fingerprints st' = executed_action_fingerprints st \<and>
    length (versions st') = length (versions st) + (if ch then 1 else 0)"
proof (cases ch)
  case False
  with a have "st' = st" by (auto simp: apply_decision_def Let_def result_simps split: if_splits)
  with ok False show ?thesis by simp
next
  case True
  let ?p = "dr_plan d"
  from True a have st': "st' = st\<lparr>current_plan := ?p, versions := versions st @ [?p]\<rparr>"
    and v: "plan_version ?p = plan_version (current_plan st) + 1"
    and pend: "\<forall>s \<in> set (plan_steps ?p). step_status s = ST_PENDING"
    by (auto simp: apply_decision_def Let_def result_simps split: if_splits)
  from pend have "map step_status (plan_steps ?p) = replicate (length (plan_steps ?p)) ST_PENDING"
    by (auto simp: map_replicate_const [symmetric] intro: map_cong)
  then have "in_progress ?p" unfolding in_progress_def by (intro exI [of _ 0]) simp
  moreover have "plan_ok ?p" using d by (simp add: decision_ok_def)
  moreover have "plan_version (current_plan st) = int (length (versions st))"
  proof -
    from ok obtain vs where vs: "versions st = vs @ [current_plan st]"
      by (metis append_butlast_last_id plan_state_ok_def)
    with ok show ?thesis using arg_cong [of _ _ last] by (auto simp: plan_state_ok_def vs)
  qed
  moreover have "list_all (\<lambda>c. cs_plan_version c \<le> int (length (versions st)) + 1 \<and> completed_step_ok c) (completed_history st)"
    using ok by (auto simp: plan_state_ok_def list_all_iff)
  ultimately show ?thesis using ok v True by (simp add: plan_state_ok_def st' add.commute)
qed

subsection \<open>Plan states as a transition system\<close>

text \<open>
  The states the loop can reach, with the list of the actions completed on the way.  Decisions are
  the validated values of the decision model.
\<close>

inductive plan_reachable ::
  "(pydict \<Rightarrow> string) \<Rightarrow> (uuid \<Rightarrow> string) \<Rightarrow> PlanState \<Rightarrow> Action list \<Rightarrow> bool"
  for digest ut where
  start: "decision_ok d \<Longrightarrow> initial digest ut d = Inr st \<Longrightarrow> plan_reachable digest ut st []"
| complete: "plan_reachable digest ut st acts \<Longrightarrow> complete_next digest ut st a = Inr st' \<Longrightarrow>
    plan_reachable digest ut st' (acts @ [a])"
| decide: "plan_reachable digest ut st acts \<Longrightarrow> decision_ok d \<Longrightarrow>
    apply_decision digest ut st d = Inr (st', ch) \<Longrightarrow> plan_reachable digest ut st' acts"

lemma plan_reachable_ok: "plan_reachable digest ut st acts \<Longrightarrow> plan_state_ok st"
  by (induction rule: plan_reachable.induct)
     (use initial_ok complete_next_ok apply_decision_ok in blast)+

lemma plan_reachable_history:
  assumes "plan_reachable digest ut st acts"
  shows "executed_action_fingerprints st = map (action_fingerprint digest ut) acts \<and>
    map (\<lambda>c. (cs_action_type c, cs_action_name c)) (completed_history st) = map (\<lambda>a. (act_type a, act_name a)) acts"
  using assms
proof (induction rule: plan_reachable.induct)
  case (start d st)
  from initial_ok [OF start(2,1)] show ?case by simp
next
  case (complete st acts a st')
  show ?case
    by (rule complete_next_Inr [OF complete(2) plan_reachable_ok [OF complete(1)]]) (use complete.IH in simp)
next
  case (decide st acts d st' ch)
  from apply_decision_ok [OF plan_reachable_ok [OF decide(1)] decide(2,3)] decide.IH show ?case by simp
qed

lemma current_version:
  assumes "plan_state_ok st"
  shows "plan_version (current_plan st) = int (length (versions st))"
proof -
  from assms obtain vs where vs: "versions st = vs @ [current_plan st]"
    by (metis append_butlast_last_id plan_state_ok_def)
  with assms show ?thesis using arg_cong [of _ _ last] by (auto simp: plan_state_ok_def vs)
qed

lemma executed_not_valid:
  "action_fingerprint digest ut a \<in> set (executed_action_fingerprints st) \<Longrightarrow>
   \<not> isOk (validate_next_action digest ut st a)"
  by (auto simp: isOk_def dest: validate_next_action_Inr(5) split: sum.splits)

text \<open>A plan of two steps for the witnesses: one search, then the answer.\<close>

definition example_digest :: "pydict \<Rightarrow> string" where
  "example_digest d = (case map_of d ''action_name'' of Some (PStr s) \<Rightarrow> s | _ \<Rightarrow> [])"

definition example_search :: Action where
  "example_search = \<lparr>act_type = TOOL_CALL, act_name = Some ''portfolio.search_authorized_documents'',
     act_arguments = SearchAuthorizedDocumentsInput ''net debt'' 5, act_reason_code = ''SEARCH''\<rparr>"

definition example_finalize :: Action where
  "example_finalize = \<lparr>act_type = FINALIZE, act_name = None, act_arguments = NoActionArguments,
     act_reason_code = ''FINALIZE''\<rparr>"

definition example_plan :: "StepStatus \<Rightarrow> string \<Rightarrow> Plan" where
  "example_plan s r = \<lparr>plan_version = 1, plan_text = [''Search'', ''Answer''],
     plan_steps = [\<lparr>step_index = 0, step_action_type = TOOL_CALL,
         step_action_name = Some ''portfolio.search_authorized_documents'', step_status = s, step_reason_code = r\<rparr>,
       \<lparr>step_index = 1, step_action_type = FINALIZE, step_action_name = None, step_status = ST_PENDING,
         step_reason_code = ''FINALIZE''\<rparr>],
     plan_change_reason_code = ''INITIAL''\<rparr>"

definition example_decision :: DecisionResult where
  "example_decision = \<lparr>dr_plan = example_plan ST_PENDING ''SEARCH'', dr_next_action = example_search, dr_replan = False\<rparr>"

definition example_plan_state :: PlanState where
  "example_plan_state = \<lparr>current_plan = example_plan ST_PENDING ''SEARCH'', versions = [example_plan ST_PENDING ''SEARCH''],
     completed_history = [], executed_action_fingerprints = []\<rparr>"

lemmas example_plan_defs = example_decision_def example_plan_def example_search_def example_plan_state_def

lemma example_codes [simp]:
  "code_ok 63 ''SEARCH''" "code_ok 63 ''FINALIZE''" "code_ok 63 ''INITIAL''"
  by (simp_all add: code_ok_def is_upper_def)

lemma example_decision_ok: "decision_ok example_decision"
  using tool_value_name_ok [of SEARCH_AUTHORIZED_DOCUMENTS]
  by (simp add: example_plan_defs decision_ok_def plan_ok_def action_ok_def step_ok_def opt_all_def bounded_def
      enforce_action_shape_def MAX_QUERY_CHARACTERS_def MAX_TOP_K_def normalize_ws_def split_ws_def is_space_def)

lemma example_initial: "initial example_digest str_nat example_decision = Inr example_plan_state"
  by (simp add: initial_def example_plan_defs validate_next_action_def first_pending_step_def Let_def)

subsection \<open>Properties\<close>

text \<open>C11: in every state a plan can reach, the versions kept are numbered 1, 2, 3 and so on without a gap, the
  current plan is the last of them, and each is a well-formed plan whose completed steps come before its pending
  ones.  The completed-step history lists exactly the executed actions in order, no two executed actions have the
  same fingerprint, and no executed action is ever accepted as a next action again.\<close>

theorem plan_no_double_execution:
  assumes "plan_reachable digest ut st acts"
  shows "map plan_version (versions st) = map int [1..<Suc (length (versions st))] \<and>
    versions st \<noteq> [] \<and> current_plan st = last (versions st) \<and>
    (\<forall>p \<in> set (versions st). plan_ok p \<and> in_progress p) \<and>
    map (\<lambda>c. (cs_action_type c, cs_action_name c)) (completed_history st) =
      map (\<lambda>a. (act_type a, act_name a)) acts \<and>
    distinct (map (action_fingerprint digest ut) acts) \<and>
    (\<forall>a \<in> set acts. \<not> isOk (validate_next_action digest ut st a))"
proof -
  note ok = plan_reachable_ok [OF assms]
  note hist = plan_reachable_history [OF assms]
  have "\<forall>a \<in> set acts. \<not> isOk (validate_next_action digest ut st a)"
    using hist by (intro ballI executed_not_valid) simp
  with hist ok show ?thesis by (simp add: plan_state_ok_def list_all_iff)
qed

theorem plan_no_double_execution_witness:
  "\<exists>st. plan_reachable example_digest str_nat st [example_search] \<and> plan_version (current_plan st) = 1 \<and>
     \<not> isOk (validate_next_action example_digest str_nat st example_search)"
proof -
  note r0 = plan_reachable.start [OF example_decision_ok example_initial]
  have "isOk (complete_next example_digest str_nat example_plan_state example_search)"
    using tool_value_name_ok [of SEARCH_AUTHORIZED_DOCUMENTS]
    by (simp add: complete_next_def validate_next_action_def first_pending_step_def example_plan_defs
        completed_step_ok_def opt_all_def Let_def)
  then obtain st where st: "complete_next example_digest str_nat example_plan_state example_search = Inr st"
    by (auto simp: isOk_def split: sum.splits)
  have len: "length (versions st) = 1"
    using complete_next_ok [OF plan_reachable_ok [OF r0] st] by (simp add: example_plan_state_def)
  have "plan_reachable example_digest str_nat st [example_search]"
    using plan_reachable.complete [OF r0 st] by simp
  with plan_no_double_execution [OF this] current_version [OF plan_reachable_ok [OF this]] len show ?thesis by auto
qed

end
