(* ===== verification/Grounding.thy ===== *)
theory Grounding
  imports Agent_Models
begin

text \<open>
  Grounding of answers, the functions of \<^verbatim>\<open>app/chat/service.py\<close> between retrieval and the reader: a
  search result becomes evidence only with consistent provenance, an answer draft becomes an answer
  only when every claim cites known evidence, and citations are rebuilt from the evidence itself.
  The search data are those of \<^verbatim>\<open>app/schemas/retrieval.py\<close>.
\<close>

subsection \<open>Search results\<close>

record SearchScoresData =
  sc_keyword :: rat
  sc_vector :: rat
  sc_final :: rat

record SearchSourceData =
  src_page_number :: "int option"
  src_sheet_name :: "string option"
  src_row_start :: "int option"
  src_row_end :: "int option"
  src_cell_start :: "string option"
  src_cell_end :: "string option"

record SearchCitationData =
  sci_document_id :: uuid
  sci_document_version_id :: uuid
  sci_chunk_id :: uuid
  sci_document_title :: string
  sci_version_number :: int
  sci_excerpt :: string
  sci_page_number :: "int option"
  sci_sheet_name :: "string option"
  sci_row_start :: "int option"
  sci_row_end :: "int option"
  sci_cell_start :: "string option"
  sci_cell_end :: "string option"

text \<open>The descriptive \<^verbatim>\<open>document\<close> field of a result is not used by grounding and is left out.\<close>

record AuthorizedSearchResultData =
  sr_chunk_id :: uuid
  sr_document_id :: uuid
  sr_document_version_id :: uuid
  sr_version_number :: int
  sr_excerpt :: string
  sr_scores :: SearchScoresData
  sr_citation :: SearchCitationData
  sr_source :: SearchSourceData

datatype grounding_error = GroundingValidationError string | CitationInvalid

definition evidence_from_result ::
  "AuthorizedSearchResultData \<Rightarrow> string \<Rightarrow> (grounding_error, GroundedEvidence) result" where
  "evidence_from_result result evidence_id =
     (let citation = sr_citation result; source = sr_source result in
      if sci_document_id citation \<noteq> sr_document_id result
         \<or> sci_document_version_id citation \<noteq> sr_document_version_id result
         \<or> sci_chunk_id citation \<noteq> sr_chunk_id result
         \<or> sci_version_number citation \<noteq> sr_version_number result
         \<or> sci_excerpt citation \<noteq> sr_excerpt result
         \<or> sci_page_number citation \<noteq> src_page_number source
         \<or> sci_sheet_name citation \<noteq> src_sheet_name source
         \<or> sci_row_start citation \<noteq> src_row_start source
         \<or> sci_row_end citation \<noteq> src_row_end source
         \<or> sci_cell_start citation \<noteq> src_cell_start source
         \<or> sci_cell_end citation \<noteq> src_cell_end source
      then Inl (GroundingValidationError ''PROVENANCE_INCONSISTENT'')
      else Inr \<lparr>ge_evidence_id = evidence_id, ge_chunk_id = sr_chunk_id result,
        ge_document_id = sr_document_id result, ge_document_version_id = sr_document_version_id result,
        ge_version_number = sr_version_number result, ge_document_title = sci_document_title citation,
        ge_excerpt = sr_excerpt result, ge_page_number = src_page_number source,
        ge_sheet_name = src_sheet_name source, ge_row_start = src_row_start source,
        ge_row_end = src_row_end source, ge_cell_start = src_cell_start source,
        ge_cell_end = src_cell_end source\<rparr>)"

definition sufficient_results :: "AuthorizedSearchResultData list \<Rightarrow> AuthorizedSearchResultData list" where
  "sufficient_results results =
     (let lexical = filter (\<lambda>i. 0 < sc_keyword (sr_scores i)) results in
      if lexical \<noteq> [] then lexical
      else filter (\<lambda>i. 1 / 4 \<le> sc_vector (sr_scores i)) results)"

subsection \<open>Validation of an answer draft\<close>

text \<open>The constructor of a citation checks the version number.\<close>

definition citation_of :: "GroundedEvidence \<Rightarrow> GroundedCitationData" where
  "citation_of e =
     \<lparr>ci_citation_id = ge_evidence_id e, ci_document_id = ge_document_id e,
      ci_document_version_id = ge_document_version_id e, ci_chunk_id = ge_chunk_id e,
      ci_document_title = ge_document_title e, ci_version_number = ge_version_number e,
      ci_excerpt = ge_excerpt e, ci_page_number = ge_page_number e, ci_sheet_name = ge_sheet_name e,
      ci_row_start = ge_row_start e, ci_row_end = ge_row_end e, ci_cell_start = ge_cell_start e,
      ci_cell_end = ge_cell_end e\<rparr>"

definition mk_citation :: "GroundedEvidence \<Rightarrow> (grounding_error, GroundedCitationData) result" where
  "mk_citation e = (if 1 \<le> ge_version_number e then Inr (citation_of e) else Inl CitationInvalid)"

text \<open>The loop over the claims of the draft; \<open>known\<close> is the dictionary of evidence by identifier.\<close>

fun claims_loop ::
  "(string \<times> GroundedEvidence) list \<Rightarrow> GroundedClaimDraft list \<Rightarrow>
   (grounding_error, GroundedClaimData list) result" where
  "claims_loop by_id [] = Inr []"
| "claims_loop by_id (d # ds) =
     (let txt = normalize_ws (gd_text d); citation_ids = fromkeys (gd_evidence_ids d) in
      if txt = [] \<or> length txt > 500 \<or> citation_ids = [] then Inl (GroundingValidationError ''CLAIM_INVALID'')
      else if \<exists>i \<in> set citation_ids. i \<notin> set (map fst by_id)
      then Inl (GroundingValidationError ''UNKNOWN_EVIDENCE'')
      else bindR (claims_loop by_id ds) (\<lambda>cs. Inr (\<lparr>gc_text = txt, gc_citation_ids = citation_ids\<rparr> # cs)))"

record ValidatedAnswer =
  va_claims :: "GroundedClaimData list"
  va_citations :: "GroundedCitationData list"
  va_limitations :: "string list"

definition referenced :: "GroundedClaimData list \<Rightarrow> string set" where
  "referenced cs = \<Union> (set ` gc_citation_ids ` set cs)"

definition validate_grounded_answer ::
  "GroundedAnswerDraft \<Rightarrow> GroundedEvidence list \<Rightarrow> (grounding_error, ValidatedAnswer) result" where
  "validate_grounded_answer draft evidence =
     (if ga_status draft \<noteq> supported \<or> ga_claims draft = []
      then Inl (GroundingValidationError ''PROVIDER_UNSUPPORTED'')
      else let by_id = dict_of (map (\<lambda>e. (ge_evidence_id e, e)) evidence) in
      if length by_id \<noteq> length evidence then Inl (GroundingValidationError ''EVIDENCE_IDS_DUPLICATE'')
      else bindR (claims_loop by_id (ga_claims draft)) (\<lambda>claims.
        bindR (mapR mk_citation (filter (\<lambda>e. ge_evidence_id e \<in> referenced claims) evidence)) (\<lambda>citations.
          if ci_citation_id ` set citations \<noteq> referenced claims
          then Inl (GroundingValidationError ''RECONSTRUCTION_INCOMPLETE'')
          else Inr \<lparr>va_claims = claims, va_citations = citations,
                    va_limitations = filter (\<lambda>t. t \<noteq> []) (map (\<lambda>t. take 300 (normalize_ws t))
                      (take 5 (ga_limitations draft)))\<rparr>)))"

subsection \<open>Titles and goals\<close>

text \<open>The one-character ellipsis that ends a shortened title is the argument \<open>dots\<close>.\<close>

definition conversation_title :: "string \<Rightarrow> string \<Rightarrow> string" where
  "conversation_title dots question =
     (let normalized = strip_chars '' .?!'' (normalize_ws question) in
      if length normalized \<le> 64 then normalized else rstrip (take 61 normalized) @ dots)"

text \<open>\<^verbatim>\<open>text.partition(sep)\<close> when the separator occurs.\<close>

fun partition_at :: "string \<Rightarrow> string \<Rightarrow> (string \<times> string) option" where
  "partition_at sep [] = (if sep = [] then Some ([], []) else None)"
| "partition_at sep (c # cs) =
     (if take (length sep) (c # cs) = sep then Some ([], drop (length sep) (c # cs))
      else map_option (\<lambda>(a, b). (c # a, b)) (partition_at sep cs))"

definition episode_goal :: "string \<Rightarrow> string" where
  "episode_goal content =
     (let normalized = normalize_ws content in
      if take 6 normalized = ''Goal: '' then
        (case partition_at '' Outcome: '' (drop 6 normalized) of
           Some (goal, rest) \<Rightarrow> if goal \<noteq> [] then take 180 goal else take 180 normalized
         | None \<Rightarrow> take 180 normalized)
      else take 180 normalized)"

subsection \<open>Claims\<close>

definition claim_ok :: "string set \<Rightarrow> GroundedClaimData \<Rightarrow> bool" where
  "claim_ok known c = (gc_text c \<noteq> [] \<and> length (gc_text c) \<le> 500 \<and> normalize_ws (gc_text c) = gc_text c \<and>
     gc_citation_ids c \<noteq> [] \<and> distinct (gc_citation_ids c) \<and> set (gc_citation_ids c) \<subseteq> known)"

lemma claims_loop_ok:
  "claims_loop by_id ds = Inr cs \<Longrightarrow>
   list_all (claim_ok (set (map fst by_id))) cs \<and> length cs = length ds \<and>
   map gc_citation_ids cs = map (\<lambda>d. fromkeys (gd_evidence_ids d)) ds \<and>
   map gc_text cs = map (\<lambda>d. normalize_ws (gd_text d)) ds"
proof (induction ds arbitrary: cs)
  case (Cons d ds)
  from Cons.prems obtain cs' where cs: "cs = \<lparr>gc_text = normalize_ws (gd_text d), gc_citation_ids = fromkeys (gd_evidence_ids d)\<rparr> # cs'"
    and rest: "claims_loop by_id ds = Inr cs'"
    and ok: "normalize_ws (gd_text d) \<noteq> []" "length (normalize_ws (gd_text d)) \<le> 500" "gd_evidence_ids d \<noteq> []"
      "\<forall>i \<in> set (gd_evidence_ids d). i \<in> set (map fst by_id)"
    by (auto simp: Let_def result_simps split: if_splits)
  from Cons.IH [OF rest] ok show ?case by (auto simp: cs claim_ok_def)
qed simp

lemma mapR_mk_citation:
  "mapR mk_citation es = (if \<forall>e \<in> set es. 1 \<le> ge_version_number e then Inr (map citation_of es) else Inl CitationInvalid)"
  by (induction es) (auto simp: mk_citation_def)

lemma citation_id_citation_of [simp]: "ci_citation_id (citation_of e) = ge_evidence_id e"
  by (simp add: citation_of_def)

lemma referenced_known:
  "list_all (claim_ok known) cs \<Longrightarrow> referenced cs \<subseteq> known"
  by (auto simp: referenced_def claim_ok_def list_all_iff)

lemma citation_ids_filter:
  assumes "R \<subseteq> ge_evidence_id ` set evidence"
  shows "ci_citation_id ` set (map citation_of (filter (\<lambda>e. ge_evidence_id e \<in> R) evidence)) = R"
  using assms by (force simp: image_image)

lemma by_id_keys: "distinct (map ge_evidence_id evidence) \<Longrightarrow>
    set (map fst (dict_of (map (\<lambda>e. (ge_evidence_id e, e)) evidence))) = ge_evidence_id ` set evidence"
  by (subst dict_of_distinct) (simp_all add: comp_def)

text \<open>The outcome of the validation, in the order of its checks.\<close>

lemma validate_cases:
  assumes "1 \<le> length (ga_claims draft)" and "ga_status draft = supported"
    and "distinct (map ge_evidence_id evidence)" and "\<forall>e \<in> set evidence. 1 \<le> ge_version_number e"
  shows "validate_grounded_answer draft evidence =
    bindR (claims_loop (map (\<lambda>e. (ge_evidence_id e, e)) evidence) (ga_claims draft)) (\<lambda>claims.
      Inr \<lparr>va_claims = claims,
           va_citations = map citation_of (filter (\<lambda>e. ge_evidence_id e \<in> referenced claims) evidence),
           va_limitations = filter (\<lambda>t. t \<noteq> []) (map (\<lambda>t. take 300 (normalize_ws t)) (take 5 (ga_limitations draft)))\<rparr>)"
proof -
  let ?by = "map (\<lambda>e. (ge_evidence_id e, e)) evidence"
  have d: "distinct (map fst ?by)" using assms(3) by (simp add: comp_def)
  have by_id: "dict_of ?by = ?by" by (rule dict_of_distinct [OF d])
  have ne: "ga_claims draft \<noteq> []" using assms(1) by auto
  show ?thesis
  proof (cases "claims_loop ?by (ga_claims draft)")
    case (Inl e)
    with ne assms(2) by_id show ?thesis by (simp add: validate_grounded_answer_def)
  next
    case (Inr cs)
    from claims_loop_ok [OF Inr] have "list_all (claim_ok (set (map fst ?by))) cs" by blast
    from referenced_known [OF this] have "referenced cs \<subseteq> ge_evidence_id ` set evidence"
      by (simp add: image_image)
    from citation_ids_filter [OF this] Inr ne assms(2,4) by_id show ?thesis
      by (simp add: validate_grounded_answer_def mapR_mk_citation)
  qed
qed

lemma validate_Inr:
  assumes "validate_grounded_answer draft evidence = Inr v"
  shows "distinct (map ge_evidence_id evidence) \<and>
    list_all (claim_ok (ge_evidence_id ` set evidence)) (va_claims v) \<and> va_claims v \<noteq> [] \<and>
    va_citations v = map citation_of (filter (\<lambda>e. ge_evidence_id e \<in> referenced (va_claims v)) evidence) \<and>
    ci_citation_id ` set (va_citations v) = referenced (va_claims v) \<and>
    length (va_limitations v) \<le> 5 \<and> list_all (\<lambda>t. t \<noteq> [] \<and> length t \<le> 300) (va_limitations v)"
proof -
  let ?by = "map (\<lambda>e. (ge_evidence_id e, e)) evidence"
  from assms have ne: "ga_claims draft \<noteq> []" and len: "length (dict_of ?by) = length ?by"
    by (auto simp: validate_grounded_answer_def Let_def split: if_splits)
  from len length_dict_of_iff [of ?by] have d: "distinct (map ge_evidence_id evidence)" by (simp add: comp_def)
  from assms ne len obtain cs where cl: "claims_loop (dict_of ?by) (ga_claims draft) = Inr cs"
    and cs: "va_claims v = cs" "va_citations v = map citation_of (filter (\<lambda>e. ge_evidence_id e \<in> referenced cs) evidence)"
      "ci_citation_id ` set (va_citations v) = referenced cs"
    and lim: "va_limitations v = filter (\<lambda>t. t \<noteq> []) (map (\<lambda>t. take 300 (normalize_ws t)) (take 5 (ga_limitations draft)))"
    by (auto simp: validate_grounded_answer_def Let_def result_simps mapR_mk_citation split: if_splits)
  from claims_loop_ok [OF cl] by_id_keys [OF d] ne
  have "list_all (claim_ok (ge_evidence_id ` set evidence)) cs \<and> cs \<noteq> []" by auto
  moreover have "length (va_limitations v) \<le> 5"
    unfolding lim by (rule order_trans [OF length_filter_le]) simp
  moreover have "list_all (\<lambda>t. t \<noteq> [] \<and> length t \<le> 300) (va_limitations v)"
    by (auto simp: lim list_all_iff)
  ultimately show ?thesis using d cs by simp
qed

text \<open>The defects of a draft.\<close>

definition answers :: "GroundedAnswerDraft \<Rightarrow> bool" where
  "answers draft \<longleftrightarrow> ga_status draft = supported \<and> ga_claims draft \<noteq> []"

definition malformed_claim :: "GroundedClaimDraft \<Rightarrow> bool" where
  "malformed_claim d \<longleftrightarrow> normalize_ws (gd_text d) = [] \<or> 500 < length (normalize_ws (gd_text d)) \<or> gd_evidence_ids d = []"

definition cites_unknown :: "GroundedEvidence list \<Rightarrow> GroundedClaimDraft \<Rightarrow> bool" where
  "cites_unknown evidence d \<longleftrightarrow> (\<exists>i \<in> set (gd_evidence_ids d). i \<notin> ge_evidence_id ` set evidence)"

definition first_defect :: "GroundedAnswerDraft \<Rightarrow> GroundedEvidence list \<Rightarrow> GroundedClaimDraft option" where
  "first_defect draft evidence = List.find (\<lambda>d. malformed_claim d \<or> cites_unknown evidence d) (ga_claims draft)"

definition cited :: "GroundedAnswerDraft \<Rightarrow> GroundedEvidence \<Rightarrow> bool" where
  "cited draft e \<longleftrightarrow> (\<exists>d \<in> set (ga_claims draft). ge_evidence_id e \<in> set (gd_evidence_ids d))"

lemma claims_loop_find:
  assumes "set (map fst by_id) = ge_evidence_id ` set evidence"
  shows "case List.find (\<lambda>d. malformed_claim d \<or> cites_unknown evidence d) ds of
      None \<Rightarrow> isOk (claims_loop by_id ds)
    | Some d \<Rightarrow> claims_loop by_id ds = Inl (GroundingValidationError
        (if malformed_claim d then ''CLAIM_INVALID'' else ''UNKNOWN_EVIDENCE''))"
proof (induction ds)
  case (Cons d ds)
  have unknown: "(\<exists>i \<in> set (gd_evidence_ids d). i \<notin> set (map fst by_id)) \<longleftrightarrow> cites_unknown evidence d"
    by (simp only: assms cites_unknown_def)
  have malformed: "normalize_ws (gd_text d) = [] \<or> length (normalize_ws (gd_text d)) > 500 \<or> fromkeys (gd_evidence_ids d) = []
      \<longleftrightarrow> malformed_claim d"
    by (simp add: malformed_claim_def)
  show ?case
  proof (cases "malformed_claim d \<or> cites_unknown evidence d")
    case True
    then show ?thesis using malformed unknown by (auto simp: Let_def)
  next
    case False
    then have "claims_loop by_id (d # ds) = bindR (claims_loop by_id ds) (\<lambda>cs. Inr
        (\<lparr>gc_text = normalize_ws (gd_text d), gc_citation_ids = fromkeys (gd_evidence_ids d)\<rparr> # cs))"
      using malformed unknown by (simp add: Let_def)
    with Cons.IH False show ?thesis by (cases "claims_loop by_id ds") (auto split: option.splits)
  qed
qed simp

lemma referenced_cited:
  assumes "claims_loop by_id (ga_claims draft) = Inr cs"
  shows "ge_evidence_id e \<in> referenced cs \<longleftrightarrow> cited draft e"
proof -
  from claims_loop_ok [OF assms]
  have ids: "map gc_citation_ids cs = map (\<lambda>d. fromkeys (gd_evidence_ids d)) (ga_claims draft)" by blast
  have "referenced cs = \<Union> (set ` set (map gc_citation_ids cs))" by (simp add: referenced_def)
  then show ?thesis unfolding ids by (auto simp: cited_def)
qed

text \<open>The outcome for a draft with claims on evidence with distinct identifiers.\<close>

lemma validate_outcome:
  assumes "answers draft" and d: "distinct (map ge_evidence_id evidence)"
  shows "first_defect draft evidence = Some c \<Longrightarrow> validate_grounded_answer draft evidence =
      Inl (GroundingValidationError (if malformed_claim c then ''CLAIM_INVALID'' else ''UNKNOWN_EVIDENCE''))"
    and "first_defect draft evidence = None \<Longrightarrow> \<exists>e \<in> set evidence. cited draft e \<and> ge_version_number e < 1 \<Longrightarrow>
      validate_grounded_answer draft evidence = Inl CitationInvalid"
    and "first_defect draft evidence = None \<Longrightarrow> \<forall>e \<in> set evidence. \<not> (cited draft e \<and> ge_version_number e < 1) \<Longrightarrow>
      \<exists>v. validate_grounded_answer draft evidence = Inr v"
proof -
  let ?by = "map (\<lambda>e. (ge_evidence_id e, e)) evidence"
  have by_id: "dict_of ?by = ?by" using d by (intro dict_of_distinct) (simp add: comp_def)
  have keys: "set (map fst ?by) = ge_evidence_id ` set evidence" by (simp add: image_image)
  note loop = claims_loop_find [OF keys, of "ga_claims draft", folded first_defect_def]
  have v: "validate_grounded_answer draft evidence = bindR (claims_loop ?by (ga_claims draft)) (\<lambda>claims.
      bindR (mapR mk_citation (filter (\<lambda>e. ge_evidence_id e \<in> referenced claims) evidence)) (\<lambda>citations.
        if ci_citation_id ` set citations \<noteq> referenced claims
        then Inl (GroundingValidationError ''RECONSTRUCTION_INCOMPLETE'')
        else Inr \<lparr>va_claims = claims, va_citations = citations,
          va_limitations = filter (\<lambda>t. t \<noteq> []) (map (\<lambda>t. take 300 (normalize_ws t)) (take 5 (ga_limitations draft)))\<rparr>))"
    using assms(1) by (simp add: validate_grounded_answer_def answers_def by_id)
  show "first_defect draft evidence = Some c \<Longrightarrow> validate_grounded_answer draft evidence =
      Inl (GroundingValidationError (if malformed_claim c then ''CLAIM_INVALID'' else ''UNKNOWN_EVIDENCE''))"
    using loop by (simp add: v)
  assume "first_defect draft evidence = None"
  with loop obtain cs where cs: "claims_loop ?by (ga_claims draft) = Inr cs" by (auto simp: isOk_def split: sum.splits)
  note cites = referenced_cited [OF cs]
  show "validate_grounded_answer draft evidence = Inl CitationInvalid"
    if "\<exists>e \<in> set evidence. cited draft e \<and> ge_version_number e < 1"
    using that by (auto simp: v cs mapR_mk_citation cites)
  from claims_loop_ok [OF cs] keys have "list_all (claim_ok (ge_evidence_id ` set evidence)) cs" by simp
  note ids = citation_ids_filter [OF referenced_known [OF this]]
  show "\<exists>v. validate_grounded_answer draft evidence = Inr v"
    if "\<forall>e \<in> set evidence. \<not> (cited draft e \<and> ge_version_number e < 1)"
  proof -
    have "\<forall>e \<in> set (filter (\<lambda>e. ge_evidence_id e \<in> referenced cs) evidence). 1 \<le> ge_version_number e"
      using that by (auto simp: cites not_less)
    then show ?thesis using ids by (simp add: v cs mapR_mk_citation)
  qed
qed

subsection \<open>Properties\<close>

definition example_evidence :: "string \<Rightarrow> GroundedEvidence" where
  "example_evidence i = \<lparr>ge_evidence_id = i, ge_chunk_id = 4, ge_document_id = 1,
     ge_document_version_id = 1, ge_version_number = 1, ge_document_title = ''Report'', ge_excerpt = ''Net debt is 12.'',
     ge_page_number = Some 3, ge_sheet_name = None, ge_row_start = None, ge_row_end = None,
     ge_cell_start = None, ge_cell_end = None\<rparr>"

definition example_draft :: GroundedAnswerDraft where
  "example_draft = \<lparr>ga_status = supported,
     ga_claims = [\<lparr>gd_text = ''Debt  is 12'', gd_evidence_ids = [''ev_2'', ''ev_2'']\<rparr>], ga_limitations = []\<rparr>"

text \<open>C12: an accepted answer is grounded.  Every claim is normalized text of at most 500 characters
  with at least one citation, all citations of claims are identifiers of the given evidence, and
  the citations of the answer are exactly the referenced evidence items, each rebuilt field by
  field from the evidence and not from the model's text.\<close>

theorem grounded_answer_sound:
  assumes "validate_grounded_answer draft evidence = Inr v"
  shows "va_claims v \<noteq> [] \<and> list_all (claim_ok (ge_evidence_id ` set evidence)) (va_claims v) \<and>
    ci_citation_id ` set (va_citations v) = referenced (va_claims v) \<and>
    va_citations v = map citation_of (filter (\<lambda>e. ge_evidence_id e \<in> referenced (va_claims v)) evidence) \<and>
    length (va_limitations v) \<le> 5"
  using validate_Inr [OF assms] by blast

theorem grounded_answer_sound_witness:
  "\<exists>v. validate_grounded_answer example_draft [example_evidence ''ev_1'', example_evidence ''ev_2''] = Inr v \<and>
    va_claims v \<noteq> [] \<and> ci_citation_id ` set (va_citations v) = referenced (va_claims v)"
proof -
  have "isOk (validate_grounded_answer example_draft [example_evidence ''ev_1'', example_evidence ''ev_2''])"
    by (subst validate_cases)
       (simp_all add: example_draft_def example_evidence_def normalize_ws_def split_ws_def is_space_def Let_def)
  then obtain v where "validate_grounded_answer example_draft [example_evidence ''ev_1'', example_evidence ''ev_2''] = Inr v"
    by (auto simp: isOk_def split: sum.splits)
  with grounded_answer_sound [OF this] show ?thesis by blast
qed

text \<open>C13: each code occurs exactly when the draft has its defect, in the order of the checks.  A draft that is not
  supported or has no claim is \<^verbatim>\<open>PROVIDER_UNSUPPORTED\<close>; evidence with a repeated identifier is
  \<^verbatim>\<open>EVIDENCE_IDS_DUPLICATE\<close>; otherwise the first claim with a defect decides, \<^verbatim>\<open>CLAIM_INVALID\<close> when it is malformed
  (no text, more than 500 characters, no citation) and \<^verbatim>\<open>UNKNOWN_EVIDENCE\<close> when it is well formed and cites
  evidence that was not given; the citation model refuses a cited item whose version number is not positive; and a
  draft without any of these defects is accepted, so \<^verbatim>\<open>RECONSTRUCTION_INCOMPLETE\<close> never occurs.\<close>

theorem grounded_answer_errors:
  "(validate_grounded_answer draft evidence = Inl (GroundingValidationError ''PROVIDER_UNSUPPORTED'') \<longleftrightarrow>
      \<not> answers draft) \<and>
   (validate_grounded_answer draft evidence = Inl (GroundingValidationError ''EVIDENCE_IDS_DUPLICATE'') \<longleftrightarrow>
      answers draft \<and> \<not> distinct (map ge_evidence_id evidence)) \<and>
   (validate_grounded_answer draft evidence = Inl (GroundingValidationError ''CLAIM_INVALID'') \<longleftrightarrow>
      answers draft \<and> distinct (map ge_evidence_id evidence) \<and>
      (\<exists>d. first_defect draft evidence = Some d \<and> malformed_claim d)) \<and>
   (validate_grounded_answer draft evidence = Inl (GroundingValidationError ''UNKNOWN_EVIDENCE'') \<longleftrightarrow>
      answers draft \<and> distinct (map ge_evidence_id evidence) \<and>
      (\<exists>d. first_defect draft evidence = Some d \<and> \<not> malformed_claim d)) \<and>
   (validate_grounded_answer draft evidence = Inl CitationInvalid \<longleftrightarrow>
      answers draft \<and> distinct (map ge_evidence_id evidence) \<and> first_defect draft evidence = None \<and>
      (\<exists>e \<in> set evidence. cited draft e \<and> ge_version_number e < 1)) \<and>
   (isOk (validate_grounded_answer draft evidence) \<longleftrightarrow>
      answers draft \<and> distinct (map ge_evidence_id evidence) \<and> first_defect draft evidence = None \<and>
      \<not> (\<exists>e \<in> set evidence. cited draft e \<and> ge_version_number e < 1))"
proof (cases "answers draft \<and> distinct (map ge_evidence_id evidence)")
  case False
  then show ?thesis
    using length_dict_of_iff [of "map (\<lambda>e. (ge_evidence_id e, e)) evidence"]
    by (cases "answers draft") (auto simp: validate_grounded_answer_def answers_def Let_def comp_def)
next
  case True
  then have a: "answers draft" and d: "distinct (map ge_evidence_id evidence)" by auto
  note outcome = validate_outcome [OF a d]
  consider (defect) c where "first_defect draft evidence = Some c"
    | (version) "first_defect draft evidence = None" "\<exists>e \<in> set evidence. cited draft e \<and> ge_version_number e < 1"
    | (accepted) "first_defect draft evidence = None"
        "\<forall>e \<in> set evidence. \<not> (cited draft e \<and> ge_version_number e < 1)"
    by (cases "first_defect draft evidence") auto
  then show ?thesis
  proof cases
    case defect
    from outcome(1) [OF this] defect a d show ?thesis by simp
  next
    case version
    from outcome(2) [OF version] version a d show ?thesis by simp
  next
    case accepted
    from outcome(3) [OF accepted] accepted a d show ?thesis by auto
  qed
qed

text \<open>A search result is turned into evidence only when its citation and its source agree, and then
  the evidence has the provenance of both.\<close>

lemma evidence_provenance:
  assumes "evidence_from_result r i = Inr e"
  shows "ge_evidence_id e = i \<and> ge_chunk_id e = sci_chunk_id (sr_citation r) \<and> ge_chunk_id e = sr_chunk_id r \<and>
    ge_document_id e = sci_document_id (sr_citation r) \<and> ge_document_id e = sr_document_id r \<and>
    ge_excerpt e = sci_excerpt (sr_citation r) \<and> ge_excerpt e = sr_excerpt r \<and>
    ge_page_number e = sci_page_number (sr_citation r) \<and> ge_page_number e = src_page_number (sr_source r) \<and>
    ge_sheet_name e = sci_sheet_name (sr_citation r) \<and> ge_sheet_name e = src_sheet_name (sr_source r)"
  using assms by (auto simp: evidence_from_result_def Let_def split: if_splits)

end
