(* ===== verification/Gateway_Adapter.thy ===== *)
theory Gateway_Adapter
  imports Agent_Models
begin

text \<open>
  The agent's side of the gateway: \<^verbatim>\<open>app/mcp_gateway/server.py\<close>, the per-request tool server whose
  closures hold the trusted scope, and \<^verbatim>\<open>app/agent/gateway_adapter.py\<close>, which turns one typed action
  into a call and the gateway's observation into the observation of the agent, numbering the
  evidence of the whole run.

  The MCP library between the two is three arguments: \<open>convert\<close> reads the JSON arguments by the
  signature of a registered function, \<open>deliver\<close> carries the structured result back, and the model
  checks it again.  The locale \<open>tool_executor\<close> is what the agent loop relies on.
\<close>

subsection \<open>The per-request tool server\<close>

record library =
  lib_parse_uuid :: "string \<Rightarrow> uuid option"
  lib_uuid_text :: "uuid \<Rightarrow> string"
  lib_coord :: "string \<Rightarrow> (int \<times> int) option"
  lib_convert :: "ApprovedToolName \<Rightarrow> pydict \<Rightarrow> pydict option"
  lib_deliver :: "StructuredToolObservation \<Rightarrow> StructuredToolObservation option"

text \<open>The parameters of the registered functions, with their defaults.\<close>

fun tool_parameters :: "ApprovedToolName \<Rightarrow> (string \<times> pyval option) list" where
  "tool_parameters SEARCH_AUTHORIZED_DOCUMENTS = [(''query'', None), (''top_k'', None)]"
| "tool_parameters GET_DOCUMENT_EXCERPT = [(''document_id'', None), (''chunk_id'', None)]"
| "tool_parameters QUERY_FINANCIAL_METRICS =
     [(''company_slug'', None), (''reporting_period'', None), (''metric'', None)]"
| "tool_parameters CALCULATE_CAGR =
     [(''company_slug'', None), (''start_period'', None), (''end_period'', None), (''metric'', Some (PStr ''revenue''))]"
| "tool_parameters SEARCH_MEMORY = [(''query'', None), (''mode'', None), (''top_k'', Some (PInt 3))]"
| "tool_parameters PROPOSE_MEMORY =
     [(''content'', None), (''normalized_key'', None), (''memory_type'', None), (''explicit'', None)]"
| "tool_parameters _ = [(''company_slug'', None), (''reporting_period'', None)]"

text \<open>The dictionary a registered function passes on: exactly its parameters, bound by name.\<close>

definition bind_parameter :: "pydict \<Rightarrow> string \<times> pyval option \<Rightarrow> (string \<times> pyval) option" where
  "bind_parameter args kd = (case map_of args (fst kd) of
       Some v \<Rightarrow> Some (fst kd, v)
     | None \<Rightarrow> map_option (\<lambda>v. (fst kd, v)) (snd kd))"

definition bind_parameters :: "ApprovedToolName \<Rightarrow> pydict \<Rightarrow> pydict option" where
  "bind_parameters t args =
     (let bs = map (bind_parameter args) (tool_parameters t) in
      if list_all (\<lambda>b. b \<noteq> None) bs then Some (map the bs) else None)"

text \<open>
  A call to the server: only the tools of the authorized catalog are registered; the gateway gets the
  scope, the permitted tools and the request identifier of the host.
\<close>

definition server_call ::
  "library \<Rightarrow> 'w host \<Rightarrow> 'w ApprovedToolGateway \<Rightarrow> AuthorizationScope \<Rightarrow> string list \<Rightarrow> string \<Rightarrow>
   string \<Rightarrow> pydict \<Rightarrow> 'w \<Rightarrow> StructuredToolObservation option \<times> 'w" where
  "server_call lib h gw scope permitted_tools request_id name args w =
     (case List.find (\<lambda>t. tool_value t = name) (authorized_catalog scope permitted_tools) of
        None \<Rightarrow> (None, w)
      | Some t \<Rightarrow>
          (case Option.bind (lib_convert lib t args) (bind_parameters t) of
             None \<Rightarrow> (None, w)
           | Some arguments \<Rightarrow>
               (case gateway_execute (lib_parse_uuid lib) (lib_uuid_text lib) (lib_coord lib) h gw
                       (tool_value t) arguments scope permitted_tools request_id w of
                  (Observed ob, w) \<Rightarrow> (lib_deliver lib ob, w)
                | (ObservationInvalid, w) \<Rightarrow> (None, w))))"

subsection \<open>The adapter\<close>

definition evidence_id_of :: "nat \<Rightarrow> string" where
  "evidence_id_of n = ''ev_'' @ str_nat n"

definition set_evidence_sequence :: "nat \<Rightarrow> int \<Rightarrow> (unit, nat) result" where
  "set_evidence_sequence seq value =
     (if value < int seq \<or> value > 32 then Inl () else Inr (nat value))"

definition adapter_evidence :: "nat \<Rightarrow> ToolEvidence \<Rightarrow> GroundedEvidence" where
  "adapter_evidence n i =
     \<lparr>ge_evidence_id = evidence_id_of n, ge_chunk_id = te_chunk_id i, ge_document_id = te_document_id i,
      ge_document_version_id = te_document_version_id i, ge_version_number = te_version_number i,
      ge_document_title = te_document_title i, ge_excerpt = te_excerpt i,
      ge_page_number = el_page_number (te_location i), ge_sheet_name = el_sheet_name (te_location i),
      ge_row_start = el_row_start (te_location i), ge_row_end = el_row_end (te_location i),
      ge_cell_start = el_cell_start (te_location i), ge_cell_end = el_cell_end (te_location i)\<rparr>"

definition calculation_evidence :: "nat \<Rightarrow> CalculationCitation \<Rightarrow> GroundedEvidence" where
  "calculation_evidence n i =
     \<lparr>ge_evidence_id = evidence_id_of n, ge_chunk_id = cc_chunk_id i, ge_document_id = cc_document_id i,
      ge_document_version_id = cc_document_version_id i, ge_version_number = cc_version_number i,
      ge_document_title = cc_document_title i, ge_excerpt = cc_excerpt i, ge_page_number = None,
      ge_sheet_name = Some (cc_sheet_name i), ge_row_start = Some (cc_row_start i),
      ge_row_end = Some (cc_row_end i), ge_cell_start = Some (cc_cell_start i),
      ge_cell_end = Some (cc_cell_end i)\<rparr>"

text \<open>Each conversion first increments the sequence; the sequence is threaded through the items.\<close>

fun number_items :: "(nat \<Rightarrow> 'a \<Rightarrow> GroundedEvidence) \<Rightarrow> nat \<Rightarrow> 'a list \<Rightarrow> GroundedEvidence list \<times> nat" where
  "number_items f seq [] = ([], seq)"
| "number_items f seq (x # xs) =
     (let (es, seq') = number_items f (Suc seq) xs in (f (Suc seq) x # es, seq'))"

definition mk_observation :: "StructuredObservation \<Rightarrow> StructuredObservation option" where
  "mk_observation ob = (if observation_ok ob then Some ob else None)"

definition failure_observation :: "Action \<Rightarrow> ObservationStatus \<Rightarrow> string \<Rightarrow> StructuredObservation" where
  "failure_observation action status code =
     \<lparr>ob_tool_name = (case act_name action of Some n \<Rightarrow> if n = [] then ''portfolio.invalid'' else n
                        | None \<Rightarrow> ''portfolio.invalid''),
      ob_status = status, ob_evidence = [], ob_calculations = [], ob_memory_context = [],
      ob_memory_notification = None, ob_duration_ms = 0, ob_retryable = False, ob_retry_count = 0,
      ob_reason_code = code\<rparr>"

definition adapter_status :: "StructuredToolObservation \<Rightarrow> ObservationStatus" where
  "adapter_status r =
     (if so_status r = gw_completed then O_SUCCESS
      else if so_status r = gw_denied then O_DENIED
      else if so_reason_code r = TOOL_TIMEOUT then O_TIMEOUT
      else O_ERROR)"

definition adapter_observation ::
  "Action \<Rightarrow> StructuredToolObservation \<Rightarrow> nat \<Rightarrow> StructuredObservation \<times> nat" where
  "adapter_observation action r seq =
     (let (calc, seq) = number_items calculation_evidence seq
            (concat (map (\<lambda>c. map ti_citation (cr_trusted_inputs c)) (so_calculations r)));
          (found, seq) = number_items adapter_evidence seq (so_evidence r)
      in (\<lparr>ob_tool_name = (case so_tool_name r of Some t \<Rightarrow> tool_value t
              | None \<Rightarrow> ob_tool_name (failure_observation action O_ERROR [])),
           ob_status = adapter_status r, ob_evidence = found @ calc, ob_calculations = so_calculations r,
           ob_memory_context = so_memories r,
           ob_memory_notification = (if so_memory_proposal r then Some proposal_notification else None),
           ob_duration_ms = so_duration_ms r, ob_retryable = False, ob_retry_count = so_retry_count r,
           ob_reason_code = reason_value (so_reason_code r)\<rparr>, seq))"

text \<open>
  \<^verbatim>\<open>AgentGatewayAdapter.execute\<close>; the result is \<open>None\<close> when the constructor of an observation raises.
  What the client returns is validated again (\<open>tool_observation_ok\<close>).
\<close>

definition adapter_execute ::
  "library \<Rightarrow> 'w host \<Rightarrow> 'w ApprovedToolGateway \<Rightarrow> Action \<Rightarrow> AuthorizationContext \<Rightarrow> string list \<Rightarrow> string \<Rightarrow>
   nat \<times> 'w \<Rightarrow> StructuredObservation option \<times> nat \<times> 'w" where
  "adapter_execute lib h gw action auth permitted_tools request_id sw =
     (let (seq, w) = sw in
      if ctx_identity auth \<noteq> scope_identity (ctx_scope auth)
      then (mk_observation (failure_observation action O_DENIED ''AUTHORIZATION_IDENTITY_MISMATCH''), seq, w)
      else
        (let raw_arguments = model_dump_json (lib_uuid_text lib) (act_arguments action) in
         case Option.bind (ApprovedToolName_of (case act_name action of Some n \<Rightarrow> n | None \<Rightarrow> []))
                (\<lambda>t. model_validate_json (lib_parse_uuid lib) (input_model (TOOL_MANIFEST t)) raw_arguments) of
           None \<Rightarrow> (mk_observation (failure_observation action O_DENIED (reason_value INPUT_SCHEMA_REJECTED)), seq, w)
         | Some _ \<Rightarrow>
             (case server_call lib h gw (ctx_scope auth) permitted_tools request_id
                     (case act_name action of Some n \<Rightarrow> n | None \<Rightarrow> []) raw_arguments w of
                (None, w) \<Rightarrow> (mk_observation (failure_observation action O_ERROR (reason_value TOOL_FAILED_SAFE)), seq, w)
              | (Some r, w) \<Rightarrow>
                  if \<not> tool_observation_ok r
                  then (mk_observation (failure_observation action O_ERROR (reason_value TOOL_FAILED_SAFE)), seq, w)
                  else let (ob, seq') = adapter_observation action r seq in (mk_observation ob, seq', w))))"

subsection \<open>Numbering of evidence\<close>

lemma number_items_eq:
  "number_items f seq xs =
     (map (\<lambda>(n, x). f n x) (zip [Suc seq..<Suc seq + length xs] xs), seq + length xs)"
proof (induction xs arbitrary: seq)
  case (Cons x xs)
  have "[Suc seq..<Suc seq + length (x # xs)] = Suc seq # [Suc (Suc seq)..<Suc (Suc seq) + length xs]"
    by (simp add: upt_rec)
  with Cons show ?case by simp
qed simp

lemma number_items_ids:
  assumes "\<And>n x. ge_evidence_id (f n x) = evidence_id_of n"
  shows "map ge_evidence_id (fst (number_items f seq xs)) = map evidence_id_of [Suc seq..<Suc seq + length xs]"
proof (induction xs arbitrary: seq)
  case (Cons x xs)
  have "[Suc seq..<Suc seq + length (x # xs)] = Suc seq # [Suc (Suc seq)..<Suc (Suc seq) + length xs]"
    by (simp add: upt_rec)
  then show ?case
    using Cons [of "Suc seq"] by (simp add: case_prod_beta assms del: upt_Suc)
qed simp

lemma evidence_id_of_inj [simp]: "evidence_id_of m = evidence_id_of n \<longleftrightarrow> m = n"
  using str_nat_inj by (auto simp: evidence_id_of_def)

lemma evidence_id_of_ok: "0 < n \<Longrightarrow> evidence_id_ok (evidence_id_of n)"
  using evidence_id_ok_str_nat by (simp add: evidence_id_of_def)

lemma adapter_ids [simp]:
  "ge_evidence_id (adapter_evidence n i) = evidence_id_of n"
  "ge_evidence_id (calculation_evidence n j) = evidence_id_of n"
  by (simp_all add: adapter_evidence_def calculation_evidence_def)

lemma adapter_observation_ids:
  assumes "tool_observation_ok r" and "adapter_observation action r seq = (ob, seq')"
  shows "evidence_reference_ids ob = map evidence_id_of [Suc seq..<Suc seq'] \<and> seq \<le> seq'"
proof -
  define cs where "cs = concat (map (\<lambda>c. map ti_citation (cr_trusted_inputs c)) (so_calculations r))"
  let ?es = "so_evidence r"
  from assms(1) have "payload_kinds r \<le> 1" by (simp add: tool_observation_ok_def split: if_splits)
  then have one: "?es = [] \<or> cs = []" unfolding payload_kinds_le_1 by (auto simp: cs_def)
  from assms(2) have ob: "ob_evidence ob =
      fst (number_items adapter_evidence (seq + length cs) ?es) @ fst (number_items calculation_evidence seq cs)"
    and s': "seq' = seq + length cs + length ?es"
    by (auto simp: adapter_observation_def number_items_eq cs_def [symmetric] simp del: upt_Suc)
  have ids: "evidence_reference_ids ob =
      map evidence_id_of [Suc (seq + length cs)..<Suc (seq + length cs) + length ?es] @
      map evidence_id_of [Suc seq..<Suc seq + length cs]"
    unfolding evidence_reference_ids_def ob map_append by (simp only: number_items_ids adapter_ids)
  from one show ?thesis unfolding ids s' by (auto simp del: upt_Suc)
qed

subsection \<open>Well-formed observations\<close>

lemma invalid_name_ok: "tool_name_ok ''portfolio.invalid''"
  by (simp add: tool_name_ok_def split_on_def ident_ok_def is_lower_def)

lemma mismatch_code_ok: "code_ok 63 ''AUTHORIZATION_IDENTITY_MISMATCH''"
  by (simp add: code_ok_def is_upper_def)

lemma action_name_or_invalid_ok: "action_ok a \<Longrightarrow> tool_name_ok (ob_tool_name (failure_observation a st c))"
  using invalid_name_ok by (auto simp: failure_observation_def action_ok_def opt_all_def split: option.splits)

lemma failure_observation_ok:
  "action_ok a \<Longrightarrow> st \<noteq> O_SUCCESS \<Longrightarrow> code_ok 63 c \<Longrightarrow> observation_ok (failure_observation a st c)"
  using action_name_or_invalid_ok [of a st c]
  by (simp add: observation_ok_def failure_observation_def opt_all_def)

lemma adapter_observation_ok:
  assumes "action_ok a" and "tool_observation_ok r" and "adapter_observation a r seq = (ob, seq')"
  shows "observation_ok ob \<and> ob_status ob = adapter_status r"
proof -
  have st: "adapter_status r \<noteq> O_SUCCESS \<longleftrightarrow> so_status r \<noteq> gw_completed" by (simp add: adapter_status_def)
  have empty: "so_status r \<noteq> gw_completed \<Longrightarrow> so_evidence r = [] \<and> so_calculations r = [] \<and> so_memories r = [] \<and> \<not> so_memory_proposal r"
    using assms(2) by (simp add: tool_observation_ok_def split: if_splits)
  from assms(3) have ob: "ob_status ob = adapter_status r" "ob_calculations ob = so_calculations r"
    "ob_memory_context ob = so_memories r" "ob_duration_ms ob = so_duration_ms r" "ob_retryable ob = False"
    "ob_retry_count ob = so_retry_count r" "ob_reason_code ob = reason_value (so_reason_code r)"
    "ob_memory_notification ob = (if so_memory_proposal r then Some proposal_notification else None)"
    "ob_tool_name ob = (case so_tool_name r of Some t \<Rightarrow> tool_value t
              | None \<Rightarrow> ob_tool_name (failure_observation a O_ERROR []))"
    by (auto simp: adapter_observation_def Let_def split: prod.splits)
  have ev: "so_evidence r = [] \<Longrightarrow> so_calculations r = [] \<Longrightarrow> ob_evidence ob = []"
    using assms(3) by (auto simp: adapter_observation_def number_items_eq)
  have nm: "tool_name_ok (ob_tool_name ob)"
    using action_name_or_invalid_ok [OF assms(1)] by (simp add: ob split: option.split)
  have rc: "0 \<le> so_retry_count r" "so_retry_count r \<le> 1" "0 \<le> so_duration_ms r"
    using assms(2) by (simp_all add: tool_observation_ok_def)
  show ?thesis
  proof (cases "so_status r = gw_completed")
    case True
    then have "adapter_status r = O_SUCCESS" by (simp add: adapter_status_def)
    then show ?thesis
      using nm rc unfolding observation_ok_def ob by (simp add: opt_all_def proposal_notification_def)
  next
    case False
    from empty [OF this] ev have "so_calculations r = []" "so_memories r = []" "\<not> so_memory_proposal r" "ob_evidence ob = []"
      by auto
    then show ?thesis
      using nm rc unfolding observation_ok_def ob by (simp add: opt_all_def)
  qed
qed

lemma mk_observation_failure [simp]:
  "action_ok a \<Longrightarrow> st \<noteq> O_SUCCESS \<Longrightarrow> code_ok 63 c \<Longrightarrow>
   mk_observation (failure_observation a st c) = Some (failure_observation a st c)"
  by (simp add: mk_observation_def failure_observation_ok)

lemma failure_observation_simps [simp]:
  "evidence_reference_ids (failure_observation a st c) = []" "ob_status (failure_observation a st c) = st"
  "ob_calculations (failure_observation a st c) = []"
  by (simp_all add: failure_observation_def evidence_reference_ids_def)

text \<open>The contract of one execution: an observation, and new evidence numbers only.\<close>

definition fresh_result :: "nat \<Rightarrow> StructuredObservation option \<Rightarrow> nat \<Rightarrow> bool" where
  "fresh_result seq r seq' =
     (\<exists>ob. r = Some ob \<and> observation_ok ob \<and> seq \<le> seq' \<and>
        evidence_reference_ids ob = map evidence_id_of [Suc seq..<Suc seq'])"

lemma fresh_failure:
  "action_ok a \<Longrightarrow> st \<noteq> O_SUCCESS \<Longrightarrow> code_ok 63 c \<Longrightarrow>
   fresh_result seq (mk_observation (failure_observation a st c)) seq"
  by (simp add: fresh_result_def failure_observation_ok)

lemma adapter_execute_fresh:
  assumes "action_ok a" and "adapter_execute lib h gw a auth permitted rid (seq, w) = (r, seq', w')"
  shows "fresh_result seq r seq'"
proof (cases "ctx_identity auth \<noteq> scope_identity (ctx_scope auth)")
  case True
  with assms fresh_failure [OF assms(1) _ mismatch_code_ok, of O_DENIED seq] show ?thesis
    by (simp add: adapter_execute_def del: mk_observation_failure)
next
  case False
  let ?nm = "case act_name a of Some n \<Rightarrow> n | None \<Rightarrow> []"
  let ?raw = "model_dump_json (lib_uuid_text lib) (act_arguments a)"
  let ?v = "Option.bind (ApprovedToolName_of ?nm)
    (\<lambda>t. model_validate_json (lib_parse_uuid lib) (input_model (TOOL_MANIFEST t)) ?raw)"
  let ?s = "server_call lib h gw (ctx_scope auth) permitted rid ?nm ?raw w"
  show ?thesis
  proof (cases ?v)
    case None
    with False assms fresh_failure [OF assms(1) _ reason_value_code_ok, of O_DENIED seq INPUT_SCHEMA_REJECTED]
    show ?thesis by (simp add: adapter_execute_def Let_def del: mk_observation_failure reason_value.simps)
  next
    case (Some x)
    obtain sr w1 where s: "?s = (sr, w1)" by (cases ?s)
    note unf = adapter_execute_def Let_def False Some s
    show ?thesis
    proof (cases "\<exists>ro. sr = Some ro \<and> tool_observation_ok ro")
      case True
      then obtain ro where ro: "sr = Some ro" "tool_observation_ok ro" by blast
      obtain ob sq where ob: "adapter_observation a ro seq = (ob, sq)" by (cases "adapter_observation a ro seq")
      have "r = mk_observation ob \<and> seq' = sq"
        using assms(2) False Some s ro ob by (simp add: adapter_execute_def Let_def)
      with adapter_observation_ok [OF assms(1) ro(2) ob] adapter_observation_ids [OF ro(2) ob] show ?thesis
        by (simp add: fresh_result_def mk_observation_def)
    next
      case F2: False
      have "r = mk_observation (failure_observation a O_ERROR (reason_value TOOL_FAILED_SAFE)) \<and> seq' = seq"
        using assms(2) False Some s F2
        by (cases sr) (simp_all add: adapter_execute_def Let_def del: mk_observation_failure reason_value.simps)
      with fresh_failure [OF assms(1) _ reason_value_code_ok, of O_ERROR seq TOOL_FAILED_SAFE] show ?thesis by simp
    qed
  qed
qed

subsection \<open>What the agent loop relies on\<close>

text \<open>A sequence of executions in one run, for one caller.\<close>

fun execute_all ::
  "(Action \<Rightarrow> AuthorizationContext \<Rightarrow> string list \<Rightarrow> string \<Rightarrow> 's \<Rightarrow> StructuredObservation option \<times> 's) \<Rightarrow>
   AuthorizationContext \<Rightarrow> string list \<Rightarrow> string \<Rightarrow> Action list \<Rightarrow> 's \<Rightarrow> StructuredObservation option list \<times> 's" where
  "execute_all ex auth permitted rid [] s = ([], s)"
| "execute_all ex auth permitted rid (a # as) s =
     (let (r, s') = ex a auth permitted rid s; (rs, s'') = execute_all ex auth permitted rid as s' in (r # rs, s''))"

locale tool_executor =
  fixes ex :: "Action \<Rightarrow> AuthorizationContext \<Rightarrow> string list \<Rightarrow> string \<Rightarrow> 's \<Rightarrow> StructuredObservation option \<times> 's"
    and seq :: "'s \<Rightarrow> nat"
  assumes fresh: "action_ok a \<Longrightarrow> ex a auth permitted rid s = (r, s') \<Longrightarrow> fresh_result (seq s) r (seq s')"
begin

lemma returns_observation:
  assumes "action_ok a" shows "\<exists>ob. fst (ex a auth permitted rid s) = Some ob \<and> observation_ok ob"
  using fresh [OF assms, of auth permitted rid s] by (cases "ex a auth permitted rid s") (auto simp: fresh_result_def)

lemma execute_all_fresh:
  "list_all action_ok as \<Longrightarrow> execute_all ex auth permitted rid as s = (rs, s') \<Longrightarrow>
   list_all (\<lambda>r. \<exists>ob. r = Some ob \<and> observation_ok ob) rs \<and> seq s \<le> seq s' \<and>
   concat (map (\<lambda>r. evidence_reference_ids (the r)) rs) = map evidence_id_of [Suc (seq s)..<Suc (seq s')]"
proof (induction as arbitrary: s rs s')
  case (Cons a as)
  obtain r s1 where r: "ex a auth permitted rid s = (r, s1)" by (cases "ex a auth permitted rid s")
  obtain rs1 s2 where rs: "execute_all ex auth permitted rid as s1 = (rs1, s2)"
    by (cases "execute_all ex auth permitted rid as s1")
  with Cons.prems r have eq: "rs = r # rs1" "s' = s2" by auto
  from fresh [OF _ r] Cons.prems(1) have f: "fresh_result (seq s) r (seq s1)" by simp
  from Cons.IH [OF _ rs] Cons.prems(1) have ih: "list_all (\<lambda>r. \<exists>ob. r = Some ob \<and> observation_ok ob) rs1"
    "seq s1 \<le> seq s2" "concat (map (\<lambda>r. evidence_reference_ids (the r)) rs1) = map evidence_id_of [Suc (seq s1)..<Suc (seq s2)]"
    by auto
  from f obtain ob where ob: "r = Some ob" "observation_ok ob" "seq s \<le> seq s1"
    "evidence_reference_ids ob = map evidence_id_of [Suc (seq s)..<Suc (seq s1)]" by (auto simp: fresh_result_def)
  have "[Suc (seq s)..<Suc (seq s2)] = [Suc (seq s)..<Suc (seq s1)] @ [Suc (seq s1)..<Suc (seq s2)]"
    using ob(3) ih(2) upt_add_eq_append [of "Suc (seq s)" "Suc (seq s1)" "seq s2 - seq s1"] by simp
  with ob ih show ?case by (simp add: eq del: upt_Suc)
qed simp

lemma execute_all_distinct:
  assumes "list_all action_ok as" and "execute_all ex auth permitted rid as s = (rs, s')"
  shows "distinct (concat (map (\<lambda>r. evidence_reference_ids (the r)) rs))"
  using execute_all_fresh [OF assms] by (auto simp: distinct_map inj_on_def simp del: upt_Suc)

end

interpretation adapter: tool_executor "adapter_execute lib h gw" fst for lib h gw
  by unfold_locales (metis adapter_execute_fresh prod.collapse fst_conv)

subsection \<open>Properties\<close>

definition example_library :: library where
  "example_library = \<lparr>lib_parse_uuid = (\<lambda>s. None), lib_uuid_text = str_nat, lib_coord = (\<lambda>s. None),
     lib_convert = (\<lambda>t args. Some args), lib_deliver = Some\<rparr>"

definition example_proposal :: Action where
  "example_proposal = \<lparr>act_type = TOOL_CALL, act_name = Some ''portfolio.propose_memory'',
     act_arguments = ProposeMemoryInput ''x'' ''k'' True, act_reason_code = ''REMEMBER''\<rparr>"

lemma example_proposal_ok: "action_ok example_proposal"
  using tool_value_name_ok [of PROPOSE_MEMORY]
  by (simp add: action_ok_def example_proposal_def opt_all_def bounded_def memory_key_ok_def ident_ok_def is_lower_def
      code_ok_def is_upper_def enforce_action_shape_def)

text \<open>C14: whatever the gateway, its adapters and the tool protocol library do, every execution of a
  well-formed action yields a well-formed observation, and over a whole sequence of executions the
  evidence identifiers are the consecutive numbers after the start of the sequence, so that none is
  ever used twice.\<close>

theorem adapter_evidence_numbering:
  assumes "list_all action_ok as"
    and "execute_all (adapter_execute lib h gw) auth permitted rid as (n, w) = (rs, m, w')"
  shows "list_all (\<lambda>r. \<exists>ob. r = Some ob \<and> observation_ok ob) rs \<and> n \<le> m \<and>
    concat (map (\<lambda>r. evidence_reference_ids (the r)) rs) = map evidence_id_of [Suc n..<Suc m] \<and>
    distinct (concat (map (\<lambda>r. evidence_reference_ids (the r)) rs))"
  using adapter.execute_all_fresh [OF assms] adapter.execute_all_distinct [OF assms] by simp

theorem adapter_evidence_numbering_witness:
  "\<exists>rs m w'. execute_all (adapter_execute example_library example_host example_gateway)
      \<lparr>ctx_identity = scope_identity example_scope, ctx_scope = example_scope\<rparr> [''portfolio.propose_memory''] ''r''
      [example_proposal, example_proposal] (4, 0) = (rs, m, w') \<and> 4 \<le> m \<and>
    distinct (concat (map (\<lambda>r. evidence_reference_ids (the r)) rs))"
proof -
  have ok: "list_all action_ok [example_proposal, example_proposal]" by (simp add: example_proposal_ok)
  obtain rs m w' where r: "execute_all (adapter_execute example_library example_host example_gateway)
      \<lparr>ctx_identity = scope_identity example_scope, ctx_scope = example_scope\<rparr> [''portfolio.propose_memory''] ''r''
      [example_proposal, example_proposal] (4, 0) = (rs, m, w')" by (rule prod_cases3)
  from adapter_evidence_numbering [OF ok r] r show ?thesis by blast
qed

text \<open>
  The validator of actions accepts the metric query as the argument of a calculation tool, because it
  is a subclass of the calculation input; the adapter then rejects the call, whose JSON form has a
  field the calculation model does not declare.
\<close>

lemma metric_query_action_shape:
  "enforce_action_shape \<lparr>act_type = TOOL_CALL, act_name = Some ''portfolio.calculate_ebitda_margin'',
     act_arguments = QueryFinancialMetricsInput c r m, act_reason_code = code\<rparr>"
  by (simp add: enforce_action_shape_def)

lemma metric_query_rejected:
  "adapter_execute lib h gw \<lparr>act_type = TOOL_CALL, act_name = Some ''portfolio.calculate_ebitda_margin'',
      act_arguments = QueryFinancialMetricsInput c r m, act_reason_code = code\<rparr>
     \<lparr>ctx_identity = scope_identity sc, ctx_scope = sc\<rparr> permitted rid (n, w) =
   (mk_observation (failure_observation \<lparr>act_type = TOOL_CALL, act_name = Some ''portfolio.calculate_ebitda_margin'',
      act_arguments = QueryFinancialMetricsInput c r m, act_reason_code = code\<rparr> O_DENIED ''INPUT_SCHEMA_REJECTED''), n, w)"
proof -
  have t: "ApprovedToolName_of ''portfolio.calculate_ebitda_margin'' = Some CALCULATE_EBITDA_MARGIN"
    using ApprovedToolName_of_value [of CALCULATE_EBITDA_MARGIN] by simp
  have "model_validate_json pu CalculateFinancialMetric_model (model_dump_json ut (QueryFinancialMetricsInput c r m)) = None" for pu ut
    by (simp add: model_validate_json_def validate_metric_def model_dump_json_def get_defs)
  with t show ?thesis by (simp add: adapter_execute_def entry_def)
qed

end
