(* ===== verification/Agent_Loop.thy ===== *)
theory Agent_Loop
  imports Plan_State Grounding Gateway_Adapter
begin

text \<open>
  The agent loop, \<^verbatim>\<open>app/agent/loop.py\<close>, with the action hash and the risk classes of
  \<^verbatim>\<open>app/agent/approval_security.py\<close>.

  The loop talks to language models, to the gateway and to a clock.  These are the fields of
  \<open>agent_env\<close>, functions on a world \<open>'w\<close> that get the seconds left of the budget and return how the
  awaited call ended.  The code returns early at many places and may raise; a piece of it is a value of
  type \<open>('w, 'a) run\<close>, which ends the run (\<open>Inl\<close>) or goes on with a value (\<open>Inr\<close>).
  The body of \<^verbatim>\<open>run\<close> is cut into phases in its order: \<open>start_run\<close>, and per iteration \<open>check_action\<close>,
  \<open>observe_tool\<close>, \<open>record_observation\<close>, \<open>use_observation\<close> and \<open>next_decision\<close>.
\<close>

subsection \<open>Hashes and risk classes\<close>

definition canonical_action_hash :: "(pydict \<Rightarrow> string) \<Rightarrow> (uuid \<Rightarrow> string) \<Rightarrow> Action \<Rightarrow> string" where
  "canonical_action_hash digest ut a = digest
     [(''action_name'', opt_str (act_name a)), (''action_type'', PStr (action_type_value (act_type a))),
      (''arguments'', PDict (model_dump_json ut (act_arguments a)))]"

definition classify_tool_risk :: "string \<Rightarrow> ApprovalRiskClass" where
  "classify_tool_risk n =
     (if n \<in> {''portfolio.search_authorized_documents'', ''portfolio.get_document_excerpt'',
              ''portfolio.calculate_ebitda_margin'', ''portfolio.calculate_revenue_growth'',
              ''portfolio.calculate_net_profit_margin'', ''portfolio.query_financial_metrics'',
              ''portfolio.calculate_debt_to_equity'', ''portfolio.calculate_cash_runway'',
              ''portfolio.calculate_cagr'', ''portfolio.search_memory''}
      then LOW_READ_ONLY else ALWAYS_REQUIRE_APPROVAL)"

definition must_pause ::
  "AgentControlMode \<Rightarrow> ApprovalRiskClass \<Rightarrow> string \<Rightarrow> string option \<Rightarrow> bool" where
  "must_pause mode risk action_hash approved_hash =
     (if approved_hash = Some action_hash then False
      else if risk = ALWAYS_REQUIRE_APPROVAL then True
      else mode = GUIDED)"

subsection \<open>Data of a run\<close>

record ReconstructedStep =
  rs_action_hash :: string
  rs_observation :: StructuredObservation

record ApprovalRequired =
  ar_action :: Action
  ar_action_hash :: string
  ar_plan_version :: int
  ar_proposed_step_number :: int
  ar_plans :: "Plan list"
  ar_step_count :: int
  ar_remaining_tools :: int
  ar_risk_class :: ApprovalRiskClass
  ar_safe_steps :: "SafeStepSnapshot list"
  ar_safe_observations :: "SafeObservationSnapshot list"

text \<open>
  How a run ends: an outcome, the exception that asks for an approval, the exception for a history
  that does not match, or any other exception.
\<close>

datatype run_result =
    Ended AgentRunOutcome
  | Paused ApprovalRequired
  | ApprovalReconstructionMismatch
  | Raised string

text \<open>How an awaited call ends; \<open>Model_error\<close> is the declared error of a model stage.\<close>

datatype 'a stage = Returns 'a | Times_out | Model_error | Raises

record GroundedMemory =
  gm_memory_id :: uuid
  gm_scope :: string
  gm_content :: string
  gm_memory_type :: string

record GroundedAgentContext =
  gx_memories :: "GroundedMemory list"
  gx_recent_messages :: "(string \<times> string) list"
  gx_conversation_summary :: "string option"

record LLMGeneration =
  gen_answer :: GroundedAnswerDraft
  gen_input_tokens :: "int option"
  gen_output_tokens :: "int option"

record 'w agent_env =
  env_clock :: "'w \<Rightarrow> seconds \<times> 'w"
  env_uuid4 :: "'w \<Rightarrow> uuid \<times> 'w"
  env_bind_perception_context :: "GroundedAgentContext \<Rightarrow> 'w \<Rightarrow> 'w"
  env_bind_decision_context :: "GroundedAgentContext \<Rightarrow> 'w \<Rightarrow> 'w"
  env_perceive_user_query :: "seconds \<Rightarrow> string \<Rightarrow> 'w \<Rightarrow> PerceptionSnapshot stage \<times> 'w"
  env_perceive_step_result ::
    "seconds \<Rightarrow> string \<Rightarrow> PerceptionSnapshot \<Rightarrow> Plan \<Rightarrow> CompletedStep list \<Rightarrow> StructuredObservation \<Rightarrow>
     RemainingBudgets \<Rightarrow> 'w \<Rightarrow> PerceptionSnapshot stage \<times> 'w"
  env_decide_initial ::
    "seconds \<Rightarrow> string \<Rightarrow> PerceptionSnapshot \<Rightarrow> PermittedToolDescriptor list \<Rightarrow> 'w \<Rightarrow> DecisionResult stage \<times> 'w"
  env_decide_mid_session ::
    "seconds \<Rightarrow> string \<Rightarrow> PerceptionSnapshot \<Rightarrow> Plan \<Rightarrow> CompletedStep list \<Rightarrow> PermittedToolDescriptor list \<Rightarrow>
     'w \<Rightarrow> DecisionResult stage \<times> 'w"
  env_set_evidence_sequence :: "int \<Rightarrow> 'w \<Rightarrow> bool \<times> 'w"
  env_execute ::
    "seconds \<Rightarrow> Action \<Rightarrow> AuthorizationContext \<Rightarrow> string list \<Rightarrow> string \<Rightarrow> 'w \<Rightarrow> StructuredObservation stage \<times> 'w"
  env_generate :: "seconds \<Rightarrow> string \<Rightarrow> GroundedEvidence list \<Rightarrow> 'w \<Rightarrow> LLMGeneration stage \<times> 'w"

text \<open>
  The pure library functions the loop uses: the digest of canonical JSON, the text of a UUID and the
  format \<^verbatim>\<open>{x:.2f}\<close> of a float; with the constant arguments of one run.
\<close>

record run_params =
  rp_digest :: "pydict \<Rightarrow> string"
  rp_uuid_text :: "uuid \<Rightarrow> string"
  rp_fmt2 :: "rat \<Rightarrow> string"
  rp_limits :: AgentLoopLimits
  rp_query :: string
  rp_authorization_context :: AuthorizationContext
  rp_catalog :: "PermittedToolDescriptor list"
  rp_request_id :: string
  rp_mode :: AgentControlMode
  rp_started :: seconds

definition permitted_tools :: "run_params \<Rightarrow> string list" where
  "permitted_tools p = map (\<lambda>d. tool_value (pd_name d)) (rp_catalog p)"

definition action_hash_of :: "run_params \<Rightarrow> Action \<Rightarrow> string" where
  "action_hash_of p = canonical_action_hash (rp_digest p) (rp_uuid_text p)"

record run_vars =
  rv_session :: AgentSession
  rv_trace :: "TraceEvent list"
  rv_evidence_by_id :: "(string \<times> GroundedEvidence) list"
  rv_step_count :: int
  rv_replan_count :: int
  rv_retry_count :: int
  rv_retrieval_count :: int
  rv_reconstructed :: "ReconstructedStep list"
  rv_approved_action_hash :: "string option"

subsection \<open>Pieces of code that may end the run\<close>

type_synonym ('w, 'a) run = "'w \<Rightarrow> (run_result + 'a) \<times> 'w"

definition retM :: "'a \<Rightarrow> ('w, 'a) run" where
  "retM a = (\<lambda>w. (Inr a, w))"

definition stopM :: "run_result \<Rightarrow> ('w, 'a) run" where
  "stopM r = (\<lambda>w. (Inl r, w))"

definition bindM :: "('w, 'a) run \<Rightarrow> ('a \<Rightarrow> ('w, 'b) run) \<Rightarrow> ('w, 'b) run" where
  "bindM m f = (\<lambda>w. case m w of (Inl r, w') \<Rightarrow> (Inl r, w') | (Inr a, w') \<Rightarrow> f a w')"

definition callM :: "('w \<Rightarrow> 'a \<times> 'w) \<Rightarrow> ('w, 'a) run" where
  "callM f = (\<lambda>w. let (a, w') = f w in (Inr a, w'))"

text \<open>\<^verbatim>\<open>_within_budget\<close>: a spent budget is a timeout without the call.\<close>

definition within_budget ::
  "'w agent_env \<Rightarrow> run_params \<Rightarrow> (seconds \<Rightarrow> 'w \<Rightarrow> 'a stage \<times> 'w) \<Rightarrow> ('w, 'a stage) run" where
  "within_budget env p awaitable =
     bindM (callM (env_clock env)) (\<lambda>now.
       let remaining = lim_max_duration_seconds (rp_limits p) - (now - rp_started p) in
       if remaining \<le> 0 then retM Times_out else callM (awaitable remaining))"

subsection \<open>Trace and terminal outcome\<close>

definition TRACE_SAFE_TOOL_NAMES :: "string list" where
  "TRACE_SAFE_TOOL_NAMES =
     [''portfolio.search_authorized_documents'', ''portfolio.get_document_excerpt'',
      ''portfolio.calculate_ebitda_margin'', ''portfolio.calculate_revenue_growth'',
      ''portfolio.calculate_net_profit_margin'', ''portfolio.query_financial_metrics'',
      ''portfolio.calculate_debt_to_equity'', ''portfolio.calculate_cash_runway'', ''portfolio.calculate_cagr'',
      ''portfolio.search_memory'', ''portfolio.propose_memory'']"

definition safe_action_name :: "string option \<Rightarrow> string option" where
  "safe_action_name n = (case n of None \<Rightarrow> None
     | Some s \<Rightarrow> if s \<in> set TRACE_SAFE_TOOL_NAMES then Some s else None)"

text \<open>\<^verbatim>\<open>trace.append(self._event(...))\<close>; the event gets a new identifier.\<close>

definition emit ::
  "'w agent_env \<Rightarrow> TraceEventType \<Rightarrow> TraceStatus \<Rightarrow> string \<Rightarrow> string option \<Rightarrow> int \<Rightarrow> string list \<Rightarrow> run_vars \<Rightarrow>
   ('w, run_vars) run" where
  "emit env event_type status code action_name duration_ms evidence_ids rv =
     bindM (callM (env_uuid4 env)) (\<lambda>u.
       let e = \<lparr>ev_id = u, ev_type = event_type, ev_action_name = safe_action_name action_name,
                ev_status = status, ev_duration_ms = max 0 duration_ms,
                ev_evidence_reference_ids = evidence_ids, ev_reason_code = code\<rparr> in
       if trace_event_ok e then retM (rv\<lparr>rv_trace := rv_trace rv @ [e]\<rparr>)
       else stopM (Raised ''ValidationError''))"

record answer_parts =
  ap_answer :: string
  ap_claims :: "GroundedClaimData list"
  ap_citations :: "GroundedCitationData list"
  ap_limitations :: "string list"
  ap_calculations :: "CalculationData list"
  ap_memory_proposal :: "ActionArguments option"
  ap_input_tokens :: "int option"
  ap_output_tokens :: "int option"

definition plain_answer :: "string \<Rightarrow> answer_parts" where
  "plain_answer s = \<lparr>ap_answer = s, ap_claims = [], ap_citations = [], ap_limitations = [],
     ap_calculations = [], ap_memory_proposal = None, ap_input_tokens = None, ap_output_tokens = None\<rparr>"

definition ANSWER_INSUFFICIENT :: string where
  "ANSWER_INSUFFICIENT = ''I don't have sufficient authorized evidence to answer that question.''"
definition ANSWER_REFUSED :: string where
  "ANSWER_REFUSED = ''I can't perform that request within your authorized scope.''"
definition ANSWER_CLARIFY :: string where
  "ANSWER_CLARIFY = ''Please clarify the document question you want answered.''"
definition ANSWER_FAILED :: string where
  "ANSWER_FAILED = ''The agent could not complete the request safely.''"

definition session_policy_decision :: "SafeStepSnapshot list \<Rightarrow> PolicyOutcome" where
  "session_policy_decision steps =
     (if \<exists>s \<in> set steps. ss_policy_decision s = P_DENIED then P_DENIED
      else if \<exists>s \<in> set steps. ss_policy_decision s = P_ALLOWED then P_ALLOWED
      else NOT_EVALUATED)"

definition evidence_advanced :: "PerceptionSnapshot list \<Rightarrow> bool" where
  "evidence_advanced ps =
     (\<exists>i \<in> set (tl ps). ps_local_goal_status i \<in> {G_ADVANCED, G_SATISFIED} \<or>
        ps_global_goal_status i \<in> {G_ADVANCED, G_SATISFIED})"

definition run_outcome ::
  "run_vars \<Rightarrow> TerminalStatus \<Rightarrow> StoppingReason \<Rightarrow> answer_parts \<Rightarrow> AgentRunOutcome" where
  "run_outcome rv status reason parts =
     (let s = rv_session rv in
      \<lparr>out_agent_session_id = se_session_id s, out_terminal_status = status, out_stopping_reason = reason,
       out_answer = ap_answer parts, out_claims = ap_claims parts, out_citations = ap_citations parts,
       out_limitations = ap_limitations parts, out_calculations = ap_calculations parts,
       out_memory_proposal = ap_memory_proposal parts, out_step_count = rv_step_count rv,
       out_replan_count = rv_replan_count rv, out_retry_count = rv_retry_count rv, out_trace = rv_trace rv,
       out_selected_intent = (case se_perceptions s of [] \<Rightarrow> None | q # _ \<Rightarrow> Some (ps_intent q)),
       out_policy_decision = session_policy_decision (se_safe_steps s),
       out_tool_shortlist = map pd_name (se_permitted_tool_catalog s),
       out_plan_version = (if se_plans s = [] then None else Some (plan_version (last (se_plans s)))),
       out_evidence_advanced_goal = evidence_advanced (se_perceptions s),
       out_plan_versions = se_plans s, out_safe_steps = se_safe_steps s,
       out_safe_observations = se_safe_observations s, out_input_tokens = ap_input_tokens parts,
       out_output_tokens = ap_output_tokens parts\<rparr>)"

text \<open>\<^verbatim>\<open>_terminal\<close> ends the run.\<close>

definition terminal ::
  "'w agent_env \<Rightarrow> run_vars \<Rightarrow> TerminalStatus \<Rightarrow> StoppingReason \<Rightarrow> answer_parts \<Rightarrow> ('w, 'a) run" where
  "terminal env rv status reason parts =
     (if status \<noteq> T_COMPLETED \<and> (ap_claims parts \<noteq> [] \<or> ap_citations parts \<noteq> [] \<or> ap_calculations parts \<noteq> [])
      then stopM (Raised ''ValueError'')
      else bindM (emit env E_TERMINAL (if status = T_COMPLETED then TS_COMPLETED else TS_TERMINATED)
                    (stopping_code reason) None 0 [] rv) (\<lambda>rv.
        let out = run_outcome rv status reason parts in
        if outcome_ok out then stopM (Ended out) else stopM (Raised ''ValidationError'')))"

definition terminal_failed :: "'w agent_env \<Rightarrow> run_vars \<Rightarrow> TerminalStatus \<Rightarrow> StoppingReason \<Rightarrow> ('w, 'a) run" where
  "terminal_failed env rv status reason = terminal env rv status reason (plain_answer ANSWER_FAILED)"

text \<open>The handlers around the model stages and the plan operations.\<close>

definition handle_stage :: "'w agent_env \<Rightarrow> run_vars \<Rightarrow> 'a stage \<Rightarrow> ('w, 'a) run" where
  "handle_stage env rv st =
     (case st of
        Returns a \<Rightarrow> retM a
      | Times_out \<Rightarrow> terminal_failed env rv T_LIMIT_REACHED S_MAX_DURATION
      | Model_error \<Rightarrow> terminal_failed env rv T_FAILED S_MODEL_ERROR
      | Raises \<Rightarrow> stopM (Raised ''Exception''))"

definition handle_plan :: "'w agent_env \<Rightarrow> run_vars \<Rightarrow> (plan_error, 'a) result \<Rightarrow> ('w, 'a) run" where
  "handle_plan env rv r =
     (case r of
        Inr a \<Rightarrow> retM a
      | Inl PlanExhaustedError \<Rightarrow> terminal_failed env rv T_FAILED S_PLAN_EXHAUSTED
      | Inl PlanContractError \<Rightarrow> terminal_failed env rv T_FAILED S_MALFORMED_ACTION
      | Inl CompletedStepInvalid \<Rightarrow> stopM (Raised ''ValidationError''))"

subsection \<open>Finalization\<close>

text \<open>\<^verbatim>\<open>_finalize\<close>: the answer of the language model, validated against the evidence of the run.\<close>

definition finalize :: "'w agent_env \<Rightarrow> run_params \<Rightarrow> run_vars \<Rightarrow> ('w, 'a) run" where
  "finalize env p rv =
     (let evidence = map snd (rv_evidence_by_id rv) in
      if evidence = [] then
        terminal env rv T_INSUFFICIENT_EVIDENCE S_INSUFFICIENT_AUTHORIZED_EVIDENCE (plain_answer ANSWER_INSUFFICIENT)
      else
        bindM (emit env E_FINALIZATION TS_STARTED ''FINALIZATION_STARTED'' None 0 (map ge_evidence_id evidence) rv) (\<lambda>rv.
        bindM (within_budget env p (\<lambda>t. env_generate env t (rp_query p) evidence)) (\<lambda>st.
        bindM (handle_stage env rv st) (\<lambda>generation.
        case validate_grounded_answer (gen_answer generation) evidence of
          Inl (GroundingValidationError code) \<Rightarrow>
            terminal env rv T_INSUFFICIENT_EVIDENCE S_CITATION_VALIDATION_FAILED (plain_answer ANSWER_INSUFFICIENT)
        | Inl CitationInvalid \<Rightarrow> stopM (Raised ''ValidationError'')
        | Inr v \<Rightarrow>
            bindM (emit env E_FINALIZATION TS_COMPLETED ''CITATIONS_VALIDATED'' None 0
                     (map ci_citation_id (va_citations v)) rv) (\<lambda>rv.
            terminal env rv T_COMPLETED S_COMPLETED
              \<lparr>ap_answer = join '' '' (map (\<lambda>c. gc_text c @ '' ['' @ join '', '' (gc_citation_ids c) @ '']'') (va_claims v)),
               ap_claims = va_claims v, ap_citations = va_citations v, ap_limitations = va_limitations v,
               ap_calculations = [], ap_memory_proposal = None, ap_input_tokens = gen_input_tokens generation,
               ap_output_tokens = gen_output_tokens generation\<rparr>)))))"

definition metric_label :: "CalculationResult \<Rightarrow> string" where
  "metric_label c =
     (case cr_metric c of
        FINANCIAL_METRIC \<Rightarrow> ti_name (hd (cr_trusted_inputs c))
      | EBITDA_MARGIN \<Rightarrow> ''EBITDA margin''
      | REVENUE_GROWTH \<Rightarrow> ''Revenue growth''
      | NET_PROFIT_MARGIN \<Rightarrow> ''Net profit margin''
      | DEBT_TO_EQUITY \<Rightarrow> ''Debt-to-equity''
      | CASH_RUNWAY \<Rightarrow> ''Stress-case cash runway''
      | CAGR \<Rightarrow> ''Revenue CAGR'')"

definition claim_text :: "run_params \<Rightarrow> CalculationResult \<Rightarrow> string" where
  "claim_text p c =
     metric_label c @ '' for '' @ cr_company_slug c @ '' in '' @ cr_period c @ '' is '' @
     (if cr_unit c = ''percent'' then rp_fmt2 p (cr_result c) @ ''%'' else rp_fmt2 p (cr_result c) @ '' '' @ cr_unit c) @ ''.''"

definition calculation_data :: "CalculationResult \<Rightarrow> GroundedEvidence list \<Rightarrow> CalculationData" where
  "calculation_data c evidence =
     \<lparr>cd_calculation_id = cr_calculation_id c, cd_metric = metric_value (cr_metric c),
      cd_company_slug = cr_company_slug c, cd_period = cr_period c, cd_formula = cr_formula c,
      cd_trusted_inputs = map (\<lambda>(trusted, source).
        \<lparr>cid_name = ti_name trusted, cid_period = ti_period trusted, cid_value = ti_value trusted,
         cid_unit = ti_unit trusted, cid_citation_id = ge_evidence_id source\<rparr>) (zip (cr_trusted_inputs c) evidence),
      cd_result = cr_result c, cd_unit = cr_unit c, cd_citation_ids = map ge_evidence_id evidence\<rparr>"

text \<open>
  \<^verbatim>\<open>_finalize_calculations\<close>: the answer of a calculation is written by the host.  The table of labels
  reads the name of the first input for every metric, so a calculation without inputs raises.
\<close>

definition finalize_calculations ::
  "'w agent_env \<Rightarrow> run_params \<Rightarrow> run_vars \<Rightarrow> CalculationResult list \<Rightarrow> GroundedEvidence list \<Rightarrow> ('w, 'a) run" where
  "finalize_calculations env p rv calculations evidence =
     (case calculations of
        [c] \<Rightarrow>
          if length evidence \<noteq> length (cr_trusted_inputs c) then terminal_failed env rv T_FAILED S_TOOL_ERROR
          else (case mapR mk_citation evidence of
             Inl _ \<Rightarrow> stopM (Raised ''ValidationError'')
           | Inr citations \<Rightarrow>
               if cr_trusted_inputs c = [] then stopM (Raised ''IndexError'')
               else let citation_ids = map ge_evidence_id evidence; txt = claim_text p c in
                 bindM (emit env E_FINALIZATION TS_COMPLETED ''DETERMINISTIC_CALCULATION_VALIDATED'' None 0 citation_ids rv) (\<lambda>rv.
                 terminal env rv T_COMPLETED S_COMPLETED
                   \<lparr>ap_answer = normalize_ws (txt @ '' ['' @ join '', '' citation_ids @ ''] Formula: '' @ cr_formula c @ ''.''),
                    ap_claims = [\<lparr>gc_text = txt, gc_citation_ids = citation_ids\<rparr>], ap_citations = citations,
                    ap_limitations = [], ap_calculations = [calculation_data c evidence], ap_memory_proposal = None,
                    ap_input_tokens = None, ap_output_tokens = None\<rparr>))
      | _ \<Rightarrow> terminal_failed env rv T_FAILED S_TOOL_ERROR)"

subsection \<open>The start of a run\<close>

definition new_session :: "run_params \<Rightarrow> uuid \<Rightarrow> AgentSession" where
  "new_session p session_id =
     \<lparr>se_session_id = session_id, se_request_id = rp_request_id p, se_original_query = rp_query p,
      se_authorization_context = rp_authorization_context p, se_permitted_tool_catalog = rp_catalog p,
      se_perceptions = [], se_plans = [], se_completed_steps = [], se_observations = [], se_safe_steps = [],
      se_safe_observations = [], se_terminal_status = None, se_stopping_reason = None, se_step_count = 0,
      se_replan_count = 0, se_retry_count = 0, se_trace = []\<rparr>"

definition start_run ::
  "'w agent_env \<Rightarrow> run_params \<Rightarrow> uuid option \<Rightarrow> string option \<Rightarrow> ReconstructedStep list \<Rightarrow> GroundedAgentContext \<Rightarrow>
   ('w, run_vars \<times> PerceptionSnapshot \<times> DecisionResult \<times> PlanState) run" where
  "start_run env p agent_run_id approved_action_hash reconstructed_steps prompt_context =
     bindM (case agent_run_id of Some i \<Rightarrow> retM i | None \<Rightarrow> callM (env_uuid4 env)) (\<lambda>session_id.
     let rv = \<lparr>rv_session = new_session p session_id, rv_trace = [], rv_evidence_by_id = [], rv_step_count = 0,
          rv_replan_count = 0, rv_retry_count = 0, rv_retrieval_count = 0, rv_reconstructed = reconstructed_steps,
          rv_approved_action_hash = approved_action_hash\<rparr> in
     if \<not> new_session_ok (rv_session rv) then stopM (Raised ''ValidationError'')
     else
     bindM (if reconstructed_steps = [] then retM True
            else callM (env_set_evidence_sequence env
              (int (sum_list (map (\<lambda>i. length (ob_evidence (rs_observation i))) reconstructed_steps))))) (\<lambda>ok.
     if \<not> ok then stopM (Raised ''ValueError'')
     else
     bindM (callM (\<lambda>w. ((), env_bind_decision_context env prompt_context (env_bind_perception_context env prompt_context w)))) (\<lambda>_.
     bindM (within_budget env p (\<lambda>t. env_perceive_user_query env t (rp_query p))) (\<lambda>st.
     bindM (handle_stage env rv st) (\<lambda>perception.
     let rv = rv\<lparr>rv_session := (rv_session rv)\<lparr>se_perceptions := [perception]\<rparr>\<rparr> in
     bindM (emit env E_PERCEPTION TS_COMPLETED ''PERCEPTION_COMPLETED'' None 0 [] rv) (\<lambda>rv.
     bindM (emit env E_POLICY TS_COMPLETED ''TRUSTED_SCOPE_BOUND'' None 0 [] rv) (\<lambda>rv.
     bindM (emit env E_GATEWAY TS_COMPLETED ''CAPABILITY_SHORTLIST_BOUND'' None 0 [] rv) (\<lambda>rv.
     bindM (within_budget env p (\<lambda>t. env_decide_initial env t (rp_query p) perception (rp_catalog p))) (\<lambda>st.
     bindM (handle_stage env rv st) (\<lambda>decision.
     bindM (handle_plan env rv (initial (rp_digest p) (rp_uuid_text p) decision)) (\<lambda>plan_state.
     retM (rv\<lparr>rv_session := (rv_session rv)\<lparr>se_plans := versions plan_state\<rparr>\<rparr>, perception, decision, plan_state))))))))))))"

subsection \<open>One iteration\<close>

text \<open>
  The decision is traced and checked against the plan; actions that are not tool calls end the run,
  and a tool call must be within the limits and in the permitted catalog.
\<close>

definition check_action ::
  "'w agent_env \<Rightarrow> run_params \<Rightarrow> run_vars \<Rightarrow> Action \<Rightarrow> PlanState \<Rightarrow> ('w, run_vars \<times> Step \<times> string) run" where
  "check_action env p rv action plan_state =
     bindM (emit env E_DECISION TS_COMPLETED ''DECISION_PRODUCED'' (act_name action) 0 [] rv) (\<lambda>rv.
     bindM (handle_plan env rv (validate_next_action (rp_digest p) (rp_uuid_text p) plan_state action)) (\<lambda>active_plan_step.
     if act_type action = CLARIFY then
       terminal env rv T_NEEDS_CLARIFICATION S_CLARIFICATION_REQUIRED (plain_answer ANSWER_CLARIFY)
     else if act_type action = REFUSE then
       terminal env rv T_REFUSED S_REQUEST_REFUSED (plain_answer ANSWER_REFUSED)
     else if act_type action = FINALIZE then finalize env p rv
     else if rv_step_count rv \<ge> lim_max_steps (rp_limits p) then terminal_failed env rv T_LIMIT_REACHED S_MAX_STEPS
     else if act_name action = Some ''portfolio.search_authorized_documents'' \<and>
             rv_retrieval_count rv \<ge> 1 + lim_max_retrieval_rewrites (rp_limits p)
     then terminal_failed env rv T_LIMIT_REACHED S_MAX_RETRIEVAL_REWRITES
     else case act_name action of
       Some tool_name \<Rightarrow>
         if tool_name \<in> set (permitted_tools p) then retM (rv, active_plan_step, tool_name)
         else bindM (emit env E_GATEWAY TS_DENIED ''TOOL_NOT_PERMITTED'' (act_name action) 0 [] rv) (\<lambda>rv.
           terminal env rv T_REFUSED S_SCOPE_DENIED (plain_answer ANSWER_REFUSED))
     | None \<Rightarrow>
         bindM (emit env E_GATEWAY TS_DENIED ''TOOL_NOT_PERMITTED'' None 0 [] rv) (\<lambda>rv.
           terminal env rv T_REFUSED S_SCOPE_DENIED (plain_answer ANSWER_REFUSED))))"

definition elapsed_ms :: "'w agent_env \<Rightarrow> seconds \<Rightarrow> ('w, int) run" where
  "elapsed_ms env since = bindM (callM (env_clock env)) (\<lambda>now. retM (max 0 (trunc ((now - since) * 1000))))"

definition mk_safe_step :: "SafeStepSnapshot \<Rightarrow> ('w, SafeStepSnapshot) run" where
  "mk_safe_step s = (if safe_step_ok s then retM s else stopM (Raised ''ValidationError''))"

text \<open>The handlers for a failed execution: the step is recorded and the run ends.\<close>

definition failed_execution ::
  "'w agent_env \<Rightarrow> run_params \<Rightarrow> run_vars \<Rightarrow> Action \<Rightarrow> PlanState \<Rightarrow> Step \<Rightarrow> string \<Rightarrow> seconds \<Rightarrow>
   SafeStepStatus \<Rightarrow> TraceStatus \<Rightarrow> string \<Rightarrow> StoppingReason \<Rightarrow> ('w, 'a) run" where
  "failed_execution env p rv action plan_state active tool_name tool_started status tstatus code reason =
     bindM (elapsed_ms env tool_started) (\<lambda>tool_duration_ms.
     bindM (mk_safe_step \<lparr>ss_plan_version = plan_version (current_plan plan_state), ss_plan_step_index = step_index active,
              ss_tool_name = tool_name, ss_action_argument_hash = action_hash_of p action, ss_status = status,
              ss_policy_decision = P_ALLOWED, ss_reason_code = code, ss_duration_ms = tool_duration_ms\<rparr>) (\<lambda>s.
     let rv = rv\<lparr>rv_session := (rv_session rv)\<lparr>se_safe_steps := se_safe_steps (rv_session rv) @ [s]\<rparr>\<rparr> in
     bindM (emit env E_TOOL tstatus code (act_name action) 0 [] rv) (\<lambda>rv.
     terminal_failed env rv T_FAILED reason)))"

text \<open>
  The observation of the action: taken from the reconstructed history as long as there is one, else
  from the gateway, unless the action needs an approval it does not have.  An approval is used up by
  the action it was given for.
\<close>

definition observe_tool ::
  "'w agent_env \<Rightarrow> run_params \<Rightarrow> run_vars \<Rightarrow> Action \<Rightarrow> PlanState \<Rightarrow> Step \<Rightarrow> string \<Rightarrow> seconds \<Rightarrow>
   ('w, run_vars \<times> StructuredObservation) run" where
  "observe_tool env p rv action plan_state active tool_name tool_started =
     (let action_hash = action_hash_of p action; risk_class = classify_tool_risk tool_name in
      case rv_reconstructed rv of
        r # rest \<Rightarrow>
          if rs_action_hash r \<noteq> action_hash then stopM ApprovalReconstructionMismatch
          else retM (rv\<lparr>rv_reconstructed := rest\<rparr>, rs_observation r)
      | [] \<Rightarrow>
          if rv_approved_action_hash rv \<noteq> None \<and> rv_approved_action_hash rv \<noteq> Some action_hash
          then stopM ApprovalReconstructionMismatch
          else if must_pause (rp_mode p) risk_class action_hash (rv_approved_action_hash rv)
          then stopM (Paused \<lparr>ar_action = action, ar_action_hash = action_hash,
                 ar_plan_version = plan_version (current_plan plan_state),
                 ar_proposed_step_number = rv_step_count rv + 1, ar_plans = versions plan_state,
                 ar_step_count = rv_step_count rv,
                 ar_remaining_tools = max 0 (lim_max_steps (rp_limits p) - rv_step_count rv),
                 ar_risk_class = risk_class, ar_safe_steps = se_safe_steps (rv_session rv),
                 ar_safe_observations = se_safe_observations (rv_session rv)\<rparr>)
          else
            let rv = (if rv_approved_action_hash rv = Some action_hash then rv\<lparr>rv_approved_action_hash := None\<rparr> else rv) in
            bindM (within_budget env p (\<lambda>t. env_execute env t action (rp_authorization_context p) (permitted_tools p)
                     (rp_request_id p))) (\<lambda>st.
            case st of
              Returns ob \<Rightarrow> retM (rv, ob)
            | Times_out \<Rightarrow> failed_execution env p rv action plan_state active tool_name tool_started
                SS_TIMEOUT TS_TIMEOUT ''TOOL_TIMEOUT'' S_TOOL_TIMEOUT
            | _ \<Rightarrow> failed_execution env p rv action plan_state active tool_name tool_started
                SS_FAILED TS_FAILED ''TOOL_ERROR'' S_TOOL_ERROR))"

definition step_status_of :: "ObservationStatus \<Rightarrow> SafeStepStatus" where
  "step_status_of o1 = (case o1 of O_SUCCESS \<Rightarrow> SS_COMPLETED | O_DENIED \<Rightarrow> SS_DENIED
     | O_TIMEOUT \<Rightarrow> SS_TIMEOUT | O_ERROR \<Rightarrow> SS_FAILED)"

definition trace_status_of :: "ObservationStatus \<Rightarrow> TraceStatus" where
  "trace_status_of o1 = (case o1 of O_SUCCESS \<Rightarrow> TS_COMPLETED | O_DENIED \<Rightarrow> TS_DENIED
     | O_TIMEOUT \<Rightarrow> TS_TIMEOUT | O_ERROR \<Rightarrow> TS_FAILED)"

definition safe_observation_of :: "StructuredObservation \<Rightarrow> SafeObservationSnapshot" where
  "safe_observation_of ob =
     \<lparr>sos_status = ob_status ob, sos_reason_code = ob_reason_code ob,
      sos_document_ids = map ge_document_id (ob_evidence ob), sos_chunk_ids = map ge_chunk_id (ob_evidence ob),
      sos_citation_ids = map ge_evidence_id (ob_evidence ob), sos_retry_count = ob_retry_count ob,
      sos_duration_ms = ob_duration_ms ob\<rparr>"

definition mk_safe_observation :: "SafeObservationSnapshot \<Rightarrow> ('w, SafeObservationSnapshot) run" where
  "mk_safe_observation s = (if safe_observation_ok s then retM s else stopM (Raised ''ValidationError''))"

text \<open>The step is counted and recorded without content, and traced.\<close>

definition record_observation ::
  "'w agent_env \<Rightarrow> run_params \<Rightarrow> run_vars \<Rightarrow> Action \<Rightarrow> PlanState \<Rightarrow> Step \<Rightarrow> string \<Rightarrow> seconds \<Rightarrow>
   StructuredObservation \<Rightarrow> ('w, run_vars) run" where
  "record_observation env p rv action plan_state active tool_name tool_started ob =
     (let rv = rv\<lparr>rv_step_count := rv_step_count rv + 1,
            rv_retrieval_count := (if act_name action = Some ''portfolio.search_authorized_documents''
              then rv_retrieval_count rv + 1 else rv_retrieval_count rv),
            rv_retry_count := rv_retry_count rv + ob_retry_count ob\<rparr> in
      bindM (elapsed_ms env tool_started) (\<lambda>tool_duration_ms.
      bindM (mk_safe_step \<lparr>ss_plan_version = plan_version (current_plan plan_state), ss_plan_step_index = step_index active,
               ss_tool_name = tool_name, ss_action_argument_hash = action_hash_of p action,
               ss_status = step_status_of (ob_status ob),
               ss_policy_decision = (if ob_status ob = O_DENIED then P_DENIED else P_ALLOWED),
               ss_reason_code = ob_reason_code ob, ss_duration_ms = tool_duration_ms\<rparr>) (\<lambda>safe_step.
      bindM (mk_safe_observation (safe_observation_of ob)) (\<lambda>safe_observation.
      let se = rv_session rv;
          rv = rv\<lparr>rv_session := se\<lparr>se_step_count := rv_step_count rv, se_retry_count := rv_retry_count rv,
            se_observations := se_observations se @ [ob], se_safe_steps := se_safe_steps se @ [safe_step],
            se_safe_observations := se_safe_observations se @ [safe_observation]\<rparr>\<rparr> in
      bindM (emit env E_GATEWAY TS_COMPLETED ''ACTION_VALIDATED'' (act_name action) 0 [] rv) (\<lambda>rv.
      bindM (emit env E_TOOL (trace_status_of (ob_status ob)) (ob_reason_code ob) (act_name action) tool_duration_ms
               (evidence_reference_ids ob) rv) (\<lambda>rv.
      emit env E_OBSERVATION TS_COMPLETED ''OBSERVATION_VALIDATED'' (act_name action) (ob_duration_ms ob)
        (evidence_reference_ids ob) rv))))))"

text \<open>The second text has the typographic apostrophe U+2019 in the code; it is outside the code points of \<open>char\<close>, and the
  ASCII one stands for it here.\<close>

definition memory_answer :: "StructuredObservation \<Rightarrow> string" where
  "memory_answer ob =
     (if ob_memory_context ob \<noteq> [] then
        ''From your authorized private memory/history: '' @
        join '' '' (map (\<lambda>(i, m). str_nat i @ ''. '' @ mi_summary m)
          (zip [1..<Suc (length (ob_memory_context ob))] (ob_memory_context ob))) @
        '' This is prior context, not current financial evidence.''
      else ''I don't have matching authorized private memory for that request.'')"

definition add_evidence ::
  "(string \<times> GroundedEvidence) list \<Rightarrow> GroundedEvidence list \<Rightarrow> (string \<times> GroundedEvidence) list" where
  "add_evidence by_id es = fold (\<lambda>e d. dict_set d (ge_evidence_id e) e) es by_id"

text \<open>
  What the observation means for the run: a failure ends it; otherwise the evidence is kept, the plan
  step is completed, and calculations and the two memory tools end the run with an answer.
\<close>

definition use_observation ::
  "'w agent_env \<Rightarrow> run_params \<Rightarrow> run_vars \<Rightarrow> Action \<Rightarrow> PlanState \<Rightarrow> StructuredObservation \<Rightarrow>
   ('w, run_vars \<times> PlanState) run" where
  "use_observation env p rv action plan_state ob =
     (case ob_status ob of
        O_DENIED \<Rightarrow> terminal env rv T_REFUSED S_SCOPE_DENIED (plain_answer ANSWER_REFUSED)
      | O_TIMEOUT \<Rightarrow> terminal_failed env rv T_FAILED S_TOOL_TIMEOUT
      | O_ERROR \<Rightarrow> terminal_failed env rv T_FAILED S_TOOL_ERROR
      | O_SUCCESS \<Rightarrow>
          let rv = rv\<lparr>rv_evidence_by_id := add_evidence (rv_evidence_by_id rv) (ob_evidence ob)\<rparr> in
          case complete_next (rp_digest p) (rp_uuid_text p) plan_state action of
            Inl _ \<Rightarrow> stopM (Raised ''PlanContractError'')
          | Inr plan_state \<Rightarrow>
            let rv = rv\<lparr>rv_session := (rv_session rv)\<lparr>se_plans := versions plan_state,
                  se_completed_steps := completed_history plan_state\<rparr>\<rparr> in
            if ob_calculations ob \<noteq> [] then finalize_calculations env p rv (ob_calculations ob) (ob_evidence ob)
            else if act_name action = Some ''portfolio.search_memory'' then
              bindM (emit env E_FINALIZATION TS_COMPLETED ''AUTHORIZED_MEMORY_SUMMARIZED'' None 0 [] rv) (\<lambda>rv.
              terminal env rv T_COMPLETED S_COMPLETED (plain_answer (memory_answer ob)))
            else if act_name action = Some ''portfolio.propose_memory'' then
              (case act_arguments action of
                 ProposeMemoryInput c k e \<Rightarrow>
                   bindM (emit env E_FINALIZATION TS_COMPLETED ''MEMORY_PROPOSAL_SENT_TO_HOST_POLICY'' None 0 [] rv) (\<lambda>rv.
                   terminal env rv T_COMPLETED S_COMPLETED
                     ((plain_answer (case ob_memory_notification ob of
                          Some n \<Rightarrow> if n = [] then ''Memory proposal sent to host policy.'' else n
                        | None \<Rightarrow> ''Memory proposal sent to host policy.''))
                      \<lparr>ap_memory_proposal := Some (act_arguments action)\<rparr>))
               | _ \<Rightarrow> terminal_failed env rv T_FAILED S_TOOL_ERROR)
            else retM (rv, plan_state))"

definition remaining_budgets_of ::
  "run_params \<Rightarrow> run_vars \<Rightarrow> StructuredObservation \<Rightarrow> seconds \<Rightarrow> RemainingBudgets" where
  "remaining_budgets_of p rv ob now =
     \<lparr>rb_tool_steps = max 0 (lim_max_steps (rp_limits p) - rv_step_count rv),
      rb_retrieval_rewrites = max 0 (lim_max_retrieval_rewrites (rp_limits p) - max 0 (rv_retrieval_count rv - 1)),
      rb_replans = max 0 (lim_max_replans (rp_limits p) - rv_replan_count rv),
      rb_latest_tool_retries = max 0 (1 - ob_retry_count ob),
      rb_duration_ms = max 0 (trunc ((lim_max_duration_seconds (rp_limits p) - (now - rp_started p)) * 1000))\<rparr>"

text \<open>The result is perceived, the next decision is made and applied to the plan.\<close>

definition next_decision ::
  "'w agent_env \<Rightarrow> run_params \<Rightarrow> run_vars \<Rightarrow> PerceptionSnapshot \<Rightarrow> PlanState \<Rightarrow> StructuredObservation \<Rightarrow>
   ('w, run_vars \<times> PerceptionSnapshot \<times> DecisionResult \<times> PlanState) run" where
  "next_decision env p rv perception plan_state ob =
     bindM (callM (env_clock env)) (\<lambda>now.
     let budgets = remaining_budgets_of p rv ob now in
     if \<not> remaining_budgets_ok budgets then stopM (Raised ''ValidationError'')
     else
     bindM (within_budget env p (\<lambda>t. env_perceive_step_result env t (rp_query p) perception (current_plan plan_state)
              (completed_history plan_state) ob budgets)) (\<lambda>st.
     bindM (handle_stage env rv st) (\<lambda>perception.
     let rv = rv\<lparr>rv_session := (rv_session rv)\<lparr>se_perceptions := se_perceptions (rv_session rv) @ [perception]\<rparr>\<rparr> in
     bindM (emit env E_PERCEPTION TS_COMPLETED ''STEP_RESULT_PERCEIVED'' None 0 (evidence_reference_ids ob) rv) (\<lambda>rv.
     bindM (within_budget env p (\<lambda>t. env_decide_mid_session env t (rp_query p) perception (current_plan plan_state)
              (completed_history plan_state) (rp_catalog p))) (\<lambda>st.
     bindM (handle_stage env rv st) (\<lambda>decision.
     bindM (handle_plan env rv (apply_decision (rp_digest p) (rp_uuid_text p) plan_state decision)) (\<lambda>(plan_state, changed).
     let rv = (if changed then rv\<lparr>rv_replan_count := rv_replan_count rv + 1\<rparr> else rv) in
     if changed \<and> rv_replan_count rv > lim_max_replans (rp_limits p)
     then terminal_failed env rv T_LIMIT_REACHED S_MAX_REPLANS
     else retM (rv\<lparr>rv_session := (rv_session rv)\<lparr>se_plans := versions plan_state, se_replan_count := rv_replan_count rv\<rparr>\<rparr>,
            perception, decision, plan_state))))))))"

type_synonym loop_state = "run_vars \<times> PerceptionSnapshot \<times> DecisionResult \<times> PlanState"

definition iterate :: "'w agent_env \<Rightarrow> run_params \<Rightarrow> loop_state \<Rightarrow> ('w, loop_state) run" where
  "iterate env p ls =
     (case ls of (rv, perception, decision, plan_state) \<Rightarrow>
        let action = dr_next_action decision in
        bindM (check_action env p rv action plan_state) (\<lambda>(rv, active, tool_name).
        bindM (callM (env_clock env)) (\<lambda>tool_started.
        bindM (observe_tool env p rv action plan_state active tool_name tool_started) (\<lambda>(rv, ob).
        bindM (record_observation env p rv action plan_state active tool_name tool_started ob) (\<lambda>rv.
        bindM (use_observation env p rv action plan_state ob) (\<lambda>(rv, plan_state).
        next_decision env p rv perception plan_state ob))))))"

subsection \<open>Reasoning about pieces of code\<close>

text \<open>
  \<open>hoare P m Q E\<close>: from a world with \<open>P\<close>, the piece \<open>m\<close> goes on with a value and a world that satisfy
  \<open>Q\<close>, or ends the run with a result and a world that satisfy \<open>E\<close>.
\<close>

definition hoare ::
  "('w \<Rightarrow> bool) \<Rightarrow> ('w, 'a) run \<Rightarrow> ('a \<Rightarrow> 'w \<Rightarrow> bool) \<Rightarrow> (run_result \<Rightarrow> 'w \<Rightarrow> bool) \<Rightarrow> bool" where
  "hoare P m Q E = (\<forall>w. P w \<longrightarrow> (case m w of (Inr a, w') \<Rightarrow> Q a w' | (Inl r, w') \<Rightarrow> E r w'))"

lemma hoare_retM: "(\<And>w. P w \<Longrightarrow> Q a w) \<Longrightarrow> hoare P (retM a) Q E"
  by (simp add: hoare_def retM_def)

lemma hoare_stopM: "(\<And>w. P w \<Longrightarrow> E r w) \<Longrightarrow> hoare P (stopM r) Q E"
  by (simp add: hoare_def stopM_def)

lemma hoare_bindM:
  "hoare P m R E \<Longrightarrow> (\<And>a. hoare (R a) (f a) Q E) \<Longrightarrow> hoare P (bindM m f) Q E"
  unfolding hoare_def bindM_def by (fastforce split: prod.splits sum.splits)

lemma hoare_callM:
  "(\<And>w a w'. P w \<Longrightarrow> f w = (a, w') \<Longrightarrow> Q a w') \<Longrightarrow> hoare P (callM f) Q E"
  by (auto simp: hoare_def callM_def split: prod.splits)

lemma hoare_conseq:
  "hoare P' m Q' E' \<Longrightarrow> (\<And>w. P w \<Longrightarrow> P' w) \<Longrightarrow> (\<And>a w. Q' a w \<Longrightarrow> Q a w) \<Longrightarrow> (\<And>r w. E' r w \<Longrightarrow> E r w) \<Longrightarrow>
   hoare P m Q E"
  unfolding hoare_def by (fastforce split: prod.splits sum.splits)

lemma hoare_if: "(b \<Longrightarrow> hoare P m Q E) \<Longrightarrow> (\<not> b \<Longrightarrow> hoare P m' Q E) \<Longrightarrow> hoare P (if b then m else m') Q E"
  by simp

lemma hoare_pure: "(b \<Longrightarrow> hoare P m Q E) \<Longrightarrow> hoare (\<lambda>w. b \<and> P w) m Q E"
  by (auto simp: hoare_def)

lemma hoareD_Inr: "hoare P m Q E \<Longrightarrow> P w \<Longrightarrow> m w = (Inr a, w') \<Longrightarrow> Q a w'"
  unfolding hoare_def by fastforce

lemma hoareD_Inl: "hoare P m Q E \<Longrightarrow> P w \<Longrightarrow> m w = (Inl r, w') \<Longrightarrow> E r w'"
  unfolding hoare_def by fastforce

text \<open>Pieces that never go on.\<close>

definition ends :: "('w, 'a) run \<Rightarrow> bool" where
  "ends m = (\<forall>w. \<exists>r w'. m w = (Inl r, w'))"

lemma ends_stopM [simp]: "ends (stopM r)"
  by (simp add: ends_def stopM_def)

lemma ends_bindM [simp]: "(\<And>a. ends (f a)) \<Longrightarrow> ends (bindM m f)"
  unfolding ends_def bindM_def by (auto split: prod.splits sum.splits)

lemma ends_if [simp]: "(b \<Longrightarrow> ends m) \<Longrightarrow> (\<not> b \<Longrightarrow> ends m') \<Longrightarrow> ends (if b then m else m')"
  by simp

lemma ends_terminal [simp]: "ends (terminal env rv status reason parts)"
  by (simp add: terminal_def Let_def)

lemma ends_terminal_failed [simp]: "ends (terminal_failed env rv status reason)"
  by (simp add: terminal_failed_def)

lemma ends_finalize [simp]: "ends (finalize env p rv)"
  by (auto simp: finalize_def Let_def split: sum.split grounding_error.split)

lemma ends_finalize_calculations [simp]: "ends (finalize_calculations env p rv cs es)"
  by (auto simp: finalize_calculations_def Let_def split: list.split sum.split)

lemma ends_failed_execution [simp]: "ends (failed_execution env p rv a ps s tn t0 st ts c r)"
  by (simp add: failed_execution_def Let_def)

lemma hoare_ends: "ends m \<Longrightarrow> hoare P m Q (\<lambda>r w. True)"
  unfolding hoare_def ends_def by (metis (mono_tags, lifting) case_prod_conv old.sum.simps(5))

subsection \<open>Termination\<close>

text \<open>What a phase that goes on does to the counters that drive the loop.\<close>

abbreviation goes_on :: "('w, 'a) run \<Rightarrow> ('a \<Rightarrow> bool) \<Rightarrow> bool" where
  "goes_on m Q \<equiv> hoare (\<lambda>w. True) m (\<lambda>a w. Q a) (\<lambda>r w. True)"

lemma goes_on_bindM: "goes_on m R \<Longrightarrow> (\<And>a. R a \<Longrightarrow> goes_on (f a) Q) \<Longrightarrow> goes_on (bindM m f) Q"
  by (rule hoare_bindM [where R = "\<lambda>a w. R a"]) (auto simp: hoare_def)

lemma goes_on_any: "goes_on m (\<lambda>_. True)"
  by (auto simp: hoare_def split: prod.splits sum.splits)

lemma goes_on_bind_any: "(\<And>a. goes_on (f a) Q) \<Longrightarrow> goes_on (bindM m f) Q"
  by (rule goes_on_bindM [OF goes_on_any])

lemma goes_on_ends: "ends m \<Longrightarrow> goes_on m Q"
  using hoare_ends .

lemma goes_on_retM [simp]: "goes_on (retM a) Q = Q a"
  by (simp add: hoare_def retM_def)

lemma goes_on_emit: "goes_on (emit env ty st c n d ids rv) (\<lambda>rv'. rv_step_count rv' = rv_step_count rv)"
  unfolding emit_def Let_def
  by (intro goes_on_bind_any hoare_if) (simp_all add: goes_on_ends)

lemma goes_on_check_action:
  "goes_on (check_action env p rv a ps)
     (\<lambda>(rv', s, n). rv_step_count rv' = rv_step_count rv \<and> rv_step_count rv < lim_max_steps (rp_limits p))"
  unfolding check_action_def
  apply (rule goes_on_bindM [OF goes_on_emit], rule goes_on_bind_any)
  apply (intro hoare_if)
        apply (simp_all add: goes_on_ends split: option.split)
  done

lemma goes_on_observe_tool:
  "goes_on (observe_tool env p rv a ps s n t) (\<lambda>(rv', ob). rv_step_count rv' = rv_step_count rv)"
  unfolding observe_tool_def Let_def
  by (cases "rv_reconstructed rv")
     (auto simp: goes_on_ends intro!: hoare_if goes_on_bind_any split: stage.split)

lemma goes_on_record_observation:
  "goes_on (record_observation env p rv a ps s n t ob) (\<lambda>rv'. rv_step_count rv' = rv_step_count rv + 1)"
  unfolding record_observation_def Let_def
  apply (rule goes_on_bind_any, rule goes_on_bind_any, rule goes_on_bind_any)
  apply (rule goes_on_bindM [OF goes_on_emit], rule goes_on_bindM [OF goes_on_emit])
  apply (rule hoare_conseq [OF goes_on_emit]; simp)
  done

lemma goes_on_use_observation:
  "goes_on (use_observation env p rv a ps ob) (\<lambda>(rv', ps'). rv_step_count rv' = rv_step_count rv)"
  unfolding use_observation_def Let_def
  by (auto simp: goes_on_ends intro!: hoare_if split: ObservationStatus.split sum.split ActionArguments.split)

lemma goes_on_next_decision:
  "goes_on (next_decision env p rv pc ps ob) (\<lambda>(rv', x). rv_step_count rv' = rv_step_count rv)"
  unfolding next_decision_def Let_def
  apply (rule goes_on_bind_any, rule hoare_if, simp add: goes_on_ends)
  apply (rule goes_on_bind_any, rule goes_on_bind_any)
  apply (rule goes_on_bindM [OF goes_on_emit])
  apply (rule goes_on_bind_any, rule goes_on_bind_any, rule goes_on_bind_any)
  apply (auto simp: goes_on_ends intro!: hoare_if split: prod.split)
  done

lemma goes_on_iterate:
  "goes_on (iterate env p ls)
     (\<lambda>ls'. rv_step_count (fst ls') = rv_step_count (fst ls) + 1 \<and> rv_step_count (fst ls) < lim_max_steps (rp_limits p))"
  unfolding iterate_def Let_def
  apply (cases ls)
  apply simp
  apply (rule goes_on_bindM [OF goes_on_check_action], clarsimp)
  apply (rule goes_on_bind_any)
  apply (rule goes_on_bindM [OF goes_on_observe_tool], clarsimp)
  apply (rule goes_on_bindM [OF goes_on_record_observation])
  apply (rule goes_on_bindM [OF goes_on_use_observation], clarsimp)
  apply (rule hoare_conseq [OF goes_on_next_decision]; auto)
  done

lemma iterate_step_count:
  "iterate env p ls w = (Inr ls', w') \<Longrightarrow>
   rv_step_count (fst ls') = rv_step_count (fst ls) + 1 \<and> rv_step_count (fst ls) < lim_max_steps (rp_limits p)"
  by (rule hoareD_Inr [OF goes_on_iterate]) simp_all

text \<open>The loop \<^verbatim>\<open>while True\<close>: each turn that goes on counts a step, and a turn needs a step to be left.\<close>

function run_loop :: "'w agent_env \<Rightarrow> run_params \<Rightarrow> loop_state \<Rightarrow> 'w \<Rightarrow> run_result \<times> 'w" where
  "run_loop env p ls w =
     (case iterate env p ls w of
        (Inl r, w) \<Rightarrow> (r, w)
      | (Inr ls, w) \<Rightarrow> run_loop env p ls w)"
  by pat_completeness auto
termination
proof (relation "measure (\<lambda>(env, p, ls, w). nat (lim_max_steps (rp_limits p) - rv_step_count (fst ls)))")
  fix env :: "'w agent_env" and p ls w x w' ls'
  assume "(x, w') = iterate env p ls w" and "x = Inr ls'"
  with iterate_step_count [of env p ls w ls' w']
  show "((env, p, ls', w'), env, p, ls, w) \<in> measure (\<lambda>(env, p, ls, w). nat (lim_max_steps (rp_limits p) - rv_step_count (fst ls)))"
    by simp
qed simp

declare run_loop.simps [simp del]

text \<open>\<^verbatim>\<open>AgentLoop.run\<close>; the clock is read first.\<close>

definition agent_run ::
  "'w agent_env \<Rightarrow> run_params \<Rightarrow> uuid option \<Rightarrow> string option \<Rightarrow> ReconstructedStep list \<Rightarrow> GroundedAgentContext \<Rightarrow>
   'w \<Rightarrow> run_result \<times> 'w" where
  "agent_run env p agent_run_id approved_action_hash reconstructed_steps prompt_context w =
     (let (started, w) = env_clock env w; p = p\<lparr>rp_started := started\<rparr> in
      case start_run env p agent_run_id approved_action_hash reconstructed_steps prompt_context w of
        (Inl r, w) \<Rightarrow> (r, w)
      | (Inr ls, w) \<Rightarrow> run_loop env p ls w)"

end
