(* ===== verification/Loop_Safety.thy ===== *)
theory Loop_Safety
  imports Agent_Loop
begin

text \<open>
  Safety of the agent loop.  The locale \<open>logged_env\<close> describes an environment with a log of the
  executions made through the gateway: only \<open>env_execute\<close> extends it.  Every environment can be observed
  that way (\<open>observed\<close>), so the properties below hold of all runs.  They say which executions a run may
  make, that an approval covers one action, that the run is bounded, and that an outcome cites only
  evidence the gateway returned.
\<close>

subsection \<open>What a run promises\<close>

type_synonym execution =
  "Action \<times> AuthorizationContext \<times> string list \<times> string \<times> StructuredObservation stage"

definition obs_of :: "run_vars \<Rightarrow> StructuredObservation list" where
  "obs_of rv = se_observations (rv_session rv)"

definition evidence_of :: "StructuredObservation list \<Rightarrow> GroundedEvidence set" where
  "evidence_of obs = \<Union> (set ` ob_evidence ` set obs)"

text \<open>The part of the state the properties are about; the trace and the snapshots are not in it.\<close>

definition core :: "run_vars \<Rightarrow> int \<times> (string \<times> GroundedEvidence) list \<times> ReconstructedStep list \<times> string option \<times>
    StructuredObservation list" where
  "core rv = (rv_step_count rv, rv_evidence_by_id rv, rv_reconstructed rv, rv_approved_action_hash rv, obs_of rv)"

definition vars_ok :: "run_params \<Rightarrow> run_vars \<Rightarrow> bool" where
  "vars_ok p rv = (0 \<le> rv_step_count rv \<and> rv_step_count rv \<le> lim_max_steps (rp_limits p) \<and>
     snd ` set (rv_evidence_by_id rv) \<subseteq> evidence_of (obs_of rv))"

text \<open>Does an action need an approval in the control mode of the run?\<close>

definition needs_approval :: "run_params \<Rightarrow> Action \<Rightarrow> bool" where
  "needs_approval p a = must_pause (rp_mode p)
     (classify_tool_risk (case act_name a of Some n \<Rightarrow> n | None \<Rightarrow> [])) (action_hash_of p a) None"

text \<open>The parts of an answer: citations are evidence, and claims cite those citations.\<close>

definition parts_ok :: "StructuredObservation list \<Rightarrow> answer_parts \<Rightarrow> bool" where
  "parts_ok obs parts =
     (set (ap_citations parts) \<subseteq> citation_of ` evidence_of obs \<and>
      list_all (\<lambda>c. gc_citation_ids c \<noteq> [] \<and> set (gc_citation_ids c) \<subseteq> ci_citation_id ` set (ap_citations parts))
        (ap_claims parts))"

definition good_outcome :: "run_params \<Rightarrow> StructuredObservation list \<Rightarrow> AgentRunOutcome \<Rightarrow> bool" where
  "good_outcome p obs out =
     (0 \<le> out_step_count out \<and> out_step_count out \<le> lim_max_steps (rp_limits p) \<and> outcome_ok out \<and>
      (out_terminal_status out = T_COMPLETED \<or>
       (out_claims out = [] \<and> out_citations out = [] \<and> out_calculations out = [])) \<and>
      set (out_citations out) \<subseteq> citation_of ` evidence_of obs \<and>
      list_all (\<lambda>c. gc_citation_ids c \<noteq> [] \<and> set (gc_citation_ids c) \<subseteq> ci_citation_id ` set (out_citations out))
        (out_claims out))"

definition good_pause :: "run_params \<Rightarrow> ApprovalRequired \<Rightarrow> bool" where
  "good_pause p ar =
     (\<exists>n \<in> set (permitted_tools p). act_name (ar_action ar) = Some n \<and> act_type (ar_action ar) = TOOL_CALL \<and>
        ar_action_hash ar = action_hash_of p (ar_action ar) \<and> needs_approval p (ar_action ar) \<and>
        ar_step_count ar < lim_max_steps (rp_limits p))"

definition good_end :: "run_params \<Rightarrow> StructuredObservation list \<Rightarrow> run_result \<Rightarrow> bool" where
  "good_end p obs r =
     (case r of Ended out \<Rightarrow> good_outcome p obs out | Paused ar \<Rightarrow> good_pause p ar
      | ApprovalReconstructionMismatch \<Rightarrow> True | Raised s \<Rightarrow> True)"

lemma good_end_simps [simp]:
  "good_end p obs (Raised s)" "good_end p obs ApprovalReconstructionMismatch"
  "good_end p obs (Ended out) = good_outcome p obs out" "good_end p obs (Paused ar) = good_pause p ar"
  by (simp_all add: good_end_def)

lemma parts_ok_plain [simp]: "parts_ok obs (plain_answer s)" "parts_ok obs ((plain_answer s)\<lparr>ap_memory_proposal := m\<rparr>)"
  by (simp_all add: parts_ok_def plain_answer_def)

lemma vars_ok_core: "core rv = core rv' \<Longrightarrow> vars_ok p rv = vars_ok p rv'"
  by (simp add: core_def vars_ok_def)

lemma good_run_outcome:
  assumes "vars_ok p rv" and "parts_ok (obs_of rv) parts" and "outcome_ok (run_outcome rv status reason parts)"
    and "status = T_COMPLETED \<or> (ap_claims parts = [] \<and> ap_citations parts = [] \<and> ap_calculations parts = [])"
  shows "good_outcome p (obs_of rv) (run_outcome rv status reason parts)"
  using assms by (simp add: good_outcome_def run_outcome_def vars_ok_def parts_ok_def Let_def)

text \<open>
  The executions a run may make: every one is a tool call of a permitted tool, with the caller's
  context and request; at most one needed an approval, and that one is the approved action.
\<close>

definition returned :: "execution list \<Rightarrow> StructuredObservation set" where
  "returned l = {ob. \<exists>a auth perm rid. (a, auth, perm, rid, Returns ob) \<in> set l}"

definition call_ok :: "run_params \<Rightarrow> string option \<Rightarrow> execution \<Rightarrow> bool" where
  "call_ok p approved c =
     (case c of (a, auth, perm, rid, st) \<Rightarrow>
        auth = rp_authorization_context p \<and> perm = permitted_tools p \<and> rid = rp_request_id p \<and>
        act_type a = TOOL_CALL \<and> (\<exists>n \<in> set (permitted_tools p). act_name a = Some n) \<and>
        (needs_approval p a \<longrightarrow> approved = Some (action_hash_of p a)))"

definition approvals_used :: "run_params \<Rightarrow> execution list \<Rightarrow> nat" where
  "approvals_used p l = length (filter (\<lambda>c. needs_approval p (fst c)) l)"

definition calls_ok :: "run_params \<Rightarrow> string option \<Rightarrow> execution list \<Rightarrow> bool" where
  "calls_ok p approved l = (list_all (call_ok p approved) l \<and> approvals_used p l \<le> 1)"

definition loop_inv ::
  "run_params \<Rightarrow> string option \<Rightarrow> ReconstructedStep list \<Rightarrow> execution list \<Rightarrow> run_vars \<Rightarrow> bool" where
  "loop_inv p approved recon l rv =
     (vars_ok p rv \<and> calls_ok p approved l \<and> int (length l) \<le> rv_step_count rv \<and>
      (rv_approved_action_hash rv \<noteq> None \<longrightarrow> rv_approved_action_hash rv = approved \<and> approvals_used p l = 0) \<and>
      set (rv_reconstructed rv) \<subseteq> set recon \<and> set (obs_of rv) \<subseteq> returned l \<union> rs_observation ` set recon)"

definition end_inv ::
  "run_params \<Rightarrow> string option \<Rightarrow> ReconstructedStep list \<Rightarrow> run_result \<Rightarrow> execution list \<Rightarrow> bool" where
  "end_inv p approved recon r l =
     (calls_ok p approved l \<and> int (length l) \<le> lim_max_steps (rp_limits p) \<and>
      (\<exists>obs. set obs \<subseteq> returned l \<union> rs_observation ` set recon \<and> good_end p obs r))"

lemma loop_inv_core: "core rv = core rv' \<Longrightarrow> loop_inv p ap recon l rv = loop_inv p ap recon l rv'"
  by (simp add: core_def loop_inv_def vars_ok_def)

lemma returned_append: "returned (l @ [c]) = returned l \<union> returned [c]"
  by (auto simp: returned_def)

text \<open>The start time of the run is not part of the properties.\<close>

lemma end_inv_started: "end_inv (p\<lparr>rp_started := t\<rparr>) ap recon r l = end_inv p ap recon r l"
proof -
  have n: "needs_approval (p\<lparr>rp_started := t\<rparr>) = needs_approval p"
    by (simp add: fun_eq_iff needs_approval_def action_hash_of_def)
  have pt: "permitted_tools (p\<lparr>rp_started := t\<rparr>) = permitted_tools p"
    and ah: "action_hash_of (p\<lparr>rp_started := t\<rparr>) = action_hash_of p"
    by (simp_all add: permitted_tools_def action_hash_of_def)
  have "call_ok (p\<lparr>rp_started := t\<rparr>) = call_ok p" by (simp add: fun_eq_iff call_ok_def n pt ah)
  moreover have "good_end (p\<lparr>rp_started := t\<rparr>) = good_end p"
    by (simp add: fun_eq_iff good_end_def good_outcome_def good_pause_def n pt ah split: run_result.split)
  ultimately show ?thesis by (simp add: end_inv_def calls_ok_def approvals_used_def n)
qed

lemma loop_inv_end:
  "loop_inv p ap recon l rv \<Longrightarrow> good_end p (obs_of rv) r \<Longrightarrow> end_inv p ap recon r l"
  by (auto simp: loop_inv_def end_inv_def vars_ok_def)

subsection \<open>Environments with a log\<close>

locale logged_env =
  fixes env :: "'w agent_env" and log :: "'w \<Rightarrow> execution list"
  assumes clock: "env_clock env w = (t, w') \<Longrightarrow> log w' = log w"
    and new_id: "env_uuid4 env w = (u, w') \<Longrightarrow> log w' = log w"
    and bind_contexts: "log (env_bind_decision_context env c w) = log w" "log (env_bind_perception_context env c w) = log w"
    and perceive_query: "env_perceive_user_query env t q w = (st1, w') \<Longrightarrow> log w' = log w"
    and perceive_step: "env_perceive_step_result env t q pc pl cs ob b w = (st1, w') \<Longrightarrow> log w' = log w"
    and decide_initial: "env_decide_initial env t q pc cat w = (st2, w') \<Longrightarrow> log w' = log w"
    and decide_mid: "env_decide_mid_session env t q pc pl cs cat w = (st2, w') \<Longrightarrow> log w' = log w"
    and set_sequence: "env_set_evidence_sequence env i w = (b1, w') \<Longrightarrow> log w' = log w"
    and generate: "env_generate env t q es w = (st3, w') \<Longrightarrow> log w' = log w"
    and execute: "env_execute env t a auth perm rid w = (st, w') \<Longrightarrow> log w' = log w @ [(a, auth, perm, rid, st)]"
begin

text \<open>A piece of code that makes no execution.\<close>

definition keeps :: "execution list \<Rightarrow> ('w, 'a) run \<Rightarrow> ('a \<Rightarrow> bool) \<Rightarrow> (run_result \<Rightarrow> bool) \<Rightarrow> bool" where
  "keeps l m Q R = hoare (\<lambda>w. log w = l) m (\<lambda>a w. log w = l \<and> Q a) (\<lambda>r w. log w = l \<and> R r)"

lemma keeps_retM [simp]: "Q a \<Longrightarrow> keeps l (retM a) Q R"
  by (simp add: keeps_def hoare_retM)

lemma keeps_stopM [simp]: "R r \<Longrightarrow> keeps l (stopM r) Q R"
  by (simp add: keeps_def hoare_stopM)

lemma keeps_bindM: "keeps l m Q1 R \<Longrightarrow> (\<And>a. Q1 a \<Longrightarrow> keeps l (f a) Q R) \<Longrightarrow> keeps l (bindM m f) Q R"
  unfolding keeps_def by (rule hoare_bindM, assumption) (auto simp: hoare_def)

lemma keeps_conseq:
  "keeps l m Q' R' \<Longrightarrow> (\<And>a. Q' a \<Longrightarrow> Q a) \<Longrightarrow> (\<And>r. R' r \<Longrightarrow> R r) \<Longrightarrow> keeps l m Q R"
  unfolding keeps_def by (erule hoare_conseq) auto

lemma keeps_callM: "(\<And>w a w'. f w = (a, w') \<Longrightarrow> log w' = log w) \<Longrightarrow> keeps l (callM f) (\<lambda>_. True) R"
  unfolding keeps_def by (rule hoare_callM) auto

lemma keeps_clock: "keeps l (callM (env_clock env)) (\<lambda>_. True) R"
  by (rule keeps_callM) (rule clock)

lemma keeps_new_id: "keeps l (callM (env_uuid4 env)) (\<lambda>_. True) R"
  by (rule keeps_callM) (rule new_id)

lemma keeps_within_budget:
  "(\<And>t w a w'. f t w = (a, w') \<Longrightarrow> log w' = log w) \<Longrightarrow> keeps l (within_budget env p f) (\<lambda>_. True) R"
  unfolding within_budget_def Let_def
  by (rule keeps_bindM [OF keeps_clock]) (auto intro: keeps_callM)

lemma keeps_emit:
  assumes "\<And>s. R (Raised s)"
  shows "keeps l (emit env ty st c n d ids rv) (\<lambda>rv'. core rv' = core rv) R"
  unfolding emit_def Let_def
  by (rule keeps_bindM [OF keeps_new_id]) (auto simp: assms core_def obs_of_def)

lemma keeps_terminal:
  assumes "vars_ok p rv" and "parts_ok (obs_of rv) parts"
  shows "keeps l (terminal env rv status reason parts) Q (good_end p (obs_of rv))"
proof (cases "status \<noteq> T_COMPLETED \<and> (ap_claims parts \<noteq> [] \<or> ap_citations parts \<noteq> [] \<or> ap_calculations parts \<noteq> [])")
  case False
  have "keeps l (bindM (emit env ty st c n d ids rv) (\<lambda>rv. let out = run_outcome rv status reason parts in
        if outcome_ok out then stopM (Ended out) else stopM (Raised ''ValidationError''))) Q (good_end p (obs_of rv))"
    for ty st c n d ids
  proof (rule keeps_bindM [OF keeps_emit])
    fix rv' assume c: "core rv' = core rv"
    then have o: "obs_of rv' = obs_of rv" by (simp add: core_def)
    have "vars_ok p rv'" using vars_ok_core [OF c] assms(1) by simp
    with assms(2) False good_run_outcome [of p rv' parts status reason] show
      "keeps l (let out = run_outcome rv' status reason parts in
        if outcome_ok out then stopM (Ended out) else stopM (Raised ''ValidationError'')) Q (good_end p (obs_of rv))"
      by (auto simp: Let_def o)
  qed simp
  with False show ?thesis by (auto simp: terminal_def)
qed (simp add: terminal_def)

lemma keeps_terminal_failed:
  "vars_ok p rv \<Longrightarrow> keeps l (terminal_failed env rv status reason) Q (good_end p (obs_of rv))"
  unfolding terminal_failed_def by (rule keeps_terminal) simp_all

lemma keeps_handle_stage:
  "vars_ok p rv \<Longrightarrow> keeps l (handle_stage env rv st) (\<lambda>_. True) (good_end p (obs_of rv))"
  by (auto simp: handle_stage_def intro: keeps_terminal_failed split: stage.split)

lemma keeps_handle_plan:
  "vars_ok p rv \<Longrightarrow> keeps l (handle_plan env rv r) (\<lambda>a. r = Inr a) (good_end p (obs_of rv))"
  by (auto simp: handle_plan_def intro: keeps_terminal_failed split: sum.split plan_error.split)

lemma emit_then:
  assumes "\<And>rv'. core rv' = core rv \<Longrightarrow> keeps l (f rv') Q (good_end p (obs_of rv))"
  shows "keeps l (bindM (emit env ty st c n d ids rv) f) Q (good_end p (obs_of rv))"
  by (rule keeps_bindM [OF keeps_emit]) (simp_all add: assms)

lemma core_obs: "core rv' = core rv \<Longrightarrow> obs_of rv' = obs_of rv"
  by (simp add: core_def)

lemma terminal_core:
  assumes "vars_ok p rv" and "core rv' = core rv" and "parts_ok (obs_of rv) parts"
  shows "keeps l (terminal env rv' status reason parts) Q (good_end p (obs_of rv))"
  using keeps_terminal [of p rv' parts l status reason Q] vars_ok_core [OF assms(2), of p] core_obs [OF assms(2)] assms
  by simp

lemma terminal_failed_core:
  "vars_ok p rv \<Longrightarrow> core rv' = core rv \<Longrightarrow> keeps l (terminal_failed env rv' status reason) Q (good_end p (obs_of rv))"
  unfolding terminal_failed_def by (rule terminal_core) simp_all

lemma handle_stage_core:
  "vars_ok p rv \<Longrightarrow> core rv' = core rv \<Longrightarrow> keeps l (handle_stage env rv' st) (\<lambda>_. True) (good_end p (obs_of rv))"
  using keeps_handle_stage [of p rv' l st] vars_ok_core [of rv' rv p] core_obs [of rv' rv] by simp

lemma handle_plan_core:
  "vars_ok p rv \<Longrightarrow> core rv' = core rv \<Longrightarrow> keeps l (handle_plan env rv' r) (\<lambda>a. r = Inr a) (good_end p (obs_of rv))"
  using keeps_handle_plan [of p rv' l r] vars_ok_core [of rv' rv p] core_obs [of rv' rv] by simp

text \<open>A validated answer cites evidence of the run only.\<close>

lemma validated_parts_ok:
  assumes "validate_grounded_answer draft es = Inr v" and "set es \<subseteq> evidence_of obs"
    and "ap_claims parts = va_claims v" and "ap_citations parts = va_citations v"
  shows "parts_ok obs parts"
proof -
  note v = validate_Inr [OF assms(1)]
  from v assms(2) have "set (va_citations v) \<subseteq> citation_of ` evidence_of obs" by auto
  moreover have "list_all (\<lambda>c. gc_citation_ids c \<noteq> [] \<and> set (gc_citation_ids c) \<subseteq> ci_citation_id ` set (va_citations v)) (va_claims v)"
    using v by (auto simp: list_all_iff claim_ok_def referenced_def)
  ultimately show ?thesis by (simp add: parts_ok_def assms(3,4))
qed

lemma keeps_if: "(b \<Longrightarrow> keeps l m Q R) \<Longrightarrow> (\<not> b \<Longrightarrow> keeps l m' Q R) \<Longrightarrow> keeps l (if b then m else m') Q R"
  by simp

text \<open>A model stage and its handler.\<close>

lemma stage_then:
  assumes "\<And>t w a w'. g t w = (a, w') \<Longrightarrow> log w' = log w" and "vars_ok p rv" and "core rv' = core rv"
    and "\<And>a. keeps l (f a) Q (good_end p (obs_of rv))"
  shows "keeps l (bindM (within_budget env p' g) (\<lambda>st. bindM (handle_stage env rv' st) f)) Q (good_end p (obs_of rv))"
  by (rule keeps_bindM [OF keeps_within_budget [OF assms(1)]], assumption,
      rule keeps_bindM [OF handle_stage_core [OF assms(2,3)]], rule assms(4))

lemma keeps_finalize:
  assumes "vars_ok p rv"
  shows "keeps l (finalize env p rv) Q (good_end p (obs_of rv))"
proof -
  have es: "set (map snd (rv_evidence_by_id rv)) \<subseteq> evidence_of (obs_of rv)" using assms by (auto simp: vars_ok_def)
  show ?thesis
    unfolding finalize_def Let_def
    apply (intro keeps_if keeps_terminal [OF assms] emit_then stage_then [OF generate assms]; simp?)
    using validated_parts_ok [OF _ es]
    apply (auto split: sum.split grounding_error.split intro!: terminal_core [OF assms] keeps_bindM [OF keeps_emit])
    done
qed

lemma calculation_parts_ok:
  assumes "mapR mk_citation es = Inr cits" and "es \<noteq> []" and "set es \<subseteq> evidence_of obs"
    and "\<exists>c. ap_claims parts = [c] \<and> gc_citation_ids c = map ge_evidence_id es" and "ap_citations parts = cits"
  shows "parts_ok obs parts"
proof -
  from assms(1) have cits: "cits = map citation_of es" by (auto simp: mapR_mk_citation split: if_splits)
  then have "ci_citation_id ` set cits = ge_evidence_id ` set es" by (simp add: image_image)
  moreover have "set cits \<subseteq> citation_of ` evidence_of obs" using assms(3) by (simp add: cits image_mono)
  ultimately show ?thesis using assms(2,4,5) by (auto simp: parts_ok_def)
qed

lemma keeps_finalize_calculations:
  assumes "vars_ok p rv" and "set es \<subseteq> evidence_of (obs_of rv)"
  shows "keeps l (finalize_calculations env p rv cs es) Q (good_end p (obs_of rv))"
proof -
  have one: "keeps l (finalize_calculations env p rv [c] es) Q (good_end p (obs_of rv))" for c
  proof (cases "length es \<noteq> length (cr_trusted_inputs c)")
    case True
    then show ?thesis by (simp add: finalize_calculations_def keeps_terminal_failed [OF assms(1)])
  next
    case False
    show ?thesis
    proof (cases "mapR mk_citation es")
      case (Inr cits)
      show ?thesis
      proof (cases "cr_trusted_inputs c = []")
        case True
        with False Inr show ?thesis by (simp add: finalize_calculations_def)
      next
        case ne: False
        then have "es \<noteq> []" using False by auto
        with ne False Inr show ?thesis
          unfolding finalize_calculations_def Let_def
          by (simp, intro emit_then terminal_core [OF assms(1)] calculation_parts_ok [OF Inr _ assms(2)]) simp_all
      qed
    qed (use False in \<open>simp add: finalize_calculations_def\<close>)
  qed
  show ?thesis
  proof (cases "length cs = 1")
    case True
    then obtain c where "cs = [c]" by (auto simp: length_Suc_conv)
    with one show ?thesis by simp
  next
    case False
    then show ?thesis
      by (auto simp: finalize_calculations_def split: list.split intro: keeps_terminal_failed [OF assms(1)])
  qed
qed

lemma keeps_check_action:
  assumes "vars_ok p rv"
  shows "keeps l (check_action env p rv a ps)
    (\<lambda>(rv', s, n). core rv' = core rv \<and> act_type a = TOOL_CALL \<and> act_name a = Some n \<and> n \<in> set (permitted_tools p) \<and>
       rv_step_count rv < lim_max_steps (rp_limits p)) (good_end p (obs_of rv))"
proof -
  have fin: "core rv' = core rv \<Longrightarrow> keeps l (finalize env p rv') Q (good_end p (obs_of rv))" for rv' Q
    using keeps_finalize [of p rv' l Q] vars_ok_core [of rv' rv p] core_obs [of rv' rv] assms by simp
  have sc: "core rv' = core rv \<Longrightarrow> rv_step_count rv' = rv_step_count rv" for rv' by (simp add: core_def)
  have denied: "core rv' = core rv \<Longrightarrow> keeps l (bindM (emit env ty st c n d ids rv') (\<lambda>rv. terminal env rv T_REFUSED S_SCOPE_DENIED
      (plain_answer ANSWER_REFUSED))) Q (good_end p (obs_of rv))" for rv' ty st c n d ids Q
    by (rule keeps_bindM [OF keeps_emit]) (auto intro: terminal_core [OF assms])
  have nt: "act_type a \<noteq> CLARIFY \<Longrightarrow> act_type a \<noteq> REFUSE \<Longrightarrow> act_type a \<noteq> FINALIZE \<Longrightarrow> act_type a = TOOL_CALL"
    by (cases "act_type a") simp_all
  show ?thesis
    unfolding check_action_def
    apply (rule emit_then, rule keeps_bindM [OF handle_plan_core [OF assms]], assumption)
    apply (frule sc, intro keeps_if)
         apply (rule terminal_core [OF assms], assumption, simp)+
       apply (rule fin, assumption)
      apply (rule terminal_failed_core [OF assms], assumption)+
    apply (cases "act_name a")
     apply (simp only: option.case, rule denied, assumption)
    apply (simp only: option.case, rule keeps_if)
     apply (rule keeps_retM, frule (2) nt, simp)
    apply (rule denied, assumption)
    done
qed

lemma keeps_elapsed: "keeps l (elapsed_ms env t) (\<lambda>_. True) R"
  unfolding elapsed_ms_def by (rule keeps_bindM [OF keeps_clock]) simp

lemma keeps_mk_safe_step: "(\<And>s. R (Raised s)) \<Longrightarrow> keeps l (mk_safe_step s) (\<lambda>_. True) R"
  by (simp add: mk_safe_step_def)

lemma keeps_mk_safe_observation: "(\<And>s. R (Raised s)) \<Longrightarrow> keeps l (mk_safe_observation s) (\<lambda>_. True) R"
  by (simp add: mk_safe_observation_def)

lemma keeps_failed_execution:
  assumes "vars_ok p rv"
  shows "keeps l (failed_execution env p rv a ps s n t st ts c r) Q (good_end p (obs_of rv))"
proof -
  have c: "core (rv\<lparr>rv_session := (rv_session rv)\<lparr>se_safe_steps := x\<rparr>\<rparr>) = core rv" for x by (simp add: core_def obs_of_def)
  have "keeps l (bindM (emit env ty tst cd nm d ids rv1) (\<lambda>rv. terminal_failed env rv T_FAILED r)) Q (good_end p (obs_of rv))"
    if "core rv1 = core rv" for rv1 ty tst cd nm d ids
    by (rule keeps_bindM [OF keeps_emit]) (use that in \<open>auto intro: terminal_failed_core [OF assms]\<close>)
  with c show ?thesis
    unfolding failed_execution_def Let_def
    by (intro keeps_bindM [OF keeps_elapsed] keeps_bindM [OF keeps_mk_safe_step]) simp_all
qed

lemma keeps_record_observation:
  "keeps l (record_observation env p rv a ps s n t ob)
     (\<lambda>rv'. core rv' = (rv_step_count rv + 1, rv_evidence_by_id rv, rv_reconstructed rv, rv_approved_action_hash rv,
        obs_of rv @ [ob])) (good_end p (obs_of rv))"
  unfolding record_observation_def Let_def
  apply (rule keeps_bindM [OF keeps_elapsed])
  apply (rule keeps_bindM [OF keeps_mk_safe_step], simp)
  apply (rule keeps_bindM [OF keeps_mk_safe_observation], simp)
  apply (rule keeps_bindM [OF keeps_emit], simp, rule keeps_bindM [OF keeps_emit], simp)
  apply (rule keeps_conseq [OF keeps_emit [where R = "good_end p (obs_of rv)"]])
    apply simp_all
  apply (simp add: core_def obs_of_def)
  done

lemma evidence_of_append: "evidence_of (obs @ [ob]) = evidence_of obs \<union> set (ob_evidence ob)"
  by (auto simp: evidence_of_def)

lemma snd_dict_set: "snd ` set (dict_set d k v) \<subseteq> insert v (snd ` set d)"
  by (induction d k v rule: dict_set.induct) auto

lemma add_evidence_snd: "snd ` set (add_evidence d es) \<subseteq> snd ` set d \<union> set es"
proof (induction es arbitrary: d)
  case (Cons e es)
  have "snd ` set (add_evidence d (e # es)) \<subseteq> snd ` set (dict_set d (ge_evidence_id e) e) \<union> set es"
    using Cons.IH [of "dict_set d (ge_evidence_id e) e"] by (simp add: add_evidence_def)
  also have "\<dots> \<subseteq> insert e (snd ` set d) \<union> set es" using snd_dict_set [of d "ge_evidence_id e" e] by blast
  finally show ?case by simp
qed (simp add: add_evidence_def)

lemma keeps_use_observation:
  assumes "vars_ok p rv" and "ob \<in> set (obs_of rv)"
  shows "keeps l (use_observation env p rv a ps ob)
    (\<lambda>(rv', ps'). core rv' = (rv_step_count rv, add_evidence (rv_evidence_by_id rv) (ob_evidence ob), rv_reconstructed rv,
       rv_approved_action_hash rv, obs_of rv)) (good_end p (obs_of rv))"
proof -
  have sub: "set (ob_evidence ob) \<subseteq> evidence_of (obs_of rv)" using assms(2) by (auto simp: evidence_of_def)
  define rv1 where "rv1 = (\<lambda>ps :: PlanState. rv\<lparr>rv_evidence_by_id := add_evidence (rv_evidence_by_id rv) (ob_evidence ob),
      rv_session := (rv_session (rv\<lparr>rv_evidence_by_id := add_evidence (rv_evidence_by_id rv) (ob_evidence ob)\<rparr>))
        \<lparr>se_plans := versions ps, se_completed_steps := completed_history ps\<rparr>\<rparr>)"
  have fold1: "rv\<lparr>rv_evidence_by_id := add_evidence (rv_evidence_by_id rv) (ob_evidence ob),
      rv_session := (rv_session (rv\<lparr>rv_evidence_by_id := add_evidence (rv_evidence_by_id rv) (ob_evidence ob)\<rparr>))
        \<lparr>se_plans := versions ps, se_completed_steps := completed_history ps\<rparr>\<rparr> = rv1 ps" for ps
    by (simp add: rv1_def)
  have o1: "obs_of (rv1 ps) = obs_of rv" for ps by (simp add: rv1_def obs_of_def)
  have v1: "vars_ok p (rv1 ps)" for ps
    using assms(1) sub add_evidence_snd [of "rv_evidence_by_id rv" "ob_evidence ob"] o1 [of ps]
    by (auto simp: vars_ok_def rv1_def)
  have c1: "core (rv1 ps) = (rv_step_count rv, add_evidence (rv_evidence_by_id rv) (ob_evidence ob), rv_reconstructed rv,
       rv_approved_action_hash rv, obs_of rv)" for ps
    using o1 [of ps] by (simp add: core_def rv1_def)
  have ends1: "keeps l (bindM (emit env ty st c n d ids (rv1 ps)) (\<lambda>rv. terminal env rv T_COMPLETED S_COMPLETED parts)) Q
      (good_end p (obs_of rv))" if "parts_ok (obs_of rv) parts" for ty st c n d ids ps parts Q
    unfolding o1 [of ps, symmetric]
    by (rule emit_then, rule terminal_core [OF v1], assumption) (use that o1 in simp)
  have fail: "keeps l (terminal_failed env (rv1 ps) st r) Q (good_end p (obs_of rv))" for ps st r Q
    using keeps_terminal_failed [OF v1, of l ps st r Q] by (simp add: o1)
  have calc: "keeps l (finalize_calculations env p (rv1 ps) cs (ob_evidence ob)) Q (good_end p (obs_of rv))" for ps cs Q
    using keeps_finalize_calculations [OF v1, of "ob_evidence ob" ps l cs Q] sub by (simp add: o1)
  show ?thesis
  proof (cases "ob_status ob")
    case O_SUCCESS
    show ?thesis
      unfolding use_observation_def O_SUCCESS ObservationStatus.case Let_def fold1
      by (auto simp: c1 split: sum.split ActionArguments.split intro!: keeps_if calc ends1 fail)
  qed (auto simp: use_observation_def intro!: keeps_terminal keeps_terminal_failed assms(1))
qed

lemma keeps_next_decision:
  assumes "vars_ok p rv"
  shows "keeps l (next_decision env p rv pc ps ob) (\<lambda>(rv', x). core rv' = core rv) (good_end p (obs_of rv))"
proof -
  have c: "core (rv\<lparr>rv_session := (rv_session rv)\<lparr>se_perceptions := x\<rparr>\<rparr>) = core rv" for x rv
    by (simp add: core_def obs_of_def)
  have c2: "core (rv\<lparr>rv_session := (rv_session rv)\<lparr>se_plans := x, se_replan_count := y\<rparr>\<rparr>) = core rv" for x y rv
    by (simp add: core_def obs_of_def)
  have c3: "core (if b then rv\<lparr>rv_replan_count := x\<rparr> else rv) = core rv" for b x rv by (simp add: core_def obs_of_def)
  have after: "keeps l (case x of (ps, changed) \<Rightarrow>
       let rv = if changed then rv'\<lparr>rv_replan_count := rv_replan_count rv' + 1\<rparr> else rv' in
       if changed \<and> lim_max_replans (rp_limits p) < rv_replan_count rv
       then terminal_failed env rv T_LIMIT_REACHED S_MAX_REPLANS
       else retM (rv\<lparr>rv_session := (rv_session rv)\<lparr>se_plans := versions ps, se_replan_count := rv_replan_count rv\<rparr>\<rparr>, q, d, ps))
     (\<lambda>(rv', x). core rv' = core rv) (good_end p (obs_of rv))" if "core rv' = core rv" for rv' q d x
    using that c3 [of "snd x" "rv_replan_count rv' + 1" rv']
    by (cases x) (auto simp: Let_def c2 intro!: keeps_if terminal_failed_core [OF assms])
  show ?thesis
    unfolding next_decision_def Let_def
    apply (rule keeps_bindM [OF keeps_clock], rule keeps_if, simp)
    apply (rule stage_then [OF perceive_step assms refl], assumption)
    apply (rule keeps_bindM [OF keeps_emit], simp)
    apply (rule stage_then [OF decide_mid assms], assumption, simp add: c)
    apply (rule keeps_bindM [OF handle_plan_core [OF assms]], simp add: c)
    apply (rule after [unfolded Let_def], simp add: c)
    done
qed

text \<open>The execution itself.\<close>

lemma within_budget_execute:
  "hoare (\<lambda>w. log w = l) (within_budget env p (\<lambda>t. env_execute env t a auth perm rid))
     (\<lambda>st w. (log w = l \<and> st = Times_out) \<or> log w = l @ [(a, auth, perm, rid, st)]) E"
  unfolding within_budget_def Let_def
proof (rule hoare_bindM)
  show "hoare (\<lambda>w. log w = l) (callM (env_clock env)) (\<lambda>_ w. log w = l) E"
    by (rule hoare_callM) (auto dest: clock)
  show "hoare (\<lambda>w. log w = l)
      (if lim_max_duration_seconds (rp_limits p) - (now - rp_started p) \<le> 0 then retM Times_out
       else callM (env_execute env (lim_max_duration_seconds (rp_limits p) - (now - rp_started p)) a auth perm rid))
      (\<lambda>st w. (log w = l \<and> st = Times_out) \<or> log w = l @ [(a, auth, perm, rid, st)]) E" for now
    by (rule hoare_if) (auto intro!: hoare_retM hoare_callM dest: execute)
qed

text \<open>After the execution: the state is as before but for a used approval, and the log has the call.\<close>

definition after_call ::
  "run_params \<Rightarrow> string option \<Rightarrow> ReconstructedStep list \<Rightarrow> run_vars \<Rightarrow> run_vars \<Rightarrow> execution list \<Rightarrow> bool" where
  "after_call p ap recon rv rv' l' =
     (vars_ok p rv' \<and> rv_step_count rv' = rv_step_count rv \<and> calls_ok p ap l' \<and> int (length l') \<le> rv_step_count rv + 1 \<and>
      (rv_approved_action_hash rv' \<noteq> None \<longrightarrow> rv_approved_action_hash rv' = ap \<and> approvals_used p l' = 0) \<and>
      set (rv_reconstructed rv') \<subseteq> set recon \<and> set (obs_of rv') \<subseteq> returned l' \<union> rs_observation ` set recon)"

lemma after_call_end:
  "after_call p ap recon rv rv' l' \<Longrightarrow> rv_step_count rv < lim_max_steps (rp_limits p) \<Longrightarrow> good_end p (obs_of rv') r \<Longrightarrow>
   end_inv p ap recon r l'"
  by (auto simp: after_call_def end_inv_def)

lemma after_call_executed:
  assumes inv: "loop_inv p ap recon l rv" and tc: "act_type a = TOOL_CALL" and nm: "act_name a = Some n"
    and perm: "n \<in> set (permitted_tools p)"
    and pause: "\<not> must_pause (rp_mode p) (classify_tool_risk n) (action_hash_of p a) (rv_approved_action_hash rv)"
    and l': "(l' = l \<and> st = Times_out) \<or> l' = l @ [(a, rp_authorization_context p, permitted_tools p, rp_request_id p, st)]"
  shows "after_call p ap recon rv
    (if rv_approved_action_hash rv = Some (action_hash_of p a) then rv\<lparr>rv_approved_action_hash := None\<rparr> else rv) l'"
proof -
  let ?c = "(a, rp_authorization_context p, permitted_tools p, rp_request_id p, st)"
  define rv' where "rv' = (if rv_approved_action_hash rv = Some (action_hash_of p a) then rv\<lparr>rv_approved_action_hash := None\<rparr> else rv)"
  have fields: "rv_step_count rv' = rv_step_count rv" "rv_reconstructed rv' = rv_reconstructed rv" "obs_of rv' = obs_of rv"
      "rv_evidence_by_id rv' = rv_evidence_by_id rv"
    by (simp_all add: rv'_def obs_of_def)
  have vars: "vars_ok p rv'" using inv by (simp add: loop_inv_def vars_ok_def fields)
  have need: "needs_approval p a \<Longrightarrow> rv_approved_action_hash rv = Some (action_hash_of p a)"
    using pause nm by (simp add: needs_approval_def must_pause_def split: if_splits)
  have free: "rv_approved_action_hash rv' \<noteq> None \<Longrightarrow> rv_approved_action_hash rv' = rv_approved_action_hash rv \<and> \<not> needs_approval p a"
    using need by (cases "rv_approved_action_hash rv = Some (action_hash_of p a)") (auto simp: rv'_def)
  from inv have old: "calls_ok p ap l" "int (length l) \<le> rv_step_count rv" "set (rv_reconstructed rv) \<subseteq> set recon"
      "set (obs_of rv) \<subseteq> returned l \<union> rs_observation ` set recon"
    and oldap: "rv_approved_action_hash rv \<noteq> None \<Longrightarrow> rv_approved_action_hash rv = ap \<and> approvals_used p l = 0"
    by (simp_all add: loop_inv_def)
  have appr: "needs_approval p a \<Longrightarrow> ap = Some (action_hash_of p a) \<and> approvals_used p l = 0"
    using need oldap by simp
  have used: "approvals_used p (l @ [?c]) = approvals_used p l + (if needs_approval p a then 1 else 0)"
    by (simp add: approvals_used_def)
  have "call_ok p ap ?c" using tc nm perm appr by (auto simp: call_ok_def)
  then have new: "calls_ok p ap (l @ [?c])" using old(1) appr used by (auto simp: calls_ok_def)
  have newap: "rv_approved_action_hash rv' \<noteq> None \<Longrightarrow>
      rv_approved_action_hash rv' = ap \<and> approvals_used p l = 0 \<and> approvals_used p (l @ [?c]) = 0"
    using free oldap used by auto
  from l' have "after_call p ap recon rv rv' l'"
  proof
    assume "l' = l \<and> st = Times_out"
    with old vars newap show ?thesis by (simp add: after_call_def fields)
  next
    assume "l' = l @ [?c]"
    with old vars newap new show ?thesis by (auto simp: after_call_def fields returned_append)
  qed
  then show ?thesis by (simp only: rv'_def)
qed

lemma keeps_inv:
  assumes "keeps l m Q R" and "\<And>a. Q a \<Longrightarrow> QQ a" and "\<And>r. R r \<Longrightarrow> end_inv p ap recon r l"
  shows "hoare (\<lambda>w. log w = l) m (\<lambda>a w. log w = l \<and> QQ a) (\<lambda>r w. end_inv p ap recon r (log w))"
  using assms(1) unfolding keeps_def by (rule hoare_conseq) (simp_all add: assms(2,3))

lemma after_call_reconstructed:
  assumes "loop_inv p ap recon l rv" and "rv_reconstructed rv = r # rest"
  shows "after_call p ap recon rv (rv\<lparr>rv_reconstructed := rest\<rparr>) l \<and> rs_observation r \<in> rs_observation ` set recon"
  using assms by (auto simp: loop_inv_def after_call_def vars_ok_def obs_of_def)

lemma hoare_log: "(\<And>l. P l \<Longrightarrow> hoare (\<lambda>w. log w = l) m Q E) \<Longrightarrow> hoare (\<lambda>w. P (log w)) m Q E"
  by (simp add: hoare_def)

lemma hoare_observe_tool:
  assumes inv: "loop_inv p ap recon l rv" and tc: "act_type a = TOOL_CALL" and nm: "act_name a = Some n"
    and perm: "n \<in> set (permitted_tools p)" and lt: "rv_step_count rv < lim_max_steps (rp_limits p)"
  shows "hoare (\<lambda>w. log w = l) (observe_tool env p rv a ps s n t)
    (\<lambda>(rv', ob) w. after_call p ap recon rv rv' (log w) \<and> ob \<in> returned (log w) \<union> rs_observation ` set recon)
    (\<lambda>r w. end_inv p ap recon r (log w))"
proof (cases "rv_reconstructed rv")
  case (Cons r rest)
  show ?thesis
    using after_call_reconstructed [OF inv Cons] loop_inv_end [OF inv]
    by (auto simp: observe_tool_def Cons Let_def intro!: hoare_if hoare_stopM hoare_retM)
next
  case Nil
  let ?rv = "if rv_approved_action_hash rv = Some (action_hash_of p a) then rv\<lparr>rv_approved_action_hash := None\<rparr> else rv"
  let ?exec = "within_budget env p (\<lambda>t. env_execute env t a (rp_authorization_context p) (permitted_tools p) (rp_request_id p))"
  let ?rest = "\<lambda>st. case st of Returns ob \<Rightarrow> retM (?rv, ob)
    | Times_out \<Rightarrow> failed_execution env p ?rv a ps s n t SS_TIMEOUT TS_TIMEOUT ''TOOL_TIMEOUT'' S_TOOL_TIMEOUT
    | _ \<Rightarrow> failed_execution env p ?rv a ps s n t SS_FAILED TS_FAILED ''TOOL_ERROR'' S_TOOL_ERROR"
  let ?Q = "\<lambda>(rv', ob) w. after_call p ap recon rv rv' (log w) \<and> ob \<in> returned (log w) \<union> rs_observation ` set recon"
  let ?E = "\<lambda>r w. end_inv p ap recon r (log w)"
  have exec: "hoare (\<lambda>w. log w = l) (bindM ?exec ?rest) ?Q ?E"
    if pause: "\<not> must_pause (rp_mode p) (classify_tool_risk n) (action_hash_of p a) (rv_approved_action_hash rv)"
  proof (rule hoare_bindM [OF within_budget_execute])
    fix st
    let ?L = "\<lambda>l'. (l' = l \<and> st = Times_out) \<or> l' = l @ [(a, rp_authorization_context p, permitted_tools p, rp_request_id p, st)]"
    have ac: "?L l' \<Longrightarrow> after_call p ap recon rv ?rv l'" for l'
      by (rule after_call_executed [OF inv tc nm perm pause])
    have fl: "hoare (\<lambda>w. ?L (log w)) (failed_execution env p ?rv a ps s n t st1 ts c r) ?Q ?E" for st1 ts c r
    proof -
      have "hoare (\<lambda>w. log w = l') (failed_execution env p ?rv a ps s n t st1 ts c r) ?Q ?E" if L: "?L l'" for l'
      proof -
        from ac [OF L] have v: "vars_ok p ?rv" by (simp only: after_call_def)
        show ?thesis
          by (rule hoare_conseq [OF keeps_inv [OF keeps_failed_execution [OF v, where Q = "\<lambda>_. False"] _
                after_call_end [OF ac [OF L] lt], where QQ = "\<lambda>_. False"]]) (assumption | blast)+
      qed
      then show ?thesis by (rule hoare_log [where P = ?L])
    qed
    show "hoare (\<lambda>w. ?L (log w)) (?rest st) ?Q ?E"
    proof (cases st)
      case (Returns ob)
      have "?L l' \<Longrightarrow> ob \<in> returned l'" for l' using Returns by (auto simp: returned_def)
      with ac Returns show ?thesis by (auto intro!: hoare_retM)
    qed (use fl in simp_all)
  qed
  have stop: "good_pause p ar \<Longrightarrow> hoare (\<lambda>w. log w = l) (stopM (Paused ar)) ?Q ?E"
    "hoare (\<lambda>w. log w = l) (stopM ApprovalReconstructionMismatch) ?Q ?E" for ar
    using loop_inv_end [OF inv] by (auto intro!: hoare_stopM)
  have paused: "good_pause p \<lparr>ar_action = a, ar_action_hash = action_hash_of p a, ar_plan_version = v, ar_proposed_step_number = k,
      ar_plans = vs, ar_step_count = rv_step_count rv, ar_remaining_tools = m, ar_risk_class = rc, ar_safe_steps = ss, ar_safe_observations = so\<rparr>"
    if "must_pause (rp_mode p) (classify_tool_risk n) (action_hash_of p a) (rv_approved_action_hash rv)" for v k vs m rc ss so
    using that tc nm perm lt by (auto simp: good_pause_def needs_approval_def must_pause_def split: if_splits)
  show ?thesis
    unfolding observe_tool_def Nil Let_def list.case
    by (rule hoare_if, rule stop(2), rule hoare_if, rule stop(1), rule paused, assumption, rule exec, assumption)
qed

lemma after_call_inv:
  assumes "after_call p ap recon rv rv' l" and "ob \<in> returned l \<union> rs_observation ` set recon"
    and "rv_step_count rv < lim_max_steps (rp_limits p)"
    and "core rv2 = (rv_step_count rv' + 1, rv_evidence_by_id rv', rv_reconstructed rv', rv_approved_action_hash rv', obs_of rv' @ [ob])"
  shows "loop_inv p ap recon l rv2"
  using assms by (auto simp: loop_inv_def after_call_def vars_ok_def core_def evidence_of_append)

lemma use_inv:
  assumes "loop_inv p ap recon l rv" and "ob \<in> set (obs_of rv)"
    and "core rv2 = (rv_step_count rv, add_evidence (rv_evidence_by_id rv) (ob_evidence ob), rv_reconstructed rv,
       rv_approved_action_hash rv, obs_of rv)"
  shows "loop_inv p ap recon l rv2"
proof -
  have "set (ob_evidence ob) \<subseteq> evidence_of (obs_of rv)" using assms(2) by (auto simp: evidence_of_def)
  with assms(1)
  have "snd ` set (add_evidence (rv_evidence_by_id rv) (ob_evidence ob)) \<subseteq> evidence_of (obs_of rv)"
    by (intro order_trans [OF add_evidence_snd] Un_least) (simp_all add: loop_inv_def vars_ok_def)
  with assms(1,3) show ?thesis by (simp add: loop_inv_def vars_ok_def core_def)
qed

lemma hoare_fact: "(b \<Longrightarrow> hoare P m Q E) \<Longrightarrow> hoare (\<lambda>w. P w \<and> b) m Q E"
  by (simp add: hoare_def)

lemma inv_vars: "loop_inv p ap recon l rv \<Longrightarrow> vars_ok p rv"
  by (simp add: loop_inv_def)

text \<open>The second half of an iteration, after the observation was obtained.\<close>

lemma hoare_after_observation:
  assumes ac: "after_call p ap recon rv rv' l" and ob: "ob \<in> returned l \<union> rs_observation ` set recon"
    and lt: "rv_step_count rv < lim_max_steps (rp_limits p)"
  shows "hoare (\<lambda>w. log w = l)
    (bindM (record_observation env p rv' a ps s n t ob) (\<lambda>rv.
     bindM (use_observation env p rv a ps ob) (\<lambda>(rv, ps). next_decision env p rv pc ps ob)))
    (\<lambda>ls w. loop_inv p ap recon (log w) (fst ls)) (\<lambda>r w. end_inv p ap recon r (log w))"
proof -
  let ?E = "\<lambda>r w. end_inv p ap recon r (log w)"
  have rec: "hoare (\<lambda>w. log w = l) (record_observation env p rv' a ps s n t ob)
      (\<lambda>rv2 w. log w = l \<and> loop_inv p ap recon l rv2 \<and> ob \<in> set (obs_of rv2)) ?E"
  proof (rule keeps_inv [OF keeps_record_observation _ after_call_end [OF ac lt]])
    fix rv2 assume c: "core rv2 = (rv_step_count rv' + 1, rv_evidence_by_id rv', rv_reconstructed rv', rv_approved_action_hash rv', obs_of rv' @ [ob])"
    then have "ob \<in> set (obs_of rv2)" by (simp add: core_def)
    with after_call_inv [OF ac ob lt c] show "loop_inv p ap recon l rv2 \<and> ob \<in> set (obs_of rv2)" by simp
  qed
  have use: "hoare (\<lambda>w. log w = l) (use_observation env p rv2 a ps ob) (\<lambda>x w. log w = l \<and> loop_inv p ap recon l (fst x)) ?E"
    if "loop_inv p ap recon l rv2" and "ob \<in> set (obs_of rv2)" for rv2
    by (rule keeps_inv [OF keeps_use_observation [OF inv_vars [OF that(1)] that(2)] _ loop_inv_end [OF that(1)]])
       (simp_all add: split_beta use_inv [OF that])
  have nxt: "hoare (\<lambda>w. log w = l) (next_decision env p rv3 pc ps3 ob) (\<lambda>ls w. log w = l \<and> loop_inv p ap recon l (fst ls)) ?E"
    if "loop_inv p ap recon l rv3" for rv3 ps3
    by (rule keeps_inv [OF keeps_next_decision [OF inv_vars [OF that]] _ loop_inv_end [OF that]])
       (simp_all add: split_beta that loop_inv_core [of _ rv3])
  have un: "hoare (\<lambda>w. log w = l \<and> loop_inv p ap recon l (fst x)) (case x of (rv, ps) \<Rightarrow> next_decision env p rv pc ps ob)
      (\<lambda>ls w. log w = l \<and> loop_inv p ap recon l (fst ls)) ?E" for x
    by (rule hoare_fact) (use nxt in \<open>simp add: split_beta\<close>)
  have "hoare (\<lambda>w. log w = l \<and> loop_inv p ap recon l rv2 \<and> ob \<in> set (obs_of rv2))
     (bindM (use_observation env p rv2 a ps ob) (\<lambda>(rv, ps). next_decision env p rv pc ps ob))
     (\<lambda>ls w. log w = l \<and> loop_inv p ap recon l (fst ls)) ?E" for rv2
    by (rule hoare_fact) (elim conjE, rule hoare_bindM [OF use un])
  from hoare_bindM [OF rec this] show ?thesis by (rule hoare_conseq) simp_all
qed

lemma hoare_iterate:
  assumes inv: "loop_inv p ap recon l (fst ls)"
  shows "hoare (\<lambda>w. log w = l) (iterate env p ls)
    (\<lambda>ls' w. loop_inv p ap recon (log w) (fst ls')) (\<lambda>r w. end_inv p ap recon r (log w))"
proof -
  obtain rv pc d ps where ls: "ls = (rv, pc, d, ps)" by (cases ls)
  with inv have inv: "loop_inv p ap recon l rv" by simp
  let ?a = "dr_next_action d"
  let ?E = "\<lambda>r w. end_inv p ap recon r (log w)"
  have chk: "hoare (\<lambda>w. log w = l) (check_action env p rv ?a ps)
      (\<lambda>(rv', s, n) w. (loop_inv p ap recon l rv' \<and> act_type ?a = TOOL_CALL \<and> act_name ?a = Some n \<and> n \<in> set (permitted_tools p) \<and>
         rv_step_count rv' < lim_max_steps (rp_limits p)) \<and> log w = l) ?E"
  proof (rule hoare_conseq [OF keeps_inv [OF keeps_check_action [OF inv_vars [OF inv]] _ loop_inv_end [OF inv],
        where QQ = "\<lambda>(rv', s, n). loop_inv p ap recon l rv' \<and> act_type ?a = TOOL_CALL \<and> act_name ?a = Some n \<and>
          n \<in> set (permitted_tools p) \<and> rv_step_count rv' < lim_max_steps (rp_limits p)"]])
    fix x assume "case x of (rv', s, n) \<Rightarrow> core rv' = core rv \<and> act_type ?a = TOOL_CALL \<and> act_name ?a = Some n \<and>
       n \<in> set (permitted_tools p) \<and> rv_step_count rv < lim_max_steps (rp_limits p)"
    then show "case x of (rv', s, n) \<Rightarrow> loop_inv p ap recon l rv' \<and> act_type ?a = TOOL_CALL \<and> act_name ?a = Some n \<and>
          n \<in> set (permitted_tools p) \<and> rv_step_count rv' < lim_max_steps (rp_limits p)"
    proof (cases x)
      case (fields rv' s n)
      assume "case x of (rv', s, n) \<Rightarrow> core rv' = core rv \<and> act_type ?a = TOOL_CALL \<and> act_name ?a = Some n \<and>
         n \<in> set (permitted_tools p) \<and> rv_step_count rv < lim_max_steps (rp_limits p)"
      with fields have c: "core rv' = core rv" and A: "act_type ?a = TOOL_CALL" "act_name ?a = Some n"
        "n \<in> set (permitted_tools p)" "rv_step_count rv < lim_max_steps (rp_limits p)" by simp_all
      from c have "rv_step_count rv' = rv_step_count rv" by (simp add: core_def)
      with A fields inv loop_inv_core [OF c] show ?thesis by simp
    qed
  qed (simp_all add: split_beta)
  have clk: "hoare (\<lambda>w. log w = l) (callM (env_clock env)) (\<lambda>_ w. log w = l) ?E"
    by (rule hoare_callM) (auto dest: clock)
  show ?thesis
    unfolding iterate_def ls Let_def prod.case
  proof (rule hoare_bindM [OF chk])
    fix x :: "run_vars \<times> Step \<times> string"
    obtain rv' s n where x: "x = (rv', s, n)" by (cases x)
    show "hoare ((\<lambda>(rv', s, n) w. (loop_inv p ap recon l rv' \<and> act_type ?a = TOOL_CALL \<and> act_name ?a = Some n \<and>
         n \<in> set (permitted_tools p) \<and> rv_step_count rv' < lim_max_steps (rp_limits p)) \<and> log w = l) x)
      (case x of (rv, active, tool_name) \<Rightarrow>
        bindM (callM (env_clock env)) (\<lambda>tool_started.
        bindM (observe_tool env p rv ?a ps active tool_name tool_started) (\<lambda>(rv, ob).
        bindM (record_observation env p rv ?a ps active tool_name tool_started ob) (\<lambda>rv.
        bindM (use_observation env p rv ?a ps ob) (\<lambda>(rv, ps). next_decision env p rv pc ps ob)))))
      (\<lambda>ls' w. loop_inv p ap recon (log w) (fst ls')) ?E"
      unfolding x prod.case
    proof (rule hoare_pure, elim conjE, rule hoare_bindM [OF clk])
      fix t assume A: "loop_inv p ap recon l rv'" "act_type ?a = TOOL_CALL" "act_name ?a = Some n"
        "n \<in> set (permitted_tools p)" and lt: "rv_step_count rv' < lim_max_steps (rp_limits p)"
      show "hoare (\<lambda>w. log w = l) (bindM (observe_tool env p rv' ?a ps s n t) (\<lambda>(rv, ob).
        bindM (record_observation env p rv ?a ps s n t ob) (\<lambda>rv.
        bindM (use_observation env p rv ?a ps ob) (\<lambda>(rv, ps). next_decision env p rv pc ps ob))))
        (\<lambda>ls' w. loop_inv p ap recon (log w) (fst ls')) ?E"
      proof (rule hoare_bindM [OF hoare_observe_tool [OF A lt]])
        fix y :: "run_vars \<times> StructuredObservation"
        obtain rv2 ob where y: "y = (rv2, ob)" by (cases y)
        show "hoare ((\<lambda>(rv'', ob) w. after_call p ap recon rv' rv'' (log w) \<and> ob \<in> returned (log w) \<union> rs_observation ` set recon) y)
          (case y of (rv, ob) \<Rightarrow> bindM (record_observation env p rv ?a ps s n t ob) (\<lambda>rv.
             bindM (use_observation env p rv ?a ps ob) (\<lambda>(rv, ps). next_decision env p rv pc ps ob)))
          (\<lambda>ls' w. loop_inv p ap recon (log w) (fst ls')) ?E"
          unfolding y prod.case
          by (rule hoare_log [where P = "\<lambda>l. after_call p ap recon rv' rv2 l \<and> ob \<in> returned l \<union> rs_observation ` set recon"],
              elim conjE, rule hoare_after_observation [OF _ _ lt])
      qed
    qed
  qed
qed

lemma run_loop_end:
  assumes "loop_inv p ap recon (log w) (fst ls)" and "run_loop env p ls w = (r, w')"
  shows "end_inv p ap recon r (log w')"
  using assms
proof (induction "nat (lim_max_steps (rp_limits p) - rv_step_count (fst ls))" arbitrary: ls w rule: less_induct)
  case less
  note it = hoare_iterate [OF less(2)]
  show ?case
  proof (cases "iterate env p ls w")
    case (Pair x w1)
    show ?thesis
    proof (cases x)
      case (Inl r1)
      with Pair less(3) have "r = r1 \<and> w' = w1" by (simp add: run_loop.simps [of env p ls w])
      with hoareD_Inl [OF it refl] Pair Inl show ?thesis by simp
    next
      case (Inr ls1)
      with Pair less(3) have run: "run_loop env p ls1 w1 = (r, w')" by (simp add: run_loop.simps [of env p ls w])
      have inv1: "loop_inv p ap recon (log w1) (fst ls1)" using hoareD_Inr [OF it refl] Pair Inr by simp
      have "nat (lim_max_steps (rp_limits p) - rv_step_count (fst ls1)) < nat (lim_max_steps (rp_limits p) - rv_step_count (fst ls))"
        using iterate_step_count [of env p ls w ls1 w1] Pair Inr by simp
      then show ?thesis by (rule less(1) [OF _ inv1 run])
    qed
  qed
qed

lemma start_run_keeps:
  assumes "0 \<le> lim_max_steps (rp_limits p)"
  shows "keeps l (start_run env p i ap recon cx)
    (\<lambda>ls. core (fst ls) = (0, [], recon, ap, [])) (good_end p [])"
proof -
  define rv0 where "rv0 = (\<lambda>u. \<lparr>rv_session = new_session p u, rv_trace = [], rv_evidence_by_id = [], rv_step_count = 0,
          rv_replan_count = 0, rv_retry_count = 0, rv_retrieval_count = 0, rv_reconstructed = recon,
          rv_approved_action_hash = ap\<rparr>)"
  have fold0: "\<lparr>rv_session = new_session p u, rv_trace = [], rv_evidence_by_id = [], rv_step_count = 0,
          rv_replan_count = 0, rv_retry_count = 0, rv_retrieval_count = 0, rv_reconstructed = recon,
          rv_approved_action_hash = ap\<rparr> = rv0 u" for u
    by (simp add: rv0_def)
  have c0: "core (rv0 u) = (0, [], recon, ap, [])" for u by (simp add: rv0_def core_def obs_of_def new_session_def)
  have o0: "obs_of (rv0 u) = []" for u using c0 [of u] by (simp add: core_def)
  have v0: "vars_ok p (rv0 u)" for u using assms by (simp add: rv0_def vars_ok_def)
  have c: "core (rv\<lparr>rv_session := (rv_session rv)\<lparr>se_perceptions := x\<rparr>\<rparr>) = core rv"
    "core (rv\<lparr>rv_session := (rv_session rv)\<lparr>se_plans := y\<rparr>\<rparr>) = core rv" for x y rv
    by (simp_all add: core_def obs_of_def)
  have id: "keeps l (case i of None \<Rightarrow> callM (env_uuid4 env) | Some i \<Rightarrow> retM i) (\<lambda>_. True) R" for R
    by (cases i) (simp_all add: keeps_new_id)
  have sq: "keeps l (if recon = [] then retM True else callM (env_set_evidence_sequence env k)) (\<lambda>_. True) R" for k R
    by (simp add: keeps_callM set_sequence)
  have bd: "keeps l (callM (\<lambda>w. ((), env_bind_decision_context env cx (env_bind_perception_context env cx w)))) (\<lambda>_. True) R" for R
    by (rule keeps_callM) (auto simp: bind_contexts)
  show ?thesis
    unfolding start_run_def Let_def fold0
    apply (rule keeps_bindM [OF id])
    apply (rule keeps_if, simp)
    apply (rule keeps_bindM [OF sq], rule keeps_if, simp)
    apply (rule keeps_bindM [OF bd])
    subgoal for u
      apply (rule stage_then [of _ p "rv0 u" "rv0 u", unfolded o0, OF perceive_query v0 refl], assumption)
      apply (rule keeps_bindM [OF keeps_emit], simp)+
      apply (rule stage_then [of _ p "rv0 u", unfolded o0, OF decide_initial v0], assumption, simp add: c)
      apply (rule keeps_bindM [OF handle_plan_core [of p "rv0 u", unfolded o0, OF v0]], simp add: c)
      apply (rule keeps_retM, simp add: c c0)
      done
    done
qed

lemma agent_run_end:
  assumes run: "agent_run env p i ap recon cx w = (r, w')" and "log w = []" and lim: "0 \<le> lim_max_steps (rp_limits p)"
  shows "end_inv p ap recon r (log w')"
proof -
  obtain t w0 where clk: "env_clock env w = (t, w0)" by (cases "env_clock env w")
  with clock assms(2) have l0: "log w0 = []" by simp
  let ?p = "p\<lparr>rp_started := t\<rparr>"
  note st = start_run_keeps [of ?p "[]" i ap recon cx, unfolded keeps_def]
  have "end_inv ?p ap recon r (log w')"
  proof (cases "start_run env ?p i ap recon cx w0")
    case (Pair x w1)
    show ?thesis
    proof (cases x)
      case (Inl r1)
      with Pair run clk have e: "r = r1" "w' = w1" by (simp_all add: agent_run_def)
      from Pair Inl l0 lim hoareD_Inl [OF st, of w0 r1 w1] have "log w1 = [] \<and> good_end ?p [] r1" by simp
      then show ?thesis
        using lim e by (auto simp: end_inv_def calls_ok_def approvals_used_def intro: exI [of _ "[]"])
    next
      case (Inr ls)
      from Pair Inr l0 lim hoareD_Inr [OF st, of w0 ls w1]
      have "log w1 = []" and c: "core (fst ls) = (0, [], recon, ap, [])" by simp_all
      moreover have "loop_inv ?p ap recon [] (fst ls)"
        using c lim by (simp add: loop_inv_def vars_ok_def core_def calls_ok_def approvals_used_def)
      moreover have "run_loop env ?p ls w1 = (r, w')" using Pair Inr run clk by (simp add: agent_run_def)
      ultimately show ?thesis using run_loop_end [of ?p ap recon w1 ls r w'] by simp
    qed
  qed
  then show ?thesis by (simp add: end_inv_started)
qed

end

subsection \<open>Every environment can be observed\<close>

text \<open>The environment with a log beside its world.\<close>

definition unlogged :: "('w \<Rightarrow> 'a \<times> 'w) \<Rightarrow> 'w \<times> execution list \<Rightarrow> 'a \<times> 'w \<times> execution list" where
  "unlogged f = (\<lambda>(w, l). let (a, w') = f w in (a, w', l))"

definition observed :: "'w agent_env \<Rightarrow> ('w \<times> execution list) agent_env" where
  "observed env =
     \<lparr>env_clock = unlogged (env_clock env), env_uuid4 = unlogged (env_uuid4 env),
      env_bind_perception_context = (\<lambda>c. apfst (env_bind_perception_context env c)),
      env_bind_decision_context = (\<lambda>c. apfst (env_bind_decision_context env c)),
      env_perceive_user_query = (\<lambda>t q. unlogged (env_perceive_user_query env t q)),
      env_perceive_step_result = (\<lambda>t q pc pl cs ob b. unlogged (env_perceive_step_result env t q pc pl cs ob b)),
      env_decide_initial = (\<lambda>t q pc cat. unlogged (env_decide_initial env t q pc cat)),
      env_decide_mid_session = (\<lambda>t q pc pl cs cat. unlogged (env_decide_mid_session env t q pc pl cs cat)),
      env_set_evidence_sequence = (\<lambda>i. unlogged (env_set_evidence_sequence env i)),
      env_execute = (\<lambda>t a auth perm rid (w, l).
        let (st, w') = env_execute env t a auth perm rid w in (st, w', l @ [(a, auth, perm, rid, st)])),
      env_generate = (\<lambda>t q es. unlogged (env_generate env t q es))\<rparr>"

interpretation observed: logged_env "observed env" snd for env :: "'w agent_env"
  by unfold_locales (auto simp: observed_def unlogged_def split: prod.splits)

text \<open>The log does not influence the run: \<open>sim\<close> relates a piece of code with its observed version.\<close>

definition sim :: "('w, 'a) run \<Rightarrow> ('w \<times> execution list, 'a) run \<Rightarrow> bool" where
  "sim m m' = (\<forall>w l. m w = apsnd fst (m' (w, l)))"

lemma simD: "sim m m' \<Longrightarrow> m' (w, l) = (x, w1, l1) \<Longrightarrow> m w = (x, w1)"
  unfolding sim_def by (metis apsnd_conv fst_conv)

lemma simI: "(\<And>w l x w1 l1. m' (w, l) = (x, w1, l1) \<Longrightarrow> m w = (x, w1)) \<Longrightarrow> sim m m'"
  unfolding sim_def by (metis apsnd_conv fst_conv surj_pair)

lemma sim_retM [simp]: "sim (retM a) (retM a)"
  by (simp add: sim_def retM_def)

lemma sim_stopM [simp]: "sim (stopM r) (stopM r)"
  by (simp add: sim_def stopM_def)

lemma sim_bindM:
  assumes m: "sim m m'" and f: "\<And>a. sim (f a) (f' a)"
  shows "sim (bindM m f) (bindM m' f')"
proof (rule simI)
  fix w l y w2 l2 assume b: "bindM m' f' (w, l) = (y, w2, l2)"
  obtain x w1 l1 where m': "m' (w, l) = (x, w1, l1)" by (cases "m' (w, l)") auto
  with b simD [OF m m'] show "bindM m f w = (y, w2)"
    by (cases x) (auto simp: bindM_def dest: simD [OF f])
qed

lemma sim_if: "(b \<Longrightarrow> sim m m') \<Longrightarrow> (\<not> b \<Longrightarrow> sim n n') \<Longrightarrow> sim (if b then m else n) (if b then m' else n')"
  by simp

lemma sim_callM:
  assumes f: "\<And>w l. f w = apsnd fst (f' (w, l))"
  shows "sim (callM f) (callM f')"
proof (rule simI)
  fix w l x w1 l1 assume c: "callM f' (w, l) = (x, w1, l1)"
  obtain a w2 l2 where f': "f' (w, l) = (a, w2, l2)" by (cases "f' (w, l)") auto
  with f [of w l] c show "callM f w = (x, w1)" by (simp add: callM_def)
qed

lemma unlogged_fst [simp]: "apsnd fst (unlogged f (w, l)) = f w"
  by (simp add: unlogged_def split: prod.split)

lemma sim_env [simp]:
  "sim (callM (env_clock env)) (callM (env_clock (observed env)))"
  "sim (callM (env_uuid4 env)) (callM (env_uuid4 (observed env)))"
  "sim (callM (env_set_evidence_sequence env k)) (callM (env_set_evidence_sequence (observed env) k))"
  by (auto simp: observed_def intro!: sim_callM)

lemma sim_bind_contexts [simp]:
  "sim (callM (\<lambda>w. ((), env_bind_decision_context env c (env_bind_perception_context env c w))))
       (callM (\<lambda>w. ((), env_bind_decision_context (observed env) c (env_bind_perception_context (observed env) c w))))"
  by (auto simp: observed_def intro!: sim_callM)

lemma sim_within_budget:
  "(\<And>t w l. f t w = apsnd fst (f' t (w, l))) \<Longrightarrow> sim (within_budget env p f) (within_budget (observed env) p f')"
  unfolding within_budget_def Let_def by (intro sim_bindM sim_if sim_env sim_retM sim_callM)

lemma sim_stages [simp]:
  "sim (within_budget env p (\<lambda>t. env_perceive_user_query env t q)) (within_budget (observed env) p (\<lambda>t. env_perceive_user_query (observed env) t q))"
  "sim (within_budget env p (\<lambda>t. env_perceive_step_result env t q pc pl cs ob b))
     (within_budget (observed env) p (\<lambda>t. env_perceive_step_result (observed env) t q pc pl cs ob b))"
  "sim (within_budget env p (\<lambda>t. env_decide_initial env t q pc cat)) (within_budget (observed env) p (\<lambda>t. env_decide_initial (observed env) t q pc cat))"
  "sim (within_budget env p (\<lambda>t. env_decide_mid_session env t q pc pl cs cat))
     (within_budget (observed env) p (\<lambda>t. env_decide_mid_session (observed env) t q pc pl cs cat))"
  "sim (within_budget env p (\<lambda>t. env_generate env t q es)) (within_budget (observed env) p (\<lambda>t. env_generate (observed env) t q es))"
  "sim (within_budget env p (\<lambda>t. env_execute env t a auth perm rid)) (within_budget (observed env) p (\<lambda>t. env_execute (observed env) t a auth perm rid))"
  by (rule sim_within_budget; simp add: observed_def split: prod.split)+

lemmas sim_rules = sim_bindM sim_if sim_retM sim_stopM sim_env sim_stages sim_bind_contexts

lemma sim_emit [simp]: "sim (emit env ty st c n d ids rv) (emit (observed env) ty st c n d ids rv)"
  unfolding emit_def Let_def by (intro sim_rules)

lemma sim_terminal [simp]: "sim (terminal env rv st r parts) (terminal (observed env) rv st r parts)"
  unfolding terminal_def Let_def by (intro sim_rules sim_emit)

lemma sim_terminal_failed [simp]: "sim (terminal_failed env rv st r) (terminal_failed (observed env) rv st r)"
  by (simp add: terminal_failed_def)

lemma sim_handle_stage [simp]: "sim (handle_stage env rv st) (handle_stage (observed env) rv st)"
  by (simp add: handle_stage_def split: stage.split)

lemma sim_handle_plan [simp]: "sim (handle_plan env rv r) (handle_plan (observed env) rv r)"
  by (simp add: handle_plan_def split: sum.split plan_error.split)

lemma sim_finalize [simp]: "sim (finalize env p rv) (finalize (observed env) p rv)"
  unfolding finalize_def Let_def
  by (intro sim_rules sim_emit sim_handle_stage sim_terminal)
     (auto split: sum.split grounding_error.split intro!: sim_bindM)

lemma sim_finalize_calculations [simp]:
  "sim (finalize_calculations env p rv cs es) (finalize_calculations (observed env) p rv cs es)"
  by (auto simp: finalize_calculations_def Let_def split: list.split sum.split intro!: sim_bindM)

lemma sim_start_run [simp]: "sim (start_run env p i ap recon cx) (start_run (observed env) p i ap recon cx)"
  unfolding start_run_def Let_def
  by (intro sim_rules sim_emit sim_handle_stage sim_handle_plan) (simp split: option.split)

lemma sim_check_action [simp]: "sim (check_action env p rv a ps) (check_action (observed env) p rv a ps)"
  unfolding check_action_def
  by (intro sim_bindM sim_emit sim_handle_plan sim_if; auto split: option.split intro!: sim_bindM)

lemma sim_elapsed_ms [simp]: "sim (elapsed_ms env t) (elapsed_ms (observed env) t)"
  unfolding elapsed_ms_def by (intro sim_rules)

lemma sim_mk_safe [simp]: "sim (mk_safe_step s) (mk_safe_step s)" "sim (mk_safe_observation o1) (mk_safe_observation o1)"
  by (simp_all add: mk_safe_step_def mk_safe_observation_def)

lemma sim_failed_execution [simp]:
  "sim (failed_execution env p rv a ps s n t st ts c r) (failed_execution (observed env) p rv a ps s n t st ts c r)"
  unfolding failed_execution_def Let_def by (intro sim_bindM sim_elapsed_ms sim_mk_safe sim_emit sim_terminal_failed)

lemma sim_observe_tool [simp]: "sim (observe_tool env p rv a ps s n t) (observe_tool (observed env) p rv a ps s n t)"
  unfolding observe_tool_def Let_def
  by (auto split: list.split stage.split intro!: sim_bindM sim_if)

lemma sim_record_observation [simp]:
  "sim (record_observation env p rv a ps s n t ob) (record_observation (observed env) p rv a ps s n t ob)"
  unfolding record_observation_def Let_def by (intro sim_bindM sim_elapsed_ms sim_mk_safe sim_emit)

lemma sim_use_observation [simp]:
  "sim (use_observation env p rv a ps ob) (use_observation (observed env) p rv a ps ob)"
  unfolding use_observation_def Let_def
  by (auto split: ObservationStatus.split sum.split ActionArguments.split intro!: sim_bindM sim_if)

lemma sim_next_decision [simp]:
  "sim (next_decision env p rv pc ps ob) (next_decision (observed env) p rv pc ps ob)"
  unfolding next_decision_def Let_def
  by (intro sim_bindM sim_env sim_if sim_stages sim_handle_stage sim_emit sim_handle_plan sim_stopM)
     (auto split: prod.split intro!: sim_if)

lemma sim_iterate [simp]: "sim (iterate env p ls) (iterate (observed env) p ls)"
  unfolding iterate_def Let_def by (auto split: prod.split intro!: sim_bindM)

lemma sim_run_loop: "run_loop env p ls w = apsnd fst (run_loop (observed env) p ls (w, l))"
proof (induction "nat (lim_max_steps (rp_limits p) - rv_step_count (fst ls))" arbitrary: ls w l rule: less_induct)
  case less
  obtain x w1 l1 where it: "iterate (observed env) p ls (w, l) = (x, w1, l1)"
    by (cases "iterate (observed env) p ls (w, l)") auto
  then have it': "iterate env p ls w = (x, w1)" by (rule simD [OF sim_iterate])
  show ?case
  proof (cases x)
    case (Inl r)
    with it it' show ?thesis by (simp add: run_loop.simps [of _ p ls])
  next
    case (Inr ls1)
    with iterate_step_count [of env p ls w ls1 w1] it'
    have "nat (lim_max_steps (rp_limits p) - rv_step_count (fst ls1)) < nat (lim_max_steps (rp_limits p) - rv_step_count (fst ls))"
      by simp
    from less [OF this, of w1 l1] Inr it it' show ?thesis by (simp add: run_loop.simps [of _ p ls])
  qed
qed

lemma sim_agent_run: "agent_run env p i ap recon cx w = apsnd fst (agent_run (observed env) p i ap recon cx (w, l))"
proof -
  obtain t w0 where c: "env_clock env w = (t, w0)" by (cases "env_clock env w")
  then have c': "env_clock (observed env) (w, l) = (t, w0, l)" by (simp add: observed_def unlogged_def)
  let ?p = "p\<lparr>rp_started := t\<rparr>"
  obtain x w1 l1 where s: "start_run (observed env) ?p i ap recon cx (w0, l) = (x, w1, l1)"
    by (cases "start_run (observed env) ?p i ap recon cx (w0, l)") auto
  then have s': "start_run env ?p i ap recon cx w0 = (x, w1)" by (rule simD [OF sim_start_run])
  show ?thesis using c c' s s' sim_run_loop [of env ?p _ w1 l1] by (simp add: agent_run_def split: sum.split)
qed

end
