(* ===== verification/Run_Properties.thy ===== *)
theory Run_Properties
  imports Loop_Safety
begin

text \<open>
  The properties of a whole run of the agent loop, from the invariants of \<^verbatim>\<open>Loop_Safety\<close> through the
  interpretation of its locale on the observed environment, and a concrete run they are applied to.
\<close>

subsection \<open>A concrete run\<close>

text \<open>
  The model decides to search, the gateway returns one piece of evidence, the model finalizes.  The
  control mode is \<open>GUIDED\<close> and the search was approved before.
\<close>

definition example_perception :: PerceptionSnapshot where
  "example_perception =
     \<lparr>ps_mode = USER_QUERY, ps_intent = FINANCIAL_LOOKUP,
      ps_entities = \<lparr>en_companies = [], en_departments = [], en_documents = [], en_financial_metrics = [],
        en_legal_terms = [], en_reporting_periods = [], en_currencies = []\<rparr>,
      ps_mentioned_scope_hints = \<lparr>sh_tenants = [], sh_companies = [], sh_departments = []\<rparr>,
      ps_result_requirement = GROUNDED_ANSWER, ps_required_evidence = [], ps_required_capabilities = [],
      ps_ambiguities = [], ps_risk_flags = [], ps_evidence_status = ES_NONE,
      ps_local_goal_status = G_PENDING, ps_global_goal_status = G_PENDING, ps_confidence = 1,
      ps_reason_code = ''QUESTION'', ps_clarification_question = None, ps_rationale_summary = None\<rparr>"

definition example_observation :: "GroundedEvidence list \<Rightarrow> StructuredObservation" where
  "example_observation es =
     \<lparr>ob_tool_name = ''portfolio.search_authorized_documents'', ob_status = O_SUCCESS, ob_evidence = es,
      ob_calculations = [], ob_memory_context = [], ob_memory_notification = None, ob_duration_ms = 5,
      ob_retryable = False, ob_retry_count = 0, ob_reason_code = ''SUCCESS''\<rparr>"

definition example_env :: "nat agent_env" where
  "example_env =
     \<lparr>env_clock = (\<lambda>w. (0, w)), env_uuid4 = (\<lambda>w. (w, w + 1)),
      env_bind_perception_context = (\<lambda>c w. w), env_bind_decision_context = (\<lambda>c w. w),
      env_perceive_user_query = (\<lambda>t q w. (Returns example_perception, w)),
      env_perceive_step_result = (\<lambda>t q pc pl cs ob b w. (Returns example_perception, w)),
      env_decide_initial = (\<lambda>t q pc cat w. (Returns example_decision, w)),
      env_decide_mid_session = (\<lambda>t q pc pl cs cat w.
        (Returns \<lparr>dr_plan = pl, dr_next_action = example_finalize, dr_replan = False\<rparr>, w)),
      env_set_evidence_sequence = (\<lambda>k w. (True, w)),
      env_execute = (\<lambda>t a auth perm rid w. (Returns (example_observation [example_evidence ''ev_2'']), w)),
      env_generate = (\<lambda>t q es w. (Returns \<lparr>gen_answer = example_draft, gen_input_tokens = Some 10,
        gen_output_tokens = Some 5\<rparr>, w))\<rparr>"

definition example_hash :: string where
  "example_hash = replicate 64 (CHR ''a'')"

definition example_params :: run_params where
  "example_params =
     \<lparr>rp_digest = (\<lambda>d. case map_of d ''action_name'' of Some (PStr n) \<Rightarrow> example_hash | _ \<Rightarrow> replicate 64 (CHR ''b'')), rp_uuid_text = str_nat, rp_fmt2 = (\<lambda>x. []),
      rp_limits = \<lparr>lim_max_steps = 4, lim_max_retrieval_rewrites = 1, lim_max_replans = 1, lim_max_duration_seconds = 30\<rparr>,
      rp_query = ''What is the net debt?'',
      rp_authorization_context = \<lparr>ctx_identity = scope_identity example_scope, ctx_scope = example_scope\<rparr>,
      rp_catalog = [\<lparr>pd_name = SEARCH_AUTHORIZED_DOCUMENTS, pd_purpose = ''Search'', pd_fields = [], pd_safe_result_description = ''Evidence''\<rparr>],
      rp_request_id = ''r1'', rp_mode = GUIDED, rp_started = 0\<rparr>"

definition example_context :: GroundedAgentContext where
  "example_context = \<lparr>gx_memories = [], gx_recent_messages = [], gx_conversation_summary = None\<rparr>"

definition example_run :: "run_result \<times> nat \<times> execution list" where
  "example_run = agent_run (observed example_env) example_params None (Some example_hash) [] example_context (0, [])"

text \<open>What the concrete run does, by evaluation.\<close>

definition summary :: "run_result \<Rightarrow> (TerminalStatus \<times> int \<times> string list \<times> string) option" where
  "summary r = (case r of Ended out \<Rightarrow> Some (out_terminal_status out, out_step_count out,
       map ci_citation_id (out_citations out), out_answer out) | _ \<Rightarrow> None)"

lemma example_run_summary:
  "case example_run of (r, w', l) \<Rightarrow>
     summary r = Some (T_COMPLETED, 1, [''ev_2''], ''Debt is 12 [ev_2]'') \<and> map fst l = [example_search]"
  by code_simp

lemma example_limits_ok: "limits_ok (rp_limits example_params)"
  by (simp add: limits_ok_def example_params_def)

lemma example_needs_approval: "needs_approval example_params example_search"
  by code_simp

subsection \<open>Properties\<close>

lemma limits_steps: "limits_ok l \<Longrightarrow> 0 \<le> lim_max_steps l"
  by (simp add: limits_ok_def)

lemma observed_run_end:
  assumes "limits_ok (rp_limits p)" and "agent_run (observed env) p i ap recon cx (w, []) = (r, w', l)"
  shows "end_inv p ap recon r l"
  using observed.agent_run_end [OF assms(2)] limits_steps [OF assms(1)] by simp

text \<open>C15: the executions of a run.  Observing a run does not change it, and whatever the models
  answer, the run makes at most \<^verbatim>\<open>max_steps\<close> executions; each is a tool call of a tool in the permitted
  catalog, made with the caller's own authorization context, catalog and request; at most one of them
  is an action that needs an approval in the control mode, and it is the action whose hash was approved.\<close>

theorem run_executions_controlled:
  assumes "limits_ok (rp_limits p)" and "agent_run (observed env) p i approved recon cx (w, []) = (r, w', l)"
  shows "agent_run env p i approved recon cx w = (r, w') \<and>
    int (length l) \<le> lim_max_steps (rp_limits p) \<and> list_all (call_ok p approved) l \<and> approvals_used p l \<le> 1"
  using observed_run_end [OF assms] sim_agent_run [of env p i approved recon cx w "[]"] assms(2)
  by (simp add: end_inv_def calls_ok_def)

theorem run_executions_controlled_witness:
  "limits_ok (rp_limits example_params) \<and>
   (\<exists>r w' l. example_run = (r, w', l) \<and> map fst l = [example_search] \<and> needs_approval example_params example_search \<and>
      list_all (call_ok example_params (Some example_hash)) l \<and> approvals_used example_params l \<le> 1)"
proof -
  obtain r w' l where r: "example_run = (r, w', l)" by (cases example_run) auto
  have "map fst l = [example_search]" using example_run_summary unfolding r prod.case by blast
  with run_executions_controlled [OF example_limits_ok r [unfolded example_run_def]] example_limits_ok
    example_needs_approval r show ?thesis by (intro conjI exI [of _ r] exI [of _ w'] exI [of _ l]) simp_all
qed

text \<open>C16: the outcome of a run is bounded and grounded.  An outcome counts at most \<^verbatim>\<open>max_steps\<close> steps, only
  a completed one carries claims, citations or calculations, every claim has citations, they are among
  the citations of the outcome, and every citation is, field by field, a piece of evidence in an
  observation the gateway returned in this run or the history it was resumed from.\<close>

theorem run_outcome_grounded:
  assumes "limits_ok (rp_limits p)" and "agent_run (observed env) p i approved recon cx (w, []) = (Ended out, w', l)"
  shows "0 \<le> out_step_count out \<and> out_step_count out \<le> lim_max_steps (rp_limits p) \<and> outcome_ok out \<and>
    (out_terminal_status out = T_COMPLETED \<or> (out_claims out = [] \<and> out_citations out = [] \<and> out_calculations out = [])) \<and>
    list_all (\<lambda>c. gc_citation_ids c \<noteq> [] \<and> set (gc_citation_ids c) \<subseteq> ci_citation_id ` set (out_citations out))
      (out_claims out) \<and>
    (\<exists>obs. set obs \<subseteq> returned l \<union> rs_observation ` set recon \<and> set (out_citations out) \<subseteq> citation_of ` evidence_of obs)"
  using observed_run_end [OF assms] by (auto simp: end_inv_def good_outcome_def)

theorem run_outcome_grounded_witness:
  "\<exists>out w' l. example_run = (Ended out, w', l) \<and> out_terminal_status out = T_COMPLETED \<and>
     map ci_citation_id (out_citations out) = [''ev_2''] \<and> out_step_count out \<le> 4 \<and>
     (\<exists>obs. set obs \<subseteq> returned l \<and> set (out_citations out) \<subseteq> citation_of ` evidence_of obs)"
proof -
  obtain r w' l where r: "example_run = (r, w', l)" by (cases example_run) auto
  have "summary r = Some (T_COMPLETED, 1, [''ev_2''], ''Debt is 12 [ev_2]'')"
    using example_run_summary unfolding r prod.case by blast
  then obtain out where out: "r = Ended out" "out_terminal_status out = T_COMPLETED"
    "map ci_citation_id (out_citations out) = [''ev_2'']"
    by (auto simp: summary_def split: run_result.splits)
  show ?thesis
    using run_outcome_grounded [OF example_limits_ok r [unfolded example_run_def out(1)]] r out
    by (intro exI [of _ out] exI [of _ w'] exI [of _ l]) (simp add: example_params_def)
qed

text \<open>C17: without an approval nothing that needs one is executed.  The run pauses before it, and the
  request it raises names a tool call of a permitted tool that needs an approval, with the hash of
  exactly that action, while a step of the budget is left.\<close>

theorem run_pauses_for_approval:
  assumes "limits_ok (rp_limits p)" and "agent_run (observed env) p i None recon cx (w, []) = (r, w', l)"
  shows "list_all (\<lambda>c. \<not> needs_approval p (fst c)) l \<and>
    (case r of Paused ar \<Rightarrow> needs_approval p (ar_action ar) \<and> ar_action_hash ar = action_hash_of p (ar_action ar) \<and>
        act_type (ar_action ar) = TOOL_CALL \<and> act_name (ar_action ar) \<in> Some ` set (permitted_tools p) \<and>
        ar_step_count ar < lim_max_steps (rp_limits p)
     | _ \<Rightarrow> True)"
  using observed_run_end [OF assms]
  by (auto simp: end_inv_def calls_ok_def call_ok_def list_all_iff good_pause_def split: run_result.split)

lemma example_paused:
  "case agent_run (observed example_env) example_params None None [] example_context (0, []) of
     (Paused ar, w', l) \<Rightarrow> l = [] \<and> ar_action ar = example_search | _ \<Rightarrow> False"
  by code_simp

theorem run_pauses_for_approval_witness:
  "\<exists>ar w'. agent_run (observed example_env) example_params None None [] example_context (0, []) = (Paused ar, w', []) \<and>
     ar_action ar = example_search \<and> ar_action_hash ar = action_hash_of example_params example_search"
proof -
  obtain r w' l where r: "agent_run (observed example_env) example_params None None [] example_context (0, []) = (r, w', l)"
    by (rule prod_cases3)
  with example_paused obtain ar where ar: "r = Paused ar" "l = []" "ar_action ar = example_search"
    by (auto split: run_result.splits)
  show ?thesis using run_pauses_for_approval [OF example_limits_ok r] r ar by auto
qed

text \<open>The content-free snapshot of an observation holds at most eight identifiers.  A gateway result
  with more evidence, which the search contract allows, is refused by the snapshot model, and the run
  ends with an exception instead of an outcome.\<close>

theorem many_results_raise:
  assumes "8 < length (ob_evidence ob)"
  shows "\<exists>w'. record_observation env p rv a ps s n t ob w = (Inl (Raised ''ValidationError''), w')"
proof -
  have "\<not> safe_observation_ok (safe_observation_of ob)"
    using assms by (simp add: safe_observation_ok_def safe_observation_of_def)
  then show ?thesis
    by (simp add: record_observation_def Let_def elapsed_ms_def mk_safe_step_def mk_safe_observation_def bindM_def
        callM_def retM_def stopM_def split: prod.split)
qed

definition example_vars :: run_vars where
  "example_vars = \<lparr>rv_session = new_session example_params 1, rv_trace = [], rv_evidence_by_id = [], rv_step_count = 0,
     rv_replan_count = 0, rv_retry_count = 0, rv_retrieval_count = 0, rv_reconstructed = [], rv_approved_action_hash = None\<rparr>"

theorem many_results_raise_witness:
  "observation_ok (example_observation (replicate 9 (example_evidence ''ev_2''))) \<and>
   (\<exists>w'. record_observation example_env example_params example_vars example_search example_plan_state
      (hd (plan_steps (current_plan example_plan_state))) ''portfolio.search_authorized_documents'' 0
      (example_observation (replicate 9 (example_evidence ''ev_2''))) 0 = (Inl (Raised ''ValidationError''), w'))"
proof
  show "observation_ok (example_observation (replicate 9 (example_evidence ''ev_2'')))" by code_simp
  have "8 < length (ob_evidence (example_observation (replicate 9 (example_evidence ''ev_2''))))"
    by (simp add: example_observation_def)
  then show "\<exists>w'. record_observation example_env example_params example_vars example_search example_plan_state
      (hd (plan_steps (current_plan example_plan_state))) ''portfolio.search_authorized_documents'' 0
      (example_observation (replicate 9 (example_evidence ''ev_2''))) 0 = (Inl (Raised ''ValidationError''), w')"
    by (rule many_results_raise)
qed

end
