(* ===== verification/Chunking.thy ===== *)
theory Chunking
  imports Patterns "HOL-Library.Product_Lexorder" "HOL-Library.List_Lexorder" "HOL-Library.Char_ord"
begin

text \<open>
  The chunker, \<^verbatim>\<open>app/chunking/contracts.py\<close> and \<^verbatim>\<open>app/chunking/service.py\<close>, on the parsed documents of
  \<^verbatim>\<open>app/ingestion/contracts.py\<close>.  The SHA-256 digest is an argument; on the code points below 256
  the NFC normalization of \<^verbatim>\<open>_normalize\<close> is the identity.
\<close>

subsection \<open>Parsed documents\<close>

datatype FileKind = PDF | XLSX | CSV

datatype ValueKind = V_TEXT | V_NUMBER | V_BOOLEAN | V_DATE | V_FORMULA | V_ERROR

record ParsedPage =
  pg_page_number :: int
  pg_text :: string

record ParsedCell =
  cl_row_number :: int
  cl_column_number :: int
  cl_coordinate :: string
  cl_value_text :: string
  cl_value_kind :: ValueKind
  cl_formula_like :: bool

record ParsedRow =
  rw_row_number :: int
  rw_cells :: "ParsedCell list"

record ParsedSheet =
  sh_sheet_index :: int
  sh_name :: string
  sh_rows :: "ParsedRow list"

record ParsedDocument =
  doc_kind :: FileKind
  doc_pages :: "ParsedPage list"
  doc_sheets :: "ParsedSheet list"
  doc_text_length :: int

subsection \<open>Limits, metadata and chunks\<close>

datatype ChunkingErrorCode = INVALID_LIFECYCLE | INVALID_SOURCE | SOURCE_LIMIT_EXCEEDED | RESULT_LIMIT_EXCEEDED

text \<open>\<open>ChunkValueError\<close> is the exception of the constructor of a chunk.\<close>

datatype chunk_error = ChunkingError ChunkingErrorCode | ChunkValueError

record ChunkingLimits =
  max_content_chars :: int
  max_chunks :: int
  max_source_chars :: int
  max_pages :: int
  max_sheets :: int
  max_rows :: int
  max_cells :: int
  spreadsheet_rows_per_chunk :: int

definition chunking_limits_ok :: "ChunkingLimits \<Rightarrow> bool" where
  "chunking_limits_ok l =
     (list_all (\<lambda>v. 0 < v) [max_content_chars l, max_chunks l, max_source_chars l, max_pages l, max_sheets l,
        max_rows l, max_cells l, spreadsheet_rows_per_chunk l] \<and> 32 \<le> max_content_chars l)"

definition DEFAULT_LIMITS :: ChunkingLimits where
  "DEFAULT_LIMITS = \<lparr>max_content_chars = 2000, max_chunks = 5000, max_source_chars = 1000000, max_pages = 1000,
     max_sheets = 100, max_rows = 100000, max_cells = 500000, spreadsheet_rows_per_chunk = 25\<rparr>"

record ChunkMetadata =
  md_tenant_id :: uuid
  md_company_id :: uuid
  md_department :: string
  md_visibility :: string
  md_classification :: string
  md_document_id :: uuid
  md_document_version_id :: uuid
  md_document_version :: int
  md_version_status :: string
  md_active :: bool
  md_document_deleted :: bool
  md_version_deleted :: bool

definition chunk_metadata_ok :: "ChunkMetadata \<Rightarrow> bool" where
  "chunk_metadata_ok m = (1 \<le> md_document_version m \<and> md_department m \<noteq> [] \<and> md_visibility m \<noteq> [] \<and>
     md_classification m \<noteq> [])"

record GeneratedChunk =
  gk_ordinal :: nat
  gk_tenant_id :: uuid
  gk_company_id :: uuid
  gk_department :: string
  gk_visibility :: string
  gk_classification :: string
  gk_document_id :: uuid
  gk_document_version_id :: uuid
  gk_document_version :: int
  gk_version_status :: string
  gk_active :: bool
  gk_source_type :: FileKind
  gk_content :: string
  gk_content_hash :: string
  gk_page_number :: "int option"
  gk_sheet_name :: "string option"
  gk_row_start :: "int option"
  gk_row_end :: "int option"
  gk_cell_start :: "string option"
  gk_cell_end :: "string option"

definition generated_chunk_ok :: "GeneratedChunk \<Rightarrow> bool" where
  "generated_chunk_ok c =
     (let is_pdf = (gk_page_number c \<noteq> None);
          is_spreadsheet = (gk_sheet_name c \<noteq> None \<and> gk_row_start c \<noteq> None \<and> gk_row_end c \<noteq> None \<and>
            gk_cell_start c \<noteq> None \<and> gk_cell_end c \<noteq> None);
          any_spreadsheet = (gk_sheet_name c \<noteq> None \<or> gk_row_start c \<noteq> None \<or> gk_row_end c \<noteq> None \<or>
            gk_cell_start c \<noteq> None \<or> gk_cell_end c \<noteq> None) in
      if gk_content c = [] then False
      else if is_pdf = is_spreadsheet then False
      else if is_pdf \<and> any_spreadsheet then False
      else if is_spreadsheet \<and> is_pdf then False
      else (case (gk_row_start c, gk_row_end c) of (Some a, Some b) \<Rightarrow> a \<le> b | _ \<Rightarrow> True))"

subsection \<open>Text\<close>

fun replace_crlf :: "string \<Rightarrow> string" where
  "replace_crlf (a # b # s) =
     (if a = CHR 0x0D \<and> b = newline then newline # replace_crlf s else a # replace_crlf (b # s))"
| "replace_crlf s = s"

definition normalize_text :: "string \<Rightarrow> string" where
  "normalize_text value =
     (let v = map (\<lambda>c. if c = CHR 0x0D then newline else c) (replace_crlf value) in
      strip (join [newline] (map rstrip (split_on newline v))))"

text \<open>\<^verbatim>\<open>\s+\S\<close> at the start of a text.\<close>

definition blank_then_text :: "string \<Rightarrow> bool" where
  "blank_then_text s = (case s of [] \<Rightarrow> False | c # cs \<Rightarrow> is_space c \<and> dropWhile is_space cs \<noteq> [])"

definition markdown_heading :: "string \<Rightarrow> bool" where
  "markdown_heading s =
     (let n = length (takeWhile (\<lambda>c. c = CHR ''#'') s) in
      1 \<le> n \<and> n \<le> 6 \<and> blank_then_text (drop n s))"

text \<open>\<^verbatim>\<open>(?:\.\d+)*\<close>: what is left after the longest match.  A shorter match never helps, because the
  rest of the pattern cannot start with a dot and a digit, nor with a digit.\<close>

function (sequential) drop_dotted :: "string \<Rightarrow> string" where
  "drop_dotted (c # d # s) =
     (if c = CHR ''.'' \<and> is_digit d then drop_dotted (dropWhile is_digit (d # s)) else c # d # s)"
| "drop_dotted s = s"
  by pat_completeness auto
termination
  by (relation "measure length") (auto intro: le_less_trans [OF length_dropWhile_le])

definition optional_mark :: "string \<Rightarrow> string" where
  "optional_mark s = (case s of c # cs \<Rightarrow> if c = CHR ''.'' \<or> c = CHR '')'' then cs else s | [] \<Rightarrow> [])"

definition numbered_heading :: "string \<Rightarrow> bool" where
  "numbered_heading s =
     ((case s of c # _ \<Rightarrow> is_digit c \<and> blank_then_text (optional_mark (drop_dotted (dropWhile is_digit s))) | [] \<Rightarrow> False) \<or>
      (case s of c # m # cs \<Rightarrow> is_upper c \<and> (m = CHR ''.'' \<or> m = CHR '')'') \<and> blank_then_text cs | _ \<Rightarrow> False))"

definition is_letter :: "char \<Rightarrow> bool" where
  "is_letter c = (is_lower c \<or> is_upper c)"

definition word_char :: "char \<Rightarrow> bool" where
  "word_char c = (is_letter c \<or> c = CHR 0x27 \<or> c = CHR ''-'')"

text \<open>\<^verbatim>\<open>_WORD.findall\<close>.\<close>

function find_words :: "string \<Rightarrow> string list" where
  "find_words [] = []"
| "find_words (c # s) =
     (if is_letter c then (c # takeWhile word_char s) # find_words (dropWhile word_char s) else find_words s)"
  by pat_completeness auto
termination
  by (relation "measure length") (auto simp: le_imp_less_Suc length_dropWhile_le)

text \<open>\<^verbatim>\<open>str.isalpha\<close> on one code point below 256, and whether \<^verbatim>\<open>str.upper\<close> leaves it unchanged.\<close>

definition is_alpha :: "char \<Rightarrow> bool" where
  "is_alpha c = (let n = (of_char c :: nat) in is_letter c \<or> n = 170 \<or> n = 181 \<or> n = 186 \<or> (192 \<le> n \<and> n \<noteq> 215 \<and> n \<noteq> 247))"

definition upper_fixed :: "char \<Rightarrow> bool" where
  "upper_fixed c = (let n = (of_char c :: nat) in \<not> (is_lower c \<or> n = 181 \<or> (223 \<le> n \<and> n \<noteq> 247)))"

definition is_heading :: "string \<Rightarrow> bool" where
  "is_heading line =
     (let candidate = strip line in
      if candidate = [] \<or> length candidate > 120 \<or> tab \<in> set candidate then False
      else if markdown_heading candidate \<or> numbered_heading candidate then True
      else let ws = find_words candidate in
        if ws = [] \<or> length ws > 14 then False
        else let letters = filter is_alpha candidate in
          if letters \<noteq> [] \<and> list_all upper_fixed letters then True
          else if last candidate \<in> set ''.;,?!'' then False
          else let significant = filter (\<lambda>w. length w > 3) ws in
            2 \<le> length ws \<and> significant \<noteq> [] \<and> list_all (\<lambda>w. is_upper (hd w)) significant)"

definition section_of :: "string list \<Rightarrow> string list" where
  "section_of current = (let s = strip (join [newline] current) in if s \<noteq> [] then [s] else [])"

fun sections_loop :: "string list \<Rightarrow> string list \<Rightarrow> string list" where
  "sections_loop [] current = section_of current"
| "sections_loop (line # lines) current =
     (if is_heading line \<and> (\<exists>item \<in> set current. strip item \<noteq> [])
      then section_of current @ sections_loop lines [line]
      else sections_loop lines (current @ [line]))"

definition pdf_sections :: "string \<Rightarrow> string list" where
  "pdf_sections txt = sections_loop (split_on newline txt) []"

text \<open>\<^verbatim>\<open>s.rfind(sub, start, end)\<close>.\<close>

definition rfind :: "string \<Rightarrow> string \<Rightarrow> nat \<Rightarrow> nat \<Rightarrow> int" where
  "rfind sub s start stop =
     (case filter (\<lambda>i. i + length sub \<le> min stop (length s) \<and> take (length sub) (drop i s) = sub)
             (rev [start..<Suc (length s)]) of
        [] \<Rightarrow> -1 | i # _ \<Rightarrow> int i)"

definition split_position :: "nat \<Rightarrow> string \<Rightarrow> nat" where
  "split_position maximum remaining =
     (let window = take (maximum + 1) remaining; lower_bound = maximum div 2;
          candidates = [rfind [newline, newline] window lower_bound (maximum + 1),
                        rfind [newline] window lower_bound (maximum + 1),
                        rfind '' '' window lower_bound (maximum + 1)] in
      case filter (\<lambda>position. position > 0) candidates of [] \<Rightarrow> maximum | position # _ \<Rightarrow> nat position)"

lemma split_position_pos: "0 < maximum \<Longrightarrow> 0 < split_position maximum s"
  by (auto simp: split_position_def Let_def split: list.split dest!: filter_eq_ConsD)

text \<open>
  \<^verbatim>\<open>_bounded_text\<close>.  The code calls it with a positive maximum only (\<open>chunking_limits_ok\<close> and the test
  \<^verbatim>\<open>available < 1\<close>); with 0 its loop would not end, and the recursion stops there.
\<close>

function bounded_loop :: "nat \<Rightarrow> string \<Rightarrow> string list" where
  "bounded_loop maximum remaining =
     (if remaining = [] \<or> maximum = 0 then []
      else if length remaining \<le> maximum then [remaining]
      else let split_at = split_position maximum remaining; part = strip (take split_at remaining) in
        if part = [] then take maximum remaining # bounded_loop maximum (strip (drop maximum remaining))
        else part # bounded_loop maximum (strip (drop split_at remaining)))"
  by pat_completeness auto
termination
proof (relation "measure (\<lambda>(m, s). length s)"; clarsimp)
  fix m :: nat and s :: string assume m: "0 < m" and s: "\<not> length s \<le> m"
  have less: "length (strip (drop k s)) < length s" if "0 < k" for k
    using length_strip_le [of "drop k s"] that s by (cases s) auto
  show "length (strip (drop m s)) < length s" using less m by simp
  show "length (strip (drop (split_position m s) s)) < length s" using less split_position_pos [OF m] by simp
qed

declare bounded_loop.simps [simp del]

definition bounded_text :: "string \<Rightarrow> nat \<Rightarrow> string list" where
  "bounded_text value maximum = bounded_loop maximum (strip value)"

subsection \<open>PDF\<close>

definition append_chunk :: "ChunkingLimits \<Rightarrow> GeneratedChunk list \<Rightarrow> GeneratedChunk \<Rightarrow> (chunk_error, GeneratedChunk list) result" where
  "append_chunk limits chunks chunk =
     (if \<not> generated_chunk_ok chunk then Inl ChunkValueError
      else if int (length (gk_content chunk)) > max_content_chars limits then Inl (ChunkingError RESULT_LIMIT_EXCEEDED)
      else if int (length chunks) \<ge> max_chunks limits then Inl (ChunkingError RESULT_LIMIT_EXCEEDED)
      else Inr (chunks @ [chunk]))"

fun append_all ::
  "ChunkingLimits \<Rightarrow> (nat \<Rightarrow> 'c \<Rightarrow> GeneratedChunk) \<Rightarrow> 'c list \<Rightarrow> GeneratedChunk list \<Rightarrow> (chunk_error, GeneratedChunk list) result" where
  "append_all limits mk [] chunks = Inr chunks"
| "append_all limits mk (c # cs) chunks =
     bindR (append_chunk limits chunks (mk (length chunks) c)) (append_all limits mk cs)"

definition pdf_chunk :: "(string \<Rightarrow> string) \<Rightarrow> ChunkMetadata \<Rightarrow> int \<Rightarrow> nat \<Rightarrow> string \<Rightarrow> GeneratedChunk" where
  "pdf_chunk sha md page_number ordinal content =
     \<lparr>gk_ordinal = ordinal, gk_tenant_id = md_tenant_id md, gk_company_id = md_company_id md,
      gk_department = md_department md, gk_visibility = md_visibility md, gk_classification = md_classification md,
      gk_document_id = md_document_id md, gk_document_version_id = md_document_version_id md,
      gk_document_version = md_document_version md, gk_version_status = md_version_status md, gk_active = md_active md,
      gk_source_type = PDF, gk_content = content, gk_content_hash = sha content, gk_page_number = Some page_number,
      gk_sheet_name = None, gk_row_start = None, gk_row_end = None, gk_cell_start = None, gk_cell_end = None\<rparr>"

definition page_contents :: "ChunkingLimits \<Rightarrow> ParsedPage \<Rightarrow> string list" where
  "page_contents limits page =
     concat (map (\<lambda>section. bounded_text section (nat (max_content_chars limits))) (pdf_sections (normalize_text (pg_text page))))"

fun pdf_pages ::
  "(string \<Rightarrow> string) \<Rightarrow> ChunkMetadata \<Rightarrow> ChunkingLimits \<Rightarrow> ParsedPage list \<Rightarrow> int list \<Rightarrow> GeneratedChunk list \<Rightarrow>
   (chunk_error, GeneratedChunk list) result" where
  "pdf_pages sha md limits [] seen chunks = Inr chunks"
| "pdf_pages sha md limits (page # pages) seen chunks =
     (if pg_page_number page \<in> set seen then Inl (ChunkingError INVALID_SOURCE)
      else bindR (append_all limits (pdf_chunk sha md (pg_page_number page)) (page_contents limits page) chunks)
             (pdf_pages sha md limits pages (pg_page_number page # seen)))"

definition chunk_pdf ::
  "(string \<Rightarrow> string) \<Rightarrow> ParsedDocument \<Rightarrow> ChunkMetadata \<Rightarrow> ChunkingLimits \<Rightarrow> (chunk_error, GeneratedChunk list) result" where
  "chunk_pdf sha parsed md limits =
     (if doc_sheets parsed \<noteq> [] \<or> int (length (doc_pages parsed)) > max_pages limits then Inl (ChunkingError INVALID_SOURCE)
      else pdf_pages sha md limits (sort_key pg_page_number (doc_pages parsed)) [] [])"

subsection \<open>Spreadsheets\<close>

text \<open>\<^verbatim>\<open>json.dumps\<close> of a text, without escaping characters that are not ASCII.\<close>

definition hex_digit :: "nat \<Rightarrow> char" where
  "hex_digit n = (if n < 10 then digit_char n else char_of (87 + n))"

definition json_char :: "char \<Rightarrow> string" where
  "json_char c =
     (let n = (of_char c :: nat) in
      if n = 34 then [CHR 0x5C, CHR 0x22] else if n = 92 then [CHR 0x5C, CHR 0x5C]
      else if n = 10 then [CHR 0x5C, CHR ''n''] else if n = 13 then [CHR 0x5C, CHR ''r'']
      else if n = 9 then [CHR 0x5C, CHR ''t''] else if n = 8 then [CHR 0x5C, CHR ''b'']
      else if n = 12 then [CHR 0x5C, CHR ''f'']
      else if n < 32 then [CHR 0x5C, CHR ''u'', CHR ''0'', CHR ''0'', hex_digit (n div 16), hex_digit (n mod 16)]
      else [c])"

definition json_dumps_text :: "string \<Rightarrow> string" where
  "json_dumps_text s = [CHR 0x22] @ concat (map json_char s) @ [CHR 0x22]"

definition render_cell :: "ParsedCell \<Rightarrow> string" where
  "render_cell cell = cl_coordinate cell @ ''='' @ json_dumps_text (cl_value_text cell)"

record SpreadsheetUnit =
  un_row_number :: int
  un_cell_start :: string
  un_cell_end :: string
  un_content :: string

definition flush :: "int \<Rightarrow> string \<Rightarrow> SpreadsheetUnit list \<Rightarrow> (string \<times> string) list \<Rightarrow> SpreadsheetUnit list" where
  "flush row_number prefix units current =
     (if current = [] then units
      else units @ [\<lparr>un_row_number = row_number, un_cell_start = fst (hd current), un_cell_end = fst (last current),
                     un_content = prefix @ join [tab] (map snd current)\<rparr>])"

fun row_loop ::
  "int \<Rightarrow> string \<Rightarrow> nat \<Rightarrow> ParsedCell list \<Rightarrow> SpreadsheetUnit list \<Rightarrow> (string \<times> string) list \<Rightarrow>
   (chunk_error, SpreadsheetUnit list) result" where
  "row_loop row_number prefix maximum [] units current = Inr (flush row_number prefix units current)"
| "row_loop row_number prefix maximum (cell # cells) units current =
     (let token = render_cell cell; proposed = prefix @ join [tab] (map snd current @ [token]) in
      if length proposed \<le> maximum
      then row_loop row_number prefix maximum cells units (current @ [(cl_coordinate cell, token)])
      else let units = flush row_number prefix units current in
        if length prefix + length token \<le> maximum
        then row_loop row_number prefix maximum cells units [(cl_coordinate cell, token)]
        else let value_prefix = prefix @ cl_coordinate cell @ ''=''; available = int maximum - int (length value_prefix) in
          if available < 1 then Inl (ChunkingError RESULT_LIMIT_EXCEEDED)
          else row_loop row_number prefix maximum cells
            (units @ map (\<lambda>fragment. \<lparr>un_row_number = row_number, un_cell_start = cl_coordinate cell,
                un_cell_end = cl_coordinate cell, un_content = value_prefix @ fragment\<rparr>)
              (bounded_text (json_dumps_text (cl_value_text cell)) (nat available))) [])"

definition row_prefix :: "ParsedRow \<Rightarrow> string" where
  "row_prefix row = ''row '' @ str_int (rw_row_number row) @ [tab]"

definition sorted_cells :: "ParsedRow \<Rightarrow> ParsedCell list" where
  "sorted_cells row = sort_key (\<lambda>cell. (cl_column_number cell, cl_coordinate cell)) (rw_cells row)"

definition row_units :: "ParsedRow \<Rightarrow> nat \<Rightarrow> (chunk_error, SpreadsheetUnit list) result" where
  "row_units row maximum =
     (let cells = sorted_cells row in
      if \<not> distinct (map cl_column_number cells) then Inl (ChunkingError INVALID_SOURCE)
      else row_loop (rw_row_number row) (row_prefix row) maximum cells [] [])"

definition unit_group :: "SpreadsheetUnit list \<Rightarrow> string \<times> int \<times> int \<times> string \<times> string" where
  "unit_group current =
     (join [newline] (map un_content current), un_row_number (hd current), un_row_number (last current),
      un_cell_start (hd current), un_cell_end (last current))"

fun group_loop ::
  "ChunkingLimits \<Rightarrow> SpreadsheetUnit list \<Rightarrow> SpreadsheetUnit list \<Rightarrow> int list \<Rightarrow> (string \<times> int \<times> int \<times> string \<times> string) list" where
  "group_loop limits [] current distinct_rows = (if current \<noteq> [] then [unit_group current] else [])"
| "group_loop limits (unit # units) current distinct_rows =
     (let proposed_rows = List.insert (un_row_number unit) distinct_rows;
          proposed_content = join [newline] (map un_content current @ [un_content unit]) in
      if current \<noteq> [] \<and> (int (length proposed_content) > max_content_chars limits \<or>
           int (length proposed_rows) > spreadsheet_rows_per_chunk limits)
      then unit_group current # group_loop limits units [unit] [un_row_number unit]
      else group_loop limits units (current @ [unit]) proposed_rows)"

definition group_units :: "ChunkingLimits \<Rightarrow> SpreadsheetUnit list \<Rightarrow> (string \<times> int \<times> int \<times> string \<times> string) list" where
  "group_units limits units = group_loop limits units [] []"

text \<open>The rows of a sheet; the counters run over the whole document.\<close>

fun sheet_rows ::
  "ChunkingLimits \<Rightarrow> ParsedRow list \<Rightarrow> int list \<Rightarrow> int \<Rightarrow> int \<Rightarrow> SpreadsheetUnit list \<Rightarrow>
   (chunk_error, int \<times> int \<times> SpreadsheetUnit list) result" where
  "sheet_rows limits [] seen row_count cell_count units = Inr (row_count, cell_count, units)"
| "sheet_rows limits (row # rows) seen row_count cell_count units =
     (if rw_row_number row \<in> set seen then Inl (ChunkingError INVALID_SOURCE)
      else let row_count = row_count + 1; cell_count = cell_count + int (length (rw_cells row)) in
        if row_count > max_rows limits \<or> cell_count > max_cells limits then Inl (ChunkingError SOURCE_LIMIT_EXCEEDED)
        else bindR (row_units row (nat (max_content_chars limits))) (\<lambda>us.
          sheet_rows limits rows (rw_row_number row # seen) row_count cell_count (units @ us)))"

definition spreadsheet_chunk ::
  "(string \<Rightarrow> string) \<Rightarrow> ChunkMetadata \<Rightarrow> FileKind \<Rightarrow> string \<Rightarrow> nat \<Rightarrow> string \<times> int \<times> int \<times> string \<times> string \<Rightarrow> GeneratedChunk" where
  "spreadsheet_chunk sha md kind sheet_name ordinal g =
     (case g of (content, row_start, row_end, cell_start, cell_end) \<Rightarrow>
     \<lparr>gk_ordinal = ordinal, gk_tenant_id = md_tenant_id md, gk_company_id = md_company_id md,
      gk_department = md_department md, gk_visibility = md_visibility md, gk_classification = md_classification md,
      gk_document_id = md_document_id md, gk_document_version_id = md_document_version_id md,
      gk_document_version = md_document_version md, gk_version_status = md_version_status md, gk_active = md_active md,
      gk_source_type = kind, gk_content = content, gk_content_hash = sha content, gk_page_number = None,
      gk_sheet_name = Some sheet_name, gk_row_start = Some row_start, gk_row_end = Some row_end,
      gk_cell_start = Some cell_start, gk_cell_end = Some cell_end\<rparr>)"

fun sheets_loop ::
  "(string \<Rightarrow> string) \<Rightarrow> FileKind \<Rightarrow> ChunkMetadata \<Rightarrow> ChunkingLimits \<Rightarrow> ParsedSheet list \<Rightarrow> (int \<times> string) list \<Rightarrow>
   int \<Rightarrow> int \<Rightarrow> GeneratedChunk list \<Rightarrow> (chunk_error, GeneratedChunk list) result" where
  "sheets_loop sha kind md limits [] seen row_count cell_count chunks = Inr chunks"
| "sheets_loop sha kind md limits (sheet # sheets) seen row_count cell_count chunks =
     (let sheet_identity = (sh_sheet_index sheet, sh_name sheet) in
      if sheet_identity \<in> set seen then Inl (ChunkingError INVALID_SOURCE)
      else bindR (sheet_rows limits (sort_key rw_row_number (sh_rows sheet)) [] row_count cell_count [])
        (\<lambda>(row_count, cell_count, units).
         bindR (append_all limits (spreadsheet_chunk sha md kind (sh_name sheet)) (group_units limits units) chunks)
           (sheets_loop sha kind md limits sheets (sheet_identity # seen) row_count cell_count)))"

definition chunk_spreadsheet ::
  "(string \<Rightarrow> string) \<Rightarrow> ParsedDocument \<Rightarrow> ChunkMetadata \<Rightarrow> ChunkingLimits \<Rightarrow> (chunk_error, GeneratedChunk list) result" where
  "chunk_spreadsheet sha parsed md limits =
     (if doc_pages parsed \<noteq> [] \<or> int (length (doc_sheets parsed)) > max_sheets limits then Inl (ChunkingError INVALID_SOURCE)
      else sheets_loop sha (doc_kind parsed) md limits
        (sort_key (\<lambda>s. (sh_sheet_index s, sh_name s)) (doc_sheets parsed)) [] 0 0 [])"

definition source_chars :: "ParsedDocument \<Rightarrow> int" where
  "source_chars parsed =
     (\<Sum>page\<leftarrow>doc_pages parsed. int (length (pg_text page))) +
     (\<Sum>sheet\<leftarrow>doc_sheets parsed. \<Sum>row\<leftarrow>sh_rows sheet. \<Sum>cell\<leftarrow>rw_cells row. int (length (cl_value_text cell)))"

definition chunk_document ::
  "(string \<Rightarrow> string) \<Rightarrow> ParsedDocument \<Rightarrow> ChunkMetadata \<Rightarrow> ChunkingLimits \<Rightarrow> (chunk_error, GeneratedChunk list) result" where
  "chunk_document sha parsed md limits =
     (if md_version_status md \<noteq> ''APPROVED'' \<or> \<not> md_active md \<or> md_document_deleted md \<or> md_version_deleted md
      then Inl (ChunkingError INVALID_LIFECYCLE)
      else if doc_text_length parsed > max_source_chars limits \<or> source_chars parsed > max_source_chars limits
      then Inl (ChunkingError SOURCE_LIMIT_EXCEEDED)
      else bindR (if doc_kind parsed = PDF then chunk_pdf sha parsed md limits else chunk_spreadsheet sha parsed md limits)
        (\<lambda>chunks. if chunks = [] then Inl (ChunkingError INVALID_SOURCE) else Inr chunks))"

subsection \<open>The text of a document survives the splitting\<close>

text \<open>What the chunker must keep of a text: everything but blanks.\<close>

definition ink :: "string \<Rightarrow> string" where
  "ink s = filter (\<lambda>c. \<not> is_space c) s"

lemma ink_simps [simp]: "ink [] = []" "ink (s @ t) = ink s @ ink t"
  by (simp_all add: ink_def)

lemma ink_blank: "\<forall>c \<in> set s. is_space c \<Longrightarrow> ink s = []"
  by (simp add: ink_def)

lemma ink_strip [simp]: "ink (strip s) = ink s"
proof -
  obtain u v where s: "s = u @ strip s @ v" and b: "\<forall>c \<in> set u \<union> set v. is_space c" using strip_infix by blast
  have "ink s = ink u @ ink (strip s) @ ink v" using arg_cong [OF s, of ink] by simp
  with b show ?thesis by (simp add: ink_blank)
qed

lemma ink_rstrip [simp]: "ink (rstrip s) = ink s"
proof -
  obtain v where s: "s = rstrip s @ v" and b: "\<forall>c \<in> set v. is_space c" using rstrip_prefix by blast
  have "ink s = ink (rstrip s) @ ink v" using arg_cong [OF s, of ink] by simp
  with b show ?thesis by (simp add: ink_blank)
qed

lemma is_space_newline [simp]: "is_space newline" "is_space CHR 0x0D" "is_space tab"
  by (simp_all add: is_space_def newline_def tab_def)

lemma ink_newline [simp]: "ink [newline] = []" "ink (newline # s) = ink s"
  by (simp_all add: ink_def)

lemma ink_join: "ink sep = [] \<Longrightarrow> ink (join sep xs) = ink (concat xs)"
  by (induction sep xs rule: join.induct) simp_all

lemma ink_split_on_acc: "is_space c \<Longrightarrow> ink (concat (split_on_acc c w s)) = ink (w @ s)"
  by (induction c w s rule: split_on_acc.induct) (auto simp: ink_def)

lemma ink_split_on: "ink (concat (split_on newline s)) = ink s"
  by (simp add: split_on_def ink_split_on_acc)

lemma ink_concat_rstrip: "ink (concat (map rstrip xs)) = ink (concat xs)"
  by (induction xs) simp_all

lemma ink_replace_crlf: "ink (replace_crlf s) = ink s"
  by (induction s rule: replace_crlf.induct) (auto simp: ink_def)

lemma ink_map_cr: "ink (map (\<lambda>c. if c = CHR 0x0D then newline else c) s) = ink s"
  by (induction s) (auto simp: ink_def)

lemma ink_normalize_text: "ink (normalize_text s) = ink s"
  by (simp add: normalize_text_def Let_def ink_join ink_concat_rstrip ink_split_on ink_map_cr ink_replace_crlf)

lemma ink_section_of: "ink (concat (section_of current)) = ink (concat current)"
proof (cases "strip (join [newline] current) = []")
  case True
  then have "ink (concat current) = ink []" by (metis ink_join ink_newline(1) ink_strip)
  with True show ?thesis by (simp add: section_of_def)
next
  case False
  then show ?thesis by (simp add: section_of_def Let_def ink_join)
qed

lemma ink_sections_loop: "ink (concat (sections_loop ls current)) = ink (concat current @ concat ls)"
  by (induction ls current rule: sections_loop.induct) (simp_all add: ink_section_of)

lemma ink_pdf_sections: "ink (concat (pdf_sections s)) = ink s"
  by (simp add: pdf_sections_def ink_sections_loop ink_split_on)

subsection \<open>Bounded parts\<close>

lemma rfind_le:
  assumes "sub \<noteq> []"
  shows "nat (rfind sub s start (Suc m)) \<le> m"
proof -
  let ?P = "\<lambda>i. i + length sub \<le> min (Suc m) (length s) \<and> take (length sub) (drop i s) = sub"
  show ?thesis
  proof (cases "filter ?P (rev [start..<Suc (length s)])")
    case (Cons i xs)
    have "i \<in> set (filter ?P (rev [start..<Suc (length s)]))" unfolding Cons by simp
    then have "i + length sub \<le> Suc m" unfolding set_filter by simp
    moreover have "0 < length sub" using assms by simp
    ultimately have "i \<le> m" by linarith
    then show ?thesis unfolding rfind_def Cons list.case by simp
  next
    case Nil
    then show ?thesis unfolding rfind_def Nil list.case by simp
  qed
qed

lemma split_position_le: "split_position maximum s \<le> maximum"
  unfolding split_position_def Let_def by (simp add: rfind_le)

lemma bounded_loop_parts:
  "0 < maximum \<Longrightarrow> p \<in> set (bounded_loop maximum s) \<Longrightarrow> p \<noteq> [] \<and> length p \<le> maximum"
proof (induction maximum s rule: bounded_loop.induct)
  case (1 maximum s)
  have part: "length (strip (take (split_position maximum s) s)) \<le> maximum"
    using length_strip_le [of "take (split_position maximum s) s"] split_position_le [of maximum s] by simp
  show ?case
    using "1.prems" "1.IH" part
    by (subst (asm) bounded_loop.simps) (auto simp: Let_def split: if_splits)
qed

lemma ink_take_drop: "ink (take k s) @ ink (strip (drop k s)) = ink s"
  by (metis append_take_drop_id ink_simps(2) ink_strip)

lemma bounded_loop_ink: "0 < maximum \<Longrightarrow> ink (concat (bounded_loop maximum s)) = ink s"
proof (induction maximum s rule: bounded_loop.induct)
  case (1 maximum s)
  show ?case
    using "1.prems" "1.IH" ink_take_drop [of "split_position maximum s" s] ink_take_drop [of maximum s]
    by (subst bounded_loop.simps) (auto simp: Let_def)
qed

text \<open>What the rest of the chunker relies on of the splitting of a text.\<close>

locale text_splitter =
  fixes split :: "string \<Rightarrow> nat \<Rightarrow> string list"
  assumes part_bounds: "0 < n \<Longrightarrow> p \<in> set (split s n) \<Longrightarrow> p \<noteq> [] \<and> length p \<le> n"
    and keeps_ink: "0 < n \<Longrightarrow> ink (concat (split s n)) = ink s"
begin

lemma sections_bounds:
  "0 < n \<Longrightarrow> p \<in> set (concat (map (\<lambda>s. split s n) ss)) \<Longrightarrow> p \<noteq> [] \<and> length p \<le> n"
  by (auto dest: part_bounds)

lemma sections_ink: "0 < n \<Longrightarrow> ink (concat (concat (map (\<lambda>s. split s n) ss))) = ink (concat ss)"
  by (induction ss) (simp_all add: keeps_ink)

text \<open>Parts that are blank-free only at their ends cannot all vanish: a text with ink has a part.\<close>

lemma split_nonempty: "0 < n \<Longrightarrow> ink s \<noteq> [] \<Longrightarrow> split s n \<noteq> []"
  using keeps_ink [of n s] by auto

end

interpretation bounded: text_splitter bounded_text
  by unfold_locales (simp_all add: bounded_text_def bounded_loop_parts bounded_loop_ink)

lemma page_contents_ink:
  "0 < max_content_chars limits \<Longrightarrow> ink (concat (page_contents limits page)) = ink (pg_text page)"
  by (simp add: page_contents_def bounded.sections_ink ink_pdf_sections ink_normalize_text)

lemma page_contents_bounds:
  "0 < max_content_chars limits \<Longrightarrow> c \<in> set (page_contents limits page) \<Longrightarrow>
   c \<noteq> [] \<and> int (length c) \<le> max_content_chars limits"
  using bounded.sections_bounds [of "nat (max_content_chars limits)" c "pdf_sections (normalize_text (pg_text page))"]
  by (auto simp: page_contents_def)

subsection \<open>Chunk lists\<close>

text \<open>The invariant of the list of chunks.\<close>

definition carries :: "ChunkMetadata \<Rightarrow> GeneratedChunk \<Rightarrow> bool" where
  "carries md c = (gk_tenant_id c = md_tenant_id md \<and> gk_company_id c = md_company_id md \<and>
     gk_department c = md_department md \<and> gk_visibility c = md_visibility md \<and> gk_classification c = md_classification md \<and>
     gk_document_id c = md_document_id md \<and> gk_document_version_id c = md_document_version_id md \<and>
     gk_document_version c = md_document_version md \<and> gk_version_status c = md_version_status md \<and>
     gk_active c = md_active md)"

definition chunks_ok :: "(string \<Rightarrow> string) \<Rightarrow> ChunkMetadata \<Rightarrow> ChunkingLimits \<Rightarrow> GeneratedChunk list \<Rightarrow> bool" where
  "chunks_ok sha md limits cs =
     (int (length cs) \<le> max_chunks limits \<and> map gk_ordinal cs = [0..<length cs] \<and>
      list_all (\<lambda>c. generated_chunk_ok c \<and> int (length (gk_content c)) \<le> max_content_chars limits \<and>
        gk_content_hash c = sha (gk_content c) \<and> carries md c) cs)"

lemma chunks_ok_Nil: "0 \<le> max_chunks limits \<Longrightarrow> chunks_ok sha md limits []"
  by (simp add: chunks_ok_def)

text \<open>A way to build chunks that fits the invariant, for the pieces of content \<open>cs\<close>.\<close>

definition builds :: "(string \<Rightarrow> string) \<Rightarrow> ChunkMetadata \<Rightarrow> (nat \<Rightarrow> 'c \<Rightarrow> GeneratedChunk) \<Rightarrow> 'c set \<Rightarrow> bool" where
  "builds sha md mk cs = (\<forall>c \<in> cs. \<forall>n. gk_ordinal (mk n c) = n \<and> generated_chunk_ok (mk n c) \<and>
     gk_content_hash (mk n c) = sha (gk_content (mk n c)) \<and> carries md (mk n c))"

lemma append_chunk_ok:
  assumes "append_chunk limits chunks (mk (length chunks) c) = Inr out" and "chunks_ok sha md limits chunks"
    and "builds sha md mk {c}"
  shows "chunks_ok sha md limits out \<and> out = chunks @ [mk (length chunks) c]"
  using assms by (auto simp: append_chunk_def chunks_ok_def builds_def split: if_splits)

lemma append_all_ok:
  assumes "append_all limits mk cs chunks = Inr out" and "chunks_ok sha md limits chunks" and "builds sha md mk (set cs)"
  shows "chunks_ok sha md limits out"
  using assms
proof (induction cs arbitrary: chunks)
  case (Cons c cs)
  from Cons.prems(1) obtain mid where a: "append_chunk limits chunks (mk (length chunks) c) = Inr mid"
    and r: "append_all limits mk cs mid = Inr out" by (auto simp: result_simps)
  from Cons.prems(3) have b: "builds sha md mk {c}" "builds sha md mk (set cs)" by (simp_all add: builds_def)
  from append_chunk_ok [OF a Cons.prems(2) b(1)] have "chunks_ok sha md limits mid" by (rule conjunct1)
  from Cons.IH [OF r this b(2)] show ?case .
qed simp

lemma append_all_contents:
  assumes "\<And>n c. gk_content (mk n c) = f c" and "append_all limits mk cs chunks = Inr out"
  shows "map gk_content out = map gk_content chunks @ map f cs"
  using assms(2)
  by (induction cs arbitrary: chunks) (auto simp: result_simps append_chunk_def assms(1) split: if_splits)

lemma append_all_value_error:
  "builds sha md mk (set cs) \<Longrightarrow> append_all limits mk cs chunks \<noteq> Inl ChunkValueError"
proof (induction cs arbitrary: chunks)
  case (Cons c cs)
  then have "append_chunk limits chunks (mk (length chunks) c) \<noteq> Inl ChunkValueError"
    by (simp add: append_chunk_def builds_def)
  with Cons show ?case by (auto simp: result_simps builds_def)
qed simp

subsection \<open>PDF documents\<close>

lemma pdf_chunk_builds: "\<forall>c \<in> cs. c \<noteq> [] \<Longrightarrow> builds sha md (pdf_chunk sha md n) cs"
  by (simp add: builds_def pdf_chunk_def generated_chunk_ok_def carries_def)

lemma pdf_chunk_content [simp]: "gk_content (pdf_chunk sha md n i c) = c"
  by (simp add: pdf_chunk_def)

lemma page_builds:
  "0 < max_content_chars limits \<Longrightarrow> builds sha md (pdf_chunk sha md (pg_page_number page)) (set (page_contents limits page))"
  by (rule pdf_chunk_builds) (auto dest: page_contents_bounds)

lemma pdf_pages_ok:
  assumes "pdf_pages sha md limits pages seen chunks = Inr out" and "chunks_ok sha md limits chunks"
    and "0 < max_content_chars limits"
  shows "chunks_ok sha md limits out \<and>
    ink (concat (map gk_content out)) = ink (concat (map gk_content chunks)) @ ink (concat (map pg_text pages))"
  using assms
proof (induction pages arbitrary: seen chunks)
  case (Cons page pages)
  from Cons.prems(1) obtain mid where
    a: "append_all limits (pdf_chunk sha md (pg_page_number page)) (page_contents limits page) chunks = Inr mid"
    and r: "pdf_pages sha md limits pages (pg_page_number page # seen) mid = Inr out"
    by (auto simp: result_simps split: if_splits)
  have "map gk_content mid = map gk_content chunks @ page_contents limits page"
    using append_all_contents [OF pdf_chunk_content a] by simp
  with Cons.IH [OF r append_all_ok [OF a Cons.prems(2) page_builds [OF Cons.prems(3)]] Cons.prems(3)]
    page_contents_ink [OF Cons.prems(3), of page] show ?case by simp
qed simp

lemma pdf_pages_value_error:
  "0 < max_content_chars limits \<Longrightarrow> pdf_pages sha md limits pages seen chunks \<noteq> Inl ChunkValueError"
  by (induction pages arbitrary: seen chunks)
     (auto simp: result_simps append_all_value_error [OF page_builds])

subsection \<open>Spreadsheets\<close>

definition unit_ok :: "nat \<Rightarrow> SpreadsheetUnit \<Rightarrow> bool" where
  "unit_ok maximum u = (un_content u \<noteq> [] \<and> length (un_content u) \<le> maximum)"

lemma flush_ok:
  assumes "list_all (\<lambda>u. unit_ok m u \<and> un_row_number u = n) units" and "prefix \<noteq> []"
    and "current \<noteq> [] \<Longrightarrow> length (prefix @ join [tab] (map snd current)) \<le> m"
  shows "list_all (\<lambda>u. unit_ok m u \<and> un_row_number u = n) (flush n prefix units current)"
  using assms by (simp add: flush_def unit_ok_def)

lemma row_loop_ok:
  assumes "row_loop n prefix m cells units current = Inr out"
    and "list_all (\<lambda>u. unit_ok m u \<and> un_row_number u = n) units" and "prefix \<noteq> []"
    and "current \<noteq> [] \<Longrightarrow> length (prefix @ join [tab] (map snd current)) \<le> m"
  shows "list_all (\<lambda>u. unit_ok m u \<and> un_row_number u = n) out"
  using assms
proof (induction cells arbitrary: units current)
  case Nil
  then show ?case using flush_ok [of m n units prefix current] by simp
next
  case (Cons cell cells)
  let ?token = "render_cell cell" and ?vp = "prefix @ cl_coordinate cell @ ''=''"
  note fl = flush_ok [OF Cons.prems(2,3,4)]
  consider (fits) "length (prefix @ join [tab] (map snd current @ [?token])) \<le> m"
    | (alone) "\<not> length (prefix @ join [tab] (map snd current @ [?token])) \<le> m" "length prefix + length ?token \<le> m"
    | (cut) "\<not> length (prefix @ join [tab] (map snd current @ [?token])) \<le> m" "\<not> length prefix + length ?token \<le> m"
    by blast
  then show ?case
  proof cases
    case fits
    with Cons.prems(1) have "row_loop n prefix m cells units (current @ [(cl_coordinate cell, ?token)]) = Inr out"
      by (simp add: Let_def)
    from Cons.IH [OF this Cons.prems(2,3)] fits show ?thesis by simp
  next
    case alone
    with Cons.prems(1) have "row_loop n prefix m cells (flush n prefix units current) [(cl_coordinate cell, ?token)] = Inr out"
      by (simp add: Let_def)
    from Cons.IH [OF this fl Cons.prems(3)] alone show ?thesis by simp
  next
    case cut
    let ?av = "int m - int (length ?vp)"
    let ?frag = "\<lambda>fragment. \<lparr>un_row_number = n, un_cell_start = cl_coordinate cell, un_cell_end = cl_coordinate cell,
      un_content = ?vp @ fragment\<rparr>"
    from cut Cons.prems(1) have av: "1 \<le> ?av"
      and r: "row_loop n prefix m cells (flush n prefix units current @
        map ?frag (bounded_text (json_dumps_text (cl_value_text cell)) (nat ?av))) [] = Inr out"
      by (auto simp: Let_def split: if_splits)
    have "unit_ok m (?frag p) \<and> un_row_number (?frag p) = n"
      if "p \<in> set (bounded_text (json_dumps_text (cl_value_text cell)) (nat ?av))" for p
      using bounded.part_bounds [OF _ that] av by (auto simp: unit_ok_def)
    then have "list_all (\<lambda>u. unit_ok m u \<and> un_row_number u = n) (flush n prefix units current @
        map ?frag (bounded_text (json_dumps_text (cl_value_text cell)) (nat ?av)))"
      using fl by (auto simp: list_all_iff)
    from Cons.IH [OF r this Cons.prems(3)] show ?thesis by simp
  qed
qed

lemma row_units_ok:
  "row_units row m = Inr out \<Longrightarrow> list_all (\<lambda>u. unit_ok m u \<and> un_row_number u = rw_row_number row) out"
  by (auto simp: row_units_def Let_def row_prefix_def split: if_splits intro: row_loop_ok)

lemma sheet_rows_ok:
  assumes "sheet_rows limits rows seen rc cc units = Inr (rc', cc', out)"
    and "sorted (map rw_row_number rows)" and "sorted (map un_row_number units)"
    and "\<forall>u \<in> set units. \<forall>r \<in> set rows. un_row_number u \<le> rw_row_number r"
    and "list_all (unit_ok (nat (max_content_chars limits))) units"
  shows "sorted (map un_row_number out) \<and> list_all (unit_ok (nat (max_content_chars limits))) out"
  using assms
proof (induction rows arbitrary: seen rc cc units)
  case (Cons row rows)
  from Cons.prems(1) obtain us where us: "row_units row (nat (max_content_chars limits)) = Inr us"
    and r: "sheet_rows limits rows (rw_row_number row # seen) (rc + 1) (cc + int (length (rw_cells row))) (units @ us) =
      Inr (rc', cc', out)"
    by (auto simp: result_simps Let_def split: if_splits)
  note u = row_units_ok [OF us]
  have "map un_row_number us = replicate (length us) (rw_row_number row)"
    using u by (induction us) auto
  then have "sorted (map un_row_number (units @ us))"
    using Cons.prems(3,4) by (auto simp: sorted_append)
  moreover have "\<forall>x \<in> set (units @ us). \<forall>r \<in> set rows. un_row_number x \<le> rw_row_number r"
    using Cons.prems(2,4) u by (auto simp: list_all_iff)
  moreover have "list_all (unit_ok (nat (max_content_chars limits))) (units @ us)"
    using Cons.prems(5) u by (auto simp: list_all_iff)
  ultimately show ?case using Cons.IH [OF r] Cons.prems(2) by simp
qed simp

text \<open>The groups are consecutive parts of the units, bounded in text and rows.\<close>

definition group_ok :: "ChunkingLimits \<Rightarrow> SpreadsheetUnit list \<Rightarrow> bool" where
  "group_ok limits us = (us \<noteq> [] \<and> int (length (join [newline] (map un_content us))) \<le> max_content_chars limits \<and>
     int (card (un_row_number ` set us)) \<le> spreadsheet_rows_per_chunk limits)"

lemma group_loop_partition:
  assumes "\<forall>u \<in> set units. int (length (un_content u)) \<le> max_content_chars limits" and "1 \<le> spreadsheet_rows_per_chunk limits"
    and "current \<noteq> [] \<Longrightarrow> group_ok limits current" and "distinct rows" and "set rows = un_row_number ` set current"
  shows "\<exists>uss. group_loop limits units current rows = map unit_group uss \<and> concat uss = current @ units \<and>
    list_all (group_ok limits) uss"
  using assms
proof (induction units arbitrary: current rows)
  case Nil
  then show ?case
    by (cases "current = []") (auto intro: exI [of _ "[]"] exI [of _ "[current]"])
next
  case (Cons u units)
  let ?rows = "List.insert (un_row_number u) rows"
  have card: "card (un_row_number ` set (current @ [u])) = length ?rows"
    using Cons.prems(4,5) by (metis distinct_card distinct_insert image_set image_insert list.set(1) list.simps(15)
        set_append set_insert sup_commute insert_is_Un)
  have one: "group_ok limits [u]" using Cons.prems(1,2) by (simp add: group_ok_def)
  show ?case
  proof (cases "current \<noteq> [] \<and> (int (length (join [newline] (map un_content current @ [un_content u]))) > max_content_chars limits \<or>
           int (length ?rows) > spreadsheet_rows_per_chunk limits)")
    case True
    from Cons.IH [of "[u]" "[un_row_number u]"] Cons.prems(1,2) one obtain uss where
      "group_loop limits units [u] [un_row_number u] = map unit_group uss" "concat uss = [u] @ units" "list_all (group_ok limits) uss"
      by auto
    with True Cons.prems(3) show ?thesis by (auto simp: Let_def intro!: exI [of _ "current # uss"])
  next
    case False
    have "group_ok limits (current @ [u])"
    proof (cases "current = []")
      case ne: False
      with False have "int (length ?rows) \<le> spreadsheet_rows_per_chunk limits"
        "int (length (join [newline] (map un_content current @ [un_content u]))) \<le> max_content_chars limits" by simp_all
      then show ?thesis unfolding group_ok_def card by simp
    qed (simp add: one)
    with Cons.IH [of "current @ [u]" ?rows] Cons.prems(1,2,4,5) False show ?thesis by (auto simp: Let_def)
  qed
qed

lemma unit_ok_length: "unit_ok (nat n) u \<Longrightarrow> 0 \<le> n \<Longrightarrow> int (length (un_content u)) \<le> n"
  by (simp add: unit_ok_def le_nat_iff)

lemma group_units_partition:
  assumes "list_all (unit_ok (nat (max_content_chars limits))) units" and "chunking_limits_ok limits"
  shows "\<exists>uss. group_units limits units = map unit_group uss \<and> concat uss = units \<and> list_all (group_ok limits) uss"
proof -
  have "\<forall>u \<in> set units. int (length (un_content u)) \<le> max_content_chars limits" and "1 \<le> spreadsheet_rows_per_chunk limits"
    using assms by (auto simp: list_all_iff chunking_limits_ok_def intro: unit_ok_length)
  from group_loop_partition [OF this, of "[]" "[]"] show ?thesis by (simp add: group_units_def)
qed

lemma sorted_hd_last: "sorted xs \<Longrightarrow> xs \<noteq> [] \<Longrightarrow> hd xs \<le> last xs"
  by (cases xs) auto

lemma join_nonempty: "x \<in> set xs \<Longrightarrow> x \<noteq> [] \<Longrightarrow> join sep xs \<noteq> []"
  by (induction sep xs rule: join.induct) auto

text \<open>The chunks of a sheet are well formed: the rows of a group are in order.\<close>

lemma groups_build:
  assumes "group_units limits units = map unit_group uss" and "concat uss = units" and "list_all (group_ok limits) uss"
    and "sorted (map un_row_number units)" and "list_all (unit_ok m) units"
  shows "builds sha md (spreadsheet_chunk sha md kind name) (set (group_units limits units))"
proof -
  have "generated_chunk_ok (spreadsheet_chunk sha md kind name k (unit_group us))" if us: "us \<in> set uss" for us k
  proof -
    from us assms(3) have ne: "us \<noteq> []" by (auto simp: list_all_iff group_ok_def)
    from us obtain a b where "uss = a @ us # b" by (metis split_list)
    with assms(2,4,5) have srt: "sorted (map un_row_number us)" and ok: "list_all (unit_ok m) us"
      by (auto simp: sorted_append)
    have le: "un_row_number (hd us) \<le> un_row_number (last us)"
      using sorted_hd_last [OF srt] ne by (simp add: hd_map last_map)
    have "un_content (hd us) \<in> set (map un_content us)" and "un_content (hd us) \<noteq> []"
      using ne ok by (auto simp: list_all_iff unit_ok_def)
    with le show ?thesis
      by (simp add: spreadsheet_chunk_def unit_group_def generated_chunk_ok_def join_nonempty)
  qed
  then show ?thesis
    by (auto simp: builds_def assms(1) spreadsheet_chunk_def unit_group_def carries_def)
qed

lemma sheet_groups:
  assumes "sheet_rows limits (sort_key rw_row_number rows) [] rc cc [] = Inr (rc', cc', units)" and "chunking_limits_ok limits"
  shows "builds sha md (spreadsheet_chunk sha md kind name) (set (group_units limits units))"
    and "\<exists>uss. group_units limits units = map unit_group uss \<and> concat uss = units \<and> list_all (group_ok limits) uss"
proof -
  from sheet_rows_ok [OF assms(1)] have o: "sorted (map un_row_number units)"
    "list_all (unit_ok (nat (max_content_chars limits))) units" by simp_all
  from group_units_partition [OF o(2) assms(2)] show
    "\<exists>uss. group_units limits units = map unit_group uss \<and> concat uss = units \<and> list_all (group_ok limits) uss" .
  then show "builds sha md (spreadsheet_chunk sha md kind name) (set (group_units limits units))"
    using groups_build o by blast
qed

lemma sheets_loop_ok:
  assumes "sheets_loop sha kind md limits sheets seen rc cc chunks = Inr out" and "chunks_ok sha md limits chunks"
    and "chunking_limits_ok limits"
  shows "chunks_ok sha md limits out"
  using assms
proof (induction sheets arbitrary: seen rc cc chunks)
  case (Cons sheet sheets)
  from Cons.prems(1) obtain rc' cc' units mid where
    s: "sheet_rows limits (sort_key rw_row_number (sh_rows sheet)) [] rc cc [] = Inr (rc', cc', units)"
    and a: "append_all limits (spreadsheet_chunk sha md kind (sh_name sheet)) (group_units limits units) chunks = Inr mid"
    and r: "sheets_loop sha kind md limits sheets ((sh_sheet_index sheet, sh_name sheet) # seen) rc' cc' mid = Inr out"
    by (auto simp: result_simps Let_def split: if_splits)
  from Cons.IH [OF r append_all_ok [OF a Cons.prems(2) sheet_groups(1) [OF s Cons.prems(3)]] Cons.prems(3)] show ?case .
qed simp

lemma row_loop_value_error: "row_loop n prefix m cells units current \<noteq> Inl ChunkValueError"
  by (induction cells arbitrary: units current) (simp_all add: Let_def)

lemma sheet_rows_value_error: "sheet_rows limits rows seen rc cc units \<noteq> Inl ChunkValueError"
  by (induction rows arbitrary: seen rc cc units)
     (auto simp: Let_def result_simps row_units_def row_loop_value_error)

lemma sheets_loop_value_error:
  assumes "chunking_limits_ok limits"
  shows "sheets_loop sha kind md limits sheets seen rc cc chunks \<noteq> Inl ChunkValueError"
proof (induction sheets arbitrary: seen rc cc chunks)
  case (Cons sheet sheets)
  then show ?case
    using append_all_value_error [OF sheet_groups(1) [OF _ assms]]
    by (auto simp: Let_def result_simps sheet_rows_value_error split: prod.splits)
qed simp

text \<open>Neither loop reports a lifecycle error.\<close>

lemma append_all_lifecycle: "append_all limits mk cs chunks \<noteq> Inl (ChunkingError INVALID_LIFECYCLE)"
  by (induction cs arbitrary: chunks) (auto simp: append_chunk_def result_simps)

lemma pdf_pages_lifecycle: "pdf_pages sha md limits pages seen chunks \<noteq> Inl (ChunkingError INVALID_LIFECYCLE)"
  by (induction pages arbitrary: seen chunks) (auto simp: result_simps append_all_lifecycle)

lemma row_loop_lifecycle: "row_loop n prefix m cells units current \<noteq> Inl (ChunkingError INVALID_LIFECYCLE)"
  by (induction cells arbitrary: units current) (simp_all add: Let_def)

lemma sheet_rows_lifecycle: "sheet_rows limits rows seen rc cc units \<noteq> Inl (ChunkingError INVALID_LIFECYCLE)"
  by (induction rows arbitrary: seen rc cc units)
     (auto simp: Let_def result_simps row_units_def row_loop_lifecycle)

lemma sheets_loop_lifecycle:
  "sheets_loop sha kind md limits sheets seen rc cc chunks \<noteq> Inl (ChunkingError INVALID_LIFECYCLE)"
  by (induction sheets arbitrary: seen rc cc chunks)
     (auto simp: Let_def result_simps sheet_rows_lifecycle append_all_lifecycle split: prod.splits)

lemma chunk_document_ok:
  assumes "chunking_limits_ok limits" and "chunk_document sha parsed md limits = Inr chunks"
  shows "chunks \<noteq> [] \<and> chunks_ok sha md limits chunks \<and> md_version_status md = ''APPROVED'' \<and> md_active md \<and>
    \<not> md_document_deleted md \<and> \<not> md_version_deleted md \<and> source_chars parsed \<le> max_source_chars limits"
proof -
  have pos: "0 \<le> max_chunks limits" "0 < max_content_chars limits" using assms(1) by (simp_all add: chunking_limits_ok_def)
  have pdf: "chunks_ok sha md limits cs" if "chunk_pdf sha parsed md limits = Inr cs" for cs
    using that pdf_pages_ok [OF _ chunks_ok_Nil [OF pos(1)] pos(2)] by (auto simp: chunk_pdf_def split: if_splits)
  have sheet: "chunks_ok sha md limits cs" if "chunk_spreadsheet sha parsed md limits = Inr cs" for cs
    using that sheets_loop_ok [OF _ chunks_ok_Nil [OF pos(1)] assms(1)] by (auto simp: chunk_spreadsheet_def split: if_splits)
  show ?thesis using assms(2) pdf sheet by (auto simp: chunk_document_def result_simps split: if_splits)
qed

subsection \<open>Properties\<close>

text \<open>C18: every chunk of a document is well formed and bounded.  A document is chunked only when its
  version is approved, active and not deleted; the chunks are numbered consecutively from 0, at most
  \<^verbatim>\<open>max_chunks\<close>, at least one; each has content of at most \<^verbatim>\<open>max_content_chars\<close> characters with its own digest,
  exactly one kind of provenance with an ordered row range, and the security metadata of the document.\<close>

theorem chunk_document_sound:
  assumes "chunking_limits_ok limits" and "chunk_document sha parsed md limits = Inr chunks"
  shows "chunks \<noteq> [] \<and> chunks_ok sha md limits chunks \<and> md_version_status md = ''APPROVED'' \<and> md_active md \<and>
    \<not> md_document_deleted md \<and> \<not> md_version_deleted md \<and> source_chars parsed \<le> max_source_chars limits"
  using assms by (rule chunk_document_ok)

definition example_md :: ChunkMetadata where
  "example_md = \<lparr>md_tenant_id = 1, md_company_id = 2, md_department = ''finance'', md_visibility = ''COMPANY'',
     md_classification = ''INTERNAL'', md_document_id = 3, md_document_version_id = 4, md_document_version = 1,
     md_version_status = ''APPROVED'', md_active = True, md_document_deleted = False, md_version_deleted = False\<rparr>"

definition example_pdf :: ParsedDocument where
  "example_pdf = \<lparr>doc_kind = PDF, doc_pages = [\<lparr>pg_page_number = 2, pg_text = ''paid in full''\<rparr>,
     \<lparr>pg_page_number = 1, pg_text = ''# Debt'' @ [newline] @ ''Net debt is 12.''\<rparr>], doc_sheets = [], doc_text_length = 34\<rparr>"

definition example_limits :: ChunkingLimits where
  "example_limits = DEFAULT_LIMITS\<lparr>max_content_chars := 32\<rparr>"

lemma example_limits_chunking: "chunking_limits_ok example_limits"
  by code_simp

lemma example_pdf_chunks:
  "case chunk_document (\<lambda>s. s) example_pdf example_md example_limits of
     Inr cs \<Rightarrow> map gk_content cs = [''# Debt'' @ [newline] @ ''Net debt is 12.'', ''paid in full''] | Inl _ \<Rightarrow> False"
  by code_simp

theorem chunk_document_sound_witness:
  "\<exists>cs. chunk_document (\<lambda>s. s) example_pdf example_md example_limits = Inr cs \<and> length cs = 2 \<and>
     chunks_ok (\<lambda>s. s) example_md example_limits cs"
proof -
  obtain cs where cs: "chunk_document (\<lambda>s. s) example_pdf example_md example_limits = Inr cs" "length (map gk_content cs) = 2"
    using example_pdf_chunks by (cases "chunk_document (\<lambda>s. s) example_pdf example_md example_limits") auto
  with chunk_document_sound [OF example_limits_chunking cs(1)] show ?thesis by auto
qed

text \<open>C19: the chunks of a PDF hold its whole text.  The characters of all chunks that are not blanks are
  exactly those of the pages in page order: splitting into sections and bounded parts loses, repeats and
  reorders nothing.\<close>

theorem pdf_text_preserved:
  assumes "chunking_limits_ok limits" and "doc_kind parsed = PDF" and "chunk_document sha parsed md limits = Inr chunks"
  shows "ink (concat (map gk_content chunks)) = ink (concat (map pg_text (sort_key pg_page_number (doc_pages parsed))))"
proof -
  from assms(2,3) have p: "pdf_pages sha md limits (sort_key pg_page_number (doc_pages parsed)) [] [] = Inr chunks"
    by (auto simp: chunk_document_def chunk_pdf_def result_simps split: if_splits)
  from pdf_pages_ok [OF p chunks_ok_Nil] assms(1) show ?thesis by (simp add: chunking_limits_ok_def)
qed

theorem pdf_text_preserved_witness:
  "\<exists>cs. chunk_document (\<lambda>s. s) example_pdf example_md example_limits = Inr cs \<and>
     ink (concat (map gk_content cs)) = ''#DebtNetdebtis12.paidinfull''"
proof -
  obtain cs where cs: "chunk_document (\<lambda>s. s) example_pdf example_md example_limits = Inr cs"
    using example_pdf_chunks by (cases "chunk_document (\<lambda>s. s) example_pdf example_md example_limits") auto
  have k: "doc_kind example_pdf = PDF" by (simp add: example_pdf_def)
  have "ink (concat (map pg_text (sort_key pg_page_number (doc_pages example_pdf)))) = ''#DebtNetdebtis12.paidinfull''"
    by code_simp
  with pdf_text_preserved [OF example_limits_chunking k cs] cs show ?thesis by simp
qed

text \<open>C20: the errors of the chunker.  The chunk constructor never raises, the lifecycle error means exactly
  that the version is not an approved, active one, and a result is never empty.\<close>

theorem chunk_document_errors:
  assumes "chunking_limits_ok limits"
  shows "chunk_document sha parsed md limits \<noteq> Inl ChunkValueError \<and> chunk_document sha parsed md limits \<noteq> Inr [] \<and>
    (chunk_document sha parsed md limits = Inl (ChunkingError INVALID_LIFECYCLE) \<longleftrightarrow>
      md_version_status md \<noteq> ''APPROVED'' \<or> \<not> md_active md \<or> md_document_deleted md \<or> md_version_deleted md)"
proof -
  have pos: "0 < max_content_chars limits" using assms by (simp add: chunking_limits_ok_def)
  have v: "chunk_pdf sha parsed md limits \<noteq> Inl ChunkValueError" "chunk_spreadsheet sha parsed md limits \<noteq> Inl ChunkValueError"
    by (simp_all add: chunk_pdf_def chunk_spreadsheet_def pdf_pages_value_error [OF pos] sheets_loop_value_error [OF assms])
  have l: "chunk_pdf sha parsed md limits \<noteq> Inl (ChunkingError INVALID_LIFECYCLE)"
    "chunk_spreadsheet sha parsed md limits \<noteq> Inl (ChunkingError INVALID_LIFECYCLE)"
    by (simp_all add: chunk_pdf_def chunk_spreadsheet_def pdf_pages_lifecycle sheets_loop_lifecycle)
  show ?thesis using v l by (auto simp: chunk_document_def result_simps)
qed

theorem chunk_document_errors_witness:
  "chunk_document (\<lambda>s. s) example_pdf (example_md\<lparr>md_active := False\<rparr>) example_limits = Inl (ChunkingError INVALID_LIFECYCLE)"
  using chunk_document_errors [OF example_limits_chunking, of "\<lambda>s. s" example_pdf "example_md\<lparr>md_active := False\<rparr>"] by simp

definition unit_of :: "ParsedRow \<Rightarrow> ParsedCell list \<Rightarrow> SpreadsheetUnit" where
  "unit_of row cs = \<lparr>un_row_number = rw_row_number row, un_cell_start = cl_coordinate (hd cs),
     un_cell_end = cl_coordinate (last cs), un_content = row_prefix row @ join [tab] (map render_cell cs)\<rparr>"

lemma row_loop_partition:
  assumes "list_all (\<lambda>cell. length (row_prefix row) + length (render_cell cell) \<le> m) cells"
  shows "\<exists>css. row_loop (rw_row_number row) (row_prefix row) m cells units (map (\<lambda>c. (cl_coordinate c, render_cell c)) cur) =
      Inr (units @ map (unit_of row) css) \<and> concat css = cur @ cells \<and> list_all (\<lambda>cs. cs \<noteq> []) css"
  using assms
proof (induction cells arbitrary: units cur)
  case Nil
  have "flush (rw_row_number row) (row_prefix row) units (map (\<lambda>c. (cl_coordinate c, render_cell c)) cur) =
      units @ map (unit_of row) (if cur = [] then [] else [cur])"
    by (simp add: flush_def unit_of_def hd_map last_map comp_def)
  then show ?case by (auto intro: exI [of _ "if cur = [] then [] else [cur]"])
next
  case (Cons cell cells)
  let ?pair = "\<lambda>c. (cl_coordinate c, render_cell c)"
  let ?fits = "length (row_prefix row @ join [tab] (map snd (map ?pair cur) @ [render_cell cell])) \<le> m"
  from Cons.prems have rest: "list_all (\<lambda>cell. length (row_prefix row) + length (render_cell cell) \<le> m) cells"
    and fit: "length (row_prefix row) + length (render_cell cell) \<le> m" by simp_all
  show ?case
  proof (cases ?fits)
    case True
    with Cons.IH [OF rest, of units "cur @ [cell]"] show ?thesis by (simp add: Let_def)
  next
    case False
    then have ne: "cur \<noteq> []" using fit by auto
    have fl: "flush (rw_row_number row) (row_prefix row) units (map ?pair cur) = units @ [unit_of row cur]"
      using ne by (simp add: flush_def unit_of_def hd_map last_map comp_def)
    from Cons.IH [OF rest, of "units @ [unit_of row cur]" "[cell]"] obtain css where
      "row_loop (rw_row_number row) (row_prefix row) m cells (units @ [unit_of row cur]) [?pair cell] =
        Inr ((units @ [unit_of row cur]) @ map (unit_of row) css)" "concat css = cell # cells" "list_all (\<lambda>cs. cs \<noteq> []) css"
      by auto
    with False fit fl ne show ?thesis by (auto simp: Let_def intro!: exI [of _ "cur # css"])
  qed
qed

text \<open>The cells of a spreadsheet row.  When every cell fits into one unit, the units of the row are
  consecutive groups of its cells in column order: every cell is rendered once, whole, in a unit whose
  cell range starts and ends with its group and whose text is at most the maximum.\<close>

theorem row_units_partition:
  assumes "distinct (map cl_column_number (rw_cells row))"
    and "list_all (\<lambda>cell. length (row_prefix row) + length (render_cell cell) \<le> m) (rw_cells row)"
  shows "\<exists>css. row_units row m = Inr (map (unit_of row) css) \<and> concat css = sorted_cells row \<and>
    list_all (\<lambda>cs. cs \<noteq> [] \<and> length (un_content (unit_of row cs)) \<le> m) css"
proof -
  have "set (sorted_cells row) = set (rw_cells row)" by (simp add: sorted_cells_def)
  with assms(2) have fit: "list_all (\<lambda>cell. length (row_prefix row) + length (render_cell cell) \<le> m) (sorted_cells row)"
    by (simp add: list_all_iff)
  have d: "distinct (map cl_column_number (sorted_cells row))"
    using assms(1) by (simp add: sorted_cells_def distinct_map)
  from row_loop_partition [OF fit, of "[]" "[]"] obtain css where
    css: "row_loop (rw_row_number row) (row_prefix row) m (sorted_cells row) [] [] = Inr (map (unit_of row) css)"
      "concat css = sorted_cells row" "list_all (\<lambda>cs. cs \<noteq> []) css" by auto
  moreover have "row_units row m = Inr (map (unit_of row) css)" using css(1) d by (simp add: row_units_def)
  moreover from row_units_ok [OF this(1)] have "list_all (\<lambda>cs. length (un_content (unit_of row cs)) \<le> m) css"
    by (simp add: list_all_iff unit_ok_def)
  ultimately show ?thesis by (auto simp: list_all_iff)
qed

definition example_row :: ParsedRow where
  "example_row = \<lparr>rw_row_number = 7, rw_cells = [
     \<lparr>cl_row_number = 7, cl_column_number = 2, cl_coordinate = ''B7'', cl_value_text = ''12'', cl_value_kind = V_NUMBER, cl_formula_like = False\<rparr>,
     \<lparr>cl_row_number = 7, cl_column_number = 1, cl_coordinate = ''A7'', cl_value_text = ''Net debt'', cl_value_kind = V_TEXT, cl_formula_like = False\<rparr>]\<rparr>"

theorem row_units_partition_witness:
  "\<exists>css. row_units example_row 40 = Inr (map (unit_of example_row) css) \<and> concat css = rev (rw_cells example_row)"
proof -
  have "distinct (map cl_column_number (rw_cells example_row))"
    and "list_all (\<lambda>cell. length (row_prefix example_row) + length (render_cell cell) \<le> 40) (rw_cells example_row)"
    by code_simp+
  from row_units_partition [OF this] obtain css where
    "row_units example_row 40 = Inr (map (unit_of example_row) css)" "concat css = sorted_cells example_row" by blast
  moreover have "sorted_cells example_row = rev (rw_cells example_row)" by code_simp
  ultimately show ?thesis by auto
qed

end
