(* ===== verification/Python_Re.thy ===== *)
theory Python_Re
  imports Patterns
begin

text \<open>
  Python's \<^verbatim>\<open>re\<close> module on the patterns the code uses: a backtracking matcher that lists the ends of the
  matches in the order in which Python tries them, with the span of the one capturing group, and the
  searches \<^verbatim>\<open>search\<close>, \<^verbatim>\<open>match\<close>, \<^verbatim>\<open>fullmatch\<close> and \<^verbatim>\<open>finditer\<close> on top of it.
\<close>

datatype re =
    Cls "char \<Rightarrow> bool"
  | Eps
  | Cat re re
  | Or re re
  | Many re
  | Boundary
  | Begin
  | Group re

type_synonym span = "nat \<times> nat"

text \<open>\<^verbatim>\<open>\w\<close> on the code points below 256.\<close>

definition re_word :: "char \<Rightarrow> bool" where
  "re_word c = (let n = (of_char c :: nat) in is_lower c \<or> is_upper c \<or> is_digit c \<or> c = CHR ''_'' \<or>
     n \<in> {170, 178, 179, 181, 185, 186, 188, 189, 190} \<or> (192 \<le> n \<and> n \<noteq> 215 \<and> n \<noteq> 247))"

definition boundary_at :: "string \<Rightarrow> nat \<Rightarrow> bool" where
  "boundary_at s i = ((0 < i \<and> i \<le> length s \<and> re_word (s ! (i - 1))) \<noteq> (i < length s \<and> re_word (s ! i)))"

text \<open>The ends of a sequence: every end of the first part, continued by the second.\<close>

fun re_bind :: "(nat \<times> span option) list \<Rightarrow> (nat \<Rightarrow> span option \<Rightarrow> (nat \<times> span option) list) \<Rightarrow> (nat \<times> span option) list" where
  "re_bind [] f = []"
| "re_bind ((j, h) # xs) f = f j h @ re_bind xs f"

text \<open>
  The greedy star: a turn must advance, so at most as many turns as characters are left are possible
  (\<open>n\<close>); longer matches come first.
\<close>

function many_ends :: "(nat \<Rightarrow> span option \<Rightarrow> (nat \<times> span option) list) \<Rightarrow> nat \<Rightarrow> nat \<Rightarrow> span option \<Rightarrow> (nat \<times> span option) list" where
  "many_ends f 0 i g = [(i, g)]"
| "many_ends f (Suc n) i g =
     concat (map (\<lambda>(j, h). if i < j \<and> j \<le> i + Suc n then many_ends f (i + Suc n - j) j h else []) (f i g)) @ [(i, g)]"
  by pat_completeness auto
termination
  by (relation "measure (\<lambda>(f, n, i, g). n)") auto

primrec re_ends :: "string \<Rightarrow> re \<Rightarrow> nat \<Rightarrow> span option \<Rightarrow> (nat \<times> span option) list" where
  "re_ends s (Cls P) i g = (if i < length s \<and> P (s ! i) then [(Suc i, g)] else [])"
| "re_ends s Eps i g = [(i, g)]"
| "re_ends s (Cat a b) i g = re_bind (re_ends s a i g) (re_ends s b)"
| "re_ends s (Or a b) i g = re_ends s a i g @ re_ends s b i g"
| "re_ends s (Many a) i g = many_ends (re_ends s a) (length s - i) i g"
| "re_ends s Boundary i g = (if boundary_at s i then [(i, g)] else [])"
| "re_ends s Begin i g = (if i = 0 then [(i, g)] else [])"
| "re_ends s (Group a) i g = map (\<lambda>(j, h). (j, Some (i, j))) (re_ends s a i g)"

text \<open>The first match at or after a position: its start, its end and the span of the group.\<close>

function search_from :: "string \<Rightarrow> re \<Rightarrow> nat \<Rightarrow> (nat \<times> nat \<times> span option) option" where
  "search_from s r i =
     (if length s < i then None
      else case re_ends s r i None of (j, g) # _ \<Rightarrow> Some (i, j, g) | [] \<Rightarrow> search_from s r (Suc i))"
  by pat_completeness auto
termination
  by (relation "measure (\<lambda>(s, r, i). Suc (length s) - i)") auto

declare search_from.simps [simp del]

definition re_search :: "re \<Rightarrow> string \<Rightarrow> bool" where
  "re_search r s = (search_from s r 0 \<noteq> None)"

definition re_match :: "re \<Rightarrow> string \<Rightarrow> bool" where
  "re_match r s = (re_ends s r 0 None \<noteq> [])"

definition re_fullmatch :: "re \<Rightarrow> string \<Rightarrow> bool" where
  "re_fullmatch r s = (length s \<in> set (map fst (re_ends s r 0 None)))"

text \<open>\<^verbatim>\<open>finditer\<close>: the next search starts at the end of the match, or one further when the match is empty.\<close>

lemma search_from_start: "search_from s r i = Some (a, b, g) \<Longrightarrow> i \<le> a \<and> a \<le> length s"
proof (induction s r i rule: search_from.induct)
  case (1 s r i)
  then show ?case
    by (subst (asm) (2) search_from.simps) (auto split: if_splits list.splits)
qed

function find_from :: "string \<Rightarrow> re \<Rightarrow> nat \<Rightarrow> (nat \<times> nat \<times> span option) list" where
  "find_from s r i =
     (case search_from s r i of
        None \<Rightarrow> []
      | Some (a, b, g) \<Rightarrow> (a, b, g) # find_from s r (if a < b then b else Suc a))"
  by pat_completeness auto
termination
  by (relation "measure (\<lambda>(s, r, i). Suc (length s) - i)") (auto dest: search_from_start)

declare find_from.simps [simp del]

definition re_slice :: "string \<Rightarrow> nat \<Rightarrow> nat \<Rightarrow> string" where
  "re_slice s a b = take (b - a) (drop a s)"

definition re_finditer :: "re \<Rightarrow> string \<Rightarrow> (string \<times> string) list" where
  "re_finditer r s = map (\<lambda>(a, b, g). (re_slice s a b, case g of Some (c, d) \<Rightarrow> re_slice s c d | None \<Rightarrow> [])) (find_from s r 0)"

text \<open>Building patterns.  Letters of a pattern with \<^verbatim>\<open>IGNORECASE\<close> are written in lower case.\<close>

definition lower_char :: "char \<Rightarrow> char" where
  "lower_char c = (let n = (of_char c :: nat) in
     if is_upper c \<or> (192 \<le> n \<and> n \<le> 222 \<and> n \<noteq> 215) then char_of (n + 32) else c)"

definition py_lower :: "string \<Rightarrow> string" where
  "py_lower s = map lower_char s"

text \<open>\<^verbatim>\<open>str.casefold\<close>: the sharp s becomes two letters.\<close>

definition casefold :: "string \<Rightarrow> string" where
  "casefold s = concat (map (\<lambda>c. if (of_char c :: nat) = 223 then ''ss'' else [lower_char c]) s)"

fun re_cats :: "re list \<Rightarrow> re" where
  "re_cats [] = Eps"
| "re_cats [r] = r"
| "re_cats (r # rs) = Cat r (re_cats rs)"

fun re_ors :: "re list \<Rightarrow> re" where
  "re_ors [] = Cls (\<lambda>c. False)"
| "re_ors [r] = r"
| "re_ors (r # rs) = Or r (re_ors rs)"

definition same_letter :: "char \<Rightarrow> char \<Rightarrow> bool" where
  "same_letter x c = (lower_char c = x)"

definition re_char :: "char \<Rightarrow> re" where
  "re_char x = Cls (same_letter x)"

definition re_lit :: "string \<Rightarrow> re" where
  "re_lit s = re_cats (map re_char s)"

definition re_lits :: "string list \<Rightarrow> re" where
  "re_lits ss = re_ors (map re_lit ss)"

definition re_opt :: "re \<Rightarrow> re" where
  "re_opt r = Or r Eps"

definition re_plus :: "re \<Rightarrow> re" where
  "re_plus r = Cat r (Many r)"

definition re_blanks :: re where
  "re_blanks = re_plus (Cls is_space)"

definition re_digit :: re where
  "re_digit = Cls is_digit"

end
