(* ===== verification/Model_Routing.thy ===== *)
theory Model_Routing
  imports Agent_Loop Python_Re
begin

text \<open>
  The choice of model and workflow: the routing policy of \<^verbatim>\<open>app/model_routing/policy.py\<close>, the routing
  provider of \<^verbatim>\<open>app/chat/router.py\<close>, the intent router of \<^verbatim>\<open>app/chat/intent.py\<close> and the scope preflight
  of \<^verbatim>\<open>app/chat/scope_guard.py\<close>.  Language models are functions on a world that return an answer or
  the declared error; the regular expressions are terms of \<^verbatim>\<open>Python_Re\<close>.
\<close>

subsection \<open>The routing policy\<close>

datatype ModelRoute = SIMPLE | HEAVY

datatype WorkloadKind = GROUNDED_WORKLOAD | AGENTIC

datatype ResponseMode = FAST | AUTO | DEEP

datatype RouteReason =
    USER_REQUESTED_DEEP | FAST_MODE_ELIGIBLE | DEEP_MODE_REQUIRED | SIMPLE_LOW_RISK
  | AGENTIC_REQUEST | MULTI_DOCUMENT | LOW_CONFIDENCE | COMPLEX_REQUEST

record RoutingSignals =
  sig_workload :: WorkloadKind
  sig_question :: string
  sig_authorized_document_count :: nat
  sig_top_retrieval_score :: "rat option"

record RoutingDecision =
  rd_route :: ModelRoute
  rd_reason :: RouteReason
  rd_requested_response_mode :: ResponseMode
  rd_resolved_response_mode :: ResponseMode
  rd_upgrade_required :: bool

definition COMPLEX_TERMS :: re where
  "COMPLEX_TERMS = re_cats [Boundary, re_ors
     [re_lit ''compare'', re_lit ''comparison'', re_lit ''versus'', Cat (re_lit ''vs'') (re_opt (re_lit ''.'')),
      re_lit ''across'', re_lit ''trend'', re_lit ''trends'', re_lit ''why'', Cat (re_lit ''driver'') (re_opt (re_lit ''s'')),
      re_lit ''conflict'', re_lit ''conflicting'', re_cats [re_lit ''synthesi'', Or (re_lit ''s'') (re_lit ''z''), re_lit ''e''],
      re_lit ''scenario'', re_lit ''sensitivity'', re_cats [re_lit ''multi'', Or (re_lit ''-'') (re_lit '' ''), re_lit ''document'']],
     Boundary]"

definition PERIOD :: re where
  "PERIOD = re_cats [Boundary, re_lits [''19'', ''20''], re_digit, re_digit, Boundary]"

definition METRIC :: re where
  "METRIC = re_cats [Boundary, Group (re_lits [''revenue'', ''ebitda'', ''margin'', ''profit'', ''cash'', ''debt'', ''growth'',
     ''cagr'', ''runway'']), Boundary]"

definition is_complex :: "string \<Rightarrow> bool" where
  "is_complex question =
     (let normalized = normalize_ws question in
      if re_search COMPLEX_TERMS normalized then True
      else length (remdups (map fst (re_finditer PERIOD normalized))) > 1 \<and> length (re_finditer METRIC normalized) > 1)"

definition automatic_route :: "RoutingSignals \<Rightarrow> rat \<Rightarrow> ModelRoute \<times> RouteReason" where
  "automatic_route signals low_confidence_threshold =
     (if sig_workload signals = AGENTIC then (HEAVY, AGENTIC_REQUEST)
      else if sig_authorized_document_count signals > 1 then (HEAVY, MULTI_DOCUMENT)
      else if (case sig_top_retrieval_score signals of None \<Rightarrow> True | Some x \<Rightarrow> x < low_confidence_threshold)
      then (HEAVY, LOW_CONFIDENCE)
      else if is_complex (sig_question signals) then (HEAVY, COMPLEX_REQUEST)
      else (SIMPLE, SIMPLE_LOW_RISK))"

definition route_model :: "RoutingSignals \<Rightarrow> rat \<Rightarrow> ResponseMode \<Rightarrow> RoutingDecision" where
  "route_model signals low_confidence_threshold response_mode =
     (let (route, reason) = automatic_route signals low_confidence_threshold in
      if response_mode = DEEP then
        \<lparr>rd_route = HEAVY, rd_reason = USER_REQUESTED_DEEP, rd_requested_response_mode = response_mode,
         rd_resolved_response_mode = DEEP, rd_upgrade_required = False\<rparr>
      else if response_mode = FAST then
        (if route = SIMPLE then
           \<lparr>rd_route = SIMPLE, rd_reason = FAST_MODE_ELIGIBLE, rd_requested_response_mode = response_mode,
            rd_resolved_response_mode = FAST, rd_upgrade_required = False\<rparr>
         else
           \<lparr>rd_route = HEAVY, rd_reason = DEEP_MODE_REQUIRED, rd_requested_response_mode = response_mode,
            rd_resolved_response_mode = DEEP, rd_upgrade_required = True\<rparr>)
      else
        \<lparr>rd_route = route, rd_reason = reason, rd_requested_response_mode = response_mode,
         rd_resolved_response_mode = (if route = SIMPLE then FAST else DEEP), rd_upgrade_required = False\<rparr>)"

subsection \<open>The routing provider\<close>

datatype LLMErrorCode = LLM_TIMEOUT | LLM_TRANSIENT | LLM_REJECTED | LLM_INVALID_RESPONSE | LLM_UNAVAILABLE | LLM_DISABLED

fun llm_error_value :: "LLMErrorCode \<Rightarrow> string" where
  "llm_error_value LLM_TIMEOUT = ''TIMEOUT''"
| "llm_error_value LLM_TRANSIENT = ''TRANSIENT''"
| "llm_error_value LLM_REJECTED = ''REJECTED''"
| "llm_error_value LLM_INVALID_RESPONSE = ''INVALID_RESPONSE''"
| "llm_error_value LLM_UNAVAILABLE = ''UNAVAILABLE''"
| "llm_error_value LLM_DISABLED = ''DISABLED''"

record LLMProviderError =
  le_code :: LLMErrorCode
  le_transient :: bool
  le_retry_count :: int
  le_model_name :: "string option"
  le_route_reason :: "RouteReason option"
  le_fallback_used :: bool
  le_fallback_reason :: "string option"

record LLMUsage =
  us_input_tokens :: "int option"
  us_output_tokens :: "int option"
  us_latency_ms :: int
  us_retry_count :: int
  us_model_name :: "string option"
  us_route_reason :: "RouteReason option"
  us_fallback_used :: bool
  us_fallback_reason :: "string option"
  us_requested_response_mode :: ResponseMode
  us_resolved_response_mode :: "ResponseMode option"

record ProviderGeneration =
  pv_answer :: GroundedAnswerDraft
  pv_usage :: LLMUsage

record GroundedGenerationRequest =
  gr_question :: string
  gr_evidence :: "GroundedEvidence list"
  gr_memories :: "GroundedMemory list"
  gr_recent_messages :: "(string \<times> string) list"
  gr_conversation_summary :: "string option"
  gr_routing :: "RoutingSignals option"
  gr_response_mode :: ResponseMode

record 'w LLMProvider =
  lp_model_name :: string
  lp_generate :: "GroundedGenerationRequest \<Rightarrow> 'w \<Rightarrow> (LLMProviderError, ProviderGeneration) result \<times> 'w"

record 'w routing_provider =
  rp_simple :: "'w LLMProvider"
  rp_heavy :: "'w LLMProvider"
  rp_heavy_fallback :: "'w LLMProvider"
  rp_low_confidence_threshold :: rat

definition usage :: "LLMUsage \<Rightarrow> string \<Rightarrow> RouteReason \<Rightarrow> ResponseMode \<Rightarrow> ResponseMode \<Rightarrow> bool \<Rightarrow> string option \<Rightarrow> int \<Rightarrow> LLMUsage" where
  "usage u model_name reason requested_mode resolved_mode fallback_used fallback_reason extra_retries =
     \<lparr>us_input_tokens = us_input_tokens u, us_output_tokens = us_output_tokens u, us_latency_ms = us_latency_ms u,
      us_retry_count = us_retry_count u + extra_retries, us_model_name = Some model_name, us_route_reason = Some reason,
      us_fallback_used = fallback_used, us_fallback_reason = fallback_reason,
      us_requested_response_mode = requested_mode, us_resolved_response_mode = Some resolved_mode\<rparr>"

text \<open>The error the router raises for the error \<open>e\<close> of a provider.\<close>

definition rewrap :: "LLMProviderError \<Rightarrow> string \<Rightarrow> RouteReason \<Rightarrow> LLMProviderError" where
  "rewrap e model_name reason =
     \<lparr>le_code = le_code e, le_transient = le_transient e, le_retry_count = le_retry_count e,
      le_model_name = Some model_name, le_route_reason = Some reason, le_fallback_used = False, le_fallback_reason = None\<rparr>"

definition generate_strong ::
  "'w routing_provider \<Rightarrow> GroundedGenerationRequest \<Rightarrow> RoutingDecision \<Rightarrow> 'w \<Rightarrow>
   (LLMProviderError, ProviderGeneration) result \<times> 'w" where
  "generate_strong rp request decision w =
     (case lp_generate (rp_heavy rp) request w of
        (Inl e, w) \<Rightarrow> (Inl (rewrap e (lp_model_name (rp_heavy rp)) (rd_reason decision)), w)
      | (Inr g, w) \<Rightarrow> (Inr \<lparr>pv_answer = pv_answer g,
           pv_usage = usage (pv_usage g) (lp_model_name (rp_heavy rp)) (rd_reason decision)
             (rd_requested_response_mode decision) (rd_resolved_response_mode decision) False None 0\<rparr>, w))"

definition signals_of :: "GroundedGenerationRequest \<Rightarrow> RoutingSignals" where
  "signals_of request =
     \<lparr>sig_workload = (case gr_routing request of Some s \<Rightarrow> sig_workload s | None \<Rightarrow> GROUNDED_WORKLOAD),
      sig_question = gr_question request,
      sig_authorized_document_count = length (remdups (map ge_document_id (gr_evidence request))),
      sig_top_retrieval_score = (case gr_routing request of Some s \<Rightarrow> sig_top_retrieval_score s | None \<Rightarrow> None)\<rparr>"

definition generate ::
  "'w routing_provider \<Rightarrow> GroundedGenerationRequest \<Rightarrow> 'w \<Rightarrow> (LLMProviderError, ProviderGeneration) result \<times> 'w" where
  "generate rp request w =
     (let decision = route_model (signals_of request) (rp_low_confidence_threshold rp) (gr_response_mode request) in
      if rd_upgrade_required decision then
        (Inl \<lparr>le_code = LLM_REJECTED, le_transient = False, le_retry_count = 0, le_model_name = None,
              le_route_reason = Some (rd_reason decision), le_fallback_used = False, le_fallback_reason = None\<rparr>, w)
      else if rd_route decision = HEAVY then generate_strong rp request decision w
      else case lp_generate (rp_simple rp) request w of
        (Inr g, w) \<Rightarrow> (Inr \<lparr>pv_answer = pv_answer g,
           pv_usage = usage (pv_usage g) (lp_model_name (rp_simple rp)) (rd_reason decision)
             (rd_requested_response_mode decision) (rd_resolved_response_mode decision) False None 0\<rparr>, w)
      | (Inl e, w) \<Rightarrow>
          if gr_response_mode request = FAST then (Inl (rewrap e (lp_model_name (rp_simple rp)) (rd_reason decision)), w)
          else if le_code e \<notin> {LLM_TIMEOUT, LLM_TRANSIENT, LLM_INVALID_RESPONSE, LLM_UNAVAILABLE}
          then (Inl (rewrap e (lp_model_name (rp_simple rp)) (rd_reason decision)), w)
          else let fallback_reason = ''SIMPLE_MODEL_'' @ llm_error_value (le_code e) in
            case lp_generate (rp_heavy_fallback rp) request w of
              (Inl e2, w) \<Rightarrow> (Inl \<lparr>le_code = le_code e2, le_transient = le_transient e2,
                 le_retry_count = 1 + le_retry_count e2, le_model_name = Some (lp_model_name (rp_heavy_fallback rp)),
                 le_route_reason = Some (rd_reason decision), le_fallback_used = True,
                 le_fallback_reason = Some fallback_reason\<rparr>, w)
            | (Inr strong, w) \<Rightarrow> (Inr \<lparr>pv_answer = pv_answer strong,
                 pv_usage = usage (pv_usage strong) (lp_model_name (rp_heavy_fallback rp)) (rd_reason decision)
                   (rd_requested_response_mode decision) DEEP True (Some fallback_reason) 1\<rparr>, w))"

subsection \<open>The intent router\<close>

datatype RequestIntent =
    RI_CASUAL | RI_DOCUMENT_QUESTION | RI_CONVERSATION_FOLLOW_UP | RI_MEMORY_RECALL | RI_MEMORY_WRITE
  | RI_CALCULATION | RI_CLARIFICATION | RI_REFUSE

record IntentDecision =
  id_intent :: RequestIntent
  id_reason_code :: string
  id_deterministic :: bool
  id_requires_regrounding :: bool

text \<open>\<^verbatim>\<open>a\s+b\s+c\<close>.\<close>

definition phrase :: "string list \<Rightarrow> re" where
  "phrase ws = (case map re_lit ws of [] \<Rightarrow> Eps | r # rs \<Rightarrow> re_cats (r # concat (map (\<lambda>x. [re_blanks, x]) rs)))"

definition char_in :: "string \<Rightarrow> char \<Rightarrow> bool" where
  "char_in cs c = (lower_char c \<in> set cs)"

definition re_within :: "string \<Rightarrow> re" where
  "re_within cs = Cls (char_in cs)"

definition not_newline :: "char \<Rightarrow> bool" where
  "not_newline c = (c \<noteq> newline)"

definition re_any :: re where
  "re_any = Cls not_newline"

definition GREETING :: re where
  "GREETING = re_cats
     [re_ors [re_lit ''hi'', re_lit ''hello'', re_lit ''hey'',
        re_cats [re_lit ''good'', re_blanks, re_lits [''morning'', ''afternoon'', ''evening'']]],
      re_opt (re_cats [re_blanks, re_lit ''there'']),
      re_opt (re_cats [re_opt (re_within '',!''), re_opt (re_lit '' ''), re_blanks, phrase [''how'', ''are'', ''you'']]),
      Many (re_within ''!.?'')]"

definition THANKS :: re where
  "THANKS = Cat (re_ors [re_lit ''thanks'', phrase [''thank'', ''you''], phrase [''much'', ''appreciated'']]) (Many (re_within ''!.?''))"

definition MEMORY_WRITE :: re where
  "MEMORY_WRITE = re_cats [Boundary, re_ors
     [Cat (re_lit ''remember'') (re_opt (Or (Cat re_blanks (re_lit ''that'')) (Cat re_blanks (re_lit ''this'')))),
      phrase [''from'', ''now'', ''on''], phrase [''i'', ''prefer''],
      re_cats [re_lit ''always'', re_blanks, re_lits [''use'', ''present'']]], Boundary]"

definition MEMORY_RECALL :: re where
  "MEMORY_RECALL = re_cats [Boundary, re_ors
     [re_cats [re_lit ''what'', re_blanks, Or (phrase [''do'', ''you'', ''remember'']) (phrase [''did'', ''i'', ''investigate''])],
      re_cats [re_lit ''my'', re_blanks, re_lits [''last'', ''previous'', ''recent''], re_blanks, re_lits [''investigation'', ''work'']],
      phrase [''investigate'', ''last'', ''time'']], Boundary]"

definition CONTINUE_MEMORY :: re where
  "CONTINUE_MEMORY = re_cats [Boundary, re_ors [re_lit ''continue'', re_lit ''resume'', phrase [''pick'', ''up'']], Boundary,
     Many re_any, Boundary, re_ors [re_lit ''investigation'', re_lit ''analysis'', re_lit ''work'', phrase [''where'', ''we'', ''left'']],
     Boundary]"

definition is_dash_or_blank :: "char \<Rightarrow> bool" where
  "is_dash_or_blank c = (c = CHR ''-'' \<or> is_space c)"

definition dash_or_blank :: re where
  "dash_or_blank = Cls is_dash_or_blank"

definition CALCULATION :: re where
  "CALCULATION = re_cats [Boundary, re_ors
     [re_lit ''calculate'', re_lit ''compute'', phrase [''ebitda'', ''margin''], phrase [''revenue'', ''growth''],
      phrase [''net'', ''profit'', ''margin''],
      re_cats [re_lit ''debt'', dash_or_blank, re_lit ''to'', dash_or_blank, re_lit ''equity''],
      phrase [''cash'', ''runway''], re_lit ''cagr''], Boundary]"

definition FOLLOW_UP :: re where
  "FOLLOW_UP = re_cats [Begin, re_lits [''what'', ''why'', ''how'', ''compare'', ''and''], Boundary, Many re_any, Boundary,
     re_ors [re_lit ''that'', re_lit ''those'', re_lit ''it'', re_lit ''them'', re_lit ''previous'', phrase [''last'', ''year'']], Boundary]"

definition FINANCIAL_COMPANY :: re where
  "FINANCIAL_COMPANY = re_cats [Boundary, re_lits [''orion'', ''atlas''], Boundary]"

definition REPORTING_PERIOD :: re where
  "REPORTING_PERIOD = re_cats [Boundary, re_opt (re_lit ''fy''), re_lit ''20'', re_digit, re_digit, Boundary]"

definition decided :: "RequestIntent \<Rightarrow> string \<Rightarrow> bool \<Rightarrow> IntentDecision" where
  "decided i code regrounding =
     \<lparr>id_intent = i, id_reason_code = code, id_deterministic = True, id_requires_regrounding = regrounding\<rparr>"

definition obvious_intent :: "string \<Rightarrow> bool \<Rightarrow> IntentDecision option" where
  "obvious_intent query scope_allowed =
     (let normalized = normalize_ws query in
      if \<not> scope_allowed then Some (decided RI_REFUSE ''REQUEST_SCOPE_NOT_AUTHORIZED'' False)
      else if re_fullmatch GREETING normalized \<or> re_fullmatch THANKS normalized
      then Some (decided RI_CASUAL ''CASUAL_MESSAGE_MATCHED'' False)
      else if re_search MEMORY_WRITE normalized then Some (decided RI_MEMORY_WRITE ''EXPLICIT_MEMORY_WRITE_MATCHED'' False)
      else if re_search CONTINUE_MEMORY normalized then Some (decided RI_MEMORY_RECALL ''CONTINUE_EPISODE_MATCHED'' True)
      else if re_search MEMORY_RECALL normalized then Some (decided RI_MEMORY_RECALL ''LATEST_EPISODE_RECALL_MATCHED'' False)
      else if re_search CALCULATION normalized then
        (if \<not> re_search FINANCIAL_COMPANY normalized \<or> \<not> re_search REPORTING_PERIOD normalized
         then Some (decided RI_CLARIFICATION ''CALCULATION_TARGET_AMBIGUOUS'' False)
         else Some (decided RI_CALCULATION ''KNOWN_CALCULATION_MATCHED'' False))
      else None)"

definition deterministic_fuzzy_fallback :: "string \<Rightarrow> bool \<Rightarrow> IntentDecision" where
  "deterministic_fuzzy_fallback query has_recent_conversation =
     (if has_recent_conversation \<and> re_search FOLLOW_UP (normalize_ws query)
      then decided RI_CONVERSATION_FOLLOW_UP ''FOLLOW_UP_REFERENCE_MATCHED'' False
      else decided RI_DOCUMENT_QUESTION ''DOCUMENT_WORKFLOW_SAFE_DEFAULT'' False)"

record FuzzyIntentResult =
  fz_intent :: RequestIntent
  fz_reason_code :: string
  fz_confidence :: rat
  fz_requires_regrounding :: bool

text \<open>\<^verbatim>\<open>^FUZZY_[A-Z0-9_]{1,57}$\<close> and the bounds of the confidence.\<close>

definition fuzzy_result_ok :: "FuzzyIntentResult \<Rightarrow> bool" where
  "fuzzy_result_ok f =
     (take 6 (fz_reason_code f) = ''FUZZY_'' \<and>
      (let t = drop 6 (fz_reason_code f) in 1 \<le> length t \<and> length t \<le> 57 \<and>
         list_all (\<lambda>c. is_upper c \<or> is_digit c \<or> c = CHR ''_'') t) \<and>
      0 \<le> fz_confidence f \<and> fz_confidence f \<le> 1)"

definition intent_decision_ok :: "IntentDecision \<Rightarrow> bool" where
  "intent_decision_ok d = code_ok 63 (id_reason_code d)"

text \<open>\<open>None\<close> of the provider's result is its declared error.\<close>

definition classify ::
  "(string \<Rightarrow> bool \<Rightarrow> 'w \<Rightarrow> FuzzyIntentResult option \<times> 'w) option \<Rightarrow> string \<Rightarrow> bool \<Rightarrow> bool \<Rightarrow> 'w \<Rightarrow> IntentDecision \<times> 'w" where
  "classify fuzzy query scope_allowed has_recent w =
     (case obvious_intent query scope_allowed of
        Some d \<Rightarrow> (d, w)
      | None \<Rightarrow>
        (case fuzzy of
           None \<Rightarrow> (deterministic_fuzzy_fallback query has_recent, w)
         | Some provider \<Rightarrow>
           (case provider query has_recent w of
              (Some r, w) \<Rightarrow> (\<lparr>id_intent = fz_intent r, id_reason_code = fz_reason_code r, id_deterministic = False,
                              id_requires_regrounding = fz_requires_regrounding r\<rparr>, w)
            | (None, w) \<Rightarrow> (deterministic_fuzzy_fallback query has_recent, w))))"

subsection \<open>The scope preflight\<close>

definition slug_char :: "char \<Rightarrow> bool" where
  "slug_char c = (is_lower c \<or> is_digit c \<or> c = CHR ''_'' \<or> c = CHR ''-'')"

definition slug_char_any_case :: "char \<Rightarrow> bool" where
  "slug_char_any_case c = slug_char (lower_char c)"

definition slug_word :: re where
  "slug_word = re_plus (Cls slug_char_any_case)"

definition TARGET_BEFORE_DOMAIN :: re where
  "TARGET_BEFORE_DOMAIN = re_cats [Boundary, Group slug_word, re_opt (re_lit (CHR 0x27 # ''s'')), re_blanks,
     re_ors [re_lit ''finance'', re_lit ''financial'', re_lit ''legal'', re_lit ''company'', re_lit ''portfolio'',
       Cat (re_lit ''document'') (re_opt (re_lit ''s'')), re_lit ''data''], Boundary]"

definition TARGET_BEFORE_METRIC :: re where
  "TARGET_BEFORE_METRIC = re_cats
     [re_ors [Begin, re_cats [Boundary, re_lit ''what'', re_blanks, re_lits [''was'', ''is'']],
        Cat Boundary (phrase [''why'', ''did'']), Cat Boundary (phrase [''show'', ''me'']), Cat Boundary (re_lit ''summarize'')],
      re_blanks, Group slug_word, re_opt (re_lit (CHR 0x27 # ''s'')), re_blanks,
      re_lits [''revenue'', ''ebitda'', ''margin'', ''agreement'', ''contract'', ''board''], Boundary]"

definition TARGET_AFTER_PREPOSITION :: re where
  "TARGET_AFTER_PREPOSITION = re_cats [Boundary, re_lits [''for'', ''from'', ''about'', ''at''], re_blanks, Group slug_word, Boundary]"

definition TARGET_STOP_WORDS :: "string list" where
  "TARGET_STOP_WORDS = [''authorized'', ''company'', ''document'', ''documents'', ''ebitda'', ''evidence'', ''financial'',
     ''gross'', ''is'', ''legal'', ''margin'', ''me'', ''my'', ''net'', ''now'', ''operating'', ''of'', ''our'', ''portfolio'',
     ''prefer'', ''remember'', ''revenue'', ''the'', ''this'', ''was'', ''were'']"

text \<open>\<open>None\<close> is the error 403.\<close>

definition resolve_home_tenant_id :: "AuthorizationContext \<Rightarrow> uuid option" where
  "resolve_home_tenant_id context =
     (case remdups (map home_tenant_id (grants (ctx_scope context))) of [t] \<Rightarrow> Some t | _ \<Rightarrow> None)"

definition query_tokens :: "string \<Rightarrow> string list" where
  "query_tokens question =
     map fst (re_finditer (re_plus (Cls slug_char)) (casefold question))"

definition query_grants :: "AuthorizationContext \<Rightarrow> AuthorizationGrant list" where
  "query_grants context = filter (\<lambda>g. QUERY_DOCUMENTS \<in> set (capabilities g)) (grants (ctx_scope context))"

definition authorized_departments :: "AuthorizationContext \<Rightarrow> string list" where
  "authorized_departments context =
     concat (map (\<lambda>g. map (\<lambda>d. casefold (dept_key d)) (departments g)) (query_grants context))"

definition authorized_targets :: "AuthorizationContext \<Rightarrow> string list" where
  "authorized_targets context =
     concat (map (\<lambda>g. concat (map (\<lambda>v. [casefold v, takeWhile (\<lambda>c. c \<noteq> CHR ''-'') (casefold v)])
       (workspace_slug g # company_slugs g))) (query_grants context))"

definition target_hints :: "string \<Rightarrow> string list" where
  "target_hints question =
     map casefold (filter (\<lambda>t. casefold t \<notin> set TARGET_STOP_WORDS \<and>
         \<not> re_fullmatch (re_cats [re_lit ''fy'', re_digit, re_digit, re_digit, re_digit]) t)
       (concat (map (\<lambda>p. map snd (re_finditer p question)) [TARGET_BEFORE_DOMAIN, TARGET_BEFORE_METRIC, TARGET_AFTER_PREPOSITION])))"

definition request_matches_authorized_scope :: "AuthorizationContext \<Rightarrow> string \<Rightarrow> bool" where
  "request_matches_authorized_scope context question =
     (let requested_departments = filter (\<lambda>t. t \<in> {''finance'', ''legal'', ''shared''}) (query_tokens question) in
      if \<not> set requested_departments \<subseteq> set (authorized_departments context) then False
      else target_hints question = [] \<or> set (target_hints question) \<subseteq> set (authorized_targets context))"

subsection \<open>Properties\<close>

text \<open>C21: the routing table.  The simple model is chosen only for a grounded answer from at most one document
  with a confident retrieval and a question that is not complex, and never in deep mode; the mode that was
  resolved matches the route; and only a fast request that needs the strong model asks for an upgrade.\<close>

theorem route_model_table:
  "(rd_route (route_model s t m) = SIMPLE \<longleftrightarrow> m \<noteq> DEEP \<and> sig_workload s = GROUNDED_WORKLOAD \<and> sig_authorized_document_count s \<le> 1 \<and>
      (\<exists>x. sig_top_retrieval_score s = Some x \<and> t \<le> x) \<and> \<not> is_complex (sig_question s)) \<and>
   (rd_resolved_response_mode (route_model s t m) = (if rd_route (route_model s t m) = SIMPLE then FAST else DEEP)) \<and>
   (rd_upgrade_required (route_model s t m) \<longleftrightarrow> m = FAST \<and> rd_route (route_model s t m) = HEAVY) \<and>
   rd_requested_response_mode (route_model s t m) = m"
proof -
  have a: "fst (automatic_route s t) = SIMPLE \<longleftrightarrow> sig_workload s = GROUNDED_WORKLOAD \<and> sig_authorized_document_count s \<le> 1 \<and>
      (\<exists>x. sig_top_retrieval_score s = Some x \<and> t \<le> x) \<and> \<not> is_complex (sig_question s)"
    by (cases "sig_workload s"; cases "sig_top_retrieval_score s") (auto simp: automatic_route_def)
  obtain r c where r: "automatic_route s t = (r, c)" by (cases "automatic_route s t")
  show ?thesis
    using a by (cases m; cases r) (auto simp: route_model_def r)
qed

text \<open>A provider that writes down its calls.\<close>

datatype called = Simple_model | Heavy_model | Fallback_model

definition watched :: "called \<Rightarrow> 'w LLMProvider \<Rightarrow> ('w \<times> called list) LLMProvider" where
  "watched c p = \<lparr>lp_model_name = lp_model_name p,
     lp_generate = (\<lambda>request (w, l). let (r, w') = lp_generate p request w in (r, w', l @ [c]))\<rparr>"

definition watched_router :: "'w routing_provider \<Rightarrow> ('w \<times> called list) routing_provider" where
  "watched_router rp = \<lparr>rp_simple = watched Simple_model (rp_simple rp), rp_heavy = watched Heavy_model (rp_heavy rp),
     rp_heavy_fallback = watched Fallback_model (rp_heavy_fallback rp), rp_low_confidence_threshold = rp_low_confidence_threshold rp\<rparr>"

text \<open>C22: which models a request calls.  Watching the calls does not change the result.  An upgrade calls no
  model; the strong route calls the strong model once; the simple route calls the simple model and, in automatic
  mode and after a retryable error only, the fallback once.  A fast request never reaches a strong model.\<close>

theorem router_calls:
  assumes "generate (watched_router rp) request (w, []) = (r, w', l)"
  shows "generate rp request w = (r, w') \<and>
    (let d = route_model (signals_of request) (rp_low_confidence_threshold rp) (gr_response_mode request) in
     l = (if rd_upgrade_required d then [] else if rd_route d = HEAVY then [Heavy_model]
          else case fst (lp_generate (rp_simple rp) request w) of
            Inl e \<Rightarrow> if gr_response_mode request \<noteq> FAST \<and>
                le_code e \<in> {LLM_TIMEOUT, LLM_TRANSIENT, LLM_INVALID_RESPONSE, LLM_UNAVAILABLE}
              then [Simple_model, Fallback_model] else [Simple_model]
          | Inr g \<Rightarrow> [Simple_model]) \<and>
     (gr_response_mode request \<noteq> FAST \<or> set l \<subseteq> {Simple_model}))"
proof -
  let ?d = "route_model (signals_of request) (rp_low_confidence_threshold rp) (gr_response_mode request)"
  have fast: "gr_response_mode request = FAST \<Longrightarrow> rd_route ?d = HEAVY \<Longrightarrow> rd_upgrade_required ?d"
    by (auto simp: route_model_def split: prod.splits)
  obtain s w1 where s: "lp_generate (rp_simple rp) request w = (s, w1)" by (cases "lp_generate (rp_simple rp) request w")
  obtain f w2 where f: "lp_generate (rp_heavy_fallback rp) request w1 = (f, w2)"
    by (cases "lp_generate (rp_heavy_fallback rp) request w1")
  obtain h w3 where h: "lp_generate (rp_heavy rp) request w = (h, w3)" by (cases "lp_generate (rp_heavy rp) request w")
  note unf = generate_def generate_strong_def watched_router_def watched_def Let_def
  consider "rd_upgrade_required ?d" | "\<not> rd_upgrade_required ?d" "rd_route ?d = HEAVY" | "\<not> rd_upgrade_required ?d" "rd_route ?d = SIMPLE"
    by (cases "rd_route ?d") auto
  then show ?thesis
  proof cases
    case 1
    with assms show ?thesis by (auto simp: unf)
  next
    case 2
    with assms fast show ?thesis by (cases h) (auto simp: unf h)
  next
    case 3
    with assms show ?thesis by (cases s; cases f) (auto simp: unf s f split: if_splits)
  qed
qed

definition example_provider :: "string \<Rightarrow> (LLMProviderError, ProviderGeneration) result \<Rightarrow> nat LLMProvider" where
  "example_provider n r = \<lparr>lp_model_name = n, lp_generate = (\<lambda>request w. (r, Suc w))\<rparr>"

definition example_router :: "nat routing_provider" where
  "example_router =
     \<lparr>rp_simple = example_provider ''small'' (Inl \<lparr>le_code = LLM_TIMEOUT, le_transient = True, le_retry_count = 0,
        le_model_name = None, le_route_reason = None, le_fallback_used = False, le_fallback_reason = None\<rparr>),
      rp_heavy = example_provider ''large'' (Inl \<lparr>le_code = LLM_DISABLED, le_transient = False, le_retry_count = 0,
        le_model_name = None, le_route_reason = None, le_fallback_used = False, le_fallback_reason = None\<rparr>),
      rp_heavy_fallback = example_provider ''large'' (Inr \<lparr>pv_answer = example_draft, pv_usage =
        \<lparr>us_input_tokens = None, us_output_tokens = None, us_latency_ms = 0, us_retry_count = 0, us_model_name = None,
         us_route_reason = None, us_fallback_used = False, us_fallback_reason = None, us_requested_response_mode = AUTO,
         us_resolved_response_mode = None\<rparr>\<rparr>),
      rp_low_confidence_threshold = 1 / 2\<rparr>"

definition example_request :: "ResponseMode \<Rightarrow> GroundedGenerationRequest" where
  "example_request m = \<lparr>gr_question = ''Debt?'', gr_evidence = [example_evidence ''ev_1''], gr_memories = [], gr_recent_messages = [],
     gr_conversation_summary = None, gr_routing = Some \<lparr>sig_workload = GROUNDED_WORKLOAD, sig_question = ''Debt?'',
       sig_authorized_document_count = 1, sig_top_retrieval_score = Some (4 / 5)\<rparr>, gr_response_mode = m\<rparr>"

lemma example_simple_route: "rd_route (route_model (signals_of (example_request AUTO)) (1 / 2) AUTO) = SIMPLE"
  by code_simp

theorem router_calls_witness:
  "snd (snd (generate (watched_router example_router) (example_request AUTO) (0, []))) = [Simple_model, Fallback_model]"
proof -
  obtain r w' l where g: "generate (watched_router example_router) (example_request AUTO) (0, []) = (r, w', l)"
    by (rule prod_cases3)
  have m: "gr_response_mode (example_request AUTO) = AUTO" "rp_low_confidence_threshold example_router = 1 / 2"
    "fst (lp_generate (rp_simple example_router) (example_request AUTO) 0) = Inl \<lparr>le_code = LLM_TIMEOUT, le_transient = True,
       le_retry_count = 0, le_model_name = None, le_route_reason = None, le_fallback_used = False, le_fallback_reason = None\<rparr>"
    by (simp_all add: example_request_def example_router_def example_provider_def)
  have u: "\<not> rd_upgrade_required (route_model (signals_of (example_request AUTO)) (1 / 2) AUTO)"
    by (simp add: route_model_def split: prod.split)
  show ?thesis using router_calls [OF g] g u example_simple_route by (simp add: m)
qed

text \<open>C23: the workflow of a request.  A request outside the caller's scope is refused without a model call,
  whatever it says; a calculation is chosen without a model only when a known company and a reporting period
  are named; every decision of the code itself carries a valid reason code; and without an answer of the
  model the request is treated as a question about documents or a follow-up.\<close>

theorem intent_router_safe:
  "classify fuzzy query False has_recent w = (decided RI_REFUSE ''REQUEST_SCOPE_NOT_AUTHORIZED'' False, w) \<and>
   (case obvious_intent query True of
      Some d \<Rightarrow> classify fuzzy query True has_recent w = (d, w) \<and> intent_decision_ok d \<and> id_intent d \<noteq> RI_REFUSE \<and>
        (id_intent d \<noteq> RI_CALCULATION \<or> re_search FINANCIAL_COMPANY (normalize_ws query) \<and> re_search REPORTING_PERIOD (normalize_ws query))
    | None \<Rightarrow> id_intent (fst (classify None query True has_recent w)) \<in> {RI_DOCUMENT_QUESTION, RI_CONVERSATION_FOLLOW_UP})"
proof -
  have codes: "list_all (code_ok 63) [''CASUAL_MESSAGE_MATCHED'', ''EXPLICIT_MEMORY_WRITE_MATCHED'', ''CONTINUE_EPISODE_MATCHED'',
      ''LATEST_EPISODE_RECALL_MATCHED'', ''CALCULATION_TARGET_AMBIGUOUS'', ''KNOWN_CALCULATION_MATCHED'']"
    by code_simp
  have refuse: "obvious_intent query False = Some (decided RI_REFUSE ''REQUEST_SCOPE_NOT_AUTHORIZED'' False)"
    by (simp add: obvious_intent_def Let_def)
  have ok: "intent_decision_ok d \<and> id_intent d \<noteq> RI_REFUSE \<and>
      (id_intent d \<noteq> RI_CALCULATION \<or> re_search FINANCIAL_COMPANY (normalize_ws query) \<and> re_search REPORTING_PERIOD (normalize_ws query))"
    if "obvious_intent query True = Some d" for d
    using that codes
    by (auto simp: obvious_intent_def Let_def decided_def intent_decision_ok_def split: if_splits)
  show ?thesis
    using refuse ok by (auto simp: classify_def deterministic_fuzzy_fallback_def decided_def split: option.split)
qed

theorem intent_router_safe_witness:
  "classify None ''Hi'' False True (0::nat) = (decided RI_REFUSE ''REQUEST_SCOPE_NOT_AUTHORIZED'' False, 0) \<and>
   classify None ''Hi'' True True (0::nat) = (decided RI_CASUAL ''CASUAL_MESSAGE_MATCHED'' False, 0)"
proof -
  have "obvious_intent ''Hi'' True = Some (decided RI_CASUAL ''CASUAL_MESSAGE_MATCHED'' False)" by code_simp
  with intent_router_safe [of None "''Hi''" True "0::nat"] show ?thesis by simp
qed

lemma if_not_conv: "(if \<not> a then False else b) = (a \<and> b)"
  by simp

lemma request_matches_iff:
  "request_matches_authorized_scope context question \<longleftrightarrow>
     set (query_tokens question) \<inter> {''finance'', ''legal'', ''shared''} \<subseteq> set (authorized_departments context) \<and>
     set (target_hints question) \<subseteq> set (authorized_targets context)"
proof -
  have "(target_hints question = [] \<or> set (target_hints question) \<subseteq> set (authorized_targets context)) =
      (set (target_hints question) \<subseteq> set (authorized_targets context))"
    by (cases "target_hints question") simp_all
  moreover have "{x \<in> A. x \<in> B} = A \<inter> B" for A B :: "string set" by blast
  ultimately show ?thesis unfolding request_matches_authorized_scope_def Let_def if_not_conv set_filter by (simp only:)
qed

text \<open>C24: the preflight respects the caller's grants.  An accepted question mentions a department key only when a
  single grant with query rights has it, and names only targets of such grants; and the preflight is monotone: a
  caller with more grants is never refused a question a caller with fewer may ask.\<close>

theorem scope_preflight_sound:
  assumes "request_matches_authorized_scope context1 question"
    and "set (grants (ctx_scope context1)) \<subseteq> set (grants (ctx_scope context2))"
  shows "request_matches_authorized_scope context2 question \<and>
    set (query_tokens question) \<inter> {''finance'', ''legal'', ''shared''} \<subseteq>
      (\<Union>g \<in> {g \<in> set (grants (ctx_scope context1)). QUERY_DOCUMENTS \<in> set (capabilities g)}. casefold ` dept_key ` set (departments g)) \<and>
    set (target_hints question) \<subseteq> set (authorized_targets context1)"
proof -
  have mono: "set (authorized_departments context1) \<subseteq> set (authorized_departments context2)"
    "set (authorized_targets context1) \<subseteq> set (authorized_targets context2)"
    using assms(2) by (auto simp: authorized_departments_def authorized_targets_def query_grants_def)
  have deps: "set (authorized_departments context1) =
      (\<Union>g \<in> {g \<in> set (grants (ctx_scope context1)). QUERY_DOCUMENTS \<in> set (capabilities g)}. casefold ` dept_key ` set (departments g))"
    by (simp add: authorized_departments_def query_grants_def image_image)
  from assms(1) have a: "set (query_tokens question) \<inter> {''finance'', ''legal'', ''shared''} \<subseteq> set (authorized_departments context1)"
    and b: "set (target_hints question) \<subseteq> set (authorized_targets context1)"
    unfolding request_matches_iff by (rule conjunct1, rule conjunct2)
  have "request_matches_authorized_scope context2 question"
    unfolding request_matches_iff using subset_trans [OF a mono(1)] subset_trans [OF b mono(2)] by (rule conjI)
  then show ?thesis using a b unfolding deps by (intro conjI)
qed

definition example_grant :: AuthorizationGrant where
  "example_grant = \<lparr>membership_id = 1, home_tenant_id = 2, home_tenant_slug = ''north'', home_tenant_name = ''North'',
     workspace_id = 3, workspace_slug = ''orion-ws'', workspace_name = ''Orion'', grant_role = ''analyst'',
     primary_department = ''legal'', company_ids = [4], company_slugs = [''orion''],
     departments = [\<lparr>dept_key = ''legal'', dept_source = PRIMARY_DEPARTMENT\<rparr>], capabilities = [QUERY_DOCUMENTS]\<rparr>"

definition example_caller :: "AuthorizationGrant list \<Rightarrow> AuthorizationContext" where
  "example_caller gs = \<lparr>ctx_identity = scope_identity example_scope,
     ctx_scope = \<lparr>scope_identity = scope_identity example_scope, grants = gs\<rparr>\<rparr>"

theorem scope_preflight_sound_witness:
  "request_matches_authorized_scope (example_caller [example_grant]) ''Legal data'' \<and>
   request_matches_authorized_scope (example_caller [example_grant, example_grant\<lparr>workspace_id := 9\<rparr>]) ''Legal data''"
proof -
  have a: "request_matches_authorized_scope (example_caller [example_grant]) ''Legal data''" by code_simp
  have b: "set (grants (ctx_scope (example_caller [example_grant]))) \<subseteq>
      set (grants (ctx_scope (example_caller [example_grant, example_grant\<lparr>workspace_id := 9\<rparr>])))"
    by (simp add: example_caller_def)
  from scope_preflight_sound [OF a b] a show ?thesis by simp
qed

end
