(* ===== verification/Run_History.thy ===== *)
theory Run_History
  imports Status_Machines Agent_Loop Model_Routing
begin

text \<open>
  The persisted history of a run: the rows of \<^verbatim>\<open>app/models/agent_runs.py\<close> with their check constraints,
  \<^verbatim>\<open>app/agent/history_repository.py\<close> and \<^verbatim>\<open>app/agent/approval_repository.py\<close>.

  All rows of one run are one record \<open>run_record\<close>; the keys of the tables (the run, the plan version and the
  step a row belongs to) are the place of the row in it.  Identifiers are stored as texts and read back, which
  is the identity on identifiers.  The action name of a step is the constant \<^verbatim>\<open>TOOL_CALL\<close> and left out.
  Rows are flushed in the order of the code; the observation of a step, which the code flushes with the next
  write, is checked with its step.  A violated check constraint raises \<open>IntegrityError\<close> when the row is written.
\<close>

type_synonym time = rat

subsection \<open>Rows\<close>

datatype ApprovalStatus = AP_PENDING | AP_APPROVED | AP_REJECTED | AP_SUPERSEDED | AP_EXPIRED | AP_CANCELLED | AP_CONSUMED

record AgentRun =
  run_id :: uuid
  run_conversation_id :: uuid
  run_tenant_id :: uuid
  run_user_id :: uuid
  run_response_mode :: ResponseMode
  run_agent_control_mode :: AgentControlMode
  run_selected_model_tier :: "ResponseMode option"
  run_selected_model_name :: "string option"
  run_status :: AgentRunStatus
  run_safe_reason_code :: string
  run_perception_status :: string
  run_perception_reason_code :: string
  run_policy_decision :: PolicyOutcome
  run_policy_reason_code :: string
  run_plan_version_count :: int
  run_step_count :: int
  run_observation_count :: int
  run_retry_count :: int
  run_input_tokens :: "int option"
  run_output_tokens :: "int option"
  run_duration_ms :: int
  run_final_assistant_message_id :: "uuid option"
  run_initial_user_message_id :: "uuid option"
  run_started_at :: "time option"
  run_completed_at :: "time option"

record AgentPlanVersion =
  pl_version :: int
  pl_change_reason_code :: string
  pl_planned_step_count :: int

record AgentObservationRecord =
  or_status :: ObservationStatus
  or_safe_reason_code :: string
  or_authorized_document_ids :: "uuid list"
  or_authorized_chunk_ids :: "uuid list"
  or_citation_ids :: "string list"
  or_evidence_count :: int
  or_retry_count :: int
  or_duration_ms :: int

record AgentStep =
  as_step_number :: int
  as_plan_version :: int
  as_plan_step_index :: int
  as_tool_name :: string
  as_action_argument_hash :: string
  as_status :: SafeStepStatus
  as_policy_decision :: PolicyOutcome
  as_safe_reason_code :: string
  as_duration_ms :: int
  as_observation :: "AgentObservationRecord option"

record AgentApprovalRequest =
  aq_id :: uuid
  aq_plan_version :: int
  aq_proposed_step_number :: int
  aq_action_name :: string
  aq_tool_name :: string
  aq_action_argument_hash :: string
  aq_scope_fingerprint :: string
  aq_risk_class :: ApprovalRiskClass
  aq_safe_reason_code :: string
  aq_status :: ApprovalStatus
  aq_expires_at :: time
  aq_resolved_at :: "time option"
  aq_resolver_user_id :: "uuid option"
  aq_consumed_at :: "time option"

record run_record =
  rr_run :: AgentRun
  rr_plans :: "AgentPlanVersion list"
  rr_steps :: "AgentStep list"
  rr_approvals :: "AgentApprovalRequest list"

text \<open>The check constraints of the tables and the widths of their text columns.  Left out are the widths of the columns
  that hold a value of an enumeration, and of the two reason codes of a run that its transitions rewrite: the codes
  written there are constants of the code, shorter than the 96 characters of the column.\<close>

definition run_row_ok :: "AgentRun \<Rightarrow> bool" where
  "run_row_ok r =
     (run_selected_model_tier r \<in> {None, Some FAST, Some DEEP} \<and>
      opt_all (\<lambda>name. length name \<le> 64) (run_selected_model_name r) \<and> length (run_policy_reason_code r) \<le> 96 \<and>
      run_perception_status r \<in> {''NOT_STARTED'', ''COMPLETED'', ''FAILED''} \<and>
      0 \<le> run_plan_version_count r \<and> run_plan_version_count r \<le> 2 \<and> 0 \<le> run_step_count r \<and> run_step_count r \<le> 4 \<and>
      0 \<le> run_observation_count r \<and> run_observation_count r \<le> 4 \<and> 0 \<le> run_retry_count r \<and> run_retry_count r \<le> 4 \<and>
      0 \<le> run_duration_ms r \<and> run_duration_ms r \<le> 120000 \<and>
      opt_all (\<lambda>n. 0 \<le> n \<and> n \<le> 1000000) (run_input_tokens r) \<and> opt_all (\<lambda>n. 0 \<le> n \<and> n \<le> 1000000) (run_output_tokens r))"

definition plan_row_ok :: "AgentPlanVersion \<Rightarrow> bool" where
  "plan_row_ok p = (1 \<le> pl_version p \<and> pl_version p \<le> 2 \<and> 1 \<le> pl_planned_step_count p \<and> pl_planned_step_count p \<le> 3 \<and>
     length (pl_change_reason_code p) \<le> 96)"

definition observation_row_ok :: "AgentObservationRecord \<Rightarrow> bool" where
  "observation_row_ok o1 = (0 \<le> or_evidence_count o1 \<and> or_evidence_count o1 \<le> 8 \<and> 0 \<le> or_retry_count o1 \<and> or_retry_count o1 \<le> 1 \<and>
     0 \<le> or_duration_ms o1 \<and> or_duration_ms o1 \<le> 120000 \<and> length (or_safe_reason_code o1) \<le> 96)"

definition step_row_ok :: "AgentStep \<Rightarrow> bool" where
  "step_row_ok s = (1 \<le> as_step_number s \<and> as_step_number s \<le> 4 \<and> 1 \<le> as_plan_version s \<and> as_plan_version s \<le> 2 \<and>
     0 \<le> as_plan_step_index s \<and> as_plan_step_index s \<le> 2 \<and> length (as_action_argument_hash s) = 64 \<and>
     as_tool_name s \<in> set APPROVED_TOOL_NAMES \<and> as_policy_decision s \<in> {P_ALLOWED, P_DENIED} \<and>
     0 \<le> as_duration_ms s \<and> as_duration_ms s \<le> 120000 \<and> length (as_safe_reason_code s) \<le> 96 \<and> opt_all observation_row_ok (as_observation s))"

definition approval_row_ok :: "AgentApprovalRequest \<Rightarrow> bool" where
  "approval_row_ok a = (1 \<le> aq_plan_version a \<and> aq_plan_version a \<le> 2 \<and> 1 \<le> aq_proposed_step_number a \<and>
     aq_proposed_step_number a \<le> 4 \<and> length (aq_action_argument_hash a) = 64 \<and> length (aq_scope_fingerprint a) = 64 \<and>
     length (aq_action_name a) \<le> 96 \<and> length (aq_tool_name a) \<le> 96 \<and> length (aq_safe_reason_code a) \<le> 96)"

text \<open>The unique constraints: step positions, and one pending approval per run.\<close>

definition steps_unique :: "AgentStep list \<Rightarrow> bool" where
  "steps_unique ss = (distinct (map as_step_number ss) \<and> distinct (map (\<lambda>s. (as_plan_version s, as_plan_step_index s)) ss))"

definition pending :: "AgentApprovalRequest list \<Rightarrow> AgentApprovalRequest list" where
  "pending as = filter (\<lambda>a. aq_status a = AP_PENDING) as"

definition approvals_unique :: "AgentApprovalRequest list \<Rightarrow> bool" where
  "approvals_unique as = (distinct (map aq_id as) \<and> length (pending as) \<le> 1)"

datatype history_error = AgentHistoryIntegrityError string | IntegrityError | RunTransitionError

subsection \<open>Creation and transitions\<close>

definition create_run ::
  "uuid \<Rightarrow> uuid \<Rightarrow> uuid \<Rightarrow> uuid \<Rightarrow> ResponseMode \<Rightarrow> AgentControlMode \<Rightarrow> ResponseMode option \<Rightarrow> string option \<Rightarrow>
   PolicyOutcome \<Rightarrow> string \<Rightarrow> run_record" where
  "create_run rid conversation_id tenant_id user_id response_mode agent_control_mode tier model_name policy policy_reason =
     \<lparr>rr_run = \<lparr>run_id = rid, run_conversation_id = conversation_id, run_tenant_id = tenant_id, run_user_id = user_id,
        run_response_mode = response_mode, run_agent_control_mode = agent_control_mode, run_selected_model_tier = tier,
        run_selected_model_name = model_name, run_status = CREATED, run_safe_reason_code = ''RUN_CREATED'',
        run_perception_status = ''NOT_STARTED'', run_perception_reason_code = ''PERCEPTION_NOT_STARTED'',
        run_policy_decision = policy, run_policy_reason_code = policy_reason, run_plan_version_count = 0, run_step_count = 0,
        run_observation_count = 0, run_retry_count = 0, run_input_tokens = None, run_output_tokens = None,
        run_duration_ms = 0, run_final_assistant_message_id = None, run_initial_user_message_id = None,
        run_started_at = None, run_completed_at = None\<rparr>,
      rr_plans = [], rr_steps = [], rr_approvals = []\<rparr>"

definition transition_run :: "run_record \<Rightarrow> AgentRunStatus \<Rightarrow> string \<Rightarrow> time \<Rightarrow> (history_error, run_record) result" where
  "transition_run rr target reason now =
     (case validate_agent_run_transition (run_status (rr_run rr)) target of
        Inl _ \<Rightarrow> Inl RunTransitionError
      | Inr _ \<Rightarrow>
        let run = (rr_run rr)\<lparr>run_status := target, run_safe_reason_code := reason\<rparr>;
            run = (if target = RUNNING \<and> run_started_at run = None then run\<lparr>run_started_at := Some now\<rparr> else run);
            run = (if target \<notin> {CREATED, RUNNING, AWAITING_APPROVAL} then run\<lparr>run_completed_at := Some now\<rparr> else run) in
        Inr (rr\<lparr>rr_run := run\<rparr>))"

subsection \<open>The history of an outcome\<close>

definition references :: "SafeObservationSnapshot list \<Rightarrow> (uuid \<times> uuid) list" where
  "references obs = concat (map (\<lambda>o1. zip (sos_document_ids o1) (sos_chunk_ids o1)) obs)"

text \<open>\<open>visible\<close> holds the pairs of document and chunk the authorization clause of the scope selects.\<close>

definition validate_authorized_observations :: "(uuid \<times> uuid) list \<Rightarrow> SafeObservationSnapshot list \<Rightarrow> bool" where
  "validate_authorized_observations visible obs =
     (let refs = references obs in
      if refs = [] then True
      else set (filter (\<lambda>r. snd r \<in> snd ` set refs) visible) = set refs)"

definition plan_row_of :: "Plan \<Rightarrow> AgentPlanVersion" where
  "plan_row_of p = \<lparr>pl_version = plan_version p, pl_change_reason_code = plan_change_reason_code p,
     pl_planned_step_count = int (length (plan_steps p))\<rparr>"

fun merge_plans :: "AgentPlanVersion list \<Rightarrow> Plan list \<Rightarrow> (history_error, AgentPlanVersion list) result" where
  "merge_plans rows [] = Inr rows"
| "merge_plans rows (p # ps) =
     (case List.find (\<lambda>r. pl_version r = plan_version p) rows of
        Some r \<Rightarrow>
          if pl_change_reason_code r \<noteq> plan_change_reason_code p \<or> pl_planned_step_count r \<noteq> int (length (plan_steps p))
          then Inl (AgentHistoryIntegrityError ''Reconstructed plan metadata changed'')
          else merge_plans rows ps
      | None \<Rightarrow> merge_plans (rows @ [plan_row_of p]) ps)"

definition same_step :: "AgentStep \<Rightarrow> nat \<Rightarrow> SafeStepSnapshot \<Rightarrow> bool" where
  "same_step s i snapshot =
     (as_step_number s = int i + 1 \<and> as_plan_version s = ss_plan_version snapshot \<and>
      as_plan_step_index s = ss_plan_step_index snapshot \<and> as_tool_name s = ss_tool_name snapshot \<and>
      as_action_argument_hash s = ss_action_argument_hash snapshot \<and> as_status s = ss_status snapshot \<and>
      as_policy_decision s = ss_policy_decision snapshot \<and> as_safe_reason_code s = ss_reason_code snapshot)"

definition same_observation :: "AgentObservationRecord \<Rightarrow> SafeObservationSnapshot \<Rightarrow> bool" where
  "same_observation r o1 =
     (or_status r = sos_status o1 \<and> or_safe_reason_code r = sos_reason_code o1 \<and>
      or_authorized_document_ids r = sos_document_ids o1 \<and> or_authorized_chunk_ids r = sos_chunk_ids o1 \<and>
      or_citation_ids r = sos_citation_ids o1)"

definition at_index :: "'a list \<Rightarrow> nat \<Rightarrow> 'a option" where
  "at_index xs i = (if i < length xs then Some (xs ! i) else None)"

fun check_existing ::
  "AgentStep list \<Rightarrow> nat \<Rightarrow> SafeStepSnapshot list \<Rightarrow> SafeObservationSnapshot list \<Rightarrow> (history_error, unit) result" where
  "check_existing [] i snaps obs = Inr ()"
| "check_existing (s # ss) i snaps obs =
     (if \<not> same_step s i (snaps ! i) then Inl (AgentHistoryIntegrityError ''Reconstructed completed step metadata changed'')
      else case (at_index obs i, as_observation s) of
        (Some e, Some r) \<Rightarrow>
          if same_observation r e then check_existing ss (Suc i) snaps obs
          else Inl (AgentHistoryIntegrityError ''Reconstructed observation metadata changed'')
      | (None, None) \<Rightarrow> check_existing ss (Suc i) snaps obs
      | _ \<Rightarrow> Inl (AgentHistoryIntegrityError ''Reconstructed observation history changed''))"

definition observation_row_of :: "SafeObservationSnapshot \<Rightarrow> AgentObservationRecord" where
  "observation_row_of o1 =
     \<lparr>or_status = sos_status o1, or_safe_reason_code = sos_reason_code o1, or_authorized_document_ids = sos_document_ids o1,
      or_authorized_chunk_ids = sos_chunk_ids o1, or_citation_ids = sos_citation_ids o1,
      or_evidence_count = int (length (sos_chunk_ids o1)), or_retry_count = sos_retry_count o1, or_duration_ms = sos_duration_ms o1\<rparr>"

definition step_row_of :: "nat \<Rightarrow> SafeStepSnapshot \<Rightarrow> SafeObservationSnapshot option \<Rightarrow> AgentStep" where
  "step_row_of i s o1 =
     \<lparr>as_step_number = int i + 1, as_plan_version = ss_plan_version s, as_plan_step_index = ss_plan_step_index s,
      as_tool_name = ss_tool_name s, as_action_argument_hash = ss_action_argument_hash s, as_status = ss_status s,
      as_policy_decision = ss_policy_decision s, as_safe_reason_code = ss_reason_code s, as_duration_ms = ss_duration_ms s,
      as_observation = map_option observation_row_of o1\<rparr>"

text \<open>The loop over the snapshots after the persisted ones.\<close>

fun add_steps ::
  "AgentPlanVersion list \<Rightarrow> AgentStep list \<Rightarrow> SafeStepSnapshot list \<Rightarrow> SafeObservationSnapshot list \<Rightarrow> (history_error, AgentStep list) result" where
  "add_steps plans rows [] obs = Inr rows"
| "add_steps plans rows (s # snaps) obs =
     (if ss_tool_name s \<notin> set APPROVED_TOOL_NAMES then Inl (AgentHistoryIntegrityError ''Only approved tools may be persisted'')
      else if \<not> (\<exists>r \<in> set plans. pl_version r = ss_plan_version s)
      then Inl (AgentHistoryIntegrityError ''A step must reference an immutable plan version'')
      else let row = step_row_of (length rows) s (at_index obs (length rows)) in
        if \<not> step_row_ok row \<or> \<not> steps_unique (rows @ [row]) then Inl IntegrityError
        else add_steps plans (rows @ [row]) snaps obs)"

definition persist_outcome_history ::
  "(uuid \<times> uuid) list \<Rightarrow> run_record \<Rightarrow> AgentRunOutcome \<Rightarrow> (history_error, run_record) result" where
  "persist_outcome_history visible rr out =
     (if map plan_version (out_plan_versions out) \<noteq> map int [1..<Suc (length (out_plan_versions out))]
      then Inl (AgentHistoryIntegrityError ''Plan versions must be immutable and contiguous'')
      else if length (out_safe_steps out) > 4 \<or> length (out_safe_observations out) > 4
      then Inl (AgentHistoryIntegrityError ''Run history exceeds bounded persistence limits'')
      else if length (out_safe_observations out) > length (out_safe_steps out)
      then Inl (AgentHistoryIntegrityError ''An observation must belong to an ordered step'')
      else if length (rr_steps rr) > length (out_safe_steps out)
      then Inl (AgentHistoryIntegrityError ''Unsafe replay: reconstructed history is missing completed steps'')
      else if \<not> validate_authorized_observations visible (out_safe_observations out)
      then Inl (AgentHistoryIntegrityError ''Observation references failed authorization validation'')
      else bindR (merge_plans (rr_plans rr) (out_plan_versions out)) (\<lambda>plans.
        if \<not> list_all plan_row_ok plans then Inl IntegrityError else
        bindR (check_existing (rr_steps rr) 0 (out_safe_steps out) (out_safe_observations out)) (\<lambda>_.
        bindR (add_steps plans (rr_steps rr) (drop (length (rr_steps rr)) (out_safe_steps out)) (out_safe_observations out)) (\<lambda>steps.
        Inr (rr\<lparr>rr_plans := plans, rr_steps := steps, rr_run := (rr_run rr)
          \<lparr>run_plan_version_count := int (length (out_plan_versions out)), run_step_count := int (length (out_safe_steps out)),
           run_observation_count := int (length (out_safe_observations out)), run_retry_count := min (out_retry_count out) 4,
           run_input_tokens := out_input_tokens out, run_output_tokens := out_output_tokens out\<rparr>\<rparr>)))))"

definition checkpoint_outcome ::
  "uuid \<Rightarrow> Plan list \<Rightarrow> SafeStepSnapshot list \<Rightarrow> SafeObservationSnapshot list \<Rightarrow> AgentRunOutcome" where
  "checkpoint_outcome rid plans steps obs =
     \<lparr>out_agent_session_id = rid, out_terminal_status = T_FAILED, out_stopping_reason = S_MODEL_ERROR,
      out_answer = ''The agent paused safely.'', out_claims = [], out_citations = [], out_limitations = [], out_calculations = [],
      out_memory_proposal = None, out_step_count = int (length steps), out_replan_count = max 0 (int (length plans) - 1),
      out_retry_count = sum_list (map sos_retry_count obs), out_trace = [], out_selected_intent = None,
      out_policy_decision = NOT_EVALUATED, out_tool_shortlist = [], out_plan_version = None, out_evidence_advanced_goal = False,
      out_plan_versions = plans, out_safe_steps = steps, out_safe_observations = obs, out_input_tokens = None, out_output_tokens = None\<rparr>"

text \<open>The outcome of a checkpoint is a validated model too.\<close>

definition persist_checkpoint_history ::
  "(uuid \<times> uuid) list \<Rightarrow> run_record \<Rightarrow> Plan list \<Rightarrow> SafeStepSnapshot list \<Rightarrow> SafeObservationSnapshot list \<Rightarrow>
   (history_error, run_record) result" where
  "persist_checkpoint_history visible rr plans steps obs =
     (let out = checkpoint_outcome (run_id (rr_run rr)) plans steps obs in
      if \<not> outcome_ok out then Inl IntegrityError else persist_outcome_history visible rr out)"

subsection \<open>Approval requests\<close>

definition APPROVAL_LIFETIME :: time where
  "APPROVAL_LIFETIME = 300"

definition create_pending_approval ::
  "run_record \<Rightarrow> Plan list \<Rightarrow> int \<Rightarrow> int \<Rightarrow> string \<Rightarrow> string \<Rightarrow> string \<Rightarrow> ApprovalRiskClass \<Rightarrow> uuid \<Rightarrow> time \<Rightarrow>
   (history_error, run_record \<times> AgentApprovalRequest) result" where
  "create_pending_approval rr plans plan_version1 proposed_step_number tool_name action_hash scope_fingerprint risk_class new_id created =
     (let fresh = map plan_row_of (filter (\<lambda>p. plan_version p \<notin> pl_version ` set (rr_plans rr)) plans);
          approval = \<lparr>aq_id = new_id, aq_plan_version = plan_version1, aq_proposed_step_number = proposed_step_number,
            aq_action_name = tool_name, aq_tool_name = tool_name, aq_action_argument_hash = action_hash,
            aq_scope_fingerprint = scope_fingerprint, aq_risk_class = risk_class, aq_safe_reason_code = ''USER_APPROVAL_REQUIRED'',
            aq_status = AP_PENDING, aq_expires_at = created + APPROVAL_LIFETIME, aq_resolved_at = None,
            aq_resolver_user_id = None, aq_consumed_at = None\<rparr> in
      if \<not> list_all plan_row_ok fresh \<or> \<not> distinct (map pl_version (rr_plans rr @ fresh)) \<or>
         \<not> approval_row_ok approval \<or> \<not> approvals_unique (rr_approvals rr @ [approval])
      then Inl IntegrityError
      else Inr (rr\<lparr>rr_plans := rr_plans rr @ fresh, rr_approvals := rr_approvals rr @ [approval],
             rr_run := (rr_run rr)\<lparr>run_plan_version_count := max (run_plan_version_count (rr_run rr)) (int (length plans))\<rparr>\<rparr>, approval))"

subsection \<open>Lemmas on the history\<close>

lemma find_append_Some: "List.find P xs = Some r \<Longrightarrow> List.find P (xs @ ys) = Some r"
  by (induction xs) (auto split: if_splits)

definition plan_recorded :: "AgentPlanVersion list \<Rightarrow> Plan \<Rightarrow> bool" where
  "plan_recorded rows p = (\<exists>r. List.find (\<lambda>r. pl_version r = plan_version p) rows = Some r \<and> r = plan_row_of p)"

lemma plan_recorded_append: "plan_recorded rows p \<Longrightarrow> plan_recorded (rows @ new) p"
  by (auto simp: plan_recorded_def find_append_Some)

lemma find_row_eq:
  "List.find (\<lambda>r. pl_version r = plan_version p) rows = Some r \<Longrightarrow> pl_change_reason_code r = plan_change_reason_code p \<Longrightarrow>
   pl_planned_step_count r = int (length (plan_steps p)) \<Longrightarrow> r = plan_row_of p"
  by (auto dest!: find_Some_memb simp: plan_row_of_def)

lemma find_snoc_None: "List.find P rows = None \<Longrightarrow> P r \<Longrightarrow> List.find P (rows @ [r]) = Some r"
  by (induction rows) (auto split: if_splits)

lemma merge_plans_Inr:
  "merge_plans rows ps = Inr rows' \<Longrightarrow>
   (\<exists>new. rows' = rows @ new) \<and> list_all (plan_recorded rows') ps"
proof (induction rows ps rule: merge_plans.induct)
  case (2 rows p ps)
  show ?case
  proof (cases "List.find (\<lambda>r. pl_version r = plan_version p) rows")
    case None
    with 2 have r: "merge_plans (rows @ [plan_row_of p]) ps = Inr rows'" by simp
    from "2.IH"(1) [OF None r] obtain new where
      new: "rows' = (rows @ [plan_row_of p]) @ new" "list_all (plan_recorded rows') ps" by auto
    have "plan_recorded (rows @ [plan_row_of p]) p"
      using find_snoc_None [OF None, of "plan_row_of p"] by (simp add: plan_recorded_def plan_row_of_def)
    with plan_recorded_append [OF this, of new] new show ?thesis by auto
  next
    case (Some r)
    with "2.prems" have m: "pl_change_reason_code r = plan_change_reason_code p" "pl_planned_step_count r = int (length (plan_steps p))"
      and r: "merge_plans rows ps = Inr rows'" by (auto split: if_splits)
    from "2.IH"(2) [OF Some _ r] m obtain new where new: "rows' = rows @ new" "list_all (plan_recorded rows') ps"
      by auto
    have "plan_recorded rows p" using Some find_row_eq [OF Some m] by (simp add: plan_recorded_def)
    with plan_recorded_append [OF this, of new] new show ?thesis by auto
  qed
qed simp

lemma merge_plans_recorded: "list_all (plan_recorded rows) ps \<Longrightarrow> merge_plans rows ps = Inr rows"
  by (induction ps) (auto simp: plan_recorded_def plan_row_of_def)

text \<open>A persisted step and the snapshot it was written from.\<close>

definition step_matches :: "SafeStepSnapshot list \<Rightarrow> SafeObservationSnapshot list \<Rightarrow> nat \<Rightarrow> AgentStep \<Rightarrow> bool" where
  "step_matches snaps obs i s =
     (same_step s i (snaps ! i) \<and> rel_option same_observation (as_observation s) (at_index obs i))"

lemma check_existing_iff:
  "check_existing ss i snaps obs = Inr () \<longleftrightarrow> (\<forall>k < length ss. step_matches snaps obs (i + k) (ss ! k))"
proof (induction ss arbitrary: i)
  case (Cons s ss)
  have "check_existing (s # ss) i snaps obs = Inr () \<longleftrightarrow> step_matches snaps obs i s \<and> check_existing ss (Suc i) snaps obs = Inr ()"
    by (cases "at_index obs i"; cases "as_observation s") (auto simp: step_matches_def)
  also have "\<dots> \<longleftrightarrow> (\<forall>k < length (s # ss). step_matches snaps obs (i + k) ((s # ss) ! k))"
    unfolding Cons.IH by (auto simp: less_Suc_eq_0_disj)
  finally show ?case .
qed simp

lemma step_row_matches: "same_step (step_row_of i s o1) i s" "rel_option same_observation (as_observation (step_row_of i s o1)) o1"
  by (cases o1; simp add: same_step_def step_row_of_def same_observation_def observation_row_of_def)+

lemma add_steps_Inr:
  assumes "add_steps plans rows snaps obs = Inr rows'"
  shows "\<exists>new. rows' = rows @ new \<and> length new = length snaps \<and>
    (\<forall>k < length new. new ! k = step_row_of (length rows + k) (snaps ! k) (at_index obs (length rows + k)) \<and> step_row_ok (new ! k) \<and>
       ss_plan_version (snaps ! k) \<in> pl_version ` set plans)"
  using assms
proof (induction snaps arbitrary: rows)
  case (Cons s snaps)
  let ?row = "step_row_of (length rows) s (at_index obs (length rows))"
  from Cons.prems have "\<exists>r \<in> set plans. pl_version r = ss_plan_version s" and ok1: "step_row_ok ?row"
    and r: "add_steps plans (rows @ [?row]) snaps obs = Inr rows'"
    by (auto simp: Let_def split: if_splits)
  then have ok: "step_row_ok ?row" "ss_plan_version s \<in> pl_version ` set plans" by force+
  from Cons.IH [OF r] obtain new where new: "rows' = (rows @ [?row]) @ new" "length new = length snaps"
    "\<forall>k < length new. new ! k = step_row_of (length (rows @ [?row]) + k) (snaps ! k) (at_index obs (length (rows @ [?row]) + k)) \<and>
       step_row_ok (new ! k) \<and> ss_plan_version (snaps ! k) \<in> pl_version ` set plans" by blast
  show ?case
    using new ok by (intro exI [of _ "?row # new"]) (auto simp: nth_Cons' gr0_conv_Suc)
qed auto

definition counted :: "AgentRunOutcome \<Rightarrow> AgentRun \<Rightarrow> AgentRun" where
  "counted out run = run
     \<lparr>run_plan_version_count := int (length (out_plan_versions out)), run_step_count := int (length (out_safe_steps out)),
      run_observation_count := int (length (out_safe_observations out)), run_retry_count := min (out_retry_count out) 4,
      run_input_tokens := out_input_tokens out, run_output_tokens := out_output_tokens out\<rparr>"

lemma persist_Inr:
  assumes "persist_outcome_history visible rr out = Inr rr'"
  shows "merge_plans (rr_plans rr) (out_plan_versions out) = Inr (rr_plans rr')"
    and "check_existing (rr_steps rr) 0 (out_safe_steps out) (out_safe_observations out) = Inr ()"
    and "add_steps (rr_plans rr') (rr_steps rr) (drop (length (rr_steps rr)) (out_safe_steps out)) (out_safe_observations out) = Inr (rr_steps rr')"
    and "length (rr_steps rr) \<le> length (out_safe_steps out)"
    and "validate_authorized_observations visible (out_safe_observations out)"
    and "rr_approvals rr' = rr_approvals rr" and "list_all plan_row_ok (rr_plans rr')"
  using assms by (auto simp: persist_outcome_history_def result_simps split: if_splits)

lemma persist_steps:
  assumes "persist_outcome_history visible rr out = Inr rr'"
  shows "\<exists>new. rr_steps rr' = rr_steps rr @ new" and "length (rr_steps rr') = length (out_safe_steps out)"
    and "\<forall>i < length (rr_steps rr'). step_matches (out_safe_steps out) (out_safe_observations out) i (rr_steps rr' ! i)"
proof -
  note p = persist_Inr [OF assms]
  from add_steps_Inr [OF p(3)] obtain new where new: "rr_steps rr' = rr_steps rr @ new"
    "length new = length (out_safe_steps out) - length (rr_steps rr)"
    "\<forall>k < length new. new ! k = step_row_of (length (rr_steps rr) + k) (drop (length (rr_steps rr)) (out_safe_steps out) ! k)
       (at_index (out_safe_observations out) (length (rr_steps rr) + k))" by auto
  show "\<exists>new. rr_steps rr' = rr_steps rr @ new" using new(1) by blast
  show len: "length (rr_steps rr') = length (out_safe_steps out)" using new(1,2) p(4) by simp
  show "\<forall>i < length (rr_steps rr'). step_matches (out_safe_steps out) (out_safe_observations out) i (rr_steps rr' ! i)"
  proof (intro allI impI)
    fix i assume i: "i < length (rr_steps rr')"
    show "step_matches (out_safe_steps out) (out_safe_observations out) i (rr_steps rr' ! i)"
    proof (cases "i < length (rr_steps rr)")
      case True
      with check_existing_iff [of "rr_steps rr" 0] p(2) show ?thesis by (simp add: new(1) nth_append)
    next
      case False
      let ?k = "i - length (rr_steps rr)"
      have k: "?k < length new" "length (rr_steps rr) + ?k = i" using i False by (simp_all add: new(1))
      have "rr_steps rr' ! i = step_row_of i (out_safe_steps out ! i) (at_index (out_safe_observations out) i)"
        using new(3) k False p(4) by (simp add: new(1) nth_append nth_drop)
      then show ?thesis by (simp add: step_matches_def step_row_matches)
    qed
  qed
qed

text \<open>The references of the observations are visible under the scope.\<close>

lemma validate_authorized_visible:
  "validate_authorized_observations visible obs \<Longrightarrow> set (references obs) \<subseteq> set visible"
  by (auto simp: validate_authorized_observations_def Let_def split: if_splits)

subsection \<open>A concrete history\<close>

definition example_step_snapshot :: SafeStepSnapshot where
  "example_step_snapshot =
     \<lparr>ss_plan_version = 1, ss_plan_step_index = 0, ss_tool_name = ''portfolio.search_authorized_documents'',
      ss_action_argument_hash = replicate 64 (CHR ''a''), ss_status = SS_COMPLETED, ss_policy_decision = P_ALLOWED,
      ss_reason_code = ''SUCCESS'', ss_duration_ms = 5\<rparr>"

definition example_observation_snapshot :: SafeObservationSnapshot where
  "example_observation_snapshot =
     \<lparr>sos_status = O_SUCCESS, sos_reason_code = ''SUCCESS'', sos_document_ids = [7], sos_chunk_ids = [9],
      sos_citation_ids = [''ev_2''], sos_retry_count = 0, sos_duration_ms = 5\<rparr>"

definition example_run_record :: run_record where
  "example_run_record = create_run 1 2 3 4 AUTO GUIDED (Some DEEP) None P_ALLOWED ''REQUEST_SCOPE_AUTHORIZED''"

definition example_outcome :: AgentRunOutcome where
  "example_outcome = checkpoint_outcome 1 [example_plan ST_PENDING ''SEARCH''] [example_step_snapshot] [example_observation_snapshot]"

definition example_history :: "(history_error, run_record) result" where
  "example_history = persist_outcome_history [(7, 9), (7, 10)] example_run_record example_outcome"

lemma example_history_steps:
  "case example_history of Inr rr \<Rightarrow> map as_step_number (rr_steps rr) = [1] \<and> map pl_version (rr_plans rr) = [1] | Inl _ \<Rightarrow> False"
  by code_simp

lemma example_history_Inr:
  obtains rr' where "persist_outcome_history [(7, 9), (7, 10)] example_run_record example_outcome = Inr rr'"
    and "map as_step_number (rr_steps rr') = [1]"
  using example_history_steps by (auto simp: example_history_def split: sum.splits)

subsection \<open>Properties\<close>

text \<open>C25: the history of a run only grows.  Persisting an outcome keeps every stored plan version, step and
  approval as it is and appends new ones; afterwards the stored steps are, one to one and in order, the
  snapshots of the outcome with their observations, numbered from 1; and every document and chunk they refer to is
  visible under the caller's scope.\<close>

theorem history_append_only:
  assumes "persist_outcome_history visible rr out = Inr rr'"
  shows "(\<exists>plans steps. rr_plans rr' = rr_plans rr @ plans \<and> rr_steps rr' = rr_steps rr @ steps) \<and>
    rr_approvals rr' = rr_approvals rr \<and> length (rr_steps rr') = length (out_safe_steps out) \<and>
    (\<forall>i < length (rr_steps rr'). step_matches (out_safe_steps out) (out_safe_observations out) i (rr_steps rr' ! i)) \<and>
    set (references (out_safe_observations out)) \<subseteq> set visible"
  using persist_steps [OF assms] merge_plans_Inr [OF persist_Inr(1) [OF assms]] persist_Inr(6) [OF assms]
    validate_authorized_visible [OF persist_Inr(5) [OF assms]] by blast

theorem history_append_only_witness:
  "\<exists>rr'. persist_outcome_history [(7, 9), (7, 10)] example_run_record example_outcome = Inr rr' \<and>
     map as_step_number (rr_steps rr') = [1] \<and> step_matches [example_step_snapshot] [example_observation_snapshot] 0 (rr_steps rr' ! 0)"
proof -
  obtain rr' where r: "persist_outcome_history [(7, 9), (7, 10)] example_run_record example_outcome = Inr rr'"
    "map as_step_number (rr_steps rr') = [1]" by (rule example_history_Inr)
  have "out_safe_steps example_outcome = [example_step_snapshot]" "out_safe_observations example_outcome = [example_observation_snapshot]"
    by (simp_all add: example_outcome_def checkpoint_outcome_def)
  with history_append_only [OF r(1)] r show ?thesis by auto
qed

text \<open>C26: recording an outcome again changes nothing.  A run that is replayed up to the same point finds its own
  history and neither fails nor duplicates a row.\<close>

theorem history_replay_idempotent:
  assumes "persist_outcome_history visible rr out = Inr rr'"
  shows "persist_outcome_history visible rr' out = Inr rr'"
proof -
  note s = persist_steps [OF assms]
  have m: "merge_plans (rr_plans rr') (out_plan_versions out) = Inr (rr_plans rr')"
    using merge_plans_Inr [OF persist_Inr(1) [OF assms]] by (intro merge_plans_recorded) simp
  have c: "check_existing (rr_steps rr') 0 (out_safe_steps out) (out_safe_observations out) = Inr ()"
    using s(3) by (simp add: check_existing_iff)
  have a: "add_steps plans (rr_steps rr') (drop (length (rr_steps rr')) (out_safe_steps out)) (out_safe_observations out) = Inr (rr_steps rr')"
    for plans using s(2) by simp
  have guards: "map plan_version (out_plan_versions out) = map int [1..<Suc (length (out_plan_versions out))]"
    "\<not> (length (out_safe_steps out) > 4 \<or> length (out_safe_observations out) > 4)"
    "\<not> length (out_safe_observations out) > length (out_safe_steps out)"
    and run: "rr_run rr' = counted out (rr_run rr)"
    using assms unfolding persist_outcome_history_def counted_def [symmetric]
    by (auto simp: result_simps simp del: upt_Suc split: if_splits)
  have "rr'\<lparr>rr_plans := rr_plans rr', rr_steps := rr_steps rr', rr_run := counted out (rr_run rr')\<rparr> = rr'"
    using run by (simp add: counted_def)
  with guards s(2) m c a persist_Inr(5,7) [OF assms] show ?thesis
    unfolding persist_outcome_history_def counted_def [symmetric] by (simp del: upt_Suc)
qed

theorem history_replay_idempotent_witness:
  "\<exists>rr'. persist_outcome_history [(7, 9), (7, 10)] example_run_record example_outcome = Inr rr' \<and>
     map as_step_number (rr_steps rr') = [1] \<and> persist_outcome_history [(7, 9), (7, 10)] rr' example_outcome = Inr rr'"
proof -
  obtain rr' where r: "persist_outcome_history [(7, 9), (7, 10)] example_run_record example_outcome = Inr rr'"
    "map as_step_number (rr_steps rr') = [1]" by (rule example_history_Inr)
  show ?thesis by (intro exI [of _ rr'] conjI r history_replay_idempotent [OF r(1)])
qed

end
