(* ===== verification/Run_Service.thy ===== *)
theory Run_Service
  imports Run_History Run_Properties "HOL-Library.Product_Lexorder"
begin

text \<open>
  The service that runs the agent for a request, \<^verbatim>\<open>app/agent/service.py\<close>, with the conversation and message
  operations of \<^verbatim>\<open>app/chat/repository.py\<close> it uses.

  The committed rows are a \<open>store\<close>; a session that fails before its commit leaves the store of the last commit.
  The service draws times, identifiers and the answers of the memory service from a world \<open>'v\<close>, the
  agent loop works on its own world \<open>'w\<close>.  An awaited call ends with a value, an exception, or the
  cancellation of the request.
\<close>

subsection \<open>Rows and errors\<close>

record Conversation =
  conv_id :: uuid
  conv_tenant_id :: uuid
  conv_user_id :: uuid

record Message =
  msg_id :: uuid
  msg_conversation_id :: uuid
  msg_tenant_id :: uuid
  msg_user_id :: uuid
  msg_role :: string
  msg_content :: string
  msg_request_id :: string
  msg_created_at :: time

record ChatRequestTrace =
  tr_request_id :: string
  tr_conversation_id :: uuid
  tr_tenant_id :: uuid
  tr_user_id :: uuid
  tr_model_name :: string
  tr_status :: string
  tr_reason_code :: string
  tr_intent_route :: string
  tr_document_ids :: "uuid list"
  tr_chunk_ids :: "uuid list"
  tr_input_tokens :: "int option"
  tr_output_tokens :: "int option"
  tr_latency_ms :: int
  tr_retry_count :: int
  tr_route_reason_code :: string

record store =
  st_conversations :: "Conversation list"
  st_messages :: "Message list"
  st_traces :: "ChatRequestTrace list"
  st_runs :: "uuid \<Rightarrow> run_record option"

text \<open>An \<^verbatim>\<open>APIError\<close> with its status and code, the cancellation, and an exception the service does not handle.\<close>

datatype service_exn = APIError nat string | CancelledError | Escaped

datatype 'a awaited = Done 'a | Fails | Interrupted

record MemoryItem =
  mi_id :: uuid
  mi_scope :: string
  mi_memory_type :: string
  mi_content :: string

record MemoryCandidate =
  mc_memory_type :: string
  mc_action :: string
  mc_content :: string
  mc_normalized_key :: string
  mc_confidence :: rat
  mc_importance :: rat
  mc_sensitivity :: string
  mc_reason :: string
  mc_explicit :: bool

record ('v, 'w) run_service =
  sv_env :: "'w agent_env"
  sv_limits :: AgentLoopLimits
  sv_digest :: "pydict \<Rightarrow> string"
  sv_uuid_text :: "uuid \<Rightarrow> string"
  sv_fmt2 :: "rat \<Rightarrow> string"
  sv_input_schema :: "InputModel \<Rightarrow> JsonSchema"
  sv_model_name :: string
  sv_low_confidence_threshold :: rat
  sv_max_recent_messages :: nat
  sv_scope_fingerprint :: "AuthorizationScope \<Rightarrow> string"
  sv_visible :: "AuthorizationScope \<Rightarrow> (uuid \<times> uuid) list"
  sv_monotonic :: "'v \<Rightarrow> seconds \<times> 'v"
  sv_now :: "'v \<Rightarrow> time \<times> 'v"
  sv_uuid4 :: "'v \<Rightarrow> uuid \<times> 'v"
  sv_interrupted :: "'v \<Rightarrow> bool \<times> 'v"
  sv_conversation_summary :: "AuthorizationContext \<Rightarrow> uuid \<Rightarrow> 'v \<Rightarrow> string option awaited \<times> 'v"
  sv_retrieve_relevant :: "AuthorizationContext \<Rightarrow> string \<Rightarrow> 'v \<Rightarrow> MemoryItem list awaited \<times> 'v"
  sv_apply_semantic_candidates ::
    "AuthorizationContext \<Rightarrow> MemoryCandidate \<Rightarrow> uuid \<Rightarrow> uuid \<Rightarrow> uuid \<Rightarrow> 'v \<Rightarrow> string list awaited \<times> 'v"
  sv_excerpt :: "AuthorizationScope \<Rightarrow> uuid \<Rightarrow> uuid \<Rightarrow> 'v \<Rightarrow> Payload awaited \<times> 'v"

record run_request =
  rq_conversation_id :: uuid
  rq_question :: string
  rq_response_mode :: ResponseMode
  rq_agent_control_mode :: AgentControlMode
  rq_request_id :: string
  rq_approved_action_hash :: "string option"
  rq_resume_run :: "uuid option"
  rq_reconstructed_steps :: "ReconstructedStep list"

subsection \<open>Conversations and messages\<close>

definition get_owned_conversation :: "store \<Rightarrow> uuid \<Rightarrow> uuid \<Rightarrow> uuid \<Rightarrow> Conversation option" where
  "get_owned_conversation st cid tenant user =
     List.find (\<lambda>c. conv_id c = cid \<and> conv_tenant_id c = tenant \<and> conv_user_id c = user) (st_conversations st)"

definition get_message :: "store \<Rightarrow> uuid \<Rightarrow> Message option" where
  "get_message st mid = List.find (\<lambda>m. msg_id m = mid) (st_messages st)"

text \<open>A message whose identifier is in use violates the primary key.\<close>

definition add_message ::
  "('v, 'w) run_service \<Rightarrow> Conversation \<Rightarrow> uuid \<Rightarrow> string \<Rightarrow> string \<Rightarrow> string \<Rightarrow> store \<Rightarrow> 'v \<Rightarrow>
   (history_error, store \<times> Message) result \<times> 'v" where
  "add_message sv conversation user_id role content request_id st v =
     (let (now, v) = sv_now sv v; (mid, v) = sv_uuid4 sv v;
          m = \<lparr>msg_id = mid, msg_conversation_id = conv_id conversation, msg_tenant_id = conv_tenant_id conversation,
               msg_user_id = user_id, msg_role = role, msg_content = content, msg_request_id = request_id, msg_created_at = now\<rparr> in
      (if get_message st mid \<noteq> None then Inl IntegrityError else Inr (st\<lparr>st_messages := st_messages st @ [m]\<rparr>, m), v))"

definition role_order :: "Message \<Rightarrow> nat" where
  "role_order m = (if msg_role m = ''user'' then 0 else 1)"

definition load_bounded_conversation_messages :: "store \<Rightarrow> uuid \<Rightarrow> uuid \<Rightarrow> uuid \<Rightarrow> nat \<Rightarrow> Message list" where
  "load_bounded_conversation_messages st cid tenant user limit =
     (let rows = sort_key (\<lambda>m. (msg_created_at m, role_order m, msg_id m))
            (filter (\<lambda>m. msg_conversation_id m = cid \<and> msg_tenant_id m = tenant \<and> msg_user_id m = user) (st_messages st)) in
      drop (length rows - limit) rows)"

text \<open>\<^verbatim>\<open>xs[-n:]\<close>.\<close>

definition last_items :: "nat \<Rightarrow> 'a list \<Rightarrow> 'a list" where
  "last_items n xs = (if n = 0 then xs else drop (length xs - n) xs)"

definition safe_model_name :: "string \<Rightarrow> string option" where
  "safe_model_name n =
     (if n = ''google/gemini-3.1-flash-lite'' then Some ''Gemini 3.1 Flash Lite''
      else if n = ''google/gemini-3.7-flash'' then Some ''Gemini 3.7 Flash'' else None)"

subsection \<open>Admission\<close>

record admission =
  ad_conversation :: Conversation
  ad_tenant_id :: uuid
  ad_route :: "RoutingDecision option"

text \<open>The checks before a run exists; \<open>ad_route\<close> is \<open>None\<close> when the request is outside the scope.\<close>

definition admit ::
  "('v, 'w) run_service \<Rightarrow> AuthorizationContext \<Rightarrow> run_request \<Rightarrow> store \<Rightarrow> (service_exn, admission) result" where
  "admit sv context rq st =
     (case resolve_home_tenant_id context of
        None \<Rightarrow> Inl (APIError 403 ''forbidden'')
      | Some tenant \<Rightarrow>
        (case get_owned_conversation st (rq_conversation_id rq) tenant (identity_user_id (ctx_identity context)) of
           None \<Rightarrow> Inl (APIError 404 ''not_found'')
         | Some conversation \<Rightarrow>
           if query_grants context = [] then Inl (APIError 403 ''forbidden'')
           else if \<not> request_matches_authorized_scope context (rq_question rq)
           then Inr \<lparr>ad_conversation = conversation, ad_tenant_id = tenant, ad_route = None\<rparr>
           else let d = route_model \<lparr>sig_workload = AGENTIC, sig_question = rq_question rq, sig_authorized_document_count = 0,
                      sig_top_retrieval_score = None\<rparr> (sv_low_confidence_threshold sv) (rq_response_mode rq) in
             if rd_upgrade_required d then Inl (APIError 409 ''deep_mode_required'')
             else Inr \<lparr>ad_conversation = conversation, ad_tenant_id = tenant, ad_route = Some d\<rparr>))"

definition recent_messages ::
  "('v, 'w) run_service \<Rightarrow> AuthorizationContext \<Rightarrow> run_request \<Rightarrow> admission \<Rightarrow> store \<Rightarrow> (string \<times> string) list" where
  "recent_messages sv context rq adm st =
     (let rows = load_bounded_conversation_messages st (conv_id (ad_conversation adm)) (ad_tenant_id adm)
            (identity_user_id (ctx_identity context)) (sv_max_recent_messages sv + 1);
          resumed = Option.bind (rq_resume_run rq) (\<lambda>rid. Option.bind (st_runs st rid) (\<lambda>rr. run_initial_user_message_id (rr_run rr)));
          rows = (case resumed of None \<Rightarrow> rows | Some mid \<Rightarrow> filter (\<lambda>m. msg_id m \<noteq> mid) rows) in
      map (\<lambda>m. (msg_role m, take 500 (msg_content m))) (last_items (sv_max_recent_messages sv) rows))"

subsection \<open>The run row\<close>

definition put_run :: "run_record \<Rightarrow> store \<Rightarrow> store" where
  "put_run rr st = st\<lparr>st_runs := (st_runs st)(run_id (rr_run rr) \<mapsto> rr)\<rparr>"

text \<open>The commit writes the run row, which its check constraints may refuse.\<close>

definition commit_run :: "run_record \<Rightarrow> store \<Rightarrow> (history_error, store) result" where
  "commit_run rr st = (if run_row_ok (rr_run rr) then Inr (put_run rr st) else Inl IntegrityError)"

definition new_run_row ::
  "('v, 'w) run_service \<Rightarrow> AuthorizationContext \<Rightarrow> run_request \<Rightarrow> admission \<Rightarrow> uuid \<Rightarrow> run_record" where
  "new_run_row sv context rq adm rid =
     create_run rid (conv_id (ad_conversation adm)) (ad_tenant_id adm) (identity_user_id (ctx_identity context))
       (rq_response_mode rq) (rq_agent_control_mode rq) (map_option rd_resolved_response_mode (ad_route adm))
       (if ad_route adm = None then None else safe_model_name (sv_model_name sv))
       (if ad_route adm = None then P_DENIED else P_ALLOWED)
       (if ad_route adm = None then ''REQUEST_SCOPE_NOT_AUTHORIZED'' else ''REQUEST_SCOPE_AUTHORIZED'')"

definition open_run ::
  "('v, 'w) run_service \<Rightarrow> AuthorizationContext \<Rightarrow> run_request \<Rightarrow> admission \<Rightarrow> uuid \<Rightarrow> time \<Rightarrow> store \<Rightarrow>
   (service_exn, store \<times> run_record) result" where
  "open_run sv context rq adm rid now st =
     (case rq_resume_run rq of
        None \<Rightarrow>
          if st_runs st rid \<noteq> None then Inl Escaped
          else let rr = new_run_row sv context rq adm rid in
            (case (if ad_route adm = None then Inr rr else transition_run rr RUNNING ''AGENT_EXECUTION_STARTED'' now) of
               Inl _ \<Rightarrow> Inl Escaped
             | Inr rr \<Rightarrow> (case commit_run rr st of Inl _ \<Rightarrow> Inl Escaped | Inr st \<Rightarrow> Inr (st, rr)))
      | Some old \<Rightarrow>
          (case st_runs st old of
             None \<Rightarrow> Inl (APIError 404 ''not_found'')
           | Some rr \<Rightarrow> if run_status (rr_run rr) \<noteq> RUNNING then Inl (APIError 404 ''not_found'') else Inr (st, rr)))"

definition mark_run_terminal ::
  "uuid \<Rightarrow> AgentRunStatus \<Rightarrow> int \<Rightarrow> string \<Rightarrow> time \<Rightarrow> store \<Rightarrow> (history_error, store) result" where
  "mark_run_terminal rid status duration_ms reason now st =
     (case st_runs st rid of
        None \<Rightarrow> Inr st
      | Some rr \<Rightarrow>
        if run_status (rr_run rr) \<notin> {CREATED, RUNNING} then Inr st
        else bindR (transition_run (rr\<lparr>rr_run := (rr_run rr)\<lparr>run_duration_ms := min 120000 (max 0 duration_ms)\<rparr>\<rparr>) status reason now)
          (\<lambda>rr. commit_run rr st))"

text \<open>An exception after the run was opened: the session is rolled back to \<open>st\<close> and the run is ended.\<close>

definition end_with ::
  "uuid \<Rightarrow> AgentRunStatus \<Rightarrow> int \<Rightarrow> string \<Rightarrow> service_exn \<Rightarrow> time \<Rightarrow> store \<Rightarrow> (service_exn, 'a) result \<times> store" where
  "end_with rid status duration_ms reason exn now st =
     (case mark_run_terminal rid status duration_ms reason now st of
        Inl _ \<Rightarrow> (Inl Escaped, st) | Inr st' \<Rightarrow> (Inl exn, st'))"

definition scope_denied_outcome :: "uuid \<Rightarrow> uuid \<Rightarrow> uuid \<Rightarrow> AgentRunOutcome" where
  "scope_denied_outcome rid e1 e2 =
     \<lparr>out_agent_session_id = rid, out_terminal_status = T_REFUSED, out_stopping_reason = S_SCOPE_DENIED,
      out_answer = ANSWER_REFUSED, out_claims = [], out_citations = [], out_limitations = [], out_calculations = [],
      out_memory_proposal = None, out_step_count = 0, out_replan_count = 0, out_retry_count = 0,
      out_trace = [\<lparr>ev_id = e1, ev_type = E_POLICY, ev_action_name = None, ev_status = TS_DENIED, ev_duration_ms = 0,
          ev_evidence_reference_ids = [], ev_reason_code = ''REQUEST_SCOPE_NOT_AUTHORIZED''\<rparr>,
        \<lparr>ev_id = e2, ev_type = E_TERMINAL, ev_action_name = None, ev_status = TS_TERMINATED, ev_duration_ms = 0,
          ev_evidence_reference_ids = [], ev_reason_code = ''SCOPE_DENIED''\<rparr>],
      out_selected_intent = None, out_policy_decision = NOT_EVALUATED, out_tool_shortlist = [], out_plan_version = None,
      out_evidence_advanced_goal = False, out_plan_versions = [], out_safe_steps = [], out_safe_observations = [],
      out_input_tokens = None, out_output_tokens = None\<rparr>"

subsection \<open>The body of the run\<close>

definition params_of ::
  "('v, 'w) run_service \<Rightarrow> AuthorizationContext \<Rightarrow> run_request \<Rightarrow> PermittedToolDescriptor list \<Rightarrow> run_params" where
  "params_of sv context rq catalog =
     \<lparr>rp_digest = sv_digest sv, rp_uuid_text = sv_uuid_text sv, rp_fmt2 = sv_fmt2 sv, rp_limits = sv_limits sv,
      rp_query = rq_question rq, rp_authorization_context = context, rp_catalog = catalog,
      rp_request_id = rq_request_id rq, rp_mode = rq_agent_control_mode rq, rp_started = 0\<rparr>"

text \<open>How the try block ends, with the rows of its session.\<close>

datatype body_end =
    Body_done store AgentRunOutcome Message Message
  | Body_paused store ApprovalRequired Message
  | Body_mismatch
  | Body_cancelled
  | Body_failed

definition user_message ::
  "('v, 'w) run_service \<Rightarrow> AuthorizationContext \<Rightarrow> run_request \<Rightarrow> admission \<Rightarrow> run_record \<Rightarrow> store \<Rightarrow> 'v \<Rightarrow>
   (store \<times> Message) option \<times> 'v" where
  "user_message sv context rq adm rr st v =
     (case rq_resume_run rq of
        Some _ \<Rightarrow>
          (case Option.bind (run_initial_user_message_id (rr_run rr)) (get_message st) of
             None \<Rightarrow> (None, v)
           | Some m \<Rightarrow> (if msg_content m \<noteq> rq_question rq then None else Some (st, m), v))
      | None \<Rightarrow>
          (case add_message sv (ad_conversation adm) (identity_user_id (ctx_identity context)) ''user'' (rq_question rq)
                  (rq_request_id rq) st v of
             (Inl _, v) \<Rightarrow> (None, v)
           | (Inr (st, m), v) \<Rightarrow>
             (Some (put_run (rr\<lparr>rr_run := (rr_run rr)\<lparr>run_initial_user_message_id := Some (msg_id m)\<rparr>\<rparr>) st, m), v)))"

definition memory_company_ids :: "AuthorizationContext \<Rightarrow> uuid list" where
  "memory_company_ids context = remdups (concat (map company_ids (query_grants context)))"

text \<open>The proposal of a memory is offered to the memory service when the scope holds exactly one company.\<close>

definition settle_proposal ::
  "('v, 'w) run_service \<Rightarrow> AuthorizationContext \<Rightarrow> admission \<Rightarrow> Message \<Rightarrow> AgentRunOutcome \<Rightarrow> 'v \<Rightarrow>
   AgentRunOutcome awaited \<times> 'v" where
  "settle_proposal sv context adm m out v =
     (case out_memory_proposal out of
        Some (ProposeMemoryInput c k e) \<Rightarrow>
          let (notes, v) =
            (case memory_company_ids context of
               [company] \<Rightarrow> sv_apply_semantic_candidates sv context
                 \<lparr>mc_memory_type = ''SEMANTIC'', mc_action = ''ADD'', mc_content = c, mc_normalized_key = k,
                  mc_confidence = (if e then 1 else 7 / 10), mc_importance = 7 / 10, mc_sensitivity = ''LOW'',
                  mc_reason = ''Agent proposal accepted by host memory policy'', mc_explicit = e\<rparr>
                 company (conv_id (ad_conversation adm)) (msg_id m) v
             | _ \<Rightarrow> (Done [], v)) in
          (case notes of
             Done [] \<Rightarrow> (Done (out\<lparr>out_answer := ''The host memory policy rejected that proposal.''\<rparr>), v)
           | Done (n # _) \<Rightarrow> (Done (out\<lparr>out_answer := n\<rparr>), v)
           | Fails \<Rightarrow> (Fails, v) | Interrupted \<Rightarrow> (Interrupted, v))
      | _ \<Rightarrow> (Done out, v))"

definition finish_body ::
  "('v, 'w) run_service \<Rightarrow> AuthorizationContext \<Rightarrow> run_request \<Rightarrow> admission \<Rightarrow> store \<Rightarrow> Message \<Rightarrow> AgentRunOutcome \<Rightarrow> 'v \<Rightarrow>
   body_end \<times> 'v" where
  "finish_body sv context rq adm st m out v =
     (case add_message sv (ad_conversation adm) (identity_user_id (ctx_identity context)) ''assistant'' (out_answer out)
             (rq_request_id rq) st v of
        (Inl _, v) \<Rightarrow> (Body_failed, v)
      | (Inr (st, am), v) \<Rightarrow> (Body_done st out m am, v))"

text \<open>The call of the loop; the request may be cancelled while it runs.\<close>

definition run_agent ::
  "('v, 'w) run_service \<Rightarrow> AuthorizationContext \<Rightarrow> run_request \<Rightarrow> admission \<Rightarrow> uuid \<Rightarrow> GroundedAgentContext \<Rightarrow>
   PermittedToolDescriptor list \<Rightarrow> store \<Rightarrow> Message \<Rightarrow> 'v \<Rightarrow> 'w \<Rightarrow> body_end \<times> 'v \<times> 'w" where
  "run_agent sv context rq adm rid prompt_context catalog st m v w =
     (let (r, w) = agent_run (sv_env sv) (params_of sv context rq catalog) (Some rid) (rq_approved_action_hash rq)
            (rq_reconstructed_steps rq) prompt_context w;
          (cancelled, v) = sv_interrupted sv v in
      if cancelled then (Body_cancelled, v, w)
      else case r of
        Ended out \<Rightarrow>
          (case settle_proposal sv context adm m out v of
             (Done out, v) \<Rightarrow> (let (b, v) = finish_body sv context rq adm st m out v in (b, v, w))
           | (Fails, v) \<Rightarrow> (Body_failed, v, w)
           | (Interrupted, v) \<Rightarrow> (Body_cancelled, v, w))
      | Paused ar \<Rightarrow> (Body_paused st ar m, v, w)
      | ApprovalReconstructionMismatch \<Rightarrow> (Body_mismatch, v, w)
      | Raised _ \<Rightarrow> (Body_failed, v, w))"

definition run_body ::
  "('v, 'w) run_service \<Rightarrow> AuthorizationContext \<Rightarrow> run_request \<Rightarrow> admission \<Rightarrow> uuid \<Rightarrow> run_record \<Rightarrow>
   (string \<times> string) list \<Rightarrow> string option \<Rightarrow> store \<Rightarrow> 'v \<Rightarrow> 'w \<Rightarrow> body_end \<times> 'v \<times> 'w" where
  "run_body sv context rq adm rid rr recent summary_text st v w =
     (case user_message sv context rq adm rr st v of
        (None, v) \<Rightarrow> (Body_failed, v, w)
      | (Some (st, m), v) \<Rightarrow>
        if ad_route adm = None then
          let (e1, v) = sv_uuid4 sv v; (e2, v) = sv_uuid4 sv v;
              (b, v) = finish_body sv context rq adm st m (scope_denied_outcome rid e1 e2) v in (b, v, w)
        else case permitted_catalog (sv_input_schema sv) (ctx_scope context) APPROVED_TOOL_NAMES of
          Inl _ \<Rightarrow> (Body_failed, v, w)
        | Inr catalog \<Rightarrow>
          (case sv_retrieve_relevant sv context (rq_question rq) v of
             (Fails, v) \<Rightarrow> (Body_failed, v, w)
           | (Interrupted, v) \<Rightarrow> (Body_cancelled, v, w)
           | (Done rows, v) \<Rightarrow>
             run_agent sv context rq adm rid
               \<lparr>gx_memories = map (\<lambda>i. \<lparr>gm_memory_id = mi_id i, gm_scope = mi_scope i, gm_content = take 500 (mi_content i),
                    gm_memory_type = mi_memory_type i\<rparr>) (take 5 rows),
                gx_recent_messages = recent, gx_conversation_summary = summary_text\<rparr> catalog st m v w))"

subsection \<open>The pause\<close>

text \<open>\<^verbatim>\<open>str.title\<close> on ASCII text: a letter after a letter is lower case, any other letter is upper case.\<close>

definition title_letter :: "char \<Rightarrow> bool" where
  "title_letter c = is_lower (lower_char c)"

definition upper_char :: "char \<Rightarrow> char" where
  "upper_char c = (if is_lower c then char_of (of_char c - 32 :: nat) else c)"

fun title_from :: "bool \<Rightarrow> string \<Rightarrow> string" where
  "title_from after [] = []"
| "title_from after (c # cs) = (if title_letter c then if after then lower_char c else upper_char c else c) # title_from (title_letter c) cs"

definition ACTION_LABELS :: "(string \<times> string) list" where
  "ACTION_LABELS =
     [(''portfolio.search_authorized_documents'', ''Search authorized documents''),
      (''portfolio.get_document_excerpt'', ''Read an authorized document excerpt''),
      (''portfolio.calculate_ebitda_margin'', ''Calculate EBITDA margin''),
      (''portfolio.calculate_revenue_growth'', ''Calculate revenue growth''),
      (''portfolio.calculate_net_profit_margin'', ''Calculate net profit margin''),
      (''portfolio.query_financial_metrics'', ''Query authorized financial metrics''),
      (''portfolio.calculate_debt_to_equity'', ''Calculate debt-to-equity''),
      (''portfolio.calculate_cash_runway'', ''Calculate cash runway''),
      (''portfolio.calculate_cagr'', ''Calculate CAGR''),
      (''portfolio.search_memory'', ''Search authorized private memory''),
      (''portfolio.propose_memory'', ''Propose a private memory'')]"

record ApprovalStateData =
  asd_approval_id :: uuid
  asd_run_id :: uuid
  asd_status :: ApprovalStatus
  asd_action_label :: string
  asd_tool_name :: string
  asd_risk_level :: ApprovalRiskClass
  asd_resource_type :: string
  asd_safe_scope_summary :: string
  asd_remaining_steps :: int
  asd_expires_at :: time

definition resource_type :: "string \<Rightarrow> string" where
  "resource_type tool_name =
     (if tool_name \<in> {''portfolio.search_memory'', ''portfolio.propose_memory''} then ''authorized private memory''
      else if contains ''.calculate_'' tool_name \<or> tool_name = ''portfolio.query_financial_metrics'' then ''authorized financial data''
      else ''authorized portfolio documents'')"

definition scope_summary :: "AuthorizationGrant \<Rightarrow> string" where
  "scope_summary g = workspace_name g @ [CHR '' '', CHR 0xB7, CHR '' ''] @ title_from False (primary_department g)"

datatype service_reply = Answered AgentRunOutcome Message Message | Awaiting ApprovalStateData

definition perceived :: "string \<Rightarrow> string \<Rightarrow> run_record \<Rightarrow> run_record" where
  "perceived status code rr = rr\<lparr>rr_run := (rr_run rr)\<lparr>run_perception_status := status, run_perception_reason_code := code\<rparr>\<rparr>"

definition create_pause ::
  "('v, 'w) run_service \<Rightarrow> AuthorizationContext \<Rightarrow> ApprovalRequired \<Rightarrow> string \<Rightarrow> uuid \<Rightarrow> time \<Rightarrow> run_record \<Rightarrow> store \<Rightarrow>
   (history_error, store \<times> AgentApprovalRequest) result" where
  "create_pause sv context ar tool aid now rr st =
     bindR (persist_checkpoint_history (sv_visible sv (ctx_scope context)) rr (ar_plans ar) (ar_safe_steps ar) (ar_safe_observations ar)) (\<lambda>rr.
     bindR (create_pending_approval rr (ar_plans ar) (ar_plan_version ar) (ar_proposed_step_number ar) tool (ar_action_hash ar)
         (sv_scope_fingerprint sv (ctx_scope context)) (ar_risk_class ar) aid now) (\<lambda>(rr, approval).
     bindR (transition_run (perceived ''COMPLETED'' ''PERCEPTION_COMPLETED'' rr) AWAITING_APPROVAL ''USER_APPROVAL_REQUIRED'' now) (\<lambda>rr.
     bindR (commit_run rr st) (\<lambda>st. Inr (st, approval)))))"

text \<open>
  The handler of \<^verbatim>\<open>ApprovalRequired\<close>.  An exception inside it is not caught by the other handlers of the same try:
  the session is closed without a commit, and the rows of the last commit \<open>st0\<close> stay.
\<close>

definition handle_pause ::
  "('v, 'w) run_service \<Rightarrow> AuthorizationContext \<Rightarrow> uuid \<Rightarrow> ApprovalRequired \<Rightarrow> int \<Rightarrow> store \<Rightarrow> store \<Rightarrow> 'v \<Rightarrow>
   (service_exn, service_reply) result \<times> store \<times> 'v" where
  "handle_pause sv context rid ar elapsed st0 st v =
     (let (now, v) = sv_now sv v; (aid, v) = sv_uuid4 sv v in
      case act_name (ar_action ar) of
        None \<Rightarrow> (let (r, st) = end_with rid RUN_FAILED elapsed ''APPROVAL_RECONSTRUCTION_INVALID'' (APIError 500 ''agent_run_failed'') now st0
                 in (r, st, v))
      | Some tool \<Rightarrow>
        (case st_runs st rid of
           None \<Rightarrow> (Inl Escaped, st0, v)
         | Some rr \<Rightarrow>
           (case create_pause sv context ar tool aid now rr st of
              Inl _ \<Rightarrow> (Inl Escaped, st0, v)
            | Inr (st, approval) \<Rightarrow>
              (case (grants (ctx_scope context), map_of ACTION_LABELS tool) of
                 (g # _, Some label) \<Rightarrow>
                   (Inr (Awaiting \<lparr>asd_approval_id = aq_id approval, asd_run_id = rid, asd_status = AP_PENDING,
                      asd_action_label = label, asd_tool_name = tool, asd_risk_level = ar_risk_class ar,
                      asd_resource_type = resource_type tool, asd_safe_scope_summary = scope_summary g,
                      asd_remaining_steps = ar_remaining_tools ar, asd_expires_at = aq_expires_at approval\<rparr>), st, v)
               | _ \<Rightarrow> (Inl Escaped, st, v)))))"

subsection \<open>The end of a run\<close>

definition trace_status :: "AgentRunOutcome \<Rightarrow> string" where
  "trace_status out =
     (if out_terminal_status out = T_COMPLETED then ''grounded''
      else if out_stopping_reason out \<in> {S_MODEL_ERROR, S_TOOL_ERROR} then ''provider_error'' else ''insufficient_evidence'')"

fun terminal_run_status :: "TerminalStatus \<Rightarrow> AgentRunStatus" where
  "terminal_run_status T_COMPLETED = RUN_COMPLETED"
| "terminal_run_status T_REFUSED = RUN_REFUSED"
| "terminal_run_status T_NEEDS_CLARIFICATION = RUN_CLARIFICATION_REQUIRED"
| "terminal_run_status T_INSUFFICIENT_EVIDENCE = RUN_INSUFFICIENT_EVIDENCE"
| "terminal_run_status T_LIMIT_REACHED = RUN_LIMIT_REACHED"
| "terminal_run_status T_FAILED = RUN_FAILED"

definition final_perception :: "AgentRunOutcome \<Rightarrow> bool \<Rightarrow> string \<times> string" where
  "final_perception out request_scope_allowed =
     (if \<exists>e \<in> set (out_trace out). ev_type e = E_PERCEPTION then (''COMPLETED'', ''PERCEPTION_COMPLETED'')
      else if out_stopping_reason out = S_MODEL_ERROR \<and> request_scope_allowed then (''FAILED'', ''PERCEPTION_MODEL_FAILED'')
      else (''NOT_STARTED'', ''PERCEPTION_NOT_STARTED''))"

fun route_reason_value :: "RouteReason \<Rightarrow> string" where
  "route_reason_value USER_REQUESTED_DEEP = ''USER_REQUESTED_DEEP''"
| "route_reason_value FAST_MODE_ELIGIBLE = ''FAST_MODE_ELIGIBLE''"
| "route_reason_value DEEP_MODE_REQUIRED = ''DEEP_MODE_REQUIRED''"
| "route_reason_value SIMPLE_LOW_RISK = ''SIMPLE_LOW_RISK''"
| "route_reason_value AGENTIC_REQUEST = ''AGENTIC_REQUEST''"
| "route_reason_value MULTI_DOCUMENT = ''MULTI_DOCUMENT''"
| "route_reason_value LOW_CONFIDENCE = ''LOW_CONFIDENCE''"
| "route_reason_value COMPLEX_REQUEST = ''COMPLEX_REQUEST''"

definition add_trace :: "ChatRequestTrace \<Rightarrow> store \<Rightarrow> store" where
  "add_trace t st = st\<lparr>st_traces := st_traces st @ [t\<lparr>tr_latency_ms := max 0 (tr_latency_ms t), tr_retry_count := max 0 (tr_retry_count t)\<rparr>]\<rparr>"

definition run_trace ::
  "('v, 'w) run_service \<Rightarrow> AuthorizationContext \<Rightarrow> run_request \<Rightarrow> admission \<Rightarrow> AgentRunOutcome \<Rightarrow> int \<Rightarrow> ChatRequestTrace" where
  "run_trace sv context rq adm out latency =
     \<lparr>tr_request_id = rq_request_id rq, tr_conversation_id = conv_id (ad_conversation adm),
      tr_tenant_id = conv_tenant_id (ad_conversation adm), tr_user_id = identity_user_id (ctx_identity context),
      tr_model_name = (if ad_route adm = None then ''NO_MODEL_CALL'' else sv_model_name sv), tr_status = trace_status out,
      tr_reason_code = stopping_code (out_stopping_reason out), tr_intent_route = ''AGENT'',
      tr_document_ids = fromkeys (map ci_document_id (out_citations out)), tr_chunk_ids = map ci_chunk_id (out_citations out),
      tr_input_tokens = out_input_tokens out, tr_output_tokens = out_output_tokens out, tr_latency_ms = latency,
      tr_retry_count = out_retry_count out,
      tr_route_reason_code = (case ad_route adm of None \<Rightarrow> ''NO_MODEL_CALL'' | Some d \<Rightarrow> route_reason_value (rd_reason d))\<rparr>"

definition finished_run :: "AgentRunOutcome \<Rightarrow> bool \<Rightarrow> Message \<Rightarrow> int \<Rightarrow> run_record \<Rightarrow> run_record" where
  "finished_run out scope_ok am duration rr =
     (case final_perception out scope_ok of (status, code) \<Rightarrow>
        perceived status code (rr\<lparr>rr_run := (rr_run rr)\<lparr>run_duration_ms := duration, run_final_assistant_message_id := Some (msg_id am)\<rparr>\<rparr>))"

definition close_run ::
  "('v, 'w) run_service \<Rightarrow> AuthorizationContext \<Rightarrow> run_request \<Rightarrow> admission \<Rightarrow> uuid \<Rightarrow> AgentRunOutcome \<Rightarrow> Message \<Rightarrow> Message \<Rightarrow>
   int \<Rightarrow> store \<Rightarrow> store \<Rightarrow> 'v \<Rightarrow> (service_exn, service_reply) result \<times> store \<times> 'v" where
  "close_run sv context rq adm rid out m am elapsed st0 st v =
     (let (now, v) = sv_now sv v; (cancelled, v) = sv_interrupted sv v;
          st = add_trace (run_trace sv context rq adm out (max 0 elapsed)) st;
          duration = min 120000 (max 0 elapsed) in
      case st_runs st rid of
        None \<Rightarrow> (Inl Escaped, st0, v)
      | Some rr \<Rightarrow>
        if cancelled then (let (r, st) = end_with rid RUN_CANCELLED duration ''REQUEST_CANCELLED'' CancelledError now st0 in (r, st, v))
        else
          (case bindR (persist_outcome_history (sv_visible sv (ctx_scope context)) (finished_run out (ad_route adm \<noteq> None) am duration rr) out) (\<lambda>rr.
                bindR (transition_run rr (terminal_run_status (out_terminal_status out)) (stopping_code (out_stopping_reason out)) now) (\<lambda>rr.
                commit_run rr st)) of
             Inl _ \<Rightarrow> (let (r, st) = end_with rid RUN_FAILED duration ''PERSISTENCE_VALIDATION_FAILED'' (APIError 500 ''agent_history_failed'') now st0
                       in (r, st, v))
           | Inr st \<Rightarrow> (Inr (Answered out m am), st, v)))"

subsection \<open>A request\<close>

definition conclude ::
  "('v, 'w) run_service \<Rightarrow> AuthorizationContext \<Rightarrow> run_request \<Rightarrow> admission \<Rightarrow> uuid \<Rightarrow> int \<Rightarrow> store \<Rightarrow> body_end \<Rightarrow> 'v \<Rightarrow>
   (service_exn, service_reply) result \<times> store \<times> 'v" where
  "conclude sv context rq adm rid elapsed st0 b v =
     (case b of
        Body_done st out m am \<Rightarrow> close_run sv context rq adm rid out m am elapsed st0 st v
      | Body_paused st ar m \<Rightarrow> handle_pause sv context rid ar elapsed st0 st v
      | _ \<Rightarrow>
        let (now, v) = sv_now sv v;
            (r, st) = (case b of
               Body_mismatch \<Rightarrow> end_with rid RUN_FAILED elapsed ''APPROVED_ACTION_HASH_MISMATCH'' (APIError 409 ''approval_mismatch'') now st0
             | Body_cancelled \<Rightarrow> end_with rid RUN_CANCELLED elapsed ''REQUEST_CANCELLED'' CancelledError now st0
             | _ \<Rightarrow> end_with rid RUN_FAILED elapsed ''AGENT_EXECUTION_FAILED_SAFE'' (APIError 500 ''agent_run_failed'') now st0)
        in (r, st, v))"

definition summary_of ::
  "('v, 'w) run_service \<Rightarrow> AuthorizationContext \<Rightarrow> admission \<Rightarrow> 'v \<Rightarrow> string option awaited \<times> 'v" where
  "summary_of sv context adm v =
     (if ad_route adm = None then (Done None, v) else sv_conversation_summary sv context (conv_id (ad_conversation adm)) v)"

definition service_run ::
  "('v, 'w) run_service \<Rightarrow> AuthorizationContext \<Rightarrow> run_request \<Rightarrow> store \<Rightarrow> 'v \<Rightarrow> 'w \<Rightarrow>
   (service_exn, service_reply) result \<times> store \<times> 'v \<times> 'w" where
  "service_run sv context rq st v w =
     (case admit sv context rq st of
        Inl e \<Rightarrow> (Inl e, st, v, w)
      | Inr adm \<Rightarrow>
        let (started, v) = sv_monotonic sv v; (fresh, v) = sv_uuid4 sv v; (now, v) = sv_now sv v;
            rid = (case rq_resume_run rq of Some old \<Rightarrow> old | None \<Rightarrow> fresh);
            recent = (if ad_route adm = None then [] else recent_messages sv context rq adm st) in
        case summary_of sv context adm v of
          (Fails, v) \<Rightarrow> (Inl Escaped, st, v, w)
        | (Interrupted, v) \<Rightarrow> (Inl CancelledError, st, v, w)
        | (Done summary_text, v) \<Rightarrow>
          (case open_run sv context rq adm rid now st of
             Inl e \<Rightarrow> (Inl e, st, v, w)
           | Inr (st, rr) \<Rightarrow>
             let (b, v, w) = run_body sv context rq adm rid rr recent summary_text st v w;
                 (ended, v) = sv_monotonic sv v;
                 (r, st, v) = conclude sv context rq adm rid (trunc ((ended - started) * 1000)) st b v in
             (r, st, v, w)))"

subsection \<open>The invariant of the rows\<close>

fun approval_state_ok :: "AgentApprovalRequest \<Rightarrow> bool" where
  "approval_state_ok a =
     (case aq_status a of
        AP_PENDING \<Rightarrow> aq_resolved_at a = None \<and> aq_consumed_at a = None
      | AP_CONSUMED \<Rightarrow> aq_resolved_at a \<noteq> None \<and> aq_consumed_at a \<noteq> None
      | _ \<Rightarrow> aq_resolved_at a \<noteq> None \<and> aq_consumed_at a = None)"

definition run_ok :: "run_record \<Rightarrow> bool" where
  "run_ok rr =
     (run_row_ok (rr_run rr) \<and> approvals_unique (rr_approvals rr) \<and>
      list_all approval_row_ok (rr_approvals rr) \<and> list_all approval_state_ok (rr_approvals rr) \<and>
      (pending (rr_approvals rr) \<noteq> [] \<longleftrightarrow> run_status (rr_run rr) = AWAITING_APPROVAL))"

definition store_ok :: "store \<Rightarrow> bool" where
  "store_ok st = (\<forall>rid rr. st_runs st rid = Some rr \<longrightarrow> run_id (rr_run rr) = rid \<and> run_ok rr)"

text \<open>What a request may do to a run that exists: add rows, and only pending approvals.\<close>

definition run_extends :: "run_record \<Rightarrow> run_record \<Rightarrow> bool" where
  "run_extends rr rr' =
     (\<exists>ap pl ss. rr_approvals rr' = rr_approvals rr @ ap \<and> rr_plans rr' = rr_plans rr @ pl \<and> rr_steps rr' = rr_steps rr @ ss \<and>
        list_all (\<lambda>a. aq_status a = AP_PENDING) ap \<and> run_user_id (rr_run rr') = run_user_id (rr_run rr) \<and>
        run_tenant_id (rr_run rr') = run_tenant_id (rr_run rr))"

definition extends :: "store \<Rightarrow> store \<Rightarrow> bool" where
  "extends st st' = (\<forall>rid rr. st_runs st rid = Some rr \<longrightarrow> (\<exists>rr'. st_runs st' rid = Some rr' \<and> run_extends rr rr'))"

lemma run_extends_refl [simp]: "run_extends rr rr"
  by (simp add: run_extends_def)

lemma run_extends_trans [trans]: "run_extends a b \<Longrightarrow> run_extends b c \<Longrightarrow> run_extends a c"
  by (force simp: run_extends_def)

lemma extends_refl [simp]: "extends st st"
  by (simp add: extends_def)

lemma extends_trans [trans]: "extends a b \<Longrightarrow> extends b c \<Longrightarrow> extends a c"
  by (fastforce simp: extends_def intro: run_extends_trans)

lemma store_okD: "store_ok st \<Longrightarrow> st_runs st rid = Some rr \<Longrightarrow> run_id (rr_run rr) = rid \<and> run_ok rr"
  by (simp add: store_ok_def)

lemma put_run_ok: "store_ok st \<Longrightarrow> run_ok rr \<Longrightarrow> store_ok (put_run rr st)"
  by (simp add: store_ok_def put_run_def)

lemma put_run_extends:
  "st_runs st (run_id (rr_run rr')) = Some rr \<Longrightarrow> run_extends rr rr' \<Longrightarrow> extends st (put_run rr' st)"
  by (auto simp: extends_def put_run_def)

subsection \<open>Inversions of the row operations\<close>

lemma run_row_ok_update [simp]:
  "run_row_ok (r\<lparr>run_status := s\<rparr>) = run_row_ok r" "run_row_ok (r\<lparr>run_safe_reason_code := c\<rparr>) = run_row_ok r"
  "run_row_ok (r\<lparr>run_started_at := t\<rparr>) = run_row_ok r" "run_row_ok (r\<lparr>run_completed_at := t\<rparr>) = run_row_ok r"
  "run_row_ok (r\<lparr>run_initial_user_message_id := m\<rparr>) = run_row_ok r"
  by (simp_all add: run_row_ok_def)

lemma run_row_ok_duration: "run_row_ok r \<Longrightarrow> run_row_ok (r\<lparr>run_duration_ms := min 120000 (max 0 d)\<rparr>)"
  by (simp add: run_row_ok_def)

lemma transition_run_Inr:
  assumes "transition_run rr target reason now = Inr rr'"
  shows "target \<in> set (run_transitions (run_status (rr_run rr)))" and "run_status (rr_run rr') = target"
    and "rr_approvals rr' = rr_approvals rr" and "rr_plans rr' = rr_plans rr" and "rr_steps rr' = rr_steps rr"
    and "run_id (rr_run rr') = run_id (rr_run rr)" and "run_user_id (rr_run rr') = run_user_id (rr_run rr)"
    and "run_tenant_id (rr_run rr') = run_tenant_id (rr_run rr)" and "run_row_ok (rr_run rr') = run_row_ok (rr_run rr)"
  using assms by (auto simp: transition_run_def validate_agent_run_transition_def Let_def split: if_splits)

lemma transition_run_possible:
  "target \<in> set (run_transitions (run_status (rr_run rr))) \<Longrightarrow> \<exists>rr'. transition_run rr target reason now = Inr rr'"
  by (simp add: transition_run_def validate_agent_run_transition_def Let_def)

lemma transition_extends: "transition_run rr target reason now = Inr rr' \<Longrightarrow> run_extends rr rr'"
  using transition_run_Inr [of rr target reason now rr'] by (simp add: run_extends_def)

text \<open>A run without pending approvals may take any status but the waiting one.\<close>

lemma transition_ok:
  assumes t: "transition_run rr target reason now = Inr rr'" and "run_row_ok (rr_run rr)" and "target \<noteq> AWAITING_APPROVAL"
    and "approvals_unique (rr_approvals rr)" "list_all approval_row_ok (rr_approvals rr)" "list_all approval_state_ok (rr_approvals rr)"
    and "pending (rr_approvals rr) = []"
  shows "run_ok rr'"
  using assms(2-) transition_run_Inr [OF t] by (simp add: run_ok_def)

lemma commit_run_Inr: "commit_run rr st = Inr st' \<longleftrightarrow> run_row_ok (rr_run rr) \<and> st' = put_run rr st"
  by (auto simp: commit_run_def)

definition open_status :: "run_record \<Rightarrow> bool" where
  "open_status rr = (run_status (rr_run rr) \<in> {CREATED, RUNNING})"

text \<open>Ending a run never fails, and a run that was open is ended.\<close>

lemma mark_run_terminal_ends:
  assumes "store_ok st" "st_runs st rid = Some rr" "open_status rr" "status \<in> {RUN_FAILED, RUN_CANCELLED}"
  shows "\<exists>rr'. mark_run_terminal rid status d reason now st = Inr (put_run rr' st) \<and> run_ok rr' \<and> run_extends rr rr' \<and>
    run_id (rr_run rr') = rid \<and> run_status (rr_run rr') = status"
proof -
  let ?rr = "rr\<lparr>rr_run := (rr_run rr)\<lparr>run_duration_ms := min 120000 (max 0 d)\<rparr>\<rparr>"
  have ok: "run_ok rr" "run_id (rr_run rr) = rid" using store_okD [OF assms(1,2)] by auto
  have "status \<in> set (run_transitions (run_status (rr_run ?rr)))"
    using assms(3,4) by (auto simp: open_status_def TERMINAL_AGENT_RUN_STATUSES_def)
  then obtain rr' where t: "transition_run ?rr status reason now = Inr rr'" using transition_run_possible by blast
  have row: "run_row_ok (rr_run ?rr)" using ok(1) run_row_ok_duration by (simp add: run_ok_def)
  have pend: "pending (rr_approvals rr) = []" using ok(1) assms(3) by (auto simp: run_ok_def open_status_def)
  have "status \<noteq> AWAITING_APPROVAL" using assms(4) by auto
  with transition_ok [OF t row] ok(1) pend have "run_ok rr'" by (simp add: run_ok_def)
  moreover have "run_row_ok (rr_run rr')" using transition_run_Inr(9) [OF t] row by simp
  moreover have "run_extends rr rr'" using transition_run_Inr [OF t] by (simp add: run_extends_def)
  ultimately show ?thesis
    using t assms(2,3) transition_run_Inr(2,6) [OF t] ok(2) by (auto simp: mark_run_terminal_def open_status_def commit_run_def)
qed

subsection \<open>What a request does to the rows\<close>

text \<open>The rows of the session of a run: those of the last commit, but for the first message of the run.\<close>

definition session_of :: "uuid \<Rightarrow> store \<Rightarrow> store \<Rightarrow> bool" where
  "session_of rid st0 st =
     (\<exists>rr m. st_runs st0 rid = Some rr \<and> open_status rr \<and>
        st_runs st = (st_runs st0)(rid \<mapsto> rr\<lparr>rr_run := (rr_run rr)\<lparr>run_initial_user_message_id := m\<rparr>\<rparr>))"

lemma session_of_refl: "st_runs st rid = Some rr \<Longrightarrow> open_status rr \<Longrightarrow> st_runs st' = st_runs st \<Longrightarrow> session_of rid st st'"
  unfolding session_of_def by (intro exI [of _ rr] exI [of _ "run_initial_user_message_id (rr_run rr)"]) (simp add: map_upd_triv)

lemma add_message_runs: "add_message sv c u role content q st v = (Inr (st', m), v') \<Longrightarrow> st_runs st' = st_runs st"
  by (auto simp: add_message_def Let_def split: prod.splits if_splits)

lemma user_message_session:
  assumes "user_message sv cx rq adm rr st v = (Some (st', m), v')" "st_runs st rid = Some rr" "open_status rr" "run_id (rr_run rr) = rid"
  shows "session_of rid st st'"
proof (cases "rq_resume_run rq")
  case None
  with assms(1) obtain st1 where a: "st_runs st1 = st_runs st"
    and st': "st' = put_run (rr\<lparr>rr_run := (rr_run rr)\<lparr>run_initial_user_message_id := Some (msg_id m)\<rparr>\<rparr>) st1"
    by (auto simp: user_message_def dest: add_message_runs split: prod.splits sum.splits)
  show ?thesis unfolding session_of_def
    using assms(2-) by (intro exI [of _ rr] exI [of _ "Some (msg_id m)"]) (simp add: st' put_run_def a)
next
  case (Some old)
  with assms(1) have "st' = st" by (auto simp: user_message_def split: option.splits if_splits)
  with session_of_refl [OF assms(2,3)] show ?thesis by simp
qed

fun body_session :: "uuid \<Rightarrow> store \<Rightarrow> body_end \<Rightarrow> bool" where
  "body_session rid st0 (Body_done st out m am) = session_of rid st0 st"
| "body_session rid st0 (Body_paused st ar m) = session_of rid st0 st"
| "body_session rid st0 b = True"

lemma session_of_runs: "session_of rid st0 st \<Longrightarrow> st_runs st' = st_runs st \<Longrightarrow> session_of rid st0 st'"
  by (simp add: session_of_def)

lemma finish_body_session:
  "finish_body sv cx rq adm st m out v = (b, v') \<Longrightarrow> session_of rid st0 st \<Longrightarrow> body_session rid st0 b"
  by (auto simp: finish_body_def dest!: add_message_runs intro: session_of_runs split: prod.splits sum.splits)

lemma run_agent_session:
  "run_agent sv cx rq adm rid gx cat st m v w = (b, v', w') \<Longrightarrow> session_of rid st0 st \<Longrightarrow> body_session rid st0 b"
  by (auto simp: run_agent_def Let_def intro: finish_body_session
      split: prod.splits if_splits run_result.splits awaited.splits)

lemma run_body_session:
  assumes "run_body sv cx rq adm rid rr recent sm st v w = (b, v', w')" "st_runs st rid = Some rr" "open_status rr" "run_id (rr_run rr) = rid"
  shows "body_session rid st b"
proof (cases "user_message sv cx rq adm rr st v")
  case (Pair u v1)
  show ?thesis
  proof (cases u)
    case None
    with Pair assms(1) show ?thesis by (auto simp: run_body_def)
  next
    case (Some x)
    obtain st1 m where x: "x = (st1, m)" by (cases x)
    have s: "session_of rid st st1" by (rule user_message_session [OF Pair [unfolded Some x] assms(2-)])
    show ?thesis using assms(1)
      by (auto simp: run_body_def Pair Some x Let_def intro: finish_body_session [OF _ s] run_agent_session [OF _ s]
          split: prod.splits if_splits sum.splits awaited.splits)
  qed
qed

lemma persist_frame:
  assumes "persist_outcome_history visible rr out = Inr rr'"
  shows "run_id (rr_run rr') = run_id (rr_run rr)" "run_user_id (rr_run rr') = run_user_id (rr_run rr)"
    "run_tenant_id (rr_run rr') = run_tenant_id (rr_run rr)" "run_status (rr_run rr') = run_status (rr_run rr)"
    "rr_approvals rr' = rr_approvals rr"
  using assms by (auto simp: persist_outcome_history_def result_simps split: if_splits)

lemma persist_extends: "persist_outcome_history visible rr out = Inr rr' \<Longrightarrow> run_extends rr rr'"
  using persist_frame [of visible rr out rr'] persist_steps(1) [of visible rr out rr'] merge_plans_Inr [OF persist_Inr(1) [of visible rr out rr']]
  by (auto simp: run_extends_def)

lemma checkpoint_Inr:
  "persist_checkpoint_history visible rr plans steps obs = Inr rr' \<Longrightarrow> \<exists>out. persist_outcome_history visible rr out = Inr rr'"
  by (auto simp: persist_checkpoint_history_def Let_def split: if_splits)

lemma create_pending_approval_Inr:
  assumes "create_pending_approval rr plans pv psn tool h fp rc aid now = Inr (rr', a)"
  shows "rr_approvals rr' = rr_approvals rr @ [a]" "aq_status a = AP_PENDING" "approval_state_ok a" "approval_row_ok a"
    "approvals_unique (rr_approvals rr')" "\<exists>new. rr_plans rr' = rr_plans rr @ new" "rr_steps rr' = rr_steps rr"
    "run_id (rr_run rr') = run_id (rr_run rr)" "run_user_id (rr_run rr') = run_user_id (rr_run rr)"
    "run_tenant_id (rr_run rr') = run_tenant_id (rr_run rr)" "run_status (rr_run rr') = run_status (rr_run rr)"
    "aq_action_argument_hash a = h" "aq_scope_fingerprint a = fp" "aq_expires_at a = now + APPROVAL_LIFETIME"
proof -
  have "(\<exists>new n. rr' = rr\<lparr>rr_plans := rr_plans rr @ new, rr_approvals := rr_approvals rr @ [a],
      rr_run := (rr_run rr)\<lparr>run_plan_version_count := n\<rparr>\<rparr>)"
    and a: "aq_status a = AP_PENDING \<and> approval_state_ok a \<and> approval_row_ok a \<and> approvals_unique (rr_approvals rr @ [a]) \<and>
      aq_action_argument_hash a = h \<and> aq_scope_fingerprint a = fp \<and> aq_expires_at a = now + APPROVAL_LIFETIME"
    using assms by (auto simp: create_pending_approval_def Let_def split: if_split_asm)
  then obtain new n where "rr' = rr\<lparr>rr_plans := rr_plans rr @ new, rr_approvals := rr_approvals rr @ [a],
      rr_run := (rr_run rr)\<lparr>run_plan_version_count := n\<rparr>\<rparr>" by blast
  moreover from a have "approval_state_ok a" by blast
  ultimately show "rr_approvals rr' = rr_approvals rr @ [a]" "aq_status a = AP_PENDING" "approval_state_ok a" "approval_row_ok a"
    "approvals_unique (rr_approvals rr')" "\<exists>new. rr_plans rr' = rr_plans rr @ new" "rr_steps rr' = rr_steps rr"
    "run_id (rr_run rr') = run_id (rr_run rr)" "run_user_id (rr_run rr') = run_user_id (rr_run rr)"
    "run_tenant_id (rr_run rr') = run_tenant_id (rr_run rr)" "run_status (rr_run rr') = run_status (rr_run rr)"
    "aq_action_argument_hash a = h" "aq_scope_fingerprint a = fp" "aq_expires_at a = now + APPROVAL_LIFETIME"
    using a by (simp_all only: run_record.simps AgentRun.simps, simp_all)
qed

lemma perceived_frame [simp]:
  "rr_approvals (perceived s c rr) = rr_approvals rr" "rr_plans (perceived s c rr) = rr_plans rr"
  "rr_steps (perceived s c rr) = rr_steps rr" "run_id (rr_run (perceived s c rr)) = run_id (rr_run rr)"
  "run_user_id (rr_run (perceived s c rr)) = run_user_id (rr_run rr)"
  "run_tenant_id (rr_run (perceived s c rr)) = run_tenant_id (rr_run rr)"
  "run_status (rr_run (perceived s c rr)) = run_status (rr_run rr)"
  by (simp_all add: perceived_def)

lemma session_ofD:
  assumes "session_of rid st0 st" "store_ok st0"
  shows "store_ok st \<and> (\<exists>rr0 rr. st_runs st0 rid = Some rr0 \<and> st_runs st = (st_runs st0)(rid \<mapsto> rr) \<and> run_extends rr0 rr \<and> open_status rr)"
proof -
  from assms(1) obtain rr m where r: "st_runs st0 rid = Some rr" "open_status rr"
    "st_runs st = (st_runs st0)(rid \<mapsto> rr\<lparr>rr_run := (rr_run rr)\<lparr>run_initial_user_message_id := m\<rparr>\<rparr>)"
    by (auto simp: session_of_def)
  with store_okD [OF assms(2) r(1)] assms(2) show ?thesis
    by (auto simp: store_ok_def run_extends_def run_ok_def open_status_def)
qed

text \<open>A commit that replaces the row of a run by a valid extension.\<close>

definition moves :: "uuid \<Rightarrow> AgentRunStatus \<Rightarrow> store \<Rightarrow> store \<Rightarrow> bool" where
  "moves rid status st st' =
     (store_ok st' \<and> (\<exists>rr rr'. st_runs st rid = Some rr \<and> st_runs st' = (st_runs st)(rid \<mapsto> rr') \<and> run_extends rr rr' \<and>
        run_status (rr_run rr') = status))"

lemma moves_extends: "moves rid status st st' \<Longrightarrow> extends st st'"
  by (auto simp: moves_def extends_def)

lemma moves_trans:
  assumes "moves rid x st st'" "st_runs st0 rid = Some rr0" "st_runs st = (st_runs st0)(rid \<mapsto> rr)" "run_extends rr0 rr"
  shows "moves rid x st0 st'"
  using assms by (auto simp: moves_def intro: run_extends_trans)

lemma movesI:
  "store_ok st \<Longrightarrow> st_runs st rid = Some rr \<Longrightarrow> run_ok rr' \<Longrightarrow> run_extends rr rr' \<Longrightarrow> run_id (rr_run rr') = rid \<Longrightarrow>
   run_status (rr_run rr') = status \<Longrightarrow> moves rid status st (put_run rr' st)"
  using put_run_ok [of st rr'] by (auto simp: moves_def put_run_def)

lemma end_with_moves:
  assumes "store_ok st" "st_runs st rid = Some rr" "open_status rr" "status \<in> {RUN_FAILED, RUN_CANCELLED}"
    and "end_with rid status d reason exn now st = (r, st')"
  shows "moves rid status st st' \<and> r = Inl exn"
proof -
  from mark_run_terminal_ends [OF assms(1-4)] obtain rr' where
    "mark_run_terminal rid status d reason now st = Inr (put_run rr' st)" "run_ok rr'" "run_extends rr rr'"
    "run_id (rr_run rr') = rid" "run_status (rr_run rr') = status" by blast
  with assms(5) movesI [OF assms(1,2)] show ?thesis by (auto simp: end_with_def)
qed

lemma pending_snoc: "pending (xs @ [a]) = pending xs @ (if aq_status a = AP_PENDING then [a] else [])"
  by (simp add: pending_def)

lemma create_pause_moves:
  assumes "create_pause sv cx ar tool aid now rr st = Inr (st', a)" "store_ok st" "st_runs st rid = Some rr" "open_status rr"
  shows "moves rid AWAITING_APPROVAL st st'"
proof -
  from assms(1) obtain out rr1 rr2 rr3 where
    h: "persist_outcome_history (sv_visible sv (ctx_scope cx)) rr out = Inr rr1"
    and a: "create_pending_approval rr1 (ar_plans ar) (ar_plan_version ar) (ar_proposed_step_number ar) tool (ar_action_hash ar)
         (sv_scope_fingerprint sv (ctx_scope cx)) (ar_risk_class ar) aid now = Inr (rr2, a)"
    and t: "transition_run (perceived ''COMPLETED'' ''PERCEPTION_COMPLETED'' rr2) AWAITING_APPROVAL ''USER_APPROVAL_REQUIRED'' now = Inr rr3"
    and row: "run_row_ok (rr_run rr3)" and st': "st' = put_run rr3 st"
    by (auto simp: create_pause_def result_simps commit_run_Inr dest!: checkpoint_Inr)
  note f = persist_frame [OF h] create_pending_approval_Inr [OF a] transition_run_Inr [OF t]
  have ok: "run_id (rr_run rr) = rid" "run_ok rr" using store_okD [OF assms(2,3)] by auto
  have "run_ok rr3"
    using ok(2) f row by (simp add: run_ok_def pending_snoc del: approval_state_ok.simps)
  moreover have "run_extends rr1 rr2" using f(6-) by (auto simp: run_extends_def)
  then have "run_extends rr rr3"
    using persist_extends [OF h] transition_extends [OF t] by (auto simp: run_extends_def)
  ultimately show ?thesis
    unfolding st' using f ok(1) by (intro movesI [OF assms(2,3)]) simp_all
qed

lemma handle_pause_moves:
  assumes "handle_pause sv cx rid ar d st0 st v = (r, st', v')" "store_ok st0" "session_of rid st0 st"
  shows "(r = Inl Escaped \<and> st' = st0) \<or> (\<exists>status \<in> {RUN_FAILED, AWAITING_APPROVAL}. moves rid status st0 st')"
proof -
  obtain rr0 where rr0: "st_runs st0 rid = Some rr0" "open_status rr0" using assms(3) by (auto simp: session_of_def)
  from session_ofD [OF assms(3,2)] obtain rr0' rr where s0: "store_ok st" "st_runs st0 rid = Some rr0'"
    "st_runs st = (st_runs st0)(rid \<mapsto> rr)" "run_extends rr0' rr" "open_status rr" by blast
  then have s: "store_ok st" "st_runs st rid = Some rr" "open_status rr" by simp_all
  show ?thesis
  proof (cases "act_name (ar_action ar)")
    case None
    then show ?thesis
      using assms(1) by (auto simp: handle_pause_def Let_def dest!: end_with_moves [OF assms(2) rr0, rotated] split: prod.splits)
  next
    case (Some tool)
    then show ?thesis
      using assms(1) s(2)
      by (auto simp: handle_pause_def Let_def dest!: moves_trans [OF create_pause_moves [OF _ s] s0(2-4)]
          split: prod.splits sum.splits list.splits option.splits)
  qed
qed

lemma terminal_run_status_terminal: "terminal_run_status t \<notin> {CREATED, RUNNING, AWAITING_APPROVAL}"
  by (cases t) auto

lemma finished_run_frame [simp]:
  "rr_approvals (finished_run out ok am d rr) = rr_approvals rr" "rr_plans (finished_run out ok am d rr) = rr_plans rr"
  "rr_steps (finished_run out ok am d rr) = rr_steps rr" "run_id (rr_run (finished_run out ok am d rr)) = run_id (rr_run rr)"
  "run_user_id (rr_run (finished_run out ok am d rr)) = run_user_id (rr_run rr)"
  "run_tenant_id (rr_run (finished_run out ok am d rr)) = run_tenant_id (rr_run rr)"
  "run_status (rr_run (finished_run out ok am d rr)) = run_status (rr_run rr)"
  by (simp_all add: finished_run_def split: prod.split)

lemma close_run_moves:
  assumes "close_run sv cx rq adm rid out m am d st0 st v = (r, st', v')" "store_ok st0" "session_of rid st0 st"
  shows "\<exists>status. status \<notin> {CREATED, RUNNING, AWAITING_APPROVAL} \<and> moves rid status st0 st'"
proof -
  obtain rr0 where rr0: "st_runs st0 rid = Some rr0" "open_status rr0" using assms(3) by (auto simp: session_of_def)
  let ?st = "add_trace (run_trace sv cx rq adm out (max 0 d)) st"
  have "st_runs ?st = st_runs st" by (simp add: add_trace_def)
  from session_ofD [OF session_of_runs [OF assms(3) this] assms(2)] obtain rr0' rr where
    s0: "st_runs st0 rid = Some rr0'" "st_runs ?st = (st_runs st0)(rid \<mapsto> rr)" "run_extends rr0' rr"
    and s: "store_ok ?st" "st_runs ?st rid = Some rr" "open_status rr" by (metis fun_upd_same)
  obtain now v1 where now: "sv_now sv v = (now, v1)" by (cases "sv_now sv v")
  obtain c v2 where c: "sv_interrupted sv v1 = (c, v2)" by (cases "sv_interrupted sv v1")
  let ?fin = "finished_run out (ad_route adm \<noteq> None) am (min 120000 (max 0 d)) rr"
  let ?h = "bindR (persist_outcome_history (sv_visible sv (ctx_scope cx)) ?fin out) (\<lambda>rr.
      bindR (transition_run rr (terminal_run_status (out_terminal_status out)) (stopping_code (out_stopping_reason out)) now) (\<lambda>rr.
      commit_run rr ?st))"
  show ?thesis
  proof (cases "c \<or> (\<exists>e. ?h = Inl e)")
    case True
    then have "moves rid RUN_FAILED st0 st' \<or> moves rid RUN_CANCELLED st0 st'"
      using assms(1) s(2) by (cases c)
        (auto simp: close_run_def Let_def now c dest!: end_with_moves [OF assms(2) rr0, rotated] split: prod.splits)
    then show ?thesis by auto
  next
    case False
    then obtain st1 where h: "?h = Inr st1" by (cases ?h) auto
    then have st': "st' = st1" using False assms(1) s(2) by (simp add: close_run_def Let_def now c)
    from h obtain rr1 rr2 where p: "persist_outcome_history (sv_visible sv (ctx_scope cx)) ?fin out = Inr rr1"
      and t: "transition_run rr1 (terminal_run_status (out_terminal_status out)) (stopping_code (out_stopping_reason out)) now = Inr rr2"
      and row: "run_row_ok (rr_run rr2)" and st1: "st1 = put_run rr2 ?st"
      by (auto simp: result_simps commit_run_Inr)
    note f = persist_frame [OF p] transition_run_Inr [OF t]
    have ok: "run_id (rr_run rr) = rid" "run_ok rr" using store_okD [OF s(1,2)] by auto
    let ?t = "terminal_run_status (out_terminal_status out)"
    have nt: "?t \<notin> {CREATED, RUNNING, AWAITING_APPROVAL}" by (rule terminal_run_status_terminal)
    have "run_ok rr2" using transition_ok [OF t] ok(2) s(3) f row nt by (simp add: run_ok_def open_status_def) auto
    moreover have "run_extends rr rr2"
      using persist_extends [OF p] transition_extends [OF t] by (auto simp: run_extends_def)
    ultimately have "moves rid ?t ?st st'" unfolding st' st1 using f ok(1) by (intro movesI [OF s(1,2)]) simp_all
    from moves_trans [OF this s0] nt show ?thesis by blast
  qed
qed

text \<open>A run left by a request: ended, waiting, or open after an exception that nothing handles.\<close>

definition left_by :: "uuid \<Rightarrow> (service_exn, service_reply) result \<Rightarrow> store \<Rightarrow> store \<Rightarrow> bool" where
  "left_by rid r st st' =
     ((r = Inl Escaped \<and> st' = st) \<or> (\<exists>status. status \<notin> {CREATED, RUNNING} \<and> moves rid status st st'))"

lemma left_by_moves: "moves rid status st st' \<Longrightarrow> status \<notin> {CREATED, RUNNING} \<Longrightarrow> left_by rid r st st'"
  by (auto simp: left_by_def)

lemma conclude_left:
  assumes "conclude sv cx rq adm rid d st0 b v = (r, st', v')" "store_ok st0" "st_runs st0 rid = Some rr" "open_status rr"
    "body_session rid st0 b"
  shows "left_by rid r st0 st'"
proof (cases b)
  case (Body_done st out m am)
  with assms close_run_moves [of sv cx rq adm rid out m am d st0 st v r st' v'] show ?thesis by (auto simp: conclude_def left_by_def)
next
  case (Body_paused st ar m)
  with assms handle_pause_moves [of sv cx rid ar d st0 st v r st' v'] show ?thesis by (auto simp: conclude_def left_by_def)
qed (use assms(1) in \<open>auto simp: conclude_def Let_def dest!: end_with_moves [OF assms(2-4), rotated]
       intro: left_by_moves split: prod.splits\<close>)

lemma new_run_row_frame [simp]:
  "rr_approvals (new_run_row sv cx rq adm rid) = []" "run_id (rr_run (new_run_row sv cx rq adm rid)) = rid"
  "run_status (rr_run (new_run_row sv cx rq adm rid)) = CREATED"
  "run_user_id (rr_run (new_run_row sv cx rq adm rid)) = identity_user_id (ctx_identity cx)"
  "run_tenant_id (rr_run (new_run_row sv cx rq adm rid)) = ad_tenant_id adm"
  by (simp_all add: new_run_row_def create_run_def)

lemma open_run_Inr:
  assumes "open_run sv cx rq adm rid now st = Inr (st', rr)" "store_ok st"
    "rid = (case rq_resume_run rq of Some old \<Rightarrow> old | None \<Rightarrow> fresh)"
  shows "store_ok st' \<and> st_runs st' = (st_runs st)(rid \<mapsto> rr) \<and> open_status rr \<and> run_id (rr_run rr) = rid \<and>
    (if rq_resume_run rq = None then st_runs st rid = None else st' = st \<and> st_runs st rid = Some rr)"
proof (cases "rq_resume_run rq")
  case None
  let ?new = "new_run_row sv cx rq adm rid"
  from assms(1) None have n: "st_runs st rid = None" and c: "commit_run rr st = Inr st'"
    and t: "(if ad_route adm = None then Inr ?new else transition_run ?new RUNNING ''AGENT_EXECUTION_STARTED'' now) = Inr rr"
    by (auto simp: open_run_def Let_def simp del: if_split split: if_splits sum.splits)
  have rr: "rr_approvals rr = []" "run_id (rr_run rr) = rid" "open_status rr"
    using t transition_run_Inr [of ?new RUNNING _ now rr] by (auto simp: open_status_def split: if_splits)
  have "run_ok rr" using c rr by (auto simp: run_ok_def commit_run_Inr approvals_unique_def pending_def open_status_def)
  with c rr n assms(2) None show ?thesis
    by (auto simp: commit_run_Inr put_run_ok) (auto simp: put_run_def)
next
  case (Some old)
  with assms show ?thesis
    by (auto simp: open_run_def open_status_def dest: store_okD split: option.splits if_splits intro: map_upd_triv [symmetric])
qed

lemma service_run_cases:
  assumes "service_run sv cx rq st v w = (r, st', v', w')" "store_ok st"
  shows "(st' = st \<and> (\<exists>e. r = Inl e)) \<or>
    (\<exists>rid st1 rr. store_ok st1 \<and> st_runs st1 = (st_runs st)(rid \<mapsto> rr) \<and> open_status rr \<and>
       (if rq_resume_run rq = None then st_runs st rid = None else rq_resume_run rq = Some rid \<and> st_runs st rid = Some rr) \<and>
       left_by rid r st1 st')"
proof (cases "\<exists>e. r = Inl e \<and> st' = st")
  case False
  obtain adm where adm: "admit sv cx rq st = Inr adm"
    using assms(1) False by (cases "admit sv cx rq st") (auto simp: service_run_def)
  obtain started v1 fresh v2 now v3 where d: "sv_monotonic sv v = (started, v1)" "sv_uuid4 sv v1 = (fresh, v2)" "sv_now sv v2 = (now, v3)"
    by (metis surj_pair)
  define rid where "rid = (case rq_resume_run rq of Some old \<Rightarrow> old | None \<Rightarrow> fresh)"
  obtain sm v4 where sm: "summary_of sv cx adm v3 = (Done sm, v4)"
    using assms(1) False by (auto simp: service_run_def adm d Let_def split: prod.splits awaited.splits)
  obtain st1 rr where o: "open_run sv cx rq adm rid now st = Inr (st1, rr)"
    using assms(1) False by (auto simp: service_run_def adm d sm rid_def Let_def split: sum.splits)
  from open_run_Inr [OF o assms(2) rid_def]
  have op: "store_ok st1" "st_runs st1 = (st_runs st)(rid \<mapsto> rr)" "open_status rr" "run_id (rr_run rr) = rid"
    "if rq_resume_run rq = None then st_runs st rid = None else st1 = st \<and> st_runs st rid = Some rr" by auto
  have row: "st_runs st1 rid = Some rr" by (simp add: op(2))
  let ?recent = "if ad_route adm = None then [] else recent_messages sv cx rq adm st"
  obtain b v5 w5 where b: "run_body sv cx rq adm rid rr ?recent sm st1 v4 w = (b, v5, w5)" by (rule prod_cases3)
  obtain ended v6 where e: "sv_monotonic sv v5 = (ended, v6)" by (metis surj_pair)
  obtain r1 st2 v7 where c: "conclude sv cx rq adm rid (trunc ((ended - started) * 1000)) st1 b v6 = (r1, st2, v7)" by (rule prod_cases3)
  have "r = r1 \<and> st' = st2"
    using assms(1) by (simp add: service_run_def adm d sm o [unfolded rid_def] b [unfolded rid_def] e c [unfolded rid_def] Let_def
        del: left_diff_distrib_numeral)
  with conclude_left [OF c op(1) row op(3) run_body_session [OF b row op(3,4)]] op
  show ?thesis by (intro disjI2 exI [of _ rid] exI [of _ st1] exI [of _ rr]) (auto simp: rid_def split: option.splits)
qed blast

lemma left_by_ok: "left_by rid r st st' \<Longrightarrow> store_ok st \<Longrightarrow> store_ok st' \<and> extends st st'"
  using moves_extends by (auto simp: left_by_def) (auto simp: moves_def)

lemma service_run_ok:
  assumes "service_run sv cx rq st v w = (r, st', v', w')" "store_ok st"
  shows "store_ok st' \<and> extends st st'"
  using service_run_cases [OF assms]
proof (elim disjE exE conjE)
  fix rid st1 rr
  assume a: "store_ok st1" "st_runs st1 = (st_runs st)(rid \<mapsto> rr)" "left_by rid r st1 st'"
    "if rq_resume_run rq = None then st_runs st rid = None else rq_resume_run rq = Some rid \<and> st_runs st rid = Some rr"
  have "extends st st1" using a(2,4) by (auto simp: extends_def split: if_splits)
  with left_by_ok [OF a(3,1)] extends_trans [of st st1 st'] show ?thesis by simp
qed (use assms(2) in simp)

subsection \<open>A concrete request\<close>

definition example_service :: "(nat, nat \<times> execution list) run_service" where
  "example_service =
     \<lparr>sv_env = observed example_env, sv_limits = rp_limits example_params, sv_digest = rp_digest example_params,
      sv_uuid_text = str_nat, sv_fmt2 = (\<lambda>x. []), sv_input_schema = example_schema,
      sv_model_name = ''google/gemini-3.7-flash'', sv_low_confidence_threshold = 55 / 100, sv_max_recent_messages = 8,
      sv_scope_fingerprint = (\<lambda>s. example_hash), sv_visible = (\<lambda>s. [(1, 4)]), sv_monotonic = (\<lambda>v. (0, v)),
      sv_now = (\<lambda>v. (of_nat v, v)), sv_uuid4 = (\<lambda>v. (v, Suc v)), sv_interrupted = (\<lambda>v. (False, v)),
      sv_conversation_summary = (\<lambda>c i v. (Done None, v)), sv_retrieve_relevant = (\<lambda>c q v. (Done [], v)),
      sv_apply_semantic_candidates = (\<lambda>c m a b d v. (Done [], v)), sv_excerpt = (\<lambda>s d c v. (Fails, v))\<rparr>"

definition example_auth :: AuthorizationContext where
  "example_auth = \<lparr>ctx_identity = scope_identity example_scope, ctx_scope = example_scope\<rparr>"

definition example_store :: store where
  "example_store = \<lparr>st_conversations = [\<lparr>conv_id = 2, conv_tenant_id = 1, conv_user_id = 1\<rparr>], st_messages = [], st_traces = [],
     st_runs = (\<lambda>i. None)\<rparr>"

definition example_request :: run_request where
  "example_request = \<lparr>rq_conversation_id = 2, rq_question = ''Debt?'', rq_response_mode = AUTO,
     rq_agent_control_mode = GUIDED, rq_request_id = ''r1'', rq_approved_action_hash = None, rq_resume_run = None,
     rq_reconstructed_steps = []\<rparr>"

definition waiting_run :: "uuid \<Rightarrow> store \<Rightarrow> bool" where
  "waiting_run rid st = (case st_runs st rid of None \<Rightarrow> False
     | Some rr \<Rightarrow> run_status (rr_run rr) = AWAITING_APPROVAL \<and> map aq_status (rr_approvals rr) = [AP_PENDING])"

definition example_first_run :: "(service_exn, service_reply) result \<times> store \<times> nat \<times> nat \<times> execution list" where
  "example_first_run = service_run example_service example_auth example_request example_store 100 (0, [])"

lemma example_first_run_waits:
  "case example_first_run of (r, st, v, n, l) \<Rightarrow> waiting_run 100 st \<and> l = []"
  by code_simp

lemma example_store_ok: "store_ok example_store"
  by (simp add: store_ok_def example_store_def)

subsection \<open>Properties\<close>

text \<open>C27: a request settles its run.  From a valid store a request either changes no run and ends with an error, or
  it changes exactly one run, the one it opened or resumed: that run keeps its history and its resolved
  approvals, the store stays valid, and the run is ended or waits for an approval, unless an exception
  escaped.\<close>

theorem request_settles_run:
  assumes "service_run sv cx rq st v w = (r, st', v', w')" "store_ok st"
  shows "store_ok st' \<and>
    ((st' = st \<and> (\<exists>e. r = Inl e)) \<or>
     (\<exists>rid rr'. st_runs st' = (st_runs st)(rid \<mapsto> rr') \<and>
        (case st_runs st rid of None \<Rightarrow> rq_resume_run rq = None | Some rr \<Rightarrow> rq_resume_run rq = Some rid \<and> run_extends rr rr') \<and>
        (r = Inl Escaped \<or> run_status (rr_run rr') \<notin> {CREATED, RUNNING})))"
proof -
  have ok: "store_ok st'" using service_run_ok [OF assms] by simp
  from service_run_cases [OF assms] show ?thesis
  proof (elim disjE exE conjE)
    fix rid st1 rr
    assume a: "st_runs st1 = (st_runs st)(rid \<mapsto> rr)" "left_by rid r st1 st'"
      "if rq_resume_run rq = None then st_runs st rid = None else rq_resume_run rq = Some rid \<and> st_runs st rid = Some rr"
    from a(1,2) obtain rr' where "st_runs st' = (st_runs st)(rid \<mapsto> rr')" "run_extends rr rr'"
      "r = Inl Escaped \<or> run_status (rr_run rr') \<notin> {CREATED, RUNNING}"
      by (auto simp: left_by_def moves_def)
    moreover have "case st_runs st rid of None \<Rightarrow> rq_resume_run rq = None | Some rr \<Rightarrow> rq_resume_run rq = Some rid \<and> run_extends rr rr'"
      using a(3) calculation(2) by (simp split: if_splits)
    ultimately show ?thesis using ok by blast
  qed (use ok in blast)
qed

theorem request_settles_run_witness:
  "\<exists>r st' v' w'. example_first_run = (r, st', v', w') \<and> waiting_run 100 st' \<and> store_ok st'"
proof -
  obtain r st' v' n l where r: "example_first_run = (r, st', v', n, l)" by (cases example_first_run) auto
  have "waiting_run 100 st'" using example_first_run_waits unfolding r prod.case by blast
  moreover have "store_ok st'" using request_settles_run [OF r [unfolded example_first_run_def] example_store_ok] by simp
  ultimately show ?thesis using r by blast
qed

text \<open>A pause that cannot be recorded leaves the run open.  When the loop asks for an approval and a document
  of a completed step is no longer visible, the exception of the checkpoint escapes from the handler: no
  approval is created and the stored run keeps its status \<^verbatim>\<open>RUNNING\<close>, from which nothing resumes it.\<close>

theorem pause_failure_leaves_open:
  assumes "session_of rid st0 st" and "\<not> validate_authorized_observations (sv_visible sv (ctx_scope cx)) (ar_safe_observations ar)"
    and "act_name (ar_action ar) = Some tool"
  shows "(\<exists>v'. handle_pause sv cx rid ar d st0 st v = (Inl Escaped, st0, v')) \<and>
    (\<exists>rr. st_runs st0 rid = Some rr \<and> run_status (rr_run rr) \<in> {CREATED, RUNNING})"
proof
  from assms(1) obtain rr where rr: "st_runs st rid = Some rr" by (auto simp: session_of_def)
  have "\<exists>e. create_pause sv cx ar tool aid now rr st = Inl e" for aid now
    using assms(2) by (cases "create_pause sv cx ar tool aid now rr st")
      (auto simp: create_pause_def persist_checkpoint_history_def persist_outcome_history_def checkpoint_outcome_def Let_def
         result_simps split: if_splits)
  then show "\<exists>v'. handle_pause sv cx rid ar d st0 st v = (Inl Escaped, st0, v')"
    using rr assms(3) by (auto simp: handle_pause_def Let_def split: prod.splits sum.splits) (metis Inr_not_Inl)
  show "\<exists>rr. st_runs st0 rid = Some rr \<and> run_status (rr_run rr) \<in> {CREATED, RUNNING}"
    using assms(1) by (auto simp: session_of_def open_status_def)
qed

definition example_pause :: ApprovalRequired where
  "example_pause = \<lparr>ar_action = example_search, ar_action_hash = example_hash, ar_plan_version = 1, ar_proposed_step_number = 2,
     ar_plans = [example_plan ST_PENDING ''SEARCH''], ar_step_count = 1, ar_remaining_tools = 3, ar_risk_class = LOW_READ_ONLY,
     ar_safe_steps = [example_step_snapshot], ar_safe_observations = [example_observation_snapshot\<lparr>sos_chunk_ids := [10]\<rparr>]\<rparr>"

definition example_running :: store where
  "example_running = put_run (example_run_record\<lparr>rr_run := (rr_run example_run_record)\<lparr>run_status := RUNNING\<rparr>\<rparr>) example_store"

theorem pause_failure_leaves_open_witness:
  "\<exists>v'. handle_pause example_service example_auth 1 example_pause 5 example_running example_running 200 =
     (Inl Escaped, example_running, v') \<and> map_option (\<lambda>rr. run_status (rr_run rr)) (st_runs example_running 1) = Some RUNNING"
proof -
  have row: "st_runs example_running 1 = Some (example_run_record\<lparr>rr_run := (rr_run example_run_record)\<lparr>run_status := RUNNING\<rparr>\<rparr>)"
    by (simp add: example_running_def put_run_def example_run_record_def create_run_def)
  have "session_of 1 example_running example_running"
    by (rule session_of_refl [OF row]) (simp_all add: open_status_def)
  moreover have "\<not> validate_authorized_observations (sv_visible example_service (ctx_scope example_auth)) (ar_safe_observations example_pause)"
    by (simp add: validate_authorized_observations_def references_def example_pause_def example_observation_snapshot_def example_service_def)
  moreover have "act_name (ar_action example_pause) = Some ''portfolio.search_authorized_documents''"
    by (simp add: example_pause_def example_search_def)
  ultimately show ?thesis using pause_failure_leaves_open [of 1 example_running example_running example_service example_auth example_pause] row
    by simp
qed

end
