(* ===== verification/Approval_Flow.thy ===== *)
theory Approval_Flow
  imports Run_Service "HOL-Library.Multiset"
begin

text \<open>
  The approval service, \<^verbatim>\<open>app/agent/approval_service.py\<close>: approving, rejecting, changing and stopping a run
  that waits for an approval, on the store and the runner of \<^verbatim>\<open>Run_Service\<close>; then the life of the store under any
  sequence of requests, and what it guarantees of the approvals and the executions they pay for.

  The adapter that reads one excerpt again under the current scope is the field \<open>sv_excerpt\<close> of the service.
\<close>

subsection \<open>The waiting run and its approval\<close>

text \<open>\<^verbatim>\<open>_locked_owned\<close>: the run of the caller with the approval, or the answer that hides whether it exists.\<close>

definition owned_run :: "AuthorizationContext \<Rightarrow> uuid \<Rightarrow> store \<Rightarrow> (service_exn, run_record) result" where
  "owned_run context rid st =
     (case resolve_home_tenant_id context of
        None \<Rightarrow> Inl (APIError 403 ''forbidden'')
      | Some tenant \<Rightarrow>
        (case st_runs st rid of
           None \<Rightarrow> Inl (APIError 404 ''not_found'')
         | Some rr \<Rightarrow>
           if run_tenant_id (rr_run rr) = tenant \<and> run_user_id (rr_run rr) = identity_user_id (ctx_identity context)
           then Inr rr else Inl (APIError 404 ''not_found'')))"

definition approval_of :: "uuid \<Rightarrow> run_record \<Rightarrow> AgentApprovalRequest option" where
  "approval_of aid rr = List.find (\<lambda>a. aq_id a = aid) (rr_approvals rr)"

definition locked_owned ::
  "AuthorizationContext \<Rightarrow> uuid \<Rightarrow> uuid \<Rightarrow> store \<Rightarrow> (service_exn, run_record \<times> AgentApprovalRequest) result" where
  "locked_owned context rid aid st =
     bindR (owned_run context rid st) (\<lambda>rr.
       case approval_of aid rr of None \<Rightarrow> Inl (APIError 404 ''not_found'') | Some a \<Rightarrow> Inr (rr, a))"

definition available :: "run_record \<Rightarrow> AgentApprovalRequest \<Rightarrow> bool" where
  "available rr a = (aq_status a = AP_PENDING \<and> run_status (rr_run rr) = AWAITING_APPROVAL)"

definition latest_plan_version :: "run_record \<Rightarrow> int option" where
  "latest_plan_version rr = (case map pl_version (rr_plans rr) of [] \<Rightarrow> None | v # vs \<Rightarrow> Some (foldl max v vs))"

definition binding_is_current :: "run_record \<Rightarrow> AgentApprovalRequest \<Rightarrow> bool" where
  "binding_is_current rr a =
     (case latest_plan_version rr of
        None \<Rightarrow> False
      | Some latest \<Rightarrow>
        aq_plan_version a = latest \<and> run_plan_version_count (rr_run rr) = latest \<and>
        aq_proposed_step_number a = int (length (rr_steps rr)) + 1 \<and> aq_action_name a = aq_tool_name a \<and>
        aq_tool_name a \<in> set APPROVED_TOOL_NAMES)"

text \<open>The assignments to an approval row and the transition of its run, committed together.\<close>

definition resolve_approval ::
  "uuid \<Rightarrow> ApprovalStatus \<Rightarrow> time \<Rightarrow> uuid option \<Rightarrow> time option \<Rightarrow> run_record \<Rightarrow> run_record" where
  "resolve_approval aid status now resolver consumed rr =
     rr\<lparr>rr_approvals := map (\<lambda>a. if aq_id a = aid
        then a\<lparr>aq_status := status, aq_resolved_at := Some now,
               aq_resolver_user_id := (case resolver of None \<Rightarrow> aq_resolver_user_id a | Some u \<Rightarrow> Some u),
               aq_consumed_at := (case consumed of None \<Rightarrow> aq_consumed_at a | Some t \<Rightarrow> Some t)\<rparr>
        else a) (rr_approvals rr)\<rparr>"

definition settle ::
  "uuid \<Rightarrow> ApprovalStatus \<Rightarrow> uuid option \<Rightarrow> time option \<Rightarrow> AgentRunStatus \<Rightarrow> string \<Rightarrow> time \<Rightarrow> run_record \<Rightarrow> store \<Rightarrow>
   (history_error, store) result" where
  "settle aid status resolver consumed target reason now rr st =
     bindR (transition_run (resolve_approval aid status now resolver consumed rr) target reason now) (\<lambda>rr. commit_run rr st)"

text \<open>An error of the service after the state was settled and committed.\<close>

definition settle_error ::
  "uuid \<Rightarrow> ApprovalStatus \<Rightarrow> uuid option \<Rightarrow> AgentRunStatus \<Rightarrow> string \<Rightarrow> service_exn \<Rightarrow> time \<Rightarrow> run_record \<Rightarrow> store \<Rightarrow>
   (service_exn, 'a) result \<times> store" where
  "settle_error aid status resolver target reason exn now rr st =
     (case settle aid status resolver None target reason now rr st of Inl _ \<Rightarrow> (Inl Escaped, st) | Inr st' \<Rightarrow> (Inl exn, st'))"

subsection \<open>Reconstruction\<close>

text \<open>
  The completed steps are read again under the current scope: every step must have succeeded, must not be a
  calculation, and each of its references must still give exactly one excerpt.  \<open>None\<close> is any exception.
\<close>

fun reconstruct_evidence ::
  "('v, 'w) run_service \<Rightarrow> AuthorizationScope \<Rightarrow> uuid list \<Rightarrow> uuid list \<Rightarrow> string list \<Rightarrow> 'v \<Rightarrow> GroundedEvidence list awaited \<times> 'v" where
  "reconstruct_evidence sv scope [] [] [] v = (Done [], v)"
| "reconstruct_evidence sv scope (d # ds) (c # cs) (i # is1) v =
     (case sv_excerpt sv scope d c v of
        (Done (ToolPayload [item]), v) \<Rightarrow>
          (case reconstruct_evidence sv scope ds cs is1 v of
             (Done es, v) \<Rightarrow> (Done ((adapter_evidence 0 item)\<lparr>ge_evidence_id := i\<rparr> # es), v)
           | (r, v) \<Rightarrow> (r, v))
      | (Interrupted, v) \<Rightarrow> (Interrupted, v)
      | (_, v) \<Rightarrow> (Fails, v))"
| "reconstruct_evidence sv scope _ _ _ v = (Fails, v)"

definition reconstructed_observation :: "AgentStep \<Rightarrow> AgentObservationRecord \<Rightarrow> GroundedEvidence list \<Rightarrow> StructuredObservation" where
  "reconstructed_observation s r es =
     \<lparr>ob_tool_name = as_tool_name s, ob_status = O_SUCCESS, ob_evidence = es, ob_calculations = [], ob_memory_context = [],
      ob_memory_notification = None, ob_duration_ms = or_duration_ms r, ob_retryable = False, ob_retry_count = or_retry_count r,
      ob_reason_code = or_safe_reason_code r\<rparr>"

fun reconstruct_completed_steps ::
  "('v, 'w) run_service \<Rightarrow> AuthorizationScope \<Rightarrow> AgentStep list \<Rightarrow> 'v \<Rightarrow> ReconstructedStep list awaited \<times> 'v" where
  "reconstruct_completed_steps sv scope [] v = (Done [], v)"
| "reconstruct_completed_steps sv scope (s # ss) v =
     (case as_observation s of
        None \<Rightarrow> (Fails, v)
      | Some r \<Rightarrow>
        if or_status r \<noteq> O_SUCCESS \<or> take (length ''portfolio.calculate_'') (as_tool_name s) = ''portfolio.calculate_'' then (Fails, v)
        else case reconstruct_evidence sv scope (or_authorized_document_ids r) (or_authorized_chunk_ids r) (or_citation_ids r) v of
          (Done es, v) \<Rightarrow>
            if \<not> observation_ok (reconstructed_observation s r es) then (Fails, v)
            else (case reconstruct_completed_steps sv scope ss v of
              (Done rs, v) \<Rightarrow> (Done (\<lparr>rs_action_hash = as_action_argument_hash s,
                 rs_observation = reconstructed_observation s r es\<rparr> # rs), v)
            | (x, v) \<Rightarrow> (x, v))
        | (Fails, v) \<Rightarrow> (Fails, v)
        | (Interrupted, v) \<Rightarrow> (Interrupted, v))"

subsection \<open>Operations\<close>

definition resume_request :: "run_record \<Rightarrow> AgentApprovalRequest \<Rightarrow> Message \<Rightarrow> string \<Rightarrow> ReconstructedStep list \<Rightarrow> run_request" where
  "resume_request rr a m request_id steps =
     \<lparr>rq_conversation_id = run_conversation_id (rr_run rr), rq_question = msg_content m,
      rq_response_mode = run_response_mode (rr_run rr), rq_agent_control_mode = run_agent_control_mode (rr_run rr),
      rq_request_id = request_id, rq_approved_action_hash = Some (aq_action_argument_hash a),
      rq_resume_run = Some (run_id (rr_run rr)), rq_reconstructed_steps = steps\<rparr>"

definition resume_message :: "AuthorizationContext \<Rightarrow> run_record \<Rightarrow> store \<Rightarrow> string + Message" where
  "resume_message context rr st =
     (case run_initial_user_message_id (rr_run rr) of
        None \<Rightarrow> Inl ''RESUME_MESSAGE_MISSING''
      | Some mid \<Rightarrow>
        (case get_message st mid of
           None \<Rightarrow> Inl ''RESUME_MESSAGE_INVALID''
         | Some m \<Rightarrow> if msg_role m \<noteq> ''user'' \<or> msg_user_id m \<noteq> identity_user_id (ctx_identity context)
                   then Inl ''RESUME_MESSAGE_INVALID'' else Inr m))"

text \<open>The checks of \<^verbatim>\<open>approve_once\<close> in order: a refusal is an error with the state it leaves.\<close>

datatype refusal =
    Refused service_exn
  | Settled ApprovalStatus "uuid option" string service_exn

definition check_approval ::
  "('v, 'w) run_service \<Rightarrow> AuthorizationContext \<Rightarrow> run_record \<Rightarrow> AgentApprovalRequest \<Rightarrow> time \<Rightarrow> store \<Rightarrow> (refusal, Message) result" where
  "check_approval sv context rr a now st =
     (let user = Some (identity_user_id (ctx_identity context)) in
      if \<not> available rr a then Inl (Refused (APIError 409 ''approval_unavailable''))
      else if aq_expires_at a \<le> now then Inl (Settled AP_EXPIRED user ''APPROVAL_EXPIRED'' (APIError 409 ''approval_expired''))
      else if \<not> binding_is_current rr a
      then Inl (Settled AP_CANCELLED user ''APPROVAL_BINDING_MISMATCH'' (APIError 409 ''approval_mismatch''))
      else if aq_scope_fingerprint a \<noteq> sv_scope_fingerprint sv (ctx_scope context)
      then Inl (Settled AP_CANCELLED user ''AUTHORIZATION_SCOPE_CHANGED'' (APIError 409 ''authorization_changed''))
      else case resume_message context rr st of
        Inl reason \<Rightarrow> Inl (Settled AP_CANCELLED None reason (APIError 409 ''resume_failed''))
      | Inr m \<Rightarrow> Inr m)"

definition approve_once ::
  "('v, 'w) run_service \<Rightarrow> AuthorizationContext \<Rightarrow> uuid \<Rightarrow> uuid \<Rightarrow> string \<Rightarrow> store \<Rightarrow> 'v \<Rightarrow> 'w \<Rightarrow>
   (service_exn, service_reply) result \<times> store \<times> 'v \<times> 'w" where
  "approve_once sv context rid aid request_id st v w =
     (case locked_owned context rid aid st of
        Inl e \<Rightarrow> (Inl e, st, v, w)
      | Inr (rr, a) \<Rightarrow>
        let (now, v) = sv_now sv v; user = Some (identity_user_id (ctx_identity context)) in
        case check_approval sv context rr a now st of
          Inl (Refused e) \<Rightarrow> (Inl e, st, v, w)
        | Inl (Settled status resolver reason e) \<Rightarrow>
            (let (r, st) = settle_error aid status resolver RUN_FAILED reason e now rr st in (r, st, v, w))
        | Inr m \<Rightarrow>
          (case reconstruct_completed_steps sv (ctx_scope context) (rr_steps rr) v of
             (Interrupted, v) \<Rightarrow> (Inl CancelledError, st, v, w)
           | (Fails, v) \<Rightarrow>
             (let (r, st) = settle_error aid AP_CANCELLED user RUN_FAILED ''RESUME_RECONSTRUCTION_FAILED''
                    (APIError 409 ''resume_failed'') now rr st in (r, st, v, w))
           | (Done steps, v) \<Rightarrow>
             (case settle aid AP_CONSUMED user (Some now) RUNNING ''APPROVAL_CONSUMED'' now rr st of
                Inl _ \<Rightarrow> (Inl Escaped, st, v, w)
              | Inr st \<Rightarrow> service_run sv context (resume_request rr a m request_id steps) st v w)))"

text \<open>The answer of an operation that ends the run.\<close>

datatype terminated = SafelyTerminated uuid string

definition reject ::
  "('v, 'w) run_service \<Rightarrow> AuthorizationContext \<Rightarrow> uuid \<Rightarrow> uuid \<Rightarrow> store \<Rightarrow> 'v \<Rightarrow> (service_exn, terminated) result \<times> store \<times> 'v" where
  "reject sv context rid aid st v =
     (case locked_owned context rid aid st of
        Inl e \<Rightarrow> (Inl e, st, v)
      | Inr (rr, a) \<Rightarrow>
        if \<not> available rr a then (Inl (APIError 409 ''approval_unavailable''), st, v)
        else let (now, v) = sv_now sv v in
          (case settle aid AP_REJECTED (Some (identity_user_id (ctx_identity context))) None RUN_CANCELLED ''APPROVAL_REJECTED'' now rr st of
             Inl _ \<Rightarrow> (Inl Escaped, st, v)
           | Inr st \<Rightarrow> (Inr (SafelyTerminated (run_id (rr_run rr)) ''REJECTED''), st, v)))"

text \<open>\<^verbatim>\<open>stop\<close> cancels the pending approval of the run, if it has one.\<close>

definition stop_run ::
  "('v, 'w) run_service \<Rightarrow> AuthorizationContext \<Rightarrow> uuid \<Rightarrow> store \<Rightarrow> 'v \<Rightarrow> (service_exn, terminated) result \<times> store \<times> 'v" where
  "stop_run sv context rid st v =
     (case owned_run context rid st of
        Inl e \<Rightarrow> (Inl e, st, v)
      | Inr rr \<Rightarrow>
        if run_status (rr_run rr) \<noteq> AWAITING_APPROVAL then (Inl (APIError 409 ''run_not_stoppable''), st, v)
        else let (now, v) = sv_now sv v;
                 rr' = (case pending (rr_approvals rr) of [] \<Rightarrow> rr
                   | a # _ \<Rightarrow> resolve_approval (aq_id a) AP_CANCELLED now (Some (identity_user_id (ctx_identity context))) None rr) in
          (case bindR (transition_run rr' RUN_CANCELLED ''RUN_STOPPED'' now) (\<lambda>rr. commit_run rr st) of
             Inl _ \<Rightarrow> (Inl Escaped, st, v)
           | Inr st \<Rightarrow> (Inr (SafelyTerminated (run_id (rr_run rr)) ''CANCELLED''), st, v)))"

definition change_request ::
  "('v, 'w) run_service \<Rightarrow> AuthorizationContext \<Rightarrow> uuid \<Rightarrow> uuid \<Rightarrow> string \<Rightarrow> string \<Rightarrow> store \<Rightarrow> 'v \<Rightarrow> 'w \<Rightarrow>
   (service_exn, service_reply) result \<times> store \<times> 'v \<times> 'w" where
  "change_request sv context rid aid content request_id st v w =
     (case locked_owned context rid aid st of
        Inl e \<Rightarrow> (Inl e, st, v, w)
      | Inr (rr, a) \<Rightarrow>
        if \<not> available rr a then (Inl (APIError 409 ''approval_unavailable''), st, v, w)
        else let (now, v) = sv_now sv v in
          (case settle aid AP_SUPERSEDED (Some (identity_user_id (ctx_identity context))) None RUN_CANCELLED ''CHANGE_REQUESTED'' now rr st of
             Inl _ \<Rightarrow> (Inl Escaped, st, v, w)
           | Inr st \<Rightarrow> service_run sv context
               \<lparr>rq_conversation_id = run_conversation_id (rr_run rr), rq_question = content,
                rq_response_mode = run_response_mode (rr_run rr), rq_agent_control_mode = run_agent_control_mode (rr_run rr),
                rq_request_id = request_id, rq_approved_action_hash = None, rq_resume_run = None, rq_reconstructed_steps = []\<rparr>
               st v w))"

text \<open>\<^verbatim>\<open>current\<close>: the newest approval of the run; rows are in the order of their creation.\<close>

definition current_approval :: "AuthorizationContext \<Rightarrow> uuid \<Rightarrow> store \<Rightarrow> (service_exn, ApprovalStateData) result" where
  "current_approval context rid st =
     bindR (owned_run context rid st) (\<lambda>rr.
       case (rev (rr_approvals rr), grants (ctx_scope context)) of
         ([], _) \<Rightarrow> Inl (APIError 404 ''not_found'')
       | (a # _, g # _) \<Rightarrow>
         (case map_of ACTION_LABELS (aq_tool_name a) of
            None \<Rightarrow> Inl Escaped
          | Some label \<Rightarrow> Inr \<lparr>asd_approval_id = aq_id a, asd_run_id = run_id (rr_run rr), asd_status = aq_status a,
              asd_action_label = label, asd_tool_name = aq_tool_name a, asd_risk_level = aq_risk_class a,
              asd_resource_type = resource_type (aq_tool_name a), asd_safe_scope_summary = scope_summary g,
              asd_remaining_steps = max 0 (4 - run_step_count (rr_run rr)), asd_expires_at = aq_expires_at a\<rparr>)
       | _ \<Rightarrow> Inl Escaped)"

subsection \<open>How stores advance\<close>

text \<open>An approval keeps its binding; once it is resolved it does not change at all.\<close>

definition approval_advances :: "AgentApprovalRequest \<Rightarrow> AgentApprovalRequest \<Rightarrow> bool" where
  "approval_advances a b =
     (b = a \<or> (aq_status a = AP_PENDING \<and> aq_id b = aq_id a \<and> aq_plan_version b = aq_plan_version a \<and>
        aq_proposed_step_number b = aq_proposed_step_number a \<and> aq_tool_name b = aq_tool_name a \<and>
        aq_action_argument_hash b = aq_action_argument_hash a \<and> aq_scope_fingerprint b = aq_scope_fingerprint a \<and>
        aq_expires_at b = aq_expires_at a))"

definition run_advances :: "run_record \<Rightarrow> run_record \<Rightarrow> bool" where
  "run_advances rr rr' =
     ((\<exists>old new. rr_approvals rr' = old @ new \<and> list_all2 approval_advances (rr_approvals rr) old) \<and>
      (\<exists>pl ss. rr_plans rr' = rr_plans rr @ pl \<and> rr_steps rr' = rr_steps rr @ ss) \<and>
      run_user_id (rr_run rr') = run_user_id (rr_run rr) \<and> run_tenant_id (rr_run rr') = run_tenant_id (rr_run rr))"

definition advances :: "store \<Rightarrow> store \<Rightarrow> bool" where
  "advances st st' = (\<forall>rid rr. st_runs st rid = Some rr \<longrightarrow> (\<exists>rr'. st_runs st' rid = Some rr' \<and> run_advances rr rr'))"

lemma approval_advances_trans: "approval_advances a b \<Longrightarrow> approval_advances b c \<Longrightarrow> approval_advances a c"
  by (auto simp: approval_advances_def)

lemma approval_advances_refl: "list_all2 approval_advances xs xs"
  by (auto simp: approval_advances_def intro: list_all2_refl)

lemma run_advances_trans:
  assumes "run_advances a b" "run_advances b c"
  shows "run_advances a c"
proof -
  from assms obtain x y u w where 1: "rr_approvals b = x @ y" "list_all2 approval_advances (rr_approvals a) x"
    and 2: "rr_approvals c = u @ w" "list_all2 approval_advances (x @ y) u" by (auto simp: run_advances_def)
  from 2(2) obtain u1 u2 where u: "u = u1 @ u2" "list_all2 approval_advances x u1" by (auto simp: list_all2_append1)
  have "list_all2 approval_advances (rr_approvals a) u1"
    by (rule list_all2_trans [OF approval_advances_trans 1(2) u(2)])
  then have "\<exists>old new. rr_approvals c = old @ new \<and> list_all2 approval_advances (rr_approvals a) old"
    using 2(1) u(1) by (intro exI [of _ u1] exI [of _ "u2 @ w"]) simp
  with assms show ?thesis by (auto simp: run_advances_def)
qed

lemma run_extends_advances: "run_extends rr rr' \<Longrightarrow> run_advances rr rr'"
  unfolding run_extends_def run_advances_def using approval_advances_refl by blast

lemma extends_advances: "extends st st' \<Longrightarrow> advances st st'"
  unfolding extends_def advances_def using run_extends_advances by blast

lemma advances_trans: "advances a b \<Longrightarrow> advances b c \<Longrightarrow> advances a c"
  unfolding advances_def by (meson run_advances_trans)

lemma advances_refl [simp]: "advances st st"
  by (rule extends_advances) simp

subsection \<open>Settling an approval\<close>

lemma resolve_approval_frame [simp]:
  "rr_run (resolve_approval aid s now u c rr) = rr_run rr" "rr_plans (resolve_approval aid s now u c rr) = rr_plans rr"
  "rr_steps (resolve_approval aid s now u c rr) = rr_steps rr"
  by (simp_all add: resolve_approval_def)

lemma approval_of_Some: "approval_of aid rr = Some a \<Longrightarrow> a \<in> set (rr_approvals rr) \<and> aq_id a = aid"
  by (auto simp: approval_of_def dest: find_Some_memb)

text \<open>With distinct identifiers exactly one approval changes, and it was the pending one.\<close>

lemma one_pending:
  assumes "approvals_unique as" "a \<in> set as" "aq_status a = AP_PENDING" "b \<in> set as" "aq_status b = AP_PENDING"
  shows "a = b"
proof -
  have "length (pending as) \<le> 1" "a \<in> set (pending as)" "b \<in> set (pending as)"
    using assms by (simp_all add: approvals_unique_def pending_def)
  then show ?thesis by (cases "pending as") auto
qed

lemma same_id: "approvals_unique as \<Longrightarrow> a \<in> set as \<Longrightarrow> b \<in> set as \<Longrightarrow> aq_id a = aq_id b \<Longrightarrow> a = b"
  by (auto simp: approvals_unique_def distinct_map inj_on_def)

lemma list_all2_mapI: "(\<And>x. x \<in> set xs \<Longrightarrow> P x (f x)) \<Longrightarrow> list_all2 P xs (map f xs)"
  by (induction xs) auto

lemma resolve_approvals_advance:
  assumes "approvals_unique (rr_approvals rr)" "a \<in> set (rr_approvals rr)" "aq_id a = aid" "aq_status a = AP_PENDING"
  shows "list_all2 approval_advances (rr_approvals rr) (rr_approvals (resolve_approval aid s now u c rr))"
proof -
  have same: "b = a" if "b \<in> set (rr_approvals rr)" "aq_id b = aid" for b
    using same_id [OF assms(1) that(1) assms(2)] that(2) assms(3) by simp
  show ?thesis
    unfolding resolve_approval_def
    by (simp, rule list_all2_mapI) (use same assms(4) in \<open>force simp: approval_advances_def\<close>)
qed

lemma resolve_approval_ok:
  assumes "run_ok rr" "a \<in> set (rr_approvals rr)" "aq_id a = aid" "aq_status a = AP_PENDING" "s \<noteq> AP_PENDING" "s = AP_CONSUMED \<longleftrightarrow> c \<noteq> None"
  shows "approvals_unique (rr_approvals (resolve_approval aid s now u c rr))"
    and "pending (rr_approvals (resolve_approval aid s now u c rr)) = []"
    and "list_all approval_row_ok (rr_approvals (resolve_approval aid s now u c rr))"
    and "list_all approval_state_ok (rr_approvals (resolve_approval aid s now u c rr))"
proof -
  let ?as = "rr_approvals rr" and ?bs = "rr_approvals (resolve_approval aid s now u c rr)"
  have u: "approvals_unique ?as" and r: "list_all approval_row_ok ?as" and st: "list_all approval_state_ok ?as"
    using assms(1) by (simp_all add: run_ok_def del: approval_state_ok.simps)
  have other: "aq_status b \<noteq> AP_PENDING" if "b \<in> set ?as" "aq_id b \<noteq> aid" for b
    using one_pending [OF u assms(2,4) that(1)] that(2) assms(3) by auto
  have mine: "b = a" if "b \<in> set ?as" "aq_id b = aid" for b
    using same_id [OF u that(1) assms(2)] that(2) assms(3) by simp
  show p: "pending ?bs = []"
    using assms(5) other by (auto simp: pending_def filter_empty_conv resolve_approval_def)
  have "map aq_id ?bs = map aq_id ?as" by (auto simp: resolve_approval_def)
  with p u show "approvals_unique ?bs" by (simp add: approvals_unique_def)
  show "list_all approval_row_ok ?bs"
    using r by (auto simp: list_all_iff resolve_approval_def approval_row_ok_def)
  have "aq_consumed_at a = None" using st assms(2,4) by (auto simp: list_all_iff)
  then have "approval_state_ok (a\<lparr>aq_status := s, aq_resolved_at := Some now, aq_resolver_user_id := x,
      aq_consumed_at := (case c of None \<Rightarrow> aq_consumed_at a | Some t \<Rightarrow> Some t)\<rparr>)" for x
    using assms(5,6) by (cases s; cases c) auto
  with st mine show "list_all approval_state_ok ?bs"
    by (auto simp: list_all_iff resolve_approval_def simp del: approval_state_ok.simps)
qed

definition consumed_hashes :: "run_record \<Rightarrow> string multiset" where
  "consumed_hashes rr = image_mset aq_action_argument_hash (filter_mset (\<lambda>a. aq_status a = AP_CONSUMED) (mset (rr_approvals rr)))"

lemma resolve_consumed_hashes:
  assumes "approvals_unique (rr_approvals rr)" "a \<in> set (rr_approvals rr)" "aq_id a = aid" "aq_status a = AP_PENDING"
  shows "consumed_hashes (resolve_approval aid s now u c rr) =
    consumed_hashes rr + (if s = AP_CONSUMED then {#aq_action_argument_hash a#} else {#})"
proof -
  from assms(2) obtain xs ys where as: "rr_approvals rr = xs @ a # ys" by (meson split_list)
  have "aq_id b \<noteq> aid" if "b \<in> set xs \<union> set ys" for b
    using assms(1,3) that by (simp add: as approvals_unique_def) (metis imageI)
  then have "rr_approvals (resolve_approval aid s now u c rr) = xs @ a\<lparr>aq_status := s, aq_resolved_at := Some now,
      aq_resolver_user_id := (case u of None \<Rightarrow> aq_resolver_user_id a | Some x \<Rightarrow> Some x),
      aq_consumed_at := (case c of None \<Rightarrow> aq_consumed_at a | Some t \<Rightarrow> Some t)\<rparr> # ys"
    using assms(3) by (auto simp: resolve_approval_def as map_idI)
  then show ?thesis using assms(4) by (simp add: consumed_hashes_def as)
qed

lemma settle_result:
  assumes "store_ok st" "st_runs st rid = Some rr" "approval_of aid rr = Some a" "available rr a"
    and "s \<noteq> AP_PENDING" "s = AP_CONSUMED \<longleftrightarrow> c \<noteq> None" and "target \<in> {RUNNING, RUN_CANCELLED, RUN_FAILED}"
  shows "\<exists>rr'. settle aid s u c target reason now rr st = Inr (put_run rr' st) \<and> run_id (rr_run rr') = rid \<and> run_ok rr' \<and>
    run_advances rr rr' \<and> run_status (rr_run rr') = target \<and>
    consumed_hashes rr' = consumed_hashes rr + (if s = AP_CONSUMED then {#aq_action_argument_hash a#} else {#}) \<and>
    rr_approvals rr' = rr_approvals (resolve_approval aid s now u c rr) \<and> rr_run rr' = rr_run rr\<lparr>run_status := target,
      run_safe_reason_code := reason, run_started_at := run_started_at (rr_run rr'), run_completed_at := run_completed_at (rr_run rr')\<rparr>"
proof -
  let ?rr = "resolve_approval aid s now u c rr"
  have a: "a \<in> set (rr_approvals rr)" "aq_id a = aid" "aq_status a = AP_PENDING"
    using approval_of_Some [OF assms(3)] assms(4) by (simp_all add: available_def)
  have ok: "run_ok rr" "run_id (rr_run rr) = rid" using store_okD [OF assms(1,2)] by auto
  then have row: "run_row_ok (rr_run rr)" and uq: "approvals_unique (rr_approvals rr)" by (simp_all add: run_ok_def)
  have "target \<in> set (run_transitions (run_status (rr_run ?rr)))"
    using assms(4,7) by (auto simp: available_def)
  then obtain rr' where t: "transition_run ?rr target reason now = Inr rr'" using transition_run_possible by blast
  note r = resolve_approval_ok [OF ok(1) a assms(5,6)] and f = transition_run_Inr [OF t]
  have "run_ok rr'" by (rule transition_ok [OF t]) (use r row assms(7) in auto)
  moreover have "run_row_ok (rr_run rr')" using f(9) row by simp
  moreover have "run_advances rr rr'"
    using f resolve_approvals_advance [OF uq a, of s now u c] by (auto simp: run_advances_def)
  moreover have "consumed_hashes rr' = consumed_hashes rr + (if s = AP_CONSUMED then {#aq_action_argument_hash a#} else {#})"
    using resolve_consumed_hashes [OF uq a, of s now u c] f(3) by (simp add: consumed_hashes_def)
  moreover have "rr_run rr' = rr_run rr\<lparr>run_status := target, run_safe_reason_code := reason,
      run_started_at := run_started_at (rr_run rr'), run_completed_at := run_completed_at (rr_run rr')\<rparr>"
    using t by (auto simp: transition_run_def validate_agent_run_transition_def Let_def split: if_splits)
  ultimately show ?thesis using t f ok(2) by (auto simp: settle_def commit_run_def)
qed

lemma run_advances_refl [simp]: "run_advances rr rr"
  by (rule run_extends_advances) simp

lemma put_run_advances:
  "st_runs st (run_id (rr_run rr')) = Some rr \<Longrightarrow> run_advances rr rr' \<Longrightarrow> advances st (put_run rr' st)"
  by (auto simp: advances_def put_run_def)

lemma extends_consumed: "run_extends rr rr' \<Longrightarrow> consumed_hashes rr' = consumed_hashes rr"
proof -
  assume "run_extends rr rr'"
  then obtain ap where "rr_approvals rr' = rr_approvals rr @ ap" "list_all (\<lambda>a. aq_status a = AP_PENDING) ap"
    by (auto simp: run_extends_def)
  moreover have "filter_mset (\<lambda>a. aq_status a = AP_CONSUMED) (mset ap) = {#}"
    using calculation(2) by (induction ap) auto
  ultimately show ?thesis by (simp add: consumed_hashes_def)
qed

subsection \<open>Inversions of the operations\<close>

lemma owned_run_Inr:
  "owned_run cx rid st = Inr rr \<longleftrightarrow> (\<exists>t. resolve_home_tenant_id cx = Some t \<and> st_runs st rid = Some rr \<and> run_tenant_id (rr_run rr) = t \<and>
     run_user_id (rr_run rr) = identity_user_id (ctx_identity cx))"
  by (auto simp: owned_run_def split: option.splits)

lemma locked_owned_Inr:
  "locked_owned cx rid aid st = Inr (rr, a) \<longleftrightarrow> owned_run cx rid st = Inr rr \<and> approval_of aid rr = Some a"
  by (auto simp: locked_owned_def result_simps split: option.splits)

lemma check_approval_Settled:
  "check_approval sv cx rr a now st = Inl (Settled s u reason e) \<Longrightarrow> available rr a \<and> s \<in> {AP_EXPIRED, AP_CANCELLED}"
  by (auto simp: check_approval_def Let_def split: if_splits sum.splits)

text \<open>What an approval must satisfy to be used.\<close>

lemma check_approval_Inr:
  "check_approval sv cx rr a now st = Inr m \<longleftrightarrow>
   available rr a \<and> now < aq_expires_at a \<and> binding_is_current rr a \<and>
   aq_scope_fingerprint a = sv_scope_fingerprint sv (ctx_scope cx) \<and> resume_message cx rr st = Inr m"
  by (auto simp: check_approval_def Let_def split: sum.splits)

lemma settle_error_result:
  assumes "settle_error aid s u RUN_FAILED reason e now rr st = (r, st')" "store_ok st" "st_runs st rid = Some rr"
    "approval_of aid rr = Some a" "available rr a" "s \<in> {AP_EXPIRED, AP_CANCELLED}"
  shows "r = Inl e \<and> store_ok st' \<and> advances st st' \<and>
    (\<exists>rr'. st_runs st' = (st_runs st)(rid \<mapsto> rr') \<and> consumed_hashes rr' = consumed_hashes rr)"
proof -
  have "s \<noteq> AP_PENDING" "s = AP_CONSUMED \<longleftrightarrow> (None :: time option) \<noteq> None" using assms(6) by auto
  from settle_result [OF assms(2-5) this, of RUN_FAILED u reason now] obtain rr' where
    r: "settle aid s u None RUN_FAILED reason now rr st = Inr (put_run rr' st)" "run_id (rr_run rr') = rid" "run_ok rr'"
      "run_advances rr rr'" "consumed_hashes rr' = consumed_hashes rr" using assms(6) by auto
  with assms(1-3) put_run_ok [of st rr'] put_run_advances [of st rr' rr] show ?thesis
    by (auto simp: settle_error_def) (auto simp: put_run_def)
qed

subsection \<open>The executions of a request that needed an approval\<close>

text \<open>The hashes of the logged executions that need an approval in the control mode of the run.\<close>

definition gated_hashes :: "('v, 'w) run_service \<Rightarrow> AgentControlMode \<Rightarrow> execution list \<Rightarrow> string list" where
  "gated_hashes sv mode l =
     map (\<lambda>c. canonical_action_hash (sv_digest sv) (sv_uuid_text sv) (fst c))
       (filter (\<lambda>c. must_pause mode (classify_tool_risk (case act_name (fst c) of Some n \<Rightarrow> n | None \<Rightarrow> [])) [] None) l)"

lemma gated_hashes_Nil [simp]: "gated_hashes sv mode [] = []"
  by (simp add: gated_hashes_def)

lemma gated_hashes_calls:
  assumes "calls_ok (params_of sv cx rq catalog) approved l"
  shows "gated_hashes sv (rq_agent_control_mode rq) l = [] \<or> (\<exists>h. approved = Some h \<and> gated_hashes sv (rq_agent_control_mode rq) l = [h])"
proof -
  let ?p = "params_of sv cx rq catalog"
  have g: "gated_hashes sv (rq_agent_control_mode rq) l = map (\<lambda>c. action_hash_of ?p (fst c)) (filter (\<lambda>c. needs_approval ?p (fst c)) l)"
    by (simp add: gated_hashes_def needs_approval_def action_hash_of_def params_of_def must_pause_def)
  have "length (filter (\<lambda>c. needs_approval ?p (fst c)) l) \<le> 1"
    using assms by (simp add: calls_ok_def approvals_used_def)
  moreover have "\<forall>c \<in> set (filter (\<lambda>c. needs_approval ?p (fst c)) l). approved = Some (action_hash_of ?p (fst c))"
    using assms by (auto simp: calls_ok_def list_all_iff call_ok_def)
  ultimately show ?thesis unfolding g by (cases "filter (\<lambda>c. needs_approval ?p (fst c)) l") auto
qed

lemma run_agent_log:
  "run_agent sv cx rq adm rid gx cat st m v w = (b, v', w') \<Longrightarrow>
   \<exists>r. agent_run (sv_env sv) (params_of sv cx rq cat) (Some rid) (rq_approved_action_hash rq) (rq_reconstructed_steps rq) gx w = (r, w')"
  by (auto simp: run_agent_def Let_def split: prod.splits if_splits run_result.splits awaited.splits)

lemma run_body_log:
  assumes "run_body sv cx rq adm rid rr recent sm st v w = (b, v', w')"
  shows "w' = w \<or> (\<exists>cat gx r. agent_run (sv_env sv) (params_of sv cx rq cat) (Some rid) (rq_approved_action_hash rq)
    (rq_reconstructed_steps rq) gx w = (r, w'))"
  using assms by (auto simp: run_body_def Let_def dest!: run_agent_log split: prod.splits option.splits if_splits sum.splits awaited.splits)

lemma service_run_log:
  assumes "service_run sv cx rq st v w = (r, st', v', w')"
  shows "w' = w \<or> (\<exists>rid cat gx r. agent_run (sv_env sv) (params_of sv cx rq cat) (Some rid) (rq_approved_action_hash rq)
    (rq_reconstructed_steps rq) gx w = (r, w'))"
  using assms by (auto simp: service_run_def Let_def dest!: run_body_log split: prod.splits sum.splits awaited.splits)

lemma service_run_gated:
  assumes "service_run sv cx rq st v (w, []) = (r, st', v', w', l)" "sv_env sv = observed env" "limits_ok (sv_limits sv)"
  shows "gated_hashes sv (rq_agent_control_mode rq) l = [] \<or>
    (\<exists>h. rq_approved_action_hash rq = Some h \<and> gated_hashes sv (rq_agent_control_mode rq) l = [h])"
proof -
  from service_run_log [OF assms(1)] consider "l = []" |
    (ran) rid cat gx r' where "agent_run (observed env) (params_of sv cx rq cat) (Some rid) (rq_approved_action_hash rq)
      (rq_reconstructed_steps rq) gx (w, []) = (r', w', l)" using assms(2) by auto
  then show ?thesis
  proof cases
    case ran
    have "limits_ok (rp_limits (params_of sv cx rq cat))" using assms(3) by (simp add: params_of_def)
    from observed_run_end [OF this ran] have "calls_ok (params_of sv cx rq cat) (rq_approved_action_hash rq) l"
      by (simp add: end_inv_def)
    then show ?thesis by (rule gated_hashes_calls)
  qed simp
qed

subsection \<open>What the operations do to the store\<close>

text \<open>The hashes paid for by an operation are added to the consumed approvals of the run.\<close>

definition pays :: "uuid \<Rightarrow> string list \<Rightarrow> store \<Rightarrow> store \<Rightarrow> bool" where
  "pays rid hs st st' =
     (store_ok st' \<and> advances st st' \<and>
      (\<forall>i rr. st_runs st i = Some rr \<longrightarrow> (\<exists>rr'. st_runs st' i = Some rr' \<and>
         consumed_hashes rr + (if i = rid then mset hs else {#}) \<subseteq># consumed_hashes rr')) \<and>
      (st_runs st rid = None \<longrightarrow> hs = []))"

lemma extends_pays: "store_ok st' \<Longrightarrow> extends st st' \<Longrightarrow> pays rid [] st st'"
  using extends_consumed by (fastforce simp: pays_def extends_def intro: extends_advances)

lemma pays_refl: "store_ok st \<Longrightarrow> pays rid [] st st"
  by (rule extends_pays) simp_all

lemma pays_any: "pays i [] st st' \<Longrightarrow> pays j [] st st'"
proof -
  have "pays k [] st st' \<longleftrightarrow> store_ok st' \<and> advances st st' \<and> (\<forall>i rr. st_runs st i = Some rr \<longrightarrow>
      (\<exists>rr'. st_runs st' i = Some rr' \<and> consumed_hashes rr \<subseteq># consumed_hashes rr'))" for k
    unfolding pays_def mset.simps if_cancel add_0_right by simp
  then show "pays i [] st st' \<Longrightarrow> pays j [] st st'" by blast
qed

lemma pays_less: "pays rid hs st st' \<Longrightarrow> pays rid [] st st'"
  unfolding pays_def by (simp, meson mset_subset_eq_add_left subset_mset.trans)

lemma pays_extends:
  assumes "pays rid hs st st1" "store_ok st2" "extends st1 st2"
  shows "pays rid hs st st2"
proof -
  have "\<exists>rr2. st_runs st2 i = Some rr2 \<and> consumed_hashes rr + (if i = rid then mset hs else {#}) \<subseteq># consumed_hashes rr2"
    if i: "st_runs st i = Some rr" for i rr
  proof -
    from assms(1) i obtain rr1 where 1: "st_runs st1 i = Some rr1"
      "consumed_hashes rr + (if i = rid then mset hs else {#}) \<subseteq># consumed_hashes rr1" unfolding pays_def by blast
    from assms(3) 1(1) obtain rr2 where "st_runs st2 i = Some rr2" "run_extends rr1 rr2" unfolding extends_def by blast
    with 1(2) extends_consumed show ?thesis by (intro exI [of _ rr2]) simp
  qed
  with assms extends_advances [OF assms(3)] show ?thesis
    by (simp add: pays_def) (meson advances_trans)
qed

lemma put_run_pays:
  assumes "store_ok st" "st_runs st rid = Some rr" "run_id (rr_run rr') = rid" "run_ok rr'" "run_advances rr rr'"
    "consumed_hashes rr' = consumed_hashes rr + mset hs"
  shows "pays rid hs st (put_run rr' st)"
  using assms put_run_ok [OF assms(1,4)] put_run_advances [of st rr' rr] by (auto simp: pays_def) (auto simp: put_run_def)

lemma settle_error_pays:
  assumes "settle_error aid s u RUN_FAILED reason e now rr st = (r, st')" "store_ok st" "st_runs st rid = Some rr"
    "approval_of aid rr = Some a" "available rr a" "s \<in> {AP_EXPIRED, AP_CANCELLED}"
  shows "pays rid [] st st' \<and> r = Inl e"
  using settle_error_result [OF assms] assms(3) by (auto simp: pays_def)

lemma locked_owned_runs: "locked_owned cx rid aid st = Inr (rr, a) \<Longrightarrow> st_runs st rid = Some rr \<and> approval_of aid rr = Some a"
  by (auto simp: locked_owned_Inr owned_run_Inr)

definition mode_of :: "store \<Rightarrow> uuid \<Rightarrow> AgentControlMode" where
  "mode_of st rid = (case st_runs st rid of Some rr \<Rightarrow> run_agent_control_mode (rr_run rr) | None \<Rightarrow> BALANCED)"

lemma approve_once_pays:
  assumes "approve_once sv cx rid aid request_id st v (w, []) = (r, st', v', w', l)" "store_ok st"
    and env: "sv_env sv = observed env" "limits_ok (sv_limits sv)"
  shows "pays rid (gated_hashes sv (mode_of st rid) l) st st'"
proof (cases "locked_owned cx rid aid st")
  case (Inl e)
  with assms(1,2) pays_refl show ?thesis by (auto simp: approve_once_def)
next
  case (Inr x)
  obtain rr a where x: "x = (rr, a)" by (cases x)
  note lo = locked_owned_runs [OF Inr [unfolded x]]
  obtain now v1 where now: "sv_now sv v = (now, v1)" by (cases "sv_now sv v")
  show ?thesis
  proof (cases "check_approval sv cx rr a now st")
    case (Inl ref)
    show ?thesis
    proof (cases ref)
      case (Refused e)
      with assms(1,2) Inl Inr x now pays_refl show ?thesis by (auto simp: approve_once_def Let_def)
    next
      case (Settled s u reason e)
      with check_approval_Settled Inl have "available rr a" "s \<in> {AP_EXPIRED, AP_CANCELLED}" by blast+
      moreover have "settle_error aid s u RUN_FAILED reason e now rr st = (r, st') \<and> l = []"
        using assms(1) Settled Inl Inr x now by (auto simp: approve_once_def Let_def split: prod.splits)
      ultimately show ?thesis using settle_error_pays [OF _ assms(2)] lo by fastforce
    qed
  next
    case ok: (Inr m)
    then have av: "available rr a" by (simp add: check_approval_Inr)
    let ?user = "Some (identity_user_id (ctx_identity cx))"
    obtain rc v2 where rc: "reconstruct_completed_steps sv (ctx_scope cx) (rr_steps rr) v1 = (rc, v2)"
      by (cases "reconstruct_completed_steps sv (ctx_scope cx) (rr_steps rr) v1")
    show ?thesis
    proof (cases rc)
      case Interrupted
      with assms(1,2) ok Inr x now rc pays_refl show ?thesis by (auto simp: approve_once_def Let_def)
    next
      case Fails
      then have "settle_error aid AP_CANCELLED ?user RUN_FAILED ''RESUME_RECONSTRUCTION_FAILED'' (APIError 409 ''resume_failed'') now rr st = (r, st')
          \<and> l = []"
        using assms(1) ok Inr x now rc by (auto simp: approve_once_def Let_def split: prod.splits)
      with settle_error_pays [OF _ assms(2)] lo av show ?thesis by fastforce
    next
      case (Done steps)
      have "AP_CONSUMED \<noteq> AP_PENDING" "AP_CONSUMED = AP_CONSUMED \<longleftrightarrow> Some now \<noteq> None" by simp_all
      from settle_result [OF assms(2) lo [THEN conjunct1] lo [THEN conjunct2] av this, of RUNNING ?user "''APPROVAL_CONSUMED''" now]
      obtain rr1 where s1: "settle aid AP_CONSUMED ?user (Some now) RUNNING ''APPROVAL_CONSUMED'' now rr st = Inr (put_run rr1 st)"
        and r1: "run_id (rr_run rr1) = rid" "run_ok rr1" "run_advances rr rr1"
          "consumed_hashes rr1 = consumed_hashes rr + {#aq_action_argument_hash a#}" by auto
      let ?rq = "resume_request rr a m request_id steps"
      have run: "service_run sv cx ?rq (put_run rr1 st) v2 (w, []) = (r, st', v', w', l)"
        using assms(1) Inr x now ok rc Done s1 by (simp add: approve_once_def Let_def)
      have mode: "rq_agent_control_mode ?rq = mode_of st rid" and h: "rq_approved_action_hash ?rq = Some (aq_action_argument_hash a)"
        using lo by (simp_all add: resume_request_def mode_of_def)
      have "pays rid [aq_action_argument_hash a] st (put_run rr1 st)"
        using put_run_pays [OF assms(2) lo [THEN conjunct1] r1(1-3)] r1(4) by simp
      from pays_extends [OF this] service_run_ok [OF run put_run_ok [OF assms(2) r1(2)]]
      have p: "pays rid [aq_action_argument_hash a] st st'" by blast
      moreover have "gated_hashes sv (mode_of st rid) l \<in> {[], [aq_action_argument_hash a]}"
        using service_run_gated [OF run env] by (simp add: mode h)
      moreover have "pays rid [] st st'" using p by (rule pays_less)
      ultimately show ?thesis by auto
    qed
  qed
qed

lemma change_request_pays:
  assumes "change_request sv cx rid aid content request_id st v (w, []) = (r, st', v', w', l)" "store_ok st"
    and env: "sv_env sv = observed env" "limits_ok (sv_limits sv)"
  shows "pays i (gated_hashes sv (mode_of st rid) l) st st' \<and> gated_hashes sv (mode_of st rid) l = []"
proof (cases "locked_owned cx rid aid st")
  case (Inl e)
  with assms(1,2) pays_refl show ?thesis by (auto simp: change_request_def)
next
  case (Inr x)
  obtain rr a where x: "x = (rr, a)" by (cases x)
  note lo = locked_owned_runs [OF Inr [unfolded x]]
  obtain now v1 where now: "sv_now sv v = (now, v1)" by (cases "sv_now sv v")
  show ?thesis
  proof (cases "available rr a")
    case False
    with assms(1,2) Inr x pays_refl show ?thesis by (auto simp: change_request_def)
  next
    case True
    let ?user = "Some (identity_user_id (ctx_identity cx))"
    have "AP_SUPERSEDED \<noteq> AP_PENDING" "AP_SUPERSEDED = AP_CONSUMED \<longleftrightarrow> (None :: time option) \<noteq> None" by simp_all
    from settle_result [OF assms(2) lo [THEN conjunct1] lo [THEN conjunct2] True this, of RUN_CANCELLED ?user "''CHANGE_REQUESTED''" now]
    obtain rr1 where s1: "settle aid AP_SUPERSEDED ?user None RUN_CANCELLED ''CHANGE_REQUESTED'' now rr st = Inr (put_run rr1 st)"
      and r1: "run_id (rr_run rr1) = rid" "run_ok rr1" "run_advances rr rr1" "consumed_hashes rr1 = consumed_hashes rr" by auto
    obtain rq where rq: "rq_approved_action_hash rq = None" "rq_agent_control_mode rq = mode_of st rid"
      and run: "service_run sv cx rq (put_run rr1 st) v1 (w, []) = (r, st', v', w', l)"
      using assms(1) Inr x now True s1 lo by (simp add: change_request_def Let_def mode_of_def) force
    have "pays rid [] st (put_run rr1 st)" using put_run_pays [OF assms(2) lo [THEN conjunct1] r1(1-3)] r1(4) by simp
    then have "pays i [] st (put_run rr1 st)" by (rule pays_any)
    from pays_extends [OF this] service_run_ok [OF run put_run_ok [OF assms(2) r1(2)]]
    have "pays i [] st st'" by blast
    moreover have "gated_hashes sv (mode_of st rid) l = []" using service_run_gated [OF run env] rq by auto
    ultimately show ?thesis by simp
  qed
qed

lemma reject_pays:
  assumes "reject sv cx rid aid st v = (r, st', v')" "store_ok st"
  shows "pays i [] st st'"
proof (cases "\<exists>rr a. locked_owned cx rid aid st = Inr (rr, a) \<and> available rr a")
  case True
  then obtain rr a where lo: "locked_owned cx rid aid st = Inr (rr, a)" and av: "available rr a" by blast
  note l2 = locked_owned_runs [OF lo]
  obtain now v1 where now: "sv_now sv v = (now, v1)" by (cases "sv_now sv v")
  have "AP_REJECTED \<noteq> AP_PENDING" "AP_REJECTED = AP_CONSUMED \<longleftrightarrow> (None :: time option) \<noteq> None" by simp_all
  from settle_result [OF assms(2) l2 [THEN conjunct1] l2 [THEN conjunct2] av this, of RUN_CANCELLED
      "Some (identity_user_id (ctx_identity cx))" "''APPROVAL_REJECTED''" now]
  obtain rr1 where s1: "settle aid AP_REJECTED (Some (identity_user_id (ctx_identity cx))) None RUN_CANCELLED ''APPROVAL_REJECTED'' now rr st =
      Inr (put_run rr1 st)" and r1: "run_id (rr_run rr1) = rid" "run_ok rr1" "run_advances rr rr1" "consumed_hashes rr1 = consumed_hashes rr"
    by auto
  have "st' = put_run rr1 st" using assms(1) lo av now s1 by (simp add: reject_def Let_def)
  moreover have "pays rid [] st (put_run rr1 st)" using put_run_pays [OF assms(2) l2 [THEN conjunct1] r1(1-3)] r1(4) by simp
  ultimately show ?thesis using pays_any by simp
next
  case False
  then have "st' = st" using assms(1) by (auto simp: reject_def split: sum.splits)
  with assms(2) pays_refl show ?thesis by simp
qed

lemma stop_run_pays:
  assumes "stop_run sv cx rid st v = (r, st', v')" "store_ok st"
  shows "pays i [] st st'"
proof (cases "\<exists>rr. owned_run cx rid st = Inr rr \<and> run_status (rr_run rr) = AWAITING_APPROVAL")
  case True
  then obtain rr where o: "owned_run cx rid st = Inr rr" and w: "run_status (rr_run rr) = AWAITING_APPROVAL" by blast
  then have row: "st_runs st rid = Some rr" by (simp add: owned_run_Inr)
  have ok: "run_ok rr" using store_okD [OF assms(2) row] by simp
  with w obtain a as where p: "pending (rr_approvals rr) = a # as" by (cases "pending (rr_approvals rr)") (auto simp: run_ok_def)
  have "a \<in> set (pending (rr_approvals rr))" by (simp add: p)
  then have a: "a \<in> set (rr_approvals rr)" "aq_status a = AP_PENDING" by (simp_all add: pending_def)
  have ap: "approval_of (aq_id a) rr = Some a"
  proof (cases "approval_of (aq_id a) rr")
    case None
    with a(1) show ?thesis by (auto simp: approval_of_def find_None_iff)
  next
    case (Some b)
    with approval_of_Some [OF this] same_id a(1) ok show ?thesis by (auto simp: run_ok_def)
  qed
  have av: "available rr a" using w a(2) by (simp add: available_def)
  obtain now v1 where now: "sv_now sv v = (now, v1)" by (cases "sv_now sv v")
  have "AP_CANCELLED \<noteq> AP_PENDING" "AP_CANCELLED = AP_CONSUMED \<longleftrightarrow> (None :: time option) \<noteq> None" by simp_all
  from settle_result [OF assms(2) row ap av this, of RUN_CANCELLED "Some (identity_user_id (ctx_identity cx))" "''RUN_STOPPED''" now]
  obtain rr1 where s1: "settle (aq_id a) AP_CANCELLED (Some (identity_user_id (ctx_identity cx))) None RUN_CANCELLED ''RUN_STOPPED'' now rr st =
      Inr (put_run rr1 st)" and r1: "run_id (rr_run rr1) = rid" "run_ok rr1" "run_advances rr rr1" "consumed_hashes rr1 = consumed_hashes rr"
    by auto
  have "st' = put_run rr1 st" using assms(1) o w now p s1 by (simp add: stop_run_def Let_def settle_def)
  moreover have "pays rid [] st (put_run rr1 st)" using put_run_pays [OF assms(2) row r1(1-3)] r1(4) by simp
  ultimately show ?thesis using pays_any by simp
next
  case False
  then have "st' = st" using assms(1) by (auto simp: stop_run_def split: sum.splits)
  with assms(2) pays_refl show ?thesis by simp
qed

subsection \<open>The life of the store\<close>

text \<open>
  One transaction of the service: a fresh request, one of the four operations on a waiting run, or anything that
  writes other rows.  Every transaction may have its own service, that is other models, limits and adapters; the
  loop runs in an observed environment, and the step carries the hashes of the executions that needed an approval.
\<close>

definition fresh_run_id :: "('v, 'w) run_service \<Rightarrow> 'v \<Rightarrow> uuid" where
  "fresh_run_id sv v = fst (sv_uuid4 sv (snd (sv_monotonic sv v)))"

inductive step :: "'v itself \<Rightarrow> 'x itself \<Rightarrow> store \<Rightarrow> uuid \<Rightarrow> string list \<Rightarrow> store \<Rightarrow> bool"
  for V :: "'v itself" and X :: "'x itself" where
  step_request:
    "step V X st (fresh_run_id sv v) (gated_hashes sv (rq_agent_control_mode rq) l) st'"
    if "sv_env sv = observed env" "limits_ok (sv_limits sv)" "rq_resume_run rq = None" "rq_approved_action_hash rq = None"
      "service_run sv cx rq st (v :: 'v) (w :: 'x, []) = (r, st', v', w', l)"
| step_approve:
    "step V X st rid (gated_hashes sv (mode_of st rid) l) st'"
    if "sv_env sv = observed env" "limits_ok (sv_limits sv)"
      "approve_once sv cx rid aid request_id st (v :: 'v) (w :: 'x, []) = (r, st', v', w', l)"
| step_change:
    "step V X st rid (gated_hashes sv (mode_of st rid) l) st'"
    if "sv_env sv = observed env" "limits_ok (sv_limits sv)"
      "change_request sv cx rid aid content request_id st (v :: 'v) (w :: 'x, []) = (r, st', v', w', l)"
| step_reject:
    "step V X st rid [] st'" if "reject (sv :: ('v, 'x) run_service) cx rid aid st v = (r, st', v')"
| step_stop:
    "step V X st rid [] st'" if "stop_run (sv :: ('v, 'x) run_service) cx rid st v = (r, st', v')"
| step_other:
    "step V X st rid [] st'" if "st_runs st' = st_runs st"

inductive_cases stepE: "step V X st rid hs st'"

text \<open>The stores reached from one without runs, with the hashes of the executions of every run.\<close>

inductive life :: "'v itself \<Rightarrow> 'x itself \<Rightarrow> store \<Rightarrow> (uuid \<Rightarrow> string list) \<Rightarrow> bool"
  for V :: "'v itself" and X :: "'x itself" where
  life_start: "life V X st (\<lambda>rid. [])" if "st_runs st = (\<lambda>rid. None)"
| life_step: "life V X st' (ledger(rid := ledger rid @ hs))" if "life V X st ledger" "step V X st rid hs st'"

lemma step_pays: "step V X st rid hs st' \<Longrightarrow> store_ok st \<Longrightarrow> pays rid hs st st'"
proof (induction rule: step.induct)
  case (step_request sv env rq cx st v w r st' v' w' l)
  have "gated_hashes sv (rq_agent_control_mode rq) l = []"
    using service_run_gated [OF step_request(5,1,2)] step_request(4) by auto
  with service_run_ok [OF step_request(5,6)] extends_pays show ?case by auto
next
  case (step_other st' st rid)
  then have "store_ok st'" "extends st st'" by (auto simp: store_ok_def extends_def)
  then show ?case by (rule extends_pays)
qed (auto intro: approve_once_pays change_request_pays [THEN conjunct1] reject_pays stop_run_pays)

text \<open>The invariant of every life.\<close>

definition ledger_ok :: "store \<Rightarrow> (uuid \<Rightarrow> string list) \<Rightarrow> bool" where
  "ledger_ok st ledger = (\<forall>rid. case st_runs st rid of None \<Rightarrow> ledger rid = [] | Some rr \<Rightarrow> mset (ledger rid) \<subseteq># consumed_hashes rr)"

lemma pays_ledger:
  assumes p: "pays rid hs st st'" and "ledger_ok st ledger"
  shows "ledger_ok st' (ledger(rid := ledger rid @ hs))"
  unfolding ledger_ok_def
proof
  fix i
  show "case st_runs st' i of None \<Rightarrow> (ledger(rid := ledger rid @ hs)) i = []
    | Some rr \<Rightarrow> mset ((ledger(rid := ledger rid @ hs)) i) \<subseteq># consumed_hashes rr"
  proof (cases "st_runs st i")
    case None
    with assms have "ledger i = []" "i = rid \<Longrightarrow> hs = []" by (auto simp: ledger_ok_def pays_def split: option.splits dest: spec [of _ i])
    then show ?thesis by (auto split: option.split)
  next
    case (Some rr)
    from p Some obtain rr' where r: "st_runs st' i = Some rr'"
      "consumed_hashes rr + (if i = rid then mset hs else {#}) \<subseteq># consumed_hashes rr'" unfolding pays_def by blast
    have "mset (ledger i) \<subseteq># consumed_hashes rr" using assms(2) Some by (auto simp: ledger_ok_def dest: spec [of _ i])
    then have "mset (ledger i) + (if i = rid then mset hs else {#}) \<subseteq># consumed_hashes rr + (if i = rid then mset hs else {#})"
      by (rule subset_mset.add_right_mono)
    from subset_mset.trans [OF this r(2)] show ?thesis by (auto simp: r(1) split: if_splits)
  qed
qed

lemma life_inv: "life V X st ledger \<Longrightarrow> store_ok st \<and> ledger_ok st ledger"
proof (induction rule: life.induct)
  case (life_start st)
  then show ?case by (simp add: store_ok_def ledger_ok_def)
next
  case (life_step st ledger rid hs st')
  then have p: "pays rid hs st st'" using step_pays by blast
  have "store_ok st'" using p by (simp add: pays_def)
  moreover have "ledger_ok st' (ledger(rid := ledger rid @ hs))" using life_step by (intro pays_ledger [OF p]) simp
  ultimately show ?case by blast
qed

lemma approval_of_append: "approval_of aid rr = Some a \<Longrightarrow> rr_approvals rr' = old @ new \<Longrightarrow>
  list_all2 approval_advances (rr_approvals rr) old \<Longrightarrow> aq_status a \<noteq> AP_PENDING \<Longrightarrow> approval_of aid rr' = Some a"
proof -
  assume "approval_of aid rr = Some a" "rr_approvals rr' = old @ new" "list_all2 approval_advances (rr_approvals rr) old"
    "aq_status a \<noteq> AP_PENDING"
  moreover have "list_all2 approval_advances xs old \<Longrightarrow> List.find (\<lambda>a. aq_id a = aid) xs = Some a \<Longrightarrow> aq_status a \<noteq> AP_PENDING \<Longrightarrow>
      List.find (\<lambda>a. aq_id a = aid) (old @ new) = Some a" for xs
    by (induction rule: list_all2_induct) (auto simp: approval_advances_def split: if_splits)
  ultimately show ?thesis by (simp add: approval_of_def)
qed

lemma resolved_approval_kept:
  assumes "advances st st'" "st_runs st i = Some rr" "approval_of aid rr = Some a" "aq_status a \<noteq> AP_PENDING"
  shows "\<exists>rr'. st_runs st' i = Some rr' \<and> approval_of aid rr' = Some a"
proof -
  from assms(1,2) obtain rr' old new where "st_runs st' i = Some rr'" "rr_approvals rr' = old @ new"
    "list_all2 approval_advances (rr_approvals rr) old" unfolding advances_def run_advances_def by blast
  with approval_of_append [OF assms(3) _ _ assms(4)] show ?thesis by blast
qed

subsection \<open>A concrete life\<close>

definition after_approval :: "uuid \<Rightarrow> store \<Rightarrow> bool" where
  "after_approval rid st = (case st_runs st rid of None \<Rightarrow> False
     | Some rr \<Rightarrow> run_status (rr_run rr) = RUN_COMPLETED \<and> map aq_status (rr_approvals rr) = [AP_CONSUMED] \<and> length (rr_steps rr) = 1)"

definition example_approval ::
  "store \<Rightarrow> nat \<Rightarrow> nat \<Rightarrow> (service_exn, service_reply) result \<times> store \<times> nat \<times> nat \<times> execution list" where
  "example_approval st v n = approve_once example_service example_auth 100 102 ''r2'' st v (n, [])"

text \<open>The first request pauses; its approval resumes the run, which searches once and completes.\<close>

lemma example_life_summary:
  "case example_first_run of (r, st, v, n, l) \<Rightarrow> l = [] \<and> (case example_approval st v n of
     (r', st', v', n', l') \<Rightarrow> after_approval 100 st' \<and> gated_hashes example_service (mode_of st 100) l' = [example_hash])"
  by code_simp

lemma example_service_ok: "sv_env example_service = observed example_env" "limits_ok (sv_limits example_service)"
  using example_limits_ok by (simp_all add: example_service_def)

lemma example_life:
  obtains st1 v1 n1 r st v n l where
    "example_approval st1 v1 n1 = (r, st, v, n, l)" "l \<noteq> []"
    "life TYPE(nat) TYPE(nat) st1 (\<lambda>rid. [])" "step TYPE(nat) TYPE(nat) st1 100 [example_hash] st" "after_approval 100 st"
proof -
  obtain r1 st1 v1 n1 l1 where f: "example_first_run = (r1, st1, v1, n1, l1)" by (cases example_first_run) auto
  obtain r st v n l where a: "example_approval st1 v1 n1 = (r, st, v, n, l)" by (cases "example_approval st1 v1 n1") auto
  from example_life_summary have s: "l1 = []" "after_approval 100 st" "gated_hashes example_service (mode_of st1 100) l = [example_hash]"
    unfolding f a prod.case by blast+
  have "life TYPE(nat) TYPE(nat) example_store (\<lambda>rid. [])" by (rule life_start) (simp add: example_store_def)
  moreover have "step TYPE(nat) TYPE(nat) example_store (fresh_run_id example_service 100)
      (gated_hashes example_service (rq_agent_control_mode example_request) l1) st1"
    by (rule step_request [OF example_service_ok _ _ f [unfolded example_first_run_def]]) (simp_all add: example_request_def)
  ultimately have "life TYPE(nat) TYPE(nat) st1 ((\<lambda>rid. [])(fresh_run_id example_service 100 := [] @ []))"
    using s(1) life_step [of "TYPE(nat)" "TYPE(nat)" example_store "\<lambda>rid. []"] by (metis gated_hashes_Nil)
  moreover have "(\<lambda>rid. [] :: string list)(fresh_run_id example_service 100 := [] @ []) = (\<lambda>rid. [])" by auto
  ultimately have "life TYPE(nat) TYPE(nat) st1 (\<lambda>rid. [])" by metis
  moreover have "step TYPE(nat) TYPE(nat) st1 100 [example_hash] st"
    using step_approve [OF example_service_ok a [unfolded example_approval_def]] s(3) by simp
  moreover have "l \<noteq> []" using s(3) by auto
  ultimately show ?thesis using that a s(2) by blast
qed

subsection \<open>Properties\<close>

text \<open>C28: approvals pay for executions.  In every store a service without runs can reach, by any interleaving of
  requests, approvals, rejections, changes and stops, under any models, the executions of a run that needed an
  approval are covered one by one by approvals of that same run with the same action hash, each consumed.  A run
  waits exactly when it has a pending approval, and it has at most one.\<close>

theorem approvals_pay_for_executions:
  assumes "life V X st ledger" and "st_runs st rid = Some rr"
  shows "mset (ledger rid) \<subseteq># image_mset aq_action_argument_hash (filter_mset (\<lambda>a. aq_status a = AP_CONSUMED) (mset (rr_approvals rr))) \<and>
    (run_status (rr_run rr) = AWAITING_APPROVAL \<longleftrightarrow> pending (rr_approvals rr) \<noteq> []) \<and> length (pending (rr_approvals rr)) \<le> 1"
proof -
  from life_inv [OF assms(1)] have "run_ok rr" "mset (ledger rid) \<subseteq># consumed_hashes rr"
    using assms(2) by (auto simp: store_ok_def ledger_ok_def dest: spec [of _ rid])
  then show ?thesis by (auto simp: run_ok_def approvals_unique_def consumed_hashes_def)
qed

theorem approvals_pay_for_executions_witness:
  "\<exists>st ledger rr. life TYPE(nat) TYPE(nat) st ledger \<and> st_runs st 100 = Some rr \<and> ledger 100 = [example_hash] \<and>
     {#example_hash#} \<subseteq># image_mset aq_action_argument_hash (filter_mset (\<lambda>a. aq_status a = AP_CONSUMED) (mset (rr_approvals rr)))"
proof -
  obtain st1 v1 n1 r st v n l where e: "example_approval st1 v1 n1 = (r, st, v, n, l)" "l \<noteq> []"
    "life TYPE(nat) TYPE(nat) st1 (\<lambda>rid. [])" "step TYPE(nat) TYPE(nat) st1 100 [example_hash] st" "after_approval 100 st"
    by (rule example_life)
  let ?ledger = "(\<lambda>rid. [])(100 := [] @ [example_hash])"
  have life: "life TYPE(nat) TYPE(nat) st ?ledger" by (rule life_step [OF e(3,4)])
  from e(5) obtain rr where rr: "st_runs st 100 = Some rr" by (auto simp: after_approval_def split: option.splits)
  show ?thesis using approvals_pay_for_executions [OF life rr] life rr by (intro exI [of _ st] exI [of _ ?ledger] exI [of _ rr]) simp
qed

text \<open>C29: a resolved approval is final.  No transaction changes it, so it is consumed at most once: approving,
  rejecting or changing it again answers with an error, writes nothing and executes nothing.\<close>

theorem resolved_approval_final:
  assumes "step V X st i hs st'" "store_ok st" "st_runs st rid = Some rr" "approval_of aid rr = Some a" "aq_status a \<noteq> AP_PENDING"
  shows "(\<exists>rr'. st_runs st' rid = Some rr' \<and> approval_of aid rr' = Some a) \<and>
    (\<exists>e v'. approve_once sv cx rid aid request_id st' v w = (Inl e, st', v', w)) \<and>
    (\<exists>e. reject sv cx rid aid st' v = (Inl e, st', v)) \<and>
    (\<exists>e. change_request sv cx rid aid content request_id st' v w = (Inl e, st', v, w))"
proof -
  have "advances st st'" using step_pays [OF assms(1,2)] by (simp add: pays_def)
  from resolved_approval_kept [OF this assms(3-5)] obtain rr' where rr': "st_runs st' rid = Some rr'" "approval_of aid rr' = Some a" by blast
  have na: "\<not> available rr' a" using assms(5) by (simp add: available_def)
  show ?thesis
  proof (cases "locked_owned cx rid aid st'")
    case (Inl e)
    then show ?thesis using rr' by (simp add: approve_once_def reject_def change_request_def)
  next
    case (Inr x)
    then have "x = (rr', a)" using locked_owned_runs rr' by (cases x) force
    then show ?thesis using rr' Inr na
      by (simp add: approve_once_def reject_def change_request_def check_approval_def Let_def split: prod.split)
  qed
qed

theorem resolved_approval_final_witness:
  "\<exists>st rr a. life TYPE(nat) TYPE(nat) st ((\<lambda>rid. [])(100 := [example_hash])) \<and> st_runs st 100 = Some rr \<and>
     approval_of (aq_id a) rr = Some a \<and> aq_status a = AP_CONSUMED \<and>
     (\<exists>e v'. approve_once example_service example_auth 100 (aq_id a) ''r3'' st 105 (0, []) = (Inl e, st, v', 0, []))"
proof -
  obtain st1 v1 n1 r st v n l where e: "example_approval st1 v1 n1 = (r, st, v, n, l)" "l \<noteq> []"
    "life TYPE(nat) TYPE(nat) st1 (\<lambda>rid. [])" "step TYPE(nat) TYPE(nat) st1 100 [example_hash] st" "after_approval 100 st"
    by (rule example_life)
  have life: "life TYPE(nat) TYPE(nat) st ((\<lambda>rid. [])(100 := [example_hash]))" using life_step [OF e(3,4)] by simp
  from e(5) obtain rr where rr: "st_runs st 100 = Some rr" and "map aq_status (rr_approvals rr) = [AP_CONSUMED]"
    by (auto simp: after_approval_def split: option.splits)
  then obtain a where a: "rr_approvals rr = [a]" "aq_status a = AP_CONSUMED" by auto
  then have ao: "approval_of (aq_id a) rr = Some a" by (simp add: approval_of_def)
  have ok: "store_ok st" using life_inv [OF life] by simp
  have other: "step TYPE(nat) TYPE(nat) st 100 [] st" by (rule step_other) simp
  have "aq_status a \<noteq> AP_PENDING" using a(2) by simp
  from resolved_approval_final [OF other ok rr ao this, of example_service example_auth "''r3''" 105 "(0, [])"]
  show ?thesis using life rr ao a(2) by blast
qed

text \<open>C30: when an approval is used.  If \<^verbatim>\<open>approve_once\<close> touches the models or the tools at all, then the caller owns the
  run, the approval was pending for the waiting run and had not expired, it was bound to the latest plan version
  and the next step, and it was given under exactly the caller's present scope.\<close>

theorem approve_once_guarded:
  assumes "approve_once sv cx rid aid request_id st v w = (r, st', v', w')" and "w' \<noteq> w"
  shows "\<exists>rr a. st_runs st rid = Some rr \<and> approval_of aid rr = Some a \<and>
    run_user_id (rr_run rr) = identity_user_id (ctx_identity cx) \<and> resolve_home_tenant_id cx = Some (run_tenant_id (rr_run rr)) \<and>
    aq_status a = AP_PENDING \<and> run_status (rr_run rr) = AWAITING_APPROVAL \<and> fst (sv_now sv v) < aq_expires_at a \<and>
    binding_is_current rr a \<and> aq_scope_fingerprint a = sv_scope_fingerprint sv (ctx_scope cx)"
proof (cases "locked_owned cx rid aid st")
  case (Inr x)
  obtain rr a where x: "x = (rr, a)" by (cases x)
  obtain now v1 where now: "sv_now sv v = (now, v1)" by (cases "sv_now sv v")
  from assms Inr x now obtain m where "check_approval sv cx rr a now st = Inr m"
    by (cases "check_approval sv cx rr a now st") (auto simp: approve_once_def Let_def split: refusal.splits prod.splits)
  with Inr x now show ?thesis by (auto simp: check_approval_Inr available_def locked_owned_Inr owned_run_Inr)
qed (use assms in \<open>simp add: approve_once_def\<close>)

theorem approve_once_guarded_witness:
  "\<exists>st v n r st' v' n' l. example_approval st v n = (r, st', v', n', l) \<and> (n', l) \<noteq> (n, []) \<and>
     (\<exists>rr a. st_runs st 100 = Some rr \<and> approval_of 102 rr = Some a \<and> aq_status a = AP_PENDING \<and> binding_is_current rr a)"
proof -
  obtain st1 v1 n1 r st v n l where e: "example_approval st1 v1 n1 = (r, st, v, n, l)" "l \<noteq> []"
    "life TYPE(nat) TYPE(nat) st1 (\<lambda>rid. [])" "step TYPE(nat) TYPE(nat) st1 100 [example_hash] st" "after_approval 100 st"
    by (rule example_life)
  have "(n, l) \<noteq> (n1, [])" using e(2) by simp
  from approve_once_guarded [OF e(1) [unfolded example_approval_def] this] e(1) this show ?thesis by blast
qed

end
