(* ===== verification/Document_Store.thy ===== *)
theory Document_Store
  imports Policy Status_Machines Chunking
begin

text \<open>
  The document tables of \<^verbatim>\<open>app/models/documents.py\<close> and \<^verbatim>\<open>app/models/identity.py\<close> as one explicit store,
  and the authorized source statement every read of document content goes through,
  \<^verbatim>\<open>_authorized_base\<close> of \<^verbatim>\<open>app/retrieval/repository.py\<close>.  A table is a list of rows in insertion
  order, a join is a comprehension over the tables, a \<^verbatim>\<open>NULL\<close> is \<open>None\<close>.  Left out of the rows are the
  columns nothing here reads (\<^verbatim>\<open>updated_at\<close>, the keys of audit events and of parsed pages, sheets,
  rows and cells) and the computed \<^verbatim>\<open>search_vector\<close>, a function of the content.
\<close>

subsection \<open>Identity rows\<close>

record Tenant =
  tn_id :: uuid
  tn_slug :: string
  tn_name :: string
  tn_status :: string

record Company =
  co_id :: uuid
  co_tenant_id :: uuid
  co_slug :: string
  co_name :: string
  co_status :: string

record Department =
  dp_id :: uuid
  dp_key :: string
  dp_name :: string

subsection \<open>Documents and their versions\<close>

record Document =
  dc_id :: uuid
  dc_tenant_id :: uuid
  dc_company_id :: uuid
  dc_department_id :: uuid
  dc_visibility :: string
  dc_classification :: string
  dc_document_type :: string
  dc_reporting_period :: "string option"
  dc_created_by :: uuid
  dc_current_version :: "uuid option"
  dc_deleted_at :: "rat option"
  dc_created_at :: rat

record IngestionJob =
  ij_id :: uuid
  ij_status :: string
  ij_safe_error_code :: "string option"
  ij_started_at :: "rat option"
  ij_completed_at :: "rat option"

record PageRow =
  pr_page_number :: int
  pr_text :: string
  pr_character_count :: int

record CellRow =
  cr_column_number :: int
  cr_coordinate :: string
  cr_value_text :: string
  cr_value_kind :: string
  cr_formula_like :: bool

record RowRow =
  rr_row_number :: int
  rr_cells :: "CellRow list"

record SheetRow =
  st_sheet_index :: int
  st_name :: string
  st_row_count :: int
  st_column_count :: int
  st_rows :: "RowRow list"

text \<open>The job, pages and sheets of a version are its one-to-one and ordered children; they live in its
  row.  A stored warning is the pair of its code and message.\<close>

record DocumentVersion =
  dv_id :: uuid
  dv_document_id :: uuid
  dv_number :: int
  dv_idempotency_key :: string
  dv_request_fingerprint :: string
  dv_original_filename :: string
  dv_safe_filename :: string
  dv_extension :: string
  dv_declared_media_type :: string
  dv_detected_media_type :: string
  dv_checksum :: string
  dv_size_bytes :: int
  dv_storage_key :: "string option"
  dv_status :: string
  dv_warnings :: "(string \<times> string) list"
  dv_page_count :: int
  dv_sheet_count :: int
  dv_row_count :: int
  dv_cell_count :: int
  dv_uploaded_by :: uuid
  dv_approved_by :: "uuid option"
  dv_approved_at :: "rat option"
  dv_rejected_by :: "uuid option"
  dv_rejected_at :: "rat option"
  dv_deleted_at :: "rat option"
  dv_job :: IngestionJob
  dv_pages :: "PageRow list"
  dv_sheets :: "SheetRow list"

subsection \<open>Chunks\<close>

text \<open>A component of an embedding is \<open>None\<close> when it is not a finite number.\<close>

type_synonym vector = "rat option list"

record DocumentChunk =
  dk_id :: uuid
  dk_document_id :: uuid
  dk_document_version_id :: uuid
  dk_tenant_id :: uuid
  dk_company_id :: uuid
  dk_department_id :: uuid
  dk_department :: string
  dk_visibility :: string
  dk_classification :: string
  dk_version_number :: int
  dk_version_status :: string
  dk_active :: bool
  dk_document_deleted :: bool
  dk_version_deleted :: bool
  dk_ordinal :: nat
  dk_source_type :: string
  dk_page_number :: "int option"
  dk_sheet_name :: "string option"
  dk_row_start :: "int option"
  dk_row_end :: "int option"
  dk_cell_start :: "string option"
  dk_cell_end :: "string option"
  dk_content :: string
  dk_content_hash :: string
  dk_embedding :: "vector option"
  dk_embedding_model_name :: "string option"
  dk_embedding_model_version :: "string option"
  dk_embedding_dimensions :: "int option"
  dk_embedding_chunk_hash :: "string option"
  dk_embedding_status :: string

text \<open>The check constraints of the chunk table.\<close>

definition ck_active_lifecycle :: "DocumentChunk \<Rightarrow> bool" where
  "ck_active_lifecycle c \<longleftrightarrow>
     (\<not> dk_active c \<or> dk_version_status c = ''APPROVED'' \<and> \<not> dk_document_deleted c \<and> \<not> dk_version_deleted c)"

definition ck_acl_metadata :: "string \<Rightarrow> string \<Rightarrow> string \<Rightarrow> bool" where
  "ck_acl_metadata department visibility classification \<longleftrightarrow>
     (department = ''finance'' \<and> visibility = ''DEPARTMENT_PRIVATE'' \<and> classification = ''FINANCE_ONLY'') \<or>
     (department = ''legal'' \<and> visibility = ''DEPARTMENT_PRIVATE'' \<and> classification = ''LEGAL_ONLY_CONFIDENTIAL'') \<or>
     (department = ''shared'' \<and> visibility = ''TENANT_SHARED'' \<and> classification = ''TENANT_SHARED'')"

definition ck_embedding_ready :: "DocumentChunk \<Rightarrow> bool" where
  "ck_embedding_ready c \<longleftrightarrow>
     (dk_embedding_status c = ''READY'' \<and> dk_embedding c \<noteq> None \<and> dk_embedding_model_name c \<noteq> None \<and>
      dk_embedding_model_version c \<noteq> None \<and> dk_embedding_dimensions c = Some 768 \<and>
      dk_embedding_chunk_hash c = Some (dk_content_hash c)) \<or>
     (dk_embedding_status c \<noteq> ''READY'' \<and> dk_embedding c = None)"

definition ck_provenance :: "DocumentChunk \<Rightarrow> bool" where
  "ck_provenance c \<longleftrightarrow>
     (dk_source_type c = ''pdf'' \<and> dk_page_number c \<noteq> None \<and> dk_sheet_name c = None \<and> dk_row_start c = None \<and>
      dk_row_end c = None \<and> dk_cell_start c = None \<and> dk_cell_end c = None) \<or>
     (dk_source_type c \<in> {''xlsx'', ''csv''} \<and> dk_page_number c = None \<and> dk_sheet_name c \<noteq> None \<and>
      dk_row_start c \<noteq> None \<and> dk_row_end c \<noteq> None \<and> dk_cell_start c \<noteq> None \<and> dk_cell_end c \<noteq> None)"

text \<open>A comparison with \<^verbatim>\<open>NULL\<close> is not false, so it does not violate a constraint.\<close>

definition ck_location_ranges :: "DocumentChunk \<Rightarrow> bool" where
  "ck_location_ranges c \<longleftrightarrow>
     (case dk_page_number c of None \<Rightarrow> True | Some n \<Rightarrow> 0 < n) \<and>
     (case dk_row_start c of None \<Rightarrow> True | Some n \<Rightarrow> 0 < n) \<and>
     (case (dk_row_end c, dk_row_start c) of (Some b, Some a) \<Rightarrow> a \<le> b | _ \<Rightarrow> True)"

definition chunk_row_ok :: "DocumentChunk \<Rightarrow> bool" where
  "chunk_row_ok c \<longleftrightarrow>
     0 < dk_version_number c \<and> dk_source_type c \<in> {''pdf'', ''xlsx'', ''csv''} \<and>
     dk_version_status c \<in> {''APPROVED'', ''REJECTED'', ''DELETED''} \<and> ck_active_lifecycle c \<and>
     ck_acl_metadata (dk_department c) (dk_visibility c) (dk_classification c) \<and>
     1 \<le> length (dk_content c) \<and> length (dk_content c) \<le> 2000 \<and> length (dk_content_hash c) = 64 \<and>
     dk_embedding_status c \<in> {''PENDING'', ''READY'', ''FAILED'', ''STALE''} \<and> ck_embedding_ready c \<and>
     ck_provenance c \<and> ck_location_ranges c"

subsection \<open>Audit events\<close>

datatype meta_value = MInt int | MText string

record DocumentAuditEvent =
  ae_tenant_id :: "uuid option"
  ae_company_id :: "uuid option"
  ae_actor_user_id :: "uuid option"
  ae_document_id :: "uuid option"
  ae_document_version_id :: "uuid option"
  ae_ingestion_job_id :: "uuid option"
  ae_event_type :: string
  ae_outcome :: string
  ae_reason_code :: string
  ae_request_id :: string
  ae_metadata :: "(string \<times> meta_value) list"

record docstore =
  ds_tenants :: "Tenant list"
  ds_companies :: "Company list"
  ds_departments :: "Department list"
  ds_documents :: "Document list"
  ds_versions :: "DocumentVersion list"
  ds_chunks :: "DocumentChunk list"
  ds_audit :: "DocumentAuditEvent list"

text \<open>The event of \<^verbatim>\<open>record_document_event\<close> with the default \<^verbatim>\<open>None\<close> for every reference to a row.\<close>

definition document_event :: "string \<Rightarrow> string \<Rightarrow> string \<Rightarrow> string \<Rightarrow> uuid \<Rightarrow> DocumentAuditEvent" where
  "document_event event_type outcome reason request_id actor =
     \<lparr>ae_tenant_id = None, ae_company_id = None, ae_actor_user_id = Some actor, ae_document_id = None,
      ae_document_version_id = None, ae_ingestion_job_id = None, ae_event_type = event_type, ae_outcome = outcome,
      ae_reason_code = reason, ae_request_id = request_id, ae_metadata = []\<rparr>"

definition record_document_event :: "DocumentAuditEvent \<Rightarrow> docstore \<Rightarrow> docstore" where
  "record_document_event event db = db\<lparr>ds_audit := ds_audit db @ [event]\<rparr>"

lemma record_document_event_tables [simp]:
  "ds_tenants (record_document_event e db) = ds_tenants db"
  "ds_companies (record_document_event e db) = ds_companies db"
  "ds_departments (record_document_event e db) = ds_departments db"
  "ds_documents (record_document_event e db) = ds_documents db"
  "ds_versions (record_document_event e db) = ds_versions db"
  "ds_chunks (record_document_event e db) = ds_chunks db"
  "ds_audit (record_document_event e db) = ds_audit db @ [e]"
  by (simp_all add: record_document_event_def)

text \<open>\<^verbatim>\<open>document.department.key\<close>.  The foreign key guarantees the row.\<close>

definition department_key :: "docstore \<Rightarrow> uuid \<Rightarrow> string" where
  "department_key db i = (case List.find (\<lambda>p. dp_id p = i) (ds_departments db) of Some p \<Rightarrow> dp_key p | None \<Rightarrow> [])"

text \<open>\<^verbatim>\<open>document.versions\<close>, ordered by the version number.\<close>

definition document_versions :: "docstore \<Rightarrow> uuid \<Rightarrow> DocumentVersion list" where
  "document_versions db i = sort_key dv_number (filter (\<lambda>v. dv_document_id v = i) (ds_versions db))"

lemma set_document_versions [simp]:
  "set (document_versions db i) = {v \<in> set (ds_versions db). dv_document_id v = i}"
  by (auto simp: document_versions_def)

subsection \<open>The authorized source statement\<close>

text \<open>The predicate of one grant; a grant without the query right, companies or departments adds none.\<close>

definition grant_predicate :: "AuthorizationGrant \<Rightarrow> (DocumentChunk \<Rightarrow> bool) option" where
  "grant_predicate g =
     (if QUERY_DOCUMENTS \<notin> set (capabilities g) \<or> company_ids g = [] then None
      else let keys = map dept_key (departments g) in
        if keys = [] then None
        else Some (\<lambda>c. dk_tenant_id c = workspace_id g \<and> dk_company_id c \<in> set (company_ids g) \<and>
                       dk_department c \<in> set keys))"

definition authorized_chunk_clause :: "AuthorizationScope \<Rightarrow> DocumentChunk \<Rightarrow> bool" where
  "authorized_chunk_clause scope c = list_ex (\<lambda>predicate. predicate c) (List.map_filter grant_predicate (grants scope))"

definition visibility_clause :: "DocumentChunk \<Rightarrow> bool" where
  "visibility_clause c \<longleftrightarrow>
     (dk_visibility c = ''DEPARTMENT_PRIVATE'' \<and>
       ((dk_department c = ''finance'' \<and> dk_classification c = ''FINANCE_ONLY'') \<or>
        (dk_department c = ''legal'' \<and> dk_classification c = ''LEGAL_ONLY_CONFIDENTIAL''))) \<or>
     (dk_visibility c = ''TENANT_SHARED'' \<and> dk_department c = ''shared'' \<and> dk_classification c = ''TENANT_SHARED'')"

definition lifecycle_clause :: "DocumentChunk \<Rightarrow> Document \<Rightarrow> DocumentVersion \<Rightarrow> bool" where
  "lifecycle_clause c d v \<longleftrightarrow>
     dk_active c \<and> dk_version_status c = ''APPROVED'' \<and> \<not> dk_document_deleted c \<and> \<not> dk_version_deleted c \<and>
     dc_deleted_at d = None \<and> dv_deleted_at v = None \<and> dv_status v = ''APPROVED'' \<and>
     dc_current_version d = Some (dk_document_version_id c)"

record joined_row =
  jr_chunk :: DocumentChunk
  jr_document :: Document
  jr_version :: DocumentVersion
  jr_tenant :: Tenant
  jr_company :: Company
  jr_department :: Department

definition joined :: "docstore \<Rightarrow> joined_row list" where
  "joined db =
     [\<lparr>jr_chunk = c, jr_document = d, jr_version = v, jr_tenant = t, jr_company = co, jr_department = p\<rparr>.
        c \<leftarrow> ds_chunks db,
        d \<leftarrow> filter (\<lambda>d. dc_id d = dk_document_id c) (ds_documents db),
        v \<leftarrow> filter (\<lambda>v. dv_id v = dk_document_version_id c) (ds_versions db),
        t \<leftarrow> filter (\<lambda>t. tn_id t = dk_tenant_id c) (ds_tenants db),
        co \<leftarrow> filter (\<lambda>co. co_id co = dk_company_id c) (ds_companies db),
        p \<leftarrow> filter (\<lambda>p. dp_id p = dk_department_id c) (ds_departments db)]"

definition base_where :: "AuthorizationScope \<Rightarrow> joined_row \<Rightarrow> bool" where
  "base_where scope r =
     (let c = jr_chunk r; d = jr_document r; v = jr_version r in
      authorized_chunk_clause scope c \<and> visibility_clause c \<and> lifecycle_clause c d v \<and>
      tn_status (jr_tenant r) = ''active'' \<and> co_status (jr_company r) = ''active'' \<and>
      co_tenant_id (jr_company r) = dk_tenant_id c \<and> dc_tenant_id d = dk_tenant_id c \<and>
      dc_company_id d = dk_company_id c \<and> dc_department_id d = dk_department_id c \<and>
      dp_key (jr_department r) = dk_department c \<and> dc_visibility d = dk_visibility c \<and>
      dc_classification d = dk_classification c \<and> dv_document_id v = dk_document_id c)"

definition authorized_base :: "AuthorizationScope \<Rightarrow> docstore \<Rightarrow> joined_row list" where
  "authorized_base scope db = filter (base_where scope) (joined db)"

subsection \<open>The clause is the policy\<close>

text \<open>The request the policy decides when a caller reads a chunk.\<close>

definition read_request :: "DocumentChunk \<Rightarrow> PolicyRequest" where
  "read_request c =
     \<lparr>req_capability = QUERY_DOCUMENTS, req_workspace_id = dk_tenant_id c, req_company_id = Some (dk_company_id c),
      req_department = Some (dk_department c)\<rparr>"

definition may_read :: "AuthorizationScope \<Rightarrow> DocumentChunk \<Rightarrow> bool" where
  "may_read scope c = allowed (authorize scope (read_request c))"

lemma grant_predicate_permits:
  "(\<exists>p. grant_predicate g = Some p \<and> p c) \<longleftrightarrow> grant_permits g (read_request c)"
  by (auto simp: grant_predicate_def grant_permits_def read_request_def Let_def)

lemma list_ex_map_filter: "list_ex (\<lambda>p. p c) (List.map_filter f gs) \<longleftrightarrow> (\<exists>g \<in> set gs. \<exists>p. f g = Some p \<and> p c)"
  by (induction gs) (auto simp: List.map_filter_simps split: option.splits)

lemma authorized_chunk_clause_iff:
  "authorized_chunk_clause scope c \<longleftrightarrow> (\<exists>g \<in> set (grants scope). grant_permits g (read_request c))"
  by (simp add: authorized_chunk_clause_def list_ex_map_filter grant_predicate_permits)

lemma authorized_chunk_clause_policy: "authorized_chunk_clause scope c = may_read scope c"
  by (simp add: authorized_chunk_clause_iff may_read_def authorize_iff_permits)

text \<open>The clause provides the interface of a policy, on its own code.\<close>

definition clause_allows :: "AuthorizationGrant list \<Rightarrow> DocumentChunk \<Rightarrow> bool" where
  "clause_allows gs c = list_ex (\<lambda>predicate. predicate c) (List.map_filter grant_predicate gs)"

interpretation retrieval_clause: grant_policy "\<lambda>g c. \<exists>p. grant_predicate g = Some p \<and> p c" clause_allows
  by unfold_locales (simp add: clause_allows_def list_ex_map_filter)

subsection \<open>Facts about the joined rows\<close>

lemma joined_iff:
  "r \<in> set (joined db) \<longleftrightarrow>
     jr_chunk r \<in> set (ds_chunks db) \<and>
     jr_document r \<in> set (ds_documents db) \<and> dc_id (jr_document r) = dk_document_id (jr_chunk r) \<and>
     jr_version r \<in> set (ds_versions db) \<and> dv_id (jr_version r) = dk_document_version_id (jr_chunk r) \<and>
     jr_tenant r \<in> set (ds_tenants db) \<and> tn_id (jr_tenant r) = dk_tenant_id (jr_chunk r) \<and>
     jr_company r \<in> set (ds_companies db) \<and> co_id (jr_company r) = dk_company_id (jr_chunk r) \<and>
     jr_department r \<in> set (ds_departments db) \<and> dp_id (jr_department r) = dk_department_id (jr_chunk r)"
proof (cases r)
  case r: (fields c d v t co p)
  show ?thesis unfolding r by (simp add: joined_def image_iff)
qed

lemma authorized_base_iff: "r \<in> set (authorized_base scope db) \<longleftrightarrow> r \<in> set (joined db) \<and> base_where scope r"
  by (auto simp: authorized_base_def)

lemma base_where_sound:
  "base_where scope r \<Longrightarrow> may_read scope (jr_chunk r) \<and> dk_active (jr_chunk r) \<and> dc_deleted_at (jr_document r) = None \<and>
     dc_current_version (jr_document r) = Some (dk_document_version_id (jr_chunk r))"
  by (auto simp: base_where_def Let_def lifecycle_clause_def authorized_chunk_clause_policy)

subsection \<open>Primary keys\<close>

definition keys_ok :: "docstore \<Rightarrow> bool" where
  "keys_ok db \<longleftrightarrow>
     distinct (map tn_id (ds_tenants db)) \<and> distinct (map co_id (ds_companies db)) \<and>
     distinct (map dp_id (ds_departments db)) \<and> distinct (map dc_id (ds_documents db)) \<and>
     distinct (map dv_id (ds_versions db)) \<and> distinct (map dk_id (ds_chunks db))"

lemma key_filter_le1: "distinct (map k xs) \<Longrightarrow> length (filter (\<lambda>x. k x = i) xs) \<le> 1"
  by (induction xs) (auto simp: filter_empty_conv image_iff)

lemma key_unique: "distinct (map k xs) \<Longrightarrow> x \<in> set xs \<Longrightarrow> y \<in> set xs \<Longrightarrow> k x = k y \<Longrightarrow> x = y"
  by (metis distinct_map inj_onD)

lemma key_filter_single: "distinct (map k xs) \<Longrightarrow> x \<in> set xs \<Longrightarrow> filter (\<lambda>y. k y = k x) xs = [x]"
  by (induction xs) (auto simp: filter_empty_conv image_iff)

lemma key_find: "distinct (map k xs) \<Longrightarrow> x \<in> set xs \<Longrightarrow> List.find (\<lambda>y. k y = k x) xs = Some x"
  by (induction xs) auto

text \<open>A join over primary keys has at most one row for each chunk.\<close>

lemma distinct_concat_keys:
  assumes "distinct (map k xs)" and "\<And>x r. x \<in> set xs \<Longrightarrow> r \<in> set (f x) \<Longrightarrow> g r = k x"
    and "\<And>x. x \<in> set xs \<Longrightarrow> length (f x) \<le> 1"
  shows "distinct (map g (concat (map f xs)))"
  using assms
proof (induction xs)
  case (Cons x xs)
  have "distinct (map g (f x))"
    using Cons.prems(3) [of x] by (cases "f x") (auto simp: le_Suc_eq)
  moreover have "g ` set (f x) \<inter> g ` (\<Union>y \<in> set xs. set (f y)) = {}"
    using Cons.prems(1,2) by fastforce
  ultimately show ?case using Cons by (simp add: image_UN)
qed simp

lemma key_filter_map_le1: "distinct (map k xs) \<Longrightarrow> length (map f (filter (\<lambda>x. k x = i) xs)) \<le> 1"
  using key_filter_le1 by simp

lemma concat_map_le1:
  "length xs \<le> 1 \<Longrightarrow> (\<And>x. length (f x) \<le> 1) \<Longrightarrow> length (concat (map f xs)) \<le> 1"
  by (cases xs) auto

lemma joined_distinct:
  assumes "keys_ok db" shows "distinct (map (\<lambda>r. dk_id (jr_chunk r)) (joined db))"
  unfolding joined_def
proof (rule distinct_concat_keys [where k = dk_id], goal_cases)
  case 1
  show ?case using assms by (simp add: keys_ok_def)
next
  case (2 x r)
  then show ?case by auto
next
  case (3 x)
  show ?case using assms unfolding keys_ok_def
    by (intro concat_map_le1 key_filter_le1 key_filter_map_le1) simp_all
qed

lemma authorized_base_distinct: "keys_ok db \<Longrightarrow> distinct (map (\<lambda>r. dk_id (jr_chunk r)) (authorized_base scope db))"
  using joined_distinct by (simp add: authorized_base_def distinct_map_filter)

end
