(* ===== verification/Retrieval.thy ===== *)
theory Retrieval
  imports Document_Store Grounding Gateway Python_Re
begin

text \<open>
  Authorized search: \<^verbatim>\<open>search_authorized_chunks\<close> and \<^verbatim>\<open>get_authorized_index_status\<close> of
  \<^verbatim>\<open>app/retrieval/repository.py\<close>, the service and the curated evaluation of \<^verbatim>\<open>app/retrieval\<close>, and the two
  document tools of \<^verbatim>\<open>app/mcp_gateway/adapters.py\<close>.  The ranking functions of PostgreSQL
  (\<^verbatim>\<open>ts_rank_cd\<close>, \<^verbatim>\<open>cosine_distance\<close>) and the embedding provider are arguments; scores are rationals.
\<close>

subsection \<open>The embedding provider\<close>

datatype EmbeddingErrorCode =
    INVALID_DIMENSIONS | PROVIDER_TRANSIENT | PROVIDER_REJECTED | PROVIDER_UNAVAILABLE | INVALID_PROVIDER_RESPONSE
  | MODEL_UNAVAILABLE | DIMENSION_MISMATCH | INVALID_VECTOR | PROVIDER_DISABLED | CHUNK_LIMIT_EXCEEDED
  | OPERATION_TIMEOUT | UNKNOWN_PROVIDER_ERROR

text \<open>What awaiting the provider may raise: its own error, a \<^verbatim>\<open>ValueError\<close>, a timeout, or any other exception.\<close>

datatype embedding_exn =
  EmbeddingProviderError EmbeddingErrorCode | EmbeddingValueError | EmbeddingTimeout | EmbeddingRaises

record EmbeddingModel =
  em_name :: string
  em_version :: string
  em_dimensions :: int

record 'v EmbeddingProvider =
  ep_model :: EmbeddingModel
  ep_ensure_ready :: "'v \<Rightarrow> (embedding_exn, unit) result \<times> 'v"
  ep_embed :: "string list \<Rightarrow> 'v \<Rightarrow> (embedding_exn, vector list) result \<times> 'v"

definition sum_squares :: "vector \<Rightarrow> rat" where
  "sum_squares v = sum_list (map (\<lambda>x. case x of Some a \<Rightarrow> a * a | None \<Rightarrow> 0) v)"

text \<open>\<^verbatim>\<open>not all(math.isfinite(...)) or math.sqrt(sum(...)) == 0\<close>.\<close>

definition vector_invalid :: "vector \<Rightarrow> bool" where
  "vector_invalid v = (None \<in> set v \<or> sum_squares v = 0)"

subsection \<open>Candidates and their order\<close>

record SearchCandidate =
  sk_chunk_id :: uuid
  sk_document_id :: uuid
  sk_document_version_id :: uuid
  sk_version_number :: int
  sk_excerpt :: string
  sk_keyword_score :: rat
  sk_vector_score :: rat
  sk_final_score :: rat
  sk_page_number :: "int option"
  sk_sheet_name :: "string option"
  sk_row_start :: "int option"
  sk_row_end :: "int option"
  sk_cell_start :: "string option"
  sk_cell_end :: "string option"
  sk_filename :: string
  sk_source_type :: string
  sk_document_type :: string
  sk_reporting_period :: "string option"
  sk_tenant_slug :: string
  sk_company_slug :: string
  sk_department :: string
  sk_visibility :: string
  sk_classification :: string

text \<open>The two functions of the database: the rank of a text for a query, and the distance of two
  embeddings.\<close>

record ranking =
  rk_ts_rank :: "string \<Rightarrow> string \<Rightarrow> rat"
  rk_distance :: "vector \<Rightarrow> vector \<Rightarrow> rat"

definition excerpt_of :: "string \<Rightarrow> string" where
  "excerpt_of content = take 500 content"

definition embedded_where :: "EmbeddingModel \<Rightarrow> joined_row \<Rightarrow> bool" where
  "embedded_where model r =
     (let c = jr_chunk r in
      dk_embedding_status c = ''READY'' \<and> dk_embedding c \<noteq> None \<and>
      dk_embedding_model_name c = Some (em_name model) \<and> dk_embedding_model_version c = Some (em_version model) \<and>
      dk_embedding_dimensions c = Some (em_dimensions model) \<and>
      dk_embedding_chunk_hash c = Some (dk_content_hash c))"

definition scored_candidate :: "ranking \<Rightarrow> string \<Rightarrow> vector \<Rightarrow> joined_row \<Rightarrow> SearchCandidate" where
  "scored_candidate rk query query_embedding r =
     (let c = jr_chunk r;
          keyword_raw = rk_ts_rank rk query (dk_content c);
          keyword_score = keyword_raw / (keyword_raw + 1);
          vector_score = max 0 (1 - rk_distance rk (case dk_embedding c of Some e \<Rightarrow> e | None \<Rightarrow> []) query_embedding) in
      \<lparr>sk_chunk_id = dk_id c, sk_document_id = dk_document_id c, sk_document_version_id = dk_document_version_id c,
       sk_version_number = dk_version_number c, sk_excerpt = excerpt_of (dk_content c),
       sk_keyword_score = keyword_score, sk_vector_score = vector_score,
       sk_final_score = keyword_score * (35 / 100) + vector_score * (65 / 100),
       sk_page_number = dk_page_number c, sk_sheet_name = dk_sheet_name c, sk_row_start = dk_row_start c,
       sk_row_end = dk_row_end c, sk_cell_start = dk_cell_start c, sk_cell_end = dk_cell_end c,
       sk_filename = dv_safe_filename (jr_version r), sk_source_type = dk_source_type c,
       sk_document_type = dc_document_type (jr_document r), sk_reporting_period = dc_reporting_period (jr_document r),
       sk_tenant_slug = tn_slug (jr_tenant r), sk_company_slug = co_slug (jr_company r),
       sk_department = dk_department c, sk_visibility = dk_visibility c, sk_classification = dk_classification c\<rparr>)"

text \<open>Both \<^verbatim>\<open>ORDER BY\<close> clauses end with the score, the keyword score and the identifier.\<close>

definition score_key :: "SearchCandidate \<Rightarrow> rat \<times> rat \<times> uuid" where
  "score_key s = (- sk_final_score s, - sk_keyword_score s, sk_chunk_id s)"

text \<open>\<^verbatim>\<open>row_number() OVER (PARTITION BY document_id ORDER BY ...)\<close>: the identifiers are a primary key,
  so no two rows of a partition are peers.\<close>

definition document_rank :: "SearchCandidate list \<Rightarrow> SearchCandidate \<Rightarrow> nat" where
  "document_rank all s =
     Suc (length (filter (\<lambda>t. sk_document_id t = sk_document_id s \<and> score_key t < score_key s) all))"

definition ranked_candidates :: "nat \<Rightarrow> SearchCandidate list \<Rightarrow> SearchCandidate list" where
  "ranked_candidates top_k scored =
     take top_k (sort_key (\<lambda>s. (document_rank scored s, score_key s))
       (filter (\<lambda>s. document_rank scored s \<le> 2) scored))"

text \<open>\<open>None\<close> is the \<^verbatim>\<open>ValueError\<close> for an embedding that does not fit the index.\<close>

definition search_authorized_chunks ::
  "ranking \<Rightarrow> docstore \<Rightarrow> AuthorizationScope \<Rightarrow> string \<Rightarrow> vector \<Rightarrow> EmbeddingModel \<Rightarrow> nat \<Rightarrow> SearchCandidate list option" where
  "search_authorized_chunks rk db scope query query_embedding model top_k =
     (if em_dimensions model \<noteq> 768 \<or> int (length query_embedding) \<noteq> em_dimensions model \<or> vector_invalid query_embedding
      then None
      else Some (ranked_candidates top_k
        (map (scored_candidate rk query query_embedding) (filter (embedded_where model) (authorized_base scope db)))))"

record AuthorizedIndexStatus =
  ix_active_chunk_count :: nat
  ix_indexed_document_count :: nat
  ix_embedded_chunk_count :: nat
  ix_pending_chunk_count :: nat
  ix_failed_chunk_count :: nat

definition get_authorized_index_status :: "docstore \<Rightarrow> AuthorizationScope \<Rightarrow> AuthorizedIndexStatus" where
  "get_authorized_index_status db scope =
     (let base = map jr_chunk (authorized_base scope db);
          with_status = (\<lambda>s. length (filter (\<lambda>c. dk_embedding_status c = s) base)) in
      \<lparr>ix_active_chunk_count = length base, ix_indexed_document_count = length (remdups (map dk_document_id base)),
       ix_embedded_chunk_count = with_status ''READY'', ix_pending_chunk_count = with_status ''PENDING'',
       ix_failed_chunk_count = with_status ''FAILED''\<rparr>)"

subsection \<open>The curated evaluation\<close>

record CuratedCase =
  cu_query :: string
  cu_document_title :: string
  cu_excerpt_phrase :: string

definition CURATED_CASES :: "CuratedCase list" where
  "CURATED_CASES =
     [\<lparr>cu_query = ''drivers of margin compression'', cu_document_title = ''Orion_FY2025_Board_Pack.pdf'',
       cu_excerpt_phrase = ''Drivers of Margin Compression''\<rparr>,
      \<lparr>cu_query = ''ebitda margin'', cu_document_title = ''Orion_FY2024_FY2025_Financials.xlsx'',
       cu_excerpt_phrase = ''EBITDA Margin''\<rparr>,
      \<lparr>cu_query = ''investment agreement'', cu_document_title = ''Orion_Series_C_Investment_Agreement.pdf'',
       cu_excerpt_phrase = ''Investment Agreement''\<rparr>]"

record EvaluationResult =
  ev_dataset_name :: string
  ev_curated_query_count :: nat
  ev_recall_at_5 :: rat
  ev_expected_top_5_hits :: nat
  ev_authorization_leak_count :: nat

definition candidate_permitted :: "AuthorizationScope \<Rightarrow> SearchCandidate \<Rightarrow> bool" where
  "candidate_permitted scope item =
     list_ex (\<lambda>g. QUERY_DOCUMENTS \<in> set (capabilities g) \<and> workspace_slug g = sk_tenant_slug item \<and>
       sk_company_slug item \<in> set (company_slugs g) \<and> sk_department item \<in> dept_key ` set (departments g)) (grants scope)"

definition evaluate_curated_query :: "string \<Rightarrow> SearchCandidate list \<Rightarrow> AuthorizationScope \<Rightarrow> EvaluationResult option" where
  "evaluate_curated_query query candidates scope =
     (case List.find (\<lambda>item. cu_query item = normalize_ws (casefold query)) CURATED_CASES of
        None \<Rightarrow> None
      | Some cs \<Rightarrow>
          let top_five = take 5 candidates;
              hit = list_ex (\<lambda>item. sk_filename item = cu_document_title cs \<and>
                contains (cu_excerpt_phrase cs) (sk_excerpt item)) top_five in
          Some \<lparr>ev_dataset_name = ''step5-synthetic-ground-truth-v1'', ev_curated_query_count = 1,
                ev_recall_at_5 = (if hit then 1 else 0), ev_expected_top_5_hits = 1,
                ev_authorization_leak_count = length (filter (\<lambda>item. \<not> candidate_permitted scope item) top_five)\<rparr>)"

subsection \<open>The search service\<close>

record SearchScopeGrantData =
  sg_workspace_id :: uuid
  sg_workspace_slug :: string
  sg_workspace_name :: string
  sg_company_ids :: "uuid list"
  sg_company_slugs :: "string list"
  sg_query_departments :: "string list"

definition scope_grant_data :: "AuthorizationScope \<Rightarrow> SearchScopeGrantData list" where
  "scope_grant_data scope =
     map (\<lambda>g. \<lparr>sg_workspace_id = workspace_id g, sg_workspace_slug = workspace_slug g,
               sg_workspace_name = workspace_name g, sg_company_ids = company_ids g,
               sg_company_slugs = company_slugs g, sg_query_departments = map dept_key (departments g)\<rparr>)
       (filter (\<lambda>g. QUERY_DOCUMENTS \<in> set (capabilities g)) (grants scope))"

definition source_type :: "string \<Rightarrow> string" where
  "source_type value = (case map_of [(''pdf'', ''PDF''), (''xlsx'', ''XLSX''), (''csv'', ''CSV'')] value of
     Some t \<Rightarrow> t | None \<Rightarrow> ''UNKNOWN'')"

record SearchDocumentData =
  sd_filename :: string
  sd_source_type :: string
  sd_document_type :: string
  sd_reporting_period :: "string option"
  sd_tenant_slug :: string
  sd_company_slug :: string
  sd_department :: string
  sd_visibility :: string
  sd_classification :: string

record SearchResultData = AuthorizedSearchResultData +
  sr_document :: SearchDocumentData

definition search_result :: "SearchCandidate \<Rightarrow> SearchResultData" where
  "search_result item =
     \<lparr>sr_chunk_id = sk_chunk_id item, sr_document_id = sk_document_id item,
      sr_document_version_id = sk_document_version_id item, sr_version_number = sk_version_number item,
      sr_excerpt = sk_excerpt item,
      sr_scores = \<lparr>sc_keyword = sk_keyword_score item, sc_vector = sk_vector_score item, sc_final = sk_final_score item\<rparr>,
      sr_citation = \<lparr>sci_document_id = sk_document_id item, sci_document_version_id = sk_document_version_id item,
        sci_chunk_id = sk_chunk_id item, sci_document_title = sk_filename item,
        sci_version_number = sk_version_number item, sci_excerpt = sk_excerpt item,
        sci_page_number = sk_page_number item, sci_sheet_name = sk_sheet_name item, sci_row_start = sk_row_start item,
        sci_row_end = sk_row_end item, sci_cell_start = sk_cell_start item, sci_cell_end = sk_cell_end item\<rparr>,
      sr_source = \<lparr>src_page_number = sk_page_number item, src_sheet_name = sk_sheet_name item,
        src_row_start = sk_row_start item, src_row_end = sk_row_end item, src_cell_start = sk_cell_start item,
        src_cell_end = sk_cell_end item\<rparr>,
      sr_document = \<lparr>sd_filename = sk_filename item, sd_source_type = source_type (sk_source_type item),
        sd_document_type = sk_document_type item, sd_reporting_period = sk_reporting_period item,
        sd_tenant_slug = sk_tenant_slug item, sd_company_slug = sk_company_slug item,
        sd_department = sk_department item, sd_visibility = sk_visibility item,
        sd_classification = sk_classification item\<rparr>\<rparr>"

text \<open>The field constraints of a result: a violation raises \<^verbatim>\<open>ValidationError\<close>.\<close>

definition search_result_ok :: "SearchCandidate \<Rightarrow> bool" where
  "search_result_ok item =
     (1 \<le> sk_version_number item \<and> list_all (\<lambda>x. 0 \<le> x \<and> x \<le> 1)
        [sk_keyword_score item, sk_vector_score item, sk_final_score item])"

record AuthorizedSearchData =
  as_status :: string
  as_query :: string
  as_top_k :: nat
  as_result_count :: nat
  as_authorized_scope :: "SearchScopeGrantData list"
  as_index_status :: AuthorizedIndexStatus
  as_embedding_model :: string
  as_embedding_dimensions :: int
  as_evaluation :: "EvaluationResult option"
  as_results :: "SearchResultData list"

datatype search_exn = SearchAPIError nat string | SearchTimeout | SearchRaises

type_synonym 'v search_world = "docstore \<times> 'v"

text \<open>The awaited part of the \<^verbatim>\<open>try\<close> block: \<open>Inl None\<close> is the error that becomes the 503 response.\<close>

definition provider_failure :: "embedding_exn \<Rightarrow> search_exn option" where
  "provider_failure e = (case e of EmbeddingProviderError _ \<Rightarrow> None | EmbeddingValueError \<Rightarrow> None
     | EmbeddingTimeout \<Rightarrow> Some SearchTimeout
     | EmbeddingRaises \<Rightarrow> Some SearchRaises)"

definition find_candidates ::
  "ranking \<Rightarrow> 'v EmbeddingProvider \<Rightarrow> AuthorizationScope \<Rightarrow> string \<Rightarrow> nat \<Rightarrow> docstore \<Rightarrow> 'v \<Rightarrow>
   (search_exn option, SearchCandidate list) result \<times> 'v" where
  "find_candidates rk ep scope query top_k db v =
     (case ep_ensure_ready ep v of
        (Inl e, v) \<Rightarrow> (Inl (provider_failure e), v)
      | (Inr _, v) \<Rightarrow>
          (case ep_embed ep [query] v of
             (Inl e, v) \<Rightarrow> (Inl (provider_failure e), v)
           | (Inr vectors, v) \<Rightarrow>
               if length vectors \<noteq> 1 then (Inl None, v)
               else case search_authorized_chunks rk db scope query (hd vectors) (ep_model ep) top_k of
                      None \<Rightarrow> (Inl None, v)
                    | Some candidates \<Rightarrow> (Inr candidates, v)))"

definition can_query :: "AuthorizationScope \<Rightarrow> bool" where
  "can_query scope = list_ex (\<lambda>g. QUERY_DOCUMENTS \<in> set (capabilities g)) (grants scope)"

definition search_metadata :: "(uuid \<Rightarrow> string) \<Rightarrow> SearchCandidate list \<Rightarrow> nat \<Rightarrow> AuthorizedIndexStatus \<Rightarrow> (string \<times> meta_value) list" where
  "search_metadata uuid_text candidates top_k status =
     [(''result_count'', MInt (int (length candidates))), (''top_k'', MInt (int top_k)),
      (''active_chunk_count'', MInt (int (ix_active_chunk_count status))),
      (''indexed_document_count'', MInt (int (ix_indexed_document_count status))),
      (''chunk_ids'', MText (join '','' (map (\<lambda>i. uuid_text (sk_chunk_id i)) candidates))),
      (''document_ids'', MText (join '','' (sort (remdups (map (\<lambda>i. uuid_text (sk_document_id i)) candidates)))))]"

definition search_reply ::
  "'v EmbeddingProvider \<Rightarrow> AuthorizationScope \<Rightarrow> string \<Rightarrow> nat \<Rightarrow> AuthorizedIndexStatus \<Rightarrow> SearchCandidate list \<Rightarrow> AuthorizedSearchData" where
  "search_reply ep scope query top_k status candidates =
     (let model = ep_model ep in
      \<lparr>as_status = (if ix_pending_chunk_count status \<noteq> 0 then ''indexing''
                   else if ix_failed_chunk_count status \<noteq> 0 then ''degraded'' else ''ready''),
       as_query = query, as_top_k = top_k, as_result_count = length candidates,
       as_authorized_scope = scope_grant_data scope, as_index_status = status,
       as_embedding_model = em_name model @ '':'' @ em_version model, as_embedding_dimensions = em_dimensions model,
       as_evaluation = evaluate_curated_query query candidates scope,
       as_results = map search_result candidates\<rparr>)"

definition search ::
  "ranking \<Rightarrow> (uuid \<Rightarrow> string) \<Rightarrow> 'v EmbeddingProvider \<Rightarrow> AuthorizationContext \<Rightarrow> string \<Rightarrow> nat \<Rightarrow> string \<Rightarrow>
   'v search_world \<Rightarrow> (search_exn, AuthorizedSearchData) result \<times> 'v search_world" where
  "search rk uuid_text ep context query top_k request_id w =
     (case w of (db, v) \<Rightarrow>
      let scope = ctx_scope context; actor = identity_user_id (ctx_identity context);
          event = (\<lambda>outcome reason. document_event ''authorized_document_search'' outcome reason request_id actor) in
      if \<not> can_query scope
      then (Inl (SearchAPIError 403 ''forbidden''), record_document_event (event ''deny'' ''DENY_CAPABILITY'') db, v)
      else case find_candidates rk ep scope query top_k db v of
             (Inl None, v) \<Rightarrow> (Inl (SearchAPIError 503 ''embedding_unavailable''), db, v)
           | (Inl (Some e), v) \<Rightarrow> (Inl e, db, v)
           | (Inr candidates, v) \<Rightarrow>
               let status = get_authorized_index_status db scope;
                   db = record_document_event ((event ''allow'' ''AUTHORIZED_SEARCH_COMPLETED'')
                     \<lparr>ae_metadata := search_metadata uuid_text candidates top_k status\<rparr>) db in
               if \<not> list_all search_result_ok candidates then (Inl SearchRaises, db, v)
               else (Inr (search_reply ep scope query top_k status candidates), db, v))"

subsection \<open>The document tools\<close>

definition location_of :: "DocumentChunk \<Rightarrow> EvidenceLocation" where
  "location_of c =
     \<lparr>el_page_number = dk_page_number c, el_sheet_name = dk_sheet_name c, el_row_start = dk_row_start c,
      el_row_end = dk_row_end c, el_cell_start = dk_cell_start c, el_cell_end = dk_cell_end c\<rparr>"

definition citation_evidence :: "SearchCitationData \<Rightarrow> ToolEvidence" where
  "citation_evidence c =
     \<lparr>te_document_id = sci_document_id c, te_document_version_id = sci_document_version_id c,
      te_chunk_id = sci_chunk_id c, te_document_title = sci_document_title c,
      te_version_number = sci_version_number c, te_excerpt = sci_excerpt c,
      te_location = \<lparr>el_page_number = sci_page_number c, el_sheet_name = sci_sheet_name c,
        el_row_start = sci_row_start c, el_row_end = sci_row_end c, el_cell_start = sci_cell_start c,
        el_cell_end = sci_cell_end c\<rparr>\<rparr>"

text \<open>Building a payload checks it; a \<^verbatim>\<open>ValidationError\<close> escapes from the adapter.\<close>

definition tool_payload :: "(string \<Rightarrow> (int \<times> int) option) \<Rightarrow> ToolEvidence list \<Rightarrow> InvokeOutcome" where
  "tool_payload coord es =
     (if payload_ok coord (ToolPayload es) then Returned (RawData (ToolPayload es)) else RaisedOther)"

definition search_adapter_invoke ::
  "(string \<Rightarrow> (int \<times> int) option) \<Rightarrow> ranking \<Rightarrow> (uuid \<Rightarrow> string) \<Rightarrow> 'v EmbeddingProvider \<Rightarrow>
   ActionArguments \<Rightarrow> AuthorizationScope \<Rightarrow> string \<Rightarrow> 'v search_world \<Rightarrow> InvokeOutcome \<times> 'v search_world" where
  "search_adapter_invoke coord rk uuid_text ep args scope request_id w =
     (case args of
        SearchAuthorizedDocumentsInput query top_k \<Rightarrow>
          if \<not> can_query scope then (RaisedAuthorization, w)
          else (case search rk uuid_text ep \<lparr>ctx_identity = scope_identity scope, ctx_scope = scope\<rparr> query (nat top_k)
                       request_id w of
                  (Inl (SearchAPIError code _), w) \<Rightarrow>
                    (if code \<in> {401, 403, 404} then RaisedAuthorization
                     else RaisedAdapterError TOOL_TRANSIENT_FAILURE True, w)
                | (Inl SearchTimeout, w) \<Rightarrow> (TimedOut, w)
                | (Inl SearchRaises, w) \<Rightarrow> (RaisedOther, w)
                | (Inr reply, w) \<Rightarrow>
                    (tool_payload coord (map (\<lambda>item. citation_evidence (sr_citation item)) (as_results reply)), w))
      | _ \<Rightarrow> (RaisedOther, w))"

definition excerpt_evidence :: "joined_row \<Rightarrow> ToolEvidence" where
  "excerpt_evidence r =
     (let c = jr_chunk r in
      \<lparr>te_document_id = dk_document_id c, te_document_version_id = dk_document_version_id c, te_chunk_id = dk_id c,
       te_document_title = dv_safe_filename (jr_version r), te_version_number = dk_version_number c,
       te_excerpt = excerpt_of (dk_content c), te_location = location_of c\<rparr>)"

definition excerpt_adapter_invoke ::
  "(string \<Rightarrow> (int \<times> int) option) \<Rightarrow> ActionArguments \<Rightarrow> AuthorizationScope \<Rightarrow> string \<Rightarrow> 'v search_world \<Rightarrow>
   InvokeOutcome \<times> 'v search_world" where
  "excerpt_adapter_invoke coord args scope request_id w =
     (case args of
        GetDocumentExcerptInput document_id chunk_id \<Rightarrow>
          if \<not> can_query scope then (RaisedAuthorization, w)
          else (case filter (\<lambda>r. dk_document_id (jr_chunk r) = document_id \<and> dk_id (jr_chunk r) = chunk_id)
                       (authorized_base scope (fst w)) of
                  [] \<Rightarrow> (RaisedAuthorization, w)
                | r # _ \<Rightarrow> (tool_payload coord [excerpt_evidence r], w))
      | _ \<Rightarrow> (RaisedOther, w))"

definition SearchAuthorizedDocumentsAdapter ::
  "(string \<Rightarrow> (int \<times> int) option) \<Rightarrow> ranking \<Rightarrow> (uuid \<Rightarrow> string) \<Rightarrow> 'v EmbeddingProvider \<Rightarrow> 'v search_world ApprovedToolAdapter" where
  "SearchAuthorizedDocumentsAdapter coord rk uuid_text ep =
     \<lparr>ad_name = Some SEARCH_AUTHORIZED_DOCUMENTS, ad_input_model = SearchAuthorizedDocuments_model,
      ad_output_model = Gateway_output Tool_payload, ad_required_capability = QUERY_DOCUMENTS,
      ad_invoke = search_adapter_invoke coord rk uuid_text ep\<rparr>"

definition GetDocumentExcerptAdapter ::
  "(string \<Rightarrow> (int \<times> int) option) \<Rightarrow> 'v search_world ApprovedToolAdapter" where
  "GetDocumentExcerptAdapter coord =
     \<lparr>ad_name = Some GET_DOCUMENT_EXCERPT, ad_input_model = GetDocumentExcerpt_model,
      ad_output_model = Gateway_output Tool_payload, ad_required_capability = QUERY_DOCUMENTS,
      ad_invoke = excerpt_adapter_invoke coord\<rparr>"

subsection \<open>The ranking\<close>

lemma length_filter_less:
  assumes "\<And>x. x \<in> set xs \<Longrightarrow> P x \<Longrightarrow> Q x" and "y \<in> set xs" and "Q y" and "\<not> P y"
  shows "length (filter P xs) < length (filter Q xs)"
proof -
  have "filter P xs = filter P (filter Q xs)" using assms(1) by (induction xs) auto
  moreover have "length (filter P (filter Q xs)) < length (filter Q xs)"
    using assms by (intro length_filter_less) auto
  ultimately show ?thesis by simp
qed

lemma document_rank_mono:
  assumes "s \<in> set all" and "sk_document_id s = sk_document_id t" and "score_key s < score_key t"
  shows "document_rank all s < document_rank all t"
  unfolding document_rank_def using assms
  by (auto intro!: length_filter_less [where y = s])

lemma document_rank_inj:
  assumes "s \<in> set all" and "t \<in> set all" and "sk_document_id s = sk_document_id t"
    and "document_rank all s = document_rank all t"
  shows "score_key s = score_key t"
  using document_rank_mono [of s all t] document_rank_mono [of t all s] assms
  by (cases "score_key s < score_key t"; cases "score_key t < score_key s") auto

lemma document_rank_pos: "1 \<le> document_rank all s"
  by (simp add: document_rank_def)

lemma score_key_id: "score_key s = score_key t \<Longrightarrow> sk_chunk_id s = sk_chunk_id t"
  by (simp add: score_key_def)

lemma set_ranked_candidates: "set (ranked_candidates k all) \<subseteq> {s \<in> set all. document_rank all s \<le> 2}"
  unfolding ranked_candidates_def using set_take_subset by fastforce

lemma ranked_candidates_length: "length (ranked_candidates k all) \<le> k"
  by (simp add: ranked_candidates_def)

lemma ranked_candidates_distinct:
  assumes "distinct (map sk_chunk_id all)" shows "distinct (map sk_chunk_id (ranked_candidates k all))"
proof -
  let ?xs = "sort_key (\<lambda>s. (document_rank all s, score_key s)) (filter (\<lambda>s. document_rank all s \<le> 2) all)"
  have "distinct (map sk_chunk_id (filter (\<lambda>s. document_rank all s \<le> 2) all))"
    using assms by (rule distinct_map_filter)
  then have "distinct (map sk_chunk_id ?xs)" by (simp add: distinct_map)
  then have "distinct (take k (map sk_chunk_id ?xs))" by (rule distinct_take)
  then show ?thesis by (simp add: ranked_candidates_def take_map)
qed

lemma ranked_candidates_per_document:
  assumes "distinct (map sk_chunk_id all)"
  shows "length (filter (\<lambda>s. sk_document_id s = d) (ranked_candidates k all)) \<le> 2"
proof -
  define xs where "xs = filter (\<lambda>s. sk_document_id s = d) (ranked_candidates k all)"
  have memb: "s \<in> set all \<and> document_rank all s \<le> 2 \<and> sk_document_id s = d" if "s \<in> set xs" for s
    using that set_ranked_candidates [of k all] by (auto simp: xs_def)
  have "inj_on (document_rank all) (set xs)"
  proof (rule inj_onI)
    fix s t assume st: "s \<in> set xs" "t \<in> set xs" "document_rank all s = document_rank all t"
    then have "sk_chunk_id s = sk_chunk_id t" using memb document_rank_inj score_key_id by metis
    then show "s = t" using assms memb st(1,2) key_unique by metis
  qed
  moreover have "document_rank all ` set xs \<subseteq> {1, 2}"
  proof
    fix n assume "n \<in> document_rank all ` set xs"
    then obtain s where "s \<in> set xs" "n = document_rank all s" by auto
    with memb [of s] document_rank_pos [of all s] show "n \<in> {1, 2}" by auto
  qed
  ultimately have "card (set xs) \<le> card {1, 2 :: nat}" by (rule card_inj_on_le) simp
  moreover have "distinct xs"
    using ranked_candidates_distinct [OF assms] by (auto simp: xs_def distinct_map)
  ultimately show ?thesis by (simp add: xs_def [symmetric] distinct_card)
qed

lemma ranked_candidates_sorted:
  "sorted (map (\<lambda>s. (document_rank all s, score_key s)) (ranked_candidates k all))"
  by (simp add: ranked_candidates_def sorted_wrt_take take_map [symmetric])

lemma best_candidate_rank: "\<forall>t \<in> set all. score_key s \<le> score_key t \<Longrightarrow> document_rank all s = 1"
  by (auto simp: document_rank_def filter_empty_conv not_less)

text \<open>The first result is the best of all.\<close>

lemma ranked_candidates_best:
  assumes "all \<noteq> []" and "0 < k"
  shows "\<exists>x xs. ranked_candidates k all = x # xs \<and> (\<forall>t \<in> set all. score_key x \<le> score_key t)"
proof -
  define key where "key = (\<lambda>s. (document_rank all s, score_key s))"
  define xs where "xs = sort_key key (filter (\<lambda>s. document_rank all s \<le> 2) all)"
  from assms(1) have "Min (score_key ` set all) \<in> score_key ` set all" by (intro Min_in) auto
  then obtain m where m: "m \<in> set all" "score_key m = Min (score_key ` set all)" by auto
  then have least: "\<forall>t \<in> set all. score_key m \<le> score_key t" by simp
  then have "document_rank all m = 1" by (rule best_candidate_rank)
  then have "m \<in> set xs" and km: "key m = (1, score_key m)" using m(1) by (simp_all add: xs_def key_def)
  then obtain x ys where xs: "xs = x # ys" by (cases xs) auto
  have "sorted (map key xs)" by (simp add: xs_def)
  with xs \<open>m \<in> set xs\<close> have "key x \<le> (1, score_key m)" unfolding km [symmetric] by auto
  then have "score_key x \<le> score_key m"
    using document_rank_pos [of all x] by (auto simp: key_def)
  with least have "\<forall>t \<in> set all. score_key x \<le> score_key t" by fastforce
  moreover have "ranked_candidates k all = x # take (k - 1) ys"
    using xs assms(2) by (cases k) (simp_all add: ranked_candidates_def xs_def [symmetric, unfolded key_def])
  ultimately show ?thesis by blast
qed

subsection \<open>What a search returns\<close>

definition same_tables :: "docstore \<Rightarrow> docstore \<Rightarrow> bool" where
  "same_tables db db' = (db\<lparr>ds_audit := []\<rparr> = db'\<lparr>ds_audit := []\<rparr>)"

lemma same_tables_refl [simp]: "same_tables db db"
  by (simp add: same_tables_def)

lemma same_tables_trans: "same_tables a b \<Longrightarrow> same_tables b c \<Longrightarrow> same_tables a c"
  by (simp add: same_tables_def)

lemma same_tables_event [simp]: "same_tables db (record_document_event e db)"
  by (simp add: same_tables_def record_document_event_def)

lemma joined_audit: "joined (db\<lparr>ds_audit := a\<rparr>) = joined db"
  by (simp add: joined_def)

lemma same_tables_base: "same_tables db db' \<Longrightarrow> authorized_base scope db' = authorized_base scope db"
  unfolding same_tables_def authorized_base_def by (metis joined_audit)

lemma scored_candidate_simps [simp]:
  "sk_chunk_id (scored_candidate rk q e r) = dk_id (jr_chunk r)"
  "sk_document_id (scored_candidate rk q e r) = dk_document_id (jr_chunk r)"
  "sk_excerpt (scored_candidate rk q e r) = excerpt_of (dk_content (jr_chunk r))"
  by (simp_all add: scored_candidate_def Let_def)

lemma scored_distinct:
  assumes "keys_ok db"
  shows "distinct (map sk_chunk_id (map (scored_candidate rk q e) (filter (embedded_where m) (authorized_base scope db))))"
  using distinct_map_filter [OF authorized_base_distinct [OF assms]] by (simp add: comp_def)

lemma search_candidates:
  assumes "search_authorized_chunks rk db scope query qe model k = Some cs" and "c \<in> set cs"
  shows "\<exists>r \<in> set (authorized_base scope db). embedded_where model r \<and> c = scored_candidate rk query qe r"
proof -
  have "set cs \<subseteq> scored_candidate rk query qe ` set (filter (embedded_where model) (authorized_base scope db))"
    using assms(1) set_ranked_candidates unfolding search_authorized_chunks_def
    by (fastforce split: if_splits)
  with assms(2) show ?thesis by auto
qed

definition evidence_readable :: "AuthorizationScope \<Rightarrow> docstore \<Rightarrow> ToolEvidence \<Rightarrow> bool" where
  "evidence_readable scope db e \<longleftrightarrow> (\<exists>r \<in> set (authorized_base scope db). e = excerpt_evidence r)"

lemma evidence_readable_same: "same_tables db db' \<Longrightarrow> evidence_readable scope db' e = evidence_readable scope db e"
  by (simp add: evidence_readable_def same_tables_base)

lemma citation_evidence_scored:
  "citation_evidence (sr_citation (search_result (scored_candidate rk q e r))) = excerpt_evidence r"
  by (simp add: citation_evidence_def search_result_def scored_candidate_def excerpt_evidence_def location_of_def Let_def)

lemma find_candidates_Inr:
  assumes "find_candidates rk ep scope query k db v = (Inr cs, v')"
  shows "\<exists>qe. search_authorized_chunks rk db scope query qe (ep_model ep) k = Some cs"
  using assms by (auto simp: find_candidates_def split: prod.splits sum.splits option.splits if_splits)

lemma search_tables:
  assumes "search rk ut ep cx query k rid w = (out, w')" shows "same_tables (fst w) (fst w')"
  using assms by (auto simp: search_def Let_def split: prod.splits sum.splits option.splits if_splits)

lemma search_Inr:
  assumes "search rk ut ep cx query k rid w = (Inr reply, w')"
  shows "\<exists>qe cs. search_authorized_chunks rk (fst w) (ctx_scope cx) query qe (ep_model ep) k = Some cs \<and>
    as_results reply = map search_result cs \<and> can_query (ctx_scope cx)"
proof -
  obtain db v where w: "w = (db, v)" by (cases w)
  obtain r v' where f: "find_candidates rk ep (ctx_scope cx) query k db v = (r, v')"
    by (cases "find_candidates rk ep (ctx_scope cx) query k db v")
  with assms w obtain cs where "r = Inr cs" "as_results reply = map search_result cs" "can_query (ctx_scope cx)"
    by (auto simp: search_def search_reply_def Let_def split: sum.splits option.splits if_splits)
  with find_candidates_Inr f w show ?thesis by fastforce
qed

subsection \<open>The interface of a document tool\<close>

text \<open>What the tool gateway's caller relies on: the evidence an adapter returns is readable for the scope it was
  given, in the tables as they are, and a call leaves the tables alone.\<close>

locale document_tool =
  fixes adapter :: "'v search_world ApprovedToolAdapter"
  assumes reads: "ad_invoke adapter args scope rid w = (Returned (RawData (ToolPayload es)), w') \<Longrightarrow> e \<in> set es \<Longrightarrow>
      evidence_readable scope (fst w) e"
    and keeps: "ad_invoke adapter args scope rid w = (out, w') \<Longrightarrow> same_tables (fst w) (fst w')"

text \<open>The clock and the identifiers of the host do not touch the tables.\<close>

definition host_keeps :: "'v search_world host \<Rightarrow> bool" where
  "host_keeps h \<longleftrightarrow> (\<forall>w. same_tables (fst w) (fst (snd (perf_counter h w))) \<and> same_tables (fst w) (fst (snd (uuid4 h w))))"

lemma observation_evidence:
  assumes "observation h t0 nm st rs rc p w = (Observed ob, w')"
  shows "so_evidence ob = (case p of Some (ToolPayload es) \<Rightarrow> es | _ \<Rightarrow> [])"
  using assms by (auto simp: observation_def Let_def split: prod.splits if_splits)

lemma validate_output_raw: "validate_output coord om raw = Some p \<Longrightarrow> raw = RawData p"
  by (auto simp: validate_output_def split: OutputModel.splits RawOutput.splits if_splits)

context document_tool
begin

lemma attempt_evidence:
  assumes "attempt_once coord h adapter t0 nm args scope rid rc w = (Finished (Observed ob), w')" and "e \<in> set (so_evidence ob)"
  shows "evidence_readable scope (fst w) e"
proof -
  obtain out w1 where i: "ad_invoke adapter args scope rid w = (out, w1)" by (cases "ad_invoke adapter args scope rid w")
  from assms(1) i obtain raw es where "out = Returned raw" "validate_output coord (ad_output_model adapter) raw = Some (ToolPayload es)"
    "e \<in> set es"
    using assms(2) by (auto simp: attempt_once_def Let_def dest!: observation_evidence
        split: InvokeOutcome.splits option.splits prod.splits Payload.splits)
  with validate_output_raw i reads show ?thesis by blast
qed

lemma attempt_keeps:
  assumes "attempt_once coord h adapter t0 nm args scope rid rc w = (Failed r tr, w')"
  shows "same_tables (fst w) (fst w')"
  using assms by (auto simp: attempt_once_def Let_def dest: keeps split: InvokeOutcome.splits option.splits prod.splits)

lemma loop_evidence:
  assumes "invoke_loop coord h adapter mr t0 nm args scope rid rc w = (Observed ob, w')" and "e \<in> set (so_evidence ob)"
  shows "evidence_readable scope (fst w) e"
  using assms
proof (induction "nat (mr - rc)" arbitrary: rc w rule: less_induct)
  case less
  show ?case
  proof (cases rule: attempt_cases [where coord = coord and h = h and a = adapter and ?t0.0 = t0 and name = nm
        and args = args and scope = scope and rid = rid and rc = rc and w = w and mr = mr])
    case (finished r w1)
    with less.prems attempt_evidence show ?thesis by (simp add: invoke_loop_finished)
  next
    case (retry reason w1)
    with less.prems have "evidence_readable scope (fst w1) e"
      by (intro less.hyps [of "rc + 1" w1]) (simp_all add: invoke_loop_retry)
    with attempt_keeps [OF retry(1)] show ?thesis by (simp add: evidence_readable_same)
  next
    case (give_up reason tr w1)
    with less.prems show ?thesis by (auto simp: invoke_loop_give_up dest: observation_evidence)
  qed
qed

end

lemma tool_payload_Returned: "tool_payload coord es = Returned (RawData p) \<Longrightarrow> p = ToolPayload es"
  by (simp add: tool_payload_def split: if_splits)

lemma search_adapter_returned:
  assumes "search_adapter_invoke coord rk ut ep args scope rid w = (Returned (RawData (ToolPayload es)), w')"
    and "e \<in> set es"
  shows "evidence_readable scope (fst w) e"
proof -
  let ?ctx = "\<lparr>ctx_identity = scope_identity scope, ctx_scope = scope\<rparr>"
  from assms(1) obtain query k reply where s: "search rk ut ep ?ctx query k rid w = (Inr reply, w')"
    and es: "tool_payload coord (map (\<lambda>item. citation_evidence (sr_citation item)) (as_results reply)) =
      Returned (RawData (ToolPayload es))"
    by (auto simp: search_adapter_invoke_def split: ActionArguments.splits prod.splits sum.splits search_exn.splits if_splits)
  from search_Inr [OF s] obtain qe cs where cs: "search_authorized_chunks rk (fst w) scope query qe (ep_model ep) k = Some cs"
    "as_results reply = map search_result cs" by auto
  with tool_payload_Returned [OF es] assms(2) obtain c where "c \<in> set cs" "e = citation_evidence (sr_citation (search_result c))"
    by auto
  moreover from search_candidates [OF cs(1) calculation(1)] obtain r where
    "r \<in> set (authorized_base scope (fst w))" "c = scored_candidate rk query qe r" by blast
  ultimately show ?thesis by (auto simp: evidence_readable_def citation_evidence_scored)
qed

interpretation search_tool: document_tool "SearchAuthorizedDocumentsAdapter coord rk ut ep"
proof unfold_locales
  fix args scope rid and w w' :: "'a search_world" and es e out
  show "ad_invoke (SearchAuthorizedDocumentsAdapter coord rk ut ep) args scope rid w =
      (Returned (RawData (ToolPayload es)), w') \<Longrightarrow> e \<in> set es \<Longrightarrow> evidence_readable scope (fst w) e"
    by (simp add: SearchAuthorizedDocumentsAdapter_def search_adapter_returned)
  show "ad_invoke (SearchAuthorizedDocumentsAdapter coord rk ut ep) args scope rid w = (out, w') \<Longrightarrow>
      same_tables (fst w) (fst w')"
    by (auto simp: SearchAuthorizedDocumentsAdapter_def search_adapter_invoke_def dest!: search_tables
        split: ActionArguments.splits prod.splits sum.splits search_exn.splits if_splits)
qed

interpretation excerpt_tool: document_tool "GetDocumentExcerptAdapter coord"
proof unfold_locales
  fix args scope rid and w w' :: "'a search_world" and es e out
  assume i: "ad_invoke (GetDocumentExcerptAdapter coord) args scope rid w = (Returned (RawData (ToolPayload es)), w')"
    and e: "e \<in> set es"
  from i obtain d c r rs where "filter (\<lambda>r. dk_document_id (jr_chunk r) = d \<and> dk_id (jr_chunk r) = c)
      (authorized_base scope (fst w)) = r # rs" and p: "tool_payload coord [excerpt_evidence r] = Returned (RawData (ToolPayload es))"
    by (auto simp: GetDocumentExcerptAdapter_def excerpt_adapter_invoke_def
        split: ActionArguments.splits list.splits if_splits)
  then have "r \<in> set (authorized_base scope (fst w))" by (auto dest: filter_eq_ConsD)
  with tool_payload_Returned [OF p] e show "evidence_readable scope (fst w) e"
    by (auto simp: evidence_readable_def)
next
  fix args scope rid and w w' :: "'a search_world" and out
  show "ad_invoke (GetDocumentExcerptAdapter coord) args scope rid w = (out, w') \<Longrightarrow> same_tables (fst w) (fst w')"
    by (auto simp: GetDocumentExcerptAdapter_def excerpt_adapter_invoke_def
        split: ActionArguments.splits list.splits if_splits)
qed

subsection \<open>Properties\<close>

lemma invoke_loop_payload_kind:
  assumes "invoke_loop coord h a mr t0 nm args scope rid rc w = (Observed ob, w')" and "ad_output_model a = Gateway_output k"
    and "k \<noteq> Tool_payload"
  shows "so_evidence ob = []"
  using assms
proof (induction "nat (mr - rc)" arbitrary: rc w rule: less_induct)
  case less
  show ?case
  proof (cases rule: attempt_cases [where coord = coord and h = h and a = a and ?t0.0 = t0 and name = nm
        and args = args and scope = scope and rid = rid and rc = rc and w = w and mr = mr])
    case (finished r w1)
    with less.prems(1) have "attempt_once coord h a t0 nm args scope rid rc w = (Finished (Observed ob), w1)"
      by (simp add: invoke_loop_finished)
    with less.prems(2,3) show ?thesis
      by (auto simp: attempt_once_def validate_output_def Let_def dest!: observation_evidence
          split: InvokeOutcome.splits option.splits prod.splits Payload.splits RawOutput.splits if_splits)
  next
    case (retry reason w1)
    with less.prems show ?thesis by (intro less.hyps [of "rc + 1" w1]) (simp_all add: invoke_loop_retry)
  next
    case (give_up reason tr w1)
    with less.prems show ?thesis by (auto simp: invoke_loop_give_up dest: observation_evidence)
  qed
qed

text \<open>The document tools of the gateway are the two adapters above, and every adapter declares the output
  model of the manifest, as \<^verbatim>\<open>validate_production_tool_catalog\<close> checks at startup.\<close>

definition document_gateway ::
  "(string \<Rightarrow> (int \<times> int) option) \<Rightarrow> ranking \<Rightarrow> (uuid \<Rightarrow> string) \<Rightarrow> 'v EmbeddingProvider \<Rightarrow>
   'v search_world ApprovedToolGateway \<Rightarrow> bool" where
  "document_gateway coord rk ut ep gw \<longleftrightarrow>
     (\<forall>(name, a) \<in> set (gw_adapters gw). ad_output_model a = output_model (TOOL_MANIFEST name) \<and>
        (name = SEARCH_AUTHORIZED_DOCUMENTS \<longrightarrow> a = SearchAuthorizedDocumentsAdapter coord rk ut ep) \<and>
        (name = GET_DOCUMENT_EXCERPT \<longrightarrow> a = GetDocumentExcerptAdapter coord))"

lemma output_kind:
  "name = SEARCH_AUTHORIZED_DOCUMENTS \<or> name = GET_DOCUMENT_EXCERPT \<or>
   (\<exists>k. output_model (TOOL_MANIFEST name) = Gateway_output k \<and> k \<noteq> Tool_payload)"
  by (cases name) (simp_all add: entry_def)

lemma gateway_evidence:
  assumes gw: "document_gateway coord rk ut ep gw" and h: "host_keeps h"
    and ex: "gateway_execute parse ut' coord h gw tool args scope permitted rid w = (Observed ob, w')"
    and e: "e \<in> set (so_evidence ob)"
  shows "evidence_readable scope (fst w) e"
proof -
  obtain t0 w1 where pc: "perf_counter h w = (t0, w1)" by (cases "perf_counter h w")
  with h have same: "same_tables (fst w) (fst w1)" by (metis host_keeps_def snd_conv)
  from ex pc e obtain name a inp where a: "map_of (gw_adapters gw) name = Some a"
    and loop: "invoke_loop coord h a (gw_max_transient_retries gw) t0 name inp scope rid 0 w1 = (Observed ob, w')"
    by (auto simp: gateway_execute_def Let_def dest!: observation_evidence split: option.splits if_splits)
  from map_of_SomeD [OF a] gw have out: "ad_output_model a = output_model (TOOL_MANIFEST name)"
    and s: "name = SEARCH_AUTHORIZED_DOCUMENTS \<longrightarrow> a = SearchAuthorizedDocumentsAdapter coord rk ut ep"
    and g: "name = GET_DOCUMENT_EXCERPT \<longrightarrow> a = GetDocumentExcerptAdapter coord"
    by (auto simp: document_gateway_def)
  from output_kind [of name] have "evidence_readable scope (fst w1) e"
  proof (elim disjE exE conjE)
    assume "name = SEARCH_AUTHORIZED_DOCUMENTS"
    with s loop e show ?thesis by (auto intro: search_tool.loop_evidence)
  next
    assume "name = GET_DOCUMENT_EXCERPT"
    with g loop e show ?thesis by (auto intro: excerpt_tool.loop_evidence)
  next
    fix k assume "output_model (TOOL_MANIFEST name) = Gateway_output k" "k \<noteq> Tool_payload"
    with invoke_loop_payload_kind [OF loop] out e show ?thesis by simp
  qed
  with same show ?thesis by (simp add: evidence_readable_same)
qed

text \<open>A store for the witnesses: three embedded finance chunks of one document, one of another company.\<close>

definition example_chunk :: "uuid \<Rightarrow> uuid \<Rightarrow> uuid \<Rightarrow> string \<Rightarrow> DocumentChunk" where
  "example_chunk i doc company content =
     \<lparr>dk_id = i, dk_document_id = doc, dk_document_version_id = doc + 100, dk_tenant_id = 1, dk_company_id = company,
      dk_department_id = 5, dk_department = ''finance'', dk_visibility = ''DEPARTMENT_PRIVATE'',
      dk_classification = ''FINANCE_ONLY'', dk_version_number = 1, dk_version_status = ''APPROVED'', dk_active = True,
      dk_document_deleted = False, dk_version_deleted = False, dk_ordinal = i, dk_source_type = ''pdf'',
      dk_page_number = Some 1, dk_sheet_name = None, dk_row_start = None, dk_row_end = None, dk_cell_start = None,
      dk_cell_end = None, dk_content = content, dk_content_hash = ''h'', dk_embedding = Some [Some 1],
      dk_embedding_model_name = Some ''m'', dk_embedding_model_version = Some ''1'',
      dk_embedding_dimensions = Some 768, dk_embedding_chunk_hash = Some ''h'', dk_embedding_status = ''READY''\<rparr>"

definition example_document :: "uuid \<Rightarrow> uuid \<Rightarrow> Document" where
  "example_document i company =
     \<lparr>dc_id = i, dc_tenant_id = 1, dc_company_id = company, dc_department_id = 5, dc_visibility = ''DEPARTMENT_PRIVATE'',
      dc_classification = ''FINANCE_ONLY'', dc_document_type = ''POLICY'', dc_reporting_period = None, dc_created_by = 1,
      dc_current_version = Some (i + 100), dc_deleted_at = None, dc_created_at = 0\<rparr>"

definition example_version :: "uuid \<Rightarrow> DocumentVersion" where
  "example_version doc =
     \<lparr>dv_id = doc + 100, dv_document_id = doc, dv_number = 1, dv_idempotency_key = ''k'', dv_request_fingerprint = ''f'',
      dv_original_filename = ''a.pdf'', dv_safe_filename = ''a.pdf'', dv_extension = ''.pdf'',
      dv_declared_media_type = ''application/pdf'', dv_detected_media_type = ''application/pdf'', dv_checksum = ''c'',
      dv_size_bytes = 9, dv_storage_key = None, dv_status = ''APPROVED'', dv_warnings = [], dv_page_count = 1,
      dv_sheet_count = 0, dv_row_count = 0, dv_cell_count = 0, dv_uploaded_by = 1, dv_approved_by = Some 1,
      dv_approved_at = Some 0, dv_rejected_by = None, dv_rejected_at = None, dv_deleted_at = None,
      dv_job = \<lparr>ij_id = doc + 200, ij_status = ''APPROVED'', ij_safe_error_code = None, ij_started_at = Some 0,
        ij_completed_at = Some 0\<rparr>, dv_pages = [], dv_sheets = []\<rparr>"

definition example_docstore :: docstore where
  "example_docstore =
     \<lparr>ds_tenants = [\<lparr>tn_id = 1, tn_slug = ''t'', tn_name = ''T'', tn_status = ''active''\<rparr>],
      ds_companies = [\<lparr>co_id = 10, co_tenant_id = 1, co_slug = ''acme'', co_name = ''A'', co_status = ''active''\<rparr>,
        \<lparr>co_id = 11, co_tenant_id = 1, co_slug = ''bolt'', co_name = ''B'', co_status = ''active''\<rparr>],
      ds_departments = [\<lparr>dp_id = 5, dp_key = ''finance'', dp_name = ''Finance''\<rparr>],
      ds_documents = [example_document 20 10, example_document 21 11],
      ds_versions = [example_version 20, example_version 21],
      ds_chunks = [example_chunk 30 20 10 ''debt'', example_chunk 31 20 10 ''debts'', example_chunk 32 20 10 ''net debt'',
        example_chunk 33 21 11 ''net debt''], ds_audit = []\<rparr>"

definition example_ranking :: ranking where
  "example_ranking = \<lparr>rk_ts_rank = (\<lambda>q c. if q = c then 1 else 0), rk_distance = (\<lambda>a b. 1 / 2)\<rparr>"

definition example_vector :: vector where
  "example_vector = Some 1 # replicate 767 (Some 0)"

definition example_model :: EmbeddingModel where
  "example_model = \<lparr>em_name = ''m'', em_version = ''1'', em_dimensions = 768\<rparr>"

definition example_provider :: "nat EmbeddingProvider" where
  "example_provider = \<lparr>ep_model = example_model, ep_ensure_ready = (\<lambda>n. (Inr (), n)),
     ep_embed = (\<lambda>texts n. (Inr (map (\<lambda>_. example_vector) texts), n + 1))\<rparr>"

lemma example_vector_ok: "length example_vector = 768" "\<not> vector_invalid example_vector"
proof -
  have "sum_list (replicate n (0 :: rat)) = 0" for n by (induction n) simp_all
  then show "\<not> vector_invalid example_vector"
    by (simp add: vector_invalid_def example_vector_def sum_squares_def map_replicate_const)
qed (simp add: example_vector_def)

lemma example_ranked:
  "map sk_chunk_id (ranked_candidates 5 (map (scored_candidate example_ranking ''net debt'' v)
     (filter (embedded_where example_model) (authorized_base example_scope example_docstore)))) = [32, 30]"
  by code_simp

lemma example_keys: "keys_ok example_docstore"
  by code_simp

text \<open>C31: a search returns at most \<open>top_k\<close> results, each chunk once and at most two chunks of a document; every
  result is a row of the authorized source statement with its excerpt cut to 500 characters, its chunk may be read by
  the caller under the policy, and no authorized embedded chunk scores higher than the first result.\<close>

theorem search_results_sound:
  assumes "keys_ok db" and "search_authorized_chunks rk db scope query qe model k = Some cs"
  shows "length cs \<le> k \<and> distinct (map sk_chunk_id cs) \<and>
    (\<forall>d. length (filter (\<lambda>c. sk_document_id c = d) cs) \<le> 2) \<and>
    (\<forall>c \<in> set cs. length (sk_excerpt c) \<le> 500 \<and> (\<exists>r \<in> set (authorized_base scope db).
       c = scored_candidate rk query qe r \<and> may_read scope (jr_chunk r))) \<and>
    (\<forall>r \<in> set (authorized_base scope db). embedded_where model r \<and> 0 < k \<longrightarrow>
       cs \<noteq> [] \<and> sk_final_score (scored_candidate rk query qe r) \<le> sk_final_score (hd cs))"
proof (intro conjI ballI allI impI)
  define all where "all = map (scored_candidate rk query qe) (filter (embedded_where model) (authorized_base scope db))"
  from assms(2) have cs: "cs = ranked_candidates k all"
    by (auto simp: search_authorized_chunks_def all_def split: if_splits)
  have d: "distinct (map sk_chunk_id all)" unfolding all_def by (rule scored_distinct [OF assms(1)])
  show "length cs \<le> k" "distinct (map sk_chunk_id cs)"
    "length (filter (\<lambda>c. sk_document_id c = i) cs) \<le> 2" for i
    using d by (simp_all add: cs ranked_candidates_length ranked_candidates_distinct ranked_candidates_per_document)
  fix c assume "c \<in> set cs"
  from search_candidates [OF assms(2) this] obtain r where r: "r \<in> set (authorized_base scope db)"
    "c = scored_candidate rk query qe r" by blast
  then show "\<exists>r \<in> set (authorized_base scope db). c = scored_candidate rk query qe r \<and> may_read scope (jr_chunk r)"
    using base_where_sound by (auto simp: authorized_base_iff)
  show "length (sk_excerpt c) \<le> 500" using r(2) by (simp add: excerpt_of_def)
next
  define all where "all = map (scored_candidate rk query qe) (filter (embedded_where model) (authorized_base scope db))"
  from assms(2) have cs: "cs = ranked_candidates k all"
    by (auto simp: search_authorized_chunks_def all_def split: if_splits)
  fix r assume r: "r \<in> set (authorized_base scope db)" "embedded_where model r \<and> 0 < k"
  then have m: "scored_candidate rk query qe r \<in> set all" by (simp add: all_def)
  then have "all \<noteq> []" by auto
  with ranked_candidates_best [of all k] r(2) m obtain x xs where "cs = x # xs"
    and "score_key x \<le> score_key (scored_candidate rk query qe r)" unfolding cs by metis
  then show "cs \<noteq> []" "sk_final_score (scored_candidate rk query qe r) \<le> sk_final_score (hd cs)"
    by (auto simp: score_key_def less_eq_prod_def)
qed

theorem search_results_sound_witness:
  "\<exists>cs. search_authorized_chunks example_ranking example_docstore example_scope ''net debt'' example_vector example_model 5
     = Some cs \<and> map sk_chunk_id cs = [32, 30] \<and> (\<forall>d. length (filter (\<lambda>c. sk_document_id c = d) cs) \<le> 2)"
proof -
  let ?s = "search_authorized_chunks example_ranking example_docstore example_scope ''net debt'' example_vector example_model 5"
  from example_vector_ok have "em_dimensions example_model = 768" by (simp add: example_model_def)
  with example_vector_ok obtain cs where "?s = Some cs" "map sk_chunk_id cs = [32, 30]"
    using example_ranked by (simp add: search_authorized_chunks_def)
  with search_results_sound [OF example_keys this(1)] show ?thesis by (intro exI [of _ cs]) simp
qed

definition example_search_gateway :: "nat search_world ApprovedToolGateway" where
  "example_search_gateway =
     \<lparr>gw_adapters = [(SEARCH_AUTHORIZED_DOCUMENTS,
          SearchAuthorizedDocumentsAdapter (\<lambda>s. None) example_ranking str_nat example_provider),
        (GET_DOCUMENT_EXCERPT, GetDocumentExcerptAdapter (\<lambda>s. None))],
      gw_timeout_seconds = 3, gw_max_transient_retries = 1\<rparr>"

definition search_host :: "nat search_world host" where
  "search_host = \<lparr>perf_counter = (\<lambda>w. (0, w)), uuid4 = (\<lambda>w. (7, w))\<rparr>"

definition example_parse_uuid :: "string \<Rightarrow> uuid option" where
  "example_parse_uuid s = map_of [(''20'', 20), (''31'', 31), (''33'', 33)] s"

definition excerpt_call :: "uuid \<Rightarrow> tool_result \<times> nat search_world" where
  "excerpt_call chunk = gateway_execute example_parse_uuid str_nat (\<lambda>s. None) search_host example_search_gateway
     ''portfolio.get_document_excerpt'' [(''document_id'', PStr ''20''), (''chunk_id'', PUuid chunk)] example_scope
     [''portfolio.get_document_excerpt''] ''r'' (example_docstore, 0)"

definition seen_excerpts :: "tool_result \<times> nat search_world \<Rightarrow> string list option" where
  "seen_excerpts r = (case fst r of Observed ob \<Rightarrow> Some (map te_excerpt (so_evidence ob)) | ObservationInvalid \<Rightarrow> None)"

lemma excerpt_call_seen: "seen_excerpts (excerpt_call 31) = Some [''debts'']" "seen_excerpts (excerpt_call 33) = Some []"
  by code_simp+

lemma example_search_gateway_ok:
  "document_gateway (\<lambda>s. None) example_ranking str_nat example_provider example_search_gateway" "host_keeps search_host"
  by (simp_all add: document_gateway_def example_search_gateway_def SearchAuthorizedDocumentsAdapter_def
      GetDocumentExcerptAdapter_def entry_def host_keeps_def search_host_def)

text \<open>C32: evidence never leaves the policy.  Whatever the model asks of the gateway, every evidence item of the
  observation is the excerpt of a chunk of the store that the policy allows the caller's scope to read, active, of
  the current approved version of a document that is not deleted, cut to 500 characters.\<close>

theorem gateway_evidence_authorized:
  assumes "document_gateway coord rk ut ep gw" and "host_keeps h"
    and "gateway_execute parse ut' coord h gw tool args scope permitted rid w = (Observed ob, w')"
  shows "\<forall>e \<in> set (so_evidence ob). length (te_excerpt e) \<le> 500 \<and>
    (\<exists>c \<in> set (ds_chunks (fst w)). \<exists>d \<in> set (ds_documents (fst w)).
       te_chunk_id e = dk_id c \<and> te_document_id e = dc_id d \<and> te_excerpt e = excerpt_of (dk_content c) \<and>
       allowed (authorize scope (read_request c)) \<and> dk_active c \<and> dk_document_id c = dc_id d \<and>
       dc_deleted_at d = None \<and> dc_current_version d = Some (dk_document_version_id c))"
proof
  fix e assume e: "e \<in> set (so_evidence ob)"
  from gateway_evidence [OF assms e] obtain r where r: "r \<in> set (authorized_base scope (fst w))" "e = excerpt_evidence r"
    by (auto simp: evidence_readable_def)
  then have "r \<in> set (joined (fst w))" "base_where scope r" by (simp_all add: authorized_base_iff)
  with r(2) show "length (te_excerpt e) \<le> 500 \<and>
    (\<exists>c \<in> set (ds_chunks (fst w)). \<exists>d \<in> set (ds_documents (fst w)).
       te_chunk_id e = dk_id c \<and> te_document_id e = dc_id d \<and> te_excerpt e = excerpt_of (dk_content c) \<and>
       allowed (authorize scope (read_request c)) \<and> dk_active c \<and> dk_document_id c = dc_id d \<and>
       dc_deleted_at d = None \<and> dc_current_version d = Some (dk_document_version_id c))"
    using base_where_sound [of scope r]
    by (auto simp: joined_iff excerpt_evidence_def excerpt_of_def may_read_def Let_def
        intro!: bexI [of _ "jr_chunk r"] bexI [of _ "jr_document r"])
qed

theorem gateway_evidence_authorized_witness:
  "\<exists>ob w'. excerpt_call 31 = (Observed ob, w') \<and> map te_excerpt (so_evidence ob) = [''debts''] \<and>
     list_all (\<lambda>e. length (te_excerpt e) \<le> 500) (so_evidence ob) \<and> seen_excerpts (excerpt_call 33) = Some []"
proof -
  obtain ob w' where c: "excerpt_call 31 = (Observed ob, w')" "map te_excerpt (so_evidence ob) = [''debts'']"
    using excerpt_call_seen(1) by (cases "excerpt_call 31"; cases "fst (excerpt_call 31)") (auto simp: seen_excerpts_def)
  from gateway_evidence_authorized [OF example_search_gateway_ok c(1) [unfolded excerpt_call_def]]
  have "list_all (\<lambda>e. length (te_excerpt e) \<le> 500) (so_evidence ob)" by (simp add: list_all_iff)
  with c excerpt_call_seen(2) show ?thesis by (intro exI [of _ ob] exI [of _ w']) simp
qed

end
