(* ===== verification/Indexing.thy ===== *)
theory Indexing
  imports Retrieval
begin

text \<open>
  Chunks of approved versions, \<^verbatim>\<open>app/retrieval/indexing.py\<close>: the stored version is read back as a parsed document and
  chunked, the chunks are embedded in batches, and the rows of the chunk table are replaced or deactivated.  The
  identifiers of new rows are an argument.
\<close>

subsection \<open>Embedding\<close>

text \<open>The exceptions of this module: a chunking error, a provider error, any other \<^verbatim>\<open>ValueError\<close>, and the rest.\<close>

datatype index_exn =
    ChunkingFailed ChunkingErrorCode | ProviderFailed EmbeddingErrorCode | IndexValueError | IndexRaises

type_synonym embedded = "GeneratedChunk \<times> vector"

fun provider_exn :: "embedding_exn \<Rightarrow> index_exn" where
  "provider_exn (EmbeddingProviderError code) = ProviderFailed code"
| "provider_exn EmbeddingValueError = IndexValueError"
| "provider_exn EmbeddingTimeout = ProviderFailed OPERATION_TIMEOUT"
| "provider_exn EmbeddingRaises = IndexRaises"

fun check_vectors :: "int \<Rightarrow> embedded list \<Rightarrow> (index_exn, embedded list) result" where
  "check_vectors dims [] = Inr []"
| "check_vectors dims ((chunk, v) # rest) =
     (if int (length v) \<noteq> dims then Inl (ProviderFailed DIMENSION_MISMATCH)
      else if vector_invalid v then Inl (ProviderFailed INVALID_VECTOR)
      else bindR (check_vectors dims rest) (\<lambda>es. Inr ((chunk, v) # es)))"

text \<open>The loop over the batches.  The batch size is at least 1 where it is called.\<close>

function embed_batches ::
  "'v EmbeddingProvider \<Rightarrow> nat \<Rightarrow> GeneratedChunk list \<Rightarrow> embedded list \<Rightarrow> 'v \<Rightarrow> (index_exn, embedded list) result \<times> 'v" where
  "embed_batches ep n generated acc v =
     (if generated = [] \<or> n = 0 then (Inr acc, v)
      else let batch = take n generated in
        case ep_embed ep (map gk_content batch) v of
          (Inl e, v) \<Rightarrow> (Inl (provider_exn e), v)
        | (Inr vectors, v) \<Rightarrow>
            if length vectors \<noteq> length batch then (Inl (ProviderFailed INVALID_PROVIDER_RESPONSE), v)
            else case check_vectors (em_dimensions (ep_model ep)) (zip batch vectors) of
                   Inl e \<Rightarrow> (Inl e, v)
                 | Inr es \<Rightarrow> embed_batches ep n (drop n generated) (acc @ es) v)"
  by pat_completeness auto
termination
  by (relation "measure (\<lambda>(ep, n, generated, d, v). length generated)") auto

declare embed_batches.simps [simp del]

definition embed_generated_chunks ::
  "'v EmbeddingProvider \<Rightarrow> int \<Rightarrow> int \<Rightarrow> GeneratedChunk list \<Rightarrow> 'v \<Rightarrow> (index_exn, embedded list) result \<times> 'v" where
  "embed_generated_chunks ep batch_size max_chunk_count generated v =
     (if \<not> (1 \<le> batch_size \<and> batch_size \<le> 64) then (Inl IndexValueError, v)
      else if int (length generated) > max_chunk_count then (Inl (ProviderFailed CHUNK_LIMIT_EXCEEDED), v)
      else case ep_ensure_ready ep v of
        (Inl e, v) \<Rightarrow> (Inl (provider_exn e), v)
      | (Inr _, v) \<Rightarrow>
          if em_dimensions (ep_model ep) \<noteq> 768 then (Inl (ProviderFailed DIMENSION_MISMATCH), v)
          else embed_batches ep (nat batch_size) generated [] v)"

definition usable :: "int \<Rightarrow> embedded \<Rightarrow> bool" where
  "usable dims e \<longleftrightarrow> int (length (snd e)) = dims \<and> \<not> vector_invalid (snd e)"

lemma check_vectors_Inr: "check_vectors dims es = Inr es' \<Longrightarrow> es' = es \<and> list_all (usable dims) es"
  by (induction dims es arbitrary: es' rule: check_vectors.induct) (auto simp: result_simps usable_def split: if_splits)

text \<open>All chunks are embedded, in order, each with a usable vector.\<close>

lemma embed_batches_Inr:
  assumes "embed_batches ep n generated d v = (Inr es, v')" and "0 < n"
    and "list_all (usable (em_dimensions (ep_model ep))) d"
  shows "map fst es = map fst d @ generated \<and> list_all (usable (em_dimensions (ep_model ep))) es"
  using assms
proof (induction "length generated" arbitrary: generated d v rule: less_induct)
  case less
  show ?case
  proof (cases "generated = []")
    case True
    with less.prems show ?thesis by (simp add: embed_batches.simps)
  next
    case False
    with less.prems(1,2) obtain vectors v1 es1 where
      e: "ep_embed ep (map gk_content (take n generated)) v = (Inr vectors, v1)"
      and l: "length vectors = length (take n generated)"
      and c: "check_vectors (em_dimensions (ep_model ep)) (zip (take n generated) vectors) = Inr es1"
      and r: "embed_batches ep n (drop n generated) (d @ es1) v1 = (Inr es, v')"
      by (subst (asm) embed_batches.simps) (auto simp: Let_def split: prod.splits sum.splits if_splits)
    from check_vectors_Inr [OF c] l have es1: "map fst es1 = take n generated"
      "list_all (usable (em_dimensions (ep_model ep))) es1" by auto
    have "length (drop n generated) < length generated" using False less.prems(2) by simp
    from less.hyps [OF this r less.prems(2)] less.prems(3) es1(2)
    have "map fst es = map fst (d @ es1) @ drop n generated" "list_all (usable (em_dimensions (ep_model ep))) es"
      by simp_all
    with es1(1) show ?thesis by (simp add: append_assoc)
  qed
qed

lemma embed_generated_chunks_Inr:
  assumes "embed_generated_chunks ep b m generated v = (Inr es, v')"
  shows "map fst es = generated \<and> em_dimensions (ep_model ep) = 768 \<and> int (length generated) \<le> m \<and>
    list_all (usable 768) es"
proof -
  from assms obtain v1 where b: "1 \<le> b" "int (length generated) \<le> m" "em_dimensions (ep_model ep) = 768"
    and r: "embed_batches ep (nat b) generated [] v1 = (Inr es, v')"
    by (auto simp: embed_generated_chunks_def split: if_splits prod.splits sum.splits)
  from embed_batches_Inr [OF r] b show ?thesis by simp
qed

subsection \<open>From a stored version to its chunks\<close>

definition source_kind :: "string \<Rightarrow> FileKind option" where
  "source_kind detected = map_of
     [(''application/pdf'', PDF), (''application/vnd.openxmlformats-officedocument.spreadsheetml.sheet'', XLSX),
      (''text/csv'', CSV), (''application/csv'', CSV)] detected"

definition ValueKind_of :: "string \<Rightarrow> ValueKind option" where
  "ValueKind_of s = map_of [(''text'', V_TEXT), (''number'', V_NUMBER), (''boolean'', V_BOOLEAN), (''date'', V_DATE),
     (''formula'', V_FORMULA), (''error'', V_ERROR)] s"

text \<open>The constructors of the parsed contracts check their fields; \<open>Inl\<close> is their \<^verbatim>\<open>ValueError\<close>.\<close>

definition parsed_cell :: "int \<Rightarrow> CellRow \<Rightarrow> (index_exn, ParsedCell) result" where
  "parsed_cell row_number cell =
     (case ValueKind_of (cr_value_kind cell) of
        None \<Rightarrow> Inl IndexValueError
      | Some kind \<Rightarrow> guardR (1 \<le> row_number \<and> 1 \<le> cr_column_number cell) IndexValueError
          (Inr \<lparr>cl_row_number = row_number, cl_column_number = cr_column_number cell, cl_coordinate = cr_coordinate cell,
                cl_value_text = cr_value_text cell, cl_value_kind = kind, cl_formula_like = cr_formula_like cell\<rparr>))"

definition parsed_row :: "RowRow \<Rightarrow> (index_exn, ParsedRow) result" where
  "parsed_row row =
     bindR (mapR (parsed_cell (rr_row_number row)) (rr_cells row)) (\<lambda>cells.
       guardR (1 \<le> rr_row_number row) IndexValueError (Inr \<lparr>rw_row_number = rr_row_number row, rw_cells = cells\<rparr>))"

definition parsed_sheet :: "SheetRow \<Rightarrow> (index_exn, ParsedSheet) result" where
  "parsed_sheet sheet =
     bindR (mapR parsed_row (st_rows sheet)) (\<lambda>rows.
       guardR (1 \<le> st_sheet_index sheet) IndexValueError
         (Inr \<lparr>sh_sheet_index = st_sheet_index sheet, sh_name = st_name sheet, sh_rows = rows\<rparr>))"

definition parsed_page :: "PageRow \<Rightarrow> (index_exn, ParsedPage) result" where
  "parsed_page page = guardR (1 \<le> pr_page_number page) IndexValueError
     (Inr \<lparr>pg_page_number = pr_page_number page, pg_text = pr_text page\<rparr>)"

definition stored_text_length :: "DocumentVersion \<Rightarrow> int" where
  "stored_text_length v =
     (\<Sum>page\<leftarrow>dv_pages v. int (length (pr_text page))) +
     (\<Sum>sheet\<leftarrow>dv_sheets v. \<Sum>row\<leftarrow>st_rows sheet. \<Sum>cell\<leftarrow>rr_cells row. int (length (cr_value_text cell)))"

text \<open>The warnings and counts of the parsed document are copied too; the chunker does not read them, so only their
  check is here.\<close>

definition parsed_document_from_version :: "DocumentVersion \<Rightarrow> (index_exn, ParsedDocument) result" where
  "parsed_document_from_version v =
     bindR (mapR parsed_page (dv_pages v)) (\<lambda>pages.
     bindR (mapR parsed_sheet (dv_sheets v)) (\<lambda>sheets.
       case source_kind (dv_detected_media_type v) of
         None \<Rightarrow> Inl IndexValueError
       | Some kind \<Rightarrow>
           guardR (0 \<le> dv_page_count v \<and> 0 \<le> dv_sheet_count v \<and> 0 \<le> dv_row_count v \<and> 0 \<le> dv_cell_count v)
             IndexValueError
             (Inr \<lparr>doc_kind = kind, doc_pages = pages, doc_sheets = sheets, doc_text_length = stored_text_length v\<rparr>)))"

definition approved_metadata :: "docstore \<Rightarrow> Document \<Rightarrow> DocumentVersion \<Rightarrow> ChunkMetadata" where
  "approved_metadata db d v =
     \<lparr>md_tenant_id = dc_tenant_id d, md_company_id = dc_company_id d, md_department = department_key db (dc_department_id d),
      md_visibility = dc_visibility d, md_classification = dc_classification d, md_document_id = dc_id d,
      md_document_version_id = dv_id v, md_document_version = dv_number v, md_version_status = dv_status v,
      md_active = True, md_document_deleted = dc_deleted_at d \<noteq> None, md_version_deleted = dv_deleted_at v \<noteq> None\<rparr>"

definition current_approved :: "Document \<Rightarrow> DocumentVersion \<Rightarrow> bool" where
  "current_approved d v \<longleftrightarrow> dv_status v = ''APPROVED'' \<and> dc_current_version d = Some (dv_id v) \<and>
     dc_deleted_at d = None \<and> dv_deleted_at v = None"

fun chunking_exn :: "chunk_error \<Rightarrow> index_exn" where
  "chunking_exn (ChunkingError code) = ChunkingFailed code"
| "chunking_exn ChunkValueError = IndexValueError"

definition generate_approved_chunks ::
  "(string \<Rightarrow> string) \<Rightarrow> docstore \<Rightarrow> Document \<Rightarrow> DocumentVersion \<Rightarrow> (index_exn, GeneratedChunk list) result" where
  "generate_approved_chunks sha db d v =
     (if \<not> current_approved d v then Inl IndexValueError
      else bindR (parsed_document_from_version v) (\<lambda>parsed.
        let md = approved_metadata db d v in
        if \<not> chunk_metadata_ok md then Inl IndexValueError
        else case chunk_document sha parsed md DEFAULT_LIMITS of
               Inl e \<Rightarrow> Inl (chunking_exn e)
             | Inr chunks \<Rightarrow> Inr chunks))"

subsection \<open>Rows of the chunk table\<close>

definition stale :: "DocumentChunk \<Rightarrow> DocumentChunk" where
  "stale c = c\<lparr>dk_active := False, dk_embedding := None, dk_embedding_model_name := None,
     dk_embedding_model_version := None, dk_embedding_dimensions := None, dk_embedding_chunk_hash := None,
     dk_embedding_status := ''STALE''\<rparr>"

definition file_kind_value :: "FileKind \<Rightarrow> string" where
  "file_kind_value k = (case k of PDF \<Rightarrow> ''pdf'' | XLSX \<Rightarrow> ''xlsx'' | CSV \<Rightarrow> ''csv'')"

definition chunk_row :: "Document \<Rightarrow> EmbeddingModel \<Rightarrow> uuid \<Rightarrow> embedded \<Rightarrow> DocumentChunk" where
  "chunk_row d model new_id item =
     (let c = fst item in
      \<lparr>dk_id = new_id, dk_document_id = gk_document_id c, dk_document_version_id = gk_document_version_id c,
       dk_tenant_id = gk_tenant_id c, dk_company_id = gk_company_id c, dk_department_id = dc_department_id d,
       dk_department = gk_department c, dk_visibility = gk_visibility c, dk_classification = gk_classification c,
       dk_version_number = gk_document_version c, dk_version_status = gk_version_status c, dk_active = gk_active c,
       dk_document_deleted = False, dk_version_deleted = False, dk_ordinal = gk_ordinal c,
       dk_source_type = file_kind_value (gk_source_type c), dk_page_number = gk_page_number c,
       dk_sheet_name = gk_sheet_name c, dk_row_start = gk_row_start c, dk_row_end = gk_row_end c,
       dk_cell_start = gk_cell_start c, dk_cell_end = gk_cell_end c, dk_content = gk_content c,
       dk_content_hash = gk_content_hash c, dk_embedding = Some (snd item), dk_embedding_model_name = Some (em_name model),
       dk_embedding_model_version = Some (em_version model), dk_embedding_dimensions = Some (em_dimensions model),
       dk_embedding_chunk_hash = Some (gk_content_hash c), dk_embedding_status = ''READY''\<rparr>)"

definition chunk_matches :: "docstore \<Rightarrow> Document \<Rightarrow> DocumentVersion \<Rightarrow> GeneratedChunk \<Rightarrow> bool" where
  "chunk_matches db d v c \<longleftrightarrow>
     gk_document_id c = dc_id d \<and> gk_document_version_id c = dv_id v \<and> gk_tenant_id c = dc_tenant_id d \<and>
     gk_company_id c = dc_company_id d \<and> gk_department c = department_key db (dc_department_id d) \<and>
     gk_visibility c = dc_visibility d \<and> gk_classification c = dc_classification d \<and>
     gk_document_version c = dv_number v \<and> gk_version_status c = ''APPROVED'' \<and> gk_active c"

text \<open>\<open>None\<close> is the \<^verbatim>\<open>ValueError\<close>; the number is the row count of the update.\<close>

definition replace_active_chunks ::
  "Document \<Rightarrow> DocumentVersion \<Rightarrow> embedded list \<Rightarrow> EmbeddingModel \<Rightarrow> (nat \<Rightarrow> uuid) \<Rightarrow> docstore \<Rightarrow> (nat \<times> docstore) option" where
  "replace_active_chunks d v embedded_chunks model new_ids db =
     (if \<not> current_approved d v \<or> list_ex (\<lambda>item. \<not> chunk_matches db d v (fst item)) embedded_chunks then None
      else Some (length (filter (\<lambda>c. dk_document_id c = dc_id d) (ds_chunks db)),
        db\<lparr>ds_chunks := map (\<lambda>c. if dk_document_id c = dc_id d then stale c else c) (ds_chunks db) @
             map (\<lambda>(i, item). chunk_row d model (new_ids i) item) (List.enumerate 0 embedded_chunks)\<rparr>))"

definition deactivate_version_chunks :: "uuid \<Rightarrow> string \<Rightarrow> docstore \<Rightarrow> nat \<times> docstore" where
  "deactivate_version_chunks version_id version_status db =
     (length (filter (\<lambda>c. dk_document_version_id c = version_id) (ds_chunks db)),
      db\<lparr>ds_chunks := map (\<lambda>c. if dk_document_version_id c = version_id
           then (stale c)\<lparr>dk_version_status := version_status, dk_version_deleted := version_status = ''DELETED''\<rparr> else c)
           (ds_chunks db)\<rparr>)"

definition deactivate_document_chunks :: "uuid \<Rightarrow> docstore \<Rightarrow> nat \<times> docstore" where
  "deactivate_document_chunks document_id db =
     (length (filter (\<lambda>c. dk_document_id c = document_id) (ds_chunks db)),
      db\<lparr>ds_chunks := map (\<lambda>c. if dk_document_id c = document_id
           then (stale c)\<lparr>dk_version_status := ''DELETED'', dk_document_deleted := True, dk_version_deleted := True\<rparr> else c)
           (ds_chunks db)\<rparr>)"

text \<open>The constraints the database checks on the chunk table.\<close>

definition chunk_table_ok :: "docstore \<Rightarrow> bool" where
  "chunk_table_ok db \<longleftrightarrow> list_all chunk_row_ok (ds_chunks db) \<and>
     distinct (map (\<lambda>c. (dk_document_version_id c, dk_ordinal c)) (ds_chunks db))"

subsection \<open>Generated chunks fit the document\<close>

lemma generated_match:
  assumes "generate_approved_chunks sha db d v = Inr chunks"
  shows "current_approved d v \<and> chunks \<noteq> [] \<and>
    (\<forall>c \<in> set chunks. chunk_matches db d v c \<and> 1 \<le> length (gk_content c) \<and> length (gk_content c) \<le> 2000 \<and>
       gk_content_hash c = sha (gk_content c)) \<and> map gk_ordinal chunks = [0..<length chunks]"
proof -
  from assms obtain parsed where cur: "current_approved d v"
    and c: "chunk_document sha parsed (approved_metadata db d v) DEFAULT_LIMITS = Inr chunks"
    by (auto simp: generate_approved_chunks_def Let_def result_simps split: if_splits sum.splits)
  have lim: "chunking_limits_ok DEFAULT_LIMITS" by (simp add: chunking_limits_ok_def DEFAULT_LIMITS_def)
  from chunk_document_ok [OF lim c] have ok: "chunks \<noteq> []" "chunks_ok sha (approved_metadata db d v) DEFAULT_LIMITS chunks"
    by auto
  have g: "gk_content c \<noteq> []" if "generated_chunk_ok c" for c using that by (auto simp: generated_chunk_ok_def)
  show ?thesis using cur ok
    by (auto simp: chunks_ok_def list_all_iff carries_def approved_metadata_def chunk_matches_def current_approved_def
        DEFAULT_LIMITS_def Suc_le_eq dest: g)
qed

end
