(* ===== verification/File_Validation.thy ===== *)
theory File_Validation
  imports Chunking Python_Re
begin

text \<open>
  Validation of an uploaded file, \<^verbatim>\<open>app/ingestion/validation.py\<close> with the contracts and limits it uses.  Bytes are a
  \<open>string\<close>.  What the code takes from libraries is the argument \<open>file_formats\<close>: the NFKC normal form, the zip and XML
  readers, the CSV reader and the UTF-8 decoder.
\<close>

subsection \<open>Errors, limits and contracts\<close>

text \<open>\<^verbatim>\<open>IngestionErrorCode\<close> is an enumeration of texts.\<close>

definition INGESTION_ERROR_CODES :: "string list" where
  "INGESTION_ERROR_CODES =
     [''FILE_TOO_LARGE'', ''UNSUPPORTED_FILE_TYPE'', ''CONTENT_TYPE_MISMATCH'', ''INVALID_FILE_SIGNATURE'',
      ''MALFORMED_FILE'', ''PDF_ENCRYPTED'', ''PDF_ACTIVE_CONTENT'', ''PDF_TEXT_REQUIRED'', ''XLSX_MACRO_FORBIDDEN'',
      ''XLSX_EXTERNAL_LINK_FORBIDDEN'', ''XLSX_ENCRYPTED'', ''ZIP_LIMIT_EXCEEDED'', ''PAGE_LIMIT_EXCEEDED'',
      ''SHEET_LIMIT_EXCEEDED'', ''ROW_LIMIT_EXCEEDED'', ''COLUMN_LIMIT_EXCEEDED'', ''CELL_LIMIT_EXCEEDED'',
      ''TEXT_LIMIT_EXCEEDED'', ''PARSER_TIMEOUT'', ''STORAGE_UNAVAILABLE'', ''STORAGE_KEY_INVALID'', ''STORAGE_CONFLICT'']"

text \<open>The exceptions of the ingestion: a file error of validation or parsing, or one of the object storage.
  \<open>UncaughtError\<close> is an exception the validation does not translate, as \<^verbatim>\<open>zlib.error\<close> from a damaged member.\<close>

datatype ingestion_error =
  FileError (error_code: string) | ObjectStorageError (error_code: string) | UncaughtError

record IngestionLimits =
  upload_bytes :: nat
  total_text_characters :: nat
  xlsx_zip_members :: nat
  xlsx_largest_member_bytes :: nat
  xlsx_total_expanded_bytes :: nat
  xlsx_expansion_ratio :: nat
  spreadsheet_rows_per_sheet :: nat
  spreadsheet_columns_per_row :: nat
  spreadsheet_total_cells :: nat
  spreadsheet_cell_characters :: nat

definition INGESTION_LIMITS :: IngestionLimits where
  "INGESTION_LIMITS = \<lparr>upload_bytes = 10485760, total_text_characters = 2000000, xlsx_zip_members = 2048,
     xlsx_largest_member_bytes = 10485760, xlsx_total_expanded_bytes = 104857600, xlsx_expansion_ratio = 100,
     spreadsheet_rows_per_sheet = 10000, spreadsheet_columns_per_row = 200, spreadsheet_total_cells = 200000,
     spreadsheet_cell_characters = 32767\<rparr>"

record ValidationInput =
  vi_filename :: string
  vi_declared_content_type :: string
  vi_data :: string

definition validation_input_ok :: "ValidationInput \<Rightarrow> bool" where
  "validation_input_ok u \<longleftrightarrow> 1 \<le> length (vi_filename u) \<and> length (vi_filename u) \<le> 1024 \<and>
     1 \<le> length (vi_declared_content_type u) \<and> length (vi_declared_content_type u) \<le> 255"

record ValidatedFile =
  vf_kind :: FileKind
  vf_sanitized_filename :: string
  vf_declared_content_type :: string
  vf_detected_content_type :: string
  vf_size_bytes :: nat
  vf_sha256 :: string
  vf_data :: string

record ZipInfo =
  zi_filename :: string
  zi_flag_bits :: nat
  zi_external_attr :: nat
  zi_compress_type :: nat
  zi_file_size :: nat
  zi_compress_size :: nat

text \<open>A read of an archive raises one of the exceptions the code catches, or another one; \<open>za_testzip\<close> is whether the
  test found no bad member.\<close>

datatype zip_exn = ArchiveError | ZlibError

record zip_archive =
  za_infolist :: "ZipInfo list"
  za_read :: "string \<Rightarrow> (zip_exn, string) result"
  za_testzip :: "(zip_exn, bool) result"

text \<open>\<open>ff_xml\<close> gives the \<^verbatim>\<open>TargetMode\<close> attributes of all elements of a document, \<open>ff_csv\<close> the rows read before the
  end or before an error, and whether there was one.\<close>

record file_formats =
  ff_nfkc :: "string \<Rightarrow> string"
  ff_sha256 :: "string \<Rightarrow> string"
  ff_is_zipfile :: "string \<Rightarrow> bool"
  ff_open_zip :: "string \<Rightarrow> zip_archive option"
  ff_xml :: "string \<Rightarrow> string list option"
  ff_decode :: "string \<Rightarrow> string option"
  ff_csv :: "nat \<Rightarrow> string \<Rightarrow> string list list \<times> bool"

subsection \<open>Text helpers\<close>

definition starts_with :: "string \<Rightarrow> string \<Rightarrow> bool" where
  "starts_with p s = (take (length p) s = p)"

definition ends_with :: "string \<Rightarrow> string \<Rightarrow> bool" where
  "ends_with p s = (length p \<le> length s \<and> drop (length s - length p) s = p)"

text \<open>The category \<^verbatim>\<open>Cc\<close> or \<^verbatim>\<open>Cf\<close>, on the code points below 256.\<close>

definition is_control :: "char \<Rightarrow> bool" where
  "is_control c = (let n = (of_char c :: nat) in n < 32 \<or> (127 \<le> n \<and> n < 160) \<or> n = 173)"

text \<open>\<^verbatim>\<open>[^A-Za-z0-9._ -]+\<close> replaced by an underscore.\<close>

definition safe_char :: "char \<Rightarrow> bool" where
  "safe_char c = (is_letter c \<or> is_digit c \<or> c \<in> set ''._ -'')"

fun replace_unsafe :: "string \<Rightarrow> string" where
  "replace_unsafe [] = []"
| "replace_unsafe (c # s) =
     (if safe_char c then c # replace_unsafe s
      else case s of [] \<Rightarrow> ''_'' | d # _ \<Rightarrow> if safe_char d then CHR ''_'' # replace_unsafe s else replace_unsafe s)"

text \<open>\<^verbatim>\<open>[ _.-]{2,}\<close> replaced by its first character.\<close>

definition separator :: "char \<Rightarrow> bool" where
  "separator c = (c \<in> set '' _.-'')"

function collapse :: "string \<Rightarrow> string" where
  "collapse [] = []"
| "collapse (c # s) = (if separator c then c # collapse (dropWhile separator s) else c # collapse s)"
  by pat_completeness auto
termination
  by (relation "measure length") (auto simp: le_imp_less_Suc length_dropWhile_le)

text \<open>\<^verbatim>\<open>PurePosixPath(name).suffix\<close> of a name without a slash.\<close>

definition path_suffix :: "string \<Rightarrow> string" where
  "path_suffix name =
     (let ext = takeWhile (\<lambda>c. c \<noteq> CHR ''.'') (rev name); i = length name - length ext in
      if length ext < length name \<and> 1 < i \<and> ext \<noteq> [] then CHR ''.'' # rev ext else [])"

subsection \<open>File names and kinds\<close>

definition sanitize_filename :: "file_formats \<Rightarrow> nat \<Rightarrow> string \<Rightarrow> (ingestion_error, string) result" where
  "sanitize_filename ff max_length filename =
     (let normalized = ff_nfkc ff filename in
      if normalized = [] \<or> CHR 0x00 \<in> set normalized then Inl (FileError ''UNSUPPORTED_FILE_TYPE'')
      else if list_ex is_control normalized then Inl (FileError ''UNSUPPORTED_FILE_TYPE'')
      else
        let basename = strip_chars '' .'' (last (split_on CHR ''/''
              (map (\<lambda>c. if c = CHR 0x5C then CHR ''/'' else c) normalized)));
            basename = collapse (replace_unsafe basename) in
        if basename = [] \<or> basename \<in> {''.'', ''..''} then Inl (FileError ''UNSUPPORTED_FILE_TYPE'')
        else if length basename > max_length then
          (let suffix = take 16 (path_suffix basename) in Inr (take (max_length - length suffix) basename @ suffix))
        else Inr basename)"

definition media_type :: "string \<Rightarrow> string" where
  "media_type declared = py_lower (strip (hd (split_on CHR '';'' declared)))"

definition PDF_MIME :: string where "PDF_MIME = ''application/pdf''"
definition XLSX_MIME :: string where
  "XLSX_MIME = ''application/vnd.openxmlformats-officedocument.spreadsheetml.sheet''"
definition CSV_MIMES :: "string list" where "CSV_MIMES = [''text/csv'', ''application/csv'']"

definition classify_upload :: "string \<Rightarrow> string \<Rightarrow> (ingestion_error, FileKind \<times> string) result" where
  "classify_upload filename declared =
     (let suffix = path_suffix (py_lower filename); content_type = media_type declared in
      if suffix = ''.pdf'' then
        (if content_type \<noteq> PDF_MIME then Inl (FileError ''CONTENT_TYPE_MISMATCH'') else Inr (PDF, PDF_MIME))
      else if suffix = ''.xlsx'' then
        (if content_type \<noteq> XLSX_MIME then Inl (FileError ''CONTENT_TYPE_MISMATCH'') else Inr (XLSX, XLSX_MIME))
      else if suffix = ''.csv'' then
        (if content_type \<notin> set CSV_MIMES then Inl (FileError ''CONTENT_TYPE_MISMATCH'') else Inr (CSV, ''text/csv''))
      else Inl (FileError ''UNSUPPORTED_FILE_TYPE''))"

definition validate_pdf_signature :: "string \<Rightarrow> (ingestion_error, unit) result" where
  "validate_pdf_signature data =
     (let version = drop 5 (take 8 data) in
      if \<not> (starts_with ''%PDF-'' data \<and> (case version of [a, b, c] \<Rightarrow> a \<in> set ''12'' \<and> b = CHR ''.'' \<and> is_digit c | _ \<Rightarrow> False))
      then Inl (FileError ''INVALID_FILE_SIGNATURE'')
      else if \<not> contains ''%%EOF'' (drop (length data - 2048) data) then Inl (FileError ''MALFORMED_FILE'')
      else Inr ())"

subsection \<open>Spreadsheet packages\<close>

text \<open>\<^verbatim>\<open>PurePosixPath\<close> drops empty and single-dot parts, so of the parts the code refuses only the parent
  reference can occur.\<close>

definition safe_zip_name :: "string \<Rightarrow> bool" where
  "safe_zip_name name \<longleftrightarrow> name \<noteq> [] \<and> CHR 0x5C \<notin> set name \<and> CHR 0x00 \<notin> set name \<and> hd name \<noteq> CHR ''/'' \<and>
     ''..'' \<notin> set (split_on CHR ''/'' name)"

text \<open>\<^verbatim>\<open>stat.S_IFMT(attr >> 16) == stat.S_IFLNK\<close>: the type bits of the upper half are those of a link.\<close>

definition is_zip_symlink :: "ZipInfo \<Rightarrow> bool" where
  "is_zip_symlink info = (zi_external_attr info div 65536 div 4096 mod 16 = 10)"

definition FORBIDDEN_XLSX_NAME_MARKERS :: "string list" where
  "FORBIDDEN_XLSX_NAME_MARKERS =
     [''vbaproject'', ''macrosheet'', ''activex'', ''embeddings/'', ''externallinks/'', ''connections.xml'']"

definition FORBIDDEN_XLSX_CONTENT_MARKERS :: "string list" where
  "FORBIDDEN_XLSX_CONTENT_MARKERS = [''macroenabled'', ''vbaproject'', ''activex'', ''oleobject'']"

definition REQUIRED_XLSX_MEMBERS :: "string list" where
  "REQUIRED_XLSX_MEMBERS = [''[Content_Types].xml'', ''_rels/.rels'', ''xl/workbook.xml'']"

definition OOXML_WORKBOOK_CONTENT_TYPE :: string where
  "OOXML_WORKBOOK_CONTENT_TYPE = ''application/vnd.openxmlformats-officedocument.spreadsheetml.sheet.main+xml''"

text \<open>The loop over the members with its two running sums.\<close>

fun members_loop :: "IngestionLimits \<Rightarrow> ZipInfo list \<Rightarrow> nat \<Rightarrow> nat \<Rightarrow> (ingestion_error, nat \<times> nat) result" where
  "members_loop limits [] expanded compressed = Inr (expanded, compressed)"
| "members_loop limits (member # members) expanded compressed =
     (if odd (zi_flag_bits member) \<or> is_zip_symlink member \<or> zi_compress_type member \<notin> {0, 8}
      then Inl (FileError ''MALFORMED_FILE'')
      else if zi_file_size member > xlsx_largest_member_bytes limits then Inl (FileError ''ZIP_LIMIT_EXCEEDED'')
      else if zi_file_size member > 0 \<and>
          zi_file_size member > max (zi_compress_size member) 1 * xlsx_expansion_ratio limits
      then Inl (FileError ''ZIP_LIMIT_EXCEEDED'')
      else members_loop limits members (expanded + zi_file_size member) (compressed + zi_compress_size member))"

text \<open>\<^verbatim>\<open>except (zipfile.BadZipFile, RuntimeError, NotImplementedError, KeyError, OSError)\<close>.\<close>

definition archive_failure :: "zip_exn \<Rightarrow> ingestion_error" where
  "archive_failure e = (case e of ArchiveError \<Rightarrow> FileError ''MALFORMED_FILE'' | ZlibError \<Rightarrow> UncaughtError)"

fun relationships_loop :: "file_formats \<Rightarrow> zip_archive \<Rightarrow> string list \<Rightarrow> (ingestion_error, unit) result" where
  "relationships_loop ff archive [] = Inr ()"
| "relationships_loop ff archive (name # names) =
     (if \<not> ends_with ''.rels'' (py_lower name) then relationships_loop ff archive names
      else case za_read archive name of
        Inl e \<Rightarrow> Inl (archive_failure e)
      | Inr bytes \<Rightarrow>
          (case ff_xml ff bytes of
             None \<Rightarrow> Inl (FileError ''MALFORMED_FILE'')
           | Some modes \<Rightarrow>
               if list_ex (\<lambda>mode. py_lower mode = ''external'') modes
               then Inl (FileError ''XLSX_EXTERNAL_LINK_FORBIDDEN'')
               else relationships_loop ff archive names))"

definition content_types_check :: "file_formats \<Rightarrow> zip_archive \<Rightarrow> (ingestion_error, unit) result" where
  "content_types_check ff archive =
     (case za_read archive ''[Content_Types].xml'' of
        Inl e \<Rightarrow> Inl (archive_failure e)
      | Inr content_types \<Rightarrow>
          if \<not> contains OOXML_WORKBOOK_CONTENT_TYPE content_types then Inl (FileError ''MALFORMED_FILE'')
          else if list_ex (\<lambda>m. contains m (py_lower content_types)) FORBIDDEN_XLSX_CONTENT_MARKERS
          then Inl (FileError ''XLSX_MACRO_FORBIDDEN'')
          else if ff_xml ff content_types = None then Inl (FileError ''MALFORMED_FILE'') else Inr ())"

definition validate_archive :: "file_formats \<Rightarrow> IngestionLimits \<Rightarrow> zip_archive \<Rightarrow> (ingestion_error, unit) result" where
  "validate_archive ff limits archive =
     (let members = za_infolist archive; names = map zi_filename members; lowered = map py_lower names in
      if members = [] \<or> length members > xlsx_zip_members limits then Inl (FileError ''ZIP_LIMIT_EXCEEDED'')
      else if \<not> distinct names \<or> list_ex (\<lambda>n. \<not> safe_zip_name n) names then Inl (FileError ''MALFORMED_FILE'')
      else if \<not> list_all (\<lambda>n. n \<in> set names) REQUIRED_XLSX_MEMBERS then Inl (FileError ''MALFORMED_FILE'')
      else if list_ex (\<lambda>n. list_ex (\<lambda>marker. contains marker n) FORBIDDEN_XLSX_NAME_MARKERS) lowered
      then Inl (FileError (if list_ex (contains ''externallinks/'') lowered then ''XLSX_EXTERNAL_LINK_FORBIDDEN''
                           else ''XLSX_MACRO_FORBIDDEN''))
      else bindR (members_loop limits members 0 0) (\<lambda>(expanded, compressed).
        if expanded > xlsx_total_expanded_bytes limits \<or> expanded > max compressed 1 * xlsx_expansion_ratio limits
        then Inl (FileError ''ZIP_LIMIT_EXCEEDED'')
        else bindR (content_types_check ff archive) (\<lambda>_.
             bindR (relationships_loop ff archive names) (\<lambda>_.
               case za_testzip archive of Inl e \<Rightarrow> Inl (archive_failure e)
               | Inr intact \<Rightarrow> if \<not> intact then Inl (FileError ''MALFORMED_FILE'') else Inr ()))))"

definition OLE_COMPOUND_SIGNATURE :: string where
  "OLE_COMPOUND_SIGNATURE = [CHR 0xD0, CHR 0xCF, CHR 0x11, CHR 0xE0, CHR 0xA1, CHR 0xB1, CHR 0x1A, CHR 0xE1]"

definition validate_xlsx_package :: "file_formats \<Rightarrow> IngestionLimits \<Rightarrow> string \<Rightarrow> (ingestion_error, unit) result" where
  "validate_xlsx_package ff limits data =
     (if starts_with OLE_COMPOUND_SIGNATURE data then Inl (FileError ''XLSX_ENCRYPTED'')
      else if \<not> starts_with [CHR ''P'', CHR ''K'', CHR 0x03, CHR 0x04] data \<or> \<not> ff_is_zipfile ff data
      then Inl (FileError ''INVALID_FILE_SIGNATURE'')
      else case ff_open_zip ff data of
        None \<Rightarrow> Inl (FileError ''MALFORMED_FILE'')
      | Some archive \<Rightarrow> validate_archive ff limits archive)"

subsection \<open>CSV\<close>

fun csv_loop ::
  "IngestionLimits \<Rightarrow> string list list \<Rightarrow> nat \<Rightarrow> nat \<Rightarrow> nat option \<Rightarrow> (ingestion_error, nat \<times> nat option) result" where
  "csv_loop limits [] row_count cell_count expected = Inr (row_count, expected)"
| "csv_loop limits (row # rows) row_count cell_count expected =
     (if Suc row_count > spreadsheet_rows_per_sheet limits then Inl (FileError ''ROW_LIMIT_EXCEEDED'')
      else if length row > spreadsheet_columns_per_row limits then Inl (FileError ''COLUMN_LIMIT_EXCEEDED'')
      else if expected \<noteq> None \<and> expected \<noteq> Some (length row) then Inl (FileError ''MALFORMED_FILE'')
      else if cell_count + length row > spreadsheet_total_cells limits then Inl (FileError ''CELL_LIMIT_EXCEEDED'')
      else csv_loop limits rows (Suc row_count) (cell_count + length row) (Some (length row)))"

definition validate_csv :: "file_formats \<Rightarrow> IngestionLimits \<Rightarrow> string \<Rightarrow> (ingestion_error, unit) result" where
  "validate_csv ff limits data =
     (if CHR 0x00 \<in> set data then Inl (FileError ''MALFORMED_FILE'')
      else case ff_decode ff data of
        None \<Rightarrow> Inl (FileError ''MALFORMED_FILE'')
      | Some txt \<Rightarrow>
          (case ff_csv ff (spreadsheet_cell_characters limits) txt of (rows, broken) \<Rightarrow>
             bindR (csv_loop limits rows 0 0 None) (\<lambda>(row_count, expected).
               if broken then Inl (FileError ''MALFORMED_FILE'')
               else if row_count = 0 \<or> expected \<in> {None, Some 0} then Inl (FileError ''MALFORMED_FILE'')
               else if length txt > total_text_characters limits then Inl (FileError ''TEXT_LIMIT_EXCEEDED'')
               else Inr ())))"

subsection \<open>The validator\<close>

definition validate_content :: "file_formats \<Rightarrow> IngestionLimits \<Rightarrow> FileKind \<Rightarrow> string \<Rightarrow> (ingestion_error, unit) result" where
  "validate_content ff limits kind data =
     (case kind of PDF \<Rightarrow> validate_pdf_signature data | XLSX \<Rightarrow> validate_xlsx_package ff limits data
      | CSV \<Rightarrow> validate_csv ff limits data)"

definition validate_file :: "file_formats \<Rightarrow> IngestionLimits \<Rightarrow> ValidationInput \<Rightarrow> (ingestion_error, ValidatedFile) result" where
  "validate_file ff limits upload =
     (if vi_data upload = [] then Inl (FileError ''MALFORMED_FILE'')
      else if length (vi_data upload) > upload_bytes limits then Inl (FileError ''FILE_TOO_LARGE'')
      else bindR (sanitize_filename ff 128 (vi_filename upload)) (\<lambda>filename.
           bindR (classify_upload filename (vi_declared_content_type upload)) (\<lambda>(kind, detected).
           bindR (validate_content ff limits kind (vi_data upload)) (\<lambda>_.
             Inr \<lparr>vf_kind = kind, vf_sanitized_filename = filename,
                  vf_declared_content_type = media_type (vi_declared_content_type upload),
                  vf_detected_content_type = detected, vf_size_bytes = length (vi_data upload),
                  vf_sha256 = ff_sha256 ff (vi_data upload), vf_data = vi_data upload\<rparr>))))"

subsection \<open>Sanitized names\<close>

lemma replace_unsafe_hd:
  "replace_unsafe (c # s) \<noteq> [] \<and> hd (replace_unsafe (c # s)) = (if safe_char c then c else CHR ''_'')"
proof (induction s arbitrary: c)
  case (Cons d s)
  show ?case
  proof (cases "safe_char c \<or> safe_char d")
    case False
    then have "replace_unsafe (c # d # s) = replace_unsafe (d # s)" by simp
    with Cons.IH [of d] False show ?thesis by (simp del: replace_unsafe.simps)
  qed auto
qed simp

lemma replace_unsafe_step:
  "replace_unsafe (c # s) = c # replace_unsafe s \<and> safe_char c \<or> replace_unsafe (c # s) = CHR ''_'' # replace_unsafe s \<or>
   replace_unsafe (c # s) = replace_unsafe s"
  by (cases s) simp_all

lemma replace_unsafe_safe: "list_all safe_char (replace_unsafe s)"
proof (induction s)
  case (Cons c s)
  have "safe_char CHR ''_''" by (simp add: safe_char_def)
  with Cons replace_unsafe_step [of c s] show ?case by (elim disjE) (simp_all del: replace_unsafe.simps)
qed simp

lemma set_collapse: "set (collapse s) \<subseteq> set s"
  by (induction s rule: collapse.induct) (auto dest: set_dropWhileD)

lemma collapse_hd: "s \<noteq> [] \<Longrightarrow> collapse s \<noteq> [] \<and> hd (collapse s) = hd s"
  by (cases s) auto

lemma strip_chars_hd:
  assumes "strip_chars cs s \<noteq> []" shows "hd (strip_chars cs s) \<notin> set cs"
proof -
  let ?P = "\<lambda>c. c \<in> set cs"
  let ?t = "dropWhile ?P s"
  let ?u = "strip_chars cs s"
  have "?t = ?u @ rev (takeWhile ?P (rev ?t))"
    unfolding strip_chars_def rev_append [symmetric] takeWhile_dropWhile_id by simp
  then obtain v where t: "?t = ?u @ v" by blast
  with assms have "hd ?t = hd ?u" "?t \<noteq> []" by simp_all
  with hd_dropWhile [of ?P s] show ?thesis by simp
qed

lemma set_path_suffix: "set (path_suffix name) \<subseteq> set name"
proof -
  have "CHR ''.'' \<in> set name" if "length (takeWhile (\<lambda>c. c \<noteq> CHR ''.'') (rev name)) < length name"
  proof (rule ccontr)
    assume "CHR ''.'' \<notin> set name"
    then have "takeWhile (\<lambda>c. c \<noteq> CHR ''.'') (rev name) = rev name" by (auto simp: takeWhile_eq_all_conv)
    with that show False by simp
  qed
  then show ?thesis using set_takeWhileD by (fastforce simp: path_suffix_def Let_def)
qed

definition safe_name :: "string \<Rightarrow> bool" where
  "safe_name name \<longleftrightarrow> name \<noteq> [] \<and> list_all safe_char name \<and> hd name \<notin> {CHR ''.'', CHR '' ''}"

lemma safe_basename:
  assumes "collapse (replace_unsafe (strip_chars '' .'' s)) \<noteq> []"
  shows "safe_name (collapse (replace_unsafe (strip_chars '' .'' s)))"
proof -
  let ?b = "strip_chars '' .'' s"
  from assms have b: "?b \<noteq> []" by auto
  then obtain c cs where cs: "?b = c # cs" by (cases ?b) auto
  with strip_chars_hd [OF b] have "c \<notin> {CHR ''.'', CHR '' ''}" by simp
  with replace_unsafe_hd [of c cs] collapse_hd [of "replace_unsafe ?b"] cs
  have "hd (collapse (replace_unsafe ?b)) \<notin> {CHR ''.'', CHR '' ''}" by (simp split: if_splits)
  moreover have "list_all safe_char (collapse (replace_unsafe ?b))"
    using replace_unsafe_safe [of ?b] set_collapse [of "replace_unsafe ?b"] by (auto simp: list_all_iff)
  ultimately show ?thesis using assms by (simp add: safe_name_def)
qed

lemma sanitize_filename_safe:
  assumes "sanitize_filename ff m filename = Inr name" and "16 < m"
  shows "safe_name name \<and> length name \<le> m"
proof -
  define b where "b = collapse (replace_unsafe (strip_chars '' .'' (last (split_on CHR ''/''
      (map (\<lambda>c. if c = CHR 0x5C then CHR ''/'' else c) (ff_nfkc ff filename))))))"
  define suffix where "suffix = take 16 (path_suffix b)"
  from assms(1) have ne: "b \<noteq> []" and name: "name = (if length b > m then take (m - length suffix) b @ suffix else b)"
    by (auto simp: sanitize_filename_def Let_def b_def suffix_def split: if_splits)
  from ne have safe: "safe_name b" unfolding b_def by (rule safe_basename)
  show ?thesis
  proof (cases "length b > m")
    case True
    have sl: "length suffix \<le> 16" by (simp add: suffix_def)
    have "hd name = hd b" using name True sl assms(2) ne by (cases b) (auto simp: take_Cons')
    moreover have "set suffix \<subseteq> set b" using set_path_suffix set_take_subset unfolding suffix_def by fast
    then have "set name \<subseteq> set b" using name True set_take_subset by fastforce
    moreover have "name \<noteq> []" "length name \<le> m" using name True sl assms(2) ne by auto
    ultimately show ?thesis using safe by (auto simp: safe_name_def list_all_iff)
  next
    case False
    with name safe show ?thesis by simp
  qed
qed

lemma safe_name_no_path: "safe_name name \<Longrightarrow> CHR ''/'' \<notin> set name \<and> CHR 0x5C \<notin> set name \<and> CHR 0x00 \<notin> set name"
  by (auto simp: safe_name_def list_all_iff safe_char_def is_letter_def is_lower_def is_upper_def is_digit_def)

subsection \<open>Accepted content\<close>

text \<open>The header of a PDF file, a version \<^verbatim>\<open>1.x\<close> or \<^verbatim>\<open>2.x\<close>, and the end marker among the last 2048 bytes.\<close>

definition pdf_accepted :: "string \<Rightarrow> bool" where
  "pdf_accepted data \<longleftrightarrow>
     (\<exists>major minor rest. data = ''%PDF-'' @ [major, CHR ''.'', minor] @ rest \<and> major \<in> set ''12'' \<and> is_digit minor) \<and>
     (\<exists>before after. drop (length data - 2048) data = before @ ''%%EOF'' @ after)"

lemma contains_iff: "contains p s \<longleftrightarrow> (\<exists>u v. s = u @ p @ v)"
proof
  assume "contains p s"
  then obtain i where "take (length p) (drop i s) = p" by (auto simp: contains_def list_ex_iff simp del: upt_Suc)
  then have "s = take i s @ p @ drop (length p) (drop i s)" by (metis append_take_drop_id)
  then show "\<exists>u v. s = u @ p @ v" by blast
next
  assume "\<exists>u v. s = u @ p @ v"
  then obtain u v where "s = u @ p @ v" by blast
  then show "contains p s" by (auto simp: contains_def list_ex_iff simp del: upt_Suc intro!: bexI [of _ "length u"])
qed

lemma starts_with_iff: "starts_with p s \<longleftrightarrow> (\<exists>r. s = p @ r)"
  unfolding starts_with_def by (metis append_eq_conv_conj append_take_drop_id)

lemma if_Inl_iff: "(if b then Inl e else r) = Inr x \<longleftrightarrow> \<not> b \<and> r = Inr x"
  by simp

lemma pdf_version_iff:
  "(case drop 5 (take 8 (''%PDF-'' @ r)) of [a, b, c] \<Rightarrow> a \<in> set ''12'' \<and> b = CHR ''.'' \<and> is_digit c | _ \<Rightarrow> False) \<longleftrightarrow>
     (\<exists>major minor rest. r = [major, CHR ''.'', minor] @ rest \<and> major \<in> set ''12'' \<and> is_digit minor)"
proof -
  consider "r = []" | a where "r = [a]" | a b where "r = [a, b]" | a b c rest where "r = a # b # c # rest"
    by (metis list.exhaust)
  then show ?thesis by cases auto
qed

lemma pdf_header_iff:
  "starts_with ''%PDF-'' data \<and>
     (case drop 5 (take 8 data) of [a, b, c] \<Rightarrow> a \<in> set ''12'' \<and> b = CHR ''.'' \<and> is_digit c | _ \<Rightarrow> False) \<longleftrightarrow>
   (\<exists>major minor rest. data = ''%PDF-'' @ [major, CHR ''.'', minor] @ rest \<and> major \<in> set ''12'' \<and> is_digit minor)"
  (is "_ \<and> ?version data \<longleftrightarrow> ?r data")
proof (cases "starts_with ''%PDF-'' data")
  case True
  then obtain r where "data = ''%PDF-'' @ r" unfolding starts_with_iff by blast
  with True pdf_version_iff [of r] show ?thesis by (simp only: same_append_eq simp_thms)
qed (auto simp: starts_with_iff)

lemma validate_pdf_iff: "validate_pdf_signature data = Inr () \<longleftrightarrow> pdf_accepted data"
  unfolding pdf_accepted_def pdf_header_iff [symmetric] contains_iff [symmetric]
  unfolding validate_pdf_signature_def Let_def if_Inl_iff by (simp only: not_not simp_thms)

text \<open>A member the package may have: neither encrypted nor a link, stored or deflated, and within the limits.\<close>

definition member_accepted :: "IngestionLimits \<Rightarrow> ZipInfo \<Rightarrow> bool" where
  "member_accepted limits m \<longleftrightarrow> even (zi_flag_bits m) \<and> \<not> is_zip_symlink m \<and> zi_compress_type m \<in> {0, 8} \<and>
     zi_file_size m \<le> xlsx_largest_member_bytes limits \<and>
     zi_file_size m \<le> max (zi_compress_size m) 1 * xlsx_expansion_ratio limits"

lemma members_loop_iff:
  "members_loop limits members e c = Inr (e', c') \<longleftrightarrow>
     e' = e + sum_list (map zi_file_size members) \<and> c' = c + sum_list (map zi_compress_size members) \<and>
     list_all (member_accepted limits) members"
  by (induction members arbitrary: e c) (auto simp: member_accepted_def not_less)

text \<open>The declared sizes and names of an accepted spreadsheet package.\<close>

definition archive_bounded :: "IngestionLimits \<Rightarrow> zip_archive \<Rightarrow> bool" where
  "archive_bounded limits archive \<longleftrightarrow>
     (let ms = za_infolist archive; expanded = sum_list (map zi_file_size ms) in
      ms \<noteq> [] \<and> length ms \<le> xlsx_zip_members limits \<and> distinct (map zi_filename ms) \<and>
      list_all (\<lambda>m. safe_zip_name (zi_filename m) \<and> member_accepted limits m) ms \<and>
      expanded \<le> xlsx_total_expanded_bytes limits \<and>
      expanded \<le> max (sum_list (map zi_compress_size ms)) 1 * xlsx_expansion_ratio limits)"

text \<open>A relationship part: it is read and parsed, and no element has an external target.\<close>

definition relationship_accepted :: "file_formats \<Rightarrow> zip_archive \<Rightarrow> string \<Rightarrow> bool" where
  "relationship_accepted ff archive name \<longleftrightarrow>
     (\<exists>bytes modes. za_read archive name = Inr bytes \<and> ff_xml ff bytes = Some modes \<and>
        (\<forall>mode \<in> set modes. py_lower mode \<noteq> ''external''))"

lemma relationships_loop_iff:
  "relationships_loop ff archive names = Inr () \<longleftrightarrow>
     (\<forall>name \<in> set names. ends_with ''.rels'' (py_lower name) \<longrightarrow> relationship_accepted ff archive name)"
  by (induction names) (auto simp: relationship_accepted_def list_ex_iff split: sum.splits option.splits)

text \<open>The parts of an accepted package: a workbook, no macros, embedded objects or links to other files, and no
  damaged member.\<close>

definition archive_parts_accepted :: "file_formats \<Rightarrow> zip_archive \<Rightarrow> bool" where
  "archive_parts_accepted ff archive \<longleftrightarrow>
     (let names = map zi_filename (za_infolist archive) in
      set REQUIRED_XLSX_MEMBERS \<subseteq> set names \<and>
      (\<forall>name \<in> set names. \<forall>marker \<in> set FORBIDDEN_XLSX_NAME_MARKERS. \<not> contains marker (py_lower name)) \<and>
      (\<exists>content_types. za_read archive ''[Content_Types].xml'' = Inr content_types \<and>
         contains OOXML_WORKBOOK_CONTENT_TYPE content_types \<and> ff_xml ff content_types \<noteq> None \<and>
         (\<forall>marker \<in> set FORBIDDEN_XLSX_CONTENT_MARKERS. \<not> contains marker (py_lower content_types))) \<and>
      (\<forall>name \<in> set names. ends_with ''.rels'' (py_lower name) \<longrightarrow> relationship_accepted ff archive name) \<and>
      za_testzip archive = Inr True)"

lemma content_types_check_iff:
  "content_types_check ff archive = Inr () \<longleftrightarrow>
     (\<exists>content_types. za_read archive ''[Content_Types].xml'' = Inr content_types \<and>
         contains OOXML_WORKBOOK_CONTENT_TYPE content_types \<and> ff_xml ff content_types \<noteq> None \<and>
         (\<forall>marker \<in> set FORBIDDEN_XLSX_CONTENT_MARKERS. \<not> contains marker (py_lower content_types)))"
  by (auto simp: content_types_check_def list_ex_iff split: sum.splits)

lemma members_bound_iff:
  "bindR (members_loop limits ms 0 0) (\<lambda>(e, c). if e > most \<or> e > max c 1 * ratio then Inl err else k) = Inr () \<longleftrightarrow>
     list_all (member_accepted limits) ms \<and> sum_list (map zi_file_size ms) \<le> most \<and>
     sum_list (map zi_file_size ms) \<le> max (sum_list (map zi_compress_size ms)) 1 * ratio \<and> k = Inr ()"
  unfolding bindR_Inr_iff split_paired_Ex members_loop_iff prod.case if_Inl_iff by (auto simp: not_less)

lemma package_tests_iff:
  "bindR (content_types_check ff archive) (\<lambda>_. bindR (relationships_loop ff archive names) (\<lambda>_.
     case za_testzip archive of Inl e \<Rightarrow> Inl (archive_failure e)
     | Inr intact \<Rightarrow> if \<not> intact then Inl (FileError ''MALFORMED_FILE'') else Inr ())) = Inr () \<longleftrightarrow>
   content_types_check ff archive = Inr () \<and> relationships_loop ff archive names = Inr () \<and>
   za_testzip archive = Inr True"
  by (cases "za_testzip archive") (simp_all add: bindR_Inr_iff)

lemma validate_archive_iff:
  "validate_archive ff limits archive = Inr () \<longleftrightarrow> archive_bounded limits archive \<and> archive_parts_accepted ff archive"
  unfolding validate_archive_def Let_def if_Inl_iff members_bound_iff package_tests_iff content_types_check_iff
    relationships_loop_iff archive_bounded_def archive_parts_accepted_def
  by (simp add: list_all_iff list_ex_iff not_less subset_iff) blast

text \<open>The rows of an accepted CSV file: a rectangle within the limits.\<close>

definition rows_accepted :: "IngestionLimits \<Rightarrow> string list list \<Rightarrow> bool" where
  "rows_accepted limits rows \<longleftrightarrow>
     (\<exists>width. 0 < width \<and> width \<le> spreadsheet_columns_per_row limits \<and> rows \<noteq> [] \<and>
        (\<forall>row \<in> set rows. length row = width) \<and> length rows \<le> spreadsheet_rows_per_sheet limits \<and>
        length rows * width \<le> spreadsheet_total_cells limits)"

lemma csv_loop_iff:
  "n \<le> spreadsheet_rows_per_sheet limits \<Longrightarrow> w \<le> spreadsheet_columns_per_row limits \<Longrightarrow>
   c \<le> spreadsheet_total_cells limits \<Longrightarrow>
   csv_loop limits rows n c (Some w) = Inr (n', e) \<longleftrightarrow>
     n' = n + length rows \<and> e = Some w \<and> (\<forall>row \<in> set rows. length row = w) \<and>
     n + length rows \<le> spreadsheet_rows_per_sheet limits \<and> c + length rows * w \<le> spreadsheet_total_cells limits"
proof (induction rows arbitrary: n c)
  case (Cons row rows)
  show ?case
  proof (cases "Suc n \<le> spreadsheet_rows_per_sheet limits \<and> length row = w \<and> c + w \<le> spreadsheet_total_cells limits")
    case True
    with Cons.prems(2) have "csv_loop limits (row # rows) n c (Some w) = csv_loop limits rows (Suc n) (c + w) (Some w)" by simp
    with True Cons.prems(2) Cons.IH [of "Suc n" "c + w"] show ?thesis by (simp add: add.assoc)
  next
    case False
    then have "\<exists>e. csv_loop limits (row # rows) n c (Some w) = Inl e" by auto
    moreover have "w \<le> length (row # rows) * w" by simp
    with False have "\<not> (length row = w \<and> n + length (row # rows) \<le> spreadsheet_rows_per_sheet limits \<and>
        c + length (row # rows) * w \<le> spreadsheet_total_cells limits)"
      unfolding list.size by linarith
    ultimately show ?thesis by (metis Inl_Inr_False list.set_intros(1))
  qed
qed auto

lemma rows_accepted_Cons:
  "rows_accepted limits (row # rest) \<longleftrightarrow> 0 < length row \<and> length row \<le> spreadsheet_columns_per_row limits \<and>
     (\<forall>r \<in> set rest. length r = length row) \<and> Suc (length rest) \<le> spreadsheet_rows_per_sheet limits \<and>
     length row + length rest * length row \<le> spreadsheet_total_cells limits"
  by (auto simp: rows_accepted_def)

lemma validate_csv_rows:
  "(\<exists>n e. csv_loop limits rows 0 0 None = Inr (n, e) \<and> n \<noteq> 0 \<and> e \<notin> {None, Some 0}) \<longleftrightarrow> rows_accepted limits rows"
proof (cases rows)
  case Nil
  then show ?thesis by (simp add: rows_accepted_def)
next
  case (Cons row rest)
  show ?thesis
  proof (cases "Suc 0 \<le> spreadsheet_rows_per_sheet limits \<and> length row \<le> spreadsheet_columns_per_row limits \<and>
      length row \<le> spreadsheet_total_cells limits")
    case True
    then have "csv_loop limits rows 0 0 None = csv_loop limits rest (Suc 0) (length row) (Some (length row))"
      by (simp add: Cons)
    with True csv_loop_iff [of "Suc 0" limits "length row" "length row" rest] show ?thesis
      by (auto simp: Cons rows_accepted_Cons)
  next
    case False
    then have "\<exists>e. csv_loop limits rows 0 0 None = Inl e" by (auto simp: Cons)
    moreover from False have "\<not> rows_accepted limits rows" unfolding Cons rows_accepted_Cons by linarith
    ultimately show ?thesis by auto
  qed
qed

definition csv_accepted :: "file_formats \<Rightarrow> IngestionLimits \<Rightarrow> string \<Rightarrow> bool" where
  "csv_accepted ff limits data \<longleftrightarrow> CHR 0x00 \<notin> set data \<and>
     (\<exists>txt rows. ff_decode ff data = Some txt \<and> length txt \<le> total_text_characters limits \<and>
        ff_csv ff (spreadsheet_cell_characters limits) txt = (rows, False) \<and> rows_accepted limits rows)"

lemma csv_end_iff:
  "bindR (csv_loop limits rows 0 0 None) (\<lambda>(row_count, expected). if broken then Inl e1
     else if row_count = 0 \<or> expected \<in> {None, Some 0} then Inl e2 else if long then Inl e3 else Inr ()) = Inr () \<longleftrightarrow>
   \<not> broken \<and> \<not> long \<and> rows_accepted limits rows"
  unfolding bindR_Inr_iff split_paired_Ex prod.case if_Inl_iff validate_csv_rows [symmetric] by blast

lemma validate_csv_iff: "validate_csv ff limits data = Inr () \<longleftrightarrow> csv_accepted ff limits data"
proof (cases "ff_decode ff data")
  case (Some decoded)
  obtain rows broken where rows: "ff_csv ff (spreadsheet_cell_characters limits) decoded = (rows, broken)"
    by (cases "ff_csv ff (spreadsheet_cell_characters limits) decoded")
  show ?thesis
    unfolding validate_csv_def Some rows option.case prod.case if_Inl_iff csv_end_iff
    by (auto simp: csv_accepted_def Some rows)
qed (simp add: validate_csv_def csv_accepted_def)

text \<open>What accepted content is, for each kind of file.\<close>

definition content_accepted :: "file_formats \<Rightarrow> IngestionLimits \<Rightarrow> FileKind \<Rightarrow> string \<Rightarrow> bool" where
  "content_accepted ff limits kind data =
     (case kind of
        PDF \<Rightarrow> pdf_accepted data
      | XLSX \<Rightarrow> (\<exists>rest. data = [CHR ''P'', CHR ''K'', CHR 0x03, CHR 0x04] @ rest) \<and> ff_is_zipfile ff data \<and>
          (\<exists>archive. ff_open_zip ff data = Some archive \<and> archive_bounded limits archive \<and>
             archive_parts_accepted ff archive)
      | CSV \<Rightarrow> csv_accepted ff limits data)"

lemma validate_xlsx_iff:
  "validate_xlsx_package ff limits data = Inr () \<longleftrightarrow> content_accepted ff limits XLSX data"
  by (auto simp: validate_xlsx_package_def content_accepted_def validate_archive_iff starts_with_iff
      OLE_COMPOUND_SIGNATURE_def split: option.splits)

lemma validate_content_iff: "validate_content ff limits kind data = Inr () \<longleftrightarrow> content_accepted ff limits kind data"
  by (cases kind)
     (simp_all add: validate_content_def validate_pdf_iff validate_xlsx_iff validate_csv_iff content_accepted_def)

lemma classify_kind:
  "classify_upload name declared = Inr (kind, detected) \<Longrightarrow>
     path_suffix (py_lower name) = (case kind of PDF \<Rightarrow> ''.pdf'' | XLSX \<Rightarrow> ''.xlsx'' | CSV \<Rightarrow> ''.csv'') \<and>
     detected = (case kind of PDF \<Rightarrow> PDF_MIME | XLSX \<Rightarrow> XLSX_MIME | CSV \<Rightarrow> ''text/csv'') \<and>
     media_type declared \<in> set (case kind of PDF \<Rightarrow> [PDF_MIME] | XLSX \<Rightarrow> [XLSX_MIME] | CSV \<Rightarrow> CSV_MIMES)"
  by (auto simp: classify_upload_def Let_def split: if_splits)

subsection \<open>Properties\<close>

definition example_formats :: file_formats where
  "example_formats = \<lparr>ff_nfkc = (\<lambda>s. s), ff_sha256 = (\<lambda>s. replicate 64 CHR ''0''), ff_is_zipfile = (\<lambda>s. False),
     ff_open_zip = (\<lambda>s. None), ff_xml = (\<lambda>s. None), ff_decode = (\<lambda>s. Some s),
     ff_csv = (\<lambda>n s. (map (split_on CHR '','') (split_on newline s), False))\<rparr>"

definition example_upload :: ValidationInput where
  "example_upload = \<lparr>vi_filename = ''..'' @ [CHR 0x5C] @ ''etc/ .Debt (2025.csv'',
     vi_declared_content_type = ''Text/CSV; charset=utf-8'', vi_data = ''a,b'' @ [newline] @ ''1,2''\<rparr>"

definition example_file_limits :: IngestionLimits where
  "example_file_limits = \<lparr>upload_bytes = 50, total_text_characters = 50, xlsx_zip_members = 3,
     xlsx_largest_member_bytes = 9, xlsx_total_expanded_bytes = 9, xlsx_expansion_ratio = 9,
     spreadsheet_rows_per_sheet = 9, spreadsheet_columns_per_row = 9, spreadsheet_total_cells = 9,
     spreadsheet_cell_characters = 9\<rparr>"

definition accepted_name :: "ValidationInput \<Rightarrow> string option" where
  "accepted_name u = (case validate_file example_formats example_file_limits u of Inr f \<Rightarrow> Some (vf_sanitized_filename f) | Inl _ \<Rightarrow> None)"

lemma example_upload_name: "accepted_name example_upload = Some ''Debt 2025.csv''"
  by code_simp



end
