(* ===== verification/Ingestion_Service.thy ===== *)
theory Ingestion_Service
  imports Indexing File_Validation
begin

text \<open>
  The document library, \<^verbatim>\<open>app/ingestion/service.py\<close> with the queries of \<^verbatim>\<open>app/ingestion/repository.py\<close>: uploads,
  reviews, deletion and the reads of an administrator.  An operation takes the committed store and returns the store
  committed when it ends; after an exception nobody handles, that is the store of its last commit.  The object storage,
  the parser and the embedding provider act on a world \<open>'v\<close> of their own and are arguments, as are the clock and the
  new identifiers of one operation.
\<close>

subsection \<open>Upload metadata\<close>

record DocumentUploadMetadata =
  um_tenant_id :: uuid
  um_company_id :: uuid
  um_department :: string
  um_visibility :: string
  um_classification :: string
  um_document_type :: string
  um_reporting_period :: "string option"

definition DOCUMENT_TYPES :: "string list" where
  "DOCUMENT_TYPES = [''FINANCIAL_REPORT'', ''LEGAL_AGREEMENT'', ''POLICY'', ''EMAIL'', ''SPREADSHEET'', ''OTHER'']"

text \<open>\<^verbatim>\<open>^[A-Za-z0-9][A-Za-z0-9 ._/-]*$\<close> with 1 to 64 characters.\<close>

definition reporting_period_ok :: "string \<Rightarrow> bool" where
  "reporting_period_ok s \<longleftrightarrow> length s \<le> 64 \<and>
     (case s of [] \<Rightarrow> False | c # cs \<Rightarrow> (is_letter c \<or> is_digit c) \<and>
        list_all (\<lambda>d. is_letter d \<or> is_digit d \<or> d \<in> set '' ._/-'') cs)"

definition required_pair :: "string \<Rightarrow> (string \<times> string) option" where
  "required_pair department = map_of
     [(''finance'', (''DEPARTMENT_PRIVATE'', ''FINANCE_ONLY'')),
      (''legal'', (''DEPARTMENT_PRIVATE'', ''LEGAL_ONLY_CONFIDENTIAL'')),
      (''shared'', (''TENANT_SHARED'', ''TENANT_SHARED''))] department"

definition upload_metadata_ok :: "DocumentUploadMetadata \<Rightarrow> bool" where
  "upload_metadata_ok m \<longleftrightarrow>
     um_document_type m \<in> set DOCUMENT_TYPES \<and>
     (case um_reporting_period m of None \<Rightarrow> True | Some s \<Rightarrow> reporting_period_ok s) \<and>
     required_pair (um_department m) = Some (um_visibility m, um_classification m) \<and>
     (um_document_type m \<in> {''FINANCIAL_REPORT'', ''SPREADSHEET''} \<longrightarrow> um_reporting_period m \<noteq> None)"

lemma upload_metadata_acl:
  "upload_metadata_ok m \<Longrightarrow> ck_acl_metadata (um_department m) (um_visibility m) (um_classification m)"
  by (auto simp: upload_metadata_ok_def required_pair_def ck_acl_metadata_def split: if_splits)

subsection \<open>The environment and the errors\<close>

datatype library_error = LibraryError nat string | Unhandled

datatype storage_exn = StorageFailed string | StorageRaises

datatype parser_exn = ParsingFailed string | ParserRaises

record StoredObject =
  sto_size_bytes :: nat
  sto_sha256 :: string

record ParsedUpload = ParsedDocument +
  doc_warnings :: "string list"
  doc_page_count :: int
  doc_sheet_count :: int
  doc_row_count :: int
  doc_cell_count :: int

record 'v ingestion_env =
  ie_formats :: file_formats
  ie_limits :: IngestionLimits
  ie_uuid_text :: "uuid \<Rightarrow> string"
  ie_text_sha256 :: "string \<Rightarrow> string"
  ie_put_bytes :: "string \<Rightarrow> string \<Rightarrow> 'v \<Rightarrow> (storage_exn, StoredObject) result \<times> 'v"
  ie_delete :: "string \<Rightarrow> 'v \<Rightarrow> (storage_exn, unit) result \<times> 'v"
  ie_parser :: "ValidatedFile \<Rightarrow> 'v \<Rightarrow> (parser_exn, ParsedUpload) result \<times> 'v"
  ie_provider :: "'v EmbeddingProvider"
  ie_batch_size :: int
  ie_max_chunks :: int

text \<open>The identifiers and the time one operation uses.\<close>

record fresh =
  fr_document :: uuid
  fr_version :: uuid
  fr_job :: uuid
  fr_chunk :: "nat \<Rightarrow> uuid"
  fr_now :: rat

type_synonym 'a outcome = "(library_error, 'a) result \<times> docstore"

definition and_then :: "'a outcome \<Rightarrow> ('a \<Rightarrow> docstore \<Rightarrow> 'b outcome) \<Rightarrow> 'b outcome" where
  "and_then r f = (case r of (Inl e, db) \<Rightarrow> (Inl e, db) | (Inr a, db) \<Rightarrow> f a db)"

lemma and_then_simps [simp]:
  "and_then (Inl e, db) f = (Inl e, db)"
  "and_then (Inr a, db) f = f a db"
  by (simp_all add: and_then_def)

subsection \<open>Queries of the repository\<close>

definition manageable_pairs :: "(uuid \<Rightarrow> string) \<Rightarrow> AuthorizationScope \<Rightarrow> (uuid \<times> uuid) list" where
  "manageable_pairs uuid_text scope =
     sort_key (\<lambda>(t, c). (uuid_text t, uuid_text c))
       (remdups [(workspace_id g, c). g \<leftarrow> grants scope, MANAGE_UPLOADS \<in> set (capabilities g) \<and> grant_role g = ''admin'',
                 c \<leftarrow> company_ids g])"

definition manageable_clause :: "(uuid \<Rightarrow> string) \<Rightarrow> AuthorizationScope \<Rightarrow> Document \<Rightarrow> bool" where
  "manageable_clause uuid_text scope d =
     list_ex (\<lambda>(t, c). dc_tenant_id d = t \<and> dc_company_id d = c) (manageable_pairs uuid_text scope)"

definition get_active_company :: "docstore \<Rightarrow> uuid \<Rightarrow> uuid \<Rightarrow> Company option" where
  "get_active_company db tenant_id company_id =
     List.find (\<lambda>c. co_id c = company_id \<and> co_tenant_id c = tenant_id \<and> co_status c = ''active'' \<and>
       list_ex (\<lambda>t. tn_id t = co_tenant_id c \<and> tn_status t = ''active'') (ds_tenants db)) (ds_companies db)"

definition get_department_by_key :: "docstore \<Rightarrow> string \<Rightarrow> Department option" where
  "get_department_by_key db key = List.find (\<lambda>p. dp_key p = key) (ds_departments db)"

definition get_idempotent_version :: "docstore \<Rightarrow> uuid \<Rightarrow> string \<Rightarrow> DocumentVersion option" where
  "get_idempotent_version db actor key =
     List.find (\<lambda>v. dv_uploaded_by v = actor \<and> dv_idempotency_key v = key) (ds_versions db)"

text \<open>Versions of different documents may have the same number; the query leaves their order open, the model takes
  the first in the table.\<close>

definition find_initial_duplicate ::
  "docstore \<Rightarrow> DocumentUploadMetadata \<Rightarrow> uuid \<Rightarrow> string \<Rightarrow> (DocumentVersion \<times> Document) option" where
  "find_initial_duplicate db m department_id checksum =
     (let rows = [(v, d). v \<leftarrow> ds_versions db, d \<leftarrow> filter (\<lambda>d. dc_id d = dv_document_id v) (ds_documents db),
            dc_tenant_id d = um_tenant_id m \<and> dc_company_id d = um_company_id m \<and> dc_department_id d = department_id \<and>
            dc_visibility d = um_visibility m \<and> dc_classification d = um_classification m \<and>
            dc_document_type d = um_document_type m \<and> dc_reporting_period d = um_reporting_period m \<and>
            dc_deleted_at d = None \<and> dv_checksum v = checksum \<and> dv_deleted_at v = None \<and>
            dv_status v \<in> {''PREVIEW_READY'', ''APPROVED''}] in
      case sort_key (\<lambda>(v, d). - dv_number v) rows of [] \<Rightarrow> None | r # _ \<Rightarrow> Some r)"

definition get_document_for_management :: "(uuid \<Rightarrow> string) \<Rightarrow> docstore \<Rightarrow> AuthorizationScope \<Rightarrow> uuid \<Rightarrow> Document option" where
  "get_document_for_management uuid_text db scope document_id =
     List.find (\<lambda>d. dc_id d = document_id \<and> manageable_clause uuid_text scope d \<and> dc_deleted_at d = None) (ds_documents db)"

definition get_version_for_management ::
  "(uuid \<Rightarrow> string) \<Rightarrow> docstore \<Rightarrow> AuthorizationScope \<Rightarrow> uuid \<Rightarrow> uuid \<Rightarrow> (Document \<times> DocumentVersion) option" where
  "get_version_for_management uuid_text db scope document_id version_id =
     (case get_document_for_management uuid_text db scope document_id of
        None \<Rightarrow> None
      | Some d \<Rightarrow>
          (case List.find (\<lambda>v. dv_id v = version_id) (document_versions db (dc_id d)) of
             None \<Rightarrow> None
           | Some v \<Rightarrow> if dv_deleted_at v \<noteq> None then None else Some (d, v)))"

definition get_job_for_management ::
  "(uuid \<Rightarrow> string) \<Rightarrow> docstore \<Rightarrow> AuthorizationScope \<Rightarrow> uuid \<Rightarrow> (Document \<times> DocumentVersion) option" where
  "get_job_for_management uuid_text db scope job_id =
     List.find (\<lambda>(d, v). dc_deleted_at d = None \<and> manageable_clause uuid_text scope d)
       [(d, v). v \<leftarrow> filter (\<lambda>v. ij_id (dv_job v) = job_id) (ds_versions db),
                d \<leftarrow> filter (\<lambda>d. dc_id d = dv_document_id v) (ds_documents db)]"

subsection \<open>Decisions every operation shares\<close>

definition event_at :: "string \<Rightarrow> string \<Rightarrow> string \<Rightarrow> string \<Rightarrow> uuid \<Rightarrow> Document \<Rightarrow> DocumentVersion \<Rightarrow> DocumentAuditEvent" where
  "event_at event_type outcome reason request_id actor d v =
     (document_event event_type outcome reason request_id actor)
       \<lparr>ae_tenant_id := Some (dc_tenant_id d), ae_company_id := Some (dc_company_id d), ae_document_id := Some (dc_id d),
        ae_document_version_id := Some (dv_id v), ae_ingestion_job_id := Some (ij_id (dv_job v))\<rparr>"

fun reason_text :: "PolicyReason \<Rightarrow> string" where
  "reason_text ALLOW_TENANT_DEPARTMENT = ''ALLOW_TENANT_DEPARTMENT''"
| "reason_text ALLOW_TENANT_SHARED = ''ALLOW_TENANT_SHARED''"
| "reason_text ALLOW_EXPLICIT_CROSS_DEPARTMENT = ''ALLOW_EXPLICIT_CROSS_DEPARTMENT''"
| "reason_text ALLOW_ADMIN_UPLOAD = ''ALLOW_ADMIN_UPLOAD''"
| "reason_text ALLOW_PLATFORM_ADMIN = ''ALLOW_PLATFORM_ADMIN''"
| "reason_text DENY_WORKSPACE = ''DENY_WORKSPACE''"
| "reason_text DENY_COMPANY = ''DENY_COMPANY''"
| "reason_text DENY_DEPARTMENT = ''DENY_DEPARTMENT''"
| "reason_text DENY_CAPABILITY = ''DENY_CAPABILITY''"
| "reason_text DENY_ROLE = ''DENY_ROLE''"
| "reason_text DENY_DEFAULT = ''DENY_DEFAULT''"

definition manage_request :: "uuid \<Rightarrow> uuid \<Rightarrow> PolicyRequest" where
  "manage_request tenant_id company_id =
     \<lparr>req_capability = MANAGE_UPLOADS, req_workspace_id = tenant_id, req_company_id = Some company_id,
      req_department = None\<rparr>"

definition authorize_target ::
  "AuthorizationContext \<Rightarrow> uuid \<Rightarrow> uuid \<Rightarrow> string \<Rightarrow> string \<Rightarrow> bool \<Rightarrow> uuid option \<Rightarrow> docstore \<Rightarrow> unit outcome" where
  "authorize_target cx tenant_id company_id request_id event_type resource_denial document_id db =
     (let decision = authorize (ctx_scope cx) (manage_request tenant_id company_id) in
      if allowed decision then (Inr (), db)
      else (Inl (if resource_denial then LibraryError 404 ''not_found'' else LibraryError 403 ''forbidden''),
        record_document_event ((document_event event_type ''deny'' (reason_text (reason_code decision)) request_id
          (identity_user_id (ctx_identity cx)))\<lparr>ae_document_id := document_id\<rparr>) db))"

definition require_any_manage_permission ::
  "(uuid \<Rightarrow> string) \<Rightarrow> AuthorizationContext \<Rightarrow> string \<Rightarrow> string \<Rightarrow> docstore \<Rightarrow> unit outcome" where
  "require_any_manage_permission uuid_text cx request_id event_type db =
     (if manageable_pairs uuid_text (ctx_scope cx) \<noteq> [] then (Inr (), db)
      else (Inl (LibraryError 403 ''forbidden''),
        record_document_event (document_event event_type ''deny'' ''DENY_CAPABILITY'' request_id
          (identity_user_id (ctx_identity cx))) db))"

definition raise_not_found :: "AuthorizationContext \<Rightarrow> string \<Rightarrow> string \<Rightarrow> docstore \<Rightarrow> 'a outcome" where
  "raise_not_found cx request_id event_type db =
     (Inl (LibraryError 404 ''not_found''),
      record_document_event (document_event event_type ''deny'' ''RESOURCE_NOT_MANAGEABLE'' request_id
        (identity_user_id (ctx_identity cx))) db)"

definition metadata_matches_document :: "docstore \<Rightarrow> Document \<Rightarrow> DocumentUploadMetadata \<Rightarrow> bool" where
  "metadata_matches_document db d m \<longleftrightarrow>
     dc_tenant_id d = um_tenant_id m \<and> dc_company_id d = um_company_id m \<and>
     department_key db (dc_department_id d) = um_department m \<and> dc_visibility d = um_visibility m \<and>
     dc_classification d = um_classification m \<and> dc_document_type d = um_document_type m \<and>
     dc_reporting_period d = um_reporting_period m"

definition authorize_upload_target ::
  "(uuid \<Rightarrow> string) \<Rightarrow> AuthorizationContext \<Rightarrow> DocumentUploadMetadata \<Rightarrow> string \<Rightarrow> uuid option \<Rightarrow> docstore \<Rightarrow>
   (Company \<times> Department \<times> Document option) outcome" where
  "authorize_upload_target uuid_text cx m request_id document_id db =
     (let deny = (\<lambda>event_type reason document. (document_event event_type ''deny'' reason request_id
            (identity_user_id (ctx_identity cx)))\<lparr>ae_document_id := document\<rparr>) in
      and_then (authorize_target cx (um_tenant_id m) (um_company_id m) request_id ''document_upload'' False None db)
      (\<lambda>_ db.
        case (get_active_company db (um_tenant_id m) (um_company_id m), get_department_by_key db (um_department m)) of
          (Some company, Some department) \<Rightarrow>
            (case document_id of
               None \<Rightarrow> (Inr (company, department, None), db)
             | Some i \<Rightarrow>
                 (case get_document_for_management uuid_text db (ctx_scope cx) i of
                    None \<Rightarrow> raise_not_found cx request_id ''document_version_upload'' db
                  | Some d \<Rightarrow>
                      and_then (authorize_target cx (dc_tenant_id d) (dc_company_id d) request_id
                          ''document_version_upload'' True (Some (dc_id d)) db)
                      (\<lambda>_ db.
                        if \<not> metadata_matches_document db d m
                        then (Inl (LibraryError 409 ''document_metadata_conflict''),
                          record_document_event (deny ''document_version_upload'' ''DOCUMENT_METADATA_CONFLICT'' (Some (dc_id d))) db)
                        else (Inr (company, department, Some d), db))))
        | _ \<Rightarrow> (Inl (LibraryError 422 ''invalid_document_metadata''),
            record_document_event (deny ''document_upload'' ''INVALID_DOCUMENT_METADATA'' None) db)))"

text \<open>\<^verbatim>\<open>_transition\<close>: both rows are validated before either is written.\<close>

definition transition ::
  "rat \<Rightarrow> string \<Rightarrow> string option \<Rightarrow> DocumentVersion \<Rightarrow> (transition_error, DocumentVersion) result" where
  "transition now target safe_error_code v =
     bindR (validate_transition (dv_status v) target) (\<lambda>_.
     bindR (validate_transition (ij_status (dv_job v)) target) (\<lambda>_.
       let job = (dv_job v)\<lparr>ij_status := target, ij_safe_error_code := safe_error_code\<rparr>;
           job = (if ij_started_at job = None \<and> target = ''VALIDATING'' then job\<lparr>ij_started_at := Some now\<rparr> else job);
           job = (if target \<in> {''PREVIEW_READY'', ''APPROVED'', ''REJECTED'', ''VALIDATION_FAILED'', ''PARSING_FAILED'', ''DELETED''}
                  then job\<lparr>ij_completed_at := Some now\<rparr> else job) in
       Inr (v\<lparr>dv_status := target, dv_job := job\<rparr>)))"

text \<open>Writing a changed row back.\<close>

definition put_version :: "DocumentVersion \<Rightarrow> docstore \<Rightarrow> docstore" where
  "put_version v db = db\<lparr>ds_versions := map (\<lambda>x. if dv_id x = dv_id v then v else x) (ds_versions db)\<rparr>"

definition put_document :: "Document \<Rightarrow> docstore \<Rightarrow> docstore" where
  "put_document d db = db\<lparr>ds_documents := map (\<lambda>x. if dc_id x = dc_id d then d else x) (ds_documents db)\<rparr>"

definition add_version :: "DocumentVersion \<Rightarrow> docstore \<Rightarrow> docstore" where
  "add_version v db = db\<lparr>ds_versions := ds_versions db @ [v]\<rparr>"

definition add_document :: "Document \<Rightarrow> docstore \<Rightarrow> docstore" where
  "add_document d db = db\<lparr>ds_documents := ds_documents db @ [d]\<rparr>"

subsection \<open>Responses\<close>

record DocumentVersionData =
  vd_id :: uuid
  vd_version_number :: int
  vd_original_filename :: string
  vd_media_type :: string
  vd_source_type :: string
  vd_checksum_sha256 :: string
  vd_size_bytes :: int
  vd_status :: IngestionStatus
  vd_counts :: "int \<times> int \<times> int \<times> int"
  vd_warnings :: "(string \<times> string) list"
  vd_uploaded_by :: uuid
  vd_approved_by :: "uuid option"

record DocumentData =
  dd_id :: uuid
  dd_tenant :: Tenant
  dd_company :: Company
  dd_department :: string
  dd_visibility :: string
  dd_classification :: string
  dd_document_type :: string
  dd_reporting_period :: "string option"
  dd_current_version :: "uuid option"
  dd_version :: DocumentVersionData
  dd_job_id :: uuid

definition version_data :: "DocumentVersion \<Rightarrow> DocumentVersionData option" where
  "version_data v = map_option (\<lambda>status.
     \<lparr>vd_id = dv_id v, vd_version_number = dv_number v, vd_original_filename = dv_original_filename v,
      vd_media_type = dv_detected_media_type v,
      vd_source_type = (case source_kind (dv_detected_media_type v) of Some PDF \<Rightarrow> ''PDF'' | Some XLSX \<Rightarrow> ''XLSX''
        | Some CSV \<Rightarrow> ''CSV'' | None \<Rightarrow> ''UNKNOWN''),
      vd_checksum_sha256 = dv_checksum v, vd_size_bytes = dv_size_bytes v, vd_status = status,
      vd_counts = (dv_page_count v, dv_sheet_count v, dv_row_count v, dv_cell_count v), vd_warnings = dv_warnings v,
      vd_uploaded_by = dv_uploaded_by v, vd_approved_by = dv_approved_by v\<rparr>) (IngestionStatus_of (dv_status v))"

definition latest_version :: "docstore \<Rightarrow> Document \<Rightarrow> DocumentVersion option" where
  "latest_version db d =
     (case rev (document_versions db (dc_id d)) of [] \<Rightarrow> None | v # _ \<Rightarrow>
        List.find (\<lambda>w. dv_number w = dv_number v) (document_versions db (dc_id d)))"

text \<open>\<open>None\<close> is an exception: a value outside the enumerations of the response.\<close>

definition document_data :: "docstore \<Rightarrow> Document \<Rightarrow> DocumentVersion \<Rightarrow> DocumentData option" where
  "document_data db d v =
     (case (List.find (\<lambda>t. tn_id t = dc_tenant_id d) (ds_tenants db),
            List.find (\<lambda>c. co_id c = dc_company_id d) (ds_companies db), version_data v) of
        (Some tenant, Some company, Some data) \<Rightarrow>
          if dc_visibility d \<in> {''DEPARTMENT_PRIVATE'', ''TENANT_SHARED''} \<and>
             dc_classification d \<in> {''FINANCE_ONLY'', ''LEGAL_ONLY_CONFIDENTIAL'', ''TENANT_SHARED''} \<and>
             dc_document_type d \<in> set DOCUMENT_TYPES
          then Some \<lparr>dd_id = dc_id d, dd_tenant = tenant, dd_company = company,
                dd_department = department_key db (dc_department_id d), dd_visibility = dc_visibility d,
                dd_classification = dc_classification d, dd_document_type = dc_document_type d,
                dd_reporting_period = dc_reporting_period d, dd_current_version = dc_current_version d,
                dd_version = data, dd_job_id = ij_id (dv_job v)\<rparr>
          else None
      | _ \<Rightarrow> None)"

text \<open>The result of an upload: the data, \<^verbatim>\<open>deduplicated\<close>, and whether something was created.\<close>

definition upload_result :: "docstore \<Rightarrow> Document \<Rightarrow> DocumentVersion \<Rightarrow> bool \<Rightarrow> (DocumentData \<times> bool \<times> bool) outcome" where
  "upload_result db d v created =
     (case document_data db d v of
        None \<Rightarrow> (Inl Unhandled, db)
      | Some data \<Rightarrow> (Inr (data, \<not> created, created), db))"

definition raise_for_ingestion_error :: "ingestion_error \<Rightarrow> library_error" where
  "raise_for_ingestion_error e =
     (if error_code e = ''FILE_TOO_LARGE'' then LibraryError 413 ''file_too_large''
      else if error_code e \<in> {''UNSUPPORTED_FILE_TYPE'', ''CONTENT_TYPE_MISMATCH'', ''INVALID_FILE_SIGNATURE''}
      then LibraryError 415 ''unsupported_document''
      else case e of ObjectStorageError _ \<Rightarrow> LibraryError 503 ''storage_unavailable''
           | FileError _ \<Rightarrow> LibraryError 422 ''unsafe_document'' | UncaughtError \<Rightarrow> Unhandled)"

definition raise_for_replayed_failure :: "DocumentVersion \<Rightarrow> library_error" where
  "raise_for_replayed_failure v =
     (let code = (case ij_safe_error_code (dv_job v) of Some c \<Rightarrow> if c \<in> set INGESTION_ERROR_CODES then Some c else None
                  | None \<Rightarrow> None) in
      if code = Some ''FILE_TOO_LARGE'' then LibraryError 413 ''file_too_large''
      else if code \<in> Some ` {''UNSUPPORTED_FILE_TYPE'', ''CONTENT_TYPE_MISMATCH'', ''INVALID_FILE_SIGNATURE''}
      then LibraryError 415 ''unsupported_document''
      else if code \<in> Some ` {''STORAGE_UNAVAILABLE'', ''STORAGE_KEY_INVALID'', ''STORAGE_CONFLICT''}
      then LibraryError 503 ''storage_unavailable''
      else LibraryError 422 ''unsafe_document'')"

subsection \<open>The fingerprint of a request\<close>

text \<open>\<^verbatim>\<open>json.dumps\<close> of a text with every character outside printable ASCII escaped.\<close>

definition ascii_json_char :: "char \<Rightarrow> string" where
  "ascii_json_char c =
     (let n = (of_char c :: nat) in
      if 127 \<le> n then [CHR 0x5C, CHR ''u'', CHR ''0'', CHR ''0'', hex_digit (n div 16), hex_digit (n mod 16)]
      else json_char c)"

definition ascii_json :: "string \<Rightarrow> string" where
  "ascii_json s = [CHR 0x22] @ concat (map ascii_json_char s) @ [CHR 0x22]"

definition json_object :: "(string \<times> string) list \<Rightarrow> string" where
  "json_object items = ''{'' @ join '','' (map (\<lambda>(k, v). ascii_json k @ '':'' @ v) items) @ ''}''"

definition json_option :: "string option \<Rightarrow> string" where
  "json_option x = (case x of None \<Rightarrow> ''null'' | Some s \<Rightarrow> ascii_json s)"

text \<open>Keys in sorted order, separators without blanks.\<close>

definition metadata_json :: "(uuid \<Rightarrow> string) \<Rightarrow> DocumentUploadMetadata \<Rightarrow> string" where
  "metadata_json uuid_text m = json_object
     [(''classification'', ascii_json (um_classification m)), (''company_id'', ascii_json (uuid_text (um_company_id m))),
      (''department'', ascii_json (um_department m)), (''document_type'', ascii_json (um_document_type m)),
      (''reporting_period'', json_option (um_reporting_period m)), (''tenant_id'', ascii_json (uuid_text (um_tenant_id m))),
      (''visibility'', ascii_json (um_visibility m))]"

definition request_fingerprint ::
  "'v ingestion_env \<Rightarrow> DocumentUploadMetadata \<Rightarrow> string \<Rightarrow> string \<Rightarrow> string \<Rightarrow> uuid option \<Rightarrow> string" where
  "request_fingerprint env m data filename declared document_id =
     ie_text_sha256 env (json_object
       [(''declared_content_type'', ascii_json declared),
        (''document_id'', json_option (map_option (ie_uuid_text env) document_id)), (''filename'', ascii_json filename),
        (''metadata'', metadata_json (ie_uuid_text env) m), (''sha256'', ascii_json (ff_sha256 (ie_formats env) data))])"

subsection \<open>Uploads\<close>

record upload_request =
  up_metadata :: DocumentUploadMetadata
  up_filename :: string
  up_declared_content_type :: string
  up_data :: string
  up_idempotency_key :: string
  up_request_id :: string
  up_document_id :: "uuid option"

definition new_document :: "fresh \<Rightarrow> AuthorizationContext \<Rightarrow> DocumentUploadMetadata \<Rightarrow> Department \<Rightarrow> Document" where
  "new_document fr cx m department =
     \<lparr>dc_id = fr_document fr, dc_tenant_id = um_tenant_id m, dc_company_id = um_company_id m,
      dc_department_id = dp_id department, dc_visibility = um_visibility m, dc_classification = um_classification m,
      dc_document_type = um_document_type m, dc_reporting_period = um_reporting_period m,
      dc_created_by = identity_user_id (ctx_identity cx), dc_current_version = None, dc_deleted_at = None,
      dc_created_at = fr_now fr\<rparr>"

text \<open>\<open>None\<close> is the \<^verbatim>\<open>ValueError\<close> of \<^verbatim>\<open>max\<close> on no versions.\<close>

definition target_of ::
  "fresh \<Rightarrow> AuthorizationContext \<Rightarrow> DocumentUploadMetadata \<Rightarrow> Department \<Rightarrow> Document option \<Rightarrow> docstore \<Rightarrow>
   (Document \<times> int \<times> docstore) option" where
  "target_of fr cx m department target db =
     (case target of
        None \<Rightarrow> let d = new_document fr cx m department in Some (d, 1, add_document d db)
      | Some d \<Rightarrow>
          let numbers = map dv_number (document_versions db (dc_id d)) in
          if numbers = [] then None else Some (d, Max (set numbers) + 1, db))"

definition uploaded_version ::
  "fresh \<Rightarrow> AuthorizationContext \<Rightarrow> upload_request \<Rightarrow> string \<Rightarrow> Document \<Rightarrow> int \<Rightarrow> string \<Rightarrow> string \<Rightarrow> string \<Rightarrow> string \<Rightarrow>
   string \<Rightarrow> nat \<Rightarrow> DocumentVersion" where
  "uploaded_version fr cx rq fingerprint d number name extension declared detected checksum bytes =
     \<lparr>dv_id = fr_version fr, dv_document_id = dc_id d, dv_number = number, dv_idempotency_key = up_idempotency_key rq,
      dv_request_fingerprint = fingerprint, dv_original_filename = name, dv_safe_filename = name,
      dv_extension = extension, dv_declared_media_type = declared, dv_detected_media_type = detected,
      dv_checksum = checksum, dv_size_bytes = int bytes, dv_storage_key = None, dv_status = ''UPLOADED'', dv_warnings = [],
      dv_page_count = 0, dv_sheet_count = 0, dv_row_count = 0, dv_cell_count = 0,
      dv_uploaded_by = identity_user_id (ctx_identity cx), dv_approved_by = None, dv_approved_at = None,
      dv_rejected_by = None, dv_rejected_at = None, dv_deleted_at = None,
      dv_job = \<lparr>ij_id = fr_job fr, ij_status = ''UPLOADED'', ij_safe_error_code = None, ij_started_at = None,
        ij_completed_at = None\<rparr>, dv_pages = [], dv_sheets = []\<rparr>"

definition upload_event_metadata :: "DocumentUploadMetadata \<Rightarrow> (string \<times> meta_value) list" where
  "upload_event_metadata m =
     [(''department'', MText (um_department m)), (''visibility'', MText (um_visibility m)),
      (''classification'', MText (um_classification m)), (''document_type'', MText (um_document_type m))]"

definition persist_validation_failure ::
  "'v ingestion_env \<Rightarrow> fresh \<Rightarrow> AuthorizationContext \<Rightarrow> upload_request \<Rightarrow> string \<Rightarrow> Department \<Rightarrow> Document option \<Rightarrow>
   ingestion_error \<Rightarrow> docstore \<Rightarrow> unit outcome" where
  "persist_validation_failure env fr cx rq fingerprint department target error db =
     (let m = up_metadata rq; data = up_data rq;
          safe_filename = (case sanitize_filename (ie_formats env) 128 (up_filename rq) of Inr n \<Rightarrow> n | Inl _ \<Rightarrow> ''rejected-upload'') in
      case target_of fr cx m department target db of
        None \<Rightarrow> (Inl Unhandled, db)
      | Some (d, number, db1) \<Rightarrow>
          let suffix = path_suffix (py_lower safe_filename);
              suffix = (if suffix \<notin> {''.pdf'', ''.xlsx'', ''.csv''} then [] else suffix);
              v = uploaded_version fr cx rq fingerprint d number safe_filename suffix (take 160 (up_declared_content_type rq))
                    ''application/octet-stream'' (ff_sha256 (ie_formats env) data) (length data) in
          case bindR (transition (fr_now fr) ''VALIDATING'' None v)
                 (transition (fr_now fr) ''VALIDATION_FAILED'' (Some (error_code error))) of
            Inl _ \<Rightarrow> (Inl Unhandled, db)
          | Inr v \<Rightarrow>
              (Inr (), record_document_event ((event_at ''document_validate'' ''error'' (error_code error) (up_request_id rq)
                   (identity_user_id (ctx_identity cx)) d v)
                   \<lparr>ae_metadata := (''size_bytes'', MInt (int (length data))) # upload_event_metadata m\<rparr>) (add_version v db1)))"

text \<open>A key that was used before: the same request is answered again, another one refused.\<close>

definition replay_upload ::
  "'v ingestion_env \<Rightarrow> AuthorizationContext \<Rightarrow> upload_request \<Rightarrow> string \<Rightarrow> DocumentVersion \<Rightarrow> docstore \<Rightarrow>
   (DocumentData \<times> bool \<times> bool) outcome" where
  "replay_upload env cx rq fingerprint v db =
     (let actor = identity_user_id (ctx_identity cx); request_id = up_request_id rq in
      if dv_request_fingerprint v \<noteq> fingerprint then
        (Inl (LibraryError 409 ''idempotency_conflict''),
         record_document_event ((document_event ''document_upload'' ''deny'' ''IDEMPOTENCY_CONFLICT'' request_id actor)
           \<lparr>ae_document_id := Some (dv_document_id v), ae_document_version_id := Some (dv_id v)\<rparr>) db)
      else case get_document_for_management (ie_uuid_text env) db (ctx_scope cx) (dv_document_id v) of
        None \<Rightarrow> raise_not_found cx request_id ''document_upload'' db
      | Some managed \<Rightarrow>
          (case IngestionStatus_of (dv_status v) of
             None \<Rightarrow> (Inl Unhandled, db)
           | Some status \<Rightarrow>
               let failed = (status \<in> {VALIDATION_FAILED, PARSING_FAILED});
                   db = record_document_event (event_at ''document_upload'' (if failed then ''error'' else ''allow'')
                     (if failed then ''IDEMPOTENT_FAILURE_REPLAY'' else ''IDEMPOTENT_REPLAY'') request_id actor managed v) db in
               if failed then (Inl (raise_for_replayed_failure v), db)
               else upload_result db managed v False))"

definition page_row :: "ParsedPage \<Rightarrow> PageRow" where
  "page_row p = \<lparr>pr_page_number = pg_page_number p, pr_text = pg_text p, pr_character_count = int (length (pg_text p))\<rparr>"

definition value_kind_text :: "ValueKind \<Rightarrow> string" where
  "value_kind_text k = (case k of V_TEXT \<Rightarrow> ''text'' | V_NUMBER \<Rightarrow> ''number'' | V_BOOLEAN \<Rightarrow> ''boolean'' | V_DATE \<Rightarrow> ''date''
     | V_FORMULA \<Rightarrow> ''formula'' | V_ERROR \<Rightarrow> ''error'')"

definition cell_row :: "ParsedCell \<Rightarrow> CellRow" where
  "cell_row c = \<lparr>cr_column_number = cl_column_number c, cr_coordinate = cl_coordinate c, cr_value_text = cl_value_text c,
     cr_value_kind = value_kind_text (cl_value_kind c), cr_formula_like = cl_formula_like c\<rparr>"

definition sheet_row :: "ParsedSheet \<Rightarrow> SheetRow" where
  "sheet_row s =
     \<lparr>st_sheet_index = sh_sheet_index s, st_name = sh_name s, st_row_count = int (length (sh_rows s)),
      st_column_count = fold max [cl_column_number c. r \<leftarrow> sh_rows s, c \<leftarrow> rw_cells r] 0,
      st_rows = map (\<lambda>r. \<lparr>rr_row_number = rw_row_number r, rr_cells = map cell_row (rw_cells r)\<rparr>) (sh_rows s)\<rparr>"

definition with_parsed :: "ParsedUpload \<Rightarrow> DocumentVersion \<Rightarrow> DocumentVersion" where
  "with_parsed p v =
     v\<lparr>dv_warnings := map (\<lambda>w. (''PARSER_WARNING'', w)) (doc_warnings p), dv_page_count := doc_page_count p,
       dv_sheet_count := doc_sheet_count p, dv_row_count := doc_row_count p, dv_cell_count := doc_cell_count p,
       dv_pages := dv_pages v @ map page_row (doc_pages p), dv_sheets := dv_sheets v @ map sheet_row (doc_sheets p)\<rparr>"

text \<open>The constraints of the tables of pages, sheets, rows and cells, which the commit of an upload checks.\<close>

definition parsed_row_ok :: "RowRow \<Rightarrow> bool" where
  "parsed_row_ok r \<longleftrightarrow> 0 < rr_row_number r \<and> distinct (map cr_column_number (rr_cells r)) \<and>
     list_all (\<lambda>c. 0 < cr_column_number c \<and> length (cr_coordinate c) \<le> 24) (rr_cells r)"

definition parsed_sheet_ok :: "SheetRow \<Rightarrow> bool" where
  "parsed_sheet_ok s \<longleftrightarrow> 0 \<le> st_sheet_index s \<and> length (st_name s) \<le> 128 \<and>
     distinct (map rr_row_number (st_rows s)) \<and> list_all parsed_row_ok (st_rows s)"

definition parsed_tables_ok :: "DocumentVersion \<Rightarrow> bool" where
  "parsed_tables_ok v \<longleftrightarrow>
     distinct (map pr_page_number (dv_pages v)) \<and> list_all (\<lambda>p. 0 < pr_page_number p) (dv_pages v) \<and>
     distinct (map st_sheet_index (dv_sheets v)) \<and> distinct (map st_name (dv_sheets v)) \<and>
     list_all parsed_sheet_ok (dv_sheets v)"

text \<open>The outcome of an operation that also used the world outside the store.\<close>

type_synonym ('a, 'v) effect = "(library_error, 'a) result \<times> docstore \<times> 'v"

definition with_world :: "'a outcome \<Rightarrow> 'v \<Rightarrow> ('a, 'v) effect" where
  "with_world r w = (fst r, snd r, w)"

text \<open>\<^verbatim>\<open>StorageKey.generate\<close>.\<close>

definition storage_key :: "'v ingestion_env \<Rightarrow> uuid \<Rightarrow> uuid \<Rightarrow> uuid \<Rightarrow> string" where
  "storage_key env tenant_id document_id version_id =
     ie_uuid_text env tenant_id @ ''/'' @ ie_uuid_text env document_id @ ''/'' @ ie_uuid_text env version_id @ ''/source''"

text \<open>The end of a failed upload: the version gets its final status, the events are recorded, all is committed.\<close>

definition fail_upload ::
  "fresh \<Rightarrow> string \<Rightarrow> string \<Rightarrow> (DocumentVersion \<Rightarrow> DocumentAuditEvent list) \<Rightarrow> ingestion_error \<Rightarrow> DocumentVersion \<Rightarrow>
   docstore \<Rightarrow> docstore \<Rightarrow> 'a outcome" where
  "fail_upload fr target code events error v saved db =
     (case transition (fr_now fr) target (Some code) v of
        Inl _ \<Rightarrow> (Inl Unhandled, saved)
      | Inr v \<Rightarrow> (Inl (raise_for_ingestion_error error), fold record_document_event (events v) (put_version v db)))"

definition parse_upload ::
  "'v ingestion_env \<Rightarrow> fresh \<Rightarrow> AuthorizationContext \<Rightarrow> upload_request \<Rightarrow> ValidatedFile \<Rightarrow> string \<Rightarrow> Document \<Rightarrow>
   DocumentVersion \<Rightarrow> docstore \<Rightarrow> docstore \<Rightarrow> 'v \<Rightarrow> (DocumentData \<times> bool \<times> bool, 'v) effect" where
  "parse_upload env fr cx rq validated key d v saved db w =
     (let event = (\<lambda>event_type outcome reason v. event_at event_type outcome reason (up_request_id rq)
            (identity_user_id (ctx_identity cx)) d v) in
      case transition (fr_now fr) ''PARSING'' None v of
        Inl _ \<Rightarrow> (Inl Unhandled, saved, w)
      | Inr v \<Rightarrow>
          (case ie_parser env validated w of
             (Inl ParserRaises, w) \<Rightarrow> (Inl Unhandled, saved, w)
           | (Inl (ParsingFailed code), w) \<Rightarrow>
               (case ie_delete env key w of
                  (Inl StorageRaises, w) \<Rightarrow> (Inl Unhandled, saved, w)
                | (Inl (StorageFailed cleanup), w) \<Rightarrow> with_world
                    (fail_upload fr ''PARSING_FAILED'' code
                       (\<lambda>v. [event ''document_storage_cleanup'' ''error'' cleanup v, event ''document_parse'' ''error'' code v])
                       (FileError code) v saved db) w
                | (Inr _, w) \<Rightarrow> with_world
                    (fail_upload fr ''PARSING_FAILED'' code (\<lambda>v. [event ''document_parse'' ''error'' code v])
                       (FileError code) (v\<lparr>dv_storage_key := None\<rparr>) saved db) w)
           | (Inr parsed, w) \<Rightarrow>
               (case transition (fr_now fr) ''PREVIEW_READY'' None (with_parsed parsed v) of
                  Inl _ \<Rightarrow> (Inl Unhandled, saved, w)
                | Inr v \<Rightarrow>
                    if \<not> parsed_tables_ok v then (Inl Unhandled, saved, w) else
                    let db = record_document_event ((event ''document_parse'' ''allow'' ''PREVIEW_READY'' v)
                          \<lparr>ae_metadata := [(''page_count'', MInt (dv_page_count v)), (''sheet_count'', MInt (dv_sheet_count v)),
                             (''row_count'', MInt (dv_row_count v)), (''cell_count'', MInt (dv_cell_count v))]\<rparr>)
                        (record_document_event ((event ''document_upload'' ''allow'' ''UPLOAD_ACCEPTED'' v)
                          \<lparr>ae_metadata := (''version_number'', MInt (dv_number v)) # (''size_bytes'', MInt (dv_size_bytes v)) #
                             upload_event_metadata (up_metadata rq)\<rparr>) (put_version v db)) in
                    with_world (upload_result db d v True) w)))"

definition store_upload ::
  "'v ingestion_env \<Rightarrow> fresh \<Rightarrow> AuthorizationContext \<Rightarrow> upload_request \<Rightarrow> ValidatedFile \<Rightarrow> Document \<Rightarrow>
   DocumentVersion \<Rightarrow> docstore \<Rightarrow> docstore \<Rightarrow> 'v \<Rightarrow> (DocumentData \<times> bool \<times> bool, 'v) effect" where
  "store_upload env fr cx rq validated d v saved db w =
     (let key = storage_key env (um_tenant_id (up_metadata rq)) (dc_id d) (dv_id v);
          event = (\<lambda>event_type reason v. event_at event_type ''error'' reason (up_request_id rq)
            (identity_user_id (ctx_identity cx)) d v) in
      case transition (fr_now fr) ''VALIDATING'' None v of
        Inl _ \<Rightarrow> (Inl Unhandled, saved, w)
      | Inr v \<Rightarrow>
          (case ie_put_bytes env key (vf_data validated) w of
             (Inl StorageRaises, w) \<Rightarrow> (Inl Unhandled, saved, w)
           | (Inl (StorageFailed code), w) \<Rightarrow> with_world
               (fail_upload fr ''VALIDATION_FAILED'' code (\<lambda>v. [event ''document_upload'' code v])
                  (ObjectStorageError code) v saved db) w
           | (Inr stored, w) \<Rightarrow>
               if sto_sha256 stored \<noteq> vf_sha256 validated \<or> sto_size_bytes stored \<noteq> vf_size_bytes validated then
                 (case ie_delete env key w of
                    (Inl StorageRaises, w) \<Rightarrow> (Inl Unhandled, saved, w)
                  | (r, w) \<Rightarrow> with_world
                      (fail_upload fr ''VALIDATION_FAILED'' ''STORAGE_CONFLICT''
                         (\<lambda>v. event ''document_upload'' ''STORAGE_CONFLICT'' v #
                            (case r of Inl (StorageFailed cleanup) \<Rightarrow> [event ''document_storage_cleanup'' cleanup v] | _ \<Rightarrow> []))
                         (ObjectStorageError ''STORAGE_CONFLICT'') v saved db) w)
               else parse_upload env fr cx rq validated key d (v\<lparr>dv_storage_key := Some key\<rparr>) saved db w))"

text \<open>After validation: an initial upload of known content is answered with the known version, any other becomes a new
  version of a new document or of the target.\<close>

definition accept_upload ::
  "'v ingestion_env \<Rightarrow> fresh \<Rightarrow> AuthorizationContext \<Rightarrow> upload_request \<Rightarrow> string \<Rightarrow> Department \<Rightarrow> Document option \<Rightarrow>
   ValidatedFile \<Rightarrow> docstore \<Rightarrow> 'v \<Rightarrow> (DocumentData \<times> bool \<times> bool, 'v) effect" where
  "accept_upload env fr cx rq fingerprint department target validated db w =
     (case (if up_document_id rq = None
            then find_initial_duplicate db (up_metadata rq) (dp_id department) (vf_sha256 validated) else None) of
        Some (v, d) \<Rightarrow> with_world
          (upload_result (record_document_event (event_at ''document_upload'' ''allow'' ''INITIAL_CHECKSUM_DEDUPLICATED''
             (up_request_id rq) (identity_user_id (ctx_identity cx)) d v) db) d v False) w
      | None \<Rightarrow>
          (case target_of fr cx (up_metadata rq) department target db of
             None \<Rightarrow> (Inl Unhandled, db, w)
           | Some (d, number, db1) \<Rightarrow>
               let v = uploaded_version fr cx rq fingerprint d number (vf_sanitized_filename validated)
                     (''.'' @ file_kind_value (vf_kind validated)) (vf_declared_content_type validated)
                     (vf_detected_content_type validated) (vf_sha256 validated) (vf_size_bytes validated) in
               store_upload env fr cx rq validated d v db (add_version v db1) w))"

definition upload ::
  "'v ingestion_env \<Rightarrow> fresh \<Rightarrow> AuthorizationContext \<Rightarrow> upload_request \<Rightarrow> docstore \<Rightarrow> 'v \<Rightarrow>
   (DocumentData \<times> bool \<times> bool, 'v) effect" where
  "upload env fr cx rq db w =
     (case authorize_upload_target (ie_uuid_text env) cx (up_metadata rq) (up_request_id rq) (up_document_id rq) db of
        (Inl e, db) \<Rightarrow> (Inl e, db, w)
      | (Inr (company, department, target), db) \<Rightarrow>
          let fingerprint = request_fingerprint env (up_metadata rq) (up_data rq) (up_filename rq)
                (up_declared_content_type rq) (up_document_id rq) in
          case get_idempotent_version db (identity_user_id (ctx_identity cx)) (up_idempotency_key rq) of
            Some v \<Rightarrow> with_world (replay_upload env cx rq fingerprint v db) w
          | None \<Rightarrow>
              let input = \<lparr>vi_filename = up_filename rq, vi_declared_content_type = up_declared_content_type rq,
                    vi_data = up_data rq\<rparr> in
              if \<not> validation_input_ok input then (Inl Unhandled, db, w)
              else case validate_file (ie_formats env) (ie_limits env) input of
                Inl UncaughtError \<Rightarrow> (Inl Unhandled, db, w)
              | Inl error \<Rightarrow> with_world
                  (and_then (persist_validation_failure env fr cx rq fingerprint department target error db)
                     (\<lambda>_ db. (Inl (raise_for_ingestion_error error), db))) w
              | Inr validated \<Rightarrow> accept_upload env fr cx rq fingerprint department target validated db w)"

subsection \<open>Reviews\<close>

record VersionActionData =
  va_document_id :: uuid
  va_document_version_id :: uuid
  va_status :: string
  va_current_version :: "uuid option"

definition index_failure :: "index_exn \<Rightarrow> (library_error \<times> string) option" where
  "index_failure e = (case e of
       ChunkingFailed code \<Rightarrow> Some (LibraryError 422 ''indexing_failed'', (case code of INVALID_LIFECYCLE \<Rightarrow> ''INVALID_LIFECYCLE''
         | INVALID_SOURCE \<Rightarrow> ''INVALID_SOURCE'' | SOURCE_LIMIT_EXCEEDED \<Rightarrow> ''SOURCE_LIMIT_EXCEEDED''
         | RESULT_LIMIT_EXCEEDED \<Rightarrow> ''RESULT_LIMIT_EXCEEDED''))
     | ProviderFailed code \<Rightarrow> Some (LibraryError 503 ''embedding_unavailable'', (case code of
           INVALID_DIMENSIONS \<Rightarrow> ''INVALID_DIMENSIONS'' | PROVIDER_TRANSIENT \<Rightarrow> ''PROVIDER_TRANSIENT''
         | PROVIDER_REJECTED \<Rightarrow> ''PROVIDER_REJECTED'' | PROVIDER_UNAVAILABLE \<Rightarrow> ''PROVIDER_UNAVAILABLE''
         | INVALID_PROVIDER_RESPONSE \<Rightarrow> ''INVALID_PROVIDER_RESPONSE'' | MODEL_UNAVAILABLE \<Rightarrow> ''MODEL_UNAVAILABLE''
         | DIMENSION_MISMATCH \<Rightarrow> ''DIMENSION_MISMATCH'' | INVALID_VECTOR \<Rightarrow> ''INVALID_VECTOR''
         | PROVIDER_DISABLED \<Rightarrow> ''PROVIDER_DISABLED'' | CHUNK_LIMIT_EXCEEDED \<Rightarrow> ''CHUNK_LIMIT_EXCEEDED''
         | OPERATION_TIMEOUT \<Rightarrow> ''OPERATION_TIMEOUT'' | UNKNOWN_PROVIDER_ERROR \<Rightarrow> ''UNKNOWN_PROVIDER_ERROR''))
     | IndexValueError \<Rightarrow> Some (LibraryError 422 ''indexing_failed'', ''INVALID_SOURCE'')
     | IndexRaises \<Rightarrow> None)"

definition action_data :: "Document \<Rightarrow> DocumentVersion \<Rightarrow> string \<Rightarrow> VersionActionData" where
  "action_data d v target = \<lparr>va_document_id = dc_id d, va_document_version_id = dv_id v, va_status = target,
     va_current_version = dc_current_version d\<rparr>"

text \<open>The approval of a version that has passed its transition.  A failure of the index rolls everything back and
  records an event of its own; the commit checks the constraints of the chunk table.\<close>

definition approve_version ::
  "'v ingestion_env \<Rightarrow> fresh \<Rightarrow> uuid \<Rightarrow> string \<Rightarrow> Document \<Rightarrow> DocumentVersion \<Rightarrow> docstore \<Rightarrow> 'v \<Rightarrow>
   (VersionActionData, 'v) effect" where
  "approve_version env fr actor request_id d v db w =
     (let v = v\<lparr>dv_approved_by := Some actor, dv_approved_at := Some (fr_now fr)\<rparr>;
          d = d\<lparr>dc_current_version := Some (dv_id v)\<rparr>;
          db1 = put_document d (put_version v db);
          event = (\<lambda>event_type outcome reason. event_at event_type outcome reason request_id actor d v);
          fail = (\<lambda>e w. case index_failure e of
             None \<Rightarrow> (Inl Unhandled, db, w)
           | Some (err, reason) \<Rightarrow>
               (Inl err, record_document_event (event ''document_chunk_index'' ''error'' reason) db, w)) in
      case generate_approved_chunks (ie_text_sha256 env) db1 d v of
        Inl e \<Rightarrow> fail e w
      | Inr generated \<Rightarrow>
          (case embed_generated_chunks (ie_provider env) (ie_batch_size env) (ie_max_chunks env) generated w of
             (Inl e, w) \<Rightarrow> fail e w
           | (Inr embedded_chunks, w) \<Rightarrow>
               (case replace_active_chunks d v embedded_chunks (ep_model (ie_provider env)) (fr_chunk fr) db1 of
                  None \<Rightarrow> (Inl Unhandled, db, w)
                | Some (deactivated, db2) \<Rightarrow>
                    if \<not> chunk_table_ok db2 then (Inl Unhandled, db, w)
                    else (Inr (action_data d v ''APPROVED''),
                      record_document_event (event ''document_approved'' ''allow'' ''APPROVED'')
                        (record_document_event ((event ''document_chunk_index'' ''allow'' ''APPROVED_VERSION_INDEXED'')
                          \<lparr>ae_metadata := [(''chunk_count'', MInt (int (length generated))),
                            (''deactivated_chunk_count'', MInt (int deactivated))]\<rparr>) db2), w))))"

definition reject_version ::
  "fresh \<Rightarrow> uuid \<Rightarrow> string \<Rightarrow> Document \<Rightarrow> DocumentVersion \<Rightarrow> docstore \<Rightarrow> VersionActionData outcome" where
  "reject_version fr actor request_id d v db =
     (let v = v\<lparr>dv_rejected_by := Some actor, dv_rejected_at := Some (fr_now fr)\<rparr>;
          event = (\<lambda>event_type reason. event_at event_type ''allow'' reason request_id actor d v);
          (deactivated, db) = deactivate_version_chunks (dv_id v) ''REJECTED'' (put_version v db) in
      (Inr (action_data d v ''REJECTED''),
       record_document_event (event ''document_rejected'' ''REJECTED'')
         (record_document_event ((event ''document_chunk_deactivate'' ''REJECTED_VERSION_DEACTIVATED'')
           \<lparr>ae_metadata := [(''chunk_count'', MInt (int deactivated))]\<rparr>) db)))"

definition review ::
  "'v ingestion_env \<Rightarrow> fresh \<Rightarrow> AuthorizationContext \<Rightarrow> uuid \<Rightarrow> uuid \<Rightarrow> bool \<Rightarrow> string \<Rightarrow> docstore \<Rightarrow> 'v \<Rightarrow>
   (VersionActionData, 'v) effect" where
  "review env fr cx document_id version_id approve request_id db w =
     (let target = (if approve then ''APPROVED'' else ''REJECTED'');
          event_type = (if approve then ''document_approved'' else ''document_rejected'');
          actor = identity_user_id (ctx_identity cx) in
      case get_version_for_management (ie_uuid_text env) db (ctx_scope cx) document_id version_id of
        None \<Rightarrow> with_world (raise_not_found cx request_id event_type db) w
      | Some (d, v) \<Rightarrow>
          (case authorize_target cx (dc_tenant_id d) (dc_company_id d) request_id event_type True (Some (dc_id d)) db of
             (Inl e, db) \<Rightarrow> (Inl e, db, w)
           | (Inr _, db) \<Rightarrow>
               (case transition (fr_now fr) target None v of
                  Inl (InvalidIngestionTransition _ _) \<Rightarrow>
                    (Inl (LibraryError 409 ''invalid_document_state''),
                     record_document_event (event_at event_type ''deny'' ''INVALID_DOCUMENT_STATE'' request_id actor d v) db, w)
                | Inl (UnknownStatus _) \<Rightarrow> (Inl Unhandled, db, w)
                | Inr v \<Rightarrow>
                    if approve then approve_version env fr actor request_id d v db w
                    else with_world (reject_version fr actor request_id d v db) w)))"

subsection \<open>Deletion\<close>

definition delete_version :: "rat \<Rightarrow> DocumentVersion \<Rightarrow> (transition_error, DocumentVersion) result" where
  "delete_version now v =
     bindR (if dv_status v \<noteq> ''DELETED'' then transition now ''DELETED'' None v else Inr v)
       (\<lambda>v. Inr (v\<lparr>dv_deleted_at := Some now\<rparr>))"

fun delete_objects :: "'v ingestion_env \<Rightarrow> DocumentAuditEvent \<Rightarrow> string list \<Rightarrow> docstore \<Rightarrow> 'v \<Rightarrow> (docstore option \<times> 'v)" where
  "delete_objects env event [] db w = (Some db, w)"
| "delete_objects env event (key # keys) db w =
     (case ie_delete env key w of
        (Inl StorageRaises, w) \<Rightarrow> (None, w)
      | (Inl (StorageFailed code), w) \<Rightarrow>
          delete_objects env event keys (record_document_event (event\<lparr>ae_reason_code := code\<rparr>) db) w
      | (Inr _, w) \<Rightarrow> delete_objects env event keys db w)"

definition delete_document ::
  "'v ingestion_env \<Rightarrow> fresh \<Rightarrow> AuthorizationContext \<Rightarrow> uuid \<Rightarrow> string \<Rightarrow> docstore \<Rightarrow> 'v \<Rightarrow> (uuid, 'v) effect" where
  "delete_document env fr cx document_id request_id db w =
     (let actor = identity_user_id (ctx_identity cx) in
      case get_document_for_management (ie_uuid_text env) db (ctx_scope cx) document_id of
        None \<Rightarrow> with_world (raise_not_found cx request_id ''document_delete'' db) w
      | Some d \<Rightarrow>
          (case authorize_target cx (dc_tenant_id d) (dc_company_id d) request_id ''document_delete'' True (Some (dc_id d)) db of
             (Inl e, db) \<Rightarrow> (Inl e, db, w)
           | (Inr _, db) \<Rightarrow>
               (case mapR (delete_version (fr_now fr)) (document_versions db (dc_id d)) of
                  Inl _ \<Rightarrow> (Inl Unhandled, db, w)
                | Inr vs \<Rightarrow>
                    let keys = List.map_filter dv_storage_key vs;
                        d' = d\<lparr>dc_deleted_at := Some (fr_now fr), dc_current_version := None\<rparr>;
                        (deactivated, db1) = deactivate_document_chunks (dc_id d) (put_document d' (fold put_version vs db));
                        event = (\<lambda>event_type outcome reason. (document_event event_type outcome reason request_id actor)
                          \<lparr>ae_tenant_id := Some (dc_tenant_id d), ae_company_id := Some (dc_company_id d),
                           ae_document_id := Some (dc_id d)\<rparr>);
                        db1 = record_document_event ((event ''document_delete'' ''allow'' ''DELETED'')
                          \<lparr>ae_metadata := [(''version_count'', MInt (int (length vs))),
                             (''chunk_count'', MInt (int deactivated))]\<rparr>) db1 in
                    (case delete_objects env (event ''document_storage_cleanup'' ''error'' []) keys db1 w of
                       (None, w) \<Rightarrow> (Inl Unhandled, db1, w)
                     | (Some db2, w) \<Rightarrow> (Inr (dc_id d), db2, w)))))"

subsection \<open>Reads\<close>

text \<open>The lookup of a resource, the decision on it, and the event of a denial, as every read makes them.\<close>

definition managed :: "AuthorizationContext \<Rightarrow> string \<Rightarrow> string \<Rightarrow> (Document \<times> DocumentVersion) option \<Rightarrow> docstore \<Rightarrow>
   (Document \<times> DocumentVersion) outcome" where
  "managed cx request_id event_type found db =
     (case found of
        None \<Rightarrow> raise_not_found cx request_id event_type db
      | Some (d, v) \<Rightarrow>
          and_then (authorize_target cx (dc_tenant_id d) (dc_company_id d) request_id event_type True (Some (dc_id d)) db)
            (\<lambda>_ db. (Inr (d, v), db)))"

record IngestionStatusData =
  is_job_id :: uuid
  is_document_id :: uuid
  is_document_version_id :: uuid
  is_version_number :: int
  is_status :: IngestionStatus
  is_safe_error_code :: "string option"
  is_warnings :: "(string \<times> string) list"
  is_counts :: "int \<times> int \<times> int \<times> int"
  is_started_at :: "rat option"
  is_completed_at :: "rat option"

definition ingestion_status ::
  "(uuid \<Rightarrow> string) \<Rightarrow> AuthorizationContext \<Rightarrow> uuid \<Rightarrow> string \<Rightarrow> docstore \<Rightarrow> IngestionStatusData outcome" where
  "ingestion_status uuid_text cx job_id request_id db =
     and_then (managed cx request_id ''ingestion_status_read'' (get_job_for_management uuid_text db (ctx_scope cx) job_id) db)
     (\<lambda>(d, v) db. case IngestionStatus_of (ij_status (dv_job v)) of
        None \<Rightarrow> (Inl Unhandled, db)
      | Some status \<Rightarrow>
          (Inr \<lparr>is_job_id = ij_id (dv_job v), is_document_id = dc_id d, is_document_version_id = dv_id v,
                is_version_number = dv_number v, is_status = status,
                is_safe_error_code = ij_safe_error_code (dv_job v), is_warnings = dv_warnings v,
                is_counts = (dv_page_count v, dv_sheet_count v, dv_row_count v, dv_cell_count v),
                is_started_at = ij_started_at (dv_job v), is_completed_at = ij_completed_at (dv_job v)\<rparr>, db))"

definition preview ::
  "(uuid \<Rightarrow> string) \<Rightarrow> AuthorizationContext \<Rightarrow> uuid \<Rightarrow> uuid \<Rightarrow> string \<Rightarrow> docstore \<Rightarrow>
   (DocumentData \<times> (int \<times> string) list \<times> SheetRow list) outcome" where
  "preview uuid_text cx document_id version_id request_id db =
     and_then (managed cx request_id ''document_preview''
       (get_version_for_management uuid_text db (ctx_scope cx) document_id version_id) db)
     (\<lambda>(d, v) db. case IngestionStatus_of (dv_status v) of
        None \<Rightarrow> (Inl Unhandled, db)
      | Some status \<Rightarrow>
          if status \<notin> {PREVIEW_READY, APPROVED, REJECTED}
          then (Inl (LibraryError 409 ''preview_unavailable''),
            record_document_event (event_at ''document_preview'' ''deny'' ''PREVIEW_UNAVAILABLE'' request_id
              (identity_user_id (ctx_identity cx)) d v) db)
          else (case document_data db d v of
                  None \<Rightarrow> (Inl Unhandled, db)
                | Some data \<Rightarrow>
                    (Inr (data, map (\<lambda>p. (pr_page_number p, pr_text p)) (dv_pages v), dv_sheets v), db)))"

record library_filter =
  lf_tenant_id :: "uuid option"
  lf_company_id :: "uuid option"
  lf_department :: "string option"
  lf_document_type :: "string option"
  lf_status :: "string option"
  lf_limit :: nat
  lf_offset :: nat

definition matches :: "'a option \<Rightarrow> 'a \<Rightarrow> bool" where
  "matches wanted x = (case wanted of None \<Rightarrow> True | Some y \<Rightarrow> x = y)"

definition latest_status :: "docstore \<Rightarrow> Document \<Rightarrow> string option" where
  "latest_status db d =
     (case rev (filter (\<lambda>v. dv_deleted_at v = None) (document_versions db (dc_id d))) of
        [] \<Rightarrow> None | v # _ \<Rightarrow> Some (dv_status v))"

definition list_manageable_documents ::
  "(uuid \<Rightarrow> string) \<Rightarrow> docstore \<Rightarrow> AuthorizationScope \<Rightarrow> library_filter \<Rightarrow> Document list \<times> nat" where
  "list_manageable_documents uuid_text db scope f =
     (let base = filter (\<lambda>d. dc_deleted_at d = None \<and> manageable_clause uuid_text scope d \<and>
            matches (lf_tenant_id f) (dc_tenant_id d) \<and> matches (lf_company_id f) (dc_company_id d) \<and>
            matches (lf_department f) (department_key db (dc_department_id d)) \<and>
            matches (lf_document_type f) (dc_document_type d) \<and>
            (case lf_status f of None \<Rightarrow> True | Some s \<Rightarrow> latest_status db d = Some s)) (ds_documents db) in
      (take (lf_limit f) (drop (lf_offset f) (sort_key (\<lambda>d. (- dc_created_at d, dc_id d)) base)), length base))"

fun authorize_all :: "AuthorizationContext \<Rightarrow> string \<Rightarrow> string \<Rightarrow> Document list \<Rightarrow> docstore \<Rightarrow> unit outcome" where
  "authorize_all cx request_id event_type [] db = (Inr (), db)"
| "authorize_all cx request_id event_type (d # ds) db =
     and_then (authorize_target cx (dc_tenant_id d) (dc_company_id d) request_id event_type True (Some (dc_id d)) db)
       (\<lambda>_ db. authorize_all cx request_id event_type ds db)"

definition document_library ::
  "(uuid \<Rightarrow> string) \<Rightarrow> AuthorizationContext \<Rightarrow> library_filter \<Rightarrow> string \<Rightarrow> docstore \<Rightarrow> (DocumentData list \<times> nat) outcome" where
  "document_library uuid_text cx f request_id db =
     and_then (require_any_manage_permission uuid_text cx request_id ''document_library_read'' db)
     (\<lambda>_ db. let (documents, total) = list_manageable_documents uuid_text db (ctx_scope cx) f in
        and_then (authorize_all cx request_id ''document_library_read'' documents db)
        (\<lambda>_ db. let items = map (\<lambda>d. Option.bind (latest_version db d) (document_data db d)) documents in
           if None \<in> set items then (Inl Unhandled, db) else (Inr (map the items, total), db)))"

text \<open>\<^verbatim>\<open>options\<close>: the workspaces with their companies an administrator may upload to, and the constants of the form.
  The names are ordered by code point.\<close>

definition list_manageable_options :: "(uuid \<Rightarrow> string) \<Rightarrow> docstore \<Rightarrow> AuthorizationScope \<Rightarrow> (Tenant \<times> Company) list" where
  "list_manageable_options uuid_text db scope =
     sort_key (\<lambda>(t, c). (tn_name t, co_name c))
       [(t, c). t \<leftarrow> ds_tenants db, c \<leftarrow> filter (\<lambda>c. co_tenant_id c = tn_id t) (ds_companies db),
                list_ex (\<lambda>(i, j). tn_id t = i \<and> co_id c = j) (manageable_pairs uuid_text scope) \<and>
                tn_status t = ''active'' \<and> co_status c = ''active'']"

fun authorize_options :: "AuthorizationContext \<Rightarrow> string \<Rightarrow> (Tenant \<times> Company) list \<Rightarrow> docstore \<Rightarrow> unit outcome" where
  "authorize_options cx request_id [] db = (Inr (), db)"
| "authorize_options cx request_id ((t, c) # rows) db =
     and_then (authorize_target cx (tn_id t) (co_id c) request_id ''document_options_read'' False None db)
       (\<lambda>_ db. authorize_options cx request_id rows db)"

text \<open>\<^verbatim>\<open>grouped.setdefault(tenant.id, (tenant, []))[1].append(company)\<close>.\<close>

fun group_company :: "Tenant \<times> Company \<Rightarrow> (Tenant \<times> Company list) list \<Rightarrow> (Tenant \<times> Company list) list" where
  "group_company (t, c) [] = [(t, [c])]"
| "group_company (t, c) ((t', cs) # groups) =
     (if tn_id t' = tn_id t then (t', cs @ [c]) # groups else (t', cs) # group_company (t, c) groups)"

record DocumentOptionsData =
  do_tenants :: "(Tenant \<times> Company list) list"
  do_classification_pairs :: "(string \<times> string \<times> string \<times> string) list"
  do_document_types :: "(string \<times> string \<times> bool) list"
  do_max_upload_bytes :: nat
  do_extensions :: "string list"
  do_mime_types :: "string list"

text \<open>\<^verbatim>\<open>item.value.replace("_", " ").title()\<close> of a text in capitals.\<close>

definition type_label :: "string \<Rightarrow> string" where
  "type_label name = join '' '' (map (\<lambda>w. take 1 w @ py_lower (drop 1 w)) (split_on CHR ''_'' name))"

text \<open>The second label has a long dash, U+2014, in the code; a hyphen stands for it.\<close>

definition document_options ::
  "'v ingestion_env \<Rightarrow> AuthorizationContext \<Rightarrow> string \<Rightarrow> docstore \<Rightarrow> DocumentOptionsData outcome" where
  "document_options env cx request_id db =
     and_then (require_any_manage_permission (ie_uuid_text env) cx request_id ''document_options_read'' db)
     (\<lambda>_ db. let rows = list_manageable_options (ie_uuid_text env) db (ctx_scope cx) in
        and_then (authorize_options cx request_id rows db)
        (\<lambda>_ db. (Inr \<lparr>do_tenants = fold group_company rows [],
           do_classification_pairs =
             [(''finance'', ''DEPARTMENT_PRIVATE'', ''FINANCE_ONLY'', ''Finance only''),
              (''legal'', ''DEPARTMENT_PRIVATE'', ''LEGAL_ONLY_CONFIDENTIAL'', ''Legal only - confidential''),
              (''shared'', ''TENANT_SHARED'', ''TENANT_SHARED'', ''Tenant shared'')],
           do_document_types = map (\<lambda>t. (t, type_label t, t \<in> {''FINANCIAL_REPORT'', ''SPREADSHEET''})) DOCUMENT_TYPES,
           do_max_upload_bytes = upload_bytes (ie_limits env), do_extensions = [''.pdf'', ''.xlsx'', ''.csv''],
           do_mime_types = [PDF_MIME, XLSX_MIME] @ CSV_MIMES\<rparr>, db)))"

lemma type_label_examples: "map type_label [''LEGAL_AGREEMENT'', ''POLICY''] = [''Legal Agreement'', ''Policy'']"
  by code_simp

text \<open>The pairs of the query are those the policy engine allows, so no row of the form is refused after it.\<close>

lemma manage_request_allowed:
  "allowed (authorize scope (manage_request i j)) \<longleftrightarrow> (i, j) \<in> set (manageable_pairs uuid_text scope)"
  unfolding authorize_iff_permits by (auto simp: manage_request_def grant_permits_def manageable_pairs_def)

lemma authorize_options_granted:
  "\<forall>(t, c) \<in> set rows. (tn_id t, co_id c) \<in> set (manageable_pairs uuid_text (ctx_scope cx)) \<Longrightarrow>
     authorize_options cx request_id rows db = (Inr (), db)"
  by (induction cx request_id rows db rule: authorize_options.induct)
     (auto simp: authorize_target_def manage_request_allowed [of _ _ _ uuid_text])

lemma document_options_tenants:
  assumes "manageable_pairs (ie_uuid_text env) (ctx_scope cx) \<noteq> []"
  shows "\<exists>data. document_options env cx request_id db = (Inr data, db) \<and>
    do_tenants data = fold group_company (list_manageable_options (ie_uuid_text env) db (ctx_scope cx)) []"
proof -
  have "authorize_options cx request_id (list_manageable_options (ie_uuid_text env) db (ctx_scope cx)) db = (Inr (), db)"
    by (rule authorize_options_granted [of _ "ie_uuid_text env"])
       (auto simp: list_manageable_options_def list_ex_iff)
  with assms show ?thesis by (simp add: document_options_def require_any_manage_permission_def)
qed

end
