(* ===== verification/Document_Library.thy ===== *)
theory Document_Library
  imports Ingestion_Service
begin

text \<open>
  The life of the document library: its store under any sequence of the operations of the ingestion service and of
  searches, with tenants and companies being enabled and disabled in between.  The invariant ties the active chunks,
  which are copies, to the rows they were copied from, so that the authorized source statement of the retrieval
  returns exactly the active chunks the policy allows.
\<close>

subsection \<open>Rows\<close>

lemma put_version_tables [simp]:
  "ds_tenants (put_version v db) = ds_tenants db" "ds_companies (put_version v db) = ds_companies db"
  "ds_departments (put_version v db) = ds_departments db" "ds_documents (put_version v db) = ds_documents db"
  "ds_chunks (put_version v db) = ds_chunks db"
  "ds_versions (put_version v db) = map (\<lambda>x. if dv_id x = dv_id v then v else x) (ds_versions db)"
  by (simp_all add: put_version_def)

lemma put_document_tables [simp]:
  "ds_tenants (put_document d db) = ds_tenants db" "ds_companies (put_document d db) = ds_companies db"
  "ds_departments (put_document d db) = ds_departments db" "ds_versions (put_document d db) = ds_versions db"
  "ds_chunks (put_document d db) = ds_chunks db"
  "ds_documents (put_document d db) = map (\<lambda>x. if dc_id x = dc_id d then d else x) (ds_documents db)"
  by (simp_all add: put_document_def)

lemma add_version_tables [simp]:
  "ds_tenants (add_version v db) = ds_tenants db" "ds_companies (add_version v db) = ds_companies db"
  "ds_departments (add_version v db) = ds_departments db" "ds_documents (add_version v db) = ds_documents db"
  "ds_chunks (add_version v db) = ds_chunks db" "ds_versions (add_version v db) = ds_versions db @ [v]"
  by (simp_all add: add_version_def)

lemma add_document_tables [simp]:
  "ds_tenants (add_document d db) = ds_tenants db" "ds_companies (add_document d db) = ds_companies db"
  "ds_departments (add_document d db) = ds_departments db" "ds_versions (add_document d db) = ds_versions db"
  "ds_chunks (add_document d db) = ds_chunks db" "ds_documents (add_document d db) = ds_documents db @ [d]"
  by (simp_all add: add_document_def)

lemma map_put [simp]: "map k (map (\<lambda>x. if k x = k v then v else x) xs) = map k xs"
  by (induction xs) auto

lemma put_memb:
  assumes "x \<in> set xs" and "k x \<noteq> k v" shows "x \<in> set (map (\<lambda>x. if k x = k v then v else x) xs)"
  using assms by force

lemma put_self: "x \<in> set xs \<Longrightarrow> k x = k v \<Longrightarrow> v \<in> set (map (\<lambda>x. if k x = k v then v else x) xs)"
  by force

lemma same_tables_iff:
  "same_tables db db' \<longleftrightarrow> ds_tenants db' = ds_tenants db \<and> ds_companies db' = ds_companies db \<and>
     ds_departments db' = ds_departments db \<and> ds_documents db' = ds_documents db \<and>
     ds_versions db' = ds_versions db \<and> ds_chunks db' = ds_chunks db"
  by (cases db; cases db') (auto simp: same_tables_def)

subsection \<open>The invariant\<close>

text \<open>An active chunk is a true copy of the current approved version of a document that is not deleted.\<close>

definition copy_of :: "docstore \<Rightarrow> Document \<Rightarrow> DocumentVersion \<Rightarrow> DocumentChunk \<Rightarrow> bool" where
  "copy_of db d v c \<longleftrightarrow>
     dk_document_id c = dc_id d \<and> dk_document_version_id c = dv_id v \<and> dv_document_id v = dc_id d \<and>
     current_approved d v \<and> dk_tenant_id c = dc_tenant_id d \<and> dk_company_id c = dc_company_id d \<and>
     dk_department_id c = dc_department_id d \<and> dk_department c = department_key db (dc_department_id d) \<and>
     dk_visibility c = dc_visibility d \<and> dk_classification c = dc_classification d \<and>
     dk_version_status c = ''APPROVED'' \<and> \<not> dk_document_deleted c \<and> \<not> dk_version_deleted c"

definition chunks_current :: "docstore \<Rightarrow> bool" where
  "chunks_current db \<longleftrightarrow> (\<forall>c \<in> set (ds_chunks db). dk_active c \<longrightarrow>
     (\<exists>d \<in> set (ds_documents db). \<exists>v \<in> set (ds_versions db). copy_of db d v c))"

definition document_ok :: "docstore \<Rightarrow> Document \<Rightarrow> bool" where
  "document_ok db d \<longleftrightarrow>
     (\<exists>t \<in> set (ds_tenants db). tn_id t = dc_tenant_id d) \<and>
     (\<exists>co \<in> set (ds_companies db). co_id co = dc_company_id d \<and> co_tenant_id co = dc_tenant_id d) \<and>
     (\<exists>p \<in> set (ds_departments db). dp_id p = dc_department_id d \<and>
        ck_acl_metadata (dp_key p) (dc_visibility d) (dc_classification d))"

text \<open>The unique constraints of the version table, and its foreign key.\<close>

definition version_keys_ok :: "docstore \<Rightarrow> bool" where
  "version_keys_ok db \<longleftrightarrow>
     distinct (map (\<lambda>v. (dv_uploaded_by v, dv_idempotency_key v)) (ds_versions db)) \<and>
     distinct (map (\<lambda>v. (dv_document_id v, dv_number v)) (ds_versions db)) \<and>
     dv_document_id ` set (ds_versions db) \<subseteq> dc_id ` set (ds_documents db)"

definition rows_ok :: "docstore \<Rightarrow> bool" where
  "rows_ok db \<longleftrightarrow> keys_ok db \<and> version_keys_ok db \<and> list_all (document_ok db) (ds_documents db)"

definition library_ok :: "docstore \<Rightarrow> bool" where
  "library_ok db \<longleftrightarrow> rows_ok db \<and> chunks_current db"

lemma library_ok_tables:
  assumes "same_tables db db'" shows "library_ok db' = library_ok db"
  using assms
  by (simp add: same_tables_iff library_ok_def rows_ok_def keys_ok_def version_keys_ok_def document_ok_def [abs_def] chunks_current_def
      copy_of_def department_key_def)

lemma library_ok_event [simp]: "library_ok (record_document_event e db) = library_ok db"
  by (rule library_ok_tables) simp

lemma library_ok_fold_events [simp]: "library_ok (fold record_document_event es db) = library_ok db"
  by (induction es arbitrary: db) simp_all

subsection \<open>The authorized rows are the active chunks the policy allows\<close>

definition tenant_active :: "docstore \<Rightarrow> uuid \<Rightarrow> bool" where
  "tenant_active db i \<longleftrightarrow> (\<exists>t \<in> set (ds_tenants db). tn_id t = i \<and> tn_status t = ''active'')"

definition company_active :: "docstore \<Rightarrow> uuid \<Rightarrow> bool" where
  "company_active db i \<longleftrightarrow> (\<exists>co \<in> set (ds_companies db). co_id co = i \<and> co_status co = ''active'')"

definition readable :: "AuthorizationScope \<Rightarrow> docstore \<Rightarrow> DocumentChunk \<Rightarrow> bool" where
  "readable scope db c \<longleftrightarrow> dk_active c \<and> allowed (authorize scope (read_request c)) \<and>
     tenant_active db (dk_tenant_id c) \<and> company_active db (dk_company_id c)"

lemma department_key_row:
  "keys_ok db \<Longrightarrow> p \<in> set (ds_departments db) \<Longrightarrow> department_key db (dp_id p) = dp_key p"
  using key_find [of dp_id "ds_departments db" p] by (simp add: keys_ok_def department_key_def)

lemma acl_visibility:
  "ck_acl_metadata (dk_department c) (dk_visibility c) (dk_classification c) = visibility_clause c"
  by (auto simp: ck_acl_metadata_def visibility_clause_def)

lemma base_readable:
  assumes "r \<in> set (authorized_base scope db)" shows "jr_chunk r \<in> set (ds_chunks db) \<and> readable scope db (jr_chunk r)"
proof -
  from assms have j: "r \<in> set (joined db)" and w: "base_where scope r" by (simp_all add: authorized_base_iff)
  from w have "may_read scope (jr_chunk r)" "dk_active (jr_chunk r)" "tn_status (jr_tenant r) = ''active''"
    "co_status (jr_company r) = ''active''"
    by (auto simp: base_where_def Let_def lifecycle_clause_def authorized_chunk_clause_policy)
  moreover from j have "jr_chunk r \<in> set (ds_chunks db)" "jr_tenant r \<in> set (ds_tenants db)"
    "tn_id (jr_tenant r) = dk_tenant_id (jr_chunk r)" "jr_company r \<in> set (ds_companies db)"
    "co_id (jr_company r) = dk_company_id (jr_chunk r)" by (simp_all add: joined_iff)
  ultimately show ?thesis unfolding readable_def tenant_active_def company_active_def may_read_def by blast
qed

lemma readable_base:
  assumes ok: "library_ok db" and c: "c \<in> set (ds_chunks db)" and r: "readable scope db c"
  shows "\<exists>r \<in> set (authorized_base scope db). jr_chunk r = c"
proof -
  from ok have k: "keys_ok db" by (simp add: library_ok_def rows_ok_def)
  from ok c r obtain d v where d: "d \<in> set (ds_documents db)" and v: "v \<in> set (ds_versions db)" and cp: "copy_of db d v c"
    by (auto simp: library_ok_def rows_ok_def chunks_current_def readable_def)
  from ok d have "document_ok db d" by (simp add: library_ok_def rows_ok_def list_all_iff)
  then obtain co0 p where co0: "co0 \<in> set (ds_companies db)" "co_id co0 = dc_company_id d" "co_tenant_id co0 = dc_tenant_id d"
    and p: "p \<in> set (ds_departments db)" "dp_id p = dc_department_id d"
      "ck_acl_metadata (dp_key p) (dc_visibility d) (dc_classification d)" by (auto simp: document_ok_def)
  from r obtain t co where t: "t \<in> set (ds_tenants db)" "tn_id t = dk_tenant_id c" "tn_status t = ''active''"
    and co: "co \<in> set (ds_companies db)" "co_id co = dk_company_id c" "co_status co = ''active''"
    by (auto simp: readable_def tenant_active_def company_active_def)
  from cp co co0 k have "co = co0" using key_unique [of co_id "ds_companies db" co co0]
    by (simp add: keys_ok_def copy_of_def)
  with co0 have ct: "co_tenant_id co = dc_tenant_id d" by simp
  from department_key_row [OF k p(1)] p(2) have dk: "department_key db (dc_department_id d) = dp_key p" by simp
  let ?r = "\<lparr>jr_chunk = c, jr_document = d, jr_version = v, jr_tenant = t, jr_company = co, jr_department = p\<rparr>"
  from c d v t co p cp have "?r \<in> set (joined db)" by (simp add: joined_iff copy_of_def)
  moreover have "visibility_clause c" using p(3) cp dk acl_visibility [of c] by (simp add: copy_of_def)
  moreover have "authorized_chunk_clause scope c" using r by (simp add: readable_def authorized_chunk_clause_policy may_read_def)
  ultimately have "?r \<in> set (authorized_base scope db)"
    using r cp t co ct p dk
    by (simp add: authorized_base_iff base_where_def copy_of_def current_approved_def readable_def lifecycle_clause_def)
  then show ?thesis by (intro bexI [of _ ?r]) simp
qed

subsection \<open>Uploads keep the invariant\<close>

lemma copy_of_departments: "ds_departments db' = ds_departments db \<Longrightarrow> copy_of db' d v c = copy_of db d v c"
  by (simp add: copy_of_def department_key_def)

lemma document_ok_tables:
  "ds_tenants db' = ds_tenants db \<Longrightarrow> ds_companies db' = ds_companies db \<Longrightarrow> ds_departments db' = ds_departments db \<Longrightarrow>
   document_ok db' d = document_ok db d"
  by (simp add: document_ok_def)

lemma add_document_ok:
  assumes "library_ok db" and "dc_id d \<notin> dc_id ` set (ds_documents db)" and "document_ok db d"
  shows "library_ok (add_document d db)"
proof -
  have "chunks_current (add_document d db)"
    using assms(1) by (fastforce simp: library_ok_def rows_ok_def chunks_current_def copy_of_departments [of "add_document d db" db])
  with assms show ?thesis
    by (auto simp: library_ok_def rows_ok_def keys_ok_def version_keys_ok_def list_all_iff document_ok_tables [of "add_document d db" db])
qed

lemma add_version_ok:
  assumes "library_ok db" and "dv_id v \<notin> dv_id ` set (ds_versions db)" and "dv_document_id v \<in> dc_id ` set (ds_documents db)"
    and "(dv_uploaded_by v, dv_idempotency_key v) \<notin> (\<lambda>v. (dv_uploaded_by v, dv_idempotency_key v)) ` set (ds_versions db)"
    and "(dv_document_id v, dv_number v) \<notin> (\<lambda>v. (dv_document_id v, dv_number v)) ` set (ds_versions db)"
  shows "library_ok (add_version v db)"
proof -
  have "chunks_current (add_version v db)"
    using assms(1) by (fastforce simp: library_ok_def rows_ok_def chunks_current_def copy_of_departments [of "add_version v db" db])
  with assms show ?thesis
    by (auto simp: library_ok_def rows_ok_def keys_ok_def version_keys_ok_def list_all_iff document_ok_tables [of "add_version v db" db])
qed

lemma put_added:
  "dv_id v' = dv_id v \<Longrightarrow> dv_id v \<notin> dv_id ` set (ds_versions db) \<Longrightarrow> put_version v' (add_version v db) = add_version v' db"
proof -
  assume a: "dv_id v' = dv_id v" "dv_id v \<notin> dv_id ` set (ds_versions db)"
  then have "map (\<lambda>x. if dv_id x = dv_id v then v' else x) (ds_versions db) = ds_versions db"
    by (intro map_idI) (metis image_eqI)
  with a(1) show ?thesis by (simp add: put_version_def add_version_def)
qed

text \<open>What no step of an upload changes in the row of its version.\<close>

definition same_keys :: "DocumentVersion \<Rightarrow> DocumentVersion \<Rightarrow> bool" where
  "same_keys v v' \<longleftrightarrow> dv_id v' = dv_id v \<and> dv_document_id v' = dv_document_id v \<and> dv_number v' = dv_number v \<and>
     dv_uploaded_by v' = dv_uploaded_by v \<and> dv_idempotency_key v' = dv_idempotency_key v"

definition same_upload :: "DocumentVersion \<Rightarrow> DocumentVersion \<Rightarrow> bool" where
  "same_upload v v' \<longleftrightarrow> same_keys v v' \<and>
     dv_request_fingerprint v' = dv_request_fingerprint v \<and> dv_deleted_at v' = dv_deleted_at v"

lemma same_keys_trans: "same_keys a b \<Longrightarrow> same_keys b c \<Longrightarrow> same_keys a c"
  by (simp add: same_keys_def)

lemma same_upload_refl [simp]: "same_upload v v"
  by (simp add: same_upload_def same_keys_def)

lemma same_upload_trans: "same_upload a b \<Longrightarrow> same_upload b c \<Longrightarrow> same_upload a c"
  by (simp add: same_upload_def same_keys_def)

lemma transition_same: "transition now target code v = Inr v' \<Longrightarrow> same_upload v v' \<and> dv_status v' = target"
  by (auto simp: transition_def same_upload_def same_keys_def result_simps Let_def)

lemma with_parsed_same [simp]: "same_upload v (with_parsed p v)"
  by (simp add: same_upload_def same_keys_def with_parsed_def)

lemma storage_key_same [simp]: "same_upload v (v\<lparr>dv_storage_key := k\<rparr>)"
  by (simp add: same_upload_def same_keys_def)

lemma same_tables_fold_events [simp]: "same_tables db (fold record_document_event es db)"
proof (induction es arbitrary: db)
  case (Cons e es)
  show ?case using same_tables_trans [OF same_tables_event Cons.IH] by simp
qed simp

text \<open>An upload that got as far as a version ends in the store before it or in one with that version, changed.\<close>

definition upload_end :: "docstore \<Rightarrow> docstore \<Rightarrow> DocumentVersion \<Rightarrow> docstore \<Rightarrow> bool" where
  "upload_end before db v db' \<longleftrightarrow> db' = before \<or> (\<exists>v'. same_upload v v' \<and> same_tables (put_version v' db) db')"

lemma upload_end_same: "upload_end before db v' db' \<Longrightarrow> same_upload v v' \<Longrightarrow> upload_end before db v db'"
  unfolding upload_end_def by (blast intro: same_upload_trans)

lemma upload_end_before [simp]: "upload_end before db v before"
  by (simp add: upload_end_def)

lemma fail_upload_end:
  "same_upload v v1 \<Longrightarrow> upload_end before db v (snd (fail_upload fr target code events error v1 before db))"
  by (auto simp: fail_upload_def upload_end_def dest!: transition_same dest: same_upload_trans split: sum.splits)

lemma upload_result_store: "snd (upload_result db d v b) = db"
  by (simp add: upload_result_def split: option.splits)

lemma with_world_store: "with_world r w = (x, db', w') \<Longrightarrow> snd r = db' \<and> fst r = x"
  by (auto simp: with_world_def)

lemma parse_upload_end:
  assumes "parse_upload env fr cx rq validated key d v before db w = (r, db', w')"
  shows "upload_end before db v db'"
proof (cases "transition (fr_now fr) ''PARSING'' None v")
  case (Inl e)
  with assms show ?thesis by (simp add: parse_upload_def upload_end_def)
next
  case (Inr v1)
  then have s: "same_upload v v1" by (simp add: transition_same)
  obtain p w1 where p: "ie_parser env validated w = (p, w1)" by (cases "ie_parser env validated w")
  show ?thesis
  proof (cases p)
    case (Inr parsed)
    obtain t where t: "transition (fr_now fr) ''PREVIEW_READY'' None (with_parsed parsed v1) = t" by simp
    show ?thesis
    proof (cases t)
      case (Inl e)
      with assms \<open>transition (fr_now fr) ''PARSING'' None v = Inr v1\<close> p Inr t show ?thesis
        by (simp add: parse_upload_def upload_end_def)
    next
      case (Inr v2)
      with t have "same_upload (with_parsed parsed v1) v2" using transition_same by blast
      with s have "same_upload v v2" using same_upload_trans with_parsed_same by blast
      moreover from assms \<open>transition (fr_now fr) ''PARSING'' None v = Inr v1\<close> p \<open>p = Inr parsed\<close> t Inr
      have "db' = before \<or> same_tables (put_version v2 db) db'"
        by (cases "parsed_tables_ok v2") (auto simp: parse_upload_def Let_def upload_result_store intro: same_tables_trans [OF same_tables_event same_tables_event]
            dest!: with_world_store)
      ultimately show ?thesis unfolding upload_end_def by blast
    qed
  next
    case (Inl e)
    obtain dl w2 where dl: "ie_delete env key w1 = (dl, w2)" by (cases "ie_delete env key w1")
    have key: "same_upload v (v1\<lparr>dv_storage_key := None\<rparr>)" using s same_upload_trans storage_key_same by blast
    from assms \<open>transition (fr_now fr) ''PARSING'' None v = Inr v1\<close> p Inl dl show ?thesis
      by (auto simp: parse_upload_def Let_def with_world_def s key fail_upload_end
          split: parser_exn.splits sum.splits storage_exn.splits)
  qed
qed

lemma store_upload_end:
  assumes "store_upload env fr cx rq validated d v before db w = (r, db', w')"
  shows "upload_end before db v db'"
proof (cases "transition (fr_now fr) ''VALIDATING'' None v")
  case (Inl e)
  with assms show ?thesis by (simp add: store_upload_def Let_def)
next
  case t: (Inr v1)
  then have s: "same_upload v v1" by (simp add: transition_same)
  let ?key = "storage_key env (um_tenant_id (up_metadata rq)) (dc_id d) (dv_id v)"
  have key: "same_upload v (v1\<lparr>dv_storage_key := Some k\<rparr>)" for k using s same_upload_trans storage_key_same by blast
  obtain p w1 where p: "ie_put_bytes env ?key (vf_data validated) w = (p, w1)"
    by (cases "ie_put_bytes env ?key (vf_data validated) w")
  obtain dl w2 where dl: "ie_delete env ?key w1 = (dl, w2)" by (cases "ie_delete env ?key w1")
  show ?thesis
  proof (cases "\<exists>stored. p = Inr stored \<and> \<not> (sto_sha256 stored \<noteq> vf_sha256 validated \<or> sto_size_bytes stored \<noteq> vf_size_bytes validated)")
    case True
    with assms t p have "parse_upload env fr cx rq validated ?key d (v1\<lparr>dv_storage_key := Some ?key\<rparr>) before db w1 = (r, db', w')"
      by (auto simp: store_upload_def Let_def)
    from parse_upload_end [OF this] key show ?thesis by (rule upload_end_same)
  next
    case False
    with assms t p dl show ?thesis
      by (auto simp: store_upload_def Let_def with_world_def s fail_upload_end split: sum.splits storage_exn.splits)
  qed
qed

lemma authorize_target_store: "authorize_target cx t c rid et b i db = (Inr u, db') \<Longrightarrow> db' = db"
  by (auto simp: authorize_target_def Let_def split: if_splits)

lemma authorize_target_tables: "same_tables db (snd (authorize_target cx t c rid et b i db))"
  by (simp add: authorize_target_def Let_def)

lemma authorize_upload_target_Inr:
  assumes "authorize_upload_target ut cx m rid i db = (Inr (co, dep, target), db')"
  shows "db' = db \<and> get_active_company db (um_tenant_id m) (um_company_id m) = Some co \<and>
    get_department_by_key db (um_department m) = Some dep \<and>
    allowed (authorize (ctx_scope cx) (manage_request (um_tenant_id m) (um_company_id m))) \<and>
    (case i of None \<Rightarrow> target = None | Some j \<Rightarrow> \<exists>d. target = Some d \<and>
       get_document_for_management ut db (ctx_scope cx) j = Some d \<and> metadata_matches_document db d m)"
  using assms
  by (auto simp: authorize_upload_target_def and_then_def authorize_target_def raise_not_found_def Let_def
      split: option.splits if_splits prod.splits)

lemma authorize_upload_target_Inl:
  assumes "authorize_upload_target ut cx m rid i db = (Inl e, db')" shows "same_tables db db'"
  using assms
  by (auto simp: authorize_upload_target_def and_then_def authorize_target_def raise_not_found_def Let_def
      split: option.splits if_splits prod.splits)

text \<open>What an upload can do to the store.\<close>

definition upload_effect ::
  "fresh \<Rightarrow> AuthorizationContext \<Rightarrow> upload_request \<Rightarrow> Department \<Rightarrow> Document option \<Rightarrow> docstore \<Rightarrow> docstore \<Rightarrow> bool" where
  "upload_effect fr cx rq dep target db db' \<longleftrightarrow> same_tables db db' \<or>
     (\<exists>d number db1 v. target_of fr cx (up_metadata rq) dep target db = Some (d, number, db1) \<and>
        dv_id v = fr_version fr \<and> dv_document_id v = dc_id d \<and> dv_number v = number \<and>
        dv_uploaded_by v = identity_user_id (ctx_identity cx) \<and> dv_idempotency_key v = up_idempotency_key rq \<and>
        dv_deleted_at v = None \<and> same_tables (add_version v db1) db')"

lemma uploaded_version_fields [simp]:
  "dv_id (uploaded_version fr cx rq f d n name ext dec det ck sz) = fr_version fr"
  "dv_document_id (uploaded_version fr cx rq f d n name ext dec det ck sz) = dc_id d"
  "dv_number (uploaded_version fr cx rq f d n name ext dec det ck sz) = n"
  "dv_uploaded_by (uploaded_version fr cx rq f d n name ext dec det ck sz) = identity_user_id (ctx_identity cx)"
  "dv_idempotency_key (uploaded_version fr cx rq f d n name ext dec det ck sz) = up_idempotency_key rq"
  "dv_request_fingerprint (uploaded_version fr cx rq f d n name ext dec det ck sz) = f"
  "dv_deleted_at (uploaded_version fr cx rq f d n name ext dec det ck sz) = None"
  by (simp_all add: uploaded_version_def)

lemma target_of_versions: "target_of fr cx m dep target db = Some (d, n, db1) \<Longrightarrow> ds_versions db1 = ds_versions db"
  by (auto simp: target_of_def Let_def split: option.splits if_splits)

lemma persist_effect:
  assumes "persist_validation_failure env fr cx rq f dep target error db = (r, db')"
  shows "upload_effect fr cx rq dep target db db'"
proof (cases "target_of fr cx (up_metadata rq) dep target db")
  case None
  with assms show ?thesis by (simp add: persist_validation_failure_def Let_def upload_effect_def)
next
  case (Some t)
  obtain d n db1 where t: "t = (d, n, db1)" by (cases t)
  have run: "same_upload v v'" if "bindR (transition now a b v) (transition now a' b') = Inr v'" for now a b a' b' and v v' :: DocumentVersion
    using that transition_same same_upload_trans unfolding result_simps by metis
  from assms Some t show ?thesis
    unfolding persist_validation_failure_def Let_def
    by (auto simp: upload_effect_def same_upload_def same_keys_def dest!: run split: sum.splits)
qed

lemma accept_upload_effect:
  assumes "accept_upload env fr cx rq f dep target validated db w = (r, db', w')"
    and fresh: "fr_version fr \<notin> dv_id ` set (ds_versions db)"
  shows "upload_effect fr cx rq dep target db db'"
proof (cases "\<exists>v d. (if up_document_id rq = None then find_initial_duplicate db (up_metadata rq) (dp_id dep) (vf_sha256 validated)
    else None) = Some (v, d)")
  case True
  with assms show ?thesis
    by (auto simp: accept_upload_def upload_effect_def upload_result_store dest!: with_world_store)
next
  case dup: False
  show ?thesis
  proof (cases "target_of fr cx (up_metadata rq) dep target db")
    case None
    with assms dup show ?thesis by (auto simp: accept_upload_def upload_effect_def split: option.splits)
  next
    case (Some t)
    obtain d n db1 where t: "t = (d, n, db1)" by (cases t)
    define v where "v = uploaded_version fr cx rq f d n (vf_sanitized_filename validated)
        (''.'' @ file_kind_value (vf_kind validated)) (vf_declared_content_type validated)
        (vf_detected_content_type validated) (vf_sha256 validated) (vf_size_bytes validated)"
    from assms dup Some t have "store_upload env fr cx rq validated d v db (add_version v db1) w = (r, db', w')"
      by (auto simp: accept_upload_def Let_def v_def split: option.splits)
    from store_upload_end [OF this] show ?thesis unfolding upload_end_def
    proof (elim disjE exE conjE)
      assume "db' = db"
      then show ?thesis by (simp add: upload_effect_def)
    next
      fix v' assume v': "same_upload v v'" "same_tables (put_version v' (add_version v db1)) db'"
      have "put_version v' (add_version v db1) = add_version v' db1"
        using v'(1) fresh target_of_versions Some t by (intro put_added) (auto simp: same_upload_def same_keys_def v_def)
      with v' Some t show ?thesis
        by (auto simp: upload_effect_def same_upload_def same_keys_def v_def intro!: exI [of _ v'])
    qed
  qed
qed

lemma replay_upload_tables: "same_tables db (snd (replay_upload env cx rq f v db))"
  by (auto simp: replay_upload_def raise_not_found_def Let_def upload_result_store split: option.splits)

lemma upload_cases:
  assumes "upload env fr cx rq db w = (r, db', w')" and "fr_version fr \<notin> dv_id ` set (ds_versions db)"
  shows "same_tables db db' \<or> (\<exists>co dep target. authorize_upload_target (ie_uuid_text env) cx (up_metadata rq)
      (up_request_id rq) (up_document_id rq) db = (Inr (co, dep, target), db) \<and>
    get_idempotent_version db (identity_user_id (ctx_identity cx)) (up_idempotency_key rq) = None \<and>
    upload_effect fr cx rq dep target db db')"
proof -
  obtain a db0 where a: "authorize_upload_target (ie_uuid_text env) cx (up_metadata rq) (up_request_id rq) (up_document_id rq) db = (a, db0)"
    by (cases "authorize_upload_target (ie_uuid_text env) cx (up_metadata rq) (up_request_id rq) (up_document_id rq) db")
  show ?thesis
  proof (cases a)
    case (Inl e)
    with assms(1) a authorize_upload_target_Inl show ?thesis by (auto simp: upload_def)
  next
    case (Inr b)
    obtain co dep target where b: "b = (co, dep, target)" by (cases b)
    from authorize_upload_target_Inr a Inr b have db0: "db0 = db" by blast
    let ?f = "request_fingerprint env (up_metadata rq) (up_data rq) (up_filename rq) (up_declared_content_type rq) (up_document_id rq)"
    let ?in = "\<lparr>vi_filename = up_filename rq, vi_declared_content_type = up_declared_content_type rq, vi_data = up_data rq\<rparr>"
    show ?thesis
    proof (cases "get_idempotent_version db (identity_user_id (ctx_identity cx)) (up_idempotency_key rq)")
      case (Some v)
      with assms(1) a Inr b db0 have "db' = snd (replay_upload env cx rq ?f v db)"
        by (auto simp: upload_def Let_def dest!: with_world_store)
      then show ?thesis by (simp add: replay_upload_tables)
    next
      case none: None
      have "same_tables db db' \<or> upload_effect fr cx rq dep target db db'"
      proof (cases "validation_input_ok ?in")
        case False
        with assms(1) a Inr b db0 none show ?thesis by (simp add: upload_def Let_def)
      next
        case True
        show ?thesis
        proof (cases "validate_file (ie_formats env) (ie_limits env) ?in")
          case (Inl error)
          obtain r1 db1 where p: "persist_validation_failure env fr cx rq ?f dep target error db = (r1, db1)"
            by (cases "persist_validation_failure env fr cx rq ?f dep target error db")
          with assms(1) a \<open>a = Inr b\<close> b db0 none True Inl have "db' = db1 \<or> db' = db"
            by (cases error) (auto simp: upload_def Let_def and_then_def dest!: with_world_store split: sum.splits)
          with persist_effect [OF p] show ?thesis by auto
        next
          case ok: (Inr validated)
          with assms(1) a Inr b db0 none True
          have "accept_upload env fr cx rq ?f dep target validated db w = (r, db', w')" by (simp add: upload_def Let_def)
          from accept_upload_effect [OF this assms(2)] show ?thesis by simp
        qed
      qed
      with a Inr b db0 none show ?thesis by auto
    qed
  qed
qed

text \<open>The identifiers of an operation are new.\<close>

definition fresh_ids :: "fresh \<Rightarrow> docstore \<Rightarrow> bool" where
  "fresh_ids fr db \<longleftrightarrow> fr_document fr \<notin> dc_id ` set (ds_documents db) \<and> fr_version fr \<notin> dv_id ` set (ds_versions db) \<and>
     inj (fr_chunk fr) \<and> range (fr_chunk fr) \<inter> dk_id ` set (ds_chunks db) = {}"

lemma new_document_ok:
  assumes "get_active_company db (um_tenant_id m) (um_company_id m) = Some co"
    and "get_department_by_key db (um_department m) = Some dep" and "upload_metadata_ok m"
  shows "document_ok db (new_document fr cx m dep)"
proof -
  from find_Some_memb [OF assms(1) [unfolded get_active_company_def]]
  have "co \<in> set (ds_companies db)" "co_id co = um_company_id m" "co_tenant_id co = um_tenant_id m"
    "\<exists>t \<in> set (ds_tenants db). tn_id t = um_tenant_id m" by (auto simp: list_ex_iff)
  moreover from find_Some_memb [OF assms(2) [unfolded get_department_by_key_def]]
  have "dep \<in> set (ds_departments db)" "dp_key dep = um_department m" by auto
  ultimately show ?thesis using upload_metadata_acl [OF assms(3)]
    by (auto simp: document_ok_def new_document_def)
qed

lemma upload_keeps:
  assumes ok: "library_ok db" and fresh: "fresh_ids fr db" and m: "upload_metadata_ok (up_metadata rq)"
    and up: "upload env fr cx rq db w = (r, db', w')"
  shows "library_ok db'"
proof -
  from fresh have fv: "fr_version fr \<notin> dv_id ` set (ds_versions db)" by (simp add: fresh_ids_def)
  from upload_cases [OF up fv] show ?thesis
  proof (elim disjE exE conjE)
    assume "same_tables db db'"
    with ok show ?thesis by (simp add: library_ok_tables)
  next
    fix co dep target
    assume a: "authorize_upload_target (ie_uuid_text env) cx (up_metadata rq) (up_request_id rq) (up_document_id rq) db =
        (Inr (co, dep, target), db)"
      and none: "get_idempotent_version db (identity_user_id (ctx_identity cx)) (up_idempotency_key rq) = None"
      and eff: "upload_effect fr cx rq dep target db db'"
    from none have key: "(identity_user_id (ctx_identity cx), up_idempotency_key rq) \<notin>
        (\<lambda>v. (dv_uploaded_by v, dv_idempotency_key v)) ` set (ds_versions db)"
      by (auto simp: get_idempotent_version_def find_None_iff_all)
    from eff show ?thesis unfolding upload_effect_def
    proof (elim disjE exE conjE)
      assume "same_tables db db'"
      with ok show ?thesis by (simp add: library_ok_tables)
    next
      fix d n db1 v
      assume t: "target_of fr cx (up_metadata rq) dep target db = Some (d, n, db1)"
        and v: "dv_id v = fr_version fr" "dv_document_id v = dc_id d" "dv_number v = n"
          "dv_uploaded_by v = identity_user_id (ctx_identity cx)" "dv_idempotency_key v = up_idempotency_key rq"
        and s: "same_tables (add_version v db1) db'"
      have fk: "dv_document_id ` set (ds_versions db) \<subseteq> dc_id ` set (ds_documents db)"
        using ok by (simp add: library_ok_def rows_ok_def version_keys_ok_def)
      have "library_ok (add_version v db1)"
      proof (cases target)
        case None
        with t have d: "d = new_document fr cx (up_metadata rq) dep" "n = 1" "db1 = add_document d db"
          by (auto simp: target_of_def Let_def)
        then have new: "dc_id d \<notin> dc_id ` set (ds_documents db)" using fresh by (simp add: fresh_ids_def new_document_def)
        from authorize_upload_target_Inr [OF a] m have "document_ok db d" unfolding d(1) by (auto intro: new_document_ok)
        with ok new have "library_ok db1" unfolding d(3) by (intro add_document_ok)
        moreover have "(dc_id d, n) \<notin> (\<lambda>v. (dv_document_id v, dv_number v)) ` set (ds_versions db)" using fk new by auto
        ultimately show ?thesis using v key fv d(3) by (intro add_version_ok) simp_all
      next
        case (Some d0)
        with t have d: "d = d0" "db1 = db" "document_versions db (dc_id d) \<noteq> []"
          "n = Max (set (map dv_number (document_versions db (dc_id d)))) + 1"
          by (auto simp: target_of_def Let_def split: if_splits)
        from authorize_upload_target_Inr [OF a] Some obtain i where "get_document_for_management (ie_uuid_text env) db (ctx_scope cx) i = Some d"
          by (auto simp: d(1) split: option.splits)
        then have "d \<in> set (ds_documents db)" by (auto simp: get_document_for_management_def dest: find_Some_memb)
        moreover have "(dc_id d, n) \<notin> (\<lambda>v. (dv_document_id v, dv_number v)) ` set (ds_versions db)"
        proof
          assume "(dc_id d, n) \<in> (\<lambda>v. (dv_document_id v, dv_number v)) ` set (ds_versions db)"
          then obtain x where "x \<in> set (document_versions db (dc_id d))" "dv_number x = n" by auto
          then have "n \<le> Max (set (map dv_number (document_versions db (dc_id d))))" by (intro Max_ge) auto
          with d(4) show False by simp
        qed
        ultimately show ?thesis using ok v key fv d(2) by (intro add_version_ok) auto
      qed
      with s show ?thesis by (simp add: library_ok_tables)
    qed
  qed
qed

subsection \<open>Reviews keep the invariant\<close>

lemma get_document_Some:
  assumes "get_document_for_management ut db scope i = Some d"
  shows "d \<in> set (ds_documents db) \<and> dc_id d = i \<and> dc_deleted_at d = None \<and> manageable_clause ut scope d"
  using find_Some_memb [OF assms [unfolded get_document_for_management_def]] by simp

lemma get_version_Some:
  assumes "get_version_for_management ut db scope i j = Some (d, v)"
  shows "d \<in> set (ds_documents db) \<and> dc_id d = i \<and> dc_deleted_at d = None \<and> manageable_clause ut scope d \<and>
    v \<in> set (ds_versions db) \<and> dv_document_id v = dc_id d \<and> dv_id v = j \<and> dv_deleted_at v = None"
  using assms get_document_Some [of ut db scope i d]
  by (auto simp: get_version_for_management_def dest!: find_Some_memb split: option.splits if_splits)

definition approved_row :: "fresh \<Rightarrow> uuid \<Rightarrow> DocumentVersion \<Rightarrow> DocumentVersion" where
  "approved_row fr actor v = v\<lparr>dv_approved_by := Some actor, dv_approved_at := Some (fr_now fr)\<rparr>"

definition approved_document :: "DocumentVersion \<Rightarrow> Document \<Rightarrow> Document" where
  "approved_document v d = d\<lparr>dc_current_version := Some (dv_id v)\<rparr>"

lemma approve_version_end:
  assumes "approve_version env fr actor rid d v db w = (r, db', w')"
  shows "(\<exists>e. r = Inl e \<and> same_tables db db') \<or>
    (\<exists>data generated es n db2 w1. r = Inr data \<and>
       generate_approved_chunks (ie_text_sha256 env) (put_document (approved_document v d) (put_version (approved_row fr actor v) db))
         (approved_document v d) (approved_row fr actor v) = Inr generated \<and>
       embed_generated_chunks (ie_provider env) (ie_batch_size env) (ie_max_chunks env) generated w = (Inr es, w1) \<and>
       replace_active_chunks (approved_document v d) (approved_row fr actor v) es (ep_model (ie_provider env)) (fr_chunk fr)
         (put_document (approved_document v d) (put_version (approved_row fr actor v) db)) = Some (n, db2) \<and>
       chunk_table_ok db2 \<and> same_tables db2 db' \<and> va_document_version_id data = dv_id v)"
proof -
  have [simp]: "dv_id (v\<lparr>dv_approved_by := a, dv_approved_at := b\<rparr>) = dv_id v" for a b by simp
  show ?thesis
    using assms unfolding approve_version_def Let_def approved_row_def [symmetric] approved_document_def [symmetric]
    by (auto simp: approved_row_def approved_document_def action_data_def
        intro: same_tables_trans [OF same_tables_event same_tables_event]
        split: sum.splits prod.splits option.splits if_splits)
qed

lemma chunk_row_simps [simp]:
  "dk_id (chunk_row d m i e) = i" "dk_active (chunk_row d m i e) = gk_active (fst e)"
  "dk_document_id (chunk_row d m i e) = gk_document_id (fst e)"
  by (simp_all add: chunk_row_def Let_def)

lemma map_enumerate_fst: "map (\<lambda>(i, e). f i) (List.enumerate n es) = map f [n..<n + length es]"
  by (induction es arbitrary: n) (simp_all add: upt_conv_Cons del: upt_Suc)

lemma set_enumerate_item: "(i, e) \<in> set (List.enumerate n es) \<Longrightarrow> e \<in> set es"
  by (metis in_set_zip enumerate_eq_zip snd_conv nth_mem)

lemma stale_inactive [simp]: "\<not> dk_active (stale c)" "dk_id (stale c) = dk_id c" "dk_document_id (stale c) = dk_document_id c"
  by (simp_all add: stale_def)

lemma replace_active_keys:
  assumes "replace_active_chunks d v es m ids db = Some (n, db2)" and "distinct (map dk_id (ds_chunks db))"
    and "inj ids" and "range ids \<inter> dk_id ` set (ds_chunks db) = {}"
  shows "distinct (map dk_id (ds_chunks db2))"
proof -
  have "map dk_id (map (\<lambda>c. if dk_document_id c = dc_id d then stale c else c) (ds_chunks db)) = map dk_id (ds_chunks db)"
    by simp
  moreover have "map dk_id (map (\<lambda>(i, item). chunk_row d m (ids i) item) (List.enumerate 0 es)) = map ids [0..<length es]"
    using map_enumerate_fst [of ids 0 es] by (simp add: case_prod_beta' comp_def)
  ultimately have "map dk_id (ds_chunks db2) = map dk_id (ds_chunks db) @ map ids [0..<length es]"
    using assms(1) by (auto simp: replace_active_chunks_def split: if_splits)
  with assms(2-4) show ?thesis by (auto simp: distinct_map intro: inj_on_subset)
qed

lemma replace_active_new:
  assumes "replace_active_chunks d v es m ids db = Some (n, db2)" and "c \<in> set (ds_chunks db2)" and "dk_active c"
  shows "(c \<in> set (ds_chunks db) \<and> dk_document_id c \<noteq> dc_id d) \<or> (dv_document_id v = dc_id d \<longrightarrow> copy_of db d v c)"
proof -
  from assms(1) have cur: "current_approved d v" and all: "\<forall>e \<in> set es. chunk_matches db d v (fst e)"
    and rows: "ds_chunks db2 = map (\<lambda>c. if dk_document_id c = dc_id d then stale c else c) (ds_chunks db) @
      map (\<lambda>(i, item). chunk_row d m (ids i) item) (List.enumerate 0 es)"
    by (auto simp: replace_active_chunks_def list_ex_iff split: if_splits)
  from assms(2) rows consider (old) b where "b \<in> set (ds_chunks db)" "c = (if dk_document_id b = dc_id d then stale b else b)"
    | (new) i e where "(i, e) \<in> set (List.enumerate 0 es)" "c = chunk_row d m (ids i) e"
    by auto
  then show ?thesis
  proof cases
    case old
    with assms(3) show ?thesis by (auto split: if_splits)
  next
    case new
    from all set_enumerate_item [OF new(1)] have "chunk_matches db d v (fst e)" by blast
    with cur new(2) show ?thesis
      by (simp add: copy_of_def chunk_row_def chunk_matches_def current_approved_def Let_def)
  qed
qed

lemma replace_active_tables:
  assumes "replace_active_chunks d v es m ids db = Some (n, db2)"
  shows "ds_tenants db2 = ds_tenants db \<and> ds_companies db2 = ds_companies db \<and> ds_departments db2 = ds_departments db \<and>
    ds_documents db2 = ds_documents db \<and> ds_versions db2 = ds_versions db"
  using assms by (auto simp: replace_active_chunks_def split: if_splits)

text \<open>Rewriting a version or a document without touching its keys.\<close>

lemma put_version_rows:
  assumes ok: "rows_ok db" and v0: "v0 \<in> set (ds_versions db)" and vv: "same_keys v0 v"
  shows "rows_ok (put_version v db)"
proof -
  let ?put = "\<lambda>x. if dv_id x = dv_id v then v else x"
  from ok have k: "distinct (map dv_id (ds_versions db))" by (simp add: rows_ok_def keys_ok_def)
  have eq: "x = v0" if "x \<in> set (ds_versions db)" "dv_id x = dv_id v" for x
    using key_unique [OF k that(1) v0] that(2) vv by (simp add: same_keys_def)
  have "map (\<lambda>v. (dv_uploaded_by v, dv_idempotency_key v)) (map ?put (ds_versions db)) =
      map (\<lambda>v. (dv_uploaded_by v, dv_idempotency_key v)) (ds_versions db)"
    and "map (\<lambda>v. (dv_document_id v, dv_number v)) (map ?put (ds_versions db)) =
      map (\<lambda>v. (dv_document_id v, dv_number v)) (ds_versions db)"
    and "map dv_document_id (map ?put (ds_versions db)) = map dv_document_id (ds_versions db)"
    using vv by (auto simp: same_keys_def dest!: eq)
  moreover from this(3) have "dv_document_id ` set (map ?put (ds_versions db)) = dv_document_id ` set (ds_versions db)"
    by (metis list.set_map)
  ultimately have "version_keys_ok (put_version v db)"
    using ok by (simp only: rows_ok_def version_keys_ok_def put_version_tables)
  moreover have "document_ok (put_version v db) = document_ok db" by (simp add: document_ok_def [abs_def])
  ultimately show ?thesis using ok by (simp add: rows_ok_def keys_ok_def del: map_map)
qed

lemma put_document_rows:
  assumes ok: "rows_ok db" and d: "document_ok db d" shows "rows_ok (put_document d db)"
proof -
  have "dc_id ` set (map (\<lambda>x. if dc_id x = dc_id d then d else x) (ds_documents db)) = dc_id ` set (ds_documents db)"
    by (metis list.set_map map_put)
  then have "version_keys_ok (put_document d db)"
    using ok by (simp only: rows_ok_def version_keys_ok_def put_document_tables)
  moreover have "document_ok (put_document d db) = document_ok db" by (simp add: document_ok_def [abs_def])
  moreover have "list_all (document_ok db) (map (\<lambda>x. if dc_id x = dc_id d then d else x) (ds_documents db))"
    using ok d by (auto simp: rows_ok_def list_all_iff)
  ultimately show ?thesis using ok by (simp add: rows_ok_def keys_ok_def del: map_map)
qed

lemma rows_ok_chunks:
  assumes "rows_ok db" and "ds_tenants db' = ds_tenants db" and "ds_companies db' = ds_companies db"
    and "ds_departments db' = ds_departments db" and "ds_documents db' = ds_documents db" and "ds_versions db' = ds_versions db"
    and "distinct (map dk_id (ds_chunks db'))"
  shows "rows_ok db'"
  using assms by (simp add: rows_ok_def keys_ok_def version_keys_ok_def document_ok_def [abs_def])

lemma version_of_key:
  "rows_ok db \<Longrightarrow> v \<in> set (ds_versions db) \<Longrightarrow> v' \<in> set (ds_versions db) \<Longrightarrow> dv_id v = dv_id v' \<Longrightarrow> v = v'"
  by (auto simp: rows_ok_def keys_ok_def intro: key_unique [of dv_id])

lemma document_of_key:
  "rows_ok db \<Longrightarrow> d \<in> set (ds_documents db) \<Longrightarrow> d' \<in> set (ds_documents db) \<Longrightarrow> dc_id d = dc_id d' \<Longrightarrow> d = d'"
  by (auto simp: rows_ok_def keys_ok_def intro: key_unique [of dc_id])

lemma approve_keeps:
  assumes ok: "library_ok db" and fresh: "fresh_ids fr db" and d: "d \<in> set (ds_documents db)" and v0: "v0 \<in> set (ds_versions db)"
    and vd: "dv_document_id v0 = dc_id d" and vv: "same_upload v0 v"
    and ap: "approve_version env fr actor rid d v db w = (r, db', w')"
  shows "library_ok db'"
  using approve_version_end [OF ap]
proof (elim disjE exE conjE)
  assume "same_tables db db'"
  with ok show ?thesis by (simp add: library_ok_tables)
next
  fix es n db2
  define d1 where "d1 = approved_document v d"
  define v1 where "v1 = approved_row fr actor v"
  define db1 where "db1 = put_document d1 (put_version v1 db)"
  assume "replace_active_chunks (approved_document v d) (approved_row fr actor v) es (ep_model (ie_provider env)) (fr_chunk fr)
      (put_document (approved_document v d) (put_version (approved_row fr actor v) db)) = Some (n, db2)"
  then have re: "replace_active_chunks d1 v1 es (ep_model (ie_provider env)) (fr_chunk fr) db1 = Some (n, db2)"
    by (simp add: d1_def v1_def db1_def)
  assume same: "same_tables db2 db'"
  have rows: "rows_ok db" using ok by (simp add: library_ok_def)
  have k1: "same_keys v0 v1" using vv by (simp add: v1_def approved_row_def same_upload_def same_keys_def)
  have d1: "dc_id d1 = dc_id d" "document_ok (put_version v1 db) d1"
    using rows d by (auto simp: d1_def approved_document_def rows_ok_def list_all_iff document_ok_def)
  have rows1: "rows_ok db1" unfolding db1_def by (intro put_document_rows put_version_rows [OF rows v0 k1] d1)
  have t: "ds_departments db1 = ds_departments db" "ds_chunks db1 = ds_chunks db" by (simp_all add: db1_def)
  have "distinct (map dk_id (ds_chunks db2))"
  proof (rule replace_active_keys [OF re])
    show "distinct (map dk_id (ds_chunks db1))" using rows1 unfolding rows_ok_def keys_ok_def by blast
  qed (use fresh in \<open>simp_all add: t fresh_ids_def\<close>)
  with rows1 replace_active_tables [OF re] have rows2: "rows_ok db2" using rows_ok_chunks [of db1 db2] by simp
  have "chunks_current db2" unfolding chunks_current_def
  proof (intro ballI impI)
    fix c assume c: "c \<in> set (ds_chunks db2)" "dk_active c"
    from replace_active_tables [OF re] have t2: "ds_documents db2 = ds_documents db1" "ds_versions db2 = ds_versions db1"
      "ds_departments db2 = ds_departments db1" by simp_all
    from replace_active_new [OF re c]
    show "\<exists>d \<in> set (ds_documents db2). \<exists>v \<in> set (ds_versions db2). copy_of db2 d v c"
    proof (elim disjE conjE)
      assume old: "c \<in> set (ds_chunks db1)" "dk_document_id c \<noteq> dc_id d1"
      with ok c(2) t(2) obtain d' v' where e: "d' \<in> set (ds_documents db)" "v' \<in> set (ds_versions db)" "copy_of db d' v' c"
        by (auto simp: library_ok_def chunks_current_def)
      with old(2) d1(1) have "dc_id d' \<noteq> dc_id d1" by (simp add: copy_of_def)
      with e(1) have "d' \<in> set (ds_documents db1)" by (simp add: db1_def put_memb)
      moreover have "dv_id v' \<noteq> dv_id v1"
      proof
        assume "dv_id v' = dv_id v1"
        with version_of_key [OF rows e(2) v0] k1 have "v' = v0" by (simp add: same_keys_def)
        with vd e(3) old(2) d1(1) show False by (simp add: copy_of_def)
      qed
      with e(2) have "v' \<in> set (ds_versions db1)" by (simp add: db1_def put_memb)
      ultimately show ?thesis using e(3) t2 t(1) copy_of_departments [of db2 db] by auto
    next
      assume "dv_document_id v1 = dc_id d1 \<longrightarrow> copy_of db1 d1 v1 c"
      with k1 vd d1(1) have cp: "copy_of db1 d1 v1 c" by (simp add: same_keys_def)
      have "d1 \<in> set (ds_documents db1)" using put_self [of d "ds_documents db" dc_id d1] d d1(1) by (simp add: db1_def)
      moreover have "v1 \<in> set (ds_versions db1)"
        using put_self [of v0 "ds_versions db" dv_id v1] v0 k1 by (simp add: db1_def same_keys_def)
      ultimately show ?thesis using cp t2 copy_of_departments [of db2 db1] by auto
    qed
  qed
  with rows2 have "library_ok db2" by (simp add: library_ok_def)
  with same show ?thesis by (simp add: library_ok_tables)
qed

text \<open>Deactivating rows: an active row afterwards is an untouched row from before.\<close>

lemma deactivate_version_tables:
  "ds_tenants (snd (deactivate_version_chunks i s db)) = ds_tenants db"
  "ds_companies (snd (deactivate_version_chunks i s db)) = ds_companies db"
  "ds_departments (snd (deactivate_version_chunks i s db)) = ds_departments db"
  "ds_documents (snd (deactivate_version_chunks i s db)) = ds_documents db"
  "ds_versions (snd (deactivate_version_chunks i s db)) = ds_versions db"
  "map dk_id (ds_chunks (snd (deactivate_version_chunks i s db))) = map dk_id (ds_chunks db)"
  by (simp_all add: deactivate_version_chunks_def stale_def)

lemma deactivate_version_active:
  "c \<in> set (ds_chunks (snd (deactivate_version_chunks i s db))) \<Longrightarrow> dk_active c \<Longrightarrow>
     c \<in> set (ds_chunks db) \<and> dk_document_version_id c \<noteq> i"
  by (auto simp: deactivate_version_chunks_def split: if_splits)

lemma deactivate_document_tables:
  "ds_tenants (snd (deactivate_document_chunks i db)) = ds_tenants db"
  "ds_companies (snd (deactivate_document_chunks i db)) = ds_companies db"
  "ds_departments (snd (deactivate_document_chunks i db)) = ds_departments db"
  "ds_documents (snd (deactivate_document_chunks i db)) = ds_documents db"
  "ds_versions (snd (deactivate_document_chunks i db)) = ds_versions db"
  "map dk_id (ds_chunks (snd (deactivate_document_chunks i db))) = map dk_id (ds_chunks db)"
  by (simp_all add: deactivate_document_chunks_def)

lemma deactivate_document_active:
  "c \<in> set (ds_chunks (snd (deactivate_document_chunks i db))) \<Longrightarrow> dk_active c \<Longrightarrow>
     c \<in> set (ds_chunks db) \<and> dk_document_id c \<noteq> i"
  by (auto simp: deactivate_document_chunks_def split: if_splits)

lemma reject_keeps:
  assumes ok: "library_ok db" and v0: "v0 \<in> set (ds_versions db)" and vv: "same_upload v0 v"
    and rj: "reject_version fr actor rid d v db = (r, db')"
  shows "library_ok db'"
proof -
  define v1 where "v1 = v\<lparr>dv_rejected_by := Some actor, dv_rejected_at := Some (fr_now fr)\<rparr>"
  define db1 where "db1 = snd (deactivate_version_chunks (dv_id v1) ''REJECTED'' (put_version v1 db))"
  from rj have same: "same_tables db1 db'"
    by (auto simp: reject_version_def Let_def v1_def [symmetric] db1_def split: prod.splits
        intro: same_tables_trans [OF same_tables_event same_tables_event])
  have rows: "rows_ok db" using ok by (simp add: library_ok_def)
  have k1: "same_keys v0 v1" using vv by (simp add: v1_def same_upload_def same_keys_def)
  note t = deactivate_version_tables [of "dv_id v1" "''REJECTED''" "put_version v1 db", folded db1_def]
  have "distinct (map dk_id (ds_chunks db1))" using rows by (simp only: t rows_ok_def keys_ok_def put_version_tables)
  with put_version_rows [OF rows v0 k1] rows_ok_chunks [of "put_version v1 db" db1] t have rows1: "rows_ok db1" by simp
  have "chunks_current db1" unfolding chunks_current_def
  proof (intro ballI impI)
    fix c assume c: "c \<in> set (ds_chunks db1)" "dk_active c"
    from deactivate_version_active [OF c(1) [unfolded db1_def] c(2)]
    have o: "c \<in> set (ds_chunks db)" "dk_document_version_id c \<noteq> dv_id v1" by simp_all
    with ok c(2) obtain d' v' where e: "d' \<in> set (ds_documents db)" "v' \<in> set (ds_versions db)" "copy_of db d' v' c"
      by (auto simp: library_ok_def chunks_current_def)
    with o(2) have "dv_id v' \<noteq> dv_id v1" by (simp add: copy_of_def)
    with e(2) have "v' \<in> set (ds_versions db1)" by (simp add: t put_memb)
    with e t copy_of_departments [of db1 db] show "\<exists>d \<in> set (ds_documents db1). \<exists>v \<in> set (ds_versions db1). copy_of db1 d v c"
      by auto
  qed
  with rows1 have "library_ok db1" by (simp add: library_ok_def)
  with same show ?thesis by (simp add: library_ok_tables)
qed

text \<open>A review either changes no table but the audit log, or has authority over the version and applies the
  transition.\<close>

lemma review_cases:
  assumes "review env fr cx i j approve rid db w = (r, db', w')"
  shows "(\<exists>e. r = Inl e \<and> same_tables db db') \<or>
    (\<exists>d v0 v. get_version_for_management (ie_uuid_text env) db (ctx_scope cx) i j = Some (d, v0) \<and>
       allowed (authorize (ctx_scope cx) (manage_request (dc_tenant_id d) (dc_company_id d))) \<and>
       transition (fr_now fr) (if approve then ''APPROVED'' else ''REJECTED'') None v0 = Inr v \<and>
       (if approve then approve_version env fr (identity_user_id (ctx_identity cx)) rid d v db w = (r, db', w')
        else reject_version fr (identity_user_id (ctx_identity cx)) rid d v db = (r, db')))"
proof (cases "get_version_for_management (ie_uuid_text env) db (ctx_scope cx) i j")
  case None
  with assms show ?thesis by (auto simp: review_def raise_not_found_def with_world_def Let_def)
next
  case (Some dv)
  obtain d v0 where dv: "dv = (d, v0)" by (cases dv)
  let ?et = "if approve then ''document_approved'' else ''document_rejected''"
  obtain a db1 where a: "authorize_target cx (dc_tenant_id d) (dc_company_id d) rid ?et True (Some (dc_id d)) db = (a, db1)"
    by (cases "authorize_target cx (dc_tenant_id d) (dc_company_id d) rid ?et True (Some (dc_id d)) db")
  show ?thesis
  proof (cases a)
    case (Inl e)
    have "same_tables db db1" using authorize_target_tables [of db cx "dc_tenant_id d" "dc_company_id d" rid ?et True "Some (dc_id d)"] a
      by simp
    with assms Some dv a Inl show ?thesis by (auto simp: review_def Let_def)
  next
    case (Inr u)
    with a have al: "allowed (authorize (ctx_scope cx) (manage_request (dc_tenant_id d) (dc_company_id d)))" "db1 = db"
      by (auto simp: authorize_target_def Let_def split: if_splits)
    show ?thesis
    proof (cases "transition (fr_now fr) (if approve then ''APPROVED'' else ''REJECTED'') None v0")
      case (Inl e)
      with assms Some dv a Inr al show ?thesis
        by (cases e) (auto simp: review_def Let_def)
    next
      case t: (Inr v)
      with assms Some dv a Inr al show ?thesis
        by (cases approve) (auto simp: review_def Let_def with_world_def)
    qed
  qed
qed

lemma review_keeps:
  assumes ok: "library_ok db" and fresh: "fresh_ids fr db" and rv: "review env fr cx i j approve rid db w = (r, db', w')"
  shows "library_ok db'"
  using review_cases [OF rv]
proof (elim disjE exE conjE)
  assume "same_tables db db'"
  with ok show ?thesis by (simp add: library_ok_tables)
next
  fix d v0 v
  assume g: "get_version_for_management (ie_uuid_text env) db (ctx_scope cx) i j = Some (d, v0)"
    and t: "transition (fr_now fr) (if approve then ''APPROVED'' else ''REJECTED'') None v0 = Inr v"
    and e: "if approve then approve_version env fr (identity_user_id (ctx_identity cx)) rid d v db w = (r, db', w')
        else reject_version fr (identity_user_id (ctx_identity cx)) rid d v db = (r, db')"
  from get_version_Some [OF g] have gv: "d \<in> set (ds_documents db)" "v0 \<in> set (ds_versions db)" "dv_document_id v0 = dc_id d"
    by simp_all
  from t have s: "same_upload v0 v" by (simp add: transition_same)
  from e show ?thesis
    using approve_keeps [OF ok fresh gv s] reject_keeps [OF ok gv(2) s] by (cases approve) auto
qed

subsection \<open>Deletions keep the invariant\<close>

lemma delete_version_Inr:
  "delete_version now v = Inr v' \<Longrightarrow> same_keys v v' \<and> dv_deleted_at v' = Some now \<and> dv_status v' = ''DELETED'' \<and>
     dv_storage_key v' = dv_storage_key v"
  by (auto simp: delete_version_def transition_def same_keys_def result_simps Let_def split: if_splits)

lemma fold_put_version_tables [simp]:
  "ds_tenants (fold put_version vs db) = ds_tenants db" "ds_companies (fold put_version vs db) = ds_companies db"
  "ds_departments (fold put_version vs db) = ds_departments db" "ds_documents (fold put_version vs db) = ds_documents db"
  "ds_chunks (fold put_version vs db) = ds_chunks db"
  by (induction vs arbitrary: db) simp_all

lemma fold_put_version_other:
  "v \<in> set (ds_versions db) \<Longrightarrow> dv_id v \<notin> dv_id ` set vs \<Longrightarrow> v \<in> set (ds_versions (fold put_version vs db))"
proof (induction vs arbitrary: db)
  case (Cons x vs)
  then have "v \<in> set (ds_versions (put_version x db))" by (simp add: put_memb)
  with Cons show ?case by simp
qed simp

lemma fold_put_version_rows:
  assumes "rows_ok db" and "\<forall>v \<in> set vs. \<exists>v0 \<in> set (ds_versions db). same_keys v0 v"
  shows "rows_ok (fold put_version vs db)"
  using assms
proof (induction vs arbitrary: db)
  case (Cons x vs)
  from Cons.prems(2) obtain x0 where x0: "x0 \<in> set (ds_versions db)" "same_keys x0 x" by auto
  have "\<exists>v0 \<in> set (ds_versions (put_version x db)). same_keys v0 v" if v: "v \<in> set vs" for v
  proof -
    from Cons.prems(2) v obtain v0 where v0: "v0 \<in> set (ds_versions db)" "same_keys v0 v" by auto
    show ?thesis
    proof (cases "dv_id v0 = dv_id x")
      case True
      with version_of_key [OF Cons.prems(1) v0(1) x0(1)] x0(2) have "v0 = x0" by (simp add: same_keys_def)
      with x0 v0 have "same_keys x v" by (simp add: same_keys_def)
      moreover have "x \<in> set (ds_versions (put_version x db))"
        using put_self [of v0 "ds_versions db" dv_id x] v0(1) True by simp
      ultimately show ?thesis by blast
    next
      case False
      with v0 put_memb [of v0 "ds_versions db" dv_id x] show ?thesis by auto
    qed
  qed
  with Cons.IH [OF put_version_rows [OF Cons.prems(1) x0]] show ?case by simp
qed simp

lemma delete_objects_tables:
  "delete_objects env event keys db w = (Some db', w') \<Longrightarrow> same_tables db db'"
proof (induction keys arbitrary: db w)
  case (Cons k keys)
  then show ?case
    by (auto split: prod.splits sum.splits storage_exn.splits intro: same_tables_trans [OF same_tables_event])
qed simp

definition deleted_document :: "fresh \<Rightarrow> Document \<Rightarrow> Document" where
  "deleted_document fr d = d\<lparr>dc_deleted_at := Some (fr_now fr), dc_current_version := None\<rparr>"

lemma delete_document_cases:
  assumes "delete_document env fr cx i rid db w = (r, db', w')"
  shows "(\<exists>e. r = Inl e \<and> same_tables db db') \<or>
    (\<exists>d vs. get_document_for_management (ie_uuid_text env) db (ctx_scope cx) i = Some d \<and>
       mapR (delete_version (fr_now fr)) (document_versions db (dc_id d)) = Inr vs \<and>
       same_tables (snd (deactivate_document_chunks (dc_id d) (put_document (deleted_document fr d) (fold put_version vs db)))) db' \<and>
       (\<forall>j. r = Inr j \<longrightarrow> j = dc_id d))"
proof (cases "get_document_for_management (ie_uuid_text env) db (ctx_scope cx) i")
  case None
  with assms show ?thesis by (auto simp: delete_document_def raise_not_found_def with_world_def Let_def)
next
  case (Some d)
  obtain a db1 where a: "authorize_target cx (dc_tenant_id d) (dc_company_id d) rid ''document_delete'' True (Some (dc_id d)) db = (a, db1)"
    by (cases "authorize_target cx (dc_tenant_id d) (dc_company_id d) rid ''document_delete'' True (Some (dc_id d)) db")
  have st: "same_tables db db1"
    using authorize_target_tables [of db cx "dc_tenant_id d" "dc_company_id d" rid "''document_delete''" True "Some (dc_id d)"] a by simp
  show ?thesis
  proof (cases a)
    case (Inl e)
    with assms Some a st show ?thesis by (auto simp: delete_document_def Let_def)
  next
    case (Inr u)
    with a have db1: "db1 = db" by (auto dest: authorize_target_store)
    show ?thesis
    proof (cases "mapR (delete_version (fr_now fr)) (document_versions db (dc_id d))")
      case (Inl e)
      with assms Some a Inr db1 show ?thesis by (auto simp: delete_document_def Let_def)
    next
      case vs: (Inr vs)
      obtain n db2 where dd: "deactivate_document_chunks (dc_id d) (put_document (deleted_document fr d) (fold put_version vs db)) = (n, db2)"
        by (cases "deactivate_document_chunks (dc_id d) (put_document (deleted_document fr d) (fold put_version vs db))")
      from assms Some a Inr db1 vs dd have "same_tables db2 db' \<and> (\<forall>j. r = Inr j \<longrightarrow> j = dc_id d)"
        by (auto simp: delete_document_def Let_def deleted_document_def [symmetric] dest!: delete_objects_tables
            intro: same_tables_trans [OF same_tables_event] split: prod.splits option.splits)
      with Some vs dd show ?thesis by auto
    qed
  qed
qed

lemma delete_keeps:
  assumes ok: "library_ok db" and del: "delete_document env fr cx i rid db w = (r, db', w')"
  shows "library_ok db'"
  using delete_document_cases [OF del]
proof (elim disjE exE conjE)
  assume "same_tables db db'"
  with ok show ?thesis by (simp add: library_ok_tables)
next
  fix d vs
  assume g: "get_document_for_management (ie_uuid_text env) db (ctx_scope cx) i = Some d"
    and vs: "mapR (delete_version (fr_now fr)) (document_versions db (dc_id d)) = Inr vs"
    and same: "same_tables (snd (deactivate_document_chunks (dc_id d) (put_document (deleted_document fr d) (fold put_version vs db)))) db'"
  define d1 where "d1 = deleted_document fr d"
  define db1 where "db1 = put_document d1 (fold put_version vs db)"
  define db2 where "db2 = snd (deactivate_document_chunks (dc_id d) db1)"
  from get_document_Some [OF g] have d: "d \<in> set (ds_documents db)" by simp
  have rows: "rows_ok db" using ok by (simp add: library_ok_def)
  have old: "\<exists>v0 \<in> set (ds_versions db). same_keys v0 v \<and> dv_document_id v0 = dc_id d" if "v \<in> set vs" for v
  proof -
    from mapR_Inr_memb [OF vs that] obtain v0
      where "v0 \<in> set (document_versions db (dc_id d))" "delete_version (fr_now fr) v0 = Inr v" by blast
    with delete_version_Inr show ?thesis by fastforce
  qed
  have "rows_ok (fold put_version vs db)" using fold_put_version_rows [OF rows] old by blast
  moreover have "document_ok (fold put_version vs db) d1" using rows d
    by (simp add: document_ok_tables [of _ db] d1_def deleted_document_def rows_ok_def list_all_iff document_ok_def)
  ultimately have rows1: "rows_ok db1" unfolding db1_def by (rule put_document_rows)
  note t = deactivate_document_tables [of "dc_id d" db1, folded db2_def]
  have "distinct (map dk_id (ds_chunks db2))" using rows1 by (simp only: t rows_ok_def keys_ok_def)
  with rows1 rows_ok_chunks [of db1 db2] t have rows2: "rows_ok db2" by simp
  have "chunks_current db2" unfolding chunks_current_def
  proof (intro ballI impI)
    fix c assume c: "c \<in> set (ds_chunks db2)" "dk_active c"
    from deactivate_document_active [OF c(1) [unfolded db2_def] c(2)]
    have o: "c \<in> set (ds_chunks db)" "dk_document_id c \<noteq> dc_id d" by (simp_all add: db1_def)
    with ok c(2) obtain d' v' where e: "d' \<in> set (ds_documents db)" "v' \<in> set (ds_versions db)" "copy_of db d' v' c"
      by (auto simp: library_ok_def chunks_current_def)
    with o(2) have n: "dc_id d' \<noteq> dc_id d1" "dv_document_id v' \<noteq> dc_id d" by (simp_all add: copy_of_def d1_def deleted_document_def)
    have "dv_id v' \<notin> dv_id ` set vs"
    proof
      assume "dv_id v' \<in> dv_id ` set vs"
      then obtain v where v: "v \<in> set vs" "dv_id v' = dv_id v" by blast
      from old [OF v(1)] obtain v0 where "v0 \<in> set (ds_versions db)" "same_keys v0 v" "dv_document_id v0 = dc_id d" by blast
      with version_of_key [OF rows e(2)] v(2) n(2) show False by (auto simp: same_keys_def)
    qed
    from fold_put_version_other [OF e(2) this] have "v' \<in> set (ds_versions db2)" by (simp add: t db1_def)
    moreover have "d' \<in> set (ds_documents db2)" using e(1) n(1) by (simp add: t db1_def put_memb)
    moreover have "copy_of db2 d' v' c" using e(3) t copy_of_departments [of db2 db] by (simp add: db1_def)
    ultimately show "\<exists>d \<in> set (ds_documents db2). \<exists>v \<in> set (ds_versions db2). copy_of db2 d v c" by blast
  qed
  with rows2 have "library_ok db2" by (simp add: library_ok_def)
  with same show ?thesis by (simp add: library_ok_tables db1_def db2_def d1_def)
qed

end
