(* ===== verification/Library_Life.thy ===== *)
theory Library_Life
  imports Document_Library
begin

text \<open>
  The document library over time: a store reached from the seeded identity tables by any sequence of uploads, reviews,
  deletions, reads and searches of any callers, with tenants and companies enabled and disabled in between.  Every
  step keeps the invariant of \<^verbatim>\<open>Document_Library\<close>, so the authorized source statement returns exactly the
  chunks the policy allows, and a deleted document stays deleted.
\<close>

subsection \<open>Reads leave the tables alone\<close>

lemma raise_not_found_tables: "same_tables db (snd (raise_not_found cx rid et db))"
  by (simp add: raise_not_found_def)

lemma managed_tables: "managed cx rid et found db = (r, db') \<Longrightarrow> same_tables db db'"
proof -
  assume m: "managed cx rid et found db = (r, db')"
  show ?thesis
  proof (cases found)
    case None
    with m have "raise_not_found cx rid et db = (r, db')" by (simp add: managed_def)
    then show ?thesis using raise_not_found_tables by (metis snd_conv)
  next
    case (Some dv)
    obtain d v where dv: "dv = (d, v)" by (cases dv)
    let ?a = "authorize_target cx (dc_tenant_id d) (dc_company_id d) rid et True (Some (dc_id d)) db"
    have "db' = snd ?a" using m Some dv by (cases ?a; cases "fst ?a") (auto simp: managed_def)
    then show ?thesis by (simp add: authorize_target_tables)
  qed
qed

lemma ingestion_status_tables: "ingestion_status ut cx j rid db = (r, db') \<Longrightarrow> same_tables db db'"
  by (auto simp: ingestion_status_def and_then_def dest!: managed_tables split: prod.splits sum.splits option.splits)

lemma preview_tables: "preview ut cx i j rid db = (r, db') \<Longrightarrow> same_tables db db'"
  by (auto simp: preview_def and_then_def dest!: managed_tables intro: same_tables_trans [OF _ same_tables_event]
      split: prod.splits sum.splits option.splits if_splits)

lemma authorize_all_tables: "authorize_all cx rid et ds db = (r, db') \<Longrightarrow> same_tables db db'"
proof (induction ds arbitrary: db)
  case (Cons d ds)
  obtain a db1 where a: "authorize_target cx (dc_tenant_id d) (dc_company_id d) rid et True (Some (dc_id d)) db = (a, db1)"
    by (cases "authorize_target cx (dc_tenant_id d) (dc_company_id d) rid et True (Some (dc_id d)) db")
  then have s: "same_tables db db1" using authorize_target_tables [of db cx "dc_tenant_id d" "dc_company_id d" rid et True "Some (dc_id d)"]
    by simp
  show ?case
  proof (cases a)
    case (Inl e)
    with Cons.prems a s show ?thesis by simp
  next
    case (Inr u)
    with Cons.prems a have "authorize_all cx rid et ds db1 = (r, db')" by simp
    from Cons.IH [OF this] s show ?thesis by (blast intro: same_tables_trans)
  qed
qed simp

lemma document_library_tables: "document_library ut cx f rid db = (r, db') \<Longrightarrow> same_tables db db'"
proof -
  assume l: "document_library ut cx f rid db = (r, db')"
  obtain p db1 where p: "require_any_manage_permission ut cx rid ''document_library_read'' db = (p, db1)"
    by (cases "require_any_manage_permission ut cx rid ''document_library_read'' db")
  then have s: "same_tables db db1" by (auto simp: require_any_manage_permission_def split: if_splits)
  show ?thesis
  proof (cases p)
    case (Inl e)
    with l p s show ?thesis by (simp add: document_library_def)
  next
    case (Inr u)
    obtain ds n where ds: "list_manageable_documents ut db1 (ctx_scope cx) f = (ds, n)"
      by (cases "list_manageable_documents ut db1 (ctx_scope cx) f")
    obtain b db2 where b: "authorize_all cx rid ''document_library_read'' ds db1 = (b, db2)"
      by (cases "authorize_all cx rid ''document_library_read'' ds db1")
    from l p Inr ds b have "db' = db2" by (cases b) (auto simp: document_library_def Let_def split: if_splits)
    with authorize_all_tables [OF b] s show ?thesis by (blast intro: same_tables_trans)
  qed
qed

subsection \<open>The steps of the library\<close>

text \<open>An administrator of the platform enables and disables tenants and companies outside the modelled services.\<close>

definition set_tenant_status :: "uuid \<Rightarrow> string \<Rightarrow> docstore \<Rightarrow> docstore" where
  "set_tenant_status i s db = db\<lparr>ds_tenants := map (\<lambda>t. if tn_id t = i then t\<lparr>tn_status := s\<rparr> else t) (ds_tenants db)\<rparr>"

definition set_company_status :: "uuid \<Rightarrow> string \<Rightarrow> docstore \<Rightarrow> docstore" where
  "set_company_status i s db = db\<lparr>ds_companies := map (\<lambda>c. if co_id c = i then c\<lparr>co_status := s\<rparr> else c) (ds_companies db)\<rparr>"

inductive library_step :: "'v ingestion_env \<Rightarrow> docstore \<Rightarrow> docstore \<Rightarrow> bool" for env :: "'v ingestion_env" where
  uploads: "upload env fr cx rq db w = (r, db', w') \<Longrightarrow> fresh_ids fr db \<Longrightarrow> upload_metadata_ok (up_metadata rq) \<Longrightarrow>
     library_step env db db'"
| reviews: "review env fr cx i j approve rid db w = (rv, db', w') \<Longrightarrow> fresh_ids fr db \<Longrightarrow> library_step env db db'"
| deletes: "delete_document env fr cx i rid db w = (dl, db', w') \<Longrightarrow> library_step env db db'"
| reads_status: "ingestion_status (ie_uuid_text env) cx j rid db = (rs, db') \<Longrightarrow> library_step env db db'"
| reads_preview: "preview (ie_uuid_text env) cx i j rid db = (rp, db') \<Longrightarrow> library_step env db db'"
| lists: "document_library (ie_uuid_text env) cx f rid db = (rl, db') \<Longrightarrow> library_step env db db'"
| searches: "search rk (ie_uuid_text env) (ie_provider env) cx q k rid (db, w) = (out, (db', w')) \<Longrightarrow> library_step env db db'"
| sets_tenant: "library_step env db (set_tenant_status i s db)"
| sets_company: "library_step env db (set_company_status i s db)"

text \<open>The seeded database: identity rows, no document yet.\<close>

definition seeded :: "docstore \<Rightarrow> bool" where
  "seeded db \<longleftrightarrow> keys_ok db \<and> ds_documents db = [] \<and> ds_versions db = [] \<and> ds_chunks db = []"

lemma seeded_ok: "seeded db \<Longrightarrow> library_ok db"
  by (simp add: seeded_def library_ok_def rows_ok_def version_keys_ok_def chunks_current_def)

lemma memb_map: "x \<in> set (map f xs) \<longleftrightarrow> (\<exists>y \<in> set xs. f y = x)"
  by auto

lemma document_ok_keys:
  "document_ok db d \<longleftrightarrow> dc_tenant_id d \<in> set (map tn_id (ds_tenants db)) \<and>
     (dc_company_id d, dc_tenant_id d) \<in> set (map (\<lambda>c. (co_id c, co_tenant_id c)) (ds_companies db)) \<and>
     (\<exists>p \<in> set (ds_departments db). dp_id p = dc_department_id d \<and>
        ck_acl_metadata (dp_key p) (dc_visibility d) (dc_classification d))"
  unfolding memb_map by (simp add: document_ok_def)

lemma identities_ok:
  assumes "library_ok db" and "map tn_id (ds_tenants db') = map tn_id (ds_tenants db)"
    and co: "map (\<lambda>c. (co_id c, co_tenant_id c)) (ds_companies db') = map (\<lambda>c. (co_id c, co_tenant_id c)) (ds_companies db)"
    and dp: "ds_departments db' = ds_departments db"
    and rows: "ds_documents db' = ds_documents db" "ds_versions db' = ds_versions db" "ds_chunks db' = ds_chunks db"
  shows "library_ok db'"
proof -
  have "map co_id cs = map fst (map (\<lambda>c. (co_id c, co_tenant_id c)) cs)" for cs by simp
  with co have "map co_id (ds_companies db') = map co_id (ds_companies db)" by metis
  moreover have "document_ok db' = document_ok db" unfolding document_ok_keys [abs_def] using assms(2) co dp by simp
  ultimately show ?thesis using assms
    by (simp add: library_ok_def rows_ok_def keys_ok_def version_keys_ok_def chunks_current_def copy_of_departments [OF dp])
qed

lemma set_tenant_status_tables [simp]:
  "map tn_id (ds_tenants (set_tenant_status i s db)) = map tn_id (ds_tenants db)"
  "ds_companies (set_tenant_status i s db) = ds_companies db" "ds_departments (set_tenant_status i s db) = ds_departments db"
  "ds_documents (set_tenant_status i s db) = ds_documents db" "ds_versions (set_tenant_status i s db) = ds_versions db"
  "ds_chunks (set_tenant_status i s db) = ds_chunks db"
  by (simp_all add: set_tenant_status_def)

lemma set_company_status_tables [simp]:
  "map (\<lambda>c. (co_id c, co_tenant_id c)) (ds_companies (set_company_status i s db)) =
     map (\<lambda>c. (co_id c, co_tenant_id c)) (ds_companies db)"
  "ds_tenants (set_company_status i s db) = ds_tenants db" "ds_departments (set_company_status i s db) = ds_departments db"
  "ds_documents (set_company_status i s db) = ds_documents db" "ds_versions (set_company_status i s db) = ds_versions db"
  "ds_chunks (set_company_status i s db) = ds_chunks db"
  by (simp_all add: set_company_status_def)

lemma tenant_status_ok: "library_ok db \<Longrightarrow> library_ok (set_tenant_status i s db)"
  by (rule identities_ok) simp_all

lemma company_status_ok: "library_ok db \<Longrightarrow> library_ok (set_company_status i s db)"
  by (rule identities_ok) simp_all

lemma step_ok: "library_step env db db' \<Longrightarrow> library_ok db \<Longrightarrow> library_ok db'"
proof (induction rule: library_step.induct)
  case (searches rk cx q k rid db w out db' w')
  with search_tables [OF searches(1)] show ?case by (simp add: library_ok_tables)
qed (auto intro: upload_keeps review_keeps delete_keeps tenant_status_ok company_status_ok
    dest: ingestion_status_tables preview_tables document_library_tables simp: library_ok_tables)

lemma life_ok: "(library_step env)\<^sup>*\<^sup>* db db' \<Longrightarrow> library_ok db \<Longrightarrow> library_ok db'"
  by (induction rule: rtranclp_induct) (auto intro: step_ok)

subsection \<open>A deleted document stays deleted\<close>

definition gone :: "uuid \<Rightarrow> docstore \<Rightarrow> bool" where
  "gone i db \<longleftrightarrow> (\<exists>d \<in> set (ds_documents db). dc_id d = i \<and> dc_deleted_at d \<noteq> None)"

lemma gone_documents: "ds_documents db' = ds_documents db \<Longrightarrow> gone i db' = gone i db"
  by (simp add: gone_def)

lemma gone_tables: "same_tables db db' \<Longrightarrow> gone i db' = gone i db"
  by (simp add: same_tables_iff gone_def)

lemma put_gone:
  assumes "rows_ok db" and "d \<in> set (ds_documents db)" and "dc_deleted_at d = None" and "dc_id d' = dc_id d" and "gone i db"
  shows "gone i (put_document d' db)"
proof -
  from assms(5) obtain x where x: "x \<in> set (ds_documents db)" "dc_id x = i" "dc_deleted_at x \<noteq> None" by (auto simp: gone_def)
  with document_of_key [OF assms(1) x(1) assms(2)] assms(3,4) have "dc_id x \<noteq> dc_id d'" by auto
  with x put_memb [of x "ds_documents db" dc_id d'] show ?thesis by (auto simp: gone_def)
qed

lemma target_of_documents:
  "target_of fr cx m dep target db = Some (d, n, db1) \<Longrightarrow> set (ds_documents db) \<subseteq> set (ds_documents db1)"
  by (auto simp: target_of_def Let_def split: option.splits if_splits)

lemma upload_effect_documents:
  "upload_effect fr cx rq dep target db db' \<Longrightarrow> set (ds_documents db) \<subseteq> set (ds_documents db')"
  unfolding upload_effect_def by (elim disjE exE conjE) (simp_all add: same_tables_iff target_of_documents)

lemma upload_gone:
  assumes "upload env fr cx rq db w = (r, db', w')" and "fresh_ids fr db" and "gone i db"
  shows "gone i db'"
proof -
  from assms(2) have "fr_version fr \<notin> dv_id ` set (ds_versions db)" by (simp add: fresh_ids_def)
  from upload_cases [OF assms(1) this] have "set (ds_documents db) \<subseteq> set (ds_documents db')"
    by (elim disjE exE conjE) (simp_all add: same_tables_iff upload_effect_documents)
  with assms(3) show ?thesis unfolding gone_def by blast
qed

lemma reject_documents:
  assumes "reject_version fr actor rid d v db = (r, db')" shows "ds_documents db' = ds_documents db"
proof -
  let ?v = "v\<lparr>dv_rejected_by := Some actor, dv_rejected_at := Some (fr_now fr)\<rparr>"
  obtain n db1 where "deactivate_version_chunks (dv_id ?v) ''REJECTED'' (put_version ?v db) = (n, db1)"
    by (cases "deactivate_version_chunks (dv_id ?v) ''REJECTED'' (put_version ?v db)")
  with assms deactivate_version_tables(4) [of "dv_id ?v" "''REJECTED''" "put_version ?v db"] show ?thesis
    by (auto simp: reject_version_def Let_def)
qed

lemma review_gone:
  assumes ok: "library_ok db" and rv: "review env fr cx j k approve rid db w = (r, db', w')" and g: "gone i db"
  shows "gone i db'"
  using review_cases [OF rv]
proof (elim disjE exE conjE)
  assume "same_tables db db'"
  with g show ?thesis by (simp add: gone_tables)
next
  fix d v0 v
  assume f: "get_version_for_management (ie_uuid_text env) db (ctx_scope cx) j k = Some (d, v0)"
    and e: "if approve then approve_version env fr (identity_user_id (ctx_identity cx)) rid d v db w = (r, db', w')
        else reject_version fr (identity_user_id (ctx_identity cx)) rid d v db = (r, db')"
  from get_version_Some [OF f] have d: "d \<in> set (ds_documents db)" "dc_deleted_at d = None" by simp_all
  have rows: "rows_ok db" using ok by (simp add: library_ok_def)
  show ?thesis
  proof (cases approve)
    case True
    with e have "approve_version env fr (identity_user_id (ctx_identity cx)) rid d v db w = (r, db', w')" by simp
    from approve_version_end [OF this]
    have "same_tables db db' \<or> ds_documents db' = ds_documents (put_document (approved_document v d) db)"
      by (auto simp: same_tables_iff dest!: replace_active_tables)
    moreover from put_gone [OF rows d, of "approved_document v d" i] g have "gone i (put_document (approved_document v d) db)"
      by (simp add: approved_document_def)
    ultimately show ?thesis
    proof (elim disjE)
      assume "same_tables db db'"
      with g show ?thesis by (simp add: gone_tables)
    qed (simp only: gone_def)
  next
    case False
    with e reject_documents have "ds_documents db' = ds_documents db" by metis
    with g show ?thesis by (simp only: gone_def)
  qed
qed

lemma delete_effect:
  assumes "delete_document env fr cx j rid db w = (r, db', w')"
  shows "(\<exists>e. r = Inl e) \<and> same_tables db db' \<or>
    (\<exists>d. get_document_for_management (ie_uuid_text env) db (ctx_scope cx) j = Some d \<and>
       ds_documents db' = ds_documents (put_document (deleted_document fr d) db))"
  using delete_document_cases [OF assms] by (auto simp: same_tables_iff deactivate_document_tables)

lemma delete_gone:
  assumes ok: "library_ok db" and del: "delete_document env fr cx j rid db w = (r, db', w')" and g: "gone i db"
  shows "gone i db'"
  using delete_effect [OF del]
proof (elim disjE exE conjE)
  assume "same_tables db db'"
  with g show ?thesis by (simp add: gone_tables)
next
  fix d assume d: "get_document_for_management (ie_uuid_text env) db (ctx_scope cx) j = Some d"
    "ds_documents db' = ds_documents (put_document (deleted_document fr d) db)"
  from ok g get_document_Some [OF d(1)] have "gone i (put_document (deleted_document fr d) db)"
    by (intro put_gone [of db d]) (auto simp: library_ok_def deleted_document_def)
  with gone_documents [OF d(2)] show ?thesis by simp
qed

lemma deleted_gone: "delete_document env fr cx j rid db w = (Inr i, db', w') \<Longrightarrow> i = j \<and> gone j db'"
proof -
  assume del: "delete_document env fr cx j rid db w = (Inr i, db', w')"
  from delete_document_cases [OF del] obtain d where
    d: "get_document_for_management (ie_uuid_text env) db (ctx_scope cx) j = Some d" "i = dc_id d" by auto
  from delete_effect [OF del] d have "ds_documents db' = ds_documents (put_document (deleted_document fr d) db)" by auto
  moreover from get_document_Some [OF d(1)] have "d \<in> set (ds_documents db)" "dc_id d = j" by simp_all
  moreover from this have "deleted_document fr d \<in> set (ds_documents (put_document (deleted_document fr d) db))"
    using put_self [of d "ds_documents db" dc_id "deleted_document fr d"] by (simp add: deleted_document_def)
  then have "gone j (put_document (deleted_document fr d) db)" using \<open>dc_id d = j\<close>
    unfolding gone_def by (intro bexI [of _ "deleted_document fr d"]) (simp_all add: deleted_document_def del: put_document_tables)
  ultimately show ?thesis using d(2) by (simp add: gone_def)
qed

lemma step_gone: "library_step env db db' \<Longrightarrow> library_ok db \<Longrightarrow> gone i db \<Longrightarrow> gone i db'"
proof (induction rule: library_step.induct)
  case (uploads fr cx rq db w r db' w')
  then show ?case by (blast intro: upload_gone)
next
  case (reviews fr cx i j approve rid db w rv db' w')
  then show ?case by (blast intro: review_gone)
next
  case (deletes fr cx i rid db w dl db' w')
  then show ?case by (blast intro: delete_gone)
next
  case (reads_status cx j rid db rs db')
  then show ?case by (blast dest: ingestion_status_tables gone_tables)
next
  case (reads_preview cx i j rid db rp db')
  then show ?case by (blast dest: preview_tables gone_tables)
next
  case (lists cx f rid db rl db')
  then show ?case by (blast dest: document_library_tables gone_tables)
next
  case (searches rk cx q k rid db w out db' w')
  with search_tables [OF searches(1)] show ?case by (simp add: gone_tables)
next
  case (sets_tenant db j s)
  then show ?case by (simp add: gone_def)
next
  case (sets_company db j s)
  then show ?case by (simp add: gone_def)
qed

lemma life_gone: "(library_step env)\<^sup>*\<^sup>* db db' \<Longrightarrow> library_ok db \<Longrightarrow> gone i db \<Longrightarrow> gone i db'"
proof (induction rule: rtranclp_induct)
  case (step b c)
  with life_ok [OF step(1)] step_gone [OF step(2)] show ?case by simp
qed

lemma gone_unread:
  assumes "library_ok db" and "gone i db" and r: "r \<in> set (authorized_base scope db)"
  shows "dk_document_id (jr_chunk r) \<noteq> i"
proof
  assume i: "dk_document_id (jr_chunk r) = i"
  from r have j: "r \<in> set (joined db)" "dc_deleted_at (jr_document r) = None"
    using base_where_sound by (auto simp: authorized_base_iff)
  from assms(2) obtain d where d: "d \<in> set (ds_documents db)" "dc_id d = i" "dc_deleted_at d \<noteq> None" by (auto simp: gone_def)
  have "jr_document r = d"
    using document_of_key [of db "jr_document r" d] assms(1) j(1) d i by (simp add: library_ok_def joined_iff)
  with d j(2) show False by simp
qed

lemma gone_unmanaged:
  assumes "library_ok db" and "gone i db" shows "get_document_for_management ut db scope i = None"
proof (cases "get_document_for_management ut db scope i")
  case (Some d)
  from assms(2) obtain x where "x \<in> set (ds_documents db)" "dc_id x = i" "dc_deleted_at x \<noteq> None" by (auto simp: gone_def)
  with get_document_Some [OF Some] document_of_key [of db x d] assms(1) show ?thesis by (auto simp: library_ok_def)
qed

subsection \<open>An example\<close>

text \<open>An administrator of company 10 uploads a spreadsheet and approves it.\<close>

definition life_store :: docstore where
  "life_store = example_docstore\<lparr>ds_documents := [], ds_versions := [], ds_chunks := []\<rparr>"

definition life_parsed :: ParsedUpload where
  "life_parsed = \<lparr>doc_kind = CSV, doc_pages = [], doc_sheets = [\<lparr>sh_sheet_index = 1, sh_name = ''CSV'', sh_rows = [example_row]\<rparr>],
     doc_text_length = 10, doc_warnings = [], doc_page_count = 0, doc_sheet_count = 1, doc_row_count = 1, doc_cell_count = 2\<rparr>"

definition life_env :: "nat ingestion_env" where
  "life_env = \<lparr>ie_formats = example_formats, ie_limits = example_file_limits, ie_uuid_text = str_nat,
     ie_text_sha256 = (\<lambda>s. replicate 64 CHR ''0''),
     ie_put_bytes = (\<lambda>key bytes n. (Inr \<lparr>sto_size_bytes = length bytes, sto_sha256 = replicate 64 CHR ''0''\<rparr>, n + 1)),
     ie_delete = (\<lambda>key n. (Inr (), n)), ie_parser = (\<lambda>f n. (Inr life_parsed, n)), ie_provider = example_provider,
     ie_batch_size = 8, ie_max_chunks = 8\<rparr>"

definition life_metadata :: DocumentUploadMetadata where
  "life_metadata = \<lparr>um_tenant_id = 1, um_company_id = 10, um_department = ''finance'', um_visibility = ''DEPARTMENT_PRIVATE'',
     um_classification = ''FINANCE_ONLY'', um_document_type = ''FINANCIAL_REPORT'', um_reporting_period = Some ''2025''\<rparr>"

definition life_admin :: AuthorizationContext where
  "life_admin = (let who = \<lparr>identity_user_id = 2, identity_email = ''b@b'', identity_display_name = ''B''\<rparr> in
     \<lparr>ctx_identity = who, ctx_scope = \<lparr>scope_identity = who,
       grants = [\<lparr>membership_id = 2, home_tenant_id = 1, home_tenant_slug = ''t'', home_tenant_name = ''T'',
         workspace_id = 1, workspace_slug = ''w'', workspace_name = ''W'', grant_role = ''admin'',
         primary_department = ''finance'', company_ids = [10], company_slugs = [''acme''], departments = [],
         capabilities = [MANAGE_UPLOADS]\<rparr>]\<rparr>\<rparr>)"

definition life_request :: upload_request where
  "life_request = \<lparr>up_metadata = life_metadata, up_filename = ''debt.csv'', up_declared_content_type = ''text/csv'',
     up_data = ''a,b'' @ [newline] @ ''1,2'', up_idempotency_key = ''key'', up_request_id = ''r1'', up_document_id = None\<rparr>"

definition life_fresh :: fresh where
  "life_fresh = \<lparr>fr_document = 40, fr_version = 50, fr_job = 60, fr_chunk = (\<lambda>n. 70 + n), fr_now = 1\<rparr>"

definition life_fresh2 :: fresh where
  "life_fresh2 = \<lparr>fr_document = 41, fr_version = 51, fr_job = 61, fr_chunk = (\<lambda>n. 70 + n), fr_now = 2\<rparr>"

definition life_view :: "docstore \<Rightarrow> (uuid \<times> uuid \<times> string) list" where
  "life_view db = map (\<lambda>r. (dk_document_id (jr_chunk r), dk_id (jr_chunk r), dk_content (jr_chunk r)))
     (authorized_base example_scope db)"

definition life_shown :: "docstore \<Rightarrow> (uuid \<times> uuid) list" where
  "life_shown db = map (\<lambda>(d, c, _). (d, c)) (life_view db)"

definition life_run where
  "life_run =
     (let u = upload life_env life_fresh life_admin life_request life_store 0;
          a = review life_env life_fresh2 life_admin 40 50 True ''r2'' (fst (snd u)) (snd (snd u));
          d = delete_document life_env life_fresh2 life_admin 40 ''r3'' (fst (snd a)) (snd (snd a)) in (u, a, d))"

definition life_summary where
  "life_summary = (case life_run of (u, a, d) \<Rightarrow>
     (map dc_id (ds_documents (fst (snd u))), map dv_id (ds_versions (fst (snd u))), map dk_id (ds_chunks (fst (snd u))),
      life_view (fst (snd a)), map dk_id (ds_chunks (fst (snd a))), fst d, life_view (fst (snd d))))"

lemma life_summary:
  "life_summary = ([40], [50], [], [(40, 70, ''row 7'' @ [tab] @ ''A7='' @ [CHR 0x22] @ ''Net debt'' @ [CHR 0x22, tab] @ ''B7='' @
     [CHR 0x22] @ ''12'' @ [CHR 0x22])], [70], Inr 40, [])"
  by code_simp

lemma life_steps:
  "\<exists>db w db' w'. (library_step life_env)\<^sup>*\<^sup>* life_store db \<and> life_shown db = [(40, 70)] \<and>
     delete_document life_env life_fresh2 life_admin 40 ''r3'' db w = (Inr 40, db', w')"
proof -
  obtain r1 db1 w1 where u: "upload life_env life_fresh life_admin life_request life_store 0 = (r1, db1, w1)"
    by (rule prod_cases3)
  obtain r2 db2 w2 where a: "review life_env life_fresh2 life_admin 40 50 True ''r2'' db1 w1 = (r2, db2, w2)"
    by (rule prod_cases3)
  obtain r3 db3 w3 where d: "delete_document life_env life_fresh2 life_admin 40 ''r3'' db2 w2 = (r3, db3, w3)"
    by (rule prod_cases3)
  from life_summary have e: "map dc_id (ds_documents db1) = [40]" "map dv_id (ds_versions db1) = [50]" "map dk_id (ds_chunks db1) = []"
    "life_shown db2 = [(40, 70)]" "r3 = Inr 40"
    by (simp_all add: life_summary_def life_run_def Let_def u a d life_shown_def)
  have m: "upload_metadata_ok (up_metadata life_request)" by code_simp
  have "inj (\<lambda>n. 70 + n :: nat)" by (simp add: inj_def)
  then have "fresh_ids life_fresh life_store"
    by (simp add: fresh_ids_def life_fresh_def life_store_def)
  with library_step.uploads [OF u _ m] have s1: "library_step life_env life_store db1" by simp
  from e(1-3) have "dc_id ` set (ds_documents db1) = {40}" "dv_id ` set (ds_versions db1) = {50}" "ds_chunks db1 = []"
    by (auto simp flip: set_map)
  with \<open>inj _\<close> have "fresh_ids life_fresh2 db1" by (simp add: fresh_ids_def life_fresh2_def)
  with library_step.reviews [OF a] have "library_step life_env db1 db2" by simp
  with s1 have "(library_step life_env)\<^sup>*\<^sup>* life_store db2" by (rule converse_rtranclp_into_rtranclp [OF _ r_into_rtranclp])
  with d e(4,5) show ?thesis by (intro exI conjI) simp_all
qed

lemma life_store_seeded: "seeded life_store"
  by code_simp

subsection \<open>Properties\<close>

text \<open>C34: the search index is exact.  After any history of uploads, reviews, deletions, reads, searches and changes of
  tenants and companies, the authorized source statement of the retrieval returns exactly the active chunks which the
  policy allows the scope to read and whose tenant and company are active, each once; the checks the statement adds on
  the joined rows never hide a chunk, and no stale chunk, copied before a later review or a deletion, is returned.\<close>

theorem searchable_exactly:
  assumes "seeded db0" and "(library_step env)\<^sup>*\<^sup>* db0 db"
  shows "jr_chunk ` set (authorized_base scope db) = {c \<in> set (ds_chunks db). readable scope db c} \<and>
    distinct (map (\<lambda>r. dk_id (jr_chunk r)) (authorized_base scope db)) \<and>
    (\<forall>c \<in> set (ds_chunks db). dk_active c \<longrightarrow>
       (\<exists>d \<in> set (ds_documents db). \<exists>v \<in> set (ds_versions db). copy_of db d v c))"
proof -
  have ok: "library_ok db" by (rule life_ok [OF assms(2) seeded_ok [OF assms(1)]])
  then have "distinct (map (\<lambda>r. dk_id (jr_chunk r)) (authorized_base scope db))" "chunks_current db"
    by (auto simp: library_ok_def rows_ok_def intro: authorized_base_distinct)
  moreover have "jr_chunk ` set (authorized_base scope db) = {c \<in> set (ds_chunks db). readable scope db c}"
  proof (intro equalityI subsetI)
    fix c assume "c \<in> jr_chunk ` set (authorized_base scope db)"
    then show "c \<in> {c \<in> set (ds_chunks db). readable scope db c}" using base_readable by auto
  next
    fix c assume "c \<in> {c \<in> set (ds_chunks db). readable scope db c}"
    with readable_base [OF ok, of c scope] show "c \<in> jr_chunk ` set (authorized_base scope db)" by force
  qed
  ultimately show ?thesis by (simp add: chunks_current_def)
qed

theorem searchable_exactly_witness:
  "\<exists>db. (library_step life_env)\<^sup>*\<^sup>* life_store db \<and> life_shown db = [(40, 70)] \<and>
     jr_chunk ` set (authorized_base example_scope db) = {c \<in> set (ds_chunks db). readable example_scope db c}"
proof -
  from life_steps obtain db where db: "(library_step life_env)\<^sup>*\<^sup>* life_store db"
    "life_shown db = [(40, 70)]" by blast
  from searchable_exactly [OF life_store_seeded db(1)] db show ?thesis by (intro exI [of _ db]) simp
qed

text \<open>C35: a deletion is final.  Once \<^verbatim>\<open>delete_document\<close> has reported the deletion of a document, no later
  history of the library brings it back: no scope is ever shown one of its chunks, and no manager finds it.\<close>

theorem deletion_is_final:
  assumes "seeded db0" and "(library_step env)\<^sup>*\<^sup>* db0 db"
    and "delete_document env fr cx i request_id db w = (Inr j, db1, w1)" and "(library_step env)\<^sup>*\<^sup>* db1 db2"
  shows "j = i \<and> (\<forall>r \<in> set (authorized_base scope db2). dk_document_id (jr_chunk r) \<noteq> i) \<and>
    get_document_for_management uuid_text db2 scope i = None"
proof -
  have ok: "library_ok db" by (rule life_ok [OF assms(2) seeded_ok [OF assms(1)]])
  then have ok1: "library_ok db1" by (rule delete_keeps [OF _ assms(3)])
  from deleted_gone [OF assms(3)] have j: "j = i" "gone i db1" by simp_all
  have ok2: "library_ok db2" by (rule life_ok [OF assms(4) ok1])
  have g: "gone i db2" by (rule life_gone [OF assms(4) ok1 j(2)])
  show ?thesis using j(1) gone_unread [OF ok2 g] gone_unmanaged [OF ok2 g] by simp
qed

theorem deletion_is_final_witness:
  "\<exists>db w db1 w1. (library_step life_env)\<^sup>*\<^sup>* life_store db \<and> life_shown db = [(40, 70)] \<and>
     delete_document life_env life_fresh2 life_admin 40 ''r3'' db w = (Inr 40, db1, w1) \<and>
     get_document_for_management str_nat (set_company_status 10 ''active'' db1) example_scope 40 = None"
proof -
  from life_steps obtain db w db1 w1 where l: "(library_step life_env)\<^sup>*\<^sup>* life_store db"
    "life_shown db = [(40, 70)]"
    "delete_document life_env life_fresh2 life_admin 40 ''r3'' db w = (Inr 40, db1, w1)" by blast
  have "(library_step life_env)\<^sup>*\<^sup>* db1 (set_company_status 10 ''active'' db1)"
    by (intro r_into_rtranclp library_step.sets_company)
  from deletion_is_final [OF life_store_seeded l(1,3) this] l show ?thesis by blast
qed

end
