(* ===== verification/Calculation_Inputs.thy ===== *)
theory Calculation_Inputs
  imports Retrieval
begin

text \<open>
  The authorized inputs of a calculation (\<^verbatim>\<open>app/calculations/repository.py\<close>) and the calculation tools
  of the gateway (\<^verbatim>\<open>app/mcp_gateway/adapters.py\<close>): which company a selector names, which cells of
  which approved spreadsheet are read, and how a result is computed from them.  Rounding to a double is the argument
  \<open>fl\<close>: the number that the shortest text of the nearest double denotes.
\<close>

subsection \<open>Errors\<close>

text \<open>\<open>InputRaises\<close> is any exception the tools do not translate: a validation error, an overflow of a decimal, or
  the \<^verbatim>\<open>ValueError\<close> of a strict \<^verbatim>\<open>zip\<close>.\<close>

datatype load_exn = Calc calc_error | CalculationAuthorizationError | InputRaises

definition invalid_inputs :: load_exn where
  "invalid_inputs = Calc (CalculationError INPUTS_INVALID)"

definition missing_inputs :: load_exn where
  "missing_inputs = Calc (CalculationError INPUTS_MISSING)"

definition lift_calc :: "(calc_error, 'a) result \<Rightarrow> (load_exn, 'a) result" where
  "lift_calc r = (case r of Inl e \<Rightarrow> Inl (Calc e) | Inr x \<Rightarrow> Inr x)"

subsection \<open>Rows of the workbook\<close>

record calc_cell =
  xc_coordinate :: string
  xc_value_text :: string
  xc_value_kind :: string
  xc_formula_like :: bool

record calc_chunk =
  xk_chunk_id :: uuid
  xk_document_id :: uuid
  xk_document_version_id :: uuid
  xk_version_number :: int
  xk_document_title :: string
  xk_sheet_name :: string
  xk_content :: string
  xk_row_start :: int
  xk_row_end :: int

record InputSpec =
  in_sheet_name :: string
  in_name :: string
  in_period :: string
  in_unit :: string

definition spec :: "string \<Rightarrow> string \<Rightarrow> string \<Rightarrow> InputSpec" where
  "spec sheet name period = \<lparr>in_sheet_name = sheet, in_name = name, in_period = period, in_unit = ''INR crore''\<rparr>"

definition DIRECT_METRICS :: "FinancialMetricName \<Rightarrow> string \<times> string" where
  "DIRECT_METRICS m = (case m of
       FM_REVENUE \<Rightarrow> (''P&L'', ''Revenue'') | FM_EBITDA \<Rightarrow> (''P&L'', ''EBITDA'') | FM_NET_PROFIT \<Rightarrow> (''P&L'', ''Net Profit'')
     | FM_CLOSING_CASH \<Rightarrow> (''Balance Sheet'', ''Cash and Cash Equivalents'') | FM_BANK_DEBT \<Rightarrow> (''Balance Sheet'', ''Bank Debt''))"

definition specs :: "CalculationMetric \<Rightarrow> string \<Rightarrow> (load_exn, InputSpec list) result" where
  "specs metric period =
     (case metric of
        EBITDA_MARGIN \<Rightarrow> Inr (map (\<lambda>n. spec ''P&L'' n period)
          [''Revenue'', ''Cost of Goods Sold'', ''Operating Expenses (excl. D&A)''])
      | REVENUE_GROWTH \<Rightarrow> bindR (lift_calc (previous_period period)) (\<lambda>prior.
          Inr [spec ''P&L'' ''Revenue'' prior, spec ''P&L'' ''Revenue'' period])
      | CAGR \<Rightarrow> bindR (lift_calc (previous_period period)) (\<lambda>prior.
          Inr [spec ''P&L'' ''Revenue'' prior, spec ''P&L'' ''Revenue'' period])
      | NET_PROFIT_MARGIN \<Rightarrow> Inr (map (\<lambda>n. spec ''P&L'' n period)
          [''Revenue'', ''Cost of Goods Sold'', ''Operating Expenses (excl. D&A)'', ''Depreciation & Amortization'',
           ''Interest Expense'', ''Tax Expense''])
      | DEBT_TO_EQUITY \<Rightarrow> Inr (map (\<lambda>n. spec ''Balance Sheet'' n period)
          [''Cash and Cash Equivalents'', ''Accounts Receivable'', ''Inventory / Prepaid Assets'',
           ''Property, Plant & Equipment'', ''Bank Debt'', ''Accounts Payable'', ''Other Liabilities''])
      | CASH_RUNWAY \<Rightarrow> Inr (map (\<lambda>n. (spec ''Cash Flow'' n period)
            \<lparr>in_unit := if n = ''Stress-case Monthly Burn'' then ''INR crore/month'' else ''INR crore''\<rparr>)
          [''Opening Cash'', ''Operating Cash Flow'', ''Capital Expenditure'', ''Financing Cash Flow'',
           ''Stress-case Monthly Burn''])
      | FINANCIAL_METRIC \<Rightarrow> Inl invalid_inputs)"

subsection \<open>The company of a selector\<close>

definition finance_grant :: "AuthorizationGrant \<Rightarrow> bool" where
  "finance_grant g \<longleftrightarrow> QUERY_DOCUMENTS \<in> set (capabilities g) \<and> ''finance'' \<in> dept_key ` set (departments g)"

definition direct_ids :: "string \<Rightarrow> AuthorizationGrant \<Rightarrow> uuid list" where
  "direct_ids selector g = [i. (i, slug) \<leftarrow> zip (company_ids g) (company_slugs g), slug = selector]"

definition alias_ids :: "string \<Rightarrow> AuthorizationGrant \<Rightarrow> uuid list" where
  "alias_ids selector g =
     (if selector \<in> {home_tenant_slug g, workspace_slug g} \<and> length (fromkeys (company_ids g)) = 1
      then fromkeys (company_ids g) else [])"

definition authorized_finance_company_id :: "AuthorizationScope \<Rightarrow> string \<Rightarrow> (load_exn, uuid) result" where
  "authorized_finance_company_id scope selector =
     (let gs = filter finance_grant (grants scope) in
      if list_ex (\<lambda>g. length (company_ids g) \<noteq> length (company_slugs g)) gs then Inl InputRaises
      else let direct = concat (map (direct_ids selector) gs); aliases = concat (map (alias_ids selector) gs) in
        case fromkeys (if direct \<noteq> [] then direct else aliases) of
          [i] \<Rightarrow> Inr i
        | _ \<Rightarrow> Inl CalculationAuthorizationError)"

subsection \<open>The text of a number\<close>

text \<open>\<^verbatim>\<open>decimal.Decimal(text)\<close>: \<open>None\<close> is \<^verbatim>\<open>InvalidOperation\<close>, \<open>Some None\<close> an infinity or
  a not-a-number, and a finite value is its signed coefficient with its exponent.\<close>

definition signed :: "string \<Rightarrow> bool \<times> string" where
  "signed s = (case s of [] \<Rightarrow> (False, []) | c # cs \<Rightarrow>
     if c = CHR ''-'' then (True, cs) else if c = CHR ''+'' then (False, cs) else (False, s))"

definition exponent_of :: "string \<Rightarrow> int option" where
  "exponent_of s = (case s of [] \<Rightarrow> Some 0 | c # cs \<Rightarrow>
     if c \<noteq> CHR ''e'' \<and> c \<noteq> CHR ''E'' then None
     else let (neg, ds) = signed cs in
       if ds = [] \<or> \<not> list_all is_digit ds then None
       else Some (if neg then - int (digits_value ds) else int (digits_value ds)))"

definition number_of :: "string \<Rightarrow> (nat \<times> int) option" where
  "number_of s =
     (let whole = takeWhile is_digit s; rest = dropWhile is_digit s;
          (frac, rest) = (case rest of [] \<Rightarrow> ([], []) | c # cs \<Rightarrow>
             if c = CHR ''.'' then (takeWhile is_digit cs, dropWhile is_digit cs) else ([], rest)) in
      if whole @ frac = [] then None
      else case exponent_of rest of
        None \<Rightarrow> None
      | Some e \<Rightarrow> Some (digits_value (whole @ frac), e - int (length frac)))"

definition not_finite :: "string \<Rightarrow> bool" where
  "not_finite s =
     (let t = py_lower s; u = (if take 1 t = ''s'' then drop 1 t else t) in
      t \<in> {''inf'', ''infinity''} \<or> take 3 u = ''nan'' \<and> list_all is_digit (drop 3 u))"

definition decimal_of :: "string \<Rightarrow> (int \<times> int) option option" where
  "decimal_of txt =
     (let (neg, s) = signed (filter (\<lambda>c. c \<noteq> CHR ''_'') (strip txt)) in
      if not_finite s then Some None
      else case number_of s of
        None \<Rightarrow> None
      | Some (n, e) \<Rightarrow> if 0 < n \<and> int (ndigits n) + e > 10 ^ 18 then None
          else Some (Some (if neg then - int n else int n, e)))"

definition decimal_value :: "int \<times> int \<Rightarrow> rat" where
  "decimal_value d = of_int (fst d) * ten_pow (snd d)"

text \<open>\<^verbatim>\<open>abs(value)\<close> rounds to the context, where a value with an exponent above 999999 overflows.\<close>

definition abs_overflows :: "int \<times> int \<Rightarrow> bool" where
  "abs_overflows d =
     (let n = nat \<bar>fst d\<bar>; a = int (ndigits n) + snd d - 1 in
      n \<noteq> 0 \<and> (a > 999999 \<or> a = 999999 \<and> ten_pow 1000000 \<le> ctx \<bar>decimal_value d\<bar>))"

definition number_in :: "string \<Rightarrow> (load_exn, rat) result" where
  "number_in txt =
     (case decimal_of txt of
        None \<Rightarrow> Inl invalid_inputs
      | Some None \<Rightarrow> Inl invalid_inputs
      | Some (Some d) \<Rightarrow>
          if abs_overflows d then Inl InputRaises
          else if ctx \<bar>decimal_value d\<bar> > 1000000000000 then Inl invalid_inputs
          else Inr (decimal_value d))"

subsection \<open>One trusted input\<close>

type_synonym row_cells = "(int \<times> calc_cell) list"
type_synonym sheet_cells = "(int \<times> row_cells) list"

definition cell_of :: "CellRow \<Rightarrow> calc_cell" where
  "cell_of c = \<lparr>xc_coordinate = cr_coordinate c, xc_value_text = cr_value_text c, xc_value_kind = cr_value_kind c,
     xc_formula_like = cr_formula_like c\<rparr>"

text \<open>The rows of the join of sheets, rows and cells, for one sheet name of one version.\<close>

definition stored_cells :: "docstore \<Rightarrow> uuid \<Rightarrow> string \<Rightarrow> (int \<times> int \<times> calc_cell) list" where
  "stored_cells db version_id sheet =
     [(rr_row_number r, cr_column_number c, cell_of c).
        v \<leftarrow> filter (\<lambda>v. dv_id v = version_id) (ds_versions db), s \<leftarrow> filter (\<lambda>s. st_name s = sheet) (dv_sheets v),
        r \<leftarrow> st_rows s, c \<leftarrow> rr_cells r]"

text \<open>\<^verbatim>\<open>cells[version][name][row][column] = cell\<close>, with the defaults of the nested dictionaries.\<close>

definition set_cell :: "int \<times> int \<times> calc_cell \<Rightarrow> sheet_cells \<Rightarrow> sheet_cells" where
  "set_cell x rows = (case x of (row, column, cell) \<Rightarrow>
     dict_set rows row (dict_set (case map_of rows row of Some r \<Rightarrow> r | None \<Rightarrow> []) column cell))"

definition sheet_rows_of :: "docstore \<Rightarrow> uuid \<Rightarrow> string \<Rightarrow> sheet_cells" where
  "sheet_rows_of db version_id sheet = fold set_cell (stored_cells db version_id sheet) []"

definition header_rows :: "sheet_cells \<Rightarrow> int list" where
  "header_rows rows = [number. (number, row) \<leftarrow> rows, case map_of row 1 of Some c \<Rightarrow> xc_value_text c = ''Metric'' | None \<Rightarrow> False]"

definition row_at :: "sheet_cells \<Rightarrow> int \<Rightarrow> row_cells" where
  "row_at rows number = (case map_of rows number of Some r \<Rightarrow> r | None \<Rightarrow> [])"

definition period_columns :: "row_cells \<Rightarrow> (string \<times> int) list" where
  "period_columns header = dict_of [(xc_value_text c, column). (column, c) \<leftarrow> header, take 2 (xc_value_text c) = ''FY'']"

definition unit_columns :: "row_cells \<Rightarrow> int list" where
  "unit_columns header = [column. (column, c) \<leftarrow> header, xc_value_text c = ''Unit'']"

definition metric_rows :: "sheet_cells \<Rightarrow> int \<Rightarrow> (string \<times> int) list" where
  "metric_rows rows header_row = dict_of (concat (map (\<lambda>(number, row). case map_of row 1 of
       Some c \<Rightarrow> if number \<noteq> header_row then [(xc_value_text c, number)] else [] | None \<Rightarrow> []) rows))"

definition chunk_citation :: "InputSpec \<Rightarrow> calc_chunk \<Rightarrow> int \<Rightarrow> calc_cell \<Rightarrow> CalculationCitation" where
  "chunk_citation s chunk row_number value_cell =
     \<lparr>cc_document_id = xk_document_id chunk, cc_document_version_id = xk_document_version_id chunk,
      cc_chunk_id = xk_chunk_id chunk, cc_document_title = xk_document_title chunk,
      cc_version_number = xk_version_number chunk, cc_excerpt = take 500 (xk_content chunk),
      cc_sheet_name = in_sheet_name s, cc_row_start = row_number, cc_row_end = row_number,
      cc_cell_start = xc_coordinate value_cell, cc_cell_end = xc_coordinate value_cell\<rparr>"

definition mk_TrustedCalculationInput :: "TrustedCalculationInput \<Rightarrow> (load_exn, TrustedCalculationInput) result" where
  "mk_TrustedCalculationInput i = (if trusted_input_ok i then Inr i else Inl InputRaises)"

definition unique_chunk :: "InputSpec \<Rightarrow> int \<Rightarrow> calc_chunk list \<Rightarrow> (load_exn, calc_chunk) result" where
  "unique_chunk s row_number chunks =
     (case filter (\<lambda>k. xk_sheet_name k = in_sheet_name s \<and> xk_row_start k \<le> row_number \<and> row_number \<le> xk_row_end k) chunks of
        [k] \<Rightarrow> Inr k | _ \<Rightarrow> Inl invalid_inputs)"

text \<open>The cell of a metric in the column of a period, when its unit is the expected one.\<close>

definition value_cell_in :: "InputSpec \<Rightarrow> sheet_cells \<Rightarrow> (load_exn, int \<times> calc_cell) result" where
  "value_cell_in s rows =
     (case header_rows rows of
        [header_row] \<Rightarrow>
          (let header = row_at rows header_row in
           case (map_of (metric_rows rows header_row) (in_name s), map_of (period_columns header) (in_period s),
                 unit_columns header) of
             (Some row_number, Some column_number, [unit_column]) \<Rightarrow>
               (case (map_of (row_at rows row_number) column_number, map_of (row_at rows row_number) unit_column) of
                  (Some value_cell, Some unit_cell) \<Rightarrow>
                    if xc_value_kind value_cell \<noteq> ''number'' \<or> xc_formula_like value_cell \<or>
                       xc_value_text unit_cell \<noteq> in_unit s
                    then Inl invalid_inputs else Inr (row_number, value_cell)
                | _ \<Rightarrow> Inl invalid_inputs)
           | _ \<Rightarrow> Inl missing_inputs)
      | _ \<Rightarrow> Inl invalid_inputs)"

definition trusted_input ::
  "(rat \<Rightarrow> rat) \<Rightarrow> InputSpec \<Rightarrow> sheet_cells \<Rightarrow> calc_chunk list \<Rightarrow> (load_exn, TrustedCalculationInput) result" where
  "trusted_input fl s rows chunks =
     bindR (value_cell_in s rows) (\<lambda>(row_number, value_cell).
     bindR (number_in (xc_value_text value_cell)) (\<lambda>value.
     bindR (unique_chunk s row_number chunks) (\<lambda>chunk.
       mk_TrustedCalculationInput
         \<lparr>ti_name = in_name s, ti_period = in_period s, ti_value = fl value, ti_unit = in_unit s,
          ti_citation = chunk_citation s chunk row_number value_cell\<rparr>)))"

subsection \<open>Loading the inputs\<close>

definition calculation_rows :: "docstore \<Rightarrow> AuthorizationScope \<Rightarrow> uuid \<Rightarrow> string list \<Rightarrow> joined_row list" where
  "calculation_rows db scope company_id sheets =
     filter (\<lambda>r. let c = jr_chunk r in dk_company_id c = company_id \<and> dk_department c = ''finance'' \<and>
         dk_source_type c = ''xlsx'' \<and> (case dk_sheet_name c of Some n \<Rightarrow> n \<in> set sheets | None \<Rightarrow> False))
       (authorized_base scope db)"

definition calc_chunk_of :: "joined_row \<Rightarrow> (load_exn, calc_chunk) result" where
  "calc_chunk_of r =
     (let c = jr_chunk r in
      case (dk_row_start c, dk_row_end c, dk_sheet_name c) of
        (Some a, Some b, Some n) \<Rightarrow> Inr
          \<lparr>xk_chunk_id = dk_id c, xk_document_id = dk_document_id c, xk_document_version_id = dk_document_version_id c,
           xk_version_number = dk_version_number c, xk_document_title = dv_safe_filename (jr_version r),
           xk_sheet_name = n, xk_content = dk_content c, xk_row_start = a, xk_row_end = b\<rparr>
      | _ \<Rightarrow> Inl invalid_inputs)"

definition by_version :: "calc_chunk list \<Rightarrow> (uuid \<times> calc_chunk list) list" where
  "by_version ks = map (\<lambda>i. (i, filter (\<lambda>k. xk_document_version_id k = i) ks)) (fromkeys (map xk_document_version_id ks))"

definition version_inputs ::
  "(rat \<Rightarrow> rat) \<Rightarrow> docstore \<Rightarrow> InputSpec list \<Rightarrow> uuid \<Rightarrow> calc_chunk list \<Rightarrow> (load_exn, TrustedCalculationInput list) result" where
  "version_inputs fl db ss version_id chunks =
     mapR (\<lambda>s. trusted_input fl s (sheet_rows_of db version_id (in_sheet_name s)) chunks) ss"

text \<open>The loop over the versions: the successes, and whether any input was invalid.\<close>

fun version_loop ::
  "(rat \<Rightarrow> rat) \<Rightarrow> docstore \<Rightarrow> InputSpec list \<Rightarrow> (uuid \<times> calc_chunk list) list \<Rightarrow>
   (load_exn, (uuid \<times> TrustedCalculationInput list) list \<times> bool) result" where
  "version_loop fl db ss [] = Inr ([], False)"
| "version_loop fl db ss ((version_id, chunks) # rest) =
     (case version_inputs fl db ss version_id chunks of
        Inr trusted \<Rightarrow> bindR (version_loop fl db ss rest) (\<lambda>(successes, invalid). Inr ((version_id, trusted) # successes, invalid))
      | Inl e \<Rightarrow> (if e \<noteq> invalid_inputs \<and> e \<noteq> missing_inputs then Inl e
          else bindR (version_loop fl db ss rest) (\<lambda>(successes, invalid). Inr (successes, invalid \<or> e = invalid_inputs))))"

definition the_only_version ::
  "(uuid \<times> TrustedCalculationInput list) list \<times> bool \<Rightarrow> (load_exn, uuid \<times> TrustedCalculationInput list) result" where
  "the_only_version x = (case x of (successes, invalid) \<Rightarrow>
     (case successes of [y] \<Rightarrow> Inr y
      | _ \<Rightarrow> if 1 < length successes \<or> invalid then Inl invalid_inputs else Inl missing_inputs))"

definition load_inputs ::
  "(rat \<Rightarrow> rat) \<Rightarrow> docstore \<Rightarrow> AuthorizationScope \<Rightarrow> string \<Rightarrow> InputSpec list \<Rightarrow>
   (load_exn, string \<times> uuid \<times> TrustedCalculationInput list) result" where
  "load_inputs fl db scope company_slug ss =
     bindR (authorized_finance_company_id scope company_slug) (\<lambda>company_id.
     case filter (\<lambda>co. co_id co = company_id \<and> co_status co = ''active'') (ds_companies db) of
       [company] \<Rightarrow>
         bindR (mapR calc_chunk_of (calculation_rows db scope (co_id company) (fromkeys (map in_sheet_name ss)))) (\<lambda>chunks.
           if chunks = [] then Inl missing_inputs
           else bindR (version_loop fl db ss (by_version chunks)) (\<lambda>x.
             bindR (the_only_version x) (\<lambda>(version_id, trusted). Inr (co_slug company, version_id, trusted))))
     | _ \<Rightarrow> Inl CalculationAuthorizationError)"

subsection \<open>The authorized calculations\<close>

text \<open>The library functions: the rounding to a double, the name-based identifier, the power and the text of an
  identifier.\<close>

record calc_library =
  cl_float :: "rat \<Rightarrow> rat"
  cl_uuid5 :: "string \<Rightarrow> uuid"
  cl_power :: "rat \<Rightarrow> rat \<Rightarrow> rat option"
  cl_uuid_text :: "uuid \<Rightarrow> string"

definition calculate_authorized_metric ::
  "calc_library \<Rightarrow> docstore \<Rightarrow> AuthorizationScope \<Rightarrow> CalculationMetric \<Rightarrow> string \<Rightarrow> string \<Rightarrow>
   (load_exn, CalculationResult) result" where
  "calculate_authorized_metric cl db scope metric company_slug period =
     bindR (specs metric period) (\<lambda>ss.
     bindR (load_inputs (cl_float cl) db scope company_slug ss) (\<lambda>(slug, version_id, inputs).
       lift_calc (calculate (cl_uuid5 cl) metric slug period (cl_uuid_text cl version_id) inputs)))"

definition derived_metric :: "FinancialMetricName \<Rightarrow> CalculationMetric" where
  "derived_metric m = (if m = FM_EBITDA then EBITDA_MARGIN else NET_PROFIT_MARGIN)"

definition query_authorized_financial_metric ::
  "calc_library \<Rightarrow> docstore \<Rightarrow> AuthorizationScope \<Rightarrow> FinancialMetricName \<Rightarrow> string \<Rightarrow> string \<Rightarrow>
   (load_exn, CalculationResult) result" where
  "query_authorized_financial_metric cl db scope metric company_slug period =
     (if metric \<in> {FM_EBITDA, FM_NET_PROFIT} then
        bindR (specs (derived_metric metric) period) (\<lambda>ss.
        bindR (load_inputs (cl_float cl) db scope company_slug ss) (\<lambda>(slug, version_id, inputs).
          lift_calc (derived_profit_metric_result (cl_uuid5 cl) (if metric = FM_EBITDA then ''EBITDA'' else ''Net Profit'')
            slug period (cl_uuid_text cl version_id) inputs)))
      else case DIRECT_METRICS metric of (sheet, name) \<Rightarrow>
        bindR (load_inputs (cl_float cl) db scope company_slug [spec sheet name period]) (\<lambda>(slug, version_id, inputs).
          lift_calc (direct_metric_result (cl_uuid5 cl) slug period (cl_uuid_text cl version_id) (hd inputs))))"

definition calculate_authorized_cagr ::
  "calc_library \<Rightarrow> docstore \<Rightarrow> AuthorizationScope \<Rightarrow> string \<Rightarrow> string \<Rightarrow> string \<Rightarrow> (load_exn, CalculationResult) result" where
  "calculate_authorized_cagr cl db scope company_slug start_period end_period =
     bindR (load_inputs (cl_float cl) db scope company_slug
       [spec ''P&L'' ''Revenue'' start_period, spec ''P&L'' ''Revenue'' end_period]) (\<lambda>(slug, version_id, inputs).
       lift_calc (calculate_cagr (cl_uuid5 cl) (cl_power cl) slug start_period end_period (cl_uuid_text cl version_id) inputs))"

subsection \<open>The calculation tools\<close>

fun calculation_reason :: "CalculationErrorCode \<Rightarrow> GatewayReasonCode" where
  "calculation_reason INPUTS_MISSING = CALCULATION_INPUTS_MISSING"
| "calculation_reason INPUTS_INVALID = CALCULATION_INPUTS_INVALID"
| "calculation_reason DIVISION_BY_ZERO = CALCULATION_DIVISION_BY_ZERO"

definition calculation_outcome :: "(load_exn, CalculationResult) result \<Rightarrow> InvokeOutcome" where
  "calculation_outcome r =
     (case r of
        Inr result \<Rightarrow> Returned (RawData (CalculationPayload [result]))
      | Inl CalculationAuthorizationError \<Rightarrow> RaisedAuthorization
      | Inl (Calc (CalculationError code)) \<Rightarrow> RaisedAdapterError (calculation_reason code) False
      | Inl _ \<Rightarrow> RaisedOther)"

definition metric_adapter_invoke ::
  "calc_library \<Rightarrow> CalculationMetric \<Rightarrow> ActionArguments \<Rightarrow> AuthorizationScope \<Rightarrow> string \<Rightarrow> docstore \<times> 'v \<Rightarrow>
   InvokeOutcome \<times> (docstore \<times> 'v)" where
  "metric_adapter_invoke cl metric args scope request_id w =
     (case args of
        CalculateFinancialMetricInput company_slug period \<Rightarrow>
          if \<not> can_query scope then (RaisedAuthorization, w)
          else (calculation_outcome (calculate_authorized_metric cl (fst w) scope metric company_slug period), w)
      | _ \<Rightarrow> (RaisedOther, w))"

definition query_metrics_adapter_invoke ::
  "calc_library \<Rightarrow> ActionArguments \<Rightarrow> AuthorizationScope \<Rightarrow> string \<Rightarrow> docstore \<times> 'v \<Rightarrow> InvokeOutcome \<times> (docstore \<times> 'v)" where
  "query_metrics_adapter_invoke cl args scope request_id w =
     (case args of
        QueryFinancialMetricsInput company_slug period metric \<Rightarrow>
          if \<not> can_query scope then (RaisedAuthorization, w)
          else (calculation_outcome (query_authorized_financial_metric cl (fst w) scope metric company_slug period), w)
      | _ \<Rightarrow> (RaisedOther, w))"

definition cagr_adapter_invoke ::
  "calc_library \<Rightarrow> ActionArguments \<Rightarrow> AuthorizationScope \<Rightarrow> string \<Rightarrow> docstore \<times> 'v \<Rightarrow> InvokeOutcome \<times> (docstore \<times> 'v)" where
  "cagr_adapter_invoke cl args scope request_id w =
     (case args of
        CalculateCagrInput company_slug start_period end_period \<Rightarrow>
          if \<not> can_query scope then (RaisedAuthorization, w)
          else (calculation_outcome (calculate_authorized_cagr cl (fst w) scope company_slug start_period end_period), w)
      | _ \<Rightarrow> (RaisedOther, w))"

definition calculation_adapter ::
  "ApprovedToolName \<Rightarrow> InputModel \<Rightarrow> (ActionArguments \<Rightarrow> AuthorizationScope \<Rightarrow> string \<Rightarrow> docstore \<times> 'v \<Rightarrow>
   InvokeOutcome \<times> (docstore \<times> 'v)) \<Rightarrow> (docstore \<times> 'v) ApprovedToolAdapter" where
  "calculation_adapter name model invoke =
     \<lparr>ad_name = Some name, ad_input_model = model, ad_output_model = Gateway_output Calculation_payload,
      ad_required_capability = QUERY_DOCUMENTS, ad_invoke = invoke\<rparr>"

definition calculation_adapters :: "calc_library \<Rightarrow> (docstore \<times> 'v) ApprovedToolAdapter list" where
  "calculation_adapters cl =
     map (\<lambda>(name, metric). calculation_adapter name CalculateFinancialMetric_model (metric_adapter_invoke cl metric))
       [(CALCULATE_EBITDA_MARGIN, EBITDA_MARGIN), (CALCULATE_REVENUE_GROWTH, REVENUE_GROWTH),
        (CALCULATE_NET_PROFIT_MARGIN, NET_PROFIT_MARGIN), (CALCULATE_DEBT_TO_EQUITY, DEBT_TO_EQUITY),
        (CALCULATE_CASH_RUNWAY, CASH_RUNWAY)] @
     [calculation_adapter QUERY_FINANCIAL_METRICS QueryFinancialMetrics_model (query_metrics_adapter_invoke cl),
      calculation_adapter CALCULATE_CAGR CalculateCagr_model (cagr_adapter_invoke cl)]"

subsection \<open>Where a cell comes from\<close>

lemma row_at_set_cell:
  "row_at (set_cell (r, column, c) rows) n = (if n = r then dict_set (row_at rows r) column c else row_at rows n)"
  by (simp add: set_cell_def row_at_def)

lemma set_dict_set: "set (dict_set d k v) \<subseteq> insert (k, v) (set d)"
  by (induction d k v rule: dict_set.induct) auto

lemma fold_set_cell:
  "(column, c) \<in> set (row_at (fold set_cell xs rows) n) \<Longrightarrow> (n, column, c) \<in> set xs \<or> (column, c) \<in> set (row_at rows n)"
proof (induction xs arbitrary: rows)
  case (Cons x xs)
  from Cons.IH [of "set_cell x rows"] Cons.prems set_dict_set show ?case
    by (cases x) (fastforce simp: row_at_set_cell split: if_splits)
qed simp

lemma distinct_set_cells: "distinct (map fst rows) \<Longrightarrow> distinct (map fst (fold set_cell xs rows))"
  by (induction xs arbitrary: rows) (auto simp: set_cell_def distinct_dict_set)

lemma sheet_cell:
  "(column, c) \<in> set (row_at (sheet_rows_of db version_id sheet) n) \<Longrightarrow> (n, column, c) \<in> set (stored_cells db version_id sheet)"
  using fold_set_cell [of column c "stored_cells db version_id sheet" "[]" n] by (simp add: sheet_rows_of_def row_at_def)

lemma sheet_row: "(n, row) \<in> set (sheet_rows_of db version_id sheet) \<Longrightarrow> row_at (sheet_rows_of db version_id sheet) n = row"
  using distinct_set_cells [of "[]" "stored_cells db version_id sheet"] by (simp add: row_at_def sheet_rows_of_def)

text \<open>The cell that a specification names: a number written as such, in the row of the metric and the column of
  the period, with the unit beside it.\<close>

definition named_cell :: "(int \<times> int \<times> calc_cell) set \<Rightarrow> InputSpec \<Rightarrow> int \<Rightarrow> calc_cell \<Rightarrow> bool" where
  "named_cell cells s row value_cell \<longleftrightarrow>
     xc_value_kind value_cell = ''number'' \<and> \<not> xc_formula_like value_cell \<and>
     (\<exists>head column unit_column. head \<noteq> row \<and> (row, column, value_cell) \<in> cells \<and>
        (\<exists>c. (head, 1, c) \<in> cells \<and> xc_value_text c = ''Metric'') \<and>
        (\<exists>c. (row, 1, c) \<in> cells \<and> xc_value_text c = in_name s) \<and>
        (\<exists>c. (head, column, c) \<in> cells \<and> xc_value_text c = in_period s) \<and>
        (\<exists>c. (head, unit_column, c) \<in> cells \<and> xc_value_text c = ''Unit'') \<and>
        (\<exists>c. (row, unit_column, c) \<in> cells \<and> xc_value_text c = in_unit s))"

lemma value_cell_named:
  assumes cells: "\<And>n column c. (column, c) \<in> set (row_at rows n) \<Longrightarrow> (n, column, c) \<in> cells"
    and rows: "\<And>n row. (n, row) \<in> set rows \<Longrightarrow> row_at rows n = row"
    and v: "value_cell_in s rows = Inr (row, value_cell)"
  shows "named_cell cells s row value_cell"
proof -
  from v obtain head column unit_column unit_cell where
    h: "header_rows rows = [head]" and m: "map_of (metric_rows rows head) (in_name s) = Some row"
    and p: "map_of (period_columns (row_at rows head)) (in_period s) = Some column"
    and u: "unit_columns (row_at rows head) = [unit_column]"
    and c: "map_of (row_at rows row) column = Some value_cell" "map_of (row_at rows row) unit_column = Some unit_cell"
    and k: "xc_value_kind value_cell = ''number''" "\<not> xc_formula_like value_cell" "xc_value_text unit_cell = in_unit s"
    by (auto simp: value_cell_in_def Let_def split: list.splits option.splits if_splits)
  have stored: "(n, column, c) \<in> cells" if "(n, r) \<in> set rows" "map_of r column = Some c" for n r column c
    using rows [OF that(1)] cells [of column c n] map_of_SomeD [OF that(2)] by simp
  from h have "head \<in> set (header_rows rows)" by simp
  then obtain r1 c1 where "(head, r1) \<in> set rows" "map_of r1 1 = Some c1" and c1: "xc_value_text c1 = ''Metric''"
    by (auto simp: header_rows_def split: option.splits if_splits)
  then have "(head, 1, c1) \<in> cells" using stored by blast
  moreover from map_of_dict_of [OF m [unfolded metric_rows_def]] obtain r c2 where
    "(row, r) \<in> set rows" "map_of r 1 = Some c2" and c2: "xc_value_text c2 = in_name s" and row: "head \<noteq> row"
    by (auto split: option.splits if_splits) metis
  then have "(row, 1, c2) \<in> cells" using stored by blast
  moreover from map_of_dict_of [OF p [unfolded period_columns_def]] obtain c3 where
    c3: "(column, c3) \<in> set (row_at rows head)" "xc_value_text c3 = in_period s" by auto
  moreover note cells [OF c3(1)]
  moreover from u have "unit_column \<in> set (unit_columns (row_at rows head))" by simp
  then obtain c4 where c4: "(unit_column, c4) \<in> set (row_at rows head)" "xc_value_text c4 = ''Unit''"
    by (auto simp: unit_columns_def split: if_splits)
  moreover note cells [OF c4(1)]
  moreover have "(row, column, value_cell) \<in> cells" "(row, unit_column, unit_cell) \<in> cells"
    using c cells [OF map_of_SomeD] by simp_all
  ultimately show ?thesis using k row c1 c2 unfolding named_cell_def by blast
qed

subsection \<open>Where an input comes from\<close>

text \<open>An input is read from the named cell of one version, cited by a chunk of that version that holds its row.  The
  chunk is active, current and approved (\<open>base_where\<close>), of the finance department of the company, and the policy lets
  the caller read it.\<close>

definition input_source ::
  "(rat \<Rightarrow> rat) \<Rightarrow> docstore \<Rightarrow> AuthorizationScope \<Rightarrow> uuid \<Rightarrow> uuid \<Rightarrow> InputSpec \<Rightarrow> TrustedCalculationInput \<Rightarrow> bool" where
  "input_source fl db scope company_id version_id s i \<longleftrightarrow>
     (\<exists>r \<in> set (authorized_base scope db). \<exists>row value_cell value a b.
        may_read scope (jr_chunk r) \<and> dk_company_id (jr_chunk r) = company_id \<and> dk_department (jr_chunk r) = ''finance'' \<and>
        dk_source_type (jr_chunk r) = ''xlsx'' \<and> dk_document_version_id (jr_chunk r) = version_id \<and>
        dk_sheet_name (jr_chunk r) = Some (in_sheet_name s) \<and> dk_row_start (jr_chunk r) = Some a \<and>
        dk_row_end (jr_chunk r) = Some b \<and> a \<le> row \<and> row \<le> b \<and>
        named_cell (set (stored_cells db version_id (in_sheet_name s))) s row value_cell \<and>
        number_in (xc_value_text value_cell) = Inr value \<and>
        i = \<lparr>ti_name = in_name s, ti_period = in_period s, ti_value = fl value, ti_unit = in_unit s,
             ti_citation = \<lparr>cc_document_id = dk_document_id (jr_chunk r), cc_document_version_id = version_id,
               cc_chunk_id = dk_id (jr_chunk r), cc_document_title = dv_safe_filename (jr_version r),
               cc_version_number = dk_version_number (jr_chunk r), cc_excerpt = take 500 (dk_content (jr_chunk r)),
               cc_sheet_name = in_sheet_name s, cc_row_start = row, cc_row_end = row,
               cc_cell_start = xc_coordinate value_cell, cc_cell_end = xc_coordinate value_cell\<rparr>\<rparr>)"

lemma unique_chunk_Inr:
  assumes "unique_chunk s row chunks = Inr k"
  shows "k \<in> set chunks" "xk_sheet_name k = in_sheet_name s" "xk_row_start k \<le> row" "row \<le> xk_row_end k"
proof -
  from assms have "filter (\<lambda>k. xk_sheet_name k = in_sheet_name s \<and> xk_row_start k \<le> row \<and> row \<le> xk_row_end k) chunks = [k]"
    by (auto simp: unique_chunk_def split: list.splits)
  then have "k \<in> set (filter (\<lambda>k. xk_sheet_name k = in_sheet_name s \<and> xk_row_start k \<le> row \<and> row \<le> xk_row_end k) chunks)"
    by simp
  then show "k \<in> set chunks" "xk_sheet_name k = in_sheet_name s" "xk_row_start k \<le> row" "row \<le> xk_row_end k"
    by simp_all
qed

lemma calc_chunk_of_Inr:
  assumes "calc_chunk_of r = Inr k"
  shows "dk_row_start (jr_chunk r) = Some (xk_row_start k)" "dk_row_end (jr_chunk r) = Some (xk_row_end k)"
    "dk_sheet_name (jr_chunk r) = Some (xk_sheet_name k)" "xk_document_version_id k = dk_document_version_id (jr_chunk r)"
    "xk_document_id k = dk_document_id (jr_chunk r)" "xk_chunk_id k = dk_id (jr_chunk r)"
    "xk_document_title k = dv_safe_filename (jr_version r)" "xk_version_number k = dk_version_number (jr_chunk r)"
    "xk_content k = dk_content (jr_chunk r)"
  using assms by (auto simp: calc_chunk_of_def Let_def split: option.splits)

lemma trusted_input_source:
  assumes t: "trusted_input fl s (sheet_rows_of db version_id (in_sheet_name s)) chunks = Inr i"
    and chunks: "\<And>k. k \<in> set chunks \<Longrightarrow> xk_document_version_id k = version_id \<and>
      (\<exists>r \<in> set (calculation_rows db scope company_id sheets). calc_chunk_of r = Inr k)"
  shows "input_source fl db scope company_id version_id s i \<and> trusted_input_ok i"
proof -
  from t obtain row value_cell x k where v: "value_cell_in s (sheet_rows_of db version_id (in_sheet_name s)) = Inr (row, value_cell)"
    and n: "number_in (xc_value_text value_cell) = Inr x" and k: "unique_chunk s row chunks = Inr k"
    and i: "mk_TrustedCalculationInput \<lparr>ti_name = in_name s, ti_period = in_period s, ti_value = fl x,
      ti_unit = in_unit s, ti_citation = chunk_citation s k row value_cell\<rparr> = Inr i"
    by (auto simp: trusted_input_def result_simps)
  note u = unique_chunk_Inr [OF k]
  from chunks [OF u(1)] obtain r where kv: "xk_document_version_id k = version_id"
    and r: "r \<in> set (calculation_rows db scope company_id sheets)" and c: "calc_chunk_of r = Inr k" by blast
  note ck = calc_chunk_of_Inr [OF c]
  from r have b: "r \<in> set (authorized_base scope db)" and f: "dk_company_id (jr_chunk r) = company_id"
    "dk_department (jr_chunk r) = ''finance''" "dk_source_type (jr_chunk r) = ''xlsx''"
    by (simp_all add: calculation_rows_def Let_def)
  have "may_read scope (jr_chunk r)" using b base_where_sound by (simp add: authorized_base_iff)
  moreover have "named_cell (set (stored_cells db version_id (in_sheet_name s))) s row value_cell"
    by (rule value_cell_named [OF sheet_cell sheet_row v])
  moreover have "i = \<lparr>ti_name = in_name s, ti_period = in_period s, ti_value = fl x, ti_unit = in_unit s,
      ti_citation = chunk_citation s k row value_cell\<rparr>" and "trusted_input_ok i"
    using i by (auto simp: mk_TrustedCalculationInput_def split: if_splits)
  ultimately show ?thesis using b f ck kv n u(2-4) unfolding input_source_def chunk_citation_def by force
qed

lemma version_inputs_source:
  assumes "version_inputs fl db ss version_id chunks = Inr trusted"
    and "\<And>k. k \<in> set chunks \<Longrightarrow> xk_document_version_id k = version_id \<and>
      (\<exists>r \<in> set (calculation_rows db scope company_id sheets). calc_chunk_of r = Inr k)"
  shows "list_all2 (input_source fl db scope company_id version_id) ss trusted \<and> list_all trusted_input_ok trusted"
  using assms(1) unfolding version_inputs_def
  by (induction ss arbitrary: trusted) (use trusted_input_source [OF _ assms(2)] in \<open>auto simp: result_simps\<close>)

lemma version_loop_success:
  "version_loop fl db ss groups = Inr (successes, invalid) \<Longrightarrow> (version_id, trusted) \<in> set successes \<Longrightarrow>
     \<exists>chunks. (version_id, chunks) \<in> set groups \<and> version_inputs fl db ss version_id chunks = Inr trusted"
  by (induction fl db ss groups arbitrary: successes invalid rule: version_loop.induct)
    (fastforce simp: result_simps split: sum.splits if_splits)+

lemma the_only_version_Inr: "the_only_version (successes, invalid) = Inr y \<Longrightarrow> successes = [y]"
  by (auto simp: the_only_version_def split: list.splits if_splits)

lemma by_version_chunks:
  "(version_id, ks) \<in> set (by_version chunks) \<Longrightarrow> k \<in> set ks \<Longrightarrow> k \<in> set chunks \<and> xk_document_version_id k = version_id"
  by (auto simp: by_version_def)

lemma load_inputs_source:
  assumes "load_inputs fl db scope selector ss = Inr (slug, version_id, inputs)"
  obtains company_id where "authorized_finance_company_id scope selector = Inr company_id"
    "\<exists>co \<in> set (ds_companies db). co_id co = company_id \<and> co_status co = ''active'' \<and> co_slug co = slug"
    "list_all2 (input_source fl db scope company_id version_id) ss inputs" "list_all trusted_input_ok inputs"
proof -
  let ?active = "\<lambda>i. filter (\<lambda>co. co_id co = i \<and> co_status co = ''active'') (ds_companies db)"
  from assms obtain company_id where a: "authorized_finance_company_id scope selector = Inr company_id"
    by (auto simp: load_inputs_def result_simps)
  with assms obtain co where f: "?active company_id = [co]"
    by (cases "?active company_id" rule: remdups_adj.cases) (simp_all add: load_inputs_def)
  from assms have slug: "co_slug co = slug" and r: "bindR (mapR calc_chunk_of (calculation_rows db scope (co_id co)
       (fromkeys (map in_sheet_name ss)))) (\<lambda>chunks. if chunks = [] then Inl missing_inputs
       else bindR (version_loop fl db ss (by_version chunks)) (\<lambda>x. the_only_version x)) = Inr (version_id, inputs)"
    by (auto simp: load_inputs_def result_simps a f split: if_splits)
  have "co \<in> set (filter (\<lambda>co. co_id co = company_id \<and> co_status co = ''active'') (ds_companies db))" using f by simp
  then have co: "co \<in> set (ds_companies db)" "co_id co = company_id" "co_status co = ''active''" by simp_all
  from r obtain chunks successes invalid where
    c: "mapR calc_chunk_of (calculation_rows db scope company_id (fromkeys (map in_sheet_name ss))) = Inr chunks"
    and l: "version_loop fl db ss (by_version chunks) = Inr (successes, invalid)"
    and o1: "the_only_version (successes, invalid) = Inr (version_id, inputs)"
    by (auto simp: result_simps co split: if_splits)
  from the_only_version_Inr [OF o1] version_loop_success [OF l, of version_id inputs] obtain ks where
    ks: "(version_id, ks) \<in> set (by_version chunks)" "version_inputs fl db ss version_id ks = Inr inputs" by auto
  have "list_all2 (input_source fl db scope company_id version_id) ss inputs \<and> list_all trusted_input_ok inputs"
  proof (rule version_inputs_source [OF ks(2)])
    fix k assume "k \<in> set ks"
    from by_version_chunks [OF ks(1) this] have k: "k \<in> set chunks" "xk_document_version_id k = version_id" by simp_all
    from k(2) mapR_Inr_memb [OF c k(1)] show "xk_document_version_id k = version_id \<and>
      (\<exists>r \<in> set (calculation_rows db scope company_id (fromkeys (map in_sheet_name ss))). calc_chunk_of r = Inr k)" ..
  qed
  then have sources: "list_all2 (input_source fl db scope company_id version_id) ss inputs" "list_all trusted_input_ok inputs"
    by simp_all
  have "\<exists>co \<in> set (ds_companies db). co_id co = company_id \<and> co_status co = ''active'' \<and> co_slug co = slug"
    using co slug by blast
  from that [OF a this sources] show thesis .
qed

subsection \<open>The tools answer with trusted inputs\<close>

definition built_from :: "TrustedCalculationInput list \<Rightarrow> string \<Rightarrow> CalculationResult \<Rightarrow> bool" where
  "built_from inputs slug r \<longleftrightarrow> calculation_result_ok r \<and> cr_trusted_inputs r = inputs \<and> cr_company_slug r = slug"

lemma mk_CalculationResult_Inr: "mk_CalculationResult x = Inr r \<longleftrightarrow> r = x \<and> calculation_result_ok x"
  by (auto simp: mk_CalculationResult_def)

lemma calculate_built: "calculate u metric slug period version inputs = Inr r \<Longrightarrow> built_from inputs slug r"
  by (auto simp: calculate_def mk_CalculationResult_Inr Let_def result_simps built_from_def split: if_split_asm option.split_asm)

lemma direct_built: "direct_metric_result u slug period version i = Inr r \<Longrightarrow> built_from [i] slug r"
  by (auto simp: direct_metric_result_def mk_CalculationResult_Inr built_from_def)

lemma derived_built: "derived_profit_metric_result u name slug period version inputs = Inr r \<Longrightarrow> built_from inputs slug r"
  unfolding derived_profit_metric_result_def Let_def
  by (auto simp: bindR_Inr_iff [where f = "\<lambda>(value, formula). _ value formula"] bindR_Inr_iff mk_CalculationResult_Inr
      built_from_def simp del: if_split split: option.split_asm)

lemma cagr_built: "calculate_cagr u pw slug start_period end_period version inputs = Inr r \<Longrightarrow> built_from inputs slug r"
  by (auto simp: calculate_cagr_def mk_CalculationResult_Inr Let_def result_simps built_from_def
      split: if_split_asm option.split_asm)

lemma lift_calc_Inr [simp]: "lift_calc x = Inr r \<longleftrightarrow> x = Inr r"
  by (simp add: lift_calc_def split: sum.split)

text \<open>A result and the rows of the store its inputs were read from.\<close>

definition result_sourced ::
  "calc_library \<Rightarrow> docstore \<Rightarrow> AuthorizationScope \<Rightarrow> string \<Rightarrow> CalculationResult \<Rightarrow> bool" where
  "result_sourced cl db scope selector r \<longleftrightarrow>
     calculation_result_ok r \<and> list_all trusted_input_ok (cr_trusted_inputs r) \<and>
     (\<exists>company_id version_id ss. authorized_finance_company_id scope selector = Inr company_id \<and>
        (\<exists>co \<in> set (ds_companies db). co_id co = company_id \<and> co_status co = ''active'' \<and> co_slug co = cr_company_slug r) \<and>
        list_all2 (input_source (cl_float cl) db scope company_id version_id) ss (cr_trusted_inputs r))"

lemma loaded_sourced:
  assumes "load_inputs (cl_float cl) db scope selector ss = Inr (slug, version_id, inputs)" and "built_from inputs slug r"
  shows "result_sourced cl db scope selector r"
  using load_inputs_source [OF assms(1)] assms(2) unfolding result_sourced_def built_from_def by metis

lemma metric_sourced:
  "calculate_authorized_metric cl db scope metric selector period = Inr r \<Longrightarrow> result_sourced cl db scope selector r"
  by (auto simp: calculate_authorized_metric_def result_simps intro: loaded_sourced calculate_built)

lemma cagr_sourced:
  "calculate_authorized_cagr cl db scope selector start_period end_period = Inr r \<Longrightarrow> result_sourced cl db scope selector r"
  by (auto simp: calculate_authorized_cagr_def result_simps intro: loaded_sourced cagr_built)

lemma load_one_input: "load_inputs fl db scope selector [s] = Inr (slug, version_id, inputs) \<Longrightarrow> inputs = [hd inputs]"
  by (elim load_inputs_source) (auto simp: list_all2_Cons1)

lemma loaded_one_sourced:
  "load_inputs (cl_float cl) db scope selector [s] = Inr (slug, version_id, inputs) \<Longrightarrow> built_from [hd inputs] slug r \<Longrightarrow>
     result_sourced cl db scope selector r"
  using load_one_input loaded_sourced by metis

lemma query_sourced:
  "query_authorized_financial_metric cl db scope metric selector period = Inr r \<Longrightarrow> result_sourced cl db scope selector r"
  by (auto simp: query_authorized_financial_metric_def result_simps split: if_splits prod.splits
      intro: loaded_sourced derived_built loaded_one_sourced direct_built)

lemma calculation_outcome_Returned:
  "calculation_outcome r = Returned (RawData p) \<longleftrightarrow> (\<exists>x. r = Inr x \<and> p = CalculationPayload [x])"
  by (auto simp: calculation_outcome_def split: sum.splits load_exn.splits calc_error.splits)

definition sourced_payload :: "calc_library \<Rightarrow> docstore \<Rightarrow> AuthorizationScope \<Rightarrow> string \<Rightarrow> Payload \<Rightarrow> bool" where
  "sourced_payload cl db scope selector p \<longleftrightarrow> (\<exists>r. p = CalculationPayload [r] \<and> result_sourced cl db scope selector r)"

lemma metric_invoke_sourced:
  "metric_adapter_invoke cl metric args scope rid w = (Returned (RawData p), w') \<Longrightarrow>
     w' = w \<and> sourced_payload cl (fst w) scope (arg_company_slug args) p"
  by (cases args) (auto simp: metric_adapter_invoke_def calculation_outcome_Returned sourced_payload_def
      intro: metric_sourced split: if_split_asm)

lemma query_invoke_sourced:
  "query_metrics_adapter_invoke cl args scope rid w = (Returned (RawData p), w') \<Longrightarrow>
     w' = w \<and> sourced_payload cl (fst w) scope (arg_company_slug args) p"
  by (cases args) (auto simp: query_metrics_adapter_invoke_def calculation_outcome_Returned sourced_payload_def
      intro: query_sourced split: if_split_asm)

lemma cagr_invoke_sourced:
  "cagr_adapter_invoke cl args scope rid w = (Returned (RawData p), w') \<Longrightarrow>
     w' = w \<and> sourced_payload cl (fst w) scope (arg_company_slug args) p"
  by (cases args) (auto simp: cagr_adapter_invoke_def calculation_outcome_Returned sourced_payload_def
      intro: cagr_sourced split: if_split_asm)

lemma calculation_adapter_sourced:
  assumes "adapter \<in> set (calculation_adapters cl)"
    and "ad_invoke adapter args scope rid w = (Returned (RawData p), w')"
  shows "w' = w \<and> sourced_payload cl (fst w) scope (arg_company_slug args) p"
proof -
  from assms(1) consider metric where "ad_invoke adapter = metric_adapter_invoke cl metric"
    | "ad_invoke adapter = query_metrics_adapter_invoke cl" | "ad_invoke adapter = cagr_adapter_invoke cl"
    by (auto simp: calculation_adapters_def calculation_adapter_def)
  then show ?thesis
  proof cases
    case 1
    show ?thesis by (rule metric_invoke_sourced [OF assms(2) [unfolded 1]])
  next
    case 2
    show ?thesis by (rule query_invoke_sourced [OF assms(2) [unfolded 2]])
  next
    case 3
    show ?thesis by (rule cagr_invoke_sourced [OF assms(2) [unfolded 3]])
  qed
qed

text \<open>The bound of an input is larger than the bound of a result: a cell above a million is a trusted input, and the
  direct lookup of its metric raises the validation error of the result, which no branch translates.\<close>

lemma large_metric_raises:
  "1000000 < ti_value i \<Longrightarrow> direct_metric_result u slug period version i = Inl ResultValidationError"
  "calculation_outcome (lift_calc (Inl ResultValidationError)) = RaisedOther"
  by (simp_all add: direct_metric_result_def mk_CalculationResult_def calculation_result_ok_def calculation_outcome_def
      lift_calc_def)

text \<open>A store with one approved workbook, and the library functions of the example: the number itself is the nearest
  double of a small integer.\<close>

definition example_cell :: "int \<Rightarrow> string \<Rightarrow> string \<Rightarrow> string \<Rightarrow> CellRow" where
  "example_cell column coordinate txt kind =
     \<lparr>cr_column_number = column, cr_coordinate = coordinate, cr_value_text = txt, cr_value_kind = kind, cr_formula_like = False\<rparr>"

definition example_sheet :: SheetRow where
  "example_sheet =
     \<lparr>st_sheet_index = 0, st_name = ''P&L'', st_row_count = 2, st_column_count = 3, st_rows =
       [\<lparr>rr_row_number = 1, rr_cells = [example_cell 1 ''A1'' ''Metric'' ''text'', example_cell 2 ''B1'' ''Unit'' ''text'',
          example_cell 3 ''C1'' ''FY2025'' ''text'']\<rparr>,
        \<lparr>rr_row_number = 2, rr_cells = [example_cell 1 ''A2'' ''Revenue'' ''text'', example_cell 2 ''B2'' ''INR crore'' ''text'',
          example_cell 3 ''C2'' ''120'' ''number'']\<rparr>]\<rparr>"

definition workbook_chunk :: DocumentChunk where
  "workbook_chunk = (example_chunk 34 20 10 ''Revenue 120'')
     \<lparr>dk_source_type := ''xlsx'', dk_page_number := None, dk_sheet_name := Some ''P&L'', dk_row_start := Some 1,
      dk_row_end := Some 2, dk_cell_start := Some ''A1'', dk_cell_end := Some ''C2''\<rparr>"

definition workbook_store :: docstore where
  "workbook_store = example_docstore
     \<lparr>ds_versions := [(example_version 20)\<lparr>dv_sheets := [example_sheet]\<rparr>, example_version 21], ds_chunks := [workbook_chunk]\<rparr>"

definition example_calc_library :: calc_library where
  "example_calc_library = \<lparr>cl_float = (\<lambda>x. x), cl_uuid5 = length, cl_power = (\<lambda>x y. None), cl_uuid_text = str_nat\<rparr>"

definition revenue_call :: "InvokeOutcome \<times> (docstore \<times> nat)" where
  "revenue_call = query_metrics_adapter_invoke example_calc_library (QueryFinancialMetricsInput ''acme'' ''FY2025'' FM_REVENUE)
     example_scope ''r'' (workbook_store, 0)"

definition revenue_seen :: "(string \<times> rat \<times> uuid \<times> string) list" where
  "revenue_seen = (case fst revenue_call of
     Returned (RawData (CalculationPayload rs)) \<Rightarrow>
       map (\<lambda>i. (ti_name i, ti_value i, cc_chunk_id (ti_citation i), cc_cell_start (ti_citation i))) (concat (map cr_trusted_inputs rs))
   | _ \<Rightarrow> [])"

lemma revenue_answer: "revenue_seen = [(''Revenue'', 120, 34, ''C2'')]"
  by code_simp

text \<open>C36: A calculation tool that answers leaves the store as it was and returns one valid result.  The selector
  names exactly one active company of the caller's finance grants, and every input of the result is a literal,
  non-formula number cell, in the row of its metric and the column of its period, of one approved and current
  spreadsheet of that company that the policy lets the caller read.\<close>

theorem calculation_inputs_trusted:
  assumes "adapter \<in> set (calculation_adapters cl)"
    and "ad_invoke adapter args scope rid w = (Returned (RawData p), w')"
  shows "w' = w \<and> payload_ok coord p \<and>
    (\<exists>r. p = CalculationPayload [r] \<and> result_sourced cl (fst w) scope (arg_company_slug args) r)"
  using calculation_adapter_sourced [OF assms] by (auto simp: sourced_payload_def payload_ok_def result_sourced_def)

theorem calculation_inputs_trusted_witness:
  "\<exists>p w'. revenue_call = (Returned (RawData p), w') \<and> payload_ok (\<lambda>s. None) p \<and>
     (\<exists>r. p = CalculationPayload [r] \<and> result_sourced example_calc_library workbook_store example_scope ''acme'' r \<and>
        map ti_value (cr_trusted_inputs r) = [120])"
proof -
  have "\<exists>p. fst revenue_call = Returned (RawData p)"
    using revenue_answer unfolding revenue_seen_def by (cases "fst revenue_call") (auto split: RawOutput.split_asm)
  then obtain p w' where c: "revenue_call = (Returned (RawData p), w')" by (metis prod.collapse)
  have "calculation_adapter QUERY_FINANCIAL_METRICS QueryFinancialMetrics_model
      (query_metrics_adapter_invoke example_calc_library) \<in> set (calculation_adapters example_calc_library)"
    by (simp add: calculation_adapters_def)
  from calculation_inputs_trusted [OF this, of "QueryFinancialMetricsInput ''acme'' ''FY2025'' FM_REVENUE" example_scope "''r''"
      "(workbook_store, 0 :: nat)" p w' "\<lambda>s. None"] c
  obtain r where ok: "payload_ok (\<lambda>s. None) p" and p: "p = CalculationPayload [r]"
    and r: "result_sourced example_calc_library workbook_store example_scope ''acme'' r"
    by (auto simp: calculation_adapter_def revenue_call_def)
  have "fst revenue_call = Returned (RawData (CalculationPayload [r]))" by (simp only: c p fst_conv)
  from revenue_answer [unfolded revenue_seen_def this] have v: "map ti_value (cr_trusted_inputs r) = [120]" by auto
  show ?thesis
    by (rule exI [of _ p], rule exI [of _ w'], intro conjI exI [of _ r]) (rule c ok p r v)+
qed

end
