(* ===== verification/Memory_Store.thy ===== *)
theory Memory_Store
  imports Run_Service Retrieval
begin

text \<open>
  Long-term memory: the rows of \<^verbatim>\<open>app/models/memory.py\<close> with their constraints, the access rules a memory inherits
  from its sources (\<^verbatim>\<open>app/memory/policy.py\<close>) and the statements of \<^verbatim>\<open>app/memory/repository.py\<close>, all of which
  start from the visible memories.  Document tables are those of \<open>Document_Store\<close>; times are in seconds.
\<close>

subsection \<open>Rows\<close>

record MemorySource =
  ms_chunk_id :: uuid
  ms_document_id :: uuid
  ms_document_version_id :: uuid
  ms_tenant_id :: uuid
  ms_company_id :: uuid
  ms_department :: string
  ms_visibility :: string
  ms_classification :: string

record Memory =
  mm_id :: uuid
  mm_tenant_id :: uuid
  mm_company_id :: uuid
  mm_scope :: string
  mm_owner_user_id :: "uuid option"
  mm_created_by_user_id :: uuid
  mm_memory_type :: string
  mm_origin :: string
  mm_status :: string
  mm_conversation_id :: "uuid option"
  mm_agent_run_id :: "uuid option"
  mm_source_message_id :: "uuid option"
  mm_department :: string
  mm_visibility :: string
  mm_classification :: string
  mm_content :: string
  mm_content_hash :: string
  mm_normalized_key :: "string option"
  mm_reason :: string
  mm_confidence :: rat
  mm_importance :: rat
  mm_superseded_by_id :: "uuid option"
  mm_last_accessed_at :: "rat option"
  mm_expires_at :: rat
  mm_deleted_at :: "rat option"
  mm_created_at :: rat
  mm_sources :: "MemorySource list"

text \<open>The constraints of the tables \<^verbatim>\<open>memories\<close> and \<^verbatim>\<open>memory_sources\<close>; the rule for the triple of department,
  visibility and classification is the one of the chunk table.\<close>

definition ck_memories_scope_acl :: "Memory \<Rightarrow> bool" where
  "ck_memories_scope_acl m \<longleftrightarrow>
     (mm_scope m = ''FINANCE'' \<and> mm_department m = ''finance'') \<or> (mm_scope m = ''LEGAL'' \<and> mm_department m = ''legal'') \<or>
     (mm_scope m = ''SHARED'' \<and> mm_department m = ''shared'') \<or> mm_scope m = ''PRIVATE_USER''"

definition ck_memory_acl :: "Memory \<Rightarrow> bool" where
  "ck_memory_acl m = ck_acl_metadata (mm_department m) (mm_visibility m) (mm_classification m)"

definition ck_memory_sources :: "Memory \<Rightarrow> bool" where
  "ck_memory_sources m \<longleftrightarrow>
     distinct (map ms_chunk_id (mm_sources m)) \<and>
     list_all (\<lambda>s. ck_acl_metadata (ms_department s) (ms_visibility s) (ms_classification s)) (mm_sources m)"

definition memory_row_ok :: "Memory \<Rightarrow> bool" where
  "memory_row_ok m \<longleftrightarrow>
     mm_scope m \<in> {''PRIVATE_USER'', ''FINANCE'', ''LEGAL'', ''SHARED''} \<and>
     mm_memory_type m \<in> {''SEMANTIC'', ''EPISODIC'', ''CONVERSATION_SUMMARY''} \<and>
     mm_origin m \<in> {''EXPLICIT_USER'', ''AUTOMATIC_EXTRACTOR'', ''SYSTEM_SUMMARY''} \<and>
     mm_status m \<in> {''PENDING_CONFIRMATION'', ''ACTIVE'', ''SUPERSEDED'', ''EXPIRED'', ''DELETED''} \<and>
     0 \<le> mm_confidence m \<and> mm_confidence m \<le> 1 \<and> 0 \<le> mm_importance m \<and> mm_importance m \<le> 1 \<and>
     (mm_memory_type m = ''CONVERSATION_SUMMARY'' \<longrightarrow> mm_conversation_id m \<noteq> None) \<and>
     (mm_scope m = ''PRIVATE_USER'') = (mm_owner_user_id m \<noteq> None) \<and> ck_memories_scope_acl m \<and> ck_memory_acl m \<and>
     1 \<le> length (mm_content m) \<and> length (mm_content m) \<le> 1000 \<and> length (mm_content_hash m) = 64 \<and>
     (case mm_normalized_key m of None \<Rightarrow> True | Some k \<Rightarrow> length k \<le> 160) \<and> length (mm_reason m) \<le> 240 \<and> ck_memory_sources m"

record MemoryAuditEvent =
  mv_memory_id :: uuid
  mv_tenant_id :: uuid
  mv_actor_user_id :: uuid
  mv_action :: string
  mv_reason_code :: string

text \<open>The memory tables, and the titles of the conversations a memory may point to.\<close>

record memstore =
  mb_memories :: "Memory list"
  mb_events :: "MemoryAuditEvent list"
  mb_titles :: "(uuid \<times> string) list"

subsection \<open>Access rules inherited from the sources\<close>

record EffectiveMemoryACL =
  ea_scope :: string
  ea_department :: string
  ea_visibility :: string
  ea_classification :: string

definition ACL_BY_DEPARTMENT :: "(string \<times> string \<times> string) list" where
  "ACL_BY_DEPARTMENT =
     [(''finance'', ''DEPARTMENT_PRIVATE'', ''FINANCE_ONLY''), (''legal'', ''DEPARTMENT_PRIVATE'', ''LEGAL_ONLY_CONFIDENTIAL''),
      (''shared'', ''TENANT_SHARED'', ''TENANT_SHARED'')]"

definition SCOPE_BY_DEPARTMENT :: "(string \<times> string) list" where
  "SCOPE_BY_DEPARTMENT = [(''finance'', ''FINANCE''), (''legal'', ''LEGAL''), (''shared'', ''SHARED'')]"

text \<open>\<open>None\<close> is \<^verbatim>\<open>MemoryPolicyError\<close>.\<close>

definition derive_memory_acl :: "string \<Rightarrow> (string \<times> string \<times> string) list \<Rightarrow> EffectiveMemoryACL option" where
  "derive_memory_acl requested_scope source_acls =
     (if source_acls = [] then
        (if requested_scope \<noteq> ''PRIVATE_USER'' then None
         else Some \<lparr>ea_scope = requested_scope, ea_department = ''shared'', ea_visibility = ''TENANT_SHARED'',
                    ea_classification = ''TENANT_SHARED''\<rparr>)
      else case remdups source_acls of
        [(department, visibility, classification)] \<Rightarrow>
          if map_of ACL_BY_DEPARTMENT department \<noteq> Some (visibility, classification) then None
          else if requested_scope \<noteq> ''PRIVATE_USER'' \<and> map_of SCOPE_BY_DEPARTMENT department \<noteq> Some requested_scope then None
          else Some \<lparr>ea_scope = requested_scope, ea_department = department, ea_visibility = visibility,
                     ea_classification = classification\<rparr>
      | _ \<Rightarrow> None)"

subsection \<open>The visible memories\<close>

definition valid_acl_clause :: "Memory \<Rightarrow> bool" where
  "valid_acl_clause m \<longleftrightarrow>
     (mm_department m = ''finance'' \<and> mm_visibility m = ''DEPARTMENT_PRIVATE'' \<and> mm_classification m = ''FINANCE_ONLY'') \<or>
     (mm_department m = ''legal'' \<and> mm_visibility m = ''DEPARTMENT_PRIVATE'' \<and> mm_classification m = ''LEGAL_ONLY_CONFIDENTIAL'') \<or>
     (mm_department m = ''shared'' \<and> mm_visibility m = ''TENANT_SHARED'' \<and> mm_classification m = ''TENANT_SHARED'')"

definition memory_scope_ok :: "uuid \<Rightarrow> Memory \<Rightarrow> bool" where
  "memory_scope_ok user m \<longleftrightarrow>
     (mm_scope m = ''PRIVATE_USER'' \<and> mm_owner_user_id m = Some user) \<or>
     (mm_scope m = ''FINANCE'' \<and> mm_department m = ''finance'') \<or>
     (mm_scope m = ''LEGAL'' \<and> mm_department m = ''legal'') \<or> (mm_scope m = ''SHARED'' \<and> mm_department m = ''shared'')"

definition memory_grant_predicate :: "uuid \<Rightarrow> AuthorizationGrant \<Rightarrow> (Memory \<Rightarrow> bool) option" where
  "memory_grant_predicate user g =
     (if QUERY_DOCUMENTS \<notin> set (capabilities g) \<or> company_ids g = [] then None
      else let keys = map dept_key (departments g) in
        if keys = [] then None
        else Some (\<lambda>m. mm_tenant_id m = workspace_id g \<and> mm_company_id m \<in> set (company_ids g) \<and>
                       mm_department m \<in> set keys \<and> memory_scope_ok user m))"

definition scope_clause :: "AuthorizationScope \<Rightarrow> Memory \<Rightarrow> bool" where
  "scope_clause scope m =
     list_ex (\<lambda>predicate. predicate m)
       (List.map_filter (memory_grant_predicate (identity_user_id (scope_identity scope))) (grants scope))"

definition source_of_chunk :: "DocumentChunk \<Rightarrow> MemorySource" where
  "source_of_chunk c =
     \<lparr>ms_chunk_id = dk_id c, ms_document_id = dk_document_id c, ms_document_version_id = dk_document_version_id c,
      ms_tenant_id = dk_tenant_id c, ms_company_id = dk_company_id c, ms_department = dk_department c,
      ms_visibility = dk_visibility c, ms_classification = dk_classification c\<rparr>"

text \<open>\<^verbatim>\<open>authorized_source_match\<close>: a chunk of the authorized statement with all columns of the source.\<close>

definition source_matches :: "AuthorizationScope \<Rightarrow> docstore \<Rightarrow> Memory \<Rightarrow> MemorySource \<Rightarrow> bool" where
  "source_matches scope db m s \<longleftrightarrow>
     s \<in> set (map (\<lambda>r. source_of_chunk (jr_chunk r)) (authorized_base scope db)) \<and>
     ms_tenant_id s = mm_tenant_id m \<and> ms_company_id s = mm_company_id m \<and> ms_department s = mm_department m \<and>
     ms_visibility s = mm_visibility m \<and> ms_classification s = mm_classification m"

definition visible :: "AuthorizationScope \<Rightarrow> docstore \<Rightarrow> rat \<Rightarrow> string list \<Rightarrow> Memory \<Rightarrow> bool" where
  "visible scope db now statuses m \<longleftrightarrow>
     scope_clause scope m \<and> valid_acl_clause m \<and> mm_deleted_at m = None \<and> now < mm_expires_at m \<and>
     mm_status m \<in> set statuses \<and> list_all (source_matches scope db m) (mm_sources m)"

definition visible_memories :: "AuthorizationScope \<Rightarrow> docstore \<Rightarrow> rat \<Rightarrow> string list \<Rightarrow> memstore \<Rightarrow> Memory list" where
  "visible_memories scope db now statuses st = filter (visible scope db now statuses) (mb_memories st)"

definition READABLE_STATUSES :: "string list" where
  "READABLE_STATUSES = [''ACTIVE'', ''PENDING_CONFIRMATION'', ''SUPERSEDED'']"

subsection \<open>The statements of the repository\<close>

definition load_authorized_source_chunks :: "docstore \<Rightarrow> AuthorizationScope \<Rightarrow> uuid list \<Rightarrow> DocumentChunk list" where
  "load_authorized_source_chunks db scope source_ids =
     (if source_ids = [] then []
      else filter (\<lambda>c. dk_id c \<in> set source_ids) (map jr_chunk (authorized_base scope db)))"

definition company_predicate :: "(string \<times> string) list \<Rightarrow> AuthorizationGrant \<Rightarrow> (Company \<Rightarrow> bool) option" where
  "company_predicate evidence_companies g =
     (if QUERY_DOCUMENTS \<notin> set (capabilities g) \<or> company_ids g = [] then None
      else let slugs = [company. (workspace, company) \<leftarrow> evidence_companies, workspace = workspace_slug g] in
        if slugs = [] then None
        else Some (\<lambda>co. co_tenant_id co = workspace_id g \<and> co_id co \<in> set (company_ids g) \<and> co_slug co \<in> set slugs \<and>
                        co_status co = ''active''))"

definition resolve_authorized_company_ids :: "docstore \<Rightarrow> AuthorizationScope \<Rightarrow> (string \<times> string) list \<Rightarrow> uuid list" where
  "resolve_authorized_company_ids db scope evidence_companies =
     sort (map co_id (filter (\<lambda>co. list_ex (\<lambda>predicate. predicate co)
       (List.map_filter (company_predicate evidence_companies) (grants scope))) (ds_companies db)))"

definition list_visible_memories ::
  "docstore \<Rightarrow> AuthorizationScope \<Rightarrow> rat \<Rightarrow> uuid list option \<Rightarrow> string list option \<Rightarrow> string list \<Rightarrow> nat \<Rightarrow> memstore \<Rightarrow> Memory list" where
  "list_visible_memories db scope now companies memory_types statuses limit st =
     take limit (sort_key (\<lambda>m. (- mm_created_at m, mm_id m))
       (filter (\<lambda>m. (case companies of None \<Rightarrow> True | Some cs \<Rightarrow> mm_company_id m \<in> set cs) \<and>
                    (case memory_types of None \<Rightarrow> True | Some ts \<Rightarrow> mm_memory_type m \<in> set ts))
         (visible_memories scope db now statuses st)))"

text \<open>The full-text functions of the database: the rank of a text for a query, and whether it matches.\<close>

record text_search =
  tx_rank :: "string \<Rightarrow> string \<Rightarrow> rat"
  tx_matches :: "string \<Rightarrow> string \<Rightarrow> bool"

definition financial_query :: "string \<Rightarrow> bool" where
  "financial_query query =
     list_ex (\<lambda>term. contains term (casefold query))
       [''financial'', ''amount'', ''revenue'', ''ebitda'', ''profit'', ''margin'', ''currency'']"

definition preference_boost :: "string \<Rightarrow> Memory \<Rightarrow> rat" where
  "preference_boost query m =
     (if mm_memory_type m = ''SEMANTIC'' \<and> mm_normalized_key m = Some ''financial_value_format'' \<and> financial_query query
      then 45 / 100 else 0)"

definition type_weight :: "Memory \<Rightarrow> rat" where
  "type_weight m = (if mm_memory_type m = ''SEMANTIC'' then 8 / 100 else if mm_memory_type m = ''EPISODIC'' then 3 / 100 else 0)"

definition memory_rank :: "text_search \<Rightarrow> rat \<Rightarrow> string \<Rightarrow> Memory \<Rightarrow> rat" where
  "memory_rank tx now query m =
     tx_rank tx query (mm_content m) + preference_boost query m + type_weight m +
     5 / 100 / (1 + (now - mm_created_at m) / 86400) + mm_importance m * (1 / 10)"

definition search_visible_memories ::
  "text_search \<Rightarrow> docstore \<Rightarrow> AuthorizationScope \<Rightarrow> rat \<Rightarrow> string \<Rightarrow> nat \<Rightarrow> string list \<Rightarrow> memstore \<Rightarrow> Memory list" where
  "search_visible_memories tx db scope now query top_k memory_types st =
     take top_k (sort_key (\<lambda>m. (- memory_rank tx now query m, - mm_created_at m, mm_id m))
       (filter (\<lambda>m. mm_memory_type m \<in> set memory_types \<and>
                    (tx_matches tx query (mm_content m) \<or> 0 < preference_boost query m) \<and>
                    5 / 100 \<le> memory_rank tx now query m)
         (visible_memories scope db now [''ACTIVE''] st)))"

definition most_recent_authorized_episode :: "docstore \<Rightarrow> AuthorizationScope \<Rightarrow> rat \<Rightarrow> memstore \<Rightarrow> Memory option" where
  "most_recent_authorized_episode db scope now st =
     (case sort_key (\<lambda>m. (- mm_created_at m, - int (mm_id m)))
         (filter (\<lambda>m. mm_memory_type m = ''EPISODIC'') (visible_memories scope db now [''ACTIVE''] st)) of
        [] \<Rightarrow> None | m # _ \<Rightarrow> Some m)"

definition relevant_authorized_episodes ::
  "text_search \<Rightarrow> docstore \<Rightarrow> AuthorizationScope \<Rightarrow> rat \<Rightarrow> string \<Rightarrow> nat \<Rightarrow> memstore \<Rightarrow> Memory list" where
  "relevant_authorized_episodes tx db scope now query limit st =
     search_visible_memories tx db scope now query limit [''EPISODIC''] st"

definition relevant_semantic_preferences ::
  "text_search \<Rightarrow> docstore \<Rightarrow> AuthorizationScope \<Rightarrow> rat \<Rightarrow> string \<Rightarrow> nat \<Rightarrow> memstore \<Rightarrow> Memory list" where
  "relevant_semantic_preferences tx db scope now query limit st =
     search_visible_memories tx db scope now query limit [''SEMANTIC''] st"

text \<open>The summaries of a conversation the caller owns: \<^verbatim>\<open>one_or_none\<close> raises for two.\<close>

definition owned_conversation_summary :: "docstore \<Rightarrow> AuthorizationScope \<Rightarrow> rat \<Rightarrow> uuid \<Rightarrow> memstore \<Rightarrow> Memory list" where
  "owned_conversation_summary db scope now conversation_id st =
     filter (\<lambda>m. mm_owner_user_id m = Some (identity_user_id (scope_identity scope)) \<and>
                 mm_conversation_id m = Some conversation_id \<and> mm_memory_type m = ''CONVERSATION_SUMMARY'')
       (visible_memories scope db now [''ACTIVE''] st)"

definition get_visible_memory :: "docstore \<Rightarrow> AuthorizationScope \<Rightarrow> rat \<Rightarrow> uuid \<Rightarrow> memstore \<Rightarrow> Memory option" where
  "get_visible_memory db scope now memory_id st =
     List.find (\<lambda>m. mm_id m = memory_id) (visible_memories scope db now READABLE_STATUSES st)"

subsection \<open>The clause is the policy\<close>

text \<open>The request the policy decides when a caller recalls a memory.\<close>

definition memory_request :: "Memory \<Rightarrow> PolicyRequest" where
  "memory_request m =
     \<lparr>req_capability = QUERY_DOCUMENTS, req_workspace_id = mm_tenant_id m, req_company_id = Some (mm_company_id m),
      req_department = Some (mm_department m)\<rparr>"

definition may_recall :: "AuthorizationScope \<Rightarrow> Memory \<Rightarrow> bool" where
  "may_recall scope m \<longleftrightarrow>
     allowed (authorize scope (memory_request m)) \<and> memory_scope_ok (identity_user_id (scope_identity scope)) m"

lemma memory_grant_permits:
  "(\<exists>p. memory_grant_predicate u g = Some p \<and> p m) \<longleftrightarrow> grant_permits g (memory_request m) \<and> memory_scope_ok u m"
  by (auto simp: memory_grant_predicate_def grant_permits_def memory_request_def Let_def)

definition recall_allows :: "uuid \<Rightarrow> AuthorizationGrant list \<Rightarrow> Memory \<Rightarrow> bool" where
  "recall_allows u gs m = list_ex (\<lambda>predicate. predicate m) (List.map_filter (memory_grant_predicate u) gs)"

interpretation memory_clause: grant_policy "\<lambda>g m. \<exists>p. memory_grant_predicate u g = Some p \<and> p m" "recall_allows u" for u
  by unfold_locales (simp add: recall_allows_def list_ex_map_filter)

lemma scope_clause_policy: "scope_clause scope m = may_recall scope m"
proof -
  have "scope_clause scope m = recall_allows (identity_user_id (scope_identity scope)) (grants scope) m"
    by (simp add: scope_clause_def recall_allows_def)
  then show ?thesis
    by (auto simp: memory_clause.decides_iff memory_grant_permits may_recall_def authorize_iff_permits)
qed

subsection \<open>What a visible memory guarantees\<close>

definition source_readable :: "AuthorizationScope \<Rightarrow> docstore \<Rightarrow> Memory \<Rightarrow> MemorySource \<Rightarrow> bool" where
  "source_readable scope db m s \<longleftrightarrow>
     (\<exists>r \<in> set (authorized_base scope db). s = source_of_chunk (jr_chunk r) \<and> may_read scope (jr_chunk r) \<and>
        dk_active (jr_chunk r) \<and> dc_deleted_at (jr_document r) = None \<and>
        dk_tenant_id (jr_chunk r) = mm_tenant_id m \<and> dk_company_id (jr_chunk r) = mm_company_id m \<and>
        dk_department (jr_chunk r) = mm_department m)"

lemma source_matches_readable: "source_matches scope db m s \<Longrightarrow> source_readable scope db m s"
  using base_where_sound unfolding source_matches_def source_readable_def
  by (fastforce simp: authorized_base_iff source_of_chunk_def)

definition recallable :: "AuthorizationScope \<Rightarrow> docstore \<Rightarrow> rat \<Rightarrow> Memory \<Rightarrow> bool" where
  "recallable scope db now m \<longleftrightarrow>
     may_recall scope m \<and> mm_deleted_at m = None \<and> now < mm_expires_at m \<and>
     list_all (source_readable scope db m) (mm_sources m)"

lemma visible_recallable: "visible scope db now ss m \<Longrightarrow> recallable scope db now m"
  by (auto simp: visible_def recallable_def scope_clause_policy list_all_iff source_matches_readable)

lemma visible_memories_iff:
  "m \<in> set (visible_memories scope db now ss st) \<longleftrightarrow> m \<in> set (mb_memories st) \<and> visible scope db now ss m"
  by (auto simp: visible_memories_def)

lemma listed_visible:
  "m \<in> set (list_visible_memories db scope now cs ts ss limit st) \<Longrightarrow> m \<in> set (visible_memories scope db now ss st)"
  by (auto simp: list_visible_memories_def dest!: in_set_takeD)

lemma searched_visible:
  "m \<in> set (search_visible_memories tx db scope now query top_k ts st) \<Longrightarrow>
     m \<in> set (visible_memories scope db now [''ACTIVE''] st) \<and> mm_memory_type m \<in> set ts"
  by (auto simp: search_visible_memories_def dest!: in_set_takeD)

lemma sort_key_head: "sort_key f xs = x # ys \<Longrightarrow> x \<in> set xs"
  by (metis list.set_intros(1) set_sort)

lemma episode_visible:
  "most_recent_authorized_episode db scope now st = Some m \<Longrightarrow> m \<in> set (visible_memories scope db now [''ACTIVE''] st)"
  by (auto simp: most_recent_authorized_episode_def split: list.split_asm dest!: sort_key_head)

lemma got_visible:
  "get_visible_memory db scope now i st = Some m \<Longrightarrow> m \<in> set (visible_memories scope db now READABLE_STATUSES st) \<and> mm_id m = i"
  by (auto simp: get_visible_memory_def find_Some_iff)

lemma summary_visible:
  "m \<in> set (owned_conversation_summary db scope now c st) \<Longrightarrow> m \<in> set (visible_memories scope db now [''ACTIVE''] st)"
  by (simp add: owned_conversation_summary_def)

end
