(* ===== verification/Memory_Service.thy ===== *)
theory Memory_Service
  imports Memory_Store
begin

text \<open>
  The operations of \<^verbatim>\<open>app/memory/service.py\<close>, the candidate extractor of \<^verbatim>\<open>app/memory/extractor.py\<close> and the
  memory tools of \<^verbatim>\<open>app/mcp_gateway/adapters.py\<close>.  An operation returns its result and the memory tables after it;
  a failed one leaves them as they were, since its session is rolled back.  The clock, new identifiers, SHA-256 and
  the full-text search are the environment.
\<close>

subsection \<open>Environment and checks\<close>

datatype memory_exn = MemoryAPIError nat string | MemoryRaises

record memory_env =
  me_now :: rat
  me_new_id :: "nat \<Rightarrow> uuid"
  me_sha256 :: "string \<Rightarrow> string"
  me_search :: text_search
  me_uuid_text :: "uuid \<Rightarrow> string"
  me_semantic_expiry_days :: int
  me_episodic_expiry_days :: int

definition SUMMARY_EXPIRY_DAYS :: int where "SUMMARY_EXPIRY_DAYS = 30"
definition MAX_AUTOMATIC_CONTENT :: nat where "MAX_AUTOMATIC_CONTENT = 500"

definition days_from :: "rat \<Rightarrow> int \<Rightarrow> rat" where
  "days_from now days = now + 86400 * of_int days"

definition SENSITIVE :: re where
  "SENSITIVE = re_cats [Boundary, re_ors
     [re_lit ''password'', re_lit ''secret'',
      re_cats [re_lit ''api'', re_opt (Cls (\<lambda>c. c = CHR ''_'' \<or> c = CHR '' '' \<or> c = CHR ''-'')), re_lit ''key''],
      re_lit ''social security'', re_lit ''ssn'', re_lit ''medical'', re_lit ''diagnosis'', re_lit ''credit card''], Boundary]"

definition forbidden :: memory_exn where
  "forbidden = MemoryAPIError 403 ''forbidden''"

definition not_found :: memory_exn where
  "not_found = MemoryAPIError 404 ''not_found''"

text \<open>The positions of a company in the query grants; an index past the slugs is an \<^verbatim>\<open>IndexError\<close>.\<close>

definition company_matches :: "AuthorizationScope \<Rightarrow> uuid \<Rightarrow> (AuthorizationGrant \<times> nat) list" where
  "company_matches scope company_id =
     [(g, k). g \<leftarrow> filter (\<lambda>g. QUERY_DOCUMENTS \<in> set (capabilities g)) (grants scope),
              k \<leftarrow> filter (\<lambda>k. company_ids g ! k = company_id) [0..<length (company_ids g)]]"

definition authorized_company :: "AuthorizationContext \<Rightarrow> uuid \<Rightarrow> (memory_exn, uuid \<times> string \<times> string) result" where
  "authorized_company cx company_id =
     (let ms = company_matches (ctx_scope cx) company_id in
      if list_ex (\<lambda>(g, k). length (company_slugs g) \<le> k) ms then Inl MemoryRaises
      else if ms = [] \<or> length (remdups (map (\<lambda>(g, k). workspace_id g) ms)) \<noteq> 1 then Inl forbidden
      else case hd ms of (g, k) \<Rightarrow> Inr (workspace_id g, workspace_name g, company_slugs g ! k))"

definition audit_memory :: "AuthorizationContext \<Rightarrow> Memory \<Rightarrow> string \<Rightarrow> string \<Rightarrow> memstore \<Rightarrow> memstore" where
  "audit_memory cx m action code st = st\<lparr>mb_events := mb_events st @
     [\<lparr>mv_memory_id = mm_id m, mv_tenant_id = mm_tenant_id m, mv_actor_user_id = identity_user_id (ctx_identity cx),
       mv_action = action, mv_reason_code = code\<rparr>]\<rparr>"

subsection \<open>What the caller is shown\<close>

record MemorySourceData =
  mo_chunk_id :: uuid
  mo_document_id :: uuid
  mo_document_version_id :: uuid
  mo_document_name :: string

record MemoryData =
  md_id :: uuid
  md_company_id :: uuid
  md_scope :: string
  md_memory_type :: string
  md_origin :: string
  md_status :: string
  md_owner_user_id :: "uuid option"
  md_department :: string
  md_visibility :: string
  md_classification :: string
  md_content :: string
  md_normalized_key :: "string option"
  md_reason :: string
  md_confidence :: rat
  md_importance :: rat
  md_owner_display :: string
  md_tenant_display :: string
  md_company_display :: string
  md_source_conversation :: "string option"
  md_expires_at :: rat
  md_created_at :: rat
  md_can_delete :: bool
  md_can_confirm :: bool
  md_sources :: "MemorySourceData list"

text \<open>\<^verbatim>\<open>source.document_version.original_filename\<close>; the foreign key guarantees the version.\<close>

definition source_data :: "docstore \<Rightarrow> MemorySource \<Rightarrow> MemorySourceData" where
  "source_data db s =
     \<lparr>mo_chunk_id = ms_chunk_id s, mo_document_id = ms_document_id s, mo_document_version_id = ms_document_version_id s,
      mo_document_name = (case List.find (\<lambda>v. dv_id v = ms_document_version_id s) (ds_versions db) of
         Some v \<Rightarrow> dv_original_filename v | None \<Rightarrow> [])\<rparr>"

text \<open>The literal fields of the model are the constraints of the row.\<close>

definition memory_data :: "docstore \<Rightarrow> memstore \<Rightarrow> AuthorizationContext \<Rightarrow> Memory \<Rightarrow> (memory_exn, MemoryData) result" where
  "memory_data db st cx m =
     bindR (authorized_company cx (mm_company_id m)) (\<lambda>(_, tenant_name, company_slug).
       let user = identity_user_id (ctx_identity cx); own = (mm_created_by_user_id m = user) in
       Inr \<lparr>md_id = mm_id m, md_company_id = mm_company_id m, md_scope = mm_scope m, md_memory_type = mm_memory_type m,
            md_origin = mm_origin m, md_status = mm_status m, md_owner_user_id = mm_owner_user_id m,
            md_department = mm_department m, md_visibility = mm_visibility m, md_classification = mm_classification m,
            md_content = mm_content m, md_normalized_key = mm_normalized_key m, md_reason = mm_reason m,
            md_confidence = mm_confidence m, md_importance = mm_importance m,
            md_owner_display = (if own then identity_display_name (ctx_identity cx) else ''Authorized workspace member''),
            md_tenant_display = tenant_name, md_company_display = company_slug,
            md_source_conversation = (case mm_conversation_id m of None \<Rightarrow> None | Some c \<Rightarrow> map_of (mb_titles st) c),
            md_expires_at = mm_expires_at m, md_created_at = mm_created_at m, md_can_delete = own,
            md_can_confirm = (own \<and> mm_owner_user_id m = Some user \<and> mm_status m = ''PENDING_CONFIRMATION''),
            md_sources = map (source_data db) (mm_sources m)\<rparr>)"

subsection \<open>New rows\<close>

definition base_private_memory ::
  "memory_env \<Rightarrow> AuthorizationContext \<Rightarrow> uuid \<Rightarrow> uuid \<Rightarrow> uuid \<Rightarrow> string \<Rightarrow> string \<Rightarrow> string \<Rightarrow> string \<Rightarrow> int \<Rightarrow> string \<Rightarrow>
   string option \<Rightarrow> rat \<Rightarrow> rat \<Rightarrow> uuid option \<Rightarrow> uuid option \<Rightarrow> uuid option \<Rightarrow> Memory" where
  "base_private_memory env cx i tenant_id company_id content memory_type origin status expires_in_days reason
     normalized_key confidence importance conversation_id source_message_id agent_run_id =
     \<lparr>mm_id = i, mm_tenant_id = tenant_id, mm_company_id = company_id, mm_scope = ''PRIVATE_USER'',
      mm_owner_user_id = Some (identity_user_id (ctx_identity cx)),
      mm_created_by_user_id = identity_user_id (ctx_identity cx), mm_memory_type = memory_type, mm_origin = origin,
      mm_status = status, mm_conversation_id = conversation_id, mm_agent_run_id = agent_run_id,
      mm_source_message_id = source_message_id, mm_department = ''shared'', mm_visibility = ''TENANT_SHARED'',
      mm_classification = ''TENANT_SHARED'', mm_content = content, mm_content_hash = me_sha256 env content,
      mm_normalized_key = normalized_key, mm_reason = reason, mm_confidence = confidence, mm_importance = importance,
      mm_superseded_by_id = None, mm_last_accessed_at = None, mm_expires_at = days_from (me_now env) expires_in_days,
      mm_deleted_at = None, mm_created_at = me_now env, mm_sources = []\<rparr>"

text \<open>Adding a row and flushing: a violated constraint raises.\<close>

definition add_memory :: "Memory \<Rightarrow> memstore \<Rightarrow> (memory_exn, memstore) result" where
  "add_memory m st =
     (if memory_row_ok m \<and> mm_id m \<notin> mm_id ` set (mb_memories st) then Inr (st\<lparr>mb_memories := mb_memories st @ [m]\<rparr>)
      else Inl MemoryRaises)"

definition put_memory :: "Memory \<Rightarrow> memstore \<Rightarrow> memstore" where
  "put_memory m st = st\<lparr>mb_memories := map (\<lambda>x. if mm_id x = mm_id m then m else x) (mb_memories st)\<rparr>"

definition chunk_acl :: "DocumentChunk \<Rightarrow> string \<times> string \<times> string" where
  "chunk_acl c = (dk_department c, dk_visibility c, dk_classification c)"

text \<open>The sources of a memory are all of the requested chunks, of one company.\<close>

definition authorized_sources :: "docstore \<Rightarrow> AuthorizationContext \<Rightarrow> uuid \<Rightarrow> uuid list \<Rightarrow> DocumentChunk list option" where
  "authorized_sources db cx company_id source_chunk_ids =
     (let sources = load_authorized_source_chunks db (ctx_scope cx) source_chunk_ids in
      if length sources \<noteq> length source_chunk_ids \<or> list_ex (\<lambda>c. dk_company_id c \<noteq> company_id) sources then None
      else Some sources)"

definition manual_memory ::
  "memory_env \<Rightarrow> AuthorizationContext \<Rightarrow> uuid \<Rightarrow> uuid \<Rightarrow> EffectiveMemoryACL \<Rightarrow> string \<Rightarrow> int \<Rightarrow> DocumentChunk list \<Rightarrow> Memory" where
  "manual_memory env cx tenant_id company_id acl content expires_in_days sources =
     (base_private_memory env cx (me_new_id env 0) tenant_id company_id content ''SEMANTIC'' ''EXPLICIT_USER'' ''ACTIVE''
        expires_in_days ''Manually saved by the user'' None 1 (1 / 2) None None None)
       \<lparr>mm_scope := ea_scope acl,
        mm_owner_user_id := (if ea_scope acl = ''PRIVATE_USER'' then Some (identity_user_id (ctx_identity cx)) else None),
        mm_department := ea_department acl, mm_visibility := ea_visibility acl, mm_classification := ea_classification acl,
        mm_sources := map source_of_chunk sources\<rparr>"

definition MEMORY_SCOPES :: "string list" where
  "MEMORY_SCOPES = [''PRIVATE_USER'', ''FINANCE'', ''LEGAL'', ''SHARED'']"

definition create_memory ::
  "memory_env \<Rightarrow> docstore \<Rightarrow> AuthorizationContext \<Rightarrow> string \<Rightarrow> uuid \<Rightarrow> string \<Rightarrow> uuid list \<Rightarrow> int \<Rightarrow> memstore \<Rightarrow>
   (memory_exn, MemoryData) result \<times> memstore" where
  "create_memory env db cx content company_id requested_scope source_chunk_ids expires_in_days st =
     (if \<not> can_query (ctx_scope cx) then (Inl forbidden, st)
      else case authorized_company cx company_id of
        Inl e \<Rightarrow> (Inl e, st)
      | Inr (tenant_id, _, _) \<Rightarrow>
        (case authorized_sources db cx company_id source_chunk_ids of
           None \<Rightarrow> (Inl not_found, st)
         | Some sources \<Rightarrow>
           (case (if requested_scope \<in> set MEMORY_SCOPES then derive_memory_acl requested_scope (map chunk_acl sources) else None) of
              None \<Rightarrow> (Inl (MemoryAPIError 422 ''invalid_memory_scope''), st)
            | Some acl \<Rightarrow>
              (let m = manual_memory env cx tenant_id company_id acl content expires_in_days sources in
               case add_memory m st of
                 Inl e \<Rightarrow> (Inl e, st)
               | Inr st1 \<Rightarrow>
                 let st2 = audit_memory cx m ''CREATE'' ''MANUAL_USER_CREATE'' st1 in (memory_data db st2 cx m, st2)))))"

subsection \<open>Reads\<close>

definition inspect_memories ::
  "memory_env \<Rightarrow> docstore \<Rightarrow> AuthorizationContext \<Rightarrow> string option \<Rightarrow> string option \<Rightarrow> memstore \<Rightarrow> (memory_exn, MemoryData list) result" where
  "inspect_memories env db cx memory_type status st =
     (if \<not> can_query (ctx_scope cx) then Inl forbidden
      else mapR (memory_data db st cx)
        (list_visible_memories db (ctx_scope cx) (me_now env) None
          (case memory_type of None \<Rightarrow> None | Some t \<Rightarrow> if t = [] then None else Some [t])
          (case status of None \<Rightarrow> READABLE_STATUSES | Some s \<Rightarrow> if s = [] then READABLE_STATUSES else [s]) 100 st))"

definition search_memories ::
  "memory_env \<Rightarrow> docstore \<Rightarrow> AuthorizationContext \<Rightarrow> string \<Rightarrow> nat \<Rightarrow> memstore \<Rightarrow> (memory_exn, MemoryData list) result" where
  "search_memories env db cx query top_k st =
     (if \<not> can_query (ctx_scope cx) then Inl forbidden
      else mapR (memory_data db st cx)
        (search_visible_memories (me_search env) db (ctx_scope cx) (me_now env) query top_k [''SEMANTIC'', ''EPISODIC''] st))"

definition touch :: "rat \<Rightarrow> Memory \<Rightarrow> Memory" where
  "touch now m = m\<lparr>mm_last_accessed_at := Some now\<rparr>"

definition touch_all :: "rat \<Rightarrow> Memory list \<Rightarrow> memstore \<Rightarrow> memstore" where
  "touch_all now rows st = fold (\<lambda>m. put_memory (touch now m)) rows st"

definition retrieve_relevant ::
  "memory_env \<Rightarrow> docstore \<Rightarrow> AuthorizationContext \<Rightarrow> string \<Rightarrow> nat \<Rightarrow> nat \<Rightarrow> memstore \<Rightarrow> (memory_exn, Memory list) result \<times> memstore" where
  "retrieve_relevant env db cx query semantic_limit episodic_limit st =
     (if \<not> can_query (ctx_scope cx) then (Inl forbidden, st)
      else let semantic = relevant_semantic_preferences (me_search env) db (ctx_scope cx) (me_now env) query semantic_limit st;
               episodic = relevant_authorized_episodes (me_search env) db (ctx_scope cx) (me_now env) query episodic_limit st;
               rows = map snd (dict_of (map (\<lambda>m. (mm_id m, m)) (semantic @ episodic))) in
        (Inr (map (touch (me_now env)) rows), touch_all (me_now env) rows st))"

definition find_latest_episode ::
  "memory_env \<Rightarrow> docstore \<Rightarrow> AuthorizationContext \<Rightarrow> memstore \<Rightarrow> (memory_exn, Memory option) result \<times> memstore" where
  "find_latest_episode env db cx st =
     (if \<not> can_query (ctx_scope cx) then (Inl forbidden, st)
      else case most_recent_authorized_episode db (ctx_scope cx) (me_now env) st of
        None \<Rightarrow> (Inr None, st)
      | Some m \<Rightarrow> (Inr (Some (touch (me_now env) m)), touch_all (me_now env) [m] st))"

definition relevant_episodes ::
  "memory_env \<Rightarrow> docstore \<Rightarrow> AuthorizationContext \<Rightarrow> string \<Rightarrow> nat \<Rightarrow> memstore \<Rightarrow> (memory_exn, Memory list) result \<times> memstore" where
  "relevant_episodes env db cx query limit st =
     (if \<not> can_query (ctx_scope cx) then (Inl forbidden, st)
      else let rows = relevant_authorized_episodes (me_search env) db (ctx_scope cx) (me_now env) query limit st in
        (Inr (map (touch (me_now env)) rows), touch_all (me_now env) rows st))"

definition get_conversation_summary ::
  "memory_env \<Rightarrow> docstore \<Rightarrow> AuthorizationContext \<Rightarrow> uuid \<Rightarrow> memstore \<Rightarrow> (memory_exn, string option) result" where
  "get_conversation_summary env db cx conversation_id st =
     (case owned_conversation_summary db (ctx_scope cx) (me_now env) conversation_id st of
        [] \<Rightarrow> Inr None | [m] \<Rightarrow> Inr (Some (mm_content m)) | _ \<Rightarrow> Inl MemoryRaises)"

subsection \<open>Semantic candidates\<close>

text \<open>Text in upper case, on the letters a to z: no other letter becomes one of \<^verbatim>\<open>LOW\<close> or \<^verbatim>\<open>NONE\<close>.\<close>

definition ascii_upper :: "string \<Rightarrow> string" where
  "ascii_upper s = map (\<lambda>c. let n = (of_char c :: nat) in if 97 \<le> n \<and> n \<le> 122 then char_of (n - 32) else c) s"

definition candidate_skipped :: "MemoryCandidate \<Rightarrow> string \<Rightarrow> bool" where
  "candidate_skipped c content \<longleftrightarrow>
     mc_memory_type c \<noteq> ''SEMANTIC'' \<or> mc_action c \<notin> {''ADD'', ''SUPERSEDE''} \<or> \<not> memory_key_ok (mc_normalized_key c) \<or>
     content = [] \<or> length content > MAX_AUTOMATIC_CONTENT \<or> ascii_upper (mc_sensitivity c) \<notin> {''LOW'', ''NONE''} \<or>
     re_search SENSITIVE content"

definition same_preference :: "AuthorizationContext \<Rightarrow> uuid \<Rightarrow> uuid \<Rightarrow> string \<Rightarrow> Memory \<Rightarrow> bool" where
  "same_preference cx tenant_id company_id key m \<longleftrightarrow>
     mm_tenant_id m = tenant_id \<and> mm_company_id m = company_id \<and>
     mm_owner_user_id m = Some (identity_user_id (ctx_identity cx)) \<and> mm_scope m = ''PRIVATE_USER'' \<and>
     mm_memory_type m = ''SEMANTIC'' \<and> mm_normalized_key m = Some key \<and> mm_status m = ''ACTIVE'' \<and> mm_deleted_at m = None"

definition existing_preference :: "AuthorizationContext \<Rightarrow> uuid \<Rightarrow> uuid \<Rightarrow> string \<Rightarrow> memstore \<Rightarrow> Memory option" where
  "existing_preference cx tenant_id company_id key st =
     (case sort_key (\<lambda>m. - mm_created_at m) (filter (same_preference cx tenant_id company_id key) (mb_memories st)) of
        [] \<Rightarrow> None | m # _ \<Rightarrow> Some m)"

definition REMEMBERED :: string where "REMEMBERED = ''Private preference remembered''"
definition AWAITING :: string where "AWAITING = ''Preference awaiting confirmation''"

definition refresh_preference :: "memory_env \<Rightarrow> AuthorizationContext \<Rightarrow> Memory \<Rightarrow> memstore \<Rightarrow> memstore" where
  "refresh_preference env cx m st =
     audit_memory cx m ''REFRESH'' ''EXPLICIT_RECONFIRMATION''
       (put_memory (m\<lparr>mm_expires_at := days_from (me_now env) (me_semantic_expiry_days env),
                      mm_last_accessed_at := Some (me_now env)\<rparr>) st)"

definition supersede :: "AuthorizationContext \<Rightarrow> Memory option \<Rightarrow> uuid \<Rightarrow> memstore \<Rightarrow> memstore" where
  "supersede cx existing successor st =
     (case existing of None \<Rightarrow> st
      | Some m \<Rightarrow> audit_memory cx m ''SUPERSEDE'' ''PREFERENCE_CHANGED''
          (put_memory (m\<lparr>mm_status := ''SUPERSEDED'', mm_superseded_by_id := Some successor\<rparr>) st))"

definition candidate_memory ::
  "memory_env \<Rightarrow> AuthorizationContext \<Rightarrow> uuid \<Rightarrow> uuid \<Rightarrow> uuid \<Rightarrow> uuid \<Rightarrow> nat \<Rightarrow> string \<Rightarrow> MemoryCandidate \<Rightarrow> Memory" where
  "candidate_memory env cx tenant_id company_id conversation_id source_message_id k content c =
     base_private_memory env cx (me_new_id env k) tenant_id company_id content ''SEMANTIC''
       (if mc_explicit c then ''EXPLICIT_USER'' else ''AUTOMATIC_EXTRACTOR'')
       (if mc_explicit c then ''ACTIVE'' else ''PENDING_CONFIRMATION'')
       (me_semantic_expiry_days env) (take 240 (mc_reason c)) (Some (mc_normalized_key c)) (mc_confidence c)
       (mc_importance c) (Some conversation_id) (Some source_message_id) None"

definition apply_candidate ::
  "memory_env \<Rightarrow> AuthorizationContext \<Rightarrow> uuid \<Rightarrow> uuid \<Rightarrow> uuid \<Rightarrow> uuid \<Rightarrow> nat \<Rightarrow> MemoryCandidate \<Rightarrow> memstore \<Rightarrow>
   (memory_exn, memstore \<times> string list) result" where
  "apply_candidate env cx tenant_id company_id conversation_id source_message_id k c st =
     (let content = normalize_ws (mc_content c) in
      if candidate_skipped c content then Inr (st, [])
      else let existing = existing_preference cx tenant_id company_id (mc_normalized_key c) st in
        case existing of
          Some m \<Rightarrow>
            if mm_content_hash m = me_sha256 env content
            then (if mc_explicit c then Inr (refresh_preference env cx m st, [REMEMBERED]) else Inr (st, []))
            else (let new = candidate_memory env cx tenant_id company_id conversation_id source_message_id k content c in
              bindR (add_memory new st) (\<lambda>st.
                Inr (supersede cx existing (mm_id new) (audit_memory cx new ''CREATE'' ''AUTOMATIC_CANDIDATE_ACCEPTED'' st),
                     [if mc_explicit c then REMEMBERED else AWAITING])))
        | None \<Rightarrow>
            (let new = candidate_memory env cx tenant_id company_id conversation_id source_message_id k content c in
             bindR (add_memory new st) (\<lambda>st.
               Inr (audit_memory cx new ''CREATE'' ''AUTOMATIC_CANDIDATE_ACCEPTED'' st,
                    [if mc_explicit c then REMEMBERED else AWAITING]))))"

fun apply_candidates ::
  "memory_env \<Rightarrow> AuthorizationContext \<Rightarrow> uuid \<Rightarrow> uuid \<Rightarrow> uuid \<Rightarrow> uuid \<Rightarrow> nat \<Rightarrow> MemoryCandidate list \<Rightarrow> memstore \<Rightarrow>
   (memory_exn, memstore \<times> string list) result" where
  "apply_candidates env cx t co conv msg k [] st = Inr (st, [])"
| "apply_candidates env cx t co conv msg k (c # cs) st =
     bindR (apply_candidate env cx t co conv msg k c st) (\<lambda>(st, notes).
     bindR (apply_candidates env cx t co conv msg (Suc k) cs st) (\<lambda>(st, more). Inr (st, notes @ more)))"

definition apply_semantic_candidates ::
  "memory_env \<Rightarrow> AuthorizationContext \<Rightarrow> MemoryCandidate list \<Rightarrow> uuid \<Rightarrow> uuid \<Rightarrow> uuid \<Rightarrow> memstore \<Rightarrow>
   (memory_exn, string list) result \<times> memstore" where
  "apply_semantic_candidates env cx candidates company_id conversation_id source_message_id st =
     (if \<not> can_query (ctx_scope cx) then (Inl forbidden, st)
      else case authorized_company cx company_id of
        Inl e \<Rightarrow> (Inl e, st)
      | Inr (tenant_id, _, _) \<Rightarrow>
        (case apply_candidates env cx tenant_id company_id conversation_id source_message_id 0 (take 3 candidates) st of
           Inl e \<Rightarrow> (Inl e, st)
         | Inr (st', notes) \<Rightarrow> (Inr (fromkeys notes), st')))"

subsection \<open>Episodes and summaries\<close>

definition episode_content :: "string \<Rightarrow> string \<Rightarrow> string" where
  "episode_content question outcome = take 500 (''Goal: '' @ take 180 question @ '' Outcome: '' @ take 220 outcome)"

definition episode_memory ::
  "memory_env \<Rightarrow> AuthorizationContext \<Rightarrow> uuid \<Rightarrow> uuid \<Rightarrow> uuid \<Rightarrow> uuid \<Rightarrow> uuid option \<Rightarrow> string \<Rightarrow> string \<times> string \<times> string \<Rightarrow>
   DocumentChunk list \<Rightarrow> Memory" where
  "episode_memory env cx tenant_id company_id conversation_id source_message_id agent_run_id content acl sources =
     (base_private_memory env cx (me_new_id env 0) tenant_id company_id content ''EPISODIC'' ''AUTOMATIC_EXTRACTOR'' ''ACTIVE''
        (me_episodic_expiry_days env) ''Useful completed grounded chat with authorized document sources'' None (9 / 10) (7 / 10)
        (Some conversation_id) (Some source_message_id) agent_run_id)
       \<lparr>mm_department := fst acl, mm_visibility := fst (snd acl), mm_classification := snd (snd acl),
        mm_sources := map source_of_chunk sources\<rparr>"

definition create_episode ::
  "memory_env \<Rightarrow> docstore \<Rightarrow> AuthorizationContext \<Rightarrow> uuid \<Rightarrow> uuid \<Rightarrow> uuid \<Rightarrow> string \<Rightarrow> string \<Rightarrow> uuid list \<Rightarrow> uuid option \<Rightarrow> memstore \<Rightarrow>
   (memory_exn, unit) result \<times> memstore" where
  "create_episode env db cx company_id conversation_id source_message_id question outcome source_chunk_ids agent_run_id st =
     (if source_chunk_ids = [] \<or> length question < 12 then (Inr (), st)
      else case authorized_company cx company_id of
        Inl e \<Rightarrow> (Inl e, st)
      | Inr (tenant_id, _, _) \<Rightarrow>
        (case authorized_sources db cx company_id source_chunk_ids of
           None \<Rightarrow> (Inr (), st)
         | Some sources \<Rightarrow>
           (case remdups (map chunk_acl sources) of
              [acl] \<Rightarrow>
                (let m = episode_memory env cx tenant_id company_id conversation_id source_message_id agent_run_id
                       (episode_content question outcome) acl sources in
                 case add_memory m st of
                   Inl e \<Rightarrow> (Inl e, st)
                 | Inr st1 \<Rightarrow> (Inr (), audit_memory cx m ''CREATE'' ''GROUNDED_EPISODE_CREATED'' st1))
            | _ \<Rightarrow> (Inr (), st))))"

definition active_summaries :: "AuthorizationContext \<Rightarrow> uuid \<Rightarrow> uuid \<Rightarrow> memstore \<Rightarrow> Memory list" where
  "active_summaries cx tenant_id conversation_id st =
     filter (\<lambda>m. mm_tenant_id m = tenant_id \<and> mm_owner_user_id m = Some (identity_user_id (ctx_identity cx)) \<and>
                 mm_conversation_id m = Some conversation_id \<and> mm_memory_type m = ''CONVERSATION_SUMMARY'' \<and>
                 mm_status m = ''ACTIVE'') (mb_memories st)"

definition summary_memory ::
  "memory_env \<Rightarrow> AuthorizationContext \<Rightarrow> uuid \<Rightarrow> uuid \<Rightarrow> uuid \<Rightarrow> string \<Rightarrow> Memory" where
  "summary_memory env cx tenant_id company_id conversation_id content =
     base_private_memory env cx (me_new_id env 0) tenant_id company_id content ''CONVERSATION_SUMMARY'' ''SYSTEM_SUMMARY''
       ''ACTIVE'' SUMMARY_EXPIRY_DAYS ''Rolling bounded conversation summary''
       (Some (''conversation_summary_'' @ me_uuid_text env conversation_id)) 1 (1 / 2) (Some conversation_id) None None"

text \<open>A changed row is checked again when the session flushes.\<close>

definition upsert_conversation_summary ::
  "memory_env \<Rightarrow> AuthorizationContext \<Rightarrow> uuid \<Rightarrow> uuid \<Rightarrow> string \<Rightarrow> memstore \<Rightarrow> (memory_exn, unit) result \<times> memstore" where
  "upsert_conversation_summary env cx company_id conversation_id new_summary st =
     (case authorized_company cx company_id of
        Inl e \<Rightarrow> (Inl e, st)
      | Inr (tenant_id, _, _) \<Rightarrow>
        (let content = take 1000 (normalize_ws new_summary) in
         case active_summaries cx tenant_id conversation_id st of
           [] \<Rightarrow>
             (let m = summary_memory env cx tenant_id company_id conversation_id content in
              case add_memory m st of
                Inl e \<Rightarrow> (Inl e, st)
              | Inr st1 \<Rightarrow> (Inr (), audit_memory cx m ''CREATE'' ''SUMMARY_CREATED'' st1))
         | [m] \<Rightarrow>
             (let m1 = m\<lparr>mm_content := content, mm_content_hash := me_sha256 env content,
                         mm_expires_at := days_from (me_now env) SUMMARY_EXPIRY_DAYS\<rparr> in
              if memory_row_ok m1 then (Inr (), put_memory m1 st) else (Inl MemoryRaises, st))
         | _ \<Rightarrow> (Inl MemoryRaises, st)))"

subsection \<open>Decisions of the owner\<close>

definition own_pending :: "memory_env \<Rightarrow> docstore \<Rightarrow> AuthorizationContext \<Rightarrow> uuid \<Rightarrow> memstore \<Rightarrow> Memory option" where
  "own_pending env db cx memory_id st =
     (case get_visible_memory db (ctx_scope cx) (me_now env) memory_id st of
        None \<Rightarrow> None
      | Some m \<Rightarrow> if mm_owner_user_id m \<noteq> Some (identity_user_id (ctx_identity cx)) \<or> mm_status m \<noteq> ''PENDING_CONFIRMATION''
          then None else Some m)"

definition confirm_memory ::
  "memory_env \<Rightarrow> docstore \<Rightarrow> AuthorizationContext \<Rightarrow> uuid \<Rightarrow> memstore \<Rightarrow> (memory_exn, MemoryData) result \<times> memstore" where
  "confirm_memory env db cx memory_id st =
     (case own_pending env db cx memory_id st of
        None \<Rightarrow> (Inl not_found, st)
      | Some m \<Rightarrow>
        (let m1 = m\<lparr>mm_status := ''ACTIVE'', mm_expires_at := days_from (me_now env) (me_semantic_expiry_days env)\<rparr>;
             st1 = audit_memory cx m1 ''CONFIRM'' ''USER_CONFIRMED'' (put_memory m1 st) in
         (memory_data db st1 cx m1, st1)))"

definition forgotten :: "memory_env \<Rightarrow> Memory \<Rightarrow> Memory" where
  "forgotten env m = m\<lparr>mm_status := ''DELETED'', mm_deleted_at := Some (me_now env)\<rparr>"

definition dismiss_memory ::
  "memory_env \<Rightarrow> docstore \<Rightarrow> AuthorizationContext \<Rightarrow> uuid \<Rightarrow> memstore \<Rightarrow> (memory_exn, uuid) result \<times> memstore" where
  "dismiss_memory env db cx memory_id st =
     (case own_pending env db cx memory_id st of
        None \<Rightarrow> (Inl not_found, st)
      | Some m \<Rightarrow>
        (Inr memory_id, audit_memory cx m ''DISMISS'' ''USER_DISMISSED'' (put_memory (forgotten env m) st)))"

definition delete_memory ::
  "memory_env \<Rightarrow> docstore \<Rightarrow> AuthorizationContext \<Rightarrow> uuid \<Rightarrow> memstore \<Rightarrow> (memory_exn, uuid) result \<times> memstore" where
  "delete_memory env db cx memory_id st =
     (if \<not> can_query (ctx_scope cx) then (Inl forbidden, st)
      else case get_visible_memory db (ctx_scope cx) (me_now env) memory_id st of
        None \<Rightarrow> (Inl not_found, st)
      | Some m \<Rightarrow>
        if mm_created_by_user_id m \<noteq> identity_user_id (ctx_identity cx) then (Inl not_found, st)
        else (Inr memory_id, audit_memory cx m ''DELETE'' ''USER_DELETE'' (put_memory (forgotten env m) st)))"

subsection \<open>The memory tools\<close>

definition memory_tool_item :: "Memory \<Rightarrow> MemoryToolItem" where
  "memory_tool_item m = \<lparr>mi_memory_id = mm_id m, mi_memory_type = mm_memory_type m, mi_scope = mm_scope m,
     mi_summary = take 500 (mm_content m), mi_source_count = int (length (mm_sources m))\<rparr>"

text \<open>The rows one call of the search tool reads.\<close>

definition memory_rows ::
  "memory_env \<Rightarrow> docstore \<Rightarrow> AuthorizationContext \<Rightarrow> string \<Rightarrow> MemoryMode \<Rightarrow> nat \<Rightarrow> memstore \<Rightarrow>
   (memory_exn, Memory list) result \<times> memstore" where
  "memory_rows env db cx query mode top_k st =
     (case mode of
        latest_episode \<Rightarrow>
          (case find_latest_episode env db cx st of
             (Inl e, st) \<Rightarrow> (Inl e, st)
           | (Inr None, st) \<Rightarrow> (Inr [], st)
           | (Inr (Some m), st) \<Rightarrow> (Inr [m], st))
      | relevant \<Rightarrow>
          (case retrieve_relevant env db cx query top_k top_k st of
             (Inl e, st) \<Rightarrow> (Inl e, st)
           | (Inr rows, st) \<Rightarrow> (Inr (take top_k rows), st)))"

text \<open>Building the payload checks every item; a \<^verbatim>\<open>ValidationError\<close> escapes from the adapter.\<close>

definition memory_payload :: "Memory list \<Rightarrow> InvokeOutcome" where
  "memory_payload rows =
     (let items = map memory_tool_item rows in
      if list_all memory_item_ok items \<and> length items \<le> 5 then Returned (RawData (MemorySearchPayload items))
      else RaisedOther)"

type_synonym 'x memory_world = "docstore \<times> memstore \<times> 'x"

definition search_memory_adapter_invoke ::
  "memory_env \<Rightarrow> ActionArguments \<Rightarrow> AuthorizationScope \<Rightarrow> string \<Rightarrow> 'x memory_world \<Rightarrow> InvokeOutcome \<times> 'x memory_world" where
  "search_memory_adapter_invoke env args scope request_id w =
     (case args of
        SearchMemoryInput query mode top_k \<Rightarrow>
          if \<not> can_query scope then (RaisedAuthorization, w)
          else (case w of (db, st, x) \<Rightarrow>
            (case memory_rows env db \<lparr>ctx_identity = scope_identity scope, ctx_scope = scope\<rparr> query mode (nat top_k) st of
               (Inl e, st) \<Rightarrow> (RaisedOther, db, st, x)
             | (Inr rows, st) \<Rightarrow> (memory_payload rows, db, st, x)))
      | _ \<Rightarrow> (RaisedOther, w))"

definition propose_memory_adapter_invoke ::
  "ActionArguments \<Rightarrow> AuthorizationScope \<Rightarrow> string \<Rightarrow> 'w \<Rightarrow> InvokeOutcome \<times> 'w" where
  "propose_memory_adapter_invoke args scope request_id w =
     (case args of
        ProposeMemoryInput c k e \<Rightarrow>
          if \<not> can_query scope then (RaisedAuthorization, w) else (Returned (RawData MemoryProposalPayload), w)
      | _ \<Rightarrow> (RaisedOther, w))"

definition SearchMemoryAdapter :: "memory_env \<Rightarrow> 'x memory_world ApprovedToolAdapter" where
  "SearchMemoryAdapter env =
     \<lparr>ad_name = Some SEARCH_MEMORY, ad_input_model = SearchMemory_model,
      ad_output_model = Gateway_output Memory_search_payload, ad_required_capability = QUERY_DOCUMENTS,
      ad_invoke = search_memory_adapter_invoke env\<rparr>"

definition ProposeMemoryAdapter :: "'w ApprovedToolAdapter" where
  "ProposeMemoryAdapter =
     \<lparr>ad_name = Some PROPOSE_MEMORY, ad_input_model = ProposeMemory_model,
      ad_output_model = Gateway_output Memory_proposal_payload, ad_required_capability = QUERY_DOCUMENTS,
      ad_invoke = propose_memory_adapter_invoke\<rparr>"

subsection \<open>The deterministic extractor and summarizer\<close>

record MemoryExtractionRequest =
  xr_user_text :: string
  xr_assistant_text :: string
  xr_conversation_id :: uuid
  xr_source_message_id :: uuid

definition TEMPORARY :: re where
  "TEMPORARY = re_cats [Boundary, re_lits [''today'', ''this time'', ''for now'', ''temporarily'', ''just this once''], Boundary]"

definition blank_lit :: "string \<Rightarrow> string \<Rightarrow> re" where
  "blank_lit a b = re_cats [re_lit a, re_blanks, re_lit b]"

definition FINANCIAL_FORMAT :: re where
  "FINANCIAL_FORMAT = re_cats
     [re_opt (re_cats [re_lit ''remember'', re_opt (Cat re_blanks (re_lit ''that'')), re_blanks]),
      re_ors [blank_lit ''i'' ''prefer'', re_cats [re_lit ''always'', re_blanks, re_lits [''use'', ''present'']],
        re_cats [re_lit ''from'', re_blanks, re_lit ''now'', re_blanks, re_lit ''on'', re_blanks, re_lit ''use'']],
      re_opt (Cat re_blanks (re_ors [blank_lit ''financial'' ''values'', blank_lit ''all'' ''amounts'', re_lit ''amounts'',
        re_lit ''values''])),
      re_blanks, re_opt (re_lits [''in'', ''as'']), Many (Cls is_space),
      Group (re_ors [re_cats [re_lit ''inr'', re_blanks, re_lit ''crore'', re_opt (re_lit ''s'')],
        re_cats [re_lit ''usd'', re_blanks, re_lit ''million'', re_opt (re_lit ''s'')]])]"

definition INFERRED_CONCISE :: re where
  "INFERRED_CONCISE = re_cats
     [Boundary, re_ors [re_cats [re_lit ''i'', re_blanks, re_opt (re_cats [re_lit ''tend'', re_blanks, re_lit ''to'', re_blanks]),
        re_lit ''like''], re_lit ''maybe''], re_blanks, blank_lit ''concise'' ''tables'', Boundary]"

definition format_candidate :: "string \<Rightarrow> MemoryCandidate" where
  "format_candidate unit =
     \<lparr>mc_memory_type = ''SEMANTIC'', mc_action = ''ADD'', mc_content = ''Present financial values in '' @ unit @ ''.'',
      mc_normalized_key = ''financial_value_format'', mc_confidence = 1, mc_importance = 9 / 10, mc_sensitivity = ''LOW'',
      mc_reason = ''Explicit stable financial presentation preference'', mc_explicit = True\<rparr>"

definition concise_candidate :: MemoryCandidate where
  "concise_candidate =
     \<lparr>mc_memory_type = ''SEMANTIC'', mc_action = ''ADD'', mc_content = ''Use concise tables.'',
      mc_normalized_key = ''response_style_concise_tables'', mc_confidence = 7 / 10, mc_importance = 1 / 2,
      mc_sensitivity = ''LOW'', mc_reason = ''Inferred presentation preference requiring confirmation'', mc_explicit = False\<rparr>"

definition never_extracted :: "string \<Rightarrow> bool" where
  "never_extracted txt = (re_search SENSITIVE txt \<or> re_search TEMPORARY txt)"

definition deterministic_extract :: "MemoryExtractionRequest \<Rightarrow> MemoryCandidate list" where
  "deterministic_extract r =
     (let txt = strip (xr_user_text r) in
      if never_extracted txt then []
      else case search_from txt FINANCIAL_FORMAT 0 of
        Some (_, _, Some (a, b)) \<Rightarrow>
          [format_candidate (if take 3 (casefold (re_slice txt a b)) = ''inr'' then ''INR crores'' else ''USD millions'')]
      | _ \<Rightarrow> if re_search INFERRED_CONCISE txt then [concise_candidate] else [])"

text \<open>The semantic extractor is asked only when the text may leave the host and nothing was found in it.\<close>

definition deterministic_first_extract ::
  "(MemoryExtractionRequest \<Rightarrow> 'v \<Rightarrow> MemoryCandidate list awaited \<times> 'v) \<Rightarrow> MemoryExtractionRequest \<Rightarrow> 'v \<Rightarrow>
   MemoryCandidate list awaited \<times> 'v" where
  "deterministic_first_extract semantic r v =
     (if never_extracted (xr_user_text r) then (Done [], v)
      else let candidates = deterministic_extract r in
        if candidates \<noteq> [] then (Done candidates, v) else semantic r v)"

definition summary_line :: "string \<times> string \<Rightarrow> string" where
  "summary_line x = (case x of (role, content) \<Rightarrow>
     (if role = ''user'' then ''User goal'' else ''Safe outcome'') @ '': '' @ take 180 (normalize_ws content))"

definition deterministic_summarize :: "(string \<times> string) list \<Rightarrow> string option \<Rightarrow> string" where
  "deterministic_summarize messages previous_summary =
     take 1000 (join '' ''
       ((case previous_summary of None \<Rightarrow> []
         | Some p \<Rightarrow> if p = [] then [] else [''Earlier context: '' @ take 300 (normalize_ws p)]) @
        map summary_line (drop (length messages - 6) messages)))"

end
