(* ===== verification/Memory_Life.thy ===== *)
theory Memory_Life
  imports Memory_Service
begin

text \<open>
  Histories of the memory tables: the invariant that every operation keeps, the finality of a forgotten memory, and
  what the reads and the memory tool can show.
\<close>

subsection \<open>The invariant\<close>

definition source_inherited :: "Memory \<Rightarrow> MemorySource \<Rightarrow> bool" where
  "source_inherited m s \<longleftrightarrow>
     ms_tenant_id s = mm_tenant_id m \<and> ms_company_id s = mm_company_id m \<and> ms_department s = mm_department m \<and>
     ms_visibility s = mm_visibility m \<and> ms_classification s = mm_classification m"

text \<open>A memory has exactly the restrictions of all its sources; one without sources is private; a private one belongs
  to its creator; the deletion time is the deleted status.\<close>

definition memory_ok :: "Memory \<Rightarrow> bool" where
  "memory_ok m \<longleftrightarrow>
     memory_row_ok m \<and> (mm_sources m = [] \<longrightarrow> mm_scope m = ''PRIVATE_USER'') \<and> list_all (source_inherited m) (mm_sources m) \<and>
     (mm_scope m = ''PRIVATE_USER'' \<longrightarrow> mm_owner_user_id m = Some (mm_created_by_user_id m)) \<and>
     (mm_status m = ''DELETED'') = (mm_deleted_at m \<noteq> None)"

definition created_event :: "Memory \<Rightarrow> MemoryAuditEvent \<Rightarrow> bool" where
  "created_event m e \<longleftrightarrow> mv_memory_id e = mm_id m \<and> mv_tenant_id e = mm_tenant_id m \<and>
     mv_actor_user_id e = mm_created_by_user_id m \<and> mv_action e = ''CREATE''"

definition memstore_ok :: "memstore \<Rightarrow> bool" where
  "memstore_ok st \<longleftrightarrow>
     distinct (map mm_id (mb_memories st)) \<and>
     (\<forall>m \<in> set (mb_memories st). memory_ok m \<and> list_ex (created_event m) (mb_events st))"

text \<open>A step keeps the invariant and every forgotten row.\<close>

definition memory_moves :: "memstore \<Rightarrow> memstore \<Rightarrow> bool" where
  "memory_moves st st' \<longleftrightarrow>
     (memstore_ok st \<longrightarrow> memstore_ok st' \<and>
        (\<forall>m \<in> set (mb_memories st). mm_deleted_at m \<noteq> None \<longrightarrow> m \<in> set (mb_memories st')))"

lemma memory_moves_refl [simp, intro]: "memory_moves st st"
  by (simp add: memory_moves_def)

lemma memory_moves_trans: "memory_moves a b \<Longrightarrow> memory_moves b c \<Longrightarrow> memory_moves a c"
  by (auto simp: memory_moves_def)

lemma audit_memory_tables [simp]:
  "mb_memories (audit_memory cx m action code st) = mb_memories st"
  "set (mb_events st) \<subseteq> set (mb_events (audit_memory cx m action code st))"
  by (auto simp: audit_memory_def)

lemma more_events_ok:
  "memstore_ok st \<Longrightarrow> mb_memories st' = mb_memories st \<Longrightarrow> set (mb_events st) \<subseteq> set (mb_events st') \<Longrightarrow> memstore_ok st'"
  unfolding memstore_ok_def list_ex_iff by (simp, blast)

lemma audit_moves: "memory_moves st (audit_memory cx m action code st)"
  unfolding memory_moves_def by (simp add: more_events_ok [OF _ audit_memory_tables])

lemma put_memory_row: "m \<in> set (mb_memories (put_memory m1 st)) \<Longrightarrow> m = m1 \<or> m \<in> set (mb_memories st)"
  by (auto simp: put_memory_def split: if_splits)

lemma put_memory_ids [simp]: "map mm_id (mb_memories (put_memory m st)) = map mm_id (mb_memories st)"
  by (simp add: put_memory_def)

lemma put_memory_events [simp]: "mb_events (put_memory m st) = mb_events st"
  by (simp add: put_memory_def)

text \<open>What an update of a row may not change.\<close>

definition same_memory :: "Memory \<Rightarrow> Memory \<Rightarrow> bool" where
  "same_memory m m1 \<longleftrightarrow> mm_id m1 = mm_id m \<and> mm_tenant_id m1 = mm_tenant_id m \<and>
     mm_created_by_user_id m1 = mm_created_by_user_id m"

lemma same_memory_refl [simp]: "same_memory m m"
  by (simp add: same_memory_def)

lemma created_event_same: "same_memory m m1 \<Longrightarrow> created_event m1 e = created_event m e"
  by (simp add: same_memory_def created_event_def)

lemma put_moves:
  assumes m: "m \<in> set (mb_memories st)" "mm_deleted_at m = None" and same: "same_memory m m1"
    and ok: "memory_ok m \<Longrightarrow> memory_ok m1"
  shows "memory_moves st (put_memory m1 st)"
  unfolding memory_moves_def
proof (intro impI conjI ballI)
  assume st: "memstore_ok st"
  show "memstore_ok (put_memory m1 st)" unfolding memstore_ok_def
  proof (intro conjI ballI)
    fix x assume "x \<in> set (mb_memories (put_memory m1 st))"
    with put_memory_row have "x = m1 \<or> x \<in> set (mb_memories st)" by blast
    then show "memory_ok x" "list_ex (created_event x) (mb_events (put_memory m1 st))"
      using st m(1) ok created_event_same [OF same] by (auto simp: memstore_ok_def list_ex_iff)
  qed (use st in \<open>simp add: memstore_ok_def\<close>)
  fix x assume x: "x \<in> set (mb_memories st)" "mm_deleted_at x \<noteq> None"
  with m have "mm_id x \<noteq> mm_id m" using st key_unique [of mm_id "mb_memories st" x m] by (auto simp: memstore_ok_def)
  with x same show "x \<in> set (mb_memories (put_memory m1 st))" by (force simp: put_memory_def same_memory_def)
qed

lemma add_moves:
  assumes "add_memory m st = Inr st1" and "memory_row_ok m \<Longrightarrow> memory_ok m"
    and "mm_created_by_user_id m = identity_user_id (ctx_identity cx)"
  shows "memory_moves st (audit_memory cx m ''CREATE'' code st1)"
proof -
  from assms(1) have ok: "memory_row_ok m" and fresh: "mm_id m \<notin> mm_id ` set (mb_memories st)"
    and st1: "st1 = st\<lparr>mb_memories := mb_memories st @ [m]\<rparr>" by (auto simp: add_memory_def split: if_splits)
  have "created_event m \<lparr>mv_memory_id = mm_id m, mv_tenant_id = mm_tenant_id m,
      mv_actor_user_id = identity_user_id (ctx_identity cx), mv_action = ''CREATE'', mv_reason_code = code\<rparr>"
    using assms(3) by (simp add: created_event_def)
  with ok fresh assms(2) show ?thesis
    by (auto simp: memory_moves_def memstore_ok_def st1 audit_memory_def)
qed

text \<open>Updates that keep a row valid.\<close>

lemma memory_row_ok_irrelevant [simp]:
  "memory_row_ok (m\<lparr>mm_last_accessed_at := a\<rparr>) = memory_row_ok m"
  "memory_row_ok (m\<lparr>mm_expires_at := x\<rparr>) = memory_row_ok m"
  "memory_row_ok (m\<lparr>mm_superseded_by_id := i\<rparr>) = memory_row_ok m"
  "memory_row_ok (m\<lparr>mm_deleted_at := d\<rparr>) = memory_row_ok m"
  by (simp_all add: memory_row_ok_def ck_memories_scope_acl_def ck_memory_acl_def ck_memory_sources_def)

lemma memory_row_ok_status:
  "memory_row_ok m \<Longrightarrow> s \<in> {''PENDING_CONFIRMATION'', ''ACTIVE'', ''SUPERSEDED'', ''EXPIRED'', ''DELETED''} \<Longrightarrow>
     memory_row_ok (m\<lparr>mm_status := s\<rparr>)"
  unfolding memory_row_ok_def ck_memories_scope_acl_def ck_memory_acl_def ck_memory_sources_def
  by (elim conjE; intro conjI; simp)

lemma memory_ok_updates:
  "memory_ok m \<Longrightarrow> memory_ok (m\<lparr>mm_last_accessed_at := a\<rparr>)"
  "memory_ok m \<Longrightarrow> memory_ok (m\<lparr>mm_expires_at := x, mm_last_accessed_at := a\<rparr>)"
  "memory_ok m \<Longrightarrow> mm_deleted_at m = None \<Longrightarrow> memory_ok (m\<lparr>mm_status := ''SUPERSEDED'', mm_superseded_by_id := i\<rparr>)"
  "memory_ok m \<Longrightarrow> mm_deleted_at m = None \<Longrightarrow> memory_ok (m\<lparr>mm_status := ''ACTIVE'', mm_expires_at := x\<rparr>)"
  "memory_ok m \<Longrightarrow> memory_ok (forgotten env m)"
  by (simp_all add: memory_ok_def memory_row_ok_status source_inherited_def [abs_def] forgotten_def)

lemma memory_ok_summary:
  "memory_ok m \<Longrightarrow> memory_row_ok (m\<lparr>mm_content := c, mm_content_hash := h, mm_expires_at := x\<rparr>) \<Longrightarrow>
     memory_ok (m\<lparr>mm_content := c, mm_content_hash := h, mm_expires_at := x\<rparr>)"
  by (simp add: memory_ok_def source_inherited_def [abs_def])

lemma same_memory_updates [simp]:
  "same_memory m (m\<lparr>mm_last_accessed_at := a\<rparr>)"
  "same_memory m (m\<lparr>mm_expires_at := x, mm_last_accessed_at := a\<rparr>)"
  "same_memory m (m\<lparr>mm_status := s, mm_superseded_by_id := i\<rparr>)"
  "same_memory m (m\<lparr>mm_status := s, mm_expires_at := x\<rparr>)"
  "same_memory m (m\<lparr>mm_content := c, mm_content_hash := h, mm_expires_at := x\<rparr>)"
  "same_memory m (forgotten env m)"
  by (simp_all add: same_memory_def forgotten_def)

subsection \<open>Every operation keeps the invariant\<close>

lemma inherited_sources:
  assumes "\<And>c. c \<in> set cs \<Longrightarrow> dk_tenant_id c = mm_tenant_id m \<and> dk_company_id c = mm_company_id m \<and>
      chunk_acl c = (mm_department m, mm_visibility m, mm_classification m)"
  shows "list_all (source_inherited m) (map source_of_chunk cs)"
  using assms by (auto simp: list_all_iff source_inherited_def source_of_chunk_def chunk_acl_def)

lemma company_matches_memb:
  "(g, k) \<in> set (company_matches scope i) \<longleftrightarrow>
     g \<in> set (grants scope) \<and> QUERY_DOCUMENTS \<in> set (capabilities g) \<and> k < length (company_ids g) \<and> company_ids g ! k = i"
  by (auto simp: company_matches_def)

lemma remdups_single: "length (remdups xs) = 1 \<Longrightarrow> x \<in> set xs \<Longrightarrow> y \<in> set xs \<Longrightarrow> x = y"
  by (metis One_nat_def length_Suc_conv length_0_conv set_remdups set_ConsD empty_iff empty_set)

text \<open>The tenant of a company is the workspace of every query grant that names the company.\<close>

lemma authorized_company_tenant:
  assumes "authorized_company cx i = Inr (tenant, name, slug)" and "g \<in> set (grants (ctx_scope cx))"
    and "QUERY_DOCUMENTS \<in> set (capabilities g)" and "i \<in> set (company_ids g)"
  shows "workspace_id g = tenant"
proof -
  let ?ms = "company_matches (ctx_scope cx) i"
  from assms(1) have one: "length (remdups (map (\<lambda>(g, k). workspace_id g) ?ms)) = 1" and ne: "?ms \<noteq> []"
    and t: "tenant = (\<lambda>(g, k). workspace_id g) (hd ?ms)"
    by (auto simp: authorized_company_def Let_def split: if_splits prod.splits)
  from assms(4) obtain k where "k < length (company_ids g)" "company_ids g ! k = i" by (auto simp: in_set_conv_nth)
  with assms(2,3) have "(g, k) \<in> set ?ms" by (simp add: company_matches_memb)
  then have "workspace_id g \<in> set (map (\<lambda>(g, k). workspace_id g) ?ms)" by force
  moreover have "tenant \<in> set (map (\<lambda>(g, k). workspace_id g) ?ms)" using t ne by (simp add: rev_image_eqI)
  ultimately show ?thesis using remdups_single [OF one] by blast
qed

lemma authorized_sources_rows:
  assumes "authorized_sources db cx i ids = Some cs" and "c \<in> set cs"
    and "authorized_company cx i = Inr (tenant, name, slug)"
  shows "dk_tenant_id c = tenant \<and> dk_company_id c = i"
proof -
  from assms(1,2) have company: "dk_company_id c = i"
    and "c \<in> jr_chunk ` set (authorized_base (ctx_scope cx) db)"
    by (auto simp: authorized_sources_def load_authorized_source_chunks_def Let_def list_ex_iff split: if_splits)
  then obtain r where "base_where (ctx_scope cx) r" "c = jr_chunk r" by (auto simp: authorized_base_iff)
  then have "authorized_chunk_clause (ctx_scope cx) c" by (simp add: base_where_def Let_def)
  then obtain g where "g \<in> set (grants (ctx_scope cx))" "grant_permits g (read_request c)"
    unfolding authorized_chunk_clause_iff by blast
  then show ?thesis using authorized_company_tenant [OF assms(3), of g] company
    by (auto simp: grant_permits_def read_request_def)
qed

lemma base_private_simps [simp]:
  "mm_id (base_private_memory env cx i t co c ty og s d r k cf im cv sm ar) = i"
  "mm_tenant_id (base_private_memory env cx i t co c ty og s d r k cf im cv sm ar) = t"
  "mm_company_id (base_private_memory env cx i t co c ty og s d r k cf im cv sm ar) = co"
  "mm_scope (base_private_memory env cx i t co c ty og s d r k cf im cv sm ar) = ''PRIVATE_USER''"
  "mm_owner_user_id (base_private_memory env cx i t co c ty og s d r k cf im cv sm ar) = Some (identity_user_id (ctx_identity cx))"
  "mm_created_by_user_id (base_private_memory env cx i t co c ty og s d r k cf im cv sm ar) = identity_user_id (ctx_identity cx)"
  "mm_status (base_private_memory env cx i t co c ty og s d r k cf im cv sm ar) = s"
  "mm_deleted_at (base_private_memory env cx i t co c ty og s d r k cf im cv sm ar) = None"
  "mm_sources (base_private_memory env cx i t co c ty og s d r k cf im cv sm ar) = []"
  by (simp_all add: base_private_memory_def)

lemma base_private_ok:
  "s \<noteq> ''DELETED'' \<Longrightarrow> memory_row_ok (base_private_memory env cx i t co c ty og s d r k cf im cv sm ar) \<Longrightarrow>
     memory_ok (base_private_memory env cx i t co c ty og s d r k cf im cv sm ar)"
  by (simp add: memory_ok_def)

lemma derive_memory_acl_Some:
  assumes "derive_memory_acl requested acls = Some acl"
  shows "(\<forall>a \<in> set acls. a = (ea_department acl, ea_visibility acl, ea_classification acl)) \<and>
    (acls = [] \<longrightarrow> ea_scope acl = ''PRIVATE_USER'') \<and> ea_scope acl = requested"
proof (cases "acls = []")
  case False
  with assms obtain d v c where r: "remdups acls = [(d, v, c)]"
    and acl: "acl = \<lparr>ea_scope = requested, ea_department = d, ea_visibility = v, ea_classification = c\<rparr>"
    by (auto simp: derive_memory_acl_def split: list.splits if_splits)
  from r have "set acls = {(d, v, c)}" by (metis set_remdups empty_set list.simps(15))
  with False show ?thesis by (simp add: acl)
qed (use assms in \<open>auto simp: derive_memory_acl_def split: if_splits\<close>)

lemma create_moves:
  assumes "create_memory env db cx content i requested ids days st = (r, st')"
  shows "memory_moves st st'"
proof (cases "st' = st")
  case False
  with assms obtain t n sl cs acl st1 where a: "authorized_company cx i = Inr (t, n, sl)"
    and cs: "authorized_sources db cx i ids = Some cs" and d: "derive_memory_acl requested (map chunk_acl cs) = Some acl"
    and add: "add_memory (manual_memory env cx t i acl content days cs) st = Inr st1"
    and st': "st' = audit_memory cx (manual_memory env cx t i acl content days cs) ''CREATE'' ''MANUAL_USER_CREATE'' st1"
    by (auto simp: create_memory_def Let_def split: if_splits sum.splits option.splits)
  let ?m = "manual_memory env cx t i acl content days cs"
  have "list_all (source_inherited ?m) (map source_of_chunk cs)"
    using authorized_sources_rows [OF cs _ a] derive_memory_acl_Some [OF d]
    by (intro inherited_sources) (simp add: manual_memory_def)
  then have "memory_ok ?m" if "memory_row_ok ?m"
    using that derive_memory_acl_Some [OF d] by (auto simp: memory_ok_def manual_memory_def)
  with add_moves [OF add, of cx] st' show ?thesis by (simp add: manual_memory_def)
qed simp

lemma episode_moves:
  assumes "create_episode env db cx i conv msg question outcome ids run st = (r, st')"
  shows "memory_moves st st'"
proof (cases "st' = st")
  case False
  with assms obtain t n sl cs acl st1 where a: "authorized_company cx i = Inr (t, n, sl)"
    and cs: "authorized_sources db cx i ids = Some cs" and d: "remdups (map chunk_acl cs) = [acl]"
    and add: "add_memory (episode_memory env cx t i conv msg run (episode_content question outcome) acl cs) st = Inr st1"
    and st': "st' = audit_memory cx (episode_memory env cx t i conv msg run (episode_content question outcome) acl cs)
      ''CREATE'' ''GROUNDED_EPISODE_CREATED'' st1"
    by (auto simp: create_episode_def Let_def split: if_splits sum.splits option.splits list.splits)
  let ?m = "episode_memory env cx t i conv msg run (episode_content question outcome) acl cs"
  from d have "set (map chunk_acl cs) = {acl}" by (metis set_remdups empty_set list.simps(15))
  then have "chunk_acl c = (fst acl, fst (snd acl), snd (snd acl))" if "c \<in> set cs" for c using that by auto
  then have "list_all (source_inherited ?m) (map source_of_chunk cs)"
    using authorized_sources_rows [OF cs _ a] by (intro inherited_sources) (simp add: episode_memory_def)
  then have "memory_ok ?m" if "memory_row_ok ?m"
    using that by (simp add: memory_ok_def episode_memory_def)
  with add_moves [OF add, of cx] st' show ?thesis by (simp add: episode_memory_def)
qed simp

lemma put_audit_moves:
  assumes "m \<in> set (mb_memories st)" "mm_deleted_at m = None" "same_memory m m1" "memory_ok m \<Longrightarrow> memory_ok m1"
  shows "memory_moves st (audit_memory cx x action code (put_memory m1 st))"
  using memory_moves_trans [OF put_moves [OF assms] audit_moves] .

lemma existing_preference_Some:
  "existing_preference cx t co key st = Some m \<Longrightarrow> m \<in> set (mb_memories st) \<and> same_preference cx t co key m"
  by (auto simp: existing_preference_def split: list.split_asm dest!: sort_key_head)

lemma refresh_moves: "m \<in> set (mb_memories st) \<Longrightarrow> mm_deleted_at m = None \<Longrightarrow> memory_moves st (refresh_preference env cx m st)"
  unfolding refresh_preference_def by (rule put_audit_moves [where m = m]) (simp_all add: memory_ok_updates)

lemma supersede_moves:
  "m \<in> set (mb_memories st) \<Longrightarrow> mm_deleted_at m = None \<Longrightarrow> memory_moves st (supersede cx (Some m) i st)"
  unfolding supersede_def option.case by (rule put_audit_moves [where m = m]) (simp_all add: memory_ok_updates)

lemma added_rows: "add_memory m st = Inr st1 \<Longrightarrow> set (mb_memories st) \<subseteq> set (mb_memories st1)"
  by (auto simp: add_memory_def split: if_splits)

lemma candidate_moves:
  assumes "apply_candidate env cx t co conv msg k c st = Inr (st', notes)"
  shows "memory_moves st st'"
proof -
  let ?old = "existing_preference cx t co (mc_normalized_key c) st"
  let ?new = "candidate_memory env cx t co conv msg k (normalize_ws (mc_content c)) c"
  have new: "memory_moves st (audit_memory cx ?new ''CREATE'' code st1)" if "add_memory ?new st = Inr st1" for st1 code
    by (rule add_moves [OF that]) (auto simp: candidate_memory_def intro!: base_private_ok)
  consider "st' = st"
    | m where "?old = Some m" "st' = refresh_preference env cx m st"
    | m st1 where "?old = Some m" "add_memory ?new st = Inr st1"
        "st' = supersede cx (Some m) (mm_id ?new) (audit_memory cx ?new ''CREATE'' ''AUTOMATIC_CANDIDATE_ACCEPTED'' st1)"
    | st1 where "add_memory ?new st = Inr st1" "st' = audit_memory cx ?new ''CREATE'' ''AUTOMATIC_CANDIDATE_ACCEPTED'' st1"
  proof (cases "candidate_skipped c (normalize_ws (mc_content c))")
    case True
    with assms that(1) show thesis by (simp add: apply_candidate_def)
  next
    case False
    show thesis
    proof (cases ?old)
      case None
      with False assms that(4) show thesis by (auto simp: apply_candidate_def Let_def bindR_Inr_iff)
    next
      case (Some m)
      with False assms that(1) that(2) [OF Some] that(3) [OF Some] show thesis
        by (cases "add_memory ?new st") (auto simp: apply_candidate_def Let_def split: if_split_asm)
    qed
  qed
  then show ?thesis
  proof cases
    case (2 m)
    with existing_preference_Some [OF 2(1)] show ?thesis by (simp add: refresh_moves same_preference_def)
  next
    case (3 m st1)
    with existing_preference_Some [OF 3(1)] added_rows [OF 3(2)]
    have "memory_moves (audit_memory cx ?new ''CREATE'' ''AUTOMATIC_CANDIDATE_ACCEPTED'' st1) st'"
      by (auto simp: same_preference_def intro!: supersede_moves)
    with new [OF 3(2)] memory_moves_trans show ?thesis by blast
  qed (use new in simp_all)
qed

lemma candidates_moves: "apply_candidates env cx t co conv msg k cs st = Inr (st', ns) \<Longrightarrow> memory_moves st st'"
proof (induction cs arbitrary: k st ns)
  case (Cons c cs)
  then obtain st1 n1 n2 where "apply_candidate env cx t co conv msg k c st = Inr (st1, n1)"
    "apply_candidates env cx t co conv msg (Suc k) cs st1 = Inr (st', n2)" by (auto simp: result_simps)
  with Cons.IH candidate_moves memory_moves_trans show ?case by blast
qed simp

lemma apply_moves: "apply_semantic_candidates env cx cs i conv msg st = (r, st') \<Longrightarrow> memory_moves st st'"
  by (auto simp: apply_semantic_candidates_def candidates_moves split: if_splits sum.splits prod.splits)

lemma summary_moves:
  assumes "upsert_conversation_summary env cx i conv text st = (r, st')" and "memstore_ok st"
  shows "memory_moves st st'"
proof (cases "st' = st")
  case False
  let ?content = "take 1000 (normalize_ws text)"
  from False assms(1) consider t st1 where "add_memory (summary_memory env cx t i conv ?content) st = Inr st1"
      "st' = audit_memory cx (summary_memory env cx t i conv ?content) ''CREATE'' ''SUMMARY_CREATED'' st1"
    | t m where "active_summaries cx t conv st = [m]"
        "memory_row_ok (m\<lparr>mm_content := ?content, mm_content_hash := me_sha256 env ?content,
           mm_expires_at := days_from (me_now env) SUMMARY_EXPIRY_DAYS\<rparr>)"
        "st' = put_memory (m\<lparr>mm_content := ?content, mm_content_hash := me_sha256 env ?content,
           mm_expires_at := days_from (me_now env) SUMMARY_EXPIRY_DAYS\<rparr>) st"
    by (auto simp: upsert_conversation_summary_def Let_def split: sum.splits prod.splits list.splits if_splits)
  then show ?thesis
  proof cases
    case (1 t st1)
    show ?thesis unfolding 1(2)
      by (rule add_moves [OF 1(1)]) (auto simp: summary_memory_def intro!: base_private_ok)
  next
    case (2 t m)
    from 2(1) have "m \<in> set (active_summaries cx t conv st)" by simp
    then have m: "m \<in> set (mb_memories st)" "mm_status m = ''ACTIVE''" by (simp_all add: active_summaries_def)
    with assms(2) have "mm_deleted_at m = None" by (auto simp: memstore_ok_def memory_ok_def)
    with m(1) 2(2) show ?thesis unfolding 2(3) by (intro put_moves [where m = m]) (simp_all only: same_memory_updates memory_ok_summary)
  qed
qed simp

lemma own_pending_Some:
  "own_pending env db cx i st = Some m \<Longrightarrow> m \<in> set (mb_memories st) \<and> mm_deleted_at m = None \<and> mm_id m = i \<and>
     visible (ctx_scope cx) db (me_now env) READABLE_STATUSES m"
  by (auto simp: own_pending_def visible_memories_iff visible_def dest!: got_visible split: option.splits if_splits)

lemma confirm_moves: "confirm_memory env db cx i st = (r, st') \<Longrightarrow> memory_moves st st'"
  by (auto simp: confirm_memory_def Let_def dest!: own_pending_Some intro!: put_audit_moves simp: memory_ok_updates
      split: option.splits)

lemma dismiss_moves: "dismiss_memory env db cx i st = (r, st') \<Longrightarrow> memory_moves st st'"
  by (auto simp: dismiss_memory_def dest!: own_pending_Some intro!: put_audit_moves simp: memory_ok_updates
      split: option.splits)

lemma delete_moves: "delete_memory env db cx i st = (r, st') \<Longrightarrow> memory_moves st st'"
  by (auto simp: delete_memory_def visible_memories_iff visible_def dest!: got_visible intro!: put_audit_moves
      simp: memory_ok_updates split: option.splits if_splits)

text \<open>Reading changes the access times only.\<close>

lemma touch_simps [simp]:
  "mm_id (touch now m) = mm_id m" "mm_deleted_at (touch now m) = mm_deleted_at m" "touch now (touch now m) = touch now m"
  "same_memory m (touch now m)" "memory_ok m \<Longrightarrow> memory_ok (touch now m)"
  by (simp_all add: touch_def memory_ok_updates)

lemma put_memory_other: "x \<in> set (mb_memories st) \<Longrightarrow> mm_id x \<noteq> mm_id m \<Longrightarrow> x \<in> set (mb_memories (put_memory m st))"
  by (force simp: put_memory_def)

lemma put_memory_self: "x \<in> set (mb_memories st) \<Longrightarrow> mm_id x = mm_id m \<Longrightarrow> m \<in> set (mb_memories (put_memory m st))"
  by (force simp: put_memory_def)

definition present :: "rat \<Rightarrow> memstore \<Rightarrow> Memory \<Rightarrow> bool" where
  "present now st m \<longleftrightarrow> mm_deleted_at m = None \<and> (m \<in> set (mb_memories st) \<or> touch now m \<in> set (mb_memories st))"

lemma present_put:
  assumes ok: "memstore_ok st" and m: "present now st m" and x: "present now st x"
  shows "present now (put_memory (touch now m) st) x"
proof -
  from m obtain m1 where m1: "m1 \<in> set (mb_memories st)" "m1 = m \<or> m1 = touch now m" by (auto simp: present_def)
  from x obtain x1 where x1: "x1 \<in> set (mb_memories st)" "x1 = x \<or> x1 = touch now x" by (auto simp: present_def)
  show ?thesis
  proof (cases "mm_id x = mm_id m")
    case True
    with m1(2) x1(2) have "mm_id x1 = mm_id m1" by auto
    with ok m1(1) x1(1) have "x1 = m1" by (auto simp: memstore_ok_def intro: key_unique)
    then have "touch now x = touch now m" using m1(2) x1(2) touch_simps(3) by metis
    moreover have "touch now m \<in> set (mb_memories (put_memory (touch now m) st))"
      using put_memory_self [OF m1(1)] m1(2) by auto
    ultimately show ?thesis using x by (simp add: present_def)
  next
    case False
    with x1 put_memory_other [OF x1(1), of "touch now m"] show ?thesis using x by (auto simp: present_def)
  qed
qed

lemma touch_moves: "\<forall>m \<in> set rows. present now st m \<Longrightarrow> memory_moves st (touch_all now rows st)"
proof (induction rows arbitrary: st)
  case (Cons m rows)
  show ?case
  proof (cases "memstore_ok st")
    case ok: True
    let ?st = "put_memory (touch now m) st"
    have "present now st m" using Cons.prems by simp
    then have head: "memory_moves st ?st" unfolding present_def
      by (elim conjE disjE) (rule put_moves [where m = m], simp_all, rule put_moves [where m = "touch now m"], simp_all)
    have "\<forall>x \<in> set rows. present now ?st x" using Cons.prems by (simp add: present_put [OF ok])
    from memory_moves_trans [OF head Cons.IH [OF this]] show ?thesis by (simp add: touch_all_def)
  qed (simp add: memory_moves_def)
qed (simp add: touch_all_def)

lemma visible_present: "m \<in> set (visible_memories scope db now ss st) \<Longrightarrow> present x st m"
  by (simp add: visible_memories_iff visible_def present_def)

lemma touch_visible_moves:
  "set rows \<subseteq> set (visible_memories scope db now ss st) \<Longrightarrow> memory_moves st (touch_all x rows st)"
  using visible_present by (intro touch_moves) blast

lemma searched_subset: "set (search_visible_memories tx db scope now q k ts st) \<subseteq> set (visible_memories scope db now [''ACTIVE''] st)"
  using searched_visible by blast

lemma dict_of_values: "set (map snd (dict_of (map (\<lambda>m. (f m, m)) xs))) \<subseteq> set xs"
proof
  fix m assume "m \<in> set (map snd (dict_of (map (\<lambda>m. (f m, m)) xs)))"
  then obtain i where "(i, m) \<in> set (dict_of (map (\<lambda>m. (f m, m)) xs))" by auto
  then have "map_of (dict_of (map (\<lambda>m. (f m, m)) xs)) i = Some m" by (simp add: map_of_is_SomeI)
  from map_of_dict_of [OF this] show "m \<in> set xs" by auto
qed

text \<open>The rows a call of \<^verbatim>\<open>retrieve_relevant\<close> reads.\<close>

definition relevant_rows :: "memory_env \<Rightarrow> docstore \<Rightarrow> AuthorizationContext \<Rightarrow> string \<Rightarrow> nat \<Rightarrow> nat \<Rightarrow> memstore \<Rightarrow> Memory list" where
  "relevant_rows env db cx query a b st =
     map snd (dict_of (map (\<lambda>m. (mm_id m, m))
       (relevant_semantic_preferences (me_search env) db (ctx_scope cx) (me_now env) query a st @
        relevant_authorized_episodes (me_search env) db (ctx_scope cx) (me_now env) query b st)))"

lemma relevant_rows_visible:
  "set (relevant_rows env db cx query a b st) \<subseteq> set (visible_memories (ctx_scope cx) db (me_now env) [''ACTIVE''] st)"
  using dict_of_values [of mm_id] searched_subset unfolding relevant_rows_def
    relevant_semantic_preferences_def relevant_authorized_episodes_def set_append by (smt (verit) Un_iff set_append subset_eq)

lemma retrieve_cases:
  assumes "retrieve_relevant env db cx query a b st = (r, st')"
  shows "(r = Inl forbidden \<and> st' = st) \<or>
    (r = Inr (map (touch (me_now env)) (relevant_rows env db cx query a b st)) \<and>
     st' = touch_all (me_now env) (relevant_rows env db cx query a b st) st)"
  using assms unfolding retrieve_relevant_def Let_def relevant_rows_def by (auto split: if_splits)

lemma retrieve_moves: "retrieve_relevant env db cx query a b st = (r, st') \<Longrightarrow> memory_moves st st'"
  using retrieve_cases touch_visible_moves [OF relevant_rows_visible] by blast

lemma latest_moves: "find_latest_episode env db cx st = (r, st') \<Longrightarrow> memory_moves st st'"
  by (auto simp: find_latest_episode_def dest!: episode_visible split: if_splits option.splits intro: touch_visible_moves)

lemma episodes_moves: "relevant_episodes env db cx query k st = (r, st') \<Longrightarrow> memory_moves st st'"
  using touch_visible_moves [OF searched_subset]
  by (auto simp: relevant_episodes_def relevant_authorized_episodes_def Let_def split: if_splits)

subsection \<open>Histories\<close>

inductive memory_step :: "memstore \<Rightarrow> memstore \<Rightarrow> bool" where
  creates: "create_memory env db cx content company requested ids days st = (r, st') \<Longrightarrow> memory_step st st'"
| proposes: "apply_semantic_candidates env cx candidates company conv msg st = (r, st') \<Longrightarrow> memory_step st st'"
| episodes: "create_episode env db cx company conv msg question outcome ids run st = (r, st') \<Longrightarrow> memory_step st st'"
| summarizes: "upsert_conversation_summary env cx company conv body st = (r, st') \<Longrightarrow> memory_step st st'"
| confirms: "confirm_memory env db cx i st = (r, st') \<Longrightarrow> memory_step st st'"
| dismisses: "dismiss_memory env db cx i st = (r, st') \<Longrightarrow> memory_step st st'"
| deletes: "delete_memory env db cx i st = (r, st') \<Longrightarrow> memory_step st st'"
| retrieves: "retrieve_relevant env db cx query a b st = (r, st') \<Longrightarrow> memory_step st st'"
| recalls: "find_latest_episode env db cx st = (r, st') \<Longrightarrow> memory_step st st'"
| reviews: "relevant_episodes env db cx query k st = (r, st') \<Longrightarrow> memory_step st st'"

lemma step_moves: "memory_step st st' \<Longrightarrow> memory_moves st st'"
proof (induction rule: memory_step.induct)
  case (summarizes env cx company conv body st r st')
  then show ?case using summary_moves [OF summarizes] by (auto simp: memory_moves_def)
qed (simp_all add: create_moves apply_moves episode_moves confirm_moves dismiss_moves delete_moves retrieve_moves
    latest_moves episodes_moves)

lemma steps_moves: "memory_step\<^sup>*\<^sup>* st st' \<Longrightarrow> memory_moves st st'"
  by (induction rule: rtranclp_induct) (auto intro: memory_moves_trans step_moves)

lemma empty_store_ok: "mb_memories st = [] \<Longrightarrow> memstore_ok st"
  by (simp add: memstore_ok_def)

lemma reachable_ok: "memory_step\<^sup>*\<^sup>* st st' \<Longrightarrow> mb_memories st = [] \<Longrightarrow> memstore_ok st'"
  using steps_moves empty_store_ok by (auto simp: memory_moves_def)

lemma forgotten_stays:
  assumes "memory_step\<^sup>*\<^sup>* st st'" and "memstore_ok st" and "m \<in> set (mb_memories st)" "mm_deleted_at m \<noteq> None"
  shows "m \<in> set (mb_memories st') \<and> (\<forall>x \<in> set (visible_memories scope db now ss st'). mm_id x \<noteq> mm_id m)"
proof -
  from steps_moves [OF assms(1)] assms(2-4) have ok: "memstore_ok st'" and m: "m \<in> set (mb_memories st')"
    by (auto simp: memory_moves_def)
  have "mm_id x \<noteq> mm_id m" if "x \<in> set (visible_memories scope db now ss st')" for x
    using that ok m assms(4) key_unique [of mm_id "mb_memories st'" x m]
    by (auto simp: visible_memories_iff visible_def memstore_ok_def)
  with m show ?thesis by blast
qed

text \<open>A dismissal or deletion that succeeds writes the forgotten row of a memory the caller owns or created.\<close>

lemma forgetting_puts:
  assumes "dismiss_memory env db cx i st = (Inr j, st1) \<or> delete_memory env db cx i st = (Inr j, st1)"
  shows "\<exists>m \<in> set (mb_memories st). mm_id m = i \<and> mm_deleted_at m = None \<and>
    identity_user_id (ctx_identity cx) \<in> {mm_created_by_user_id m} \<union> set_option (mm_owner_user_id m) \<and>
    forgotten env m \<in> set (mb_memories st1)"
proof -
  have put: "forgotten env m \<in> set (mb_memories (put_memory (forgotten env m) st))" if "m \<in> set (mb_memories st)" for m
    using that by (force simp: put_memory_def forgotten_def)
  from assms show ?thesis
  proof
    assume d: "dismiss_memory env db cx i st = (Inr j, st1)"
    then obtain m where m: "own_pending env db cx i st = Some m" by (cases "own_pending env db cx i st") (auto simp: dismiss_memory_def)
    then have "mm_owner_user_id m = Some (identity_user_id (ctx_identity cx))"
      by (auto simp: own_pending_def split: option.splits if_splits)
    with own_pending_Some [OF m] put [of m] d m show ?thesis
      by (auto simp: dismiss_memory_def intro!: bexI [of _ m])
  next
    assume d: "delete_memory env db cx i st = (Inr j, st1)"
    then obtain m where m: "get_visible_memory db (ctx_scope cx) (me_now env) i st = Some m"
      by (cases "get_visible_memory db (ctx_scope cx) (me_now env) i st") (auto simp: delete_memory_def split: if_splits)
    from got_visible [OF m] put [of m] d m show ?thesis
      by (auto simp: delete_memory_def visible_memories_iff visible_def intro!: bexI [of _ m] split: if_splits)
  qed
qed

subsection \<open>The memory tool\<close>

definition tool_rows :: "memory_env \<Rightarrow> docstore \<Rightarrow> AuthorizationContext \<Rightarrow> string \<Rightarrow> MemoryMode \<Rightarrow> nat \<Rightarrow> memstore \<Rightarrow> Memory list" where
  "tool_rows env db cx query mode k st =
     (case mode of
        latest_episode \<Rightarrow> (case most_recent_authorized_episode db (ctx_scope cx) (me_now env) st of None \<Rightarrow> [] | Some m \<Rightarrow> [m])
      | relevant \<Rightarrow> take k (relevant_rows env db cx query k k st))"

lemma tool_rows_visible:
  "m \<in> set (tool_rows env db cx query mode k st) \<Longrightarrow> m \<in> set (visible_memories (ctx_scope cx) db (me_now env) [''ACTIVE''] st)"
  by (cases mode; cases "most_recent_authorized_episode db (ctx_scope cx) (me_now env) st")
    (auto simp: tool_rows_def dest!: in_set_takeD dest: subsetD [OF relevant_rows_visible] episode_visible)

lemma memory_rows_tool:
  assumes "can_query (ctx_scope cx)"
  shows "fst (memory_rows env db cx query mode k st) = Inr (map (touch (me_now env)) (tool_rows env db cx query mode k st))"
proof (cases mode)
  case relevant
  obtain r st' where r: "retrieve_relevant env db cx query k k st = (r, st')" by (cases "retrieve_relevant env db cx query k k st")
  with assms have "r \<noteq> Inl forbidden" by (auto simp: retrieve_relevant_def Let_def)
  with retrieve_cases [OF r] r relevant show ?thesis by (simp add: memory_rows_def tool_rows_def take_map)
next
  case latest_episode
  with assms show ?thesis by (simp add: memory_rows_def tool_rows_def find_latest_episode_def split: option.splits)
qed

lemma tool_item_touch [simp]: "memory_tool_item (touch now m) = memory_tool_item m"
  by (simp add: memory_tool_item_def touch_def)

lemma search_tool_outcome:
  assumes "can_query scope"
  shows "fst (search_memory_adapter_invoke env (SearchMemoryInput query mode k) scope rid (db, st, x)) =
    memory_payload (map (touch (me_now env))
      (tool_rows env db \<lparr>ctx_identity = scope_identity scope, ctx_scope = scope\<rparr> query mode (nat k) st))"
proof -
  let ?cx = "\<lparr>ctx_identity = scope_identity scope, ctx_scope = scope\<rparr>"
  obtain r st' where r: "memory_rows env db ?cx query mode (nat k) st = (r, st')" by (cases "memory_rows env db ?cx query mode (nat k) st")
  have "fst (memory_rows env db ?cx query mode (nat k) st) =
      Inr (map (touch (me_now env)) (tool_rows env db ?cx query mode (nat k) st))"
    by (rule memory_rows_tool) (simp add: assms)
  with r assms show ?thesis by (simp add: search_memory_adapter_invoke_def)
qed

text \<open>The scopes of the item model and of the memory table have one text in common.\<close>

lemma tool_item_scope:
  "memory_item_ok (memory_tool_item m) \<Longrightarrow> ck_memories_scope_acl m \<Longrightarrow> mm_scope m = ''PRIVATE_USER''"
  by (auto simp: memory_item_ok_def memory_tool_item_def ck_memories_scope_acl_def)

lemma recallable_scope: "recallable scope db now m \<Longrightarrow> ck_memories_scope_acl m"
  by (auto simp: recallable_def may_recall_def memory_scope_ok_def ck_memories_scope_acl_def)

lemma recallable_private:
  "recallable scope db now m \<Longrightarrow> mm_scope m = ''PRIVATE_USER'' \<Longrightarrow> mm_owner_user_id m = Some (identity_user_id (scope_identity scope))"
  by (auto simp: recallable_def may_recall_def memory_scope_ok_def)

subsection \<open>An example\<close>

text \<open>One chunk of the search example, and a caller whose grant also has the shared department.\<close>

definition memory_docs :: docstore where
  "memory_docs = example_docstore\<lparr>ds_companies := take 1 (ds_companies example_docstore), ds_documents := [example_document 20 10],
     ds_versions := [example_version 20], ds_chunks := [example_chunk 32 20 10 ''net debt'']\<rparr>"

definition memory_scope :: AuthorizationScope where
  "memory_scope = example_scope\<lparr>grants := map (\<lambda>g. g\<lparr>departments := departments g @
     [\<lparr>dept_key = ''shared'', dept_source = SRC_TENANT_SHARED\<rparr>]\<rparr>) (grants example_scope)\<rparr>"

definition memory_caller :: AuthorizationContext where
  "memory_caller = \<lparr>ctx_identity = scope_identity memory_scope, ctx_scope = memory_scope\<rparr>"

definition memory_env_at :: "rat \<Rightarrow> nat \<Rightarrow> memory_env" where
  "memory_env_at now first =
     \<lparr>me_now = now, me_new_id = (\<lambda>k. first + k), me_sha256 = (\<lambda>s. take 64 (s @ replicate 64 CHR ''x'')),
      me_search = \<lparr>tx_rank = (\<lambda>q c. 1), tx_matches = (\<lambda>q c. True)\<rparr>, me_uuid_text = str_nat,
      me_semantic_expiry_days = 90, me_episodic_expiry_days = 30\<rparr>"

definition no_memories :: memstore where
  "no_memories = \<lparr>mb_memories = [], mb_events = [], mb_titles = []\<rparr>"

definition made :: memstore where
  "made = snd (create_memory (memory_env_at 0 100) memory_docs memory_caller ''Debt'' 10 ''FINANCE'' [32] 30 no_memories)"

definition one_forgotten :: memstore where
  "one_forgotten = snd (delete_memory (memory_env_at 2 0) memory_docs memory_caller 100 made)"

definition statuses_of :: "memstore \<Rightarrow> (uuid \<times> string \<times> string \<times> nat) list" where
  "statuses_of st = map (\<lambda>m. (mm_id m, mm_scope m, mm_status m, length (mm_sources m))) (mb_memories st)"

lemma example_statuses: "statuses_of one_forgotten = [(100, ''FINANCE'', ''DELETED'', 1)]"
  by code_simp

lemma made_steps: "memory_step\<^sup>*\<^sup>* no_memories made"
  unfolding made_def by (rule r_into_rtranclp, rule memory_step.creates [OF prod.collapse [symmetric]])

definition deleted_id :: "uuid option" where
  "deleted_id = (case fst (delete_memory (memory_env_at 2 0) memory_docs memory_caller 100 made) of Inr i \<Rightarrow> Some i | Inl _ \<Rightarrow> None)"

lemma example_deletes: "delete_memory (memory_env_at 2 0) memory_docs memory_caller 100 made = (Inr 100, one_forgotten)"
proof -
  have "deleted_id = Some 100" by code_simp
  then show ?thesis unfolding deleted_id_def one_forgotten_def
    by (cases "delete_memory (memory_env_at 2 0) memory_docs memory_caller 100 made") (auto split: sum.splits)
qed

lemma example_steps: "memory_step\<^sup>*\<^sup>* no_memories one_forgotten"
proof -
  have "memory_step made one_forgotten" using example_deletes by (rule memory_step.deletes)
  with made_steps show ?thesis by (rule rtranclp.rtrancl_into_rtrancl)
qed

text \<open>An explicit preference, then an inferred one for the same key, which the owner dismisses.\<close>

definition kept_row :: Memory where
  "kept_row = candidate_memory (memory_env_at 0 100) memory_caller 1 10 7 8 0 ''Use wide tables.''
     (concise_candidate\<lparr>mc_explicit := True\<rparr>)"

definition inferred_made :: memstore where
  "inferred_made = snd (apply_semantic_candidates (memory_env_at 1 101) memory_caller [concise_candidate] 10 7 9
     (no_memories\<lparr>mb_memories := [kept_row]\<rparr>))"

definition inference_dismissed :: memstore where
  "inference_dismissed = snd (dismiss_memory (memory_env_at 2 0) memory_docs memory_caller 101 inferred_made)"

lemma inferred_preference_lost:
  "memory_row_ok kept_row \<and> mm_status kept_row = ''ACTIVE'' \<and>
   statuses_of inference_dismissed = [(100, ''PRIVATE_USER'', ''SUPERSEDED'', 0), (101, ''PRIVATE_USER'', ''DELETED'', 0)]"
  by code_simp

text \<open>A store with a private memory and one with a finance memory, both of the same chunk.\<close>

definition row_of :: "uuid \<Rightarrow> string \<Rightarrow> Memory" where
  "row_of i requested = manual_memory (memory_env_at 0 i) memory_caller 1 10
     \<lparr>ea_scope = requested, ea_department = ''finance'', ea_visibility = ''DEPARTMENT_PRIVATE'', ea_classification = ''FINANCE_ONLY''\<rparr>
     ''Debt'' 30 [example_chunk 32 20 10 ''net debt'']"

definition private_store :: memstore where
  "private_store = no_memories\<lparr>mb_memories := [row_of 100 ''PRIVATE_USER'']\<rparr>"

definition finance_store :: memstore where
  "finance_store = no_memories\<lparr>mb_memories := [row_of 101 ''FINANCE'']\<rparr>"

definition tool_call :: "memstore \<Rightarrow> InvokeOutcome" where
  "tool_call st = fst (search_memory_adapter_invoke (memory_env_at 2 0) (SearchMemoryInput ''debt'' relevant 3) memory_scope ''r''
     (memory_docs, st, ()))"

definition tool_seen :: "InvokeOutcome \<Rightarrow> (uuid \<times> string) list option" where
  "tool_seen out = (case out of
     Returned (RawData (MemorySearchPayload items)) \<Rightarrow> Some (map (\<lambda>i. (MemoryToolItem.mi_memory_id i, MemoryToolItem.mi_scope i)) items) | _ \<Rightarrow> None)"

lemma example_tool: "tool_seen (tool_call private_store) = Some [(100, ''PRIVATE_USER'')]"
  by code_simp

subsection \<open>Properties\<close>

text \<open>C37: Every statement of the memory repository returns only rows of the store that the caller may recall: the
  policy allows the tenant, company and department of the memory, a private memory belongs to the caller, it is
  neither deleted nor expired, and each of its sources is a chunk of the authorized statement, readable by the policy,
  of the memory's tenant, company and department.\<close>

theorem memory_reads_authorized:
  assumes "m \<in> set (list_visible_memories db scope now cs ts ss limit st) \<or>
    m \<in> set (search_visible_memories tx db scope now query k ts' st) \<or>
    most_recent_authorized_episode db scope now st = Some m \<or>
    m \<in> set (owned_conversation_summary db scope now conversation st) \<or>
    get_visible_memory db scope now i st = Some m"
  shows "m \<in> set (mb_memories st) \<and> recallable scope db now m"
  using assms
  by (elim disjE) (auto dest!: listed_visible searched_visible episode_visible summary_visible got_visible
      simp: visible_memories_iff intro: visible_recallable)

theorem memory_reads_authorized_witness:
  "\<exists>m. get_visible_memory memory_docs memory_scope 2 101 finance_store = Some m \<and> mm_scope m = ''FINANCE'' \<and>
     m \<in> set (mb_memories finance_store) \<and> recallable memory_scope memory_docs 2 m"
proof -
  have "map_option mm_scope (get_visible_memory memory_docs memory_scope 2 101 finance_store) = Some ''FINANCE''"
    by code_simp
  then obtain m where m: "get_visible_memory memory_docs memory_scope 2 101 finance_store = Some m" "mm_scope m = ''FINANCE''"
    by blast
  with memory_reads_authorized [where m = m and db = memory_docs and scope = memory_scope and now = 2 and st = finance_store and i = 101] m
  show ?thesis by blast
qed

text \<open>C38: In every history from empty tables, each memory has exactly the tenant, company, department, visibility and
  classification of all its sources, a memory without sources is private, a private memory belongs to its creator,
  identifiers are unique, every row satisfies the constraints of its table and has the audit event of its creation.\<close>

theorem memory_acl_inherited:
  assumes "memory_step\<^sup>*\<^sup>* st0 st" and "mb_memories st0 = []"
  shows "memstore_ok st"
  using assms by (rule reachable_ok)

theorem memory_acl_inherited_witness:
  "memstore_ok one_forgotten \<and> length (mb_memories one_forgotten) = 1"
proof -
  have "memstore_ok one_forgotten"
    by (rule memory_acl_inherited [OF example_steps]) (simp add: no_memories_def)
  with arg_cong [OF example_statuses, of length] show ?thesis by (simp add: statuses_of_def)
qed

text \<open>C39: Forgetting is final.  When a dismissal or a deletion succeeds, in any reachable store, the memory belonged to
  the caller, who owns or created it; after any further history its one row is the old row with the status
  \<open>DELETED\<close> and the deletion time of the operation, and no caller, at any time and for any documents and statuses,
  is shown a memory with its identifier.\<close>

theorem forgotten_is_final:
  assumes "memory_step\<^sup>*\<^sup>* st0 st" and "mb_memories st0 = []"
    and "dismiss_memory env docs cx i st = (Inr j, st1) \<or> delete_memory env docs cx i st = (Inr j, st1)"
    and "memory_step\<^sup>*\<^sup>* st1 st'"
  shows "\<exists>m \<in> set (mb_memories st). mm_id m = i \<and> mm_deleted_at m = None \<and>
    identity_user_id (ctx_identity cx) \<in> {mm_created_by_user_id m} \<union> set_option (mm_owner_user_id m) \<and>
    filter (\<lambda>x. mm_id x = i) (mb_memories st') =
      [m\<lparr>mm_status := ''DELETED'', mm_deleted_at := Some (me_now env)\<rparr>] \<and>
    (\<forall>scope db now ss. \<forall>x \<in> set (visible_memories scope db now ss st'). mm_id x \<noteq> i)"
proof -
  from assms(3) obtain m where m: "m \<in> set (mb_memories st)" "mm_id m = i" "mm_deleted_at m = None"
    "identity_user_id (ctx_identity cx) \<in> {mm_created_by_user_id m} \<union> set_option (mm_owner_user_id m)"
    "forgotten env m \<in> set (mb_memories st1)" using forgetting_puts by blast
  have "memory_step st st1" using assms(3) memory_step.dismisses memory_step.deletes by blast
  with assms(1) have ok: "memstore_ok st1" using reachable_ok [OF _ assms(2)] by (meson rtranclp.rtrancl_into_rtrancl)
  have f: "mm_id (forgotten env m) = i" "mm_deleted_at (forgotten env m) \<noteq> None" using m(2) by (simp_all add: forgotten_def)
  from forgotten_stays [OF assms(4) ok m(5) f(2)] f(1) have row: "forgotten env m \<in> set (mb_memories st')"
    and unseen: "\<forall>x \<in> set (visible_memories scope db now ss st'). mm_id x \<noteq> i" for scope db now ss by auto
  from steps_moves [OF assms(4)] ok have "distinct (map mm_id (mb_memories st'))" by (simp add: memory_moves_def memstore_ok_def)
  from key_filter_single [OF this row] f(1) have "filter (\<lambda>x. mm_id x = i) (mb_memories st') = [forgotten env m]" by simp
  with m(1-4) unseen show ?thesis unfolding forgotten_def by blast
qed

theorem forgotten_is_final_witness:
  "\<exists>m. filter (\<lambda>x. mm_id x = 100) (mb_memories one_forgotten) = [m] \<and> mm_status m = ''DELETED'' \<and>
     mm_deleted_at m = Some 2 \<and>
     \<not> list_ex (\<lambda>x. mm_id x = 100) (visible_memories memory_scope memory_docs 2 READABLE_STATUSES one_forgotten)"
proof -
  have "mb_memories no_memories = []" by (simp add: no_memories_def)
  from forgotten_is_final [OF made_steps this disjI2 [OF example_deletes] rtranclp.rtrancl_refl] show ?thesis
    by (auto simp: list_ex_iff memory_env_at_def)
qed

text \<open>C40: The memory search tool only ever answers with private memories of the caller.  It fails as soon as one of
  the selected rows is a memory of a department or of the company, since the scopes its item model accepts and the
  scopes of the memory table share the private one only; the items of an answer are the selected rows.\<close>

theorem memory_tool_private_only:
  assumes "can_query scope"
    and "rows = tool_rows env db \<lparr>ctx_identity = scope_identity scope, ctx_scope = scope\<rparr> query mode (nat k) st"
    and "out = fst (search_memory_adapter_invoke env (SearchMemoryInput query mode k) scope rid (db, st, x))"
  shows "(list_ex (\<lambda>m. mm_scope m \<noteq> ''PRIVATE_USER'') rows \<longrightarrow> out = RaisedOther) \<and>
    (out \<noteq> RaisedOther \<longrightarrow> out = Returned (RawData (MemorySearchPayload (map memory_tool_item rows))) \<and>
      (\<forall>m \<in> set rows. m \<in> set (mb_memories st) \<and> recallable scope db (me_now env) m \<and>
         mm_owner_user_id m = Some (identity_user_id (scope_identity scope))))"
proof -
  have rows: "m \<in> set (mb_memories st) \<and> recallable scope db (me_now env) m" if "m \<in> set rows" for m
    using tool_rows_visible [of m env db "\<lparr>ctx_identity = scope_identity scope, ctx_scope = scope\<rparr>" query mode "nat k" st]
      that visible_recallable by (auto simp: assms(2) visible_memories_iff)
  have "map memory_tool_item (map (touch (me_now env)) rows) = map memory_tool_item rows" by simp
  with assms have out: "out = (if list_all memory_item_ok (map memory_tool_item rows) \<and> length rows \<le> 5
      then Returned (RawData (MemorySearchPayload (map memory_tool_item rows))) else RaisedOther)"
    by (simp only: search_tool_outcome memory_payload_def Let_def length_map)
  have priv: "mm_scope m = ''PRIVATE_USER''" if "m \<in> set rows" "list_all memory_item_ok (map memory_tool_item rows)" for m
    using that rows [OF that(1)] tool_item_scope recallable_scope by (auto simp: list_all_iff)
  have owned: "mm_owner_user_id m = Some (identity_user_id (scope_identity scope))"
    if "m \<in> set rows" "list_all memory_item_ok (map memory_tool_item rows)" for m
    using recallable_private [OF conjunct2 [OF rows [OF that(1)]] priv [OF that]] .
  show ?thesis using rows priv owned by (auto simp: out list_ex_iff)
qed

theorem memory_tool_private_only_witness:
  "tool_call finance_store = RaisedOther \<and> tool_call private_store \<noteq> RaisedOther"
proof -
  have c: "can_query memory_scope" by code_simp
  have "list_ex (\<lambda>m. mm_scope m \<noteq> ''PRIVATE_USER'') (tool_rows (memory_env_at 2 0) memory_docs
      \<lparr>ctx_identity = scope_identity memory_scope, ctx_scope = memory_scope\<rparr> ''debt'' relevant (nat 3) finance_store)"
    by code_simp
  with memory_tool_private_only [OF c refl refl, of "memory_env_at 2 0" memory_docs "''debt''" relevant 3 finance_store "''r''" "()"]
  have "tool_call finance_store = RaisedOther" by (simp add: tool_call_def)
  moreover have "tool_call private_store \<noteq> RaisedOther" using example_tool by (auto simp: tool_seen_def)
  ultimately show ?thesis ..
qed

end
