(* ===== verification/Spec2Isabelle.thy ===== *)
theory Spec2Isabelle
  imports Policy Status_Machines Calculations Run_Properties Chunking Model_Routing Run_History Run_Service Approval_Flow Library_Life Calculation_Inputs Memory_Life
begin

text \<open>
  Verification of the secure portfolio copilot backend, the Python code under \<^verbatim>\<open>src/backend/app\<close>; the paths below are
  relative to that directory.

  The program.  Users of several workspaces (tenants) ask questions about the documents of portfolio companies.  A
  request arrives with an authorization scope, the list of the user's grants.  An agent answers it: a model proposes
  a plan and the next action, a host-owned loop checks every action, pauses for the user's approval where one is
  needed, and executes the action through a tool gateway; answers are validated against the evidence the tools
  returned.  Administrators upload documents, which are validated, stored, parsed, chunked, embedded and, once
  approved, searchable.  Memories are derived from conversations and documents and inherit their restrictions.

  Theories and the code they model.

  \<^item> Prelude: the result type, dictionaries, lists and strings of Python that the components share
  \<^item> Patterns, Python_Re: the regular expressions of the contracts; a matcher for those of the routers
  \<^item> Policy: \<^verbatim>\<open>policies/models.py\<close>, \<^verbatim>\<open>policies/engine.py\<close>: grants, scope, \<^verbatim>\<open>authorize\<close>
  \<^item> Status_Machines: \<^verbatim>\<open>agent/run_state.py\<close>, \<^verbatim>\<open>ingestion/state_machine.py\<close>
  \<^item> Decimal28, Calculations: the 28-digit decimal context; \<^verbatim>\<open>calculations/contracts.py\<close> and \<^verbatim>\<open>engine.py\<close>
  \<^item> Calculation_Inputs: \<^verbatim>\<open>calculations/repository.py\<close>, and the calculation tools of \<^verbatim>\<open>mcp_gateway/adapters.py\<close>
  \<^item> Gateway_Contracts: \<^verbatim>\<open>mcp_gateway/contracts.py\<close>: tool inputs, evidence, observations
  \<^item> Gateway: \<^verbatim>\<open>mcp_gateway/gateway.py\<close>: the manifest, the constructor, the catalogs, \<^verbatim>\<open>execute\<close>
  \<^item> Gateway_Adapter: \<^verbatim>\<open>mcp_gateway/server.py\<close>, \<^verbatim>\<open>agent/gateway_adapter.py\<close>: the per-request server, evidence numbers
  \<^item> Agent_Models, Plan_State: \<^verbatim>\<open>agent/models.py\<close>, \<^verbatim>\<open>agent/plan_state.py\<close>: plans, actions, decisions, outcomes
  \<^item> Grounding: \<^verbatim>\<open>chat/service.py\<close>: the validation of an answer against its evidence
  \<^item> Agent_Loop: \<^verbatim>\<open>agent/loop.py\<close>, \<^verbatim>\<open>agent/approval_security.py\<close>: \<^verbatim>\<open>AgentLoop.run\<close> with every early return
  \<^item> Loop_Safety, Run_Properties: the invariants of the loop and the properties of a whole run
  \<^item> Model_Routing: \<^verbatim>\<open>model_routing/policy.py\<close>, \<^verbatim>\<open>chat/router.py\<close>, \<^verbatim>\<open>chat/intent.py\<close>, \<^verbatim>\<open>chat/scope_guard.py\<close>
  \<^item> Run_History: \<^verbatim>\<open>models/agent_runs.py\<close>, \<^verbatim>\<open>agent/history_repository.py\<close>, \<^verbatim>\<open>agent/approval_repository.py\<close>
  \<^item> Run_Service: \<^verbatim>\<open>agent/service.py\<close> with \<^verbatim>\<open>chat/repository.py\<close>: admission, the run, exceptions, the commit
  \<^item> Approval_Flow: \<^verbatim>\<open>agent/approval_service.py\<close>, and the histories of runs and approvals
  \<^item> Chunking: \<^verbatim>\<open>chunking/service.py\<close> for PDF text and spreadsheets
  \<^item> Document_Store: \<^verbatim>\<open>models/documents.py\<close>, and the authorized source statement of \<^verbatim>\<open>retrieval/repository.py\<close>
  \<^item> Retrieval: \<^verbatim>\<open>retrieval/repository.py\<close>, \<^verbatim>\<open>retrieval/service.py\<close>, the document tools of \<^verbatim>\<open>mcp_gateway/adapters.py\<close>
  \<^item> Indexing: \<^verbatim>\<open>retrieval/indexing.py\<close>: chunks and embeddings of an approved version
  \<^item> File_Validation: \<^verbatim>\<open>ingestion/validation.py\<close>
  \<^item> Ingestion_Service: \<^verbatim>\<open>ingestion/service.py\<close>, \<^verbatim>\<open>ingestion/repository.py\<close>: upload, review, deletion, reads
  \<^item> Document_Library, Library_Life: the invariant of the document tables and its histories
  \<^item> Memory_Store: \<^verbatim>\<open>models/memory.py\<close>, \<^verbatim>\<open>memory/repository.py\<close>: rows, inherited access rules, visibility
  \<^item> Memory_Service, Memory_Life: \<^verbatim>\<open>memory/service.py\<close>, \<^verbatim>\<open>memory/extractor.py\<close>, \<^verbatim>\<open>memory/summarizer.py\<close>, the memory tools, and their histories

  How state and operations correspond.  A pydantic model or table row is a record and its validators or constraints
  are a predicate with the suffix \<^verbatim>\<open>_ok\<close>; a constructor that validates is a function with the prefix \<^verbatim>\<open>mk_\<close>.  An
  operation is one function in the order of the code, with a branch for every early return and every exception; an
  exception is a value on the left of a sum, and one that nobody handles has a constructor of its own, so an
  escaping exception is a result like any other.  The database is an explicit store, a list of rows per table; an
  operation takes the committed store and returns the store committed when it ends, which after a rollback is that of
  the last commit.  What is not code of the program is an argument: the language models, the embedding provider,
  parsers and object storage (each acting on a world of its own), clocks, new identifiers, digests, the ranking
  functions of PostgreSQL, the JSON schemas of pydantic and the coordinate parser of openpyxl.

  Interfaces.  A locale states what a client relies on, and an interpretation proves it for the code's definitions.
  \<^verbatim>\<open>grant_policy\<close> (a scope decides as the disjunction of its grants) holds of the policy engine, of the SQL clause of
  the retrieval, of the capability check of the gateway and of the SQL clause of the memories.  \<^verbatim>\<open>status_machine\<close> holds
  of the table of runs and its extension \<^verbatim>\<open>acyclic_status_machine\<close> of the table of document versions.  \<^verbatim>\<open>text_splitter\<close> is what the chunker needs of
  \<^verbatim>\<open>bounded_text\<close>; \<^verbatim>\<open>tool_executor\<close> is the numbering the gateway adapter promises the loop; \<^verbatim>\<open>logged_env\<close> is an
  environment whose log of executions the loop invariants speak about, interpreted on every environment observed
  from outside; \<^verbatim>\<open>document_tool\<close> is what the two document tools promise the gateway.

  What the lemmas show.

  \<^item> Access: the engine allows what a single grant permits, and nothing of another workspace matters (Policy); the SQL
    clauses of documents and memories select what the engine allows (Document_Store, Retrieval, Memory_Store); search
    results, tool evidence, calculation inputs and recalled memories are readable by the caller in every reachable
    store (Retrieval, Library_Life, Calculation_Inputs, Memory_Life).
  \<^item> Control: only permitted, validated calls reach an adapter, in a bounded number (Gateway); no action is executed
    twice (Plan_State); an action that needs an approval is executed at most once for each consumed approval
    (Run_Properties, Approval_Flow); a resolved approval and a terminal status are final (Approval_Flow,
    Status_Machines); a request ends its run or leaves it waiting (Run_Service).
  \<^item> Data: the history of a run only grows and is replayed idempotently (Run_History); accepted files are bounded
    (File_Validation); chunks are bounded, carry their document's restrictions, and keep all the text of a PDF
    (Chunking); deletion and forgetting are final (Library_Life, Memory_Life); memories keep the restrictions of their sources (Memory_Life).
  \<^item> Results: answers cite given evidence only and fail with the code of their first defect (Grounding); calculations
    are accurate within a stated bound and fail exactly when they must (Calculations).

  Bounds and termination.  There is no fuel.  Every loop of the code is structural recursion or a \<^verbatim>\<open>function\<close> with a
  measure; the agent loop recurses on the number of remaining steps, which the code bounds by \<^verbatim>\<open>max_steps\<close>, and the
  retry loop of the gateway on the retries left.  Limits such as \<^verbatim>\<open>DEFAULT_LIMITS\<close> are arguments with the default as a
  constant, so that the theorems hold for all values.

  Conventions and their limits.  A \<^verbatim>\<open>char\<close> is a code point below 256; the few characters of the code above it are
  arguments (the ellipsis of a shortened title) or stand-ins that are named where they occur (an apostrophe in an
  answer of the loop, a dash in a label of the upload form).  UUIDs are numbers with an argument that prints them.
  Decimals are rationals with the rounding of the decimal context written out; floats (scores, clocks, similarity
  ratios) are exact rationals.  Integers of the code are unbounded, and the 32 bits of an integer column are not
  modelled.  Operations of different requests do not interleave inside one operation: the row locks the code takes
  are assumed to have that effect, and a history is any sequence of whole operations.  Where a query leaves the order
  of equal rows open the order of the table is taken; texts are ordered by code point.

  Not modelled.  The HTTP routes and the application start, request parsing and wiring around the services.
  Authentication and the SQL that builds a scope, which is the input of the model.  The streaming of answers outside
  the agent, of which only the grounding is modelled.  The clients, prompts and schemas of the model providers and
  the scripted providers of the tests, whose replies are arguments.  The parsers, the object storage and the worker
  process, calls of third-party libraries which the ingestion service takes as arguments.  The reindexing command,
  the evaluation runner and the read service of the run history, which call modelled functions or only read.
  Configuration, database engine and middleware, scripts, migrations and the frontend.
\<close>

end
